(* ===== verification/Prelude.thy ===== *)
theory Prelude
  imports Main
begin

text \<open>
  Shared vocabulary of the development: the values, strings, times and results that every
  component theory uses, with the lemmas and collections that carry the component proofs.

  \<^item> Python strings are \<open>string\<close>, sequences of code points below 256. \<open>is_space\<close> and \<open>strip\<close>
    follow \<open>str.isspace\<close> and \<open>str.strip\<close> on that range.
  \<^item> JSON-like Python values (payloads, error details, cached values) are \<open>pyval\<close>.
  \<^item> A raised exception is a value of \<open>exn\<close>; a fallible operation returns \<open>'a result\<close>, a sum
    with \<open>Inl\<close> for the exception.
  \<^item> A \<open>datetime\<close> is naive or carries an offset; \<open>to_utc\<close> is the coercion every component
    applies before it compares, and instants are integers, in microseconds.
\<close>

named_theorems spec_defs \<open>definitions of the operations of a component\<close>

section \<open>Strings\<close>

definition is_space :: "char \<Rightarrow> bool" where
  "is_space c \<longleftrightarrow> c \<in> {CHR 0x09, CHR 0x0A, CHR 0x0B, CHR 0x0C, CHR 0x0D,
     CHR 0x1C, CHR 0x1D, CHR 0x1E, CHR 0x1F, CHR 0x20, CHR 0x85, CHR 0xA0}"

definition strip :: "string \<Rightarrow> string" where
  "strip s = rev (dropWhile is_space (rev (dropWhile is_space s)))"

text \<open>\<open>blank s\<close> is the test \<open>not s.strip()\<close> that guards nearly every operation.\<close>

definition blank :: "string \<Rightarrow> bool" where
  "blank s \<longleftrightarrow> strip s = []"

lemma strip_eq_Nil: "strip s = [] \<longleftrightarrow> (\<forall>c \<in> set s. is_space c)"
  unfolding strip_def rev_is_Nil_conv dropWhile_eq_Nil_conv set_rev
  by (induction s) auto

lemma blank_iff [code]: "blank s \<longleftrightarrow> list_all is_space s"
  by (simp add: blank_def strip_eq_Nil list_all_iff)

lemma blank_Nil [simp]: "blank []"
  by (simp add: blank_iff)

lemma blank_Cons [simp]: "blank (c # s) \<longleftrightarrow> is_space c \<and> blank s"
  by (simp add: blank_iff)

lemma blank_append [simp]: "blank (s @ t) \<longleftrightarrow> blank s \<and> blank t"
  by (simp add: blank_iff)

lemma strip_not_blank: "\<not> blank s \<Longrightarrow> strip s \<noteq> []"
  by (simp add: blank_def)

lemma dropWhile_idem: "dropWhile P (dropWhile P xs) = dropWhile P xs"
  by (induction xs) auto

lemma strip_strip [simp]: "strip (strip s) = strip s"
proof -
  let ?d = "dropWhile is_space"
  define t where "t = rev (?d (rev (?d s)))"
  have hd: "t = [] \<or> \<not> is_space (hd t)"
  proof (cases "t = []")
    case False
    obtain u where "?d s = t @ u" unfolding t_def by (metis append_Nil2 rev_append rev_rev_ident takeWhile_dropWhile_id)
    then have "hd t = hd (?d s)" and "?d s \<noteq> []" using False by auto
    then show ?thesis using hd_dropWhile [of is_space s] by (metis dropWhile_eq_Nil_conv)
  qed simp
  then have "?d t = t" by (cases t) auto
  moreover have "?d (rev t) = rev t" unfolding t_def by (simp add: dropWhile_idem)
  ultimately show ?thesis unfolding strip_def t_def [symmetric] by simp
qed

lemma set_strip: "set (strip s) \<subseteq> set s"
  unfolding strip_def by (auto dest!: set_dropWhileD)

lemma blank_strip [simp]: "blank (strip s) = blank s"
  by (simp add: blank_def)

text \<open>The string method \<open>sep.join(parts)\<close>.\<close>

fun join :: "string \<Rightarrow> string list \<Rightarrow> string" where
  "join sep [] = []"
| "join sep [p] = p"
| "join sep (p # q # ps) = p @ sep @ join sep (q # ps)"

lemma join_Cons: "ps \<noteq> [] \<Longrightarrow> join sep (p # ps) = p @ sep @ join sep ps"
  by (cases ps) simp_all

text \<open>
  Joining segments that do not hold the separator loses nothing: the segments can be read
  back, so two key tuples with the same joined key are the same tuple.
\<close>

lemma append_sep_inj:
  assumes "c \<notin> set p" and "c \<notin> set q" and "p @ c # s = q @ c # t"
  shows "p = q \<and> s = t"
  using assms
proof (induction p arbitrary: q)
  case Nil
  then show ?case by (cases q) auto
next
  case (Cons x p)
  then show ?case by (cases q) auto
qed

lemma join_inj:
  assumes "\<forall>p \<in> set ps. c \<notin> set p" and "\<forall>q \<in> set qs. c \<notin> set q"
    and "ps \<noteq> []" and "qs \<noteq> []" and "join [c] ps = join [c] qs"
  shows "ps = qs"
  using assms
proof (induction ps arbitrary: qs)
  case Nil
  then show ?case by simp
next
  case (Cons p ps)
  obtain q qs' where qs: "qs = q # qs'" using Cons.prems(4) by (cases qs) auto
  have sepfree: "c \<notin> set p" "c \<notin> set q" using Cons.prems qs by auto
  show ?case
  proof (cases "ps = []")
    case True
    then have "qs' = []" using Cons.prems(5) sepfree qs
      by (cases qs') (auto simp: join_Cons)
    then show ?thesis using Cons.prems(5) qs True by simp
  next
    case False
    have ne: "qs' \<noteq> []"
      using Cons.prems(5) sepfree qs False by (cases qs') (auto simp: join_Cons)
    have "p @ c # join [c] ps = q @ c # join [c] qs'"
      using Cons.prems(5) qs False ne by (simp add: join_Cons)
    then have "p = q" and "join [c] ps = join [c] qs'"
      using append_sep_inj [OF sepfree] by blast+
    with Cons.IH [of qs'] Cons.prems qs False ne show ?thesis by auto
  qed
qed

text \<open>Decimal rendering of an integer, as \<open>str(n)\<close> and f-strings do.\<close>

definition digit :: "nat \<Rightarrow> char" where
  "digit n = char_of (48 + n)"

fun nat_str :: "nat \<Rightarrow> string" where
  "nat_str n = (if n < 10 then [digit n] else nat_str (n div 10) @ [digit (n mod 10)])"

declare nat_str.simps [simp del]

definition int_str :: "int \<Rightarrow> string" where
  "int_str i = (if i < 0 then CHR ''-'' # nat_str (nat (- i)) else nat_str (nat i))"

lemma digit_inj: "m < 10 \<Longrightarrow> n < 10 \<Longrightarrow> digit m = digit n \<Longrightarrow> m = n"
proof -
  assume "m < 10" "n < 10" "digit m = digit n"
  then have "of_char (digit m) = (of_char (digit n) :: nat)" by simp
  then show ?thesis using \<open>m < 10\<close> \<open>n < 10\<close> by (simp add: digit_def)
qed

lemma of_char_digit: "n < 10 \<Longrightarrow> of_char (digit n) = 48 + n"
  by (simp add: digit_def)

lemma nat_str_nonempty [simp]: "nat_str n \<noteq> []"
  by (subst nat_str.simps) simp

lemma nat_str_inj: "nat_str m = nat_str n \<Longrightarrow> m = n"
proof (induction m arbitrary: n rule: nat_str.induct)
  case (1 m)
  show ?case
  proof (cases "m < 10")
    case True
    then have m: "nat_str m = [digit m]" by (subst nat_str.simps) simp
    have "n < 10"
    proof (rule ccontr)
      assume "\<not> n < 10"
      then have "nat_str n = nat_str (n div 10) @ [digit (n mod 10)]"
        by (subst nat_str.simps) simp
      with "1.prems" m have "nat_str (n div 10) = []" by simp
      then show False by simp
    qed
    then have "nat_str n = [digit n]" by (subst nat_str.simps) simp
    with "1.prems" m True \<open>n < 10\<close> show ?thesis by (auto dest: digit_inj)
  next
    case False
    then have m: "nat_str m = nat_str (m div 10) @ [digit (m mod 10)]"
      by (subst nat_str.simps) simp
    have "\<not> n < 10"
    proof
      assume "n < 10"
      then have "nat_str n = [digit n]" by (subst nat_str.simps) simp
      with "1.prems" m have "nat_str (m div 10) = []" by simp
      then show False by simp
    qed
    then have n: "nat_str n = nat_str (n div 10) @ [digit (n mod 10)]"
      by (subst nat_str.simps) simp
    from "1.prems" m n have "m div 10 = n div 10" and "digit (m mod 10) = digit (n mod 10)"
      using "1.IH" [OF False] by auto
    then have "m mod 10 = n mod 10"
      using digit_inj [of "m mod 10" "n mod 10"] by simp
    with \<open>m div 10 = n div 10\<close> show ?thesis by (metis div_mult_mod_eq)
  qed
qed

lemma digit_not_minus: "n < 10 \<Longrightarrow> digit n \<noteq> CHR ''-''"
proof
  assume "n < 10" and "digit n = CHR ''-''"
  then have "48 + n = of_char (CHR ''-'')" by (metis of_char_digit)
  then show False by simp
qed

lemma nat_str_chars: "c \<in> set (nat_str n) \<Longrightarrow> \<exists>d<10. c = digit d"
proof (induction n rule: nat_str.induct)
  case (1 n)
  then show ?case
    by (subst (asm) (2) nat_str.simps)
      (auto split: if_splits intro: exI [of _ "n mod 10"])
qed

lemma int_str_inj: "int_str i = int_str j \<Longrightarrow> i = j"
proof -
  assume eq: "int_str i = int_str j"
  have no: "\<And>m n. CHR ''-'' # nat_str m \<noteq> nat_str n"
    using nat_str_chars digit_not_minus by (metis list.set_intros(1))
  show ?thesis
    using eq no no [symmetric] by (auto simp: int_str_def split: if_splits dest!: nat_str_inj)
qed

text \<open>
  \<open>repr\<close> of a string and of a list of strings, which the error messages that list names use.
\<close>

definition hex_digit :: "nat \<Rightarrow> char" where
  "hex_digit n = (if n < 10 then char_of (48 + n) else char_of (87 + n))"

definition repr_char :: "char \<Rightarrow> char \<Rightarrow> string" where
  "repr_char q c =
    (let n = of_char c :: nat in
     if c = q \<or> c = CHR 0x5C then [CHR 0x5C, c]
     else if c = CHR 0x0A then [CHR 0x5C, CHR ''n'']
     else if c = CHR 0x0D then [CHR 0x5C, CHR ''r'']
     else if c = CHR 0x09 then [CHR 0x5C, CHR ''t'']
     else if n < 32 \<or> (127 \<le> n \<and> n \<le> 160) \<or> n = 173
       then [CHR 0x5C, CHR ''x'', hex_digit (n div 16), hex_digit (n mod 16)]
     else [c])"

definition repr_str :: "string \<Rightarrow> string" where
  "repr_str s =
    (let q = (if CHR 0x27 \<in> set s \<and> CHR 0x22 \<notin> set s then CHR 0x22 else CHR 0x27)
     in q # concat (map (repr_char q) s) @ [q])"

definition repr_strs :: "string list \<Rightarrow> string" where
  "repr_strs ss = ''['' @ join '', '' (map repr_str ss) @ '']''"

section \<open>Python values\<close>

datatype pyval =
    PNone
  | PBool bool
  | PInt int
  | PFloat int int  \<comment> \<open>a finite float: mantissa and binary exponent\<close>
  | PStr string
  | PList "pyval list"
  | PDict "(string \<times> pyval) list"

text \<open>\<open>isinstance(v, int)\<close> holds of booleans too, and arithmetic reads them as 0 and 1.\<close>

fun as_int :: "pyval \<Rightarrow> int option" where
  "as_int (PInt n) = Some n"
| "as_int (PBool b) = Some (if b then 1 else 0)"
| "as_int _ = None"

fun as_str :: "pyval \<Rightarrow> string option" where
  "as_str (PStr s) = Some s"
| "as_str _ = None"

definition opt_str :: "string option \<Rightarrow> pyval" where
  "opt_str x = (case x of None \<Rightarrow> PNone | Some s \<Rightarrow> PStr s)"

section \<open>Results\<close>

text \<open>
  An exception is an \<open>AppError\<close> with its code, message, status and details, or another Python
  exception named by its class.
\<close>

datatype exn =
    AppError string string "int option" "(string \<times> pyval) list"
  | PyError string string

type_synonym 'a result = "exn + 'a"

fun exn_code :: "exn \<Rightarrow> string option" where
  "exn_code (AppError c _ _ _) = Some c"
| "exn_code (PyError _ _) = None"

definition rbind :: "'a result \<Rightarrow> ('a \<Rightarrow> 'b result) \<Rightarrow> 'b result" where
  "rbind x f = (case x of Inl e \<Rightarrow> Inl e | Inr v \<Rightarrow> f v)"

lemma rbind_simps [simp]: "rbind (Inl e) f = Inl e" "rbind (Inr v) f = f v"
  by (simp_all add: rbind_def)

lemma rbind_Inr_iff: "rbind x f = Inr w \<longleftrightarrow> (\<exists>v. x = Inr v \<and> f v = Inr w)"
  by (cases x) auto

lemma rbind_assoc: "rbind (rbind x f) g = rbind x (\<lambda>v. rbind (f v) g)"
  by (cases x) auto

text \<open>A list comprehension whose element expression may raise: the first raise wins.\<close>

fun rmap :: "('a \<Rightarrow> 'b result) \<Rightarrow> 'a list \<Rightarrow> 'b list result" where
  "rmap f [] = Inr []"
| "rmap f (x # xs) = rbind (f x) (\<lambda>y. rbind (rmap f xs) (\<lambda>ys. Inr (y # ys)))"

lemma rmap_Inr: "rmap f xs = Inr ys \<Longrightarrow> list_all2 (\<lambda>x y. f x = Inr y) xs ys"
  by (induction xs arbitrary: ys) (auto simp: rbind_Inr_iff)

lemma rmap_total: "(\<And>x. x \<in> set xs \<Longrightarrow> f x = Inr (g x)) \<Longrightarrow> rmap f xs = Inr (map g xs)"
  by (induction xs) auto

lemma rmap_fails:
  "x \<in> set xs \<Longrightarrow> f x = Inl e \<Longrightarrow> \<exists>e'. rmap f xs = Inl e'"
proof (induction xs)
  case (Cons y ys)
  then show ?case by (cases "f y"; cases "rmap f ys") auto
qed simp

text \<open>A guard that raises, read backwards: the operation succeeds when the condition is false and
  the rest succeeds.\<close>

lemma guard_Inr: "(if c then Inl e else r) = Inr x \<longleftrightarrow> \<not> c \<and> r = Inr x"
  by simp

definition is_ok :: "'a result \<Rightarrow> bool" where
  "is_ok r = (case r of Inl _ \<Rightarrow> False | Inr _ \<Rightarrow> True)"

lemma is_ok_simps [simp]: "\<not> is_ok (Inl e)" "is_ok (Inr v)"
  by (simp_all add: is_ok_def)

text \<open>A condition on an optional value, with nothing meeting it. A SQL comparison with a column that
  may be NULL, or with a row that may be missing, is one.\<close>

definition when_some :: "'a option \<Rightarrow> ('a \<Rightarrow> bool) \<Rightarrow> bool" where
  "when_some x P = (case x of None \<Rightarrow> False | Some v \<Rightarrow> P v)"

lemma when_some_iff [simp]: "when_some x P \<longleftrightarrow> (\<exists>v. x = Some v \<and> P v)"
  by (cases x) (auto simp: when_some_def)

text \<open>Operations on a state that may raise, in sequence: what was changed before a raise stays.\<close>

type_synonym ('s, 'a) state_op = "'s \<Rightarrow> 's \<times> 'a result"

definition sret :: "'a result \<Rightarrow> ('s, 'a) state_op" where
  "sret r s = (s, r)"

definition sbind :: "('s, 'a) state_op \<Rightarrow> ('a \<Rightarrow> ('s, 'b) state_op) \<Rightarrow> ('s, 'b) state_op" where
  "sbind f g s = (case f s of (s', Inl e) \<Rightarrow> (s', Inl e) | (s', Inr v) \<Rightarrow> g v s')"

lemma sret_apply [simp]: "sret r s = (s, r)"
  by (simp add: sret_def)

lemma sbind_sret [simp]: "sbind (sret (Inr v)) g s = g v s" "sbind (sret (Inl e)) g s = (s, Inl e)"
  by (simp_all add: sbind_def)

lemma sbind_Inr: "f s = (s', Inr v) \<Longrightarrow> sbind f g s = g v s'"
  by (simp add: sbind_def)

lemma sbind_Inl: "f s = (s', Inl e) \<Longrightarrow> sbind f g s = (s', Inl e)"
  by (simp add: sbind_def)

text \<open>A computation that returned, read backwards.\<close>

named_theorems returns \<open>what a computation that returned must have done\<close>

lemma sbind_returns [returns]:
  "sbind f g s = (s', Inr v) \<longleftrightarrow> (\<exists>s1 x. f s = (s1, Inr x) \<and> g x s1 = (s', Inr v))"
  by (auto simp: sbind_def split: prod.splits sum.splits)

lemma sbindE:
  assumes "sbind f g s = (s', r)"
  obtains (raises) e where "f s = (s', Inl e)" and "r = Inl e"
    | (goes_on) s1 v where "f s = (s1, Inr v)" and "g v s1 = (s', r)"
proof -
  obtain s1 r1 where f: "f s = (s1, r1)" by fastforce
  with assms that show thesis by (cases r1) (auto simp: sbind_def)
qed

lemma sbind_raises:
  "sbind f g s = (s', Inl e) \<longleftrightarrow> f s = (s', Inl e) \<or> (\<exists>s1 x. f s = (s1, Inr x) \<and> g x s1 = (s', Inl e))"
  by (auto simp: sbind_def split: prod.splits sum.splits)

text \<open>An operation on the second part of a state: a service that does not touch the tables.\<close>

definition on_world_of :: "('w, 'a) state_op \<Rightarrow> ('t \<times> 'w, 'a) state_op" where
  "on_world_of f x = (case f (snd x) of (w, r) \<Rightarrow> ((fst x, w), r))"

lemma on_world_of_returns [returns]:
  "on_world_of f x = (x', Inr v) \<longleftrightarrow> (\<exists>w. f (snd x) = (w, Inr v) \<and> x' = (fst x, w))"
  by (auto simp: on_world_of_def split: prod.splits)

lemma on_world_of_fst [simp]: "fst (fst (on_world_of f x)) = fst x"
  by (simp add: on_world_of_def split: prod.split)

text \<open>An operation on the first part, the tables, and a query of them.\<close>

definition on_tables :: "('t \<Rightarrow> 't \<times> 'a result) \<Rightarrow> ('t \<times> 'w, 'a) state_op" where
  "on_tables f x = (case f (fst x) of (t, r) \<Rightarrow> ((t, snd x), r))"

definition reads :: "('t \<Rightarrow> 'a result) \<Rightarrow> ('t \<times> 'w, 'a) state_op" where
  "reads f x = (x, f (fst x))"

lemma on_tables_returns [returns]:
  "on_tables f x = (y, Inr v) \<longleftrightarrow> f (fst x) = (fst y, Inr v) \<and> snd y = snd x"
  by (cases y) (auto simp: on_tables_def split: prod.splits)

lemma reads_returns [returns]: "reads f x = (y, Inr v) \<longleftrightarrow> y = x \<and> f (fst x) = Inr v"
  by (auto simp: reads_def)

text \<open>An operation as a unit of work: what raised is rolled back.\<close>

definition unit_op :: "('s, 'a) state_op \<Rightarrow> ('s, 'a) state_op" where
  "unit_op f x = (case f x of (y, Inr v) \<Rightarrow> (y, Inr v) | (_, Inl e) \<Rightarrow> (x, Inl e))"

lemma unit_op_cases: "fst (unit_op f x) = x \<or> (\<exists>v. f x = (fst (unit_op f x), Inr v))"
  by (auto simp: unit_op_def split: prod.splits sum.splits)

lemma unit_op_returns [returns]: "unit_op f x = (y, Inr v) \<longleftrightarrow> f x = (y, Inr v)"
  by (auto simp: unit_op_def split: prod.splits sum.splits)

text \<open>Lookups in a changed list.\<close>

lemma find_append: "find P (xs @ ys) = (case find P xs of None \<Rightarrow> find P ys | Some x \<Rightarrow> Some x)"
  by (induction xs) auto

lemma find_map_same: "(\<And>x. P (f x) = P x) \<Longrightarrow> find P (map f xs) = map_option f (find P xs)"
  by (induction xs) auto

section \<open>Times\<close>

type_synonym instant = int  \<comment> \<open>microseconds since the epoch, in UTC\<close>

text \<open>A wall-clock reading without an offset, or with its offset from UTC (microseconds).\<close>

datatype datetime = Naive int | Aware int int

fun to_utc :: "datetime \<Rightarrow> instant" where
  "to_utc (Naive w) = w"
| "to_utc (Aware w off) = w - off"

definition secs :: "int \<Rightarrow> int" where
  "secs n = n * 1000000"

lemma secs_pos [simp]: "0 < secs n \<longleftrightarrow> 0 < n"
  by (simp add: secs_def)

lemma secs_le_0 [simp]: "secs n \<le> 0 \<longleftrightarrow> n \<le> 0"
  by (simp add: secs_def)

lemma secs_mono [simp]: "secs m \<le> secs n \<longleftrightarrow> m \<le> n"
  by (simp add: secs_def)

section \<open>Dictionaries with an order\<close>

text \<open>
  A dictionary whose iteration order matters is an association list with distinct keys, in
  insertion order. Assignment to a present key keeps its place, as Python's does.
\<close>

fun dput :: "'k \<Rightarrow> 'v \<Rightarrow> ('k \<times> 'v) list \<Rightarrow> ('k \<times> 'v) list" where
  "dput k v [] = [(k, v)]"
| "dput k v ((k', v') # d) = (if k = k' then (k, v) # d else (k', v') # dput k v d)"

definition dget :: "('k \<times> 'v) list \<Rightarrow> 'k \<Rightarrow> 'v option" where
  "dget d k = map_of d k"

lemma dget_dput [simp]: "dget (dput k v d) = (dget d)(k \<mapsto> v)"
  by (induction d) (auto simp: dget_def fun_eq_iff)

lemma keys_dput: "fst ` set (dput k v d) = insert k (fst ` set d)"
  by (induction k v d rule: dput.induct) auto

lemma dput_new: "k \<notin> fst ` set d \<Longrightarrow> dput k v d = d @ [(k, v)]"
  by (induction k v d rule: dput.induct) auto

lemma dput_absent: "dget d k = None \<Longrightarrow> dput k v d = d @ [(k, v)]"
  by (rule dput_new) (simp add: dget_def map_of_eq_None_iff)

lemma distinct_dput: "distinct (map fst d) \<Longrightarrow> distinct (map fst (dput k v d))"
  by (induction k v d rule: dput.induct) (auto simp: keys_dput)

text \<open>Order-preserving removal of repetitions, the \<open>seen\<close> loop of several components.\<close>

fun dedupe_from :: "'a list \<Rightarrow> 'a list \<Rightarrow> 'a list" where
  "dedupe_from seen [] = []"
| "dedupe_from seen (x # xs) =
     (if x \<in> set seen then dedupe_from seen xs else x # dedupe_from (x # seen) xs)"

lemma set_dedupe_from: "set (dedupe_from seen xs) = set xs - set seen"
  by (induction xs arbitrary: seen) auto

lemma distinct_dedupe_from: "distinct (dedupe_from seen xs)"
  by (induction xs arbitrary: seen) (auto simp: set_dedupe_from)

end
