(* ===== verification/Errors.thy ===== *)
theory Errors
  imports Prelude
begin

text \<open>
  The error-code registry of \<open>core/exceptions/codes.py\<close> and the construction of an
  \<open>AppError\<close> (\<open>core/exceptions/base.py\<close>). Constructing an \<open>AppError\<close> looks its code up in the
  registry and raises \<open>ValueError\<close> for a code that is not registered, so \<open>app_error\<close>, what
  \<open>raise AppError(...)\<close> raises, depends on the table. \<open>core_codes\<close> is the table as the module
  defines it; the localised default messages are not carried.
\<close>

section \<open>The registry\<close>

record error_spec =
  es_code :: string
  es_status :: int
  es_message :: string
  es_owner :: "string option"
  es_deprecated :: "bool option"

type_synonym error_registry = "string \<rightharpoonup> error_spec"

definition upper :: "char \<Rightarrow> bool" where
  "upper c \<longleftrightarrow> (let n = of_char c :: nat in 65 \<le> n \<and> n \<le> 90)"

definition digit_char :: "char \<Rightarrow> bool" where
  "digit_char c \<longleftrightarrow> (let n = of_char c :: nat in 48 \<le> n \<and> n \<le> 57)"

text \<open>\<open>_CODE_PATTERN.fullmatch\<close>: an upper-case letter, then upper-case letters, digits, underscores.\<close>

fun code_pattern :: "string \<Rightarrow> bool" where
  "code_pattern [] = False"
| "code_pattern (c # cs) =
     (upper c \<and> list_all (\<lambda>d. upper d \<or> digit_char d \<or> d = CHR ''_'') cs)"

definition value_error :: "string \<Rightarrow> exn" where
  "value_error m = PyError ''ValueError'' m"

text \<open>
  The checks on the shape of the details schema and of the headers are checks of Python types,
  which the record's field types carry.
\<close>

definition validate_error_code_spec :: "error_spec \<Rightarrow> unit result" where
  "validate_error_code_spec spec =
    (if \<not> code_pattern (es_code spec)
       then Inl (value_error (''Invalid error code: '' @ es_code spec))
     else if es_status spec < 100 \<or> es_status spec > 599
       then Inl (value_error (''Invalid HTTP status for error code '' @ repr_str (es_code spec)))
     else if es_message spec = []
       then Inl (value_error (''Default message is required for error code '' @ repr_str (es_code spec)))
     else if es_owner spec = None \<or> es_owner spec = Some []
       then Inl (value_error (''Owner module metadata is required for error code '' @ repr_str (es_code spec)))
     else if es_deprecated spec = None
       then Inl (value_error (''Deprecated flag metadata is required for error code '' @ repr_str (es_code spec)))
     else Inr ())"

text \<open>
  \<open>register_error_codes\<close> checks every specification first and writes only when all pass.
\<close>

fun check_registration ::
  "error_registry \<Rightarrow> bool \<Rightarrow> string list \<Rightarrow> error_spec list \<Rightarrow> unit result" where
  "check_registration reg replace seen [] = Inr ()"
| "check_registration reg replace seen (spec # specs) =
     rbind (validate_error_code_spec spec) (\<lambda>_.
       if es_code spec \<in> set seen
         then Inl (value_error (''Duplicate error code registration: '' @ es_code spec))
       else if when_some (reg (es_code spec)) (\<lambda>old. old \<noteq> spec) \<and> \<not> replace
         then Inl (value_error (''Error code already registered: '' @ es_code spec))
       else check_registration reg replace (es_code spec # seen) specs)"

fun write_specs :: "error_registry \<Rightarrow> error_spec list \<Rightarrow> error_registry" where
  "write_specs reg [] = reg"
| "write_specs reg (spec # specs) = write_specs (reg(es_code spec \<mapsto> spec)) specs"

definition register_error_codes ::
  "error_registry \<Rightarrow> bool \<Rightarrow> error_spec list \<Rightarrow> error_registry \<times> unit result" where
  "register_error_codes reg replace specs =
    (case check_registration reg replace [] specs of
       Inl e \<Rightarrow> (reg, Inl e)
     | Inr _ \<Rightarrow> (write_specs reg specs, Inr ()))"

lemma write_specs_other: "c \<notin> es_code ` set specs \<Longrightarrow> write_specs reg specs c = reg c"
  by (induction specs arbitrary: reg) auto

lemma check_registration_distinct:
  "check_registration reg replace seen specs = Inr () \<Longrightarrow>
     distinct (map es_code specs) \<and> set (map es_code specs) \<inter> set seen = {}"
proof (induction specs arbitrary: seen)
  case (Cons s specs)
  have "es_code s \<notin> set seen"
    and "check_registration reg replace (es_code s # seen) specs = Inr ()"
    using Cons.prems by (auto simp: rbind_Inr_iff split: if_splits)
  with Cons.IH [of "es_code s # seen"] show ?case by auto
qed simp

lemma check_registration_keeps:
  "check_registration reg False seen specs = Inr () \<Longrightarrow> spec \<in> set specs \<Longrightarrow>
     reg (es_code spec) = None \<or> reg (es_code spec) = Some spec"
proof (induction specs arbitrary: seen)
  case (Cons s specs)
  then show ?case
    by (cases "reg (es_code s)") (auto simp: rbind_Inr_iff split: if_splits)
qed simp

lemma write_specs_mem:
  "distinct (map es_code specs) \<Longrightarrow> spec \<in> set specs \<Longrightarrow>
     write_specs reg specs (es_code spec) = Some spec"
  by (induction specs arbitrary: reg) (auto simp: write_specs_other)

section \<open>The core table and the constructor of AppError\<close>

definition core_codes :: "(string \<times> int) list" where
  "core_codes = [(''VALIDATION_ERROR'', 400), (''AUTH_INVALID_TOKEN'', 401),
    (''USER_DISABLED'', 403), (''TENANT_ACCESS_DENIED'', 403),
    (''TENANT_CONTEXT_CONFLICT'', 403), (''TENANT_STATE_FORBIDDEN'', 403),
    (''TENANT_DELETE_STEP_FAILED'', 409), (''UPLOAD_REJECTED'', 400),
    (''HOST_NOT_ALLOWED'', 400), (''REQUEST_TOO_LARGE'', 413),
    (''PERMISSION_DENIED'', 403), (''NOT_FOUND'', 404), (''CONFLICT'', 409),
    (''EXTERNAL_SERVICE_ERROR'', 502), (''IDEMPOTENCY_KEY_CONFLICT'', 409),
    (''IDEMPOTENCY_IN_PROGRESS'', 409), (''TASK_IDEMPOTENCY_KEY_CONFLICT'', 409),
    (''LOCK_NOT_ACQUIRED'', 409), (''QUOTA_EXCEEDED'', 403), (''RATE_LIMITED'', 429),
    (''SYSTEM_ERROR'', 500)]"

definition app_error ::
  "string \<Rightarrow> string \<Rightarrow> int option \<Rightarrow> (string \<times> pyval) list \<Rightarrow> exn" where
  "app_error code message status details =
    (if code \<in> fst ` set core_codes then AppError code message status details
     else value_error (''Unregistered error code: '' @ code))"

lemma app_error_registered [simp]:
  "app_error ''VALIDATION_ERROR'' m s d = AppError ''VALIDATION_ERROR'' m s d"
  "app_error ''AUTH_INVALID_TOKEN'' m s d = AppError ''AUTH_INVALID_TOKEN'' m s d"
  "app_error ''USER_DISABLED'' m s d = AppError ''USER_DISABLED'' m s d"
  "app_error ''TENANT_ACCESS_DENIED'' m s d = AppError ''TENANT_ACCESS_DENIED'' m s d"
  "app_error ''TENANT_CONTEXT_CONFLICT'' m s d = AppError ''TENANT_CONTEXT_CONFLICT'' m s d"
  "app_error ''TENANT_STATE_FORBIDDEN'' m s d = AppError ''TENANT_STATE_FORBIDDEN'' m s d"
  "app_error ''TENANT_DELETE_STEP_FAILED'' m s d = AppError ''TENANT_DELETE_STEP_FAILED'' m s d"
  "app_error ''PERMISSION_DENIED'' m s d = AppError ''PERMISSION_DENIED'' m s d"
  "app_error ''NOT_FOUND'' m s d = AppError ''NOT_FOUND'' m s d"
  "app_error ''CONFLICT'' m s d = AppError ''CONFLICT'' m s d"
  "app_error ''IDEMPOTENCY_KEY_CONFLICT'' m s d = AppError ''IDEMPOTENCY_KEY_CONFLICT'' m s d"
  "app_error ''IDEMPOTENCY_IN_PROGRESS'' m s d = AppError ''IDEMPOTENCY_IN_PROGRESS'' m s d"
  "app_error ''TASK_IDEMPOTENCY_KEY_CONFLICT'' m s d =
     AppError ''TASK_IDEMPOTENCY_KEY_CONFLICT'' m s d"
  "app_error ''LOCK_NOT_ACQUIRED'' m s d = AppError ''LOCK_NOT_ACQUIRED'' m s d"
  "app_error ''QUOTA_EXCEEDED'' m s d = AppError ''QUOTA_EXCEEDED'' m s d"
  "app_error ''RATE_LIMITED'' m s d = AppError ''RATE_LIMITED'' m s d"
  "app_error ''SYSTEM_ERROR'' m s d = AppError ''SYSTEM_ERROR'' m s d"
  by (simp_all add: app_error_def core_codes_def)

text \<open>Codes that core modules raise without registering them.\<close>

lemma app_error_unregistered [simp]:
  "app_error ''SCHEDULE_TRIGGER_CONFLICT'' m s d =
     value_error ''Unregistered error code: SCHEDULE_TRIGGER_CONFLICT''"
  "app_error ''LOCK_STATE_INVALID'' m s d =
     value_error ''Unregistered error code: LOCK_STATE_INVALID''"
  "app_error ''STORAGE_ERROR'' m s d =
     value_error ''Unregistered error code: STORAGE_ERROR''"
  by (simp_all add: app_error_def core_codes_def)

abbreviation validation_error :: "string \<Rightarrow> exn" where
  "validation_error m \<equiv> AppError ''VALIDATION_ERROR'' m (Some 400) []"

end
