(* ===== verification/Lock_Interface.thy ===== *)
theory Lock_Interface
  imports Errors
begin

text \<open>
  The lock provider protocol of \<open>core/locks/provider.py\<close>: the handle, the argument checks that
  every provider repeats, and the contract the providers share, as an abstract lock table with
  a locale. The client lemmas of the locale hold of every provider that refines the table.

  Record fields carry a prefix where the source reuses a name: \<open>lh_\<close> for \<open>LockHandle\<close>, \<open>le_\<close> for
  the stored entry.
\<close>

section \<open>Handles, entries and argument checks\<close>

record lock_handle =
  lh_acquired :: bool
  lh_key :: string
  lh_owner :: string
  lh_expires :: instant
  lh_fencing :: int

record lock_entry =
  le_owner :: string
  le_expires :: instant
  le_fencing :: int

definition validate_lock_key :: "string \<Rightarrow> unit result" where
  "validate_lock_key k =
    (if blank k then Inl (app_error ''VALIDATION_ERROR'' ''Lock key must be non-empty'' (Some 400) [])
     else Inr ())"

definition validate_lock_owner :: "string \<Rightarrow> unit result" where
  "validate_lock_owner u =
    (if blank u then Inl (app_error ''VALIDATION_ERROR'' ''Owner token must be non-empty'' (Some 400) [])
     else Inr ())"

definition validate_lock :: "string \<Rightarrow> int \<Rightarrow> string option \<Rightarrow> unit result" where
  "validate_lock k ttl u =
    rbind (validate_lock_key k) (\<lambda>_.
    rbind (case u of None \<Rightarrow> Inr () | Some u' \<Rightarrow> validate_lock_owner u') (\<lambda>_.
      if ttl \<le> 0
        then Inl (app_error ''VALIDATION_ERROR'' ''Lock TTL must be greater than zero'' (Some 400) [])
      else Inr ()))"

text \<open>\<open>owner_token or str(uuid4())\<close>, with the generated token as an argument.\<close>

definition resolve_owner :: "string \<Rightarrow> string option \<Rightarrow> string" where
  "resolve_owner fresh u = (case u of None \<Rightarrow> fresh | Some u' \<Rightarrow> if u' = [] then fresh else u')"

lemma validate_lock_ok:
  "validate_lock k ttl u = Inr () \<longleftrightarrow>
     \<not> blank k \<and> 0 < ttl \<and> (\<forall>u'. u = Some u' \<longrightarrow> \<not> blank u')"
  by (auto simp: validate_lock_def validate_lock_key_def validate_lock_owner_def
      split: option.splits)

lemma validate_lock_InrD [dest!]:
  "validate_lock k ttl u = Inr x \<Longrightarrow>
     \<not> blank k \<and> 0 < ttl \<and> (\<forall>u'. u = Some u' \<longrightarrow> \<not> blank u')"
  using validate_lock_ok by (cases x) simp

lemma validate_lock_key_ok: "validate_lock_key k = Inr () \<longleftrightarrow> \<not> blank k"
  by (simp add: validate_lock_key_def)

lemma validate_lock_owner_ok: "validate_lock_owner u = Inr () \<longleftrightarrow> \<not> blank u"
  by (simp add: validate_lock_owner_def)

lemma resolve_owner_given: "u \<noteq> [] \<Longrightarrow> resolve_owner fresh (Some u) = u"
  by (simp add: resolve_owner_def)

text \<open>\<open>require_acquire\<close>, the same in every provider: a handle that was not acquired is a conflict.\<close>

definition require_acquired :: "string \<Rightarrow> lock_handle result \<Rightarrow> lock_handle result" where
  "require_acquired k r =
    rbind r (\<lambda>h. if lh_acquired h then Inr h
      else Inl (app_error ''LOCK_NOT_ACQUIRED'' ''Lock is already held'' (Some 409)
             [(''lock_key'', PStr k)]))"

section \<open>The abstract lock table\<close>

text \<open>
  What a client can observe of a provider at a time: per key the live entry, if there is one,
  and how often the key has been granted (the last fencing token).
\<close>

type_synonym lock_view = "string \<Rightarrow> lock_entry option \<times> int"

definition live :: "instant \<Rightarrow> lock_entry option \<Rightarrow> lock_entry option" where
  "live t e = (case e of None \<Rightarrow> None | Some x \<Rightarrow> if le_expires x \<le> t then None else Some x)"

lemma live_simps [simp]:
  "live t None = None"
  "live t (Some x) = (if le_expires x \<le> t then None else Some x)"
  by (simp_all add: live_def)

lemma live_eq_Some [simp]: "live t e = Some x \<longleftrightarrow> e = Some x \<and> t < le_expires x"
  by (cases e) auto

lemma live_live: "t \<le> t' \<Longrightarrow> live t' (live t e) = live t' e"
  by (cases e) auto

lemma live_idem [simp]: "live t (live t e) = live t e"
  by (simp add: live_live)

definition age :: "instant \<Rightarrow> lock_view \<Rightarrow> lock_view" where
  "age t v = (\<lambda>k. (live t (fst (v k)), snd (v k)))"

definition spec_acquire ::
  "instant \<Rightarrow> string \<Rightarrow> int \<Rightarrow> string \<Rightarrow> lock_view \<Rightarrow> lock_view \<times> lock_handle" where
  "spec_acquire t k ttl u v =
    (case fst (v k) of
       Some e \<Rightarrow> (v, \<lparr>lh_acquired = False, lh_key = k, lh_owner = u,
                    lh_expires = le_expires e, lh_fencing = le_fencing e\<rparr>)
     | None \<Rightarrow>
         let f = snd (v k) + 1; x = t + secs ttl in
         (v(k := (Some \<lparr>le_owner = u, le_expires = x, le_fencing = f\<rparr>, f)),
          \<lparr>lh_acquired = True, lh_key = k, lh_owner = u, lh_expires = x, lh_fencing = f\<rparr>))"

definition spec_release :: "string \<Rightarrow> string \<Rightarrow> lock_view \<Rightarrow> lock_view \<times> bool" where
  "spec_release k u v =
    (case fst (v k) of
       None \<Rightarrow> (v, False)
     | Some e \<Rightarrow> if le_owner e \<noteq> u then (v, False) else (v(k := (None, snd (v k))), True))"

definition spec_extend ::
  "instant \<Rightarrow> string \<Rightarrow> string \<Rightarrow> int \<Rightarrow> lock_view \<Rightarrow> lock_view \<times> lock_handle option" where
  "spec_extend t k u ttl v =
    (case fst (v k) of
       None \<Rightarrow> (v, None)
     | Some e \<Rightarrow>
         if le_owner e \<noteq> u then (v, None)
         else let x = t + secs ttl in
           (v(k := (Some (e\<lparr>le_expires := x\<rparr>), snd (v k))),
            Some \<lparr>lh_acquired = True, lh_key = k, lh_owner = u,
                  lh_expires = x, lh_fencing = le_fencing e\<rparr>))"

text \<open>Operations of a client, and their observable answers.\<close>

datatype lock_op =
    Acquire string int "string option"
  | Release string string
  | Extend string string int
  | Locked string

datatype lock_answer =
    AnsHandle "lock_handle result"
  | AnsBool "bool result"
  | AnsExtend "lock_handle option result"

text \<open>The specification of one operation at one time, argument checks included.\<close>

fun spec_op :: "instant \<Rightarrow> string \<Rightarrow> lock_op \<Rightarrow> lock_view \<Rightarrow> lock_view \<times> lock_answer" where
  "spec_op t fresh (Acquire k ttl u) v =
     (case validate_lock k ttl u of
        Inl e \<Rightarrow> (v, AnsHandle (Inl e))
      | Inr _ \<Rightarrow> (let (v', h) = spec_acquire t k ttl (resolve_owner fresh u) v
                 in (v', AnsHandle (Inr h))))"
| "spec_op t fresh (Release k u) v =
     (case rbind (validate_lock_key k) (\<lambda>_. validate_lock_owner u) of
        Inl e \<Rightarrow> (v, AnsBool (Inl e))
      | Inr _ \<Rightarrow> (let (v', b) = spec_release k u v in (v', AnsBool (Inr b))))"
| "spec_op t fresh (Extend k u ttl) v =
     (case validate_lock k ttl (Some u) of
        Inl e \<Rightarrow> (v, AnsExtend (Inl e))
      | Inr _ \<Rightarrow> (let (v', h) = spec_extend t k u ttl v in (v', AnsExtend (Inr h))))"
| "spec_op t fresh (Locked k) v =
     (case validate_lock_key k of
        Inl e \<Rightarrow> (v, AnsBool (Inl e))
      | Inr _ \<Rightarrow> (v, AnsBool (Inr (fst (v k) \<noteq> None))))"

section \<open>The contract\<close>

text \<open>A history: operations with their times and generated tokens, and the answers they get.\<close>

fun run_ops :: "(instant \<Rightarrow> string \<Rightarrow> lock_op \<Rightarrow> 's \<Rightarrow> 's \<times> lock_answer) \<Rightarrow>
    (instant \<times> string \<times> lock_op) list \<Rightarrow> 's \<Rightarrow> 's \<times> lock_answer list" where
  "run_ops step [] s = (s, [])"
| "run_ops step ((t, u, op) # ops) s =
     (let (s', a) = step t u op s; (s'', as) = run_ops step ops s' in (s'', a # as))"

text \<open>
  A provider keeps an invariant, can be viewed at a time, forgets entries as they expire and
  nothing else, and answers each operation as the abstract table does. The clock does not
  advance within one operation.
\<close>

locale lock_provider =
  fixes inv :: "'s \<Rightarrow> bool"
    and view :: "instant \<Rightarrow> 's \<Rightarrow> lock_view"
    and step :: "instant \<Rightarrow> string \<Rightarrow> lock_op \<Rightarrow> 's \<Rightarrow> 's \<times> lock_answer"
  assumes view_ages: "inv s \<Longrightarrow> t \<le> t' \<Longrightarrow> view t' s = age t' (view t s)"
    and step_view: "inv s \<Longrightarrow> view t (fst (step t u op s)) = fst (spec_op t u op (view t s))"
    and step_answer: "inv s \<Longrightarrow> snd (step t u op s) = snd (spec_op t u op (view t s))"
    and step_inv: "inv s \<Longrightarrow> inv (fst (step t u op s))"
begin

lemma run_inv: "inv s \<Longrightarrow> inv (fst (run_ops step ops s))"
proof (induction ops arbitrary: s)
  case (Cons x ops)
  obtain t u op where x: "x = (t, u, op)" by (cases x)
  have "inv (fst (step t u op s))" using Cons.prems by (rule step_inv)
  from Cons.IH [OF this] x show ?case by (simp add: split_beta Let_def)
qed simp

end

text \<open>The run of the abstract table itself, with entries ageing between operations.\<close>

fun spec_run :: "(instant \<times> string \<times> lock_op) list \<Rightarrow> lock_view \<Rightarrow> lock_answer list" where
  "spec_run [] v = []"
| "spec_run ((t, u, op) # ops) v =
     (let (v', a) = spec_op t u op (age t v) in a # spec_run ops v')"

lemma age_age: "t \<le> t' \<Longrightarrow> age t' (age t v) = age t' v"
  by (simp add: age_def live_live fun_eq_iff)

lemma spec_run_age:
  assumes "\<forall>x \<in> set ops. t \<le> fst x"
  shows "spec_run ops (age t v) = spec_run ops v"
proof (cases ops)
  case (Cons x xs)
  then obtain t' u op where x: "x = (t', u, op)" by (cases x)
  have "t \<le> t'" using assms Cons x by simp
  then show ?thesis by (simp add: Cons x age_age)
qed simp

context lock_provider
begin

lemma run_answers:
  assumes "inv s" and "sorted (map fst ops)" and "\<forall>x \<in> set ops. t0 \<le> fst x"
  shows "snd (run_ops step ops s) = spec_run ops (view t0 s)"
  using assms
proof (induction ops arbitrary: s t0)
  case (Cons x ops)
  obtain t u op where x: "x = (t, u, op)" by (cases x)
  let ?s = "fst (step t u op s)"
  have t0: "t0 \<le> t" and rest: "\<forall>y \<in> set ops. t \<le> fst y" and srt: "sorted (map fst ops)"
    using Cons.prems x by auto
  have v: "age t (view t0 s) = view t s" using view_ages [OF Cons.prems(1) t0] by simp
  have "snd (run_ops step ops ?s) = spec_run ops (view t ?s)"
    using Cons.IH [OF step_inv [OF Cons.prems(1)] srt rest] .
  then show ?case
    using step_view [OF Cons.prems(1), of t u op] step_answer [OF Cons.prems(1), of t u op]
    by (simp add: x v split_beta Let_def)
qed simp

end

end
