(* ===== verification/Lock_Memory.thy ===== *)
theory Lock_Memory
  imports Lock_Interface
begin

text \<open>
  \<open>MemoryLockProvider\<close> (\<open>core/locks/memory.py\<close>): a dictionary of live entries and one of
  fencing counters. An expired entry is dropped when its key is next touched. Every method
  that writes reads the clock twice (once to purge, once for the new expiry), so the
  definitions take both readings.
\<close>

section \<open>State and operations\<close>

record memory_locks =
  ml_locks :: "string \<rightharpoonup> lock_entry"
  ml_fencing_tokens :: "string \<rightharpoonup> int"

definition empty_memory_locks :: memory_locks where
  "empty_memory_locks = \<lparr>ml_locks = Map.empty, ml_fencing_tokens = Map.empty\<rparr>"

definition purge_if_expired :: "datetime \<Rightarrow> string \<Rightarrow> memory_locks \<Rightarrow> memory_locks" where
  "purge_if_expired c k s =
    (case ml_locks s k of
       None \<Rightarrow> s
     | Some e \<Rightarrow> if le_expires e \<le> to_utc c then s\<lparr>ml_locks := (ml_locks s)(k := None)\<rparr> else s)"

definition mem_acquire ::
  "datetime \<Rightarrow> datetime \<Rightarrow> string \<Rightarrow> string \<Rightarrow> int \<Rightarrow> string option \<Rightarrow> memory_locks
    \<Rightarrow> memory_locks \<times> lock_handle result" where
  "mem_acquire c1 c2 fresh k ttl u s =
    (case validate_lock k ttl u of
       Inl e \<Rightarrow> (s, Inl e)
     | Inr _ \<Rightarrow>
        (let owner = resolve_owner fresh u; s = purge_if_expired c1 k s in
         case ml_locks s k of
           Some e \<Rightarrow>
             (s, Inr \<lparr>lh_acquired = False, lh_key = k, lh_owner = owner,
                     lh_expires = le_expires e, lh_fencing = le_fencing e\<rparr>)
         | None \<Rightarrow>
             (let f = (case ml_fencing_tokens s k of None \<Rightarrow> 0 | Some n \<Rightarrow> n) + 1;
                  x = to_utc c2 + secs ttl in
              (s\<lparr>ml_fencing_tokens := (ml_fencing_tokens s)(k \<mapsto> f),
                 ml_locks := (ml_locks s)(k \<mapsto>
                   \<lparr>le_owner = owner, le_expires = x, le_fencing = f\<rparr>)\<rparr>,
               Inr \<lparr>lh_acquired = True, lh_key = k, lh_owner = owner,
                    lh_expires = x, lh_fencing = f\<rparr>))))"

definition mem_require_acquire ::
  "datetime \<Rightarrow> datetime \<Rightarrow> string \<Rightarrow> string \<Rightarrow> int \<Rightarrow> string option \<Rightarrow> memory_locks
    \<Rightarrow> memory_locks \<times> lock_handle result" where
  "mem_require_acquire c1 c2 fresh k ttl u s =
    (let (s', r) = mem_acquire c1 c2 fresh k ttl u s in (s', require_acquired k r))"

definition mem_release :: "datetime \<Rightarrow> string \<Rightarrow> string \<Rightarrow> memory_locks \<Rightarrow> memory_locks \<times> bool result" where
  "mem_release c k u s =
    (case rbind (validate_lock_key k) (\<lambda>_. validate_lock_owner u) of
       Inl e \<Rightarrow> (s, Inl e)
     | Inr _ \<Rightarrow>
        (let s = purge_if_expired c k s in
         case ml_locks s k of
           None \<Rightarrow> (s, Inr False)
         | Some e \<Rightarrow> if le_owner e \<noteq> u then (s, Inr False)
                     else (s\<lparr>ml_locks := (ml_locks s)(k := None)\<rparr>, Inr True)))"

definition mem_extend ::
  "datetime \<Rightarrow> datetime \<Rightarrow> string \<Rightarrow> string \<Rightarrow> int \<Rightarrow> memory_locks
    \<Rightarrow> memory_locks \<times> lock_handle option result" where
  "mem_extend c1 c2 k u ttl s =
    (case validate_lock k ttl (Some u) of
       Inl e \<Rightarrow> (s, Inl e)
     | Inr _ \<Rightarrow>
        (let s = purge_if_expired c1 k s in
         case ml_locks s k of
           None \<Rightarrow> (s, Inr None)
         | Some e \<Rightarrow>
             if le_owner e \<noteq> u then (s, Inr None)
             else (let x = to_utc c2 + secs ttl in
               (s\<lparr>ml_locks := (ml_locks s)(k \<mapsto> e\<lparr>le_expires := x\<rparr>)\<rparr>,
                Inr (Some \<lparr>lh_acquired = True, lh_key = k, lh_owner = u,
                           lh_expires = x, lh_fencing = le_fencing e\<rparr>)))))"

definition mem_locked :: "datetime \<Rightarrow> string \<Rightarrow> memory_locks \<Rightarrow> memory_locks \<times> bool result" where
  "mem_locked c k s =
    (case validate_lock_key k of
       Inl e \<Rightarrow> (s, Inl e)
     | Inr _ \<Rightarrow> (let s = purge_if_expired c k s in (s, Inr (ml_locks s k \<noteq> None))))"

section \<open>The contract\<close>

definition mem_view :: "instant \<Rightarrow> memory_locks \<Rightarrow> lock_view" where
  "mem_view t s = (\<lambda>k. (live t (ml_locks s k),
     case ml_fencing_tokens s k of None \<Rightarrow> 0 | Some n \<Rightarrow> n))"

text \<open>A stored entry carries the last fencing token of its key.\<close>

definition mem_inv :: "memory_locks \<Rightarrow> bool" where
  "mem_inv s \<longleftrightarrow> (\<forall>k e. ml_locks s k = Some e \<longrightarrow> ml_fencing_tokens s k = Some (le_fencing e))"

fun mem_step :: "instant \<Rightarrow> string \<Rightarrow> lock_op \<Rightarrow> memory_locks \<Rightarrow> memory_locks \<times> lock_answer" where
  "mem_step t fresh (Acquire k ttl u) s =
     map_prod id AnsHandle (mem_acquire (Naive t) (Naive t) fresh k ttl u s)"
| "mem_step t fresh (Release k u) s = map_prod id AnsBool (mem_release (Naive t) k u s)"
| "mem_step t fresh (Extend k u ttl) s =
     map_prod id AnsExtend (mem_extend (Naive t) (Naive t) k u ttl s)"
| "mem_step t fresh (Locked k) s = map_prod id AnsBool (mem_locked (Naive t) k s)"

lemmas mem_lock_defs = mem_acquire_def mem_release_def mem_extend_def mem_locked_def

lemma mem_inv_empty: "mem_inv empty_memory_locks"
  by (simp add: mem_inv_def empty_memory_locks_def)

lemma purge_keeps [simp]:
  "ml_fencing_tokens (purge_if_expired c k s) = ml_fencing_tokens s"
  "ml_locks (purge_if_expired c k s) = (ml_locks s)(k := live (to_utc c) (ml_locks s k))"
  by (auto simp: purge_if_expired_def split: option.splits)

lemma mem_view_purge [simp]: "mem_view (to_utc c) (purge_if_expired c k s) = mem_view (to_utc c) s"
  by (auto simp: mem_view_def fun_eq_iff live_def split: option.splits)

lemma mem_inv_purge: "mem_inv s \<Longrightarrow> mem_inv (purge_if_expired c k s)"
  by (auto simp: mem_inv_def live_def split: option.splits if_splits)

lemma mem_acquire_inv: "mem_inv s \<Longrightarrow> mem_inv (fst (mem_acquire c1 c2 f k ttl u s))"
  using mem_inv_purge [of s c1 k]
  by (auto simp: mem_acquire_def Let_def mem_inv_def simp del: purge_keeps
      split: sum.splits option.splits)

lemma mem_release_inv: "mem_inv s \<Longrightarrow> mem_inv (fst (mem_release c k u s))"
  using mem_inv_purge [of s c k]
  by (auto simp: mem_release_def Let_def mem_inv_def simp del: purge_keeps
      split: sum.splits option.splits)

lemma mem_extend_inv: "mem_inv s \<Longrightarrow> mem_inv (fst (mem_extend c1 c2 k u ttl s))"
  using mem_inv_purge [of s c1 k]
  by (auto simp: mem_extend_def Let_def mem_inv_def simp del: purge_keeps
      split: sum.splits option.splits)

lemma mem_locked_inv: "mem_inv s \<Longrightarrow> mem_inv (fst (mem_locked c k s))"
  by (auto simp: mem_locked_def Let_def mem_inv_purge split: sum.splits)

lemma mem_step_inv: "mem_inv s \<Longrightarrow> mem_inv (fst (mem_step t u op s))"
  by (cases op) (simp_all add: mem_acquire_inv mem_release_inv mem_extend_inv mem_locked_inv)

text \<open>One operation at a single clock reading, seen through the view, is the abstract one.\<close>

lemma mem_acquire_spec:
  "mem_view t (fst (mem_step t f (Acquire k ttl u) s)) =
     fst (spec_op t f (Acquire k ttl u) (mem_view t s)) \<and>
   snd (mem_step t f (Acquire k ttl u) s) = snd (spec_op t f (Acquire k ttl u) (mem_view t s))"
proof (cases "validate_lock k ttl u")
  case (Inr x)
  then have "0 < ttl" by auto
  with Inr show ?thesis
    by (cases "live t (ml_locks s k)")
      (auto simp: mem_acquire_def spec_acquire_def mem_view_def Let_def fun_eq_iff)
qed (simp add: mem_acquire_def)

lemma mem_release_spec:
  "mem_view t (fst (mem_step t f (Release k u) s)) =
     fst (spec_op t f (Release k u) (mem_view t s)) \<and>
   snd (mem_step t f (Release k u) s) = snd (spec_op t f (Release k u) (mem_view t s))"
  by (cases "live t (ml_locks s k)")
    (auto simp: mem_release_def spec_release_def mem_view_def Let_def fun_eq_iff
      split: sum.splits)

lemma mem_extend_spec:
  "mem_view t (fst (mem_step t f (Extend k u ttl) s)) =
     fst (spec_op t f (Extend k u ttl) (mem_view t s)) \<and>
   snd (mem_step t f (Extend k u ttl) s) = snd (spec_op t f (Extend k u ttl) (mem_view t s))"
proof (cases "validate_lock k ttl (Some u)")
  case (Inr x)
  then have "0 < ttl" by auto
  with Inr show ?thesis
    by (cases "live t (ml_locks s k)")
      (auto simp: mem_extend_def spec_extend_def mem_view_def Let_def fun_eq_iff)
qed (simp add: mem_extend_def)

lemma mem_locked_spec:
  "mem_view t (fst (mem_step t f (Locked k) s)) = fst (spec_op t f (Locked k) (mem_view t s)) \<and>
   snd (mem_step t f (Locked k) s) = snd (spec_op t f (Locked k) (mem_view t s))"
  by (auto simp: mem_locked_def mem_view_def Let_def fun_eq_iff split: sum.splits)

lemma mem_step_spec:
  "mem_view t (fst (mem_step t u op s)) = fst (spec_op t u op (mem_view t s)) \<and>
   snd (mem_step t u op s) = snd (spec_op t u op (mem_view t s))"
  by (cases op) (simp_all only: mem_acquire_spec mem_release_spec mem_extend_spec
      mem_locked_spec simp_thms)

interpretation memory_locks: lock_provider mem_inv mem_view mem_step
proof
  show "mem_view t' s = age t' (mem_view t s)" if "t \<le> t'" for s t t'
    using that by (simp add: mem_view_def age_def live_live)
qed (simp_all add: mem_step_spec mem_step_inv)

end
