(* ===== verification/Lock_Database.thy ===== *)
theory Lock_Database
  imports Lock_Interface
begin

text \<open>
  \<open>DatabaseLockProvider\<close> (\<open>core/locks/database.py\<close>) over the table \<open>core_locks\<close>
  (\<open>core/locks/models.py\<close>), a map from the primary key \<open>lock_key\<close> to the row. A row stays when
  its lock is released or expires; its \<open>fencing_token\<close> counts the grants of the key.

  A method runs several SQL statements, and other sessions may commit between them. The
  definitions take the interference as an argument: \<open>env i\<close> is what other sessions do to the
  table before the i-th point where the method can see it again. With \<open>env\<close> the identity the
  method runs alone. An UPDATE with its WHERE clause, and an INSERT with the primary key, are
  atomic. A row a session has read keeps its attributes in the session's identity map until
  \<open>refresh\<close>, so the second read of the same row within one session shows the values of the
  first.
\<close>

section \<open>State and operations\<close>

type_synonym lock_rows = "string \<rightharpoonup> lock_entry"
type_synonym lock_env = "nat \<Rightarrow> lock_rows \<Rightarrow> lock_rows"

text \<open>One try of \<open>_acquire_in_session\<close> ends with an answer or with an \<open>IntegrityError\<close>.\<close>

datatype acquire_try = Answered "lock_handle result" | Integrity_Error

definition blocked_handle :: "string \<Rightarrow> string \<Rightarrow> lock_entry \<Rightarrow> lock_handle" where
  "blocked_handle k u e = \<lparr>lh_acquired = False, lh_key = k, lh_owner = u,
     lh_expires = le_expires e, lh_fencing = le_fencing e\<rparr>"

definition acquire_in_session ::
  "lock_env \<Rightarrow> instant \<Rightarrow> string \<Rightarrow> int \<Rightarrow> string \<Rightarrow> lock_rows \<Rightarrow> lock_rows \<times> acquire_try" where
  "acquire_in_session env now k ttl u rows =
    (let x = now + secs ttl in
     case rows k of
       None \<Rightarrow>
         (let rows = env 0 rows in
          case rows k of
            Some _ \<Rightarrow> (rows, Integrity_Error)
          | None \<Rightarrow>
              (rows(k \<mapsto> \<lparr>le_owner = u, le_expires = x, le_fencing = 1\<rparr>),
               Answered (Inr \<lparr>lh_acquired = True, lh_key = k, lh_owner = u,
                              lh_expires = x, lh_fencing = 1\<rparr>)))
     | Some e \<Rightarrow>
         if le_expires e > now then (rows, Answered (Inr (blocked_handle k u e)))
         else
           (let rows = env 0 rows in
            if when_some (rows k) (\<lambda>e'. le_expires e' \<le> now) then
              (let f = le_fencing (the (rows k)) + 1 in
               (rows(k \<mapsto> \<lparr>le_owner = u, le_expires = x, le_fencing = f\<rparr>),
                Answered (Inr \<lparr>lh_acquired = True, lh_key = k, lh_owner = u,
                               lh_expires = x, lh_fencing = f\<rparr>)))
            else
              (let rows = env 1 rows in
               case rows k of
                 Some _ \<Rightarrow> (rows, Answered (Inr (blocked_handle k u e)))
               | None \<Rightarrow>
                   (rows, Answered (Inl (app_error ''LOCK_NOT_ACQUIRED''
                      ''Lock changed while acquiring'' (Some 409) [(''lock_key'', PStr k)]))))))"

text \<open>The loop of two tries, then one last look at the row. Each try reads the clock once.\<close>

fun acquire_tries ::
  "nat \<Rightarrow> lock_env \<Rightarrow> (nat \<Rightarrow> datetime) \<Rightarrow> string \<Rightarrow> int \<Rightarrow> string \<Rightarrow> lock_rows
    \<Rightarrow> lock_rows \<times> lock_handle result" where
  "acquire_tries 0 env clock k ttl u rows =
     (case rows k of
        Some e \<Rightarrow> (rows, Inr (blocked_handle k u e))
      | None \<Rightarrow> (rows, Inl (app_error ''LOCK_NOT_ACQUIRED''
          ''Lock could not be acquired after retry'' (Some 409) [(''lock_key'', PStr k)])))"
| "acquire_tries (Suc n) env clock k ttl u rows =
     (case acquire_in_session env (to_utc (clock 0)) k ttl u rows of
        (rows', Answered r) \<Rightarrow> (rows', r)
      | (rows', Integrity_Error) \<Rightarrow>
          acquire_tries n (\<lambda>i. env (i + 3)) (\<lambda>i. clock (i + 1)) k ttl u (env 2 rows'))"

definition db_acquire ::
  "lock_env \<Rightarrow> (nat \<Rightarrow> datetime) \<Rightarrow> string \<Rightarrow> string \<Rightarrow> int \<Rightarrow> string option \<Rightarrow> lock_rows
    \<Rightarrow> lock_rows \<times> lock_handle result" where
  "db_acquire env clock fresh k ttl u rows =
    (case validate_lock k ttl u of
       Inl e \<Rightarrow> (rows, Inl e)
     | Inr _ \<Rightarrow> acquire_tries 2 env clock k ttl (resolve_owner fresh u) rows)"

definition db_require_acquire ::
  "lock_env \<Rightarrow> (nat \<Rightarrow> datetime) \<Rightarrow> string \<Rightarrow> string \<Rightarrow> int \<Rightarrow> string option \<Rightarrow> lock_rows
    \<Rightarrow> lock_rows \<times> lock_handle result" where
  "db_require_acquire env clock fresh k ttl u rows =
    (let (rows', r) = db_acquire env clock fresh k ttl u rows in (rows', require_acquired k r))"

text \<open>The guard of \<open>release\<close> and \<open>extend\<close>, first on the row read and then in the WHERE clause.\<close>

definition owns :: "instant \<Rightarrow> string \<Rightarrow> lock_entry option \<Rightarrow> bool" where
  "owns now u e = (case e of None \<Rightarrow> False | Some x \<Rightarrow> le_owner x = u \<and> le_expires x > now)"

definition db_release ::
  "lock_env \<Rightarrow> datetime \<Rightarrow> string \<Rightarrow> string \<Rightarrow> lock_rows \<Rightarrow> lock_rows \<times> bool result" where
  "db_release env clock k u rows =
    (case rbind (validate_lock_key k) (\<lambda>_. validate_lock_owner u) of
       Inl e \<Rightarrow> (rows, Inl e)
     | Inr _ \<Rightarrow>
        (let now = to_utc clock in
         if \<not> owns now u (rows k) then (rows, Inr False)
         else
           (let rows = env 0 rows in
            if \<not> owns now u (rows k) then (rows, Inr False)
            else (rows(k \<mapsto> (the (rows k))\<lparr>le_expires := now\<rparr>), Inr True))))"

definition db_extend ::
  "lock_env \<Rightarrow> datetime \<Rightarrow> string \<Rightarrow> string \<Rightarrow> int \<Rightarrow> lock_rows
    \<Rightarrow> lock_rows \<times> lock_handle option result" where
  "db_extend env clock k u ttl rows =
    (case validate_lock k ttl (Some u) of
       Inl e \<Rightarrow> (rows, Inl e)
     | Inr _ \<Rightarrow>
        (let now = to_utc clock in
         if \<not> owns now u (rows k) then (rows, Inr None)
         else
           (let x = now + secs ttl; rows = env 0 rows in
            if \<not> owns now u (rows k) then (rows, Inr None)
            else (rows(k \<mapsto> (the (rows k))\<lparr>le_expires := x\<rparr>),
                  Inr (Some \<lparr>lh_acquired = True, lh_key = k, lh_owner = u,
                             lh_expires = x, lh_fencing = le_fencing (the (rows k))\<rparr>)))))"

definition db_locked :: "datetime \<Rightarrow> string \<Rightarrow> lock_rows \<Rightarrow> lock_rows \<times> bool result" where
  "db_locked clock k rows =
    (case validate_lock_key k of
       Inl e \<Rightarrow> (rows, Inl e)
     | Inr _ \<Rightarrow> (rows, Inr (case rows k of None \<Rightarrow> False | Some e \<Rightarrow> le_expires e > to_utc clock)))"

lemmas db_lock_defs = db_acquire_def db_release_def db_extend_def db_locked_def

section \<open>The contract, when the provider runs alone\<close>

definition alone :: lock_env where
  "alone i rows = rows"

definition row_fence :: "lock_rows \<Rightarrow> string \<Rightarrow> int" where
  "row_fence rows k = (case rows k of None \<Rightarrow> 0 | Some e \<Rightarrow> le_fencing e)"

definition db_view :: "instant \<Rightarrow> lock_rows \<Rightarrow> lock_view" where
  "db_view t rows = (\<lambda>k. (live t (rows k), row_fence rows k))"

fun db_step :: "instant \<Rightarrow> string \<Rightarrow> lock_op \<Rightarrow> lock_rows \<Rightarrow> lock_rows \<times> lock_answer" where
  "db_step t fresh (Acquire k ttl u) s =
     map_prod id AnsHandle (db_acquire alone (\<lambda>_. Naive t) fresh k ttl u s)"
| "db_step t fresh (Release k u) s = map_prod id AnsBool (db_release alone (Naive t) k u s)"
| "db_step t fresh (Extend k u ttl) s =
     map_prod id AnsExtend (db_extend alone (Naive t) k u ttl s)"
| "db_step t fresh (Locked k) s = map_prod id AnsBool (db_locked (Naive t) k s)"

lemma owns_live: "owns t u e \<longleftrightarrow> (\<exists>x. live t e = Some x \<and> le_owner x = u)"
  by (cases e) (auto simp: owns_def)

lemma row_fence_upd [simp]:
  "row_fence (rows(k \<mapsto> e)) k' = (if k' = k then le_fencing e else row_fence rows k')"
  by (simp add: row_fence_def)

lemma db_acquire_spec:
  "db_view t (fst (db_step t f (Acquire k ttl u) s)) =
     fst (spec_op t f (Acquire k ttl u) (db_view t s)) \<and>
   snd (db_step t f (Acquire k ttl u) s) = snd (spec_op t f (Acquire k ttl u) (db_view t s))"
proof (cases "validate_lock k ttl u")
  case (Inr x)
  then have "0 < ttl" by auto
  with Inr show ?thesis
    by (cases "s k")
      (auto simp: db_acquire_def acquire_in_session_def spec_acquire_def db_view_def Let_def
        fun_eq_iff numeral_2_eq_2 alone_def row_fence_def blocked_handle_def)
qed (simp add: db_acquire_def)

lemma db_release_spec:
  "db_view t (fst (db_step t f (Release k u) s)) =
     fst (spec_op t f (Release k u) (db_view t s)) \<and>
   snd (db_step t f (Release k u) s) = snd (spec_op t f (Release k u) (db_view t s))"
  by (cases "s k")
    (auto simp: db_release_def spec_release_def db_view_def Let_def fun_eq_iff owns_def
      alone_def row_fence_def split: sum.splits)

lemma db_extend_spec:
  "db_view t (fst (db_step t f (Extend k u ttl) s)) =
     fst (spec_op t f (Extend k u ttl) (db_view t s)) \<and>
   snd (db_step t f (Extend k u ttl) s) = snd (spec_op t f (Extend k u ttl) (db_view t s))"
proof (cases "validate_lock k ttl (Some u)")
  case (Inr x)
  then have "0 < ttl" by auto
  with Inr show ?thesis
    by (cases "s k")
      (auto simp: db_extend_def spec_extend_def db_view_def Let_def fun_eq_iff owns_def
        alone_def row_fence_def)
qed (simp add: db_extend_def)

lemma db_locked_spec:
  "db_view t (fst (db_step t f (Locked k) s)) = fst (spec_op t f (Locked k) (db_view t s)) \<and>
   snd (db_step t f (Locked k) s) = snd (spec_op t f (Locked k) (db_view t s))"
  by (cases "s k") (auto simp: db_locked_def db_view_def split: sum.splits)

lemma db_step_spec:
  "db_view t (fst (db_step t u op s)) = fst (spec_op t u op (db_view t s)) \<and>
   snd (db_step t u op s) = snd (spec_op t u op (db_view t s))"
  by (cases op) (simp_all only: db_acquire_spec db_release_spec db_extend_spec
      db_locked_spec simp_thms)

definition any_rows :: "lock_rows \<Rightarrow> bool" where
  "any_rows rows \<longleftrightarrow> True"

interpretation database_locks: lock_provider any_rows db_view db_step
proof
  show "db_view t' s = age t' (db_view t s)" if "t \<le> t'" for s t t'
    using that by (simp add: db_view_def age_def live_live)
qed (simp_all add: db_step_spec any_rows_def)

section \<open>Interleavings\<close>

text \<open>
  The writes any session of the provider can commit: the INSERT and the UPDATE of an acquire,
  and the UPDATEs of release and extend, each with its own clock reading.
\<close>

inductive row_write :: "lock_rows \<Rightarrow> lock_rows \<Rightarrow> bool" where
  insert_row: "rows k = None \<Longrightarrow> le_fencing e = 1 \<Longrightarrow> row_write rows (rows(k \<mapsto> e))"
| take_over: "rows k = Some e \<Longrightarrow> le_expires e \<le> now \<Longrightarrow>
     row_write rows (rows(k \<mapsto> \<lparr>le_owner = u, le_expires = x, le_fencing = le_fencing e + 1\<rparr>))"
| set_expiry: "rows k = Some e \<Longrightarrow> owns now (le_owner e) (Some e) \<Longrightarrow>
     row_write rows (rows(k \<mapsto> e\<lparr>le_expires := x\<rparr>))"

definition polite :: "lock_env \<Rightarrow> bool" where
  "polite env \<longleftrightarrow> (\<forall>i rows. row_write\<^sup>*\<^sup>* rows (env i rows))"

text \<open>No write drops a row or lowers a fencing token.\<close>

lemma row_write_mono:
  "row_write rows rows' \<Longrightarrow> \<exists>e. rows k = Some e \<Longrightarrow>
     row_fence rows k \<le> row_fence rows' k \<and> (\<exists>e. rows' k = Some e)"
  by (induction rule: row_write.induct) (auto simp: row_fence_def)

lemma row_writes_mono:
  "row_write\<^sup>*\<^sup>* rows rows' \<Longrightarrow> rows k = Some e \<Longrightarrow>
     row_fence rows k \<le> row_fence rows' k \<and> (\<exists>e'. rows' k = Some e')"
proof (induction rule: rtranclp_induct)
  case (step y z)
  then show ?case using row_write_mono [of y z k] by force
qed simp

definition fences_positive :: "lock_rows \<Rightarrow> bool" where
  "fences_positive rows \<longleftrightarrow> (\<forall>k e. rows k = Some e \<longrightarrow> 1 \<le> le_fencing e)"

lemma row_write_positive: "row_write rows rows' \<Longrightarrow> fences_positive rows \<Longrightarrow> fences_positive rows'"
  by (induction rule: row_write.induct) (fastforce simp: fences_positive_def)+

lemma row_writes_positive:
  "row_write\<^sup>*\<^sup>* rows rows' \<Longrightarrow> fences_positive rows \<Longrightarrow> fences_positive rows'"
  by (induction rule: rtranclp_induct) (auto intro: row_write_positive)

lemma row_writes_fence:
  "row_write\<^sup>*\<^sup>* rows rows' \<Longrightarrow> fences_positive rows \<Longrightarrow> row_fence rows k \<le> row_fence rows' k"
proof (cases "rows k")
  case None
  assume "row_write\<^sup>*\<^sup>* rows rows'" "fences_positive rows"
  then have "fences_positive rows'" by (rule row_writes_positive)
  with None show ?thesis
    by (cases "rows' k") (force simp: row_fence_def fences_positive_def)+
qed (auto dest: row_writes_mono)

lemma polite_writes: "polite env \<Longrightarrow> row_write\<^sup>*\<^sup>* rows (env i rows)"
  by (simp add: polite_def)

lemma polite_fence: "polite env \<Longrightarrow> fences_positive rows \<Longrightarrow> row_fence rows k \<le> row_fence (env i rows) k"
  by (blast intro: row_writes_fence polite_writes)

lemma polite_positive: "polite env \<Longrightarrow> fences_positive rows \<Longrightarrow> fences_positive (env i rows)"
  by (blast intro: row_writes_positive polite_writes)

lemma polite_shift: "polite env \<Longrightarrow> polite (\<lambda>i. env (i + n))"
  by (simp add: polite_def)

text \<open>
  Whatever the interference, a try either grants the key with a token above every earlier one
  and leaves that grant in the table, or does not grant.
\<close>

definition granted :: "lock_rows \<Rightarrow> string \<Rightarrow> string \<Rightarrow> lock_rows \<Rightarrow> lock_handle \<Rightarrow> bool" where
  "granted before k u after h \<longleftrightarrow>
     row_fence before k < lh_fencing h \<and>
     after k = Some \<lparr>le_owner = u, le_expires = lh_expires h, le_fencing = lh_fencing h\<rparr>"

lemma acquire_in_session_granted:
  assumes "polite env" and "fences_positive rows"
    and "acquire_in_session env now k ttl u rows = (rows', Answered (Inr h))" and "lh_acquired h"
  shows "granted rows k u rows' h"
  using assms polite_fence [OF assms(1,2), of k 0]
  by (auto simp: acquire_in_session_def granted_def Let_def blocked_handle_def row_fence_def
      split: option.splits if_splits)

lemma acquire_in_session_retry:
  assumes "acquire_in_session env now k ttl u rows = (rows', Integrity_Error)"
  shows "rows' = env 0 rows"
  using assms by (auto simp: acquire_in_session_def Let_def split: option.splits if_splits)

lemma acquire_tries_granted:
  assumes "polite env" and "fences_positive rows"
    and "acquire_tries n env clock k ttl u rows = (rows', Inr h)" and "lh_acquired h"
  shows "granted rows k u rows' h"
  using assms
proof (induction n arbitrary: env clock rows)
  case 0
  then show ?case by (auto simp: blocked_handle_def split: option.splits)
next
  case (Suc n)
  obtain r1 a where try1: "acquire_in_session env (to_utc (clock 0)) k ttl u rows = (r1, a)"
    by fastforce
  show ?case
  proof (cases a)
    case (Answered r)
    with Suc.prems try1 show ?thesis by (auto intro: acquire_in_session_granted)
  next
    case Integrity_Error
    then have r1: "r1 = env 0 rows" using try1 acquire_in_session_retry by simp
    have pos: "fences_positive r1" using Suc.prems r1 by (simp add: polite_positive)
    have "granted (env 2 r1) k u rows' h"
      using Suc.prems try1 Integrity_Error pos
      by (intro Suc.IH [where env = "\<lambda>i. env (i + 3)"]) (auto simp: polite_shift polite_positive)
    moreover have "row_fence rows k \<le> row_fence (env 2 r1) k"
      using polite_fence [of env rows k 0] polite_fence [of env r1 k 2] Suc.prems pos r1 by simp
    ultimately show ?thesis by (simp add: granted_def)
  qed
qed

end
