(* ===== verification/Lock_Properties.thy ===== *)
theory Lock_Properties
  imports Lock_Memory Lock_Database
begin

text \<open>
  What the locks promise: the two providers are interchangeable, a held lock excludes everyone
  else until it expires, fencing tokens grow, and the tokens of the database provider grow under
  any interleaving with other sessions.
\<close>

section \<open>Grants in a history\<close>

text \<open>The token an operation was granted on a key, if it was.\<close>

fun granted_token :: "string \<Rightarrow> lock_op \<times> lock_answer \<Rightarrow> int option" where
  "granted_token k (Acquire k' ttl u, AnsHandle (Inr h)) =
     (if k' = k \<and> lh_acquired h then Some (lh_fencing h) else None)"
| "granted_token k _ = None"

definition grants :: "string \<Rightarrow> (instant \<times> string \<times> lock_op) list \<Rightarrow> lock_answer list \<Rightarrow> int list" where
  "grants k ops answers =
     List.map_filter (granted_token k) (zip (map (\<lambda>(t, f, op). op) ops) answers)"

lemma grants_simps [simp]:
  "grants k [] as = []"
  "grants k ((t, f, op) # ops) (a # as) =
     (case granted_token k (op, a) of None \<Rightarrow> grants k ops as | Some n \<Rightarrow> n # grants k ops as)"
  by (simp_all add: grants_def List.map_filter_simps split: option.split)

text \<open>The operations that can end or move a lock before it expires: those of its owner.\<close>

fun touches :: "string \<Rightarrow> string \<Rightarrow> lock_op \<Rightarrow> bool" where
  "touches k u (Release k' u') \<longleftrightarrow> k' = k \<and> u' = u"
| "touches k u (Extend k' u' ttl) \<longleftrightarrow> k' = k \<and> u' = u"
| "touches k u _ \<longleftrightarrow> False"

lemma spec_op_held:
  assumes "fst (v k) = Some e" and "\<not> touches k (le_owner e) op"
  shows "fst (fst (spec_op t f op v) k) = Some e \<and> granted_token k (op, snd (spec_op t f op v)) = None"
  using assms
  by (cases op) (auto simp: spec_acquire_def spec_release_def spec_extend_def Let_def
      split: option.splits sum.splits prod.splits if_splits)

lemma spec_op_fence:
  "snd (v k) \<le> snd (fst (spec_op t f op v) k) \<and>
   (\<forall>n. granted_token k (op, snd (spec_op t f op v)) = Some n \<longrightarrow>
      snd (v k) < n \<and> n \<le> snd (fst (spec_op t f op v) k))"
  by (cases op) (auto simp: spec_acquire_def spec_release_def spec_extend_def Let_def
      split: option.splits sum.splits prod.splits if_splits)

lemma spec_run_held:
  assumes "sorted (map fst ops)" and "\<forall>x \<in> set ops. fst x < le_expires e"
    and "\<forall>(t, f, op) \<in> set ops. \<not> touches k (le_owner e) op" and "fst (v k) = Some e"
  shows "grants k ops (spec_run ops v) = []"
  using assms
proof (induction ops arbitrary: v)
  case (Cons x ops)
  obtain t f op where x: "x = (t, f, op)" by (cases x)
  have "fst (age t v k) = Some e" using Cons.prems x by (simp add: age_def)
  with spec_op_held [of "age t v" k e op t f] Cons x show ?case
    by (auto simp: split_beta Let_def)
qed simp

lemma spec_run_fence:
  "sorted_wrt (<) (grants k ops (spec_run ops v)) \<and>
   (\<forall>n \<in> set (grants k ops (spec_run ops v)). snd (v k) < n)"
proof (induction ops arbitrary: v)
  case (Cons x ops)
  obtain t f op where x: "x = (t, f, op)" by (cases x)
  let ?v = "fst (spec_op t f op (age t v))"
  have aged: "snd (age t v k) = snd (v k)" by (simp add: age_def)
  show ?case
    using Cons.IH [of ?v] spec_op_fence [of "age t v" k t f op] aged
    by (cases "granted_token k (op, snd (spec_op t f op (age t v)))")
      (fastforce simp: x split_beta Let_def)+
qed simp

definition earliest :: "(instant \<times> string \<times> lock_op) list \<Rightarrow> instant" where
  "earliest ops = (case ops of [] \<Rightarrow> 0 | x # _ \<Rightarrow> fst x)"

lemma earliest: "sorted (map fst ops) \<Longrightarrow> \<forall>x \<in> set ops. earliest ops \<le> fst x"
  by (cases ops) (auto simp: earliest_def)

context lock_provider
begin

lemma held_excludes:
  assumes "inv s" and "fst (view t0 s k) = Some e" and "sorted (map fst ops)"
    and "\<forall>(t, f, op) \<in> set ops. t0 \<le> t \<and> t < le_expires e \<and> \<not> touches k (le_owner e) op"
  shows "grants k ops (snd (run_ops step ops s)) = []"
proof -
  have "snd (run_ops step ops s) = spec_run ops (view t0 s)"
    using assms by (intro run_answers) auto
  moreover have "grants k ops (spec_run ops (view t0 s)) = []"
    using assms by (intro spec_run_held [where e = e]) auto
  ultimately show ?thesis by simp
qed

lemma tokens_grow:
  assumes "inv s" and "sorted (map fst ops)"
  shows "sorted_wrt (<) (grants k ops (snd (run_ops step ops s)))"
  using run_answers [OF assms earliest [OF assms(2)]] spec_run_fence by simp

end

section \<open>Properties\<close>

text \<open>The memory provider and the database provider are interchangeable: started empty, they give
  the same answers, errors and fencing tokens included, to every history of acquires, releases,
  extensions and queries whose times do not go back.\<close>

theorem lock_providers_agree:
  assumes "sorted (map fst ops)"
  shows "snd (run_ops mem_step ops empty_memory_locks) = snd (run_ops db_step ops Map.empty)"
proof -
  have inv: "mem_inv empty_memory_locks" "any_rows Map.empty"
    by (simp_all add: mem_inv_def empty_memory_locks_def any_rows_def)
  have view: "mem_view t empty_memory_locks = db_view t Map.empty" for t
    by (simp add: mem_view_def db_view_def empty_memory_locks_def row_fence_def fun_eq_iff)
  show ?thesis
    using memory_locks.run_answers [OF inv(1) assms earliest [OF assms]]
      database_locks.run_answers [OF inv(2) assms earliest [OF assms]] view by simp
qed

theorem lock_providers_agree_witness:
  "snd (run_ops mem_step [(0, ''g'', Acquire ''k'' 60 None), (5, ''h'', Locked ''k'')] empty_memory_locks) =
   snd (run_ops db_step [(0, ''g'', Acquire ''k'' 60 None), (5, ''h'', Locked ''k'')] Map.empty)"
  by (rule lock_providers_agree) simp

text \<open>C9: Mutual exclusion. Once a provider granted a key, memory or database, no acquire of the key
  is granted before the grant expires, whoever asks and whatever else is asked in between, as
  long as the owner itself neither releases nor extends.\<close>

theorem lock_mutual_exclusion:
  assumes "mem_inv s" and "mem_step t0 f0 (Acquire k ttl u) s = (s', AnsHandle (Inr h))"
    and "db_step t0 f0 (Acquire k ttl u) rows = (rows', AnsHandle (Inr h'))"
    and "lh_acquired h" and "lh_acquired h'" and "sorted (map fst ops)"
    and "\<forall>(t, f, op) \<in> set ops. t0 \<le> t \<and> t < t0 + secs ttl \<and> \<not> touches k (resolve_owner f0 u) op"
  shows "grants k ops (snd (run_ops mem_step ops s')) = [] \<and>
    grants k ops (snd (run_ops db_step ops rows')) = []"
proof
  have held: "\<exists>n. fst (fst (spec_op t0 f0 (Acquire k ttl u) v) k) =
      Some \<lparr>le_owner = resolve_owner f0 u, le_expires = t0 + secs ttl, le_fencing = n\<rparr>"
    if "snd (spec_op t0 f0 (Acquire k ttl u) v) = AnsHandle (Inr x)" "lh_acquired x" for v x
    using that by (auto simp: spec_acquire_def Let_def split: sum.splits option.splits prod.splits)
  obtain n where "fst (mem_view t0 s' k) =
      Some \<lparr>le_owner = resolve_owner f0 u, le_expires = t0 + secs ttl, le_fencing = n\<rparr>"
    using held [of "mem_view t0 s"] memory_locks.step_view [OF assms(1), of t0 f0 "Acquire k ttl u"]
      memory_locks.step_answer [OF assms(1), of t0 f0 "Acquire k ttl u"] assms(2,4) by (metis fst_conv snd_conv)
  moreover have "mem_inv s'" using memory_locks.step_inv [OF assms(1)] assms(2) by (metis fst_conv)
  ultimately show "grants k ops (snd (run_ops mem_step ops s')) = []"
    using assms(6,7) by (intro memory_locks.held_excludes) auto
  have any: "any_rows r" for r by (simp add: any_rows_def)
  obtain n where "fst (db_view t0 rows' k) =
      Some \<lparr>le_owner = resolve_owner f0 u, le_expires = t0 + secs ttl, le_fencing = n\<rparr>"
    using held [of "db_view t0 rows"] database_locks.step_view [OF any, of t0 f0 "Acquire k ttl u"]
      database_locks.step_answer [OF any, of t0 f0 "Acquire k ttl u"] assms(3,5) by (metis fst_conv snd_conv)
  then show "grants k ops (snd (run_ops db_step ops rows')) = []"
    using assms(6,7) by (intro database_locks.held_excludes any) auto
qed

theorem lock_mutual_exclusion_witness:
  "grants ''k'' [(10, ''g'', Acquire ''k'' 5 (Some ''b'')), (20, ''g'', Acquire ''k'' 5 (Some ''a''))]
     (snd (run_ops mem_step
       [(10, ''g'', Acquire ''k'' 5 (Some ''b'')), (20, ''g'', Acquire ''k'' 5 (Some ''a''))]
       (fst (mem_step 0 ''g'' (Acquire ''k'' 60 (Some ''a'')) empty_memory_locks)))) = []"
proof -
  let ?op = "Acquire ''k'' 60 (Some ''a'')"
  have inv: "mem_inv empty_memory_locks" by (simp add: mem_inv_def empty_memory_locks_def)
  obtain h where m: "mem_step 0 ''g'' ?op empty_memory_locks =
      (fst (mem_step 0 ''g'' ?op empty_memory_locks), AnsHandle (Inr h))" "lh_acquired h"
    by (simp add: mem_acquire_def validate_lock_def validate_lock_key_def validate_lock_owner_def
        is_space_def empty_memory_locks_def purge_if_expired_def Let_def)
  obtain h' where d: "db_step 0 ''g'' ?op Map.empty =
      (fst (db_step 0 ''g'' ?op Map.empty), AnsHandle (Inr h'))" "lh_acquired h'"
    by (simp add: db_acquire_def numeral_2_eq_2 acquire_in_session_def alone_def validate_lock_def
        validate_lock_key_def validate_lock_owner_def is_space_def Let_def)
  show ?thesis
    by (rule conjunct1 [OF lock_mutual_exclusion [OF inv m(1) d(1) m(2) d(2)]])
      (simp_all add: secs_def resolve_owner_def)
qed

text \<open>Fencing tokens grow: in every history of a provider, memory or database, whose times do not
  go back, the tokens of the grants of a key are strictly increasing, so a token identifies one
  grant and a later grant has the larger one.\<close>

theorem fencing_tokens_increase:
  assumes "mem_inv s" and "sorted (map fst ops)"
  shows "sorted_wrt (<) (grants k ops (snd (run_ops mem_step ops s))) \<and>
    sorted_wrt (<) (grants k ops (snd (run_ops db_step ops rows)))"
  using memory_locks.tokens_grow [OF assms] database_locks.tokens_grow [OF _ assms(2)]
  by (simp add: any_rows_def)

theorem fencing_tokens_increase_witness:
  "sorted_wrt (<) (grants ''k''
     [(0, ''g'', Acquire ''k'' 1 None), (5, ''h'', Acquire ''k'' 60 None), (2000000, ''i'', Acquire ''k'' 60 None)]
     (snd (run_ops mem_step
       [(0, ''g'', Acquire ''k'' 1 None), (5, ''h'', Acquire ''k'' 60 None), (2000000, ''i'', Acquire ''k'' 60 None)]
       empty_memory_locks)))"
  by (rule conjunct1 [OF fencing_tokens_increase]) (simp_all add: mem_inv_def empty_memory_locks_def)

text \<open>The database provider fences under any interleaving: whatever acquires, releases and
  extensions other sessions commit between its statements, an acquire that is granted has a
  token above every token the key had before, and the table holds that grant when it returns.\<close>

theorem database_acquire_fences:
  assumes "polite env" and "fences_positive rows"
    and "db_acquire env clock fresh k ttl u rows = (rows', Inr h)" and "lh_acquired h"
  shows "row_fence rows k < lh_fencing h \<and>
    rows' k = Some \<lparr>le_owner = resolve_owner fresh u, le_expires = lh_expires h, le_fencing = lh_fencing h\<rparr>"
  using acquire_tries_granted [OF assms(1,2) _ assms(4)] assms(3)
  by (auto simp: db_acquire_def granted_def split: sum.splits)

theorem database_acquire_fences_witness:
  "\<exists>rows' h. db_acquire alone (\<lambda>_. Naive 100) ''g'' ''k'' 60 None
      [''k'' \<mapsto> \<lparr>le_owner = ''x'', le_expires = 50, le_fencing = 7\<rparr>] = (rows', Inr h) \<and> 7 < lh_fencing h"
proof -
  let ?rows = "[''k'' \<mapsto> \<lparr>le_owner = ''x'', le_expires = 50, le_fencing = 7\<rparr>]"
  obtain rows' h where run: "db_acquire alone (\<lambda>_. Naive 100) ''g'' ''k'' 60 None ?rows = (rows', Inr h)"
    and acquired: "lh_acquired h"
    by (simp add: db_acquire_def numeral_2_eq_2 acquire_in_session_def alone_def validate_lock_def
        validate_lock_key_def is_space_def Let_def)
  have "polite alone" by (simp add: polite_def alone_def)
  moreover have "fences_positive ?rows" by (simp add: fences_positive_def)
  ultimately have "row_fence ?rows ''k'' < lh_fencing h"
    using database_acquire_fences [OF _ _ run acquired] by blast
  with run show ?thesis by (auto simp: row_fence_def)
qed

end
