(* ===== verification/Idempotency.thy ===== *)
theory Idempotency
  imports Errors
begin

text \<open>
  The idempotency store (\<open>core/idempotency/store.py\<close>, \<open>core/idempotency/models.py\<close>) and the guard
  that runs a mutation at most once per key (\<open>core/idempotency/guard.py\<close>). The table is a map from
  the unique scope (tenant, user, route, key) to its record. A claim's statements are taken
  without another session's writes between them. Columns hold instants; \<open>_coerce_utc\<close> is the
  coercion \<open>to_utc\<close> at the arguments. Request hashes are arguments, so SHA-256 does not appear.
\<close>

section \<open>Records\<close>

datatype idem_status = Processing | Succeeded | Failed | Expired

record idem_scope =
  is_tenant_id :: string
  is_user_id :: string
  is_route :: string
  is_key :: string

record idem_record =
  ir_request_hash :: string
  ir_status :: idem_status
  ir_response_code :: "string option"
  ir_response_body :: pyval
  ir_task_id :: "string option"
  ir_outbox_event_id :: "string option"
  ir_locked_until :: "instant option"
  ir_expires_at :: instant

type_synonym idem_table = "idem_scope \<rightharpoonup> idem_record"

datatype claim_outcome = Started | Replayed

record idem_claim =
  cl_outcome :: claim_outcome
  cl_record :: idem_record

section \<open>Argument checks\<close>

definition scope_values :: "idem_scope \<Rightarrow> (string \<times> string) list" where
  "scope_values k = [(''tenant_id'', is_tenant_id k), (''user_id'', is_user_id k),
     (''route'', is_route k), (''idempotency_key'', is_key k)]"

definition check_nonempty :: "(string \<times> string) list \<Rightarrow> unit result" where
  "check_nonempty values =
    (let empty = map fst (filter (\<lambda>(_, v). blank v) values) in
     if empty \<noteq> [] then Inl (app_error ''VALIDATION_ERROR''
       (''Idempotency fields must be non-empty: '' @ repr_strs empty) (Some 400) [])
     else Inr ())"

definition validate_scope :: "idem_scope \<Rightarrow> string \<Rightarrow> unit result" where
  "validate_scope k h = check_nonempty (scope_values k @ [(''request_hash'', h)])"

definition validate_lookup_scope :: "idem_scope \<Rightarrow> string option \<Rightarrow> unit result" where
  "validate_lookup_scope k h =
     check_nonempty (scope_values k @ (case h of None \<Rightarrow> [] | Some h' \<Rightarrow> [(''request_hash'', h')]))"

definition retry_after_seconds :: "instant option \<Rightarrow> instant \<Rightarrow> int" where
  "retry_after_seconds locked_until now =
    (case locked_until of
       None \<Rightarrow> 0
     | Some l \<Rightarrow> if l \<le> now then 0 else (l - now) div 1000000)"

section \<open>The store\<close>

definition processing_record :: "string \<Rightarrow> int \<Rightarrow> int \<Rightarrow> instant \<Rightarrow> idem_record" where
  "processing_record h ttl lock now =
    \<lparr>ir_request_hash = h, ir_status = Processing, ir_response_code = None,
     ir_response_body = PNone, ir_task_id = None, ir_outbox_event_id = None,
     ir_locked_until = Some (now + secs lock), ir_expires_at = now + secs ttl\<rparr>"

text \<open>The INSERT under a savepoint, refused by the unique constraint when the scope has a record.\<close>

definition insert_processing_record ::
  "idem_scope \<Rightarrow> string \<Rightarrow> int \<Rightarrow> int \<Rightarrow> instant \<Rightarrow> idem_table \<Rightarrow> idem_table \<times> idem_claim option" where
  "insert_processing_record k h ttl lock now tab =
    (if tab k \<noteq> None then (tab, None)
     else (let r = processing_record h ttl lock now in
       (tab(k \<mapsto> r), Some \<lparr>cl_outcome = Started, cl_record = r\<rparr>)))"

definition restart_processing ::
  "string \<Rightarrow> int \<Rightarrow> int \<Rightarrow> instant \<Rightarrow> idem_record \<Rightarrow> idem_record" where
  "restart_processing h ttl lock now r =
     r\<lparr>ir_request_hash := h, ir_status := Processing, ir_response_code := None,
       ir_response_body := PNone, ir_task_id := None, ir_outbox_event_id := None,
       ir_locked_until := Some (now + secs lock), ir_expires_at := now + secs ttl\<rparr>"

definition restarted ::
  "idem_scope \<Rightarrow> string \<Rightarrow> int \<Rightarrow> int \<Rightarrow> instant \<Rightarrow> idem_record \<Rightarrow> idem_table
    \<Rightarrow> idem_table \<times> idem_claim result" where
  "restarted k h ttl lock now r tab =
    (let r' = restart_processing h ttl lock now r in
     (tab(k \<mapsto> r'), Inr \<lparr>cl_outcome = Started, cl_record = r'\<rparr>))"

definition handle_existing ::
  "idem_scope \<Rightarrow> string \<Rightarrow> int \<Rightarrow> int \<Rightarrow> instant \<Rightarrow> bool \<Rightarrow> idem_record \<Rightarrow> idem_table
    \<Rightarrow> idem_table \<times> idem_claim result" where
  "handle_existing k h ttl lock now retry_failed r tab =
    (if ir_expires_at r \<le> now then restarted k h ttl lock now r tab
     else if ir_request_hash r \<noteq> h then
       (tab, Inl (app_error ''IDEMPOTENCY_KEY_CONFLICT''
          ''Idempotency key was already used with a different request payload'' (Some 409) []))
     else if ir_status r = Succeeded then
       (tab, Inr \<lparr>cl_outcome = Replayed, cl_record = r\<rparr>)
     else if ir_status r = Processing then
       (if when_some (ir_locked_until r) (\<lambda>l. l \<le> now) then restarted k h ttl lock now r tab
        else (tab, Inl (app_error ''IDEMPOTENCY_IN_PROGRESS''
          ''Idempotency request is already processing'' (Some 409)
          [(''retry_after'', PInt (retry_after_seconds (ir_locked_until r) now))])))
     else if ir_status r = Failed \<and> \<not> retry_failed then
       (tab, Inl (app_error ''CONFLICT''
          ''Failed idempotency request cannot be retried without explicit opt-in'' (Some 409) []))
     else restarted k h ttl lock now r tab)"

definition claim ::
  "idem_scope \<Rightarrow> string \<Rightarrow> int \<Rightarrow> int \<Rightarrow> datetime \<Rightarrow> bool \<Rightarrow> idem_table
    \<Rightarrow> idem_table \<times> idem_claim result" where
  "claim k h ttl lock clock retry_failed tab =
    (let now = to_utc clock in
     case validate_scope k h of
       Inl e \<Rightarrow> (tab, Inl e)
     | Inr _ \<Rightarrow>
        (case insert_processing_record k h ttl lock now tab of
           (tab', Some c) \<Rightarrow> (tab', Inr c)
         | (tab', None) \<Rightarrow>
            (case tab' k of
               None \<Rightarrow> (tab', Inl (app_error ''CONFLICT''
                  ''Idempotency claim raced but no record was found'' (Some 409) []))
             | Some r \<Rightarrow> handle_existing k h ttl lock now retry_failed r tab')))"

definition mark_succeeded ::
  "idem_scope \<Rightarrow> string \<Rightarrow> pyval \<Rightarrow> string option \<Rightarrow> string option \<Rightarrow> idem_record \<Rightarrow> idem_table
    \<Rightarrow> idem_table" where
  "mark_succeeded k code body task outbox r tab =
     tab(k \<mapsto> r\<lparr>ir_status := Succeeded, ir_response_code := Some code, ir_response_body := body,
       ir_task_id := task, ir_outbox_event_id := outbox, ir_locked_until := None\<rparr>)"

definition mark_failed ::
  "idem_scope \<Rightarrow> string \<Rightarrow> pyval \<Rightarrow> idem_record \<Rightarrow> idem_table \<Rightarrow> idem_table" where
  "mark_failed k code body r tab =
     tab(k \<mapsto> r\<lparr>ir_status := Failed, ir_response_code := Some code, ir_response_body := body,
       ir_locked_until := None\<rparr>)"

text \<open>\<open>expire_before\<close> marks every record whose time has passed; the count needs a finite table.\<close>

definition expirable :: "instant \<Rightarrow> idem_record \<Rightarrow> bool" where
  "expirable now r \<longleftrightarrow> ir_status r \<noteq> Expired \<and> ir_expires_at r \<le> now"

definition expire_before :: "datetime \<Rightarrow> idem_table \<Rightarrow> idem_table" where
  "expire_before clock tab =
     (\<lambda>k. case tab k of
        None \<Rightarrow> None
      | Some r \<Rightarrow> if expirable (to_utc clock) r
          then Some (r\<lparr>ir_status := Expired, ir_locked_until := None\<rparr>) else Some r)"

definition expired_count :: "datetime \<Rightarrow> idem_scope list \<Rightarrow> idem_table \<Rightarrow> nat" where
  "expired_count clock ks tab =
     length (filter (\<lambda>k. case tab k of None \<Rightarrow> False | Some r \<Rightarrow> expirable (to_utc clock) r) ks)"

datatype diagnosis_status =
    Missing | Expired_Reusable | Request_Hash_Conflict | Replayable | In_Progress
  | Failed_Requires_Retry_Opt_In | Retryable_Failed

record idem_diagnosis =
  dg_status :: diagnosis_status
  dg_record :: "idem_record option"
  dg_requested_hash :: "string option"
  dg_retry_after :: "int option"

definition diagnose ::
  "idem_scope \<Rightarrow> string option \<Rightarrow> datetime \<Rightarrow> bool \<Rightarrow> idem_table \<Rightarrow> idem_diagnosis result" where
  "diagnose k h clock retry_failed tab =
    (let now = to_utc clock in
     rbind (validate_lookup_scope k h) (\<lambda>_. Inr
       (case tab k of
          None \<Rightarrow> \<lparr>dg_status = Missing, dg_record = None, dg_requested_hash = None,
                   dg_retry_after = None\<rparr>
        | Some r \<Rightarrow>
           (let d = (\<lambda>st ra. \<lparr>dg_status = st, dg_record = Some r, dg_requested_hash = h,
                             dg_retry_after = ra\<rparr>) in
            if ir_expires_at r \<le> now \<or> ir_status r = Expired then d Expired_Reusable None
            else if h \<noteq> None \<and> ir_request_hash r \<noteq> the h then d Request_Hash_Conflict None
            else if ir_status r = Succeeded then d Replayable None
            else if ir_status r = Processing then
              d In_Progress (Some (retry_after_seconds (ir_locked_until r) now))
            else d (if retry_failed then Retryable_Failed else Failed_Requires_Retry_Opt_In) None))))"

section \<open>The mutation guard\<close>

record 'v mutation_result =
  mr_outcome :: claim_outcome
  mr_record :: idem_record
  mr_value :: "'v option"
  mr_response_code :: "string option"
  mr_response_body :: pyval
  mr_task_id :: "string option"
  mr_outbox_event_id :: "string option"

fun exn_class :: "exn \<Rightarrow> string" where
  "exn_class (AppError _ _ _ _) = ''AppError''"
| "exn_class (PyError c _) = c"

fun exn_text :: "exn \<Rightarrow> string" where
  "exn_text (AppError _ m _ _) = m"
| "exn_text (PyError _ m) = m"

definition failure_body :: "exn \<Rightarrow> pyval" where
  "failure_body e = PDict [(''error'', PStr (exn_text e))]"

text \<open>
  The builders turn the handler's value into the response; an absent builder gives \<open>None\<close>. The
  handler works on the rest of the world \<open>'w\<close>. What it raises, or a builder raises, is recorded
  and raised again.
\<close>

record 'v builders =
  bd_response :: "'v \<Rightarrow> pyval result"
  bd_task_id :: "('v \<Rightarrow> string option result) option"
  bd_outbox_event_id :: "('v \<Rightarrow> string option result) option"

definition build_optional :: "('v \<Rightarrow> string option result) option \<Rightarrow> 'v \<Rightarrow> string option result" where
  "build_optional b v = (case b of None \<Rightarrow> Inr None | Some f \<Rightarrow> f v)"

definition build_response ::
  "'v builders \<Rightarrow> 'v \<Rightarrow> (pyval \<times> string option \<times> string option) result" where
  "build_response b v =
     rbind (bd_response b v) (\<lambda>body.
     rbind (build_optional (bd_task_id b) v) (\<lambda>task.
     rbind (build_optional (bd_outbox_event_id b) v) (\<lambda>outbox. Inr (body, task, outbox))))"

definition guard_run ::
  "idem_scope \<Rightarrow> string \<Rightarrow> int \<Rightarrow> int \<Rightarrow> datetime \<Rightarrow> bool \<Rightarrow> ('w \<Rightarrow> 'w \<times> 'v result) \<Rightarrow> string
    \<Rightarrow> 'v builders \<Rightarrow> idem_table \<times> 'w \<Rightarrow> (idem_table \<times> 'w) \<times> 'v mutation_result result" where
  "guard_run k h ttl lock clock retry_failed handler code b st =
    (case st of (tab, w) \<Rightarrow>
     case claim k h ttl lock clock retry_failed tab of
       (tab, Inl e) \<Rightarrow> ((tab, w), Inl e)
     | (tab, Inr c) \<Rightarrow>
        (let r = cl_record c in
         if cl_outcome c = Replayed then
           ((tab, w), Inr \<lparr>mr_outcome = Replayed, mr_record = r, mr_value = None,
              mr_response_code = ir_response_code r, mr_response_body = ir_response_body r,
              mr_task_id = ir_task_id r, mr_outbox_event_id = ir_outbox_event_id r\<rparr>)
         else
           (case handler w of
              (w, res) \<Rightarrow>
               (case rbind res (\<lambda>v. rbind (build_response b v) (\<lambda>x. Inr (v, x))) of
                  Inl e \<Rightarrow>
                    ((mark_failed k (exn_class e) (failure_body e) r tab, w), Inl e)
                | Inr (v, body, task, outbox) \<Rightarrow>
                    (let tab = mark_succeeded k code body task outbox r tab in
                     ((tab, w), Inr \<lparr>mr_outcome = Started, mr_record = the (tab k), mr_value = Some v,
                        mr_response_code = Some code, mr_response_body = body,
                        mr_task_id = task, mr_outbox_event_id = outbox\<rparr>))))))"

section \<open>Lemmas\<close>

text \<open>
  A processing record has a lease, a finished one has none, and a record marked expired is past
  its time.
\<close>

definition record_wf :: "idem_record \<Rightarrow> bool" where
  "record_wf r \<longleftrightarrow>
     (ir_locked_until r \<noteq> None \<longleftrightarrow> ir_status r = Processing) \<and>
     (ir_response_code r \<noteq> None \<longrightarrow> ir_status r \<noteq> Processing) \<and>
     (ir_status r \<in> {Succeeded, Failed} \<longrightarrow> ir_response_code r \<noteq> None)"

definition table_wf :: "idem_table \<Rightarrow> bool" where
  "table_wf tab \<longleftrightarrow> (\<forall>k r. tab k = Some r \<longrightarrow> record_wf r)"

lemma table_wf_upd: "table_wf tab \<Longrightarrow> record_wf r \<Longrightarrow> table_wf (tab(k \<mapsto> r))"
  by (auto simp: table_wf_def)

lemma check_nonempty_ok:
  "check_nonempty vs = Inr () \<longleftrightarrow> (\<forall>(n, v) \<in> set vs. \<not> blank v)"
  by (auto simp: check_nonempty_def Let_def filter_empty_conv)

lemma check_nonempty_Inl: "check_nonempty vs = Inl e \<Longrightarrow> \<exists>m. e = validation_error m"
  by (auto simp: check_nonempty_def Let_def split: if_splits)

lemma handle_existing_wf:
  "table_wf tab \<Longrightarrow> tab k = Some r \<Longrightarrow>
     table_wf (fst (handle_existing k h ttl lock now retry r tab))"
  by (auto simp: handle_existing_def restarted_def restart_processing_def Let_def record_wf_def
      intro!: table_wf_upd)

lemma claim_wf: "table_wf tab \<Longrightarrow> table_wf (fst (claim k h ttl lock c retry tab))"
  by (auto simp: claim_def insert_processing_record_def processing_record_def Let_def record_wf_def
      intro!: table_wf_upd handle_existing_wf split: sum.splits)

lemma mark_succeeded_wf: "table_wf tab \<Longrightarrow> table_wf (mark_succeeded k code body t ob r tab)"
  by (auto simp: mark_succeeded_def record_wf_def intro!: table_wf_upd)

lemma mark_failed_wf: "table_wf tab \<Longrightarrow> table_wf (mark_failed k code body r tab)"
  by (auto simp: mark_failed_def record_wf_def intro!: table_wf_upd)

lemma expire_before_wf: "table_wf tab \<Longrightarrow> table_wf (expire_before c tab)"
  by (auto simp: table_wf_def expire_before_def record_wf_def split: option.splits if_splits)

lemma guard_run_wf: "table_wf (fst st) \<Longrightarrow> table_wf (fst (fst (guard_run k h ttl lock c retry hdl code b st)))"
proof -
  assume wf: "table_wf (fst st)"
  have "table_wf tab'" if "claim k h ttl lock c retry (fst st) = (tab', x)" for tab' x
    using claim_wf [OF wf, of k h ttl lock c retry] that by simp
  then show ?thesis
    by (auto simp: guard_run_def Let_def mark_failed_wf mark_succeeded_wf
        split: prod.splits sum.splits)
qed

text \<open>A claim that starts leaves a processing record with a lease and the full time to live.\<close>

lemma claim_started:
  assumes "claim k h ttl lock c retry tab = (tab', Inr cl)" and "cl_outcome cl = Started"
  shows "tab' = tab(k \<mapsto> cl_record cl) \<and> cl_record cl = processing_record h ttl lock (to_utc c)"
  using assms
  by (auto simp: claim_def insert_processing_record_def handle_existing_def restarted_def
      restart_processing_def processing_record_def Let_def split: sum.splits option.splits if_splits)

lemma claim_replayed:
  assumes "claim k h ttl lock c retry tab = (tab', Inr cl)" and "cl_outcome cl = Replayed"
  shows "tab' = tab \<and> tab k = Some (cl_record cl) \<and> ir_status (cl_record cl) = Succeeded \<and>
    ir_request_hash (cl_record cl) = h \<and> to_utc c < ir_expires_at (cl_record cl)"
  using assms
  by (auto simp: claim_def insert_processing_record_def handle_existing_def restarted_def Let_def
      split: sum.splits option.splits if_splits)

text \<open>What a claim does with a record it finds.\<close>

lemma claim_existing:
  "tab k = Some r \<Longrightarrow> validate_scope k h = Inr () \<Longrightarrow>
     claim k h ttl lock c retry tab = handle_existing k h ttl lock (to_utc c) retry r tab"
  by (simp add: claim_def insert_processing_record_def)

lemma claim_missing:
  "tab k = None \<Longrightarrow> validate_scope k h = Inr () \<Longrightarrow>
     claim k h ttl lock c retry tab =
       (tab(k \<mapsto> processing_record h ttl lock (to_utc c)),
        Inr \<lparr>cl_outcome = Started, cl_record = processing_record h ttl lock (to_utc c)\<rparr>)"
  by (simp add: claim_def insert_processing_record_def Let_def)

lemma guard_run_Inr_started:
  assumes "guard_run k h ttl lock c retry handler code b (tab, w) = ((tab', w'), Inr m)"
    and "mr_outcome m = Started"
  shows "\<exists>body task ob. tab' = mark_succeeded k code body task ob
      (processing_record h ttl lock (to_utc c)) (tab(k \<mapsto> processing_record h ttl lock (to_utc c))) \<and>
    validate_scope k h = Inr () \<and> mr_response_code m = Some code \<and>
    mr_response_body m = body \<and> mr_task_id m = task \<and> mr_outbox_event_id m = ob"
proof -
  obtain tab1 x where cl: "claim k h ttl lock c retry tab = (tab1, x)" by fastforce
  then obtain cl where x: "x = Inr cl"
    using assms(1) by (cases x) (auto simp: guard_run_def)
  have v: "validate_scope k h = Inr ()"
    using cl x by (cases "validate_scope k h") (auto simp: claim_def Let_def)
  have st: "cl_outcome cl = Started"
    using assms cl x by (cases "cl_outcome cl") (auto simp: guard_run_def Let_def)
  show ?thesis
    using claim_started [OF cl [unfolded x] st] assms(1) cl x st v
    by (auto simp: guard_run_def Let_def split: prod.splits sum.splits)
qed

end
