(* ===== verification/Events.thy ===== *)
theory Events
  imports Idempotency "HOL-Library.List_Lexorder" "HOL-Library.Char_ord"
begin

text \<open>
  The event registry (\<open>core/events/registry.py\<close>), the classification of handler errors
  (\<open>core/events/errors.py\<close>) and the helper for external effects (\<open>core/events/side_effects.py\<close>).
  Handlers and effects are functions on the idempotency table and the rest of the world. Two
  library functions are arguments: \<open>show\<close>, the built-in \<open>str\<close>, and \<open>digest\<close>, which stands for
  \<open>hash_request_payload\<close> of a dictionary.
\<close>

section \<open>Envelopes and errors\<close>

record event_envelope =
  ev_id :: string
  ev_type :: string
  ev_version :: int
  ev_tenant_id :: string
  ev_aggregate_type :: string
  ev_aggregate_id :: string
  ev_payload :: "(string \<times> pyval) list"

datatype error_kind = Transient | Permanent

fun kind_name :: "error_kind \<Rightarrow> string" where
  "kind_name Transient = ''transient''"
| "kind_name Permanent = ''permanent''"

record error_classification =
  ec_kind :: error_kind
  ec_retryable :: bool

text \<open>\<open>EventPayloadValidationError\<close> is a subclass of \<open>EventHandlerPermanentError\<close>.\<close>

definition classify_event_handler_error :: "exn \<Rightarrow> error_classification" where
  "classify_event_handler_error e =
    (if exn_class e \<in> {''EventHandlerPermanentError'', ''EventPayloadValidationError''}
       then \<lparr>ec_kind = Permanent, ec_retryable = False\<rparr>
     else \<lparr>ec_kind = Transient, ec_retryable = True\<rparr>)"

definition payload_error :: "string \<Rightarrow> exn" where
  "payload_error m = PyError ''EventPayloadValidationError'' m"

section \<open>Schemas\<close>

record event_schema =
  sc_type :: string
  sc_version :: int
  sc_required :: "string list"
  sc_field_types :: "(string \<times> string) list"
  sc_compatible_with :: "int list"

record schema_entry =
  se_schema :: event_schema
  se_explicit :: bool

type_synonym event_handler_key = "string \<times> int"
type_synonym schema_map = "event_handler_key \<rightharpoonup> schema_entry"

definition core_required :: "string list" where
  "core_required = [''tenant_id'', ''actor_id'', ''request_id'']"

definition required_payload_fields :: "event_schema \<Rightarrow> string list" where
  "required_payload_fields sc = remdups (core_required @ sc_required sc)"

text \<open>\<open>sorted(required - present)\<close>.\<close>

definition missing_fields :: "string list \<Rightarrow> string list \<Rightarrow> string list" where
  "missing_fields required present = sort (remdups (filter (\<lambda>f. f \<notin> set present) required))"

definition supported_field_types :: "string list" where
  "supported_field_types = [''str'', ''int'', ''float'', ''number'', ''bool'', ''dict'', ''list'']"

definition version_label :: "string \<Rightarrow> int \<Rightarrow> string" where
  "version_label t v = t @ '' v'' @ int_str v"

fun matches_field_type :: "pyval \<Rightarrow> string \<Rightarrow> bool" where
  "matches_field_type (PStr _) ty \<longleftrightarrow> ty = ''str''"
| "matches_field_type (PInt _) ty \<longleftrightarrow> ty = ''int'' \<or> ty = ''number''"
| "matches_field_type (PFloat _ _) ty \<longleftrightarrow> ty = ''float'' \<or> ty = ''number''"
| "matches_field_type (PBool _) ty \<longleftrightarrow> ty = ''bool''"
| "matches_field_type (PDict _) ty \<longleftrightarrow> ty = ''dict''"
| "matches_field_type (PList _) ty \<longleftrightarrow> ty = ''list''"
| "matches_field_type PNone ty \<longleftrightarrow> False"

definition compatibility_error :: "string \<Rightarrow> exn" where
  "compatibility_error m = PyError ''EventSchemaCompatibilityError'' m"

fun check_type_changes ::
  "event_schema \<Rightarrow> (string \<times> string) list \<Rightarrow> unit result" where
  "check_type_changes sc [] = Inr ()"
| "check_type_changes sc ((f, expected) # fts) =
     (case dget (sc_field_types sc) f of
        None \<Rightarrow> check_type_changes sc fts
      | Some actual \<Rightarrow>
          if actual \<noteq> expected then Inl (compatibility_error
            (''Event schema '' @ version_label (sc_type sc) (sc_version sc)
             @ '' changes field type for '' @ repr_str f @ '' from '' @ expected @ '' to '' @ actual))
          else check_type_changes sc fts)"

fun check_compatible :: "schema_map \<Rightarrow> event_schema \<Rightarrow> int list \<Rightarrow> unit result" where
  "check_compatible ss sc [] = Inr ()"
| "check_compatible ss sc (v # vs) =
     (case ss (sc_type sc, v) of
        None \<Rightarrow> Inl (compatibility_error
          (''Event schema '' @ version_label (sc_type sc) (sc_version sc)
           @ '' declares missing compatible version '' @ int_str v))
      | Some old \<Rightarrow>
         (let missing = missing_fields (required_payload_fields (se_schema old))
                          (required_payload_fields sc) in
          if missing \<noteq> [] then Inl (compatibility_error
            (''Event schema '' @ version_label (sc_type sc) (sc_version sc)
             @ '' removes required fields from compatible version '' @ int_str v @ '': ''
             @ repr_strs missing))
          else rbind (check_type_changes sc (sc_field_types (se_schema old))) (\<lambda>_.
            check_compatible ss sc vs)))"

definition check_schema_shape :: "event_schema \<Rightarrow> unit result" where
  "check_schema_shape sc =
    (if sc_version sc < 1 then Inl (value_error ''Event schema version must be positive'')
     else if \<exists>f \<in> set (sc_required sc). f = []
       then Inl (value_error ''Event schema required payload fields must be non-empty strings'')
     else case find (\<lambda>(f, ty). f = [] \<or> ty \<notin> set supported_field_types) (sc_field_types sc) of
       None \<Rightarrow> Inr ()
     | Some (f, ty) \<Rightarrow>
         if f = [] then Inl (value_error ''Event schema field names must be non-empty strings'')
         else Inl (value_error (''Unsupported event schema field type: '' @ ty)))"

section \<open>The registry\<close>

text \<open>What a handler may do: read the envelope, change the world, and raise.\<close>

type_synonym 'w handler = "event_envelope \<Rightarrow> idem_table \<times> 'w \<Rightarrow> (idem_table \<times> 'w) \<times> unit result"

record 'w event_registry =
  er_handlers :: "event_handler_key \<Rightarrow> (string \<times> 'w handler) list"
  er_schemas :: schema_map
  er_registered_schemas :: "event_schema list"

definition empty_registry :: "'w event_registry" where
  "empty_registry = \<lparr>er_handlers = (\<lambda>_. []), er_schemas = Map.empty, er_registered_schemas = []\<rparr>"

definition register_schema_as ::
  "event_schema \<Rightarrow> bool \<Rightarrow> 'w event_registry \<Rightarrow> 'w event_registry \<times> unit result" where
  "register_schema_as sc explicit g =
    (case check_schema_shape sc of
       Inl e \<Rightarrow> (g, Inl e)
     | Inr _ \<Rightarrow>
        (let key = (sc_type sc, sc_version sc); existing = er_schemas g key in
         if existing \<noteq> None \<and> (se_explicit (the existing) \<or> \<not> explicit) then
           (g, if explicit \<and> se_explicit (the existing)
               then Inl (value_error (''Duplicate event schema for ''
                 @ version_label (sc_type sc) (sc_version sc)))
               else Inr ())
         else
           (case check_compatible (er_schemas g) sc (sc_compatible_with sc) of
              Inl e \<Rightarrow> (g, Inl e)
            | Inr _ \<Rightarrow>
                (g\<lparr>er_schemas := (er_schemas g)(key \<mapsto> \<lparr>se_schema = sc, se_explicit = explicit\<rparr>),
                   er_registered_schemas := er_registered_schemas g @ (if explicit then [sc] else [])\<rparr>,
                 Inr ()))))"

definition register_schema :: "event_schema \<Rightarrow> 'w event_registry \<Rightarrow> 'w event_registry \<times> unit result" where
  "register_schema sc g = register_schema_as sc True g"

definition ensure_minimal_schema ::
  "string \<Rightarrow> int \<Rightarrow> 'w event_registry \<Rightarrow> 'w event_registry \<times> unit result" where
  "ensure_minimal_schema t v g =
    (if er_schemas g (t, v) = None
       then register_schema_as \<lparr>sc_type = t, sc_version = v, sc_required = [],
              sc_field_types = [], sc_compatible_with = []\<rparr> False g
     else (g, Inr ()))"

text \<open>\<open>register\<close>, with the handler's key resolved by the caller.\<close>

definition register_handler ::
  "string \<Rightarrow> int \<Rightarrow> string \<Rightarrow> 'w handler \<Rightarrow> 'w event_registry \<Rightarrow> 'w event_registry \<times> unit result" where
  "register_handler t v handler_key handler g =
    (case ensure_minimal_schema t v g of
       (g, Inl e) \<Rightarrow> (g, Inl e)
     | (g, Inr _) \<Rightarrow>
        if handler_key \<in> fst ` set (er_handlers g (t, v))
          then (g, Inl (value_error (''Duplicate event handler '' @ repr_str handler_key
                 @ '' for '' @ version_label t v)))
        else (g\<lparr>er_handlers := (er_handlers g)
                  ((t, v) := er_handlers g (t, v) @ [(handler_key, handler)])\<rparr>, Inr ()))"

definition has_event_type :: "'w event_registry \<Rightarrow> string \<Rightarrow> int \<Rightarrow> bool" where
  "has_event_type g t v \<longleftrightarrow> er_schemas g (t, v) \<noteq> None"

fun check_field_types ::
  "string \<Rightarrow> int \<Rightarrow> (string \<times> pyval) list \<Rightarrow> (string \<times> string) list \<Rightarrow> unit result" where
  "check_field_types t v payload [] = Inr ()"
| "check_field_types t v payload ((f, expected) # fts) =
     (case dget payload f of
        None \<Rightarrow> check_field_types t v payload fts
      | Some x \<Rightarrow>
          if \<not> matches_field_type x expected then Inl (payload_error
            (''Event payload field '' @ repr_str f @ '' for '' @ version_label t v
             @ '' must be '' @ expected))
          else check_field_types t v payload fts)"

definition validate_event ::
  "schema_map \<Rightarrow> string \<Rightarrow> int \<Rightarrow> string \<Rightarrow> (string \<times> pyval) list \<Rightarrow> unit result" where
  "validate_event ss t v tenant_id payload =
    (case ss (t, v) of
       None \<Rightarrow> Inl (payload_error (''Unregistered event type: '' @ version_label t v))
     | Some entry \<Rightarrow>
        (let sc = se_schema entry;
             missing = missing_fields (required_payload_fields sc) (map fst payload) in
         if missing \<noteq> [] then Inl (payload_error
           (''Event payload missing required fields for '' @ version_label t v @ '': ''
            @ repr_strs missing))
         else if dget payload ''tenant_id'' \<noteq> Some (PStr tenant_id)
           then Inl (payload_error ''Event payload tenant_id must match outbox tenant_id'')
         else check_field_types t v payload (sc_field_types sc)))"

section \<open>Dispatch\<close>

definition handler_route :: "event_envelope \<Rightarrow> string \<Rightarrow> string" where
  "handler_route e key =
     ''outbox:'' @ ev_type e @ '':v'' @ int_str (ev_version e) @ '':'' @ key"

text \<open>\<open>str(payload.get("actor_id") or "__system__")\<close>.\<close>

fun truthy :: "pyval \<Rightarrow> bool" where
  "truthy PNone = False"
| "truthy (PBool b) = b"
| "truthy (PInt n) = (n \<noteq> 0)"
| "truthy (PFloat m _) = (m \<noteq> 0)"
| "truthy (PStr s) = (s \<noteq> [])"
| "truthy (PList xs) = (xs \<noteq> [])"
| "truthy (PDict d) = (d \<noteq> [])"

definition event_actor :: "(pyval \<Rightarrow> string) \<Rightarrow> event_envelope \<Rightarrow> string" where
  "event_actor show e =
    (case dget (ev_payload e) ''actor_id'' of
       None \<Rightarrow> ''__system__''
     | Some v \<Rightarrow> if truthy v then show v else ''__system__'')"

definition handler_scope :: "(pyval \<Rightarrow> string) \<Rightarrow> event_envelope \<Rightarrow> string \<Rightarrow> idem_scope" where
  "handler_scope show e key =
    \<lparr>is_tenant_id = ev_tenant_id e, is_user_id = event_actor show e,
     is_route = handler_route e key, is_key = ev_id e\<rparr>"

definition handler_request :: "event_envelope \<Rightarrow> string \<Rightarrow> (string \<times> pyval) list" where
  "handler_request e key =
    [(''event_id'', PStr (ev_id e)), (''event_type'', PStr (ev_type e)),
     (''event_version'', PInt (ev_version e)), (''handler_key'', PStr key)]"

definition day_seconds :: int where
  "day_seconds = 24 * 60 * 60"

text \<open>
  The loop over the handlers of the event, each run under its own idempotency record. The
  default time to live is a day and the default lease a minute.
\<close>

definition dispatch_entry ::
  "(pyval \<Rightarrow> string) \<Rightarrow> ((string \<times> pyval) list \<Rightarrow> string) \<Rightarrow> datetime \<Rightarrow> event_envelope
    \<Rightarrow> string \<times> 'w handler \<Rightarrow> idem_table \<times> 'w \<Rightarrow> (idem_table \<times> 'w) \<times> unit result" where
  "dispatch_entry show digest clock e entry st =
     (let (key, handler) = entry; (tab, w) = st; k = handler_scope show e key in
      case claim k (digest (handler_request e key)) day_seconds 60 clock True tab of
        (tab, Inl err) \<Rightarrow> ((tab, w), Inl err)
      | (tab, Inr c) \<Rightarrow>
          if cl_outcome c = Replayed then ((tab, w), Inr ())
          else
            (case handler e (tab, w) of
               ((tab, w), Inl err) \<Rightarrow>
                 ((mark_failed k (exn_class err) (failure_body err) (cl_record c) tab, w), Inl err)
             | ((tab, w), Inr _) \<Rightarrow>
                 ((mark_succeeded k ''OK''
                     (PDict [(''event_id'', PStr (ev_id e)), (''handler_key'', PStr key)])
                     None (Some (ev_id e)) (cl_record c) tab, w), Inr ())))"

fun dispatch_entries ::
  "(pyval \<Rightarrow> string) \<Rightarrow> ((string \<times> pyval) list \<Rightarrow> string) \<Rightarrow> datetime \<Rightarrow> event_envelope
    \<Rightarrow> (string \<times> 'w handler) list \<Rightarrow> idem_table \<times> 'w \<Rightarrow> (idem_table \<times> 'w) \<times> unit result" where
  "dispatch_entries show digest clock e [] st = (st, Inr ())"
| "dispatch_entries show digest clock e (entry # entries) st =
     (case dispatch_entry show digest clock e entry st of
        (st, Inl err) \<Rightarrow> (st, Inl err)
      | (st, Inr _) \<Rightarrow> dispatch_entries show digest clock e entries st)"

definition no_handler :: "event_envelope \<Rightarrow> exn" where
  "no_handler e = app_error ''SYSTEM_ERROR''
     (''No handler registered for '' @ version_label (ev_type e) (ev_version e)) (Some 500) []"

definition dispatch ::
  "(pyval \<Rightarrow> string) \<Rightarrow> ((string \<times> pyval) list \<Rightarrow> string) \<Rightarrow> datetime \<Rightarrow> 'w event_registry
    \<Rightarrow> event_envelope \<Rightarrow> idem_table \<times> 'w \<Rightarrow> (idem_table \<times> 'w) \<times> unit result" where
  "dispatch show digest clock g e st =
    (case validate_event (er_schemas g) (ev_type e) (ev_version e) (ev_tenant_id e) (ev_payload e) of
       Inl err \<Rightarrow> (st, Inl err)
     | Inr _ \<Rightarrow>
        (let entries = er_handlers g (ev_type e, ev_version e) in
         if entries = [] then (st, Inl (no_handler e))
         else dispatch_entries show digest clock e entries st))"

section \<open>External effects\<close>

definition side_effect_route :: "event_envelope \<Rightarrow> string \<Rightarrow> string \<Rightarrow> string" where
  "side_effect_route e handler_key effect_key =
     ''outbox-side-effect:'' @ ev_type e @ '':v'' @ int_str (ev_version e) @ '':''
       @ handler_key @ '':'' @ effect_key"

definition side_effect_scope ::
  "(pyval \<Rightarrow> string) \<Rightarrow> event_envelope \<Rightarrow> string \<Rightarrow> string \<Rightarrow> idem_scope" where
  "side_effect_scope show e handler_key effect_key =
    \<lparr>is_tenant_id = ev_tenant_id e, is_user_id = event_actor show e,
     is_route = side_effect_route e handler_key effect_key, is_key = ev_id e\<rparr>"

definition side_effect_request ::
  "event_envelope \<Rightarrow> string \<Rightarrow> string \<Rightarrow> (string \<times> pyval) list option \<Rightarrow> (string \<times> pyval) list" where
  "side_effect_request e handler_key effect_key request_payload =
     handler_request e handler_key @
     [(''effect_key'', PStr effect_key),
      (''request_payload'', PDict (case request_payload of None \<Rightarrow> [] | Some d \<Rightarrow> d))]"

text \<open>
  \<open>run_event_side_effect\<close>; the context is the envelope and the handler's key, when one is set.
  The effect's answer is already in JSON form.
\<close>

definition run_event_side_effect ::
  "(pyval \<Rightarrow> string) \<Rightarrow> ((string \<times> pyval) list \<Rightarrow> string) \<Rightarrow> datetime
    \<Rightarrow> (event_envelope \<times> string) option \<Rightarrow> string \<Rightarrow> ('w \<Rightarrow> 'w \<times> pyval result)
    \<Rightarrow> (string \<times> pyval) list option \<Rightarrow> idem_table \<times> 'w
    \<Rightarrow> (idem_table \<times> 'w) \<times> (claim_outcome \<times> pyval) result" where
  "run_event_side_effect show digest clock context effect_key eff request_payload st =
    (case context of
       None \<Rightarrow> (st, Inl (app_error ''SYSTEM_ERROR''
         ''Event side effects require outbox dispatcher idempotency context'' (Some 500)
         [(''effect_key'', PStr effect_key)]))
     | Some (e, handler_key) \<Rightarrow>
        if blank effect_key then (st, Inl (app_error ''VALIDATION_ERROR''
          ''Event side effect key must be non-empty'' (Some 400) []))
        else
          (let (tab, w) = st; k = side_effect_scope show e handler_key effect_key in
           case claim k (digest (side_effect_request e handler_key effect_key request_payload))
                  day_seconds 60 clock True tab of
             (tab, Inl err) \<Rightarrow> ((tab, w), Inl err)
           | (tab, Inr c) \<Rightarrow>
               if cl_outcome c = Replayed
                 then ((tab, w), Inr (Replayed, ir_response_body (cl_record c)))
               else
                 (case eff w of
                    (w, Inl err) \<Rightarrow>
                      ((mark_failed k (exn_class err) (failure_body err) (cl_record c) tab, w), Inl err)
                  | (w, Inr body) \<Rightarrow>
                      ((mark_succeeded k ''OK'' body None (Some (ev_id e)) (cl_record c) tab, w),
                       Inr (Started, body)))))"

section \<open>Lemmas\<close>

lemma missing_fields_Nil: "missing_fields req present = [] \<longleftrightarrow> set req \<subseteq> set present"
proof -
  have "missing_fields req present = [] \<longleftrightarrow> set (missing_fields req present) = {}" by simp
  also have "\<dots> \<longleftrightarrow> set req \<subseteq> set present" unfolding missing_fields_def by auto
  finally show ?thesis .
qed

lemma check_type_changes_ok:
  "check_type_changes sc fts = Inr () \<Longrightarrow> (f, ty) \<in> set fts \<Longrightarrow>
     dget (sc_field_types sc) f \<in> {None, Some ty}"
  by (induction fts) (auto split: option.splits if_splits)

lemma check_compatible_ok:
  "check_compatible ss sc vs = Inr () \<Longrightarrow> v \<in> set vs \<Longrightarrow>
     \<exists>old. ss (sc_type sc, v) = Some old \<and>
       set (required_payload_fields (se_schema old)) \<subseteq> set (required_payload_fields sc) \<and>
       check_type_changes sc (sc_field_types (se_schema old)) = Inr ()"
  by (induction vs)
    (auto simp: Let_def missing_fields_Nil rbind_Inr_iff split: option.splits if_splits)

lemma check_field_types_ok:
  "check_field_types t v payload fts = Inr () \<longleftrightarrow>
     (\<forall>(f, ty) \<in> set fts. \<forall>x. dget payload f = Some x \<longrightarrow> matches_field_type x ty)"
proof (induction fts)
  case (Cons p fts)
  then show ?case by (cases p; cases "dget payload (fst p)") auto
qed simp

lemma validate_event_ok:
  "validate_event ss t v tenant payload = Inr () \<longleftrightarrow>
     (\<exists>entry. ss (t, v) = Some entry \<and>
       set (required_payload_fields (se_schema entry)) \<subseteq> set (map fst payload) \<and>
       dget payload ''tenant_id'' = Some (PStr tenant) \<and>
       (\<forall>(f, ty) \<in> set (sc_field_types (se_schema entry)).
          \<forall>x. dget payload f = Some x \<longrightarrow> matches_field_type x ty))"
  by (auto simp: validate_event_def Let_def missing_fields_Nil check_field_types_ok
      split: option.splits)

lemma validate_event_Inl: "validate_event ss t v tenant payload = Inl e \<Longrightarrow> \<exists>m. e = payload_error m"
proof -
  have "check_field_types t v payload fts = Inl e \<Longrightarrow> \<exists>m. e = payload_error m" for fts
    by (induction fts) (auto split: option.splits if_splits)
  then show "validate_event ss t v tenant payload = Inl e \<Longrightarrow> \<exists>m. e = payload_error m"
    by (auto simp: validate_event_def Let_def split: option.splits if_splits)
qed

lemma int_str_no_colon: "CHR '':'' \<notin> set (int_str i)"
proof -
  have "CHR '':'' \<notin> set (nat_str n)" for n
  proof
    assume "CHR '':'' \<in> set (nat_str n)"
    then obtain d where d: "d < 10" "CHR '':'' = digit d" using nat_str_chars by blast
    then have "of_char (CHR '':'') = 48 + d" by (metis of_char_digit)
    with d(1) show False by simp
  qed
  then show ?thesis by (simp add: int_str_def)
qed

text \<open>Two handlers of one event never share an idempotency record.\<close>

lemma handler_scope_inj: "handler_scope show e k1 = handler_scope show e k2 \<Longrightarrow> k1 = k2"
  by (simp add: handler_scope_def handler_route_def)

lemma handler_route_not_blank: "\<not> blank (handler_route e k)"
  by (simp add: handler_route_def is_space_def)

end
