(* ===== verification/Cache_Keys.thy ===== *)
theory Cache_Keys
  imports Errors
begin

text \<open>
  Cache keys (\<open>core/cache/keys.py\<close>): a key is a namespace and parts joined with a colon, and a
  segment that is blank or holds a colon is refused, so a key can be read back.
\<close>

definition bad_segment :: "string \<Rightarrow> bool" where
  "bad_segment s \<longleftrightarrow> blank s \<or> CHR '':'' \<in> set s"

definition cache_key :: "string \<Rightarrow> string list \<Rightarrow> string result" where
  "cache_key namespace parts =
    (let segments = namespace # parts in
     if filter bad_segment segments \<noteq> []
       then Inl (app_error ''VALIDATION_ERROR''
         (''Cache key segments must be non-empty and must not contain ''
            @ [CHR 0x27, CHR '':'', CHR 0x27]) (Some 400) [])
     else Inr (join '':'' segments))"

definition tenant_part :: "string \<Rightarrow> string" where
  "tenant_part tenant_id = ''tenant_id='' @ tenant_id"

definition tenant_settings_cache_key :: "string \<Rightarrow> string result" where
  "tenant_settings_cache_key tenant_id = cache_key ''tenant'' [tenant_part tenant_id, ''settings'']"

definition tenant_lifecycle_cache_key :: "string \<Rightarrow> string result" where
  "tenant_lifecycle_cache_key tenant_id = cache_key ''tenant'' [tenant_part tenant_id, ''lifecycle'']"

definition tenant_membership_cache_key :: "string \<Rightarrow> string \<Rightarrow> string result" where
  "tenant_membership_cache_key tenant_id user_id =
     cache_key ''tenant'' [tenant_part tenant_id, ''membership'', ''user_id='' @ user_id]"

definition permission_cache_key :: "string \<Rightarrow> string result" where
  "permission_cache_key tenant_id = cache_key ''permission'' [tenant_part tenant_id]"

definition permission_subject_cache_key :: "string \<Rightarrow> string \<Rightarrow> string \<Rightarrow> string result" where
  "permission_subject_cache_key tenant_id subject_type subject_id =
     cache_key ''permission'' [tenant_part tenant_id, ''subject_type='' @ subject_type,
       ''subject_id='' @ subject_id]"

definition permission_role_grant_cache_key :: "string \<Rightarrow> string \<Rightarrow> string result" where
  "permission_role_grant_cache_key tenant_id grant_id =
     cache_key ''permission'' [tenant_part tenant_id, ''grant_id='' @ grant_id]"

lemma cache_key_Inr:
  "cache_key n ps = Inr k \<longleftrightarrow>
     (\<forall>s \<in> set (n # ps). \<not> blank s \<and> CHR '':'' \<notin> set s) \<and> k = join '':'' (n # ps)"
  by (auto simp: cache_key_def bad_segment_def filter_empty_conv)

lemma cache_key_Inl:
  "(\<exists>s \<in> set (n # ps). blank s \<or> CHR '':'' \<in> set s) \<Longrightarrow>
     \<exists>m. cache_key n ps = Inl (validation_error m)"
  by (auto simp: cache_key_def bad_segment_def filter_empty_conv)

lemma cache_key_not_blank: "cache_key n ps = Inr k \<Longrightarrow> \<not> blank k"
  by (cases ps) (auto simp: cache_key_Inr)

lemma cache_key_inj:
  assumes "cache_key n ps = Inr k" and "cache_key m qs = Inr k"
  shows "n = m \<and> ps = qs"
proof -
  have "n # ps = m # qs"
    using assms by (intro join_inj [where c = "CHR '':''"]) (auto simp: cache_key_Inr)
  then show ?thesis by simp
qed

end
