(* ===== verification/Cache_Memory.thy ===== *)
theory Cache_Memory
  imports Cache_Keys
begin

text \<open>
  The cache: the contract its clients rely on (\<open>core/cache/provider.py\<close>) as two locales, and
  \<open>MemoryCacheProvider\<close> (\<open>core/cache/memory.py\<close>), which meets it. A method that reads the clock
  twice takes both readings. A missing value and a stored \<open>None\<close> read the same, as in the code.
  The JSON codec of \<open>get_json\<close> and \<open>set_json\<close>, the library's, is a pair of arguments.
\<close>

section \<open>State and operations\<close>

record cache_entry =
  ce_value :: pyval
  ce_expires :: "instant option"

type_synonym memory_cache = "string \<rightharpoonup> cache_entry"

definition validate_cache_key :: "string \<Rightarrow> unit result" where
  "validate_cache_key k =
    (if blank k then Inl (app_error ''VALIDATION_ERROR'' ''Cache key must be non-empty'' (Some 400) [])
     else Inr ())"

definition validate_ttl :: "int \<Rightarrow> unit result" where
  "validate_ttl ttl =
    (if ttl \<le> 0 then Inl (app_error ''VALIDATION_ERROR''
       ''Cache TTL must be greater than zero'' (Some 400) [])
     else Inr ())"

definition cache_expires_at :: "datetime \<Rightarrow> int option \<Rightarrow> bool \<Rightarrow> instant option result" where
  "cache_expires_at c ttl permanent =
    (if permanent then
       (if ttl \<noteq> None then Inl (app_error ''VALIDATION_ERROR''
          ''Permanent cache entries cannot also declare TTL'' (Some 400) [])
        else Inr None)
     else case ttl of
       None \<Rightarrow> Inl (app_error ''VALIDATION_ERROR''
         ''Cache entries require ttl_seconds unless permanent=True'' (Some 400) [])
     | Some n \<Rightarrow> rbind (validate_ttl n) (\<lambda>_. Inr (Some (to_utc c + secs n))))"

definition entry_expired :: "datetime \<Rightarrow> cache_entry \<Rightarrow> bool" where
  "entry_expired c e = (case ce_expires e of None \<Rightarrow> False | Some x \<Rightarrow> x \<le> to_utc c)"

definition cache_get :: "datetime \<Rightarrow> string \<Rightarrow> memory_cache \<Rightarrow> memory_cache \<times> pyval result" where
  "cache_get c k s =
    (case validate_cache_key k of
       Inl e \<Rightarrow> (s, Inl e)
     | Inr _ \<Rightarrow>
        (case s k of
           None \<Rightarrow> (s, Inr PNone)
         | Some e \<Rightarrow> if entry_expired c e then (s(k := None), Inr PNone)
                     else (s, Inr (ce_value e))))"

definition cache_set ::
  "datetime \<Rightarrow> string \<Rightarrow> pyval \<Rightarrow> int option \<Rightarrow> bool \<Rightarrow> memory_cache \<Rightarrow> memory_cache \<times> unit result" where
  "cache_set c k v ttl permanent s =
    (case validate_cache_key k of
       Inl e \<Rightarrow> (s, Inl e)
     | Inr _ \<Rightarrow>
        (case cache_expires_at c ttl permanent of
           Inl e \<Rightarrow> (s, Inl e)
         | Inr x \<Rightarrow> (s(k \<mapsto> \<lparr>ce_value = v, ce_expires = x\<rparr>), Inr ())))"

definition cache_delete :: "datetime \<Rightarrow> string \<Rightarrow> memory_cache \<Rightarrow> memory_cache \<times> bool result" where
  "cache_delete c k s =
    (case cache_get c k s of
       (s', Inl e) \<Rightarrow> (s', Inl e)
     | (s', Inr _) \<Rightarrow> (s'(k := None), Inr (s' k \<noteq> None)))"

definition cache_exists :: "datetime \<Rightarrow> string \<Rightarrow> memory_cache \<Rightarrow> memory_cache \<times> bool result" where
  "cache_exists c k s =
    (case cache_get c k s of
       (s', Inl e) \<Rightarrow> (s', Inl e)
     | (s', Inr v) \<Rightarrow> (s', Inr (v \<noteq> PNone)))"

definition cache_incr ::
  "datetime \<Rightarrow> datetime \<Rightarrow> string \<Rightarrow> int \<Rightarrow> int option \<Rightarrow> bool \<Rightarrow> memory_cache
    \<Rightarrow> memory_cache \<times> int result" where
  "cache_incr c1 c2 k amount ttl permanent s =
    (case cache_get c1 k s of
       (s', Inl e) \<Rightarrow> (s', Inl e)
     | (s', Inr current) \<Rightarrow>
         if current = PNone then
           (case cache_expires_at c2 ttl permanent of
              Inl e \<Rightarrow> (s', Inl e)
            | Inr x \<Rightarrow> (s'(k \<mapsto> \<lparr>ce_value = PInt amount, ce_expires = x\<rparr>), Inr amount))
         else
           (case as_int current of
              None \<Rightarrow> (s', Inl (app_error ''CONFLICT'' ''Cache value is not an integer'' (Some 409) []))
            | Some n \<Rightarrow>
                (s'(k \<mapsto> \<lparr>ce_value = PInt (n + amount), ce_expires = ce_expires (the (s' k))\<rparr>),
                 Inr (n + amount))))"

definition cache_expire ::
  "datetime \<Rightarrow> datetime \<Rightarrow> string \<Rightarrow> int \<Rightarrow> memory_cache \<Rightarrow> memory_cache \<times> bool result" where
  "cache_expire c1 c2 k ttl s =
    (case rbind (validate_cache_key k) (\<lambda>_. validate_ttl ttl) of
       Inl e \<Rightarrow> (s, Inl e)
     | Inr _ \<Rightarrow>
        (case s k of
           None \<Rightarrow> (s(k := None), Inr False)
         | Some e \<Rightarrow>
             if entry_expired c1 e then (s(k := None), Inr False)
             else (s(k \<mapsto> e\<lparr>ce_expires := Some (to_utc c2 + secs ttl)\<rparr>), Inr True)))"

definition cache_get_json ::
  "(pyval \<Rightarrow> pyval result) \<Rightarrow> datetime \<Rightarrow> string \<Rightarrow> memory_cache \<Rightarrow> memory_cache \<times> pyval result" where
  "cache_get_json loads c k s =
    (case cache_get c k s of
       (s', Inl e) \<Rightarrow> (s', Inl e)
     | (s', Inr v) \<Rightarrow> (s', if v = PNone then Inr PNone else loads v))"

definition cache_set_json ::
  "(pyval \<Rightarrow> string) \<Rightarrow> datetime \<Rightarrow> string \<Rightarrow> pyval \<Rightarrow> int option \<Rightarrow> bool \<Rightarrow> memory_cache
    \<Rightarrow> memory_cache \<times> unit result" where
  "cache_set_json dumps c k v ttl permanent s = cache_set c k (PStr (dumps v)) ttl permanent s"

section \<open>The contracts of the clients\<close>

text \<open>\<open>lookup t s k\<close> is the value a client sees at the time \<open>t\<close>.\<close>

locale cache_store =
  fixes lookup :: "instant \<Rightarrow> 's \<Rightarrow> string \<Rightarrow> pyval option"
    and delete :: "instant \<Rightarrow> string \<Rightarrow> 's \<Rightarrow> 's \<times> bool result"
  assumes delete_answer: "\<not> blank k \<Longrightarrow> snd (delete t k s) = Inr (lookup t s k \<noteq> None)"
    and delete_lookup: "\<not> blank k \<Longrightarrow> lookup t (fst (delete t k s)) = (lookup t s)(k := None)"

text \<open>
  A counter: a first increment starts it and fixes when it ends, and until then increments add
  up and leave its end alone. \<open>counts s k n x\<close> says that \<open>k\<close> holds the count \<open>n\<close> until \<open>x\<close>.
\<close>

locale cache_counter = cache_store lookup delete
  for lookup :: "instant \<Rightarrow> 's \<Rightarrow> string \<Rightarrow> pyval option"
    and delete :: "instant \<Rightarrow> string \<Rightarrow> 's \<Rightarrow> 's \<times> bool result" +
  fixes counts :: "'s \<Rightarrow> string \<Rightarrow> int \<Rightarrow> instant \<Rightarrow> bool"
    and incr :: "instant \<Rightarrow> string \<Rightarrow> int \<Rightarrow> int \<Rightarrow> 's \<Rightarrow> 's \<times> int result"
  assumes incr_starts: "\<not> blank k \<Longrightarrow> 0 < ttl \<Longrightarrow> lookup t s k = None \<Longrightarrow>
      snd (incr t k a ttl s) = Inr a \<and> counts (fst (incr t k a ttl s)) k a (t + secs ttl)"
    and incr_adds: "\<not> blank k \<Longrightarrow> counts s k n x \<Longrightarrow> t < x \<Longrightarrow>
      snd (incr t k a ttl s) = Inr (n + a) \<and> counts (fst (incr t k a ttl s)) k (n + a) x"
    and incr_other: "k' \<noteq> k \<Longrightarrow> counts s k' n x \<Longrightarrow> counts (fst (incr t k a ttl s)) k' n x"

section \<open>The memory cache meets them\<close>

definition cache_lookup :: "instant \<Rightarrow> memory_cache \<Rightarrow> string \<Rightarrow> pyval option" where
  "cache_lookup t s k =
    (case s k of None \<Rightarrow> None
     | Some e \<Rightarrow> if entry_expired (Naive t) e then None else Some (ce_value e))"

definition cache_counts :: "memory_cache \<Rightarrow> string \<Rightarrow> int \<Rightarrow> instant \<Rightarrow> bool" where
  "cache_counts s k n x \<longleftrightarrow> s k = Some \<lparr>ce_value = PInt n, ce_expires = Some x\<rparr>"

definition cache_delete_at :: "instant \<Rightarrow> string \<Rightarrow> memory_cache \<Rightarrow> memory_cache \<times> bool result" where
  "cache_delete_at t = cache_delete (Naive t)"

definition cache_incr_at ::
  "instant \<Rightarrow> string \<Rightarrow> int \<Rightarrow> int \<Rightarrow> memory_cache \<Rightarrow> memory_cache \<times> int result" where
  "cache_incr_at t k a ttl = cache_incr (Naive t) (Naive t) k a (Some ttl) False"

lemmas cache_defs = cache_get_def cache_set_def cache_delete_def cache_exists_def
  cache_incr_def cache_expire_def validate_cache_key_def validate_ttl_def cache_expires_at_def

interpretation memory_cache_store: cache_store cache_lookup cache_delete_at
  by unfold_locales
    (auto simp: cache_delete_at_def cache_defs cache_lookup_def fun_eq_iff split: option.splits)

interpretation memory_cache_counter:
  cache_counter cache_lookup cache_delete_at cache_counts cache_incr_at
  by unfold_locales
    (auto simp: cache_incr_at_def cache_defs cache_lookup_def cache_counts_def entry_expired_def
      split: option.splits if_splits)

text \<open>A value that was set is read back until its time to live has passed, and not after.\<close>

lemma cache_set_get:
  assumes "\<not> blank k" and "0 < ttl"
  shows "snd (cache_get c' k (fst (cache_set c k v (Some ttl) False s))) =
     Inr (if to_utc c' < to_utc c + secs ttl then v else PNone)"
  using assms by (simp add: cache_defs entry_expired_def)

lemma cache_set_permanent:
  assumes "\<not> blank k"
  shows "snd (cache_get c' k (fst (cache_set c k v None True s))) = Inr v"
  using assms by (simp add: cache_defs entry_expired_def)

end
