(* ===== verification/Cache_Invalidation.thy ===== *)
theory Cache_Invalidation
  imports Events Cache_Memory
begin

text \<open>
  Cache invalidation by events (\<open>core/cache/invalidation.py\<close>): each rule names an event and the
  cache keys that the event makes stale, and the handler deletes the keys of every rule that
  matches. A rule's key resolver may raise, and then nothing is deleted. The handler is
  written over any cache store; it deletes at one clock reading.
\<close>

record invalidation_rule =
  vr_event_type :: string
  vr_event_version :: int
  vr_keys :: "event_envelope \<Rightarrow> string list result"
  vr_reason :: string

definition rule_matches :: "invalidation_rule \<Rightarrow> event_envelope \<Rightarrow> bool" where
  "rule_matches r e \<longleftrightarrow> ev_type e = vr_event_type r \<and> ev_version e = vr_event_version r"

record invalidation_result =
  vx_event_type :: string
  vx_event_version :: int
  vx_matched :: nat
  vx_deleted :: "string list"
  vx_missing :: "string list"

section \<open>The keys of an event\<close>

definition payload_str :: "event_envelope \<Rightarrow> string \<Rightarrow> string option" where
  "payload_str e k =
    (case dget (ev_payload e) k of
       Some (PStr s) \<Rightarrow> if blank s then None else Some s
     | _ \<Rightarrow> None)"

text \<open>Key functions are called in the order of the list; the first that raises ends it.\<close>

fun all_ok :: "'a result list \<Rightarrow> 'a list result" where
  "all_ok [] = Inr []"
| "all_ok (r # rs) = rbind r (\<lambda>x. rbind (all_ok rs) (\<lambda>xs. Inr (x # xs)))"

definition role_grant_keys :: "event_envelope \<Rightarrow> string list result" where
  "role_grant_keys e =
    (let t = ev_tenant_id e in
     all_ok ([permission_cache_key t]
       @ (case payload_str e ''grant_id'' of
            None \<Rightarrow> []
          | Some g \<Rightarrow> [permission_role_grant_cache_key t g])
       @ (case (payload_str e ''subject_type'', payload_str e ''subject_id'') of
            (Some ty, Some s) \<Rightarrow> [permission_subject_cache_key t ty s]
          | _ \<Rightarrow> [])))"

definition lifecycle_keys :: "event_envelope \<Rightarrow> string list result" where
  "lifecycle_keys e =
    (let t = ev_tenant_id e in
     all_ok [tenant_settings_cache_key t, tenant_lifecycle_cache_key t, permission_cache_key t])"

definition membership_keys :: "event_envelope \<Rightarrow> string list result" where
  "membership_keys e =
    (let t = ev_tenant_id e in
     all_ok ([permission_cache_key t]
       @ (case payload_str e ''user_id'' of
            None \<Rightarrow> []
          | Some u \<Rightarrow> [tenant_membership_cache_key t u, permission_subject_cache_key t ''user'' u])))"

definition setting_value_keys :: "event_envelope \<Rightarrow> string list result" where
  "setting_value_keys e =
    (let s = (case payload_str e ''scope_id'' of None \<Rightarrow> ev_tenant_id e | Some s \<Rightarrow> s) in
     if s \<noteq> [] then all_ok [tenant_settings_cache_key s] else Inr [])"

definition lifecycle_events :: "string list" where
  "lifecycle_events = [''tenant.created'', ''tenant.suspended'', ''tenant.reactivated'',
     ''tenant.deleting'', ''tenant.archived'', ''tenant.deleted'']"

definition default_rules :: "invalidation_rule list" where
  "default_rules =
    [\<lparr>vr_event_type = ''permissions.role_grant_changed'', vr_event_version = 1,
      vr_keys = role_grant_keys, vr_reason = ''permission_facts_changed''\<rparr>,
     \<lparr>vr_event_type = ''tenant.member_activated'', vr_event_version = 1,
      vr_keys = membership_keys, vr_reason = ''tenant_membership_changed''\<rparr>,
     \<lparr>vr_event_type = ''platform_settings.value_changed'', vr_event_version = 1,
      vr_keys = setting_value_keys, vr_reason = ''runtime_setting_changed''\<rparr>]
    @ map (\<lambda>t. \<lparr>vr_event_type = t, vr_event_version = 1,
             vr_keys = lifecycle_keys, vr_reason = ''tenant_lifecycle_changed''\<rparr>) lifecycle_events"

section \<open>The handler\<close>

fun delete_keys ::
  "(string \<Rightarrow> 's \<Rightarrow> 's \<times> bool result) \<Rightarrow> string list \<Rightarrow> 's \<Rightarrow> string list \<Rightarrow> string list
    \<Rightarrow> 's \<times> (string list \<times> string list) result" where
  "delete_keys del [] s deleted missing = (s, Inr (deleted, missing))"
| "delete_keys del (k # ks) s deleted missing =
     (case del k s of
        (s, Inl e) \<Rightarrow> (s, Inl e)
      | (s, Inr True) \<Rightarrow> delete_keys del ks s (deleted @ [k]) missing
      | (s, Inr False) \<Rightarrow> delete_keys del ks s deleted (missing @ [k]))"

definition event_keys :: "invalidation_rule list \<Rightarrow> event_envelope \<Rightarrow> string list result" where
  "event_keys rules e =
     rbind (all_ok (map (\<lambda>r. vr_keys r e) (filter (\<lambda>r. rule_matches r e) rules)))
       (\<lambda>kss. Inr (dedupe_from [] (concat kss)))"

definition handle_invalidation ::
  "(string \<Rightarrow> 's \<Rightarrow> 's \<times> bool result) \<Rightarrow> invalidation_rule list \<Rightarrow> event_envelope \<Rightarrow> 's
    \<Rightarrow> 's \<times> invalidation_result result" where
  "handle_invalidation del rules e s =
    (case event_keys rules e of
       Inl err \<Rightarrow> (s, Inl err)
     | Inr keys \<Rightarrow>
        (case delete_keys del keys s [] [] of
           (s, Inl err) \<Rightarrow> (s, Inl err)
         | (s, Inr (deleted, missing)) \<Rightarrow>
             (s, Inr \<lparr>vx_event_type = ev_type e, vx_event_version = ev_version e,
                vx_matched = length (filter (\<lambda>r. rule_matches r e) rules),
                vx_deleted = deleted, vx_missing = missing\<rparr>)))"

text \<open>The (event, version) pairs to register the handler for, in first-seen order.\<close>

definition event_pairs :: "invalidation_rule list \<Rightarrow> (string \<times> int) list" where
  "event_pairs rules = dedupe_from [] (map (\<lambda>r. (vr_event_type r, vr_event_version r)) rules)"

fun register_pairs ::
  "'w handler \<Rightarrow> (string \<times> int) list \<Rightarrow> 'w event_registry \<Rightarrow> 'w event_registry \<times> unit result" where
  "register_pairs h [] g = (g, Inr ())"
| "register_pairs h ((t, v) # ps) g =
     (case register_handler t v (''core.cache.invalidate:'' @ t @ '':v'' @ int_str v) h g of
        (g, Inl e) \<Rightarrow> (g, Inl e)
      | (g, Inr _) \<Rightarrow> register_pairs h ps g)"

section \<open>Lemmas\<close>

lemma all_ok_Inr: "all_ok rs = Inr xs \<longleftrightarrow> rs = map Inr xs"
  by (induction rs arbitrary: xs) (auto simp: rbind_Inr_iff)

lemma event_keys_Inr:
  assumes "event_keys rules e = Inr ks"
  shows "distinct ks"
    and "k \<in> set ks \<longleftrightarrow>
      (\<exists>r \<in> set rules. rule_matches r e \<and> (\<exists>xs. vr_keys r e = Inr xs \<and> k \<in> set xs))"
proof -
  let ?rs = "filter (\<lambda>r. rule_matches r e) rules"
  obtain kss where kss: "map (\<lambda>r. vr_keys r e) ?rs = map Inr kss" and ks: "ks = dedupe_from [] (concat kss)"
    using assms by (auto simp: event_keys_def rbind_Inr_iff all_ok_Inr)
  show "distinct ks" by (simp add: ks distinct_dedupe_from)
  have mem: "Inr xs \<in> (\<lambda>r. vr_keys r e) ` set ?rs \<longleftrightarrow> xs \<in> set kss" for xs
    using arg_cong [OF kss, of set] by (auto simp: image_iff)
  show "k \<in> set ks \<longleftrightarrow>
      (\<exists>r \<in> set rules. rule_matches r e \<and> (\<exists>xs. vr_keys r e = Inr xs \<and> k \<in> set xs))"
    using mem by (auto simp: ks set_dedupe_from image_iff) metis+
qed

text \<open>The keys of the default rules are cache keys, so no deletion can be refused.\<close>

lemmas key_defs = tenant_settings_cache_key_def tenant_lifecycle_cache_key_def
  tenant_membership_cache_key_def permission_cache_key_def permission_subject_cache_key_def
  permission_role_grant_cache_key_def

lemma all_ok_cache_keys:
  "all_ok rs = Inr xs \<Longrightarrow> \<forall>r \<in> set rs. \<exists>n ps. r = cache_key n ps \<Longrightarrow> k \<in> set xs \<Longrightarrow> \<not> blank k"
  by (force simp: all_ok_Inr dest: cache_key_not_blank [OF sym])

lemma default_rule_keys:
  assumes "r \<in> set default_rules" and "vr_keys r e = Inr xs" and "k \<in> set xs"
  shows "\<not> blank k"
proof -
  have "\<not> blank k" if "role_grant_keys e = Inr xs"
    using that unfolding role_grant_keys_def Let_def
    by (rule all_ok_cache_keys [OF _ _ assms(3)]) (auto simp: key_defs split: option.splits)
  moreover have "\<not> blank k" if "lifecycle_keys e = Inr xs"
    using that unfolding lifecycle_keys_def Let_def
    by (rule all_ok_cache_keys [OF _ _ assms(3)]) (auto simp: key_defs)
  moreover have "\<not> blank k" if "membership_keys e = Inr xs"
    using that unfolding membership_keys_def Let_def
    by (rule all_ok_cache_keys [OF _ _ assms(3)]) (auto simp: key_defs split: option.splits)
  moreover have "\<not> blank k" if setting: "setting_value_keys e = Inr xs"
  proof -
    have "xs \<noteq> []" using assms(3) by auto
    then obtain s where "all_ok [tenant_settings_cache_key s] = Inr xs"
      using setting by (auto simp: setting_value_keys_def Let_def simp del: all_ok.simps split: if_splits)
    then show ?thesis
      by (rule all_ok_cache_keys [OF _ _ assms(3)]) (auto simp: key_defs)
  qed
  ultimately show ?thesis using assms(1,2) by (auto simp: default_rules_def)
qed

lemma default_event_keys:
  "event_keys default_rules e = Inr ks \<Longrightarrow> k \<in> set ks \<Longrightarrow> \<not> blank k"
  by (auto simp: event_keys_Inr(2) dest: default_rule_keys)

context cache_store
begin

text \<open>
  The loop deletes every key it is given, leaves the rest of the cache alone, and says of each
  key whether it was there.
\<close>

lemma delete_keys_spec:
  assumes "\<forall>k \<in> set ks. \<not> blank k" and "distinct ks"
  shows "\<exists>s'. delete_keys (delete t) ks s ds ms =
       (s', Inr (ds @ filter (\<lambda>k. lookup t s k \<noteq> None) ks,
                 ms @ filter (\<lambda>k. lookup t s k = None) ks)) \<and>
     lookup t s' = (\<lambda>k. if k \<in> set ks then None else lookup t s k)"
  using assms
proof (induction ks arbitrary: s ds ms)
  case (Cons k ks)
  obtain s1 b where d: "delete t k s = (s1, b)" by (cases "delete t k s")
  have k: "\<not> blank k" "k \<notin> set ks" using Cons.prems by auto
  have b: "b = Inr (lookup t s k \<noteq> None)" using delete_answer [OF k(1), of t s] d by simp
  have s1: "lookup t s1 = (lookup t s)(k := None)" using delete_lookup [OF k(1), of t s] d by simp
  have same: "filter (\<lambda>k. lookup t s1 k \<noteq> None) ks = filter (\<lambda>k. lookup t s k \<noteq> None) ks"
    "filter (\<lambda>k. lookup t s1 k = None) ks = filter (\<lambda>k. lookup t s k = None) ks"
    using k(2) by (auto simp: s1 intro!: filter_cong)
  have IH: "\<exists>s'. delete_keys (delete t) ks s1 ds' ms' =
       (s', Inr (ds' @ filter (\<lambda>k. lookup t s k \<noteq> None) ks,
                 ms' @ filter (\<lambda>k. lookup t s k = None) ks)) \<and>
     lookup t s' = (\<lambda>k. if k \<in> set ks then None else lookup t s1 k)" for ds' ms'
    using Cons.IH [of s1 ds' ms'] Cons.prems unfolding same by simp
  show ?case
  proof (cases "lookup t s k = None")
    case True
    then show ?thesis using IH [of ds "ms @ [k]"] by (auto simp: d b s1 fun_eq_iff)
  next
    case False
    then show ?thesis using IH [of "ds @ [k]" ms] by (auto simp: d b s1 fun_eq_iff)
  qed
qed (simp add: fun_eq_iff)

text \<open>So an event of the default rules removes exactly its keys and reports which were there.\<close>

lemma handle_default:
  assumes "event_keys default_rules e = Inr ks"
  shows "\<exists>s' res. handle_invalidation (delete t) default_rules e s = (s', Inr res) \<and>
     vx_deleted res = filter (\<lambda>k. lookup t s k \<noteq> None) ks \<and>
     vx_missing res = filter (\<lambda>k. lookup t s k = None) ks \<and>
     lookup t s' = (\<lambda>k. if k \<in> set ks then None else lookup t s k)"
  using delete_keys_spec [of ks t s "[]" "[]"] default_event_keys [OF assms] event_keys_Inr(1) [OF assms]
  by (auto simp: handle_invalidation_def assms)

end

end
