(* ===== verification/Effects.thy ===== *)
theory Effects
  imports Errors
begin

text \<open>
  The two sinks core services write to when they are configured: the metrics registry and the
  audit recorder (\<open>core/audit.py\<close>). Both are optional; a service that has neither writes nothing.
  The writes are kept as a list, in the order the code makes them.
\<close>

record audit_event =
  au_action :: string
  au_resource_type :: string
  au_resource_id :: "string option"
  au_result :: string
  au_tenant :: "string option"
  au_actor :: "string option"
  au_reason :: "string option"
  au_policy_version :: "int option"
  au_request_id :: "string option"
  au_payload :: "(string \<times> pyval) list"

datatype effect =
    Metric string "(string \<times> string) list"
  | Gauge string int
  | Counted string "(string \<times> string) list" int
  | Audit audit_event

record sinks =
  has_metrics :: bool
  has_audit :: bool

definition emit_metric :: "sinks \<Rightarrow> string \<Rightarrow> (string \<times> string) list \<Rightarrow> effect list" where
  "emit_metric k name labels = (if has_metrics k then [Metric name labels] else [])"

definition emit_audit :: "sinks \<Rightarrow> audit_event \<Rightarrow> effect list" where
  "emit_audit k e = (if has_audit k then [Audit e] else [])"

end
