(* ===== verification/Rate_Limit.thy ===== *)
theory Rate_Limit
  imports Cache_Memory Effects
begin

text \<open>
  Rate limiting: identities, rules and their registry (\<open>core/rate_limit/rules.py\<close>), the
  fixed-window limiter over a cache (\<open>CacheRateLimiter\<close> in \<open>core/rate_limit/provider.py\<close>) and
  the decision of the middleware (\<open>core/rate_limit/middleware.py\<close>). The limiter takes the
  cache's increment as an argument, which may raise. \<open>SlidingWindowRateLimiter\<close>, which computes
  with binary floats, is not modelled.
\<close>

section \<open>Rules and identities\<close>

datatype dimension = Global | Tenant_Id | User_Id | Ip_Address | Route

fun dimension_name :: "dimension \<Rightarrow> string" where
  "dimension_name Global = ''global''"
| "dimension_name Tenant_Id = ''tenant_id''"
| "dimension_name User_Id = ''user_id''"
| "dimension_name Ip_Address = ''ip_address''"
| "dimension_name Route = ''route''"

record rl_identity =
  ri_tenant_id :: "string option"
  ri_user_id :: "string option"
  ri_ip_address :: "string option"
  ri_route :: "string option"

fun identity_attr :: "rl_identity \<Rightarrow> dimension \<Rightarrow> string option" where
  "identity_attr i Global = None"
| "identity_attr i Tenant_Id = ri_tenant_id i"
| "identity_attr i User_Id = ri_user_id i"
| "identity_attr i Ip_Address = ri_ip_address i"
| "identity_attr i Route = ri_route i"

definition value_for :: "rl_identity \<Rightarrow> dimension \<Rightarrow> string result" where
  "value_for i d =
    (if d = Global then Inr ''all''
     else case identity_attr i d of
       None \<Rightarrow> Inl (app_error ''VALIDATION_ERROR''
         (''Rate limit identity missing '' @ dimension_name d) (Some 400) [])
     | Some v \<Rightarrow>
         if blank v then Inl (app_error ''VALIDATION_ERROR''
           (''Rate limit identity missing '' @ dimension_name d) (Some 400) [])
         else Inr v)"

record rl_rule =
  rr_name :: string
  rr_limit :: int
  rr_window_seconds :: int
  rr_dimensions :: "dimension list"
  rr_fail_closed :: bool

definition check_rate_rule :: "rl_rule \<Rightarrow> rl_rule result" where
  "check_rate_rule r =
    (if blank (rr_name r)
       then Inl (app_error ''VALIDATION_ERROR'' ''Rate limit rule name is required'' (Some 400) [])
     else if CHR '':'' \<in> set (rr_name r)
       then Inl (app_error ''VALIDATION_ERROR'' (''Rate limit rule name must not contain ''
              @ [CHR 0x27, CHR '':'', CHR 0x27]) (Some 400) [])
     else if rr_limit r \<le> 0
       then Inl (app_error ''VALIDATION_ERROR''
              ''Rate limit rule limit must be greater than zero'' (Some 400) [])
     else if rr_window_seconds r \<le> 0
       then Inl (app_error ''VALIDATION_ERROR''
              ''Rate limit rule window must be greater than zero'' (Some 400) [])
     else if rr_dimensions r = []
       then Inl (app_error ''VALIDATION_ERROR''
              ''Rate limit rule must declare at least one dimension'' (Some 400) [])
     else Inr r)"

definition key_part :: "rl_identity \<Rightarrow> dimension \<Rightarrow> string result" where
  "key_part i d = rbind (value_for i d) (\<lambda>v. Inr (dimension_name d @ ''='' @ v))"

definition rate_key_for :: "rl_rule \<Rightarrow> rl_identity \<Rightarrow> string result" where
  "rate_key_for r i =
     rbind (rmap (key_part i) (rr_dimensions r)) (\<lambda>parts. cache_key ''rate'' (rr_name r # parts))"

record rl_registry =
  rg_default_rule :: "rl_rule option"
  rg_route_rules :: "string \<rightharpoonup> rl_rule"

definition register_route :: "string \<Rightarrow> rl_rule \<Rightarrow> rl_registry \<Rightarrow> rl_registry \<times> unit result" where
  "register_route route rule g =
    (if blank route
       then (g, Inl (app_error ''VALIDATION_ERROR'' ''Rate limit route is required'' (Some 400) []))
     else if rg_route_rules g route \<noteq> None
       then (g, Inl (app_error ''VALIDATION_ERROR'' (''Duplicate rate limit route: '' @ route)
              (Some 400) []))
     else (g\<lparr>rg_route_rules := (rg_route_rules g)(route \<mapsto> rule)\<rparr>, Inr ()))"

definition find_rate_rule :: "rl_registry \<Rightarrow> string \<Rightarrow> rl_rule option" where
  "find_rate_rule g route =
    (case rg_route_rules g route of Some r \<Rightarrow> Some r | None \<Rightarrow> rg_default_rule g)"

definition resolve_rate_rule :: "rl_registry \<Rightarrow> string \<Rightarrow> rl_rule result" where
  "resolve_rate_rule g route =
    (case rg_route_rules g route of
       Some r \<Rightarrow> Inr r
     | None \<Rightarrow>
        (case rg_default_rule g of
           None \<Rightarrow> Inl (app_error ''VALIDATION_ERROR''
             (''No rate limit rule registered for route: '' @ route) (Some 400) [])
         | Some r \<Rightarrow> Inr r))"

section \<open>The limiter\<close>

record rl_decision =
  rd_allowed :: bool
  rd_rule_name :: string
  rd_key :: string
  rd_limit :: int
  rd_current :: int
  rd_remaining :: int
  rd_retry_after :: int
  rd_reason :: string
  rd_fail_open :: bool

definition decision_headers :: "rl_decision \<Rightarrow> (string \<times> string) list" where
  "decision_headers d =
    (if rd_allowed d then [] else [(''Retry-After'', int_str (rd_retry_after d))])"

definition rate_details :: "rl_decision \<Rightarrow> (string \<times> pyval) list" where
  "rate_details d =
    [(''rule'', PStr (rd_rule_name d)), (''limit'', PInt (rd_limit d)),
     (''current'', PInt (rd_current d)), (''remaining'', PInt (rd_remaining d)),
     (''retry_after'', PInt (rd_retry_after d)), (''key'', PStr (rd_key d))]
    @ (if rd_reason d \<noteq> ''limit_exceeded'' then [(''reason'', PStr (rd_reason d))] else [])"

definition record_hit :: "sinks \<Rightarrow> rl_decision \<Rightarrow> rl_identity \<Rightarrow> effect list" where
  "record_hit sk d i =
    emit_metric sk ''rate_limit_hits_total''
      [(''reason'', rd_reason d),
       (''route'', case ri_route i of None \<Rightarrow> ''unknown'' | Some r \<Rightarrow> if r = [] then ''unknown'' else r),
       (''rule'', rd_rule_name d)]
    @ emit_audit sk
      \<lparr>au_action = ''rate_limit.hit'', au_resource_type = ''route'', au_resource_id = ri_route i,
       au_result = ''denied'', au_tenant = ri_tenant_id i, au_actor = ri_user_id i,
       au_reason = Some (rd_reason d), au_policy_version = None, au_request_id = None,
       au_payload = [(''rule'', PStr (rd_rule_name d)), (''key'', PStr (rd_key d)),
         (''limit'', PInt (rd_limit d)), (''current'', PInt (rd_current d)),
         (''retry_after'', PInt (rd_retry_after d))]\<rparr>"

definition cache_failure_decision ::
  "sinks \<Rightarrow> rl_rule \<Rightarrow> rl_identity \<Rightarrow> string \<Rightarrow> effect list \<times> rl_decision" where
  "cache_failure_decision sk r i key =
    (let d = \<lparr>rd_allowed = (\<not> rr_fail_closed r), rd_rule_name = rr_name r, rd_key = key,
              rd_limit = rr_limit r, rd_current = 0,
              rd_remaining = (if \<not> rr_fail_closed r then rr_limit r else 0),
              rd_retry_after = (if \<not> rr_fail_closed r then 0 else rr_window_seconds r),
              rd_reason = ''cache_unavailable'', rd_fail_open = (\<not> rr_fail_closed r)\<rparr>
     in (if rd_allowed d then [] else record_hit sk d i, d))"

definition window_decision :: "rl_rule \<Rightarrow> string \<Rightarrow> int \<Rightarrow> rl_decision" where
  "window_decision r key current =
    (let allowed = (current \<le> rr_limit r) in
     \<lparr>rd_allowed = allowed, rd_rule_name = rr_name r, rd_key = key, rd_limit = rr_limit r,
      rd_current = current, rd_remaining = max (rr_limit r - current) 0,
      rd_retry_after = (if allowed then 0 else rr_window_seconds r),
      rd_reason = (if allowed then ''allowed'' else ''limit_exceeded''), rd_fail_open = False\<rparr>)"

definition rate_check ::
  "(string \<Rightarrow> int \<Rightarrow> int \<Rightarrow> 's \<Rightarrow> 's \<times> int result) \<Rightarrow> sinks \<Rightarrow> rl_rule \<Rightarrow> rl_identity \<Rightarrow> int \<Rightarrow> 's
    \<Rightarrow> 's \<times> effect list \<times> rl_decision result" where
  "rate_check inc sk r i amount s =
    (if amount \<le> 0
       then (s, [], Inl (app_error ''VALIDATION_ERROR''
              ''Rate limit amount must be greater than zero'' (Some 400) []))
     else case rate_key_for r i of
       Inl e \<Rightarrow> (s, [], Inl e)
     | Inr key \<Rightarrow>
        (case inc key amount (rr_window_seconds r) s of
           (s', Inl _) \<Rightarrow>
             (let (eff, d) = cache_failure_decision sk r i key in (s', eff, Inr d))
         | (s', Inr current) \<Rightarrow>
             (let d = window_decision r key current in
              (s', if rd_allowed d then [] else record_hit sk d i, Inr d))))"

definition rate_require ::
  "(string \<Rightarrow> int \<Rightarrow> int \<Rightarrow> 's \<Rightarrow> 's \<times> int result) \<Rightarrow> sinks \<Rightarrow> rl_rule \<Rightarrow> rl_identity \<Rightarrow> int \<Rightarrow> 's
    \<Rightarrow> 's \<times> effect list \<times> rl_decision result" where
  "rate_require inc sk r i amount s =
    (case rate_check inc sk r i amount s of
       (s', eff, Inl e) \<Rightarrow> (s', eff, Inl e)
     | (s', eff, Inr d) \<Rightarrow>
         (s', eff, if rd_allowed d then Inr d
           else Inl (app_error ''RATE_LIMITED'' ''Rate limit exceeded'' (Some 429) (rate_details d))))"

section \<open>The middleware\<close>

text \<open>
  What the middleware does with a request: pass it on, answer it, or let an exception through.
  The request is its method, path and client host, and the request context.
\<close>

record rl_request =
  rq_method :: string
  rq_path :: string
  rq_client_host :: "string option"
  rq_context :: "(string \<times> string option \<times> string option) option"
    \<comment> \<open>request id, tenant id, user id\<close>
  rq_request_id_header :: "string option"
  rq_always_200 :: bool

datatype rl_outcome =
    Call_Next
  | Respond int "(string \<times> string) list" "(string \<times> pyval) list"
  | Raise exn

definition route_key :: "rl_request \<Rightarrow> string" where
  "route_key q = rq_method q @ '' '' @ rq_path q"

definition identity_for :: "rl_request \<Rightarrow> string \<Rightarrow> rl_identity" where
  "identity_for q route =
    \<lparr>ri_tenant_id = (case rq_context q of None \<Rightarrow> None | Some (_, t, _) \<Rightarrow> t),
     ri_user_id = (case rq_context q of None \<Rightarrow> None | Some (_, _, u) \<Rightarrow> u),
     ri_ip_address = rq_client_host q, ri_route = Some route\<rparr>"

definition request_id :: "rl_request \<Rightarrow> string" where
  "request_id q =
    (case rq_context q of
       Some (rid, _, _) \<Rightarrow> rid
     | None \<Rightarrow> (case rq_request_id_header q of
         None \<Rightarrow> ''req_unknown'' | Some h \<Rightarrow> if h = [] then ''req_unknown'' else h))"

definition rate_limited_response :: "rl_request \<Rightarrow> rl_decision \<Rightarrow> rl_outcome" where
  "rate_limited_response q d =
    Respond (if rq_always_200 q then 200 else 429)
      ([(''X-App-Code'', ''RATE_LIMITED''), (''X-Request-ID'', request_id q)] @ decision_headers d)
      (rate_details d)"

definition rate_dispatch ::
  "(string \<Rightarrow> int \<Rightarrow> int \<Rightarrow> 's \<Rightarrow> 's \<times> int result) \<Rightarrow> sinks \<Rightarrow> rl_registry option \<Rightarrow> bool \<Rightarrow> rl_request \<Rightarrow> 's
    \<Rightarrow> 's \<times> effect list \<times> rl_outcome" where
  "rate_dispatch inc sk registry has_limiter q s =
    (case registry of
       None \<Rightarrow> (s, [], Call_Next)
     | Some g \<Rightarrow>
        if \<not> has_limiter then (s, [], Call_Next)
        else (case find_rate_rule g (route_key q) of
           None \<Rightarrow> (s, [], Call_Next)
         | Some r \<Rightarrow>
            (case rate_check inc sk r (identity_for q (route_key q)) 1 s of
               (s', eff, Inl e) \<Rightarrow>
                 (s', eff, if exn_code e = Some ''VALIDATION_ERROR'' then Call_Next else Raise e)
             | (s', eff, Inr d) \<Rightarrow>
                 (s', eff, if rd_allowed d then Call_Next else rate_limited_response q d))))"

section \<open>Lemmas\<close>

lemma rate_key_for_Inr:
  "rate_key_for r i = Inr k \<Longrightarrow>
     \<exists>parts. rmap (key_part i) (rr_dimensions r) = Inr parts \<and>
       cache_key ''rate'' (rr_name r # parts) = Inr k"
  by (auto simp: rate_key_for_def rbind_Inr_iff)

lemma key_part_inj: "key_part i d = Inr p \<Longrightarrow> key_part j d = Inr p \<Longrightarrow> value_for i d = value_for j d"
  by (auto simp: key_part_def rbind_Inr_iff)

lemma rmap_key_parts_inj:
  "rmap (key_part i) ds = Inr ps \<Longrightarrow> rmap (key_part j) ds = Inr ps \<Longrightarrow> d \<in> set ds \<Longrightarrow>
     value_for i d = value_for j d"
proof (induction ds arbitrary: ps)
  case (Cons x ds)
  then show ?case by (auto simp: rbind_Inr_iff dest: key_part_inj)
qed simp

lemma rmap_mem: "rmap f xs = Inr ys \<Longrightarrow> x \<in> set xs \<Longrightarrow> \<exists>y \<in> set ys. f x = Inr y"
  by (induction xs arbitrary: ys) (auto simp: rbind_Inr_iff)

text \<open>The counting client, over any cache that meets the contract.\<close>

fun rate_run ::
  "(instant \<Rightarrow> string \<Rightarrow> int \<Rightarrow> int \<Rightarrow> 's \<Rightarrow> 's \<times> int result) \<Rightarrow> sinks \<Rightarrow> rl_rule \<Rightarrow> rl_identity
    \<Rightarrow> (instant \<times> int) list \<Rightarrow> 's \<Rightarrow> int" where
  "rate_run inc sk r i [] s = 0"
| "rate_run inc sk r i ((t, amount) # cs) s =
     (case rate_check (inc t) sk r i amount s of
        (s', _, res) \<Rightarrow>
          (case res of Inl _ \<Rightarrow> 0 | Inr d \<Rightarrow> if rd_allowed d then amount else 0)
          + rate_run inc sk r i cs s')"

lemma rate_check_counted:
  assumes "0 < amount" and "rate_key_for r i = Inr k"
    and "snd (inc k amount (rr_window_seconds r) s) = Inr n"
  shows "rate_check inc sk r i amount s =
     (fst (inc k amount (rr_window_seconds r) s),
      if n \<le> rr_limit r then [] else record_hit sk (window_decision r k n) i,
      Inr (window_decision r k n))"
  using assms
  by (cases "inc k amount (rr_window_seconds r) s")
    (simp add: rate_check_def window_decision_def Let_def)

context cache_counter
begin

lemma rate_run_bound:
  assumes "rate_key_for r i = Inr k" and "\<forall>(t, a) \<in> set cs. t < x \<and> 0 < a"
    and "counts s k n x" and "0 \<le> n"
  shows "rate_run incr sk r i cs s \<le> max 0 (rr_limit r - n)"
  using assms(2-4)
proof (induction cs arbitrary: s n)
  case (Cons c cs)
  obtain t a where c: "c = (t, a)" by (cases c)
  have ta: "t < x" "0 < a" and rest: "\<forall>(t, a) \<in> set cs. t < x \<and> 0 < a"
    using Cons.prems(1) c by auto
  have nb: "\<not> blank k" using rate_key_for_Inr [OF assms(1)] cache_key_not_blank by blast
  let ?s = "fst (incr t k a (rr_window_seconds r) s)"
  from incr_adds [OF nb Cons.prems(2) ta(1)]
  have inc: "snd (incr t k a (rr_window_seconds r) s) = Inr (n + a)" and c': "counts ?s k (n + a) x"
    by auto
  have "rate_run incr sk r i cs ?s \<le> max 0 (rr_limit r - (n + a))"
    using Cons.IH [OF rest c'] Cons.prems(3) ta by simp
  then show ?case
    using rate_check_counted [where inc = "incr t", OF ta(2) assms(1) inc] ta(2)
    by (auto simp: c window_decision_def Let_def)
qed simp

lemma rate_run_window:
  assumes key: "rate_key_for r i = Inr k" and w: "0 < rr_window_seconds r" and l: "0 \<le> rr_limit r"
    and cs: "\<forall>(t, a) \<in> set ((t0, a0) # cs). t < t0 + secs (rr_window_seconds r) \<and> 0 < a"
    and new: "lookup t0 s k = None"
  shows "rate_run incr sk r i ((t0, a0) # cs) s \<le> rr_limit r"
proof -
  have nb: "\<not> blank k" using rate_key_for_Inr [OF key] cache_key_not_blank by blast
  have a0: "0 < a0" and rest: "\<forall>(t, a) \<in> set cs. t < t0 + secs (rr_window_seconds r) \<and> 0 < a"
    using cs by auto
  let ?s = "fst (incr t0 k a0 (rr_window_seconds r) s)"
  from incr_starts [OF nb w new]
  have inc: "snd (incr t0 k a0 (rr_window_seconds r) s) = Inr a0"
    and c: "counts ?s k a0 (t0 + secs (rr_window_seconds r))" by auto
  have "rate_run incr sk r i cs ?s \<le> max 0 (rr_limit r - a0)"
    using rate_run_bound [OF key rest c] a0 by simp
  then show ?thesis
    using rate_check_counted [where inc = "incr t0", OF a0 key inc] l by (auto simp: window_decision_def Let_def)
qed

end

end
