(* ===== verification/Cache_Properties.thy ===== *)
theory Cache_Properties
  imports Cache_Invalidation Rate_Limit
begin

text \<open>What the cache, its keys, its invalidation and the rate limiter on top of it promise.\<close>

section \<open>The cache\<close>

text \<open>Cache keys are readable: two lists of segments that give a key give the same key only when
  they are the same list, so entries of different tenants, users or purposes never collide; and
  a blank segment, or one with a colon, is refused.\<close>

theorem cache_keys_do_not_collide:
  "(\<forall>n ps m qs. (\<exists>k. cache_key n ps = Inr k \<and> cache_key m qs = Inr k) \<longrightarrow> n = m \<and> ps = qs) \<and>
   (\<forall>n ps. (\<exists>s \<in> set (n # ps). blank s \<or> CHR '':'' \<in> set s) \<longrightarrow>
      (\<exists>msg. cache_key n ps = Inl (validation_error msg)))"
  using cache_key_inj cache_key_Inl by blast

theorem cache_keys_do_not_collide_witness:
  "cache_key ''tenant'' [''a'', ''b''] = Inr ''tenant:a:b'' \<and>
   (\<exists>msg. cache_key ''tenant'' [''a:b''] = Inl (validation_error msg))"
proof
  show "cache_key ''tenant'' [''a'', ''b''] = Inr ''tenant:a:b''"
    by (simp add: cache_key_def bad_segment_def is_space_def)
  show "\<exists>msg. cache_key ''tenant'' [''a:b''] = Inl (validation_error msg)"
    using conjunct2 [OF cache_keys_do_not_collide] by (meson list.set_intros UnCI append_Cons in_set_conv_decomp)
qed

text \<open>A cached value lives exactly as long as it was given: a value set with a time to live is
  what a later read returns until the time has passed and is gone from then on, a permanent one
  is returned at any time, and a value set with neither, or with a time that is not positive, is
  refused and changes nothing.\<close>

theorem cache_value_lifetime:
  assumes "\<not> blank k"
  shows "(0 < ttl \<longrightarrow> snd (cache_get c' k (fst (cache_set c k v (Some ttl) False s))) =
      Inr (if to_utc c' < to_utc c + secs ttl then v else PNone)) \<and>
    snd (cache_get c' k (fst (cache_set c k v None True s))) = Inr v \<and>
    (\<exists>m. cache_set c k v None False s = (s, Inl (validation_error m))) \<and>
    (ttl \<le> 0 \<longrightarrow> (\<exists>m. cache_set c k v (Some ttl) False s = (s, Inl (validation_error m))))"
  using assms by (simp add: cache_set_get cache_set_permanent) (simp add: cache_defs)

theorem cache_value_lifetime_witness:
  "snd (cache_get (Naive 10) ''k'' (fst (cache_set (Naive 0) ''k'' (PInt 1) (Some 60) False Map.empty))) =
     Inr (PInt 1)"
  using cache_value_lifetime [of "''k''" 60 "Naive 10" "Naive 0" "PInt 1" Map.empty]
  by (simp add: is_space_def secs_def)

text \<open>Events make the cache forget: handling an event under the default rules deletes every key
  the matching rules name, once each, reports which of them were there, and leaves every other
  entry of the memory cache readable as before.\<close>

theorem invalidation_deletes_named_keys:
  assumes "event_keys default_rules e = Inr ks"
  shows "\<exists>s' res. handle_invalidation (cache_delete_at t) default_rules e s = (s', Inr res) \<and>
    distinct ks \<and>
    vx_deleted res = filter (\<lambda>k. cache_lookup t s k \<noteq> None) ks \<and>
    vx_missing res = filter (\<lambda>k. cache_lookup t s k = None) ks \<and>
    (\<forall>k. cache_lookup t s' k = (if k \<in> set ks then None else cache_lookup t s k))"
  using memory_cache_store.handle_default [OF assms, of t s] event_keys_Inr(1) [OF assms] by auto

theorem invalidation_deletes_named_keys_witness:
  "\<exists>s' res. handle_invalidation (cache_delete_at 0) default_rules
      \<lparr>ev_id = ''e1'', ev_type = ''tenant.suspended'', ev_version = 1, ev_tenant_id = ''t1'',
       ev_aggregate_type = ''tenant'', ev_aggregate_id = ''t1'', ev_payload = []\<rparr>
      [''permission:tenant_id=t1'' \<mapsto> \<lparr>ce_value = PInt 1, ce_expires = None\<rparr>] = (s', Inr res) \<and>
     vx_deleted res = [''permission:tenant_id=t1'']"
proof -
  let ?e = "\<lparr>ev_id = ''e1'', ev_type = ''tenant.suspended'', ev_version = 1, ev_tenant_id = ''t1'',
       ev_aggregate_type = ''tenant'', ev_aggregate_id = ''t1'', ev_payload = []\<rparr>"
  have "event_keys default_rules ?e =
     Inr [''tenant:tenant_id=t1:settings'', ''tenant:tenant_id=t1:lifecycle'', ''permission:tenant_id=t1'']"
    by (simp add: event_keys_def default_rules_def lifecycle_events_def rule_matches_def
        lifecycle_keys_def key_defs cache_key_def bad_segment_def is_space_def tenant_part_def)
  from invalidation_deletes_named_keys [OF this, of 0
      "[''permission:tenant_id=t1'' \<mapsto> \<lparr>ce_value = PInt 1, ce_expires = None\<rparr>]"]
  show ?thesis by (auto simp: cache_lookup_def entry_expired_def)
qed

section \<open>The rate limiter\<close>

text \<open>The limiter counts identities apart: two identities that share a counter of a rule agree on
  every dimension of the rule, and the counters of rules with different names are different.\<close>

theorem rate_keys_separate_identities:
  assumes "rate_key_for r i = Inr k" and "rate_key_for r' j = Inr k"
  shows "rr_name r = rr_name r' \<and>
    (rr_dimensions r = rr_dimensions r' \<longrightarrow>
       (\<forall>d \<in> set (rr_dimensions r). value_for i d = value_for j d))"
proof -
  obtain ps where ps: "rmap (key_part i) (rr_dimensions r) = Inr ps" "cache_key ''rate'' (rr_name r # ps) = Inr k"
    using rate_key_for_Inr [OF assms(1)] by blast
  obtain qs where qs: "rmap (key_part j) (rr_dimensions r') = Inr qs" "cache_key ''rate'' (rr_name r' # qs) = Inr k"
    using rate_key_for_Inr [OF assms(2)] by blast
  have "rr_name r = rr_name r'" "ps = qs" using cache_key_inj [OF ps(2) qs(2)] by simp_all
  with ps(1) qs(1) show ?thesis by (auto dest: rmap_key_parts_inj)
qed

definition sample_rule :: rl_rule where
  "sample_rule = \<lparr>rr_name = ''login'', rr_limit = 2, rr_window_seconds = 60,
     rr_dimensions = [Ip_Address], rr_fail_closed = True\<rparr>"

definition from_ip :: "string \<Rightarrow> rl_identity" where
  "from_ip a = \<lparr>ri_tenant_id = None, ri_user_id = None, ri_ip_address = Some a, ri_route = None\<rparr>"

lemma sample_key: "rate_key_for sample_rule (from_ip ''9.9.9.9'') = Inr ''rate:login:ip_address=9.9.9.9''"
  by (simp add: rate_key_for_def sample_rule_def from_ip_def key_part_def value_for_def
      cache_key_def bad_segment_def is_space_def)

theorem rate_keys_separate_identities_witness:
  "value_for (from_ip ''9.9.9.9'') Ip_Address = value_for (from_ip ''9.9.9.9'') Ip_Address \<and>
   rr_name sample_rule = ''login''"
  using rate_keys_separate_identities [OF sample_key sample_key] by (simp add: sample_rule_def)

text \<open>The fixed window holds on the memory cache: when no window of an identity is open, then of
  all the calls made within one window of the first, in any order and of any amounts, the
  limiter admits at most the limit in total.\<close>

theorem fixed_window_limit:
  assumes "rate_key_for r i = Inr k" and "0 < rr_window_seconds r" and "0 \<le> rr_limit r"
    and "\<forall>(t, a) \<in> set ((t0, a0) # cs). t < t0 + secs (rr_window_seconds r) \<and> 0 < a"
    and "cache_lookup t0 s k = None"
  shows "rate_run cache_incr_at sk r i ((t0, a0) # cs) s \<le> rr_limit r"
  using assms by (rule memory_cache_counter.rate_run_window)

theorem fixed_window_limit_witness:
  "rate_run cache_incr_at \<lparr>has_metrics = False, has_audit = False\<rparr> sample_rule (from_ip ''9.9.9.9'')
     [(0, 1), (1, 1), (2, 1), (3, 1)] Map.empty \<le> 2"
  using fixed_window_limit [OF sample_key, of 0 1 "[(1, 1), (2, 1), (3, 1)]" Map.empty]
  by (simp add: sample_rule_def cache_lookup_def secs_def)

text \<open>A cache failure is decided by the rule: a rule that fails closed denies, says so, and asks to
  retry after the window, one that fails open allows; the failure itself never reaches the
  caller.\<close>

theorem cache_failure_policy:
  assumes "0 < amount" and "rate_key_for r i = Inr key"
    and "inc key amount (rr_window_seconds r) s = (s', Inl err)"
  shows "\<exists>eff d. rate_check inc sk r i amount s = (s', eff, Inr d) \<and>
    rd_allowed d = (\<not> rr_fail_closed r) \<and> rd_reason d = ''cache_unavailable'' \<and>
    (rr_fail_closed r \<longrightarrow> rd_retry_after d = rr_window_seconds r \<and>
       exn_code (projl (snd (snd (rate_require inc sk r i amount s)))) = Some ''RATE_LIMITED'')"
  using assms by (auto simp: rate_check_def rate_require_def cache_failure_decision_def Let_def)

theorem cache_failure_policy_witness:
  "\<exists>eff d. rate_check (\<lambda>k a w s. (s, Inl (PyError ''ConnectionError'' ''down'')))
      \<lparr>has_metrics = True, has_audit = True\<rparr> sample_rule (from_ip ''9.9.9.9'') 1 () = ((), eff, Inr d) \<and>
     \<not> rd_allowed d"
  using cache_failure_policy [OF _ sample_key, of 1 "\<lambda>k a w s. (s, Inl (PyError ''ConnectionError'' ''down''))"
      "()" "()" "PyError ''ConnectionError'' ''down''" "\<lparr>has_metrics = True, has_audit = True\<rparr>"]
  by (fastforce simp: sample_rule_def)

text \<open>An identity value with a colon escapes the limit: for a rule that counts by client address, a
  request from an address that has a colon, as every IPv6 address has, makes the key an error,
  and the middleware takes the error for a request it should not limit: it passes every such
  request on, whatever the rule says, and counts nothing.\<close>

theorem colon_address_is_not_limited:
  assumes "find_rate_rule g (route_key q) = Some r" and "Ip_Address \<in> set (rr_dimensions r)"
    and "rq_client_host q = Some a" and "CHR '':'' \<in> set a"
  shows "rate_dispatch inc sk (Some g) True q s = (s, [], Call_Next)"
proof -
  let ?i = "identity_for q (route_key q)"
  have "\<exists>m. rate_key_for r ?i = Inl (validation_error m)"
  proof (cases "rmap (key_part ?i) (rr_dimensions r)")
    case (Inl e)
    have "\<exists>m. e = validation_error m" if "rmap (key_part ?i) ds = Inl e" for ds
      using that
    proof (induction ds)
      case (Cons d ds)
      then show ?case
        by (cases "value_for ?i d") (auto simp: key_part_def value_for_def rbind_def split: if_splits option.splits sum.splits)
    qed simp
    with Inl show ?thesis by (auto simp: rate_key_for_def)
  next
    case (Inr ps)
    obtain p where "p \<in> set ps" "key_part ?i Ip_Address = Inr p" using rmap_mem [OF Inr assms(2)] by blast
    moreover from this(2) have "CHR '':'' \<in> set p"
      using assms(3,4) by (auto simp: key_part_def value_for_def identity_for_def split: if_splits)
    ultimately have "\<exists>m. cache_key ''rate'' (rr_name r # ps) = Inl (validation_error m)"
      by (intro cache_key_Inl) auto
    with Inr show ?thesis by (auto simp: rate_key_for_def)
  qed
  then show ?thesis using assms(1) by (auto simp: rate_dispatch_def rate_check_def)
qed

theorem colon_address_is_not_limited_witness:
  "rate_dispatch (cache_incr_at 0) \<lparr>has_metrics = True, has_audit = True\<rparr>
     (Some \<lparr>rg_default_rule = Some sample_rule, rg_route_rules = Map.empty\<rparr>) True
     \<lparr>rq_method = ''POST'', rq_path = ''/login'', rq_client_host = Some ''2001:db8::1'',
      rq_context = None, rq_request_id_header = None, rq_always_200 = False\<rparr> Map.empty =
   (Map.empty, [], Call_Next)"
  by (rule colon_address_is_not_limited [where r = sample_rule and a = "''2001:db8::1''"])
    (simp_all add: find_rate_rule_def sample_rule_def)

end
