(* ===== verification/Quota_Rules.thy ===== *)
theory Quota_Rules
  imports Cache_Keys
begin

text \<open>
  Quota rules, subjects and the registry built from a tenant's configuration
  (\<open>core/quotas/rules.py\<close>).
\<close>

datatype quota_scope = Tenant_Scope | User_Scope | Resource_Scope

fun scope_name :: "quota_scope \<Rightarrow> string" where
  "scope_name Tenant_Scope = ''tenant''"
| "scope_name User_Scope = ''user''"
| "scope_name Resource_Scope = ''resource''"

record quota_subject =
  qs_tenant_id :: string
  qs_user_id :: "string option"
  qs_resource_type :: "string option"
  qs_resource_id :: "string option"

definition require_field :: "string option \<Rightarrow> string \<Rightarrow> unit result" where
  "require_field v name =
    (if v = None \<or> blank (the v)
       then Inl (app_error ''VALIDATION_ERROR'' (''Quota subject missing '' @ name) (Some 400) [])
     else Inr ())"

definition parts_for :: "quota_subject \<Rightarrow> quota_scope \<Rightarrow> string list result" where
  "parts_for s scope =
    rbind (require_field (Some (qs_tenant_id s)) ''tenant_id'') (\<lambda>_.
      case scope of
        Tenant_Scope \<Rightarrow> Inr [''tenant_id='' @ qs_tenant_id s]
      | User_Scope \<Rightarrow>
          rbind (require_field (qs_user_id s) ''user_id'') (\<lambda>_.
            Inr [''tenant_id='' @ qs_tenant_id s, ''user_id='' @ the (qs_user_id s)])
      | Resource_Scope \<Rightarrow>
          rbind (require_field (qs_resource_type s) ''resource_type'') (\<lambda>_.
          rbind (require_field (qs_resource_id s) ''resource_id'') (\<lambda>_.
            Inr [''tenant_id='' @ qs_tenant_id s,
                 ''resource_type='' @ the (qs_resource_type s),
                 ''resource_id='' @ the (qs_resource_id s)])))"

record quota_rule =
  qr_metric :: string
  qr_limit :: int
  qr_scope :: quota_scope

text \<open>
  \<open>QuotaRule.__post_init__\<close>. A scope is one of the three names or the rule is refused, so the
  constructor takes the name and the record holds the scope.
\<close>

fun scope_of :: "pyval \<Rightarrow> quota_scope option" where
  "scope_of (PStr s) =
     (if s = ''tenant'' then Some Tenant_Scope
      else if s = ''user'' then Some User_Scope
      else if s = ''resource'' then Some Resource_Scope else None)"
| "scope_of _ = None"

definition make_quota_rule :: "string \<Rightarrow> int \<Rightarrow> pyval \<Rightarrow> quota_rule result" where
  "make_quota_rule metric limit scope =
    (if blank metric \<or> CHR '':'' \<in> set metric
       then Inl (app_error ''VALIDATION_ERROR'' (''Quota metric must be non-empty and must not contain ''
              @ [CHR 0x27, CHR '':'', CHR 0x27]) (Some 400) [])
     else if limit < 0
       then Inl (app_error ''VALIDATION_ERROR''
              ''Quota limit must be greater than or equal to zero'' (Some 400) [])
     else case scope_of scope of
       None \<Rightarrow> Inl (app_error ''VALIDATION_ERROR'' ''Quota scope is invalid'' (Some 400) [])
     | Some sc \<Rightarrow> Inr \<lparr>qr_metric = metric, qr_limit = limit, qr_scope = sc\<rparr>)"

definition quota_key_for :: "quota_rule \<Rightarrow> quota_subject \<Rightarrow> string result" where
  "quota_key_for r s =
     rbind (parts_for s (qr_scope r)) (\<lambda>parts. cache_key ''quota'' (qr_metric r # parts))"

text \<open>The registry. A configured value is an integer or a table with \<open>limit\<close> and \<open>scope\<close>.\<close>

datatype quota_config_value = Plain int | Table "(string \<times> pyval) list"

record quota_registry =
  qg_tenant_id :: string
  qg_rules :: "(string \<times> quota_rule) list"

fun build_quota_rules ::
  "(string \<times> quota_config_value) list \<Rightarrow> (string \<times> quota_rule) list \<Rightarrow> (string \<times> quota_rule) list result" where
  "build_quota_rules [] rules = Inr rules"
| "build_quota_rules ((metric, Plain n) # config) rules =
     rbind (make_quota_rule metric n (PStr ''tenant'')) (\<lambda>r.
       build_quota_rules config (dput metric r rules))"
| "build_quota_rules ((metric, Table t) # config) rules =
     (case as_int (case dget t ''limit'' of None \<Rightarrow> PNone | Some v \<Rightarrow> v) of
        None \<Rightarrow> Inl (app_error ''VALIDATION_ERROR''
          (''Quota config for '' @ repr_str metric @ '' must declare integer limit'') (Some 400) [])
      | Some n \<Rightarrow>
          rbind (make_quota_rule metric n
              (case dget t ''scope'' of None \<Rightarrow> PStr ''tenant'' | Some v \<Rightarrow> v)) (\<lambda>r.
            build_quota_rules config (dput metric r rules)))"

definition from_tenant_config ::
  "string \<Rightarrow> (string \<times> quota_config_value) list \<Rightarrow> quota_registry result" where
  "from_tenant_config tenant_id config =
     rbind (build_quota_rules config []) (\<lambda>rules.
       if blank tenant_id
         then Inl (app_error ''VALIDATION_ERROR'' ''Quota tenant_id is required'' (Some 400) [])
       else Inr \<lparr>qg_tenant_id = tenant_id, qg_rules = rules\<rparr>)"

definition resolve_quota_rule :: "quota_registry \<Rightarrow> string \<Rightarrow> quota_rule result" where
  "resolve_quota_rule g metric =
    (case dget (qg_rules g) metric of
       None \<Rightarrow> Inl (app_error ''VALIDATION_ERROR''
         (''No quota rule configured for metric: '' @ metric) (Some 400) [])
     | Some r \<Rightarrow> Inr r)"

definition quota_rule_ok :: "string \<times> quota_rule \<Rightarrow> bool" where
  "quota_rule_ok mr \<longleftrightarrow> qr_metric (snd mr) = fst mr \<and> \<not> blank (fst mr) \<and>
     CHR '':'' \<notin> set (fst mr) \<and> 0 \<le> qr_limit (snd mr)"

lemma make_quota_rule_ok: "make_quota_rule m n sc = Inr r \<Longrightarrow> quota_rule_ok (m, r) \<and> qr_limit r = n"
  by (auto simp: make_quota_rule_def quota_rule_ok_def split: if_splits option.splits)

lemma set_dput_subset: "set (dput k v d) \<subseteq> insert (k, v) (set d)"
  by (induction k v d rule: dput.induct) auto

lemma build_quota_rules_ok:
  "build_quota_rules config rules = Inr rules' \<Longrightarrow> \<forall>mr \<in> set rules. quota_rule_ok mr \<Longrightarrow>
     \<forall>mr \<in> set rules'. quota_rule_ok mr"
proof (induction config rules rule: build_quota_rules.induct)
  case (2 metric n config rules)
  then show ?case
    using set_dput_subset [of metric _ rules]
    by (force simp: rbind_Inr_iff dest!: make_quota_rule_ok)
next
  case (3 metric t config rules)
  then show ?case
    using set_dput_subset [of metric _ rules]
    by (force simp: rbind_Inr_iff dest!: make_quota_rule_ok split: option.splits)
qed simp

lemma resolve_quota_rule_ok:
  assumes "from_tenant_config t config = Inr g" and "resolve_quota_rule g m = Inr r"
  shows "quota_rule_ok (m, r)"
proof -
  have "(m, r) \<in> set (qg_rules g)"
    using assms(2) by (auto simp: resolve_quota_rule_def dget_def split: option.splits dest: map_of_SomeD)
  moreover have "\<forall>mr \<in> set (qg_rules g). quota_rule_ok mr"
    using assms(1) build_quota_rules_ok [of config "[]"]
    by (auto simp: from_tenant_config_def rbind_Inr_iff split: if_splits)
  ultimately show ?thesis by blast
qed

lemma quota_key_not_blank: "quota_key_for r s = Inr k \<Longrightarrow> \<not> blank k"
  by (auto simp: quota_key_for_def rbind_Inr_iff dest: cache_key_not_blank)

end
