(* ===== verification/Quota_Usage.thy ===== *)
theory Quota_Usage
  imports Errors
begin

text \<open>
  The usage stores of \<open>core/quotas/usage.py\<close>: the contract their clients rely on as a locale,
  the in-memory store and the store over the table \<open>quota_usage\<close>. As for the locks, the
  database store takes the interference of other sessions as an argument; a row it reads in a
  session and writes back is written from the value read.
\<close>

section \<open>Argument checks and the contract\<close>

definition validate_usage_key :: "string \<Rightarrow> unit result" where
  "validate_usage_key k =
    (if blank k then Inl (app_error ''VALIDATION_ERROR'' ''Quota usage key is required'' (Some 400) [])
     else Inr ())"

definition validate_positive :: "int \<Rightarrow> string \<Rightarrow> unit result" where
  "validate_positive n label =
    (if n \<le> 0 then Inl (app_error ''VALIDATION_ERROR'' (label @ '' must be greater than zero'')
       (Some 400) [])
     else Inr ())"

definition validate_non_negative :: "int \<Rightarrow> string \<Rightarrow> unit result" where
  "validate_non_negative n label =
    (if n < 0 then Inl (app_error ''VALIDATION_ERROR''
       (label @ '' must be greater than or equal to zero'') (Some 400) [])
     else Inr ())"

definition validate_reserve :: "string \<Rightarrow> int \<Rightarrow> int \<Rightarrow> unit result" where
  "validate_reserve k amount limit =
     rbind (validate_usage_key k) (\<lambda>_.
     rbind (validate_positive amount ''Quota amount'') (\<lambda>_.
       validate_non_negative limit ''Quota limit''))"

definition validate_release :: "string \<Rightarrow> int \<Rightarrow> unit result" where
  "validate_release k amount =
     rbind (validate_usage_key k) (\<lambda>_. validate_positive amount ''Quota amount'')"

definition validate_set :: "string \<Rightarrow> int \<Rightarrow> unit result" where
  "validate_set k v = rbind (validate_usage_key k) (\<lambda>_. validate_non_negative v ''Quota usage'')"

lemma validate_reserve_ok:
  "validate_reserve k a l = Inr () \<longleftrightarrow> \<not> blank k \<and> 0 < a \<and> 0 \<le> l"
  by (auto simp: validate_reserve_def validate_usage_key_def validate_positive_def
      validate_non_negative_def)

lemma validate_release_ok: "validate_release k a = Inr () \<longleftrightarrow> \<not> blank k \<and> 0 < a"
  by (auto simp: validate_release_def validate_usage_key_def validate_positive_def)

text \<open>The operations of a store, as its clients call them.\<close>

record 's usage_ops =
  uo_get :: "string \<Rightarrow> 's \<Rightarrow> int result"
  uo_reserve :: "string \<Rightarrow> int \<Rightarrow> int \<Rightarrow> 's \<Rightarrow> 's \<times> int option result"
  uo_release :: "string \<Rightarrow> int \<Rightarrow> 's \<Rightarrow> 's \<times> int result"

locale usage_store =
  fixes ok :: "'s \<Rightarrow> bool" and used :: "'s \<Rightarrow> string \<Rightarrow> int" and ops :: "'s usage_ops"
  assumes used_nonneg: "ok s \<Longrightarrow> 0 \<le> used s k"
    and get_used: "\<not> blank k \<Longrightarrow> uo_get ops k s = Inr (used s k)"
    and reserve_fits: "ok s \<Longrightarrow> \<not> blank k \<Longrightarrow> 0 < a \<Longrightarrow> 0 \<le> l \<Longrightarrow> used s k + a \<le> l \<Longrightarrow>
      snd (uo_reserve ops k a l s) = Inr (Some (used s k + a)) \<and>
      used (fst (uo_reserve ops k a l s)) = (used s)(k := used s k + a)"
    and reserve_full: "ok s \<Longrightarrow> \<not> blank k \<Longrightarrow> 0 < a \<Longrightarrow> 0 \<le> l \<Longrightarrow> l < used s k + a \<Longrightarrow>
      snd (uo_reserve ops k a l s) = Inr None \<and> used (fst (uo_reserve ops k a l s)) = used s"
    and reserve_invalid: "l < 0 \<Longrightarrow> \<exists>e. uo_reserve ops k a l s = (s, Inl e)"
    and release_used: "ok s \<Longrightarrow> \<not> blank k \<Longrightarrow> 0 < a \<Longrightarrow>
      snd (uo_release ops k a s) = Inr (max (used s k - a) 0) \<and>
      used (fst (uo_release ops k a s)) = (used s)(k := max (used s k - a) 0)"
    and reserve_ok: "ok s \<Longrightarrow> ok (fst (uo_reserve ops k a l s))"
    and release_ok: "ok s \<Longrightarrow> ok (fst (uo_release ops k a s))"

section \<open>MemoryQuotaUsageStore\<close>

type_synonym usage_rows = "string \<rightharpoonup> int"

definition used_in :: "usage_rows \<Rightarrow> string \<Rightarrow> int" where
  "used_in u k = (case u k of None \<Rightarrow> 0 | Some n \<Rightarrow> n)"

definition mem_get_usage :: "string \<Rightarrow> usage_rows \<Rightarrow> int result" where
  "mem_get_usage k u = rbind (validate_usage_key k) (\<lambda>_. Inr (used_in u k))"

definition mem_set_usage :: "string \<Rightarrow> int \<Rightarrow> usage_rows \<Rightarrow> usage_rows \<times> unit result" where
  "mem_set_usage k v u =
    (case validate_set k v of Inl e \<Rightarrow> (u, Inl e) | Inr _ \<Rightarrow> (u(k \<mapsto> v), Inr ()))"

definition mem_reserve :: "string \<Rightarrow> int \<Rightarrow> int \<Rightarrow> usage_rows \<Rightarrow> usage_rows \<times> int option result" where
  "mem_reserve k amount limit u =
    (case validate_reserve k amount limit of
       Inl e \<Rightarrow> (u, Inl e)
     | Inr _ \<Rightarrow>
        (let current = used_in u k; projected = current + amount in
         if projected > limit then (u, Inr None)
         else (u(k \<mapsto> projected), Inr (Some projected))))"

definition mem_release_usage :: "string \<Rightarrow> int \<Rightarrow> usage_rows \<Rightarrow> usage_rows \<times> int result" where
  "mem_release_usage k amount u =
    (case validate_release k amount of
       Inl e \<Rightarrow> (u, Inl e)
     | Inr _ \<Rightarrow>
        (let updated = max (used_in u k - amount) 0 in (u(k \<mapsto> updated), Inr updated)))"

section \<open>DatabaseQuotaUsageStore\<close>

type_synonym usage_env = "nat \<Rightarrow> usage_rows \<Rightarrow> usage_rows"

definition db_get_usage :: "string \<Rightarrow> usage_rows \<Rightarrow> int result" where
  "db_get_usage k rows = rbind (validate_usage_key k) (\<lambda>_. Inr (used_in rows k))"

text \<open>Setting: an INSERT when no row was seen (which fails when one appeared), else an UPDATE.\<close>

definition db_set_usage ::
  "usage_env \<Rightarrow> string \<Rightarrow> int \<Rightarrow> usage_rows \<Rightarrow> usage_rows \<times> unit result" where
  "db_set_usage env k v rows =
    (case validate_set k v of
       Inl e \<Rightarrow> (rows, Inl e)
     | Inr _ \<Rightarrow>
        (let seen = rows k; rows = env 0 rows in
         if seen = None \<and> rows k \<noteq> None
           then (rows, Inl (PyError ''IntegrityError'' ''''))
         else (rows(k \<mapsto> v), Inr ())))"

fun db_reserve_tries ::
  "nat \<Rightarrow> usage_env \<Rightarrow> string \<Rightarrow> int \<Rightarrow> int \<Rightarrow> usage_rows \<Rightarrow> usage_rows \<times> int option result" where
  "db_reserve_tries 0 env k amount limit rows = (rows, Inr None)"
| "db_reserve_tries (Suc n) env k amount limit rows =
     (if when_some (rows k) (\<lambda>u. u + amount \<le> limit) then
        (let rows = env 0 (rows(k \<mapsto> the (rows k) + amount)) in
         case db_get_usage k rows of
           Inl e \<Rightarrow> (rows, Inl e)
         | Inr u \<Rightarrow> (rows, Inr (Some u)))
      else
        (let rows = env 0 rows in
         if rows k \<noteq> None then (rows, Inr None)
         else
           (let rows = env 1 rows in
            if rows k = None then (rows(k \<mapsto> amount), Inr (Some amount))
            else db_reserve_tries n (\<lambda>i. env (i + 3)) k amount limit (env 2 rows))))"

definition db_reserve ::
  "usage_env \<Rightarrow> string \<Rightarrow> int \<Rightarrow> int \<Rightarrow> usage_rows \<Rightarrow> usage_rows \<times> int option result" where
  "db_reserve env k amount limit rows =
    (case validate_reserve k amount limit of
       Inl e \<Rightarrow> (rows, Inl e)
     | Inr _ \<Rightarrow>
        if amount > limit then (rows, Inr None)
        else db_reserve_tries 2 env k amount limit rows)"

definition db_release_usage ::
  "usage_env \<Rightarrow> string \<Rightarrow> int \<Rightarrow> usage_rows \<Rightarrow> usage_rows \<times> int result" where
  "db_release_usage env k amount rows =
    (case validate_release k amount of
       Inl e \<Rightarrow> (rows, Inl e)
     | Inr _ \<Rightarrow>
        (case rows k of
           None \<Rightarrow> (rows, Inr 0)
         | Some u \<Rightarrow>
             (let v = max (u - amount) 0; rows = env 0 rows in
              (if rows k = None then rows else rows(k \<mapsto> v), Inr v))))"

section \<open>Both meet the contract, the database store when it runs alone\<close>

definition usage_nonneg :: "usage_rows \<Rightarrow> bool" where
  "usage_nonneg u \<longleftrightarrow> (\<forall>k n. u k = Some n \<longrightarrow> 0 \<le> n)"

lemma used_in_upd [simp]: "used_in (u(k \<mapsto> n)) = (used_in u)(k := n)"
  by (auto simp: used_in_def)

lemma used_in_nonneg: "usage_nonneg u \<Longrightarrow> 0 \<le> used_in u k"
  by (auto simp: used_in_def usage_nonneg_def split: option.splits)

lemma usage_nonneg_upd: "usage_nonneg u \<Longrightarrow> 0 \<le> n \<Longrightarrow> usage_nonneg (u(k \<mapsto> n))"
  by (auto simp: usage_nonneg_def)

definition memory_usage_ops :: "usage_rows usage_ops" where
  "memory_usage_ops = \<lparr>uo_get = mem_get_usage, uo_reserve = mem_reserve,
     uo_release = mem_release_usage\<rparr>"

definition run_alone :: usage_env where
  "run_alone i rows = rows"

definition database_usage_ops :: "usage_rows usage_ops" where
  "database_usage_ops = \<lparr>uo_get = db_get_usage, uo_reserve = db_reserve run_alone,
     uo_release = db_release_usage run_alone\<rparr>"

lemma validate_reserve_cases:
  "validate_reserve k a l = (if \<not> blank k \<and> 0 < a \<and> 0 \<le> l then Inr () else
     Inl (projl (validate_reserve k a l)))"
  using validate_reserve_ok [of k a l] by (cases "validate_reserve k a l") auto

lemma validate_release_cases:
  "validate_release k a = (if \<not> blank k \<and> 0 < a then Inr () else
     Inl (projl (validate_release k a)))"
  using validate_release_ok [of k a] by (cases "validate_release k a") auto

lemma mem_reserve_simp:
  "\<not> blank k \<Longrightarrow> 0 < a \<Longrightarrow> 0 \<le> l \<Longrightarrow> mem_reserve k a l u =
     (if used_in u k + a > l then (u, Inr None)
      else (u(k \<mapsto> used_in u k + a), Inr (Some (used_in u k + a))))"
  using validate_reserve_ok [of k a l] by (simp add: mem_reserve_def Let_def)

lemma mem_release_simp:
  "\<not> blank k \<Longrightarrow> 0 < a \<Longrightarrow> mem_release_usage k a u =
     (u(k \<mapsto> max (used_in u k - a) 0), Inr (max (used_in u k - a) 0))"
  using validate_release_ok [of k a] by (simp add: mem_release_usage_def Let_def)

lemma db_reserve_alone:
  "usage_nonneg u \<Longrightarrow> \<not> blank k \<Longrightarrow> 0 < a \<Longrightarrow> 0 \<le> l \<Longrightarrow>
     db_reserve run_alone k a l u = mem_reserve k a l u"
  using validate_reserve_ok [of k a l] used_in_nonneg [of u k]
  by (auto simp: db_reserve_def mem_reserve_def Let_def numeral_2_eq_2 run_alone_def used_in_def
      db_get_usage_def validate_usage_key_def split: option.splits)

lemma db_release_alone:
  "usage_nonneg u \<Longrightarrow> \<not> blank k \<Longrightarrow> 0 < a \<Longrightarrow>
     snd (db_release_usage run_alone k a u) = snd (mem_release_usage k a u) \<and>
     used_in (fst (db_release_usage run_alone k a u)) = used_in (fst (mem_release_usage k a u))"
  using validate_release_ok [of k a]
  by (auto simp: db_release_usage_def mem_release_usage_def Let_def run_alone_def used_in_def
      fun_eq_iff split: option.splits)

lemma mem_reserve_nonneg: "usage_nonneg u \<Longrightarrow> usage_nonneg (fst (mem_reserve k a l u))"
  using used_in_nonneg [of u k]
  by (subst mem_reserve_def, subst validate_reserve_cases)
    (auto simp: Let_def intro: usage_nonneg_upd)

lemma mem_release_nonneg: "usage_nonneg u \<Longrightarrow> usage_nonneg (fst (mem_release_usage k a u))"
  by (auto simp: mem_release_usage_def Let_def intro: usage_nonneg_upd split: sum.splits)

lemma db_release_nonneg: "usage_nonneg u \<Longrightarrow> usage_nonneg (fst (db_release_usage run_alone k a u))"
  by (auto simp: db_release_usage_def Let_def run_alone_def intro: usage_nonneg_upd
      split: sum.splits option.splits)

lemma db_reserve_invalid: "\<not> (\<not> blank k \<and> 0 < a \<and> 0 \<le> l) \<Longrightarrow>
    \<exists>e. db_reserve env k a l u = (u, Inl e) \<and> mem_reserve k a l u = (u, Inl e)"
  using validate_reserve_ok [of k a l]
  by (cases "validate_reserve k a l") (auto simp: db_reserve_def mem_reserve_def)

lemma db_reserve_nonneg: "usage_nonneg u \<Longrightarrow> usage_nonneg (fst (db_reserve run_alone k a l u))"
  using db_reserve_alone [of u k a l] db_reserve_invalid [of k a l run_alone u]
    mem_reserve_nonneg [of u k a l]
  by (cases "\<not> blank k \<and> 0 < a \<and> 0 \<le> l") auto

interpretation memory_usage: usage_store usage_nonneg used_in memory_usage_ops
proof
  show "\<exists>e. uo_reserve memory_usage_ops k a l s = (s, Inl e)" if "l < 0" for k a l s
    using that db_reserve_invalid [of k a l run_alone s] by (auto simp: memory_usage_ops_def)
qed (auto simp: memory_usage_ops_def used_in_nonneg mem_get_usage_def validate_usage_key_def
    mem_reserve_simp mem_release_simp mem_reserve_nonneg mem_release_nonneg)

interpretation database_usage: usage_store usage_nonneg used_in database_usage_ops
proof
  show "snd (uo_release database_usage_ops k a s) = Inr (max (used_in s k - a) 0) \<and>
      used_in (fst (uo_release database_usage_ops k a s)) = (used_in s)(k := max (used_in s k - a) 0)"
    if "usage_nonneg s" "\<not> blank k" "0 < a" for s k a
    using that db_release_alone [OF that] by (simp add: database_usage_ops_def mem_release_simp)
  show "\<exists>e. uo_reserve database_usage_ops k a l s = (s, Inl e)" if "l < 0" for k a l s
    using that db_reserve_invalid [of k a l run_alone s] by (auto simp: database_usage_ops_def)
qed (auto simp: database_usage_ops_def used_in_nonneg db_get_usage_def validate_usage_key_def
    db_reserve_alone mem_reserve_simp db_reserve_nonneg db_release_nonneg)

section \<open>Interleavings\<close>

text \<open>Every recorded usage of the key lies between zero and the limit.\<close>

definition within :: "string \<Rightarrow> int \<Rightarrow> usage_rows \<Rightarrow> bool" where
  "within k l rows \<longleftrightarrow> (\<forall>u. rows k = Some u \<longrightarrow> 0 \<le> u \<and> u \<le> l)"

definition keeps_within :: "string \<Rightarrow> int \<Rightarrow> usage_env \<Rightarrow> bool" where
  "keeps_within k l env \<longleftrightarrow> (\<forall>i rows. within k l rows \<longrightarrow> within k l (env i rows))"

lemma keeps_withinD: "keeps_within k l env \<Longrightarrow> within k l rows \<Longrightarrow> within k l (env i rows)"
  by (simp add: keeps_within_def)

lemma within_upd: "within k l (rows(k \<mapsto> u)) \<longleftrightarrow> 0 \<le> u \<and> u \<le> l"
  by (simp add: within_def)

lemma db_reserve_tries_within:
  assumes "keeps_within k l env" and "within k l rows" and "0 < a" and "a \<le> l"
  shows "within k l (fst (db_reserve_tries n env k a l rows)) \<and>
    (\<forall>p. snd (db_reserve_tries n env k a l rows) = Inr (Some p) \<longrightarrow> p \<le> l)"
  using assms
proof (induction n arbitrary: env rows)
  case (Suc n)
  note keep = keeps_withinD [OF Suc.prems(1)]
  have "keeps_within k l (\<lambda>i. env (i + 3))" using Suc.prems(1) by (simp add: keeps_within_def)
  note rest = Suc.IH [OF this keep [OF keep [OF keep [OF Suc.prems(2)]]] Suc.prems(3,4)]
  show ?case
  proof (cases "\<exists>u. rows k = Some u \<and> u + a \<le> l")
    case True
    then obtain u where u: "rows k = Some u" "u + a \<le> l" by blast
    have "within k l (rows(k \<mapsto> u + a))" using u Suc.prems by (auto simp: within_def)
    then have "within k l (env 0 (rows(k \<mapsto> u + a)))" by (rule keep)
    moreover from this have "used_in (env 0 (rows(k \<mapsto> u + a))) k \<le> l"
      using Suc.prems(3,4) by (auto simp: within_def used_in_def split: option.splits)
    ultimately show ?thesis
      using u by (auto simp: Let_def db_get_usage_def validate_usage_key_def)
  next
    case False
    then show ?thesis
      using rest [of 2 1 0] keep [OF Suc.prems(2), of 0] keep [OF keep [OF Suc.prems(2)], of 1 0]
        Suc.prems(3,4)
      by (auto simp: Let_def within_upd)
  qed
qed simp

end
