(* ===== verification/Quota_Service.thy ===== *)
theory Quota_Service
  imports Quota_Rules Quota_Usage Effects
begin

text \<open>
  \<open>QuotaService\<close> (\<open>core/quotas/provider.py\<close>) and the gate that wraps a mutation in reservations
  (\<open>core/quotas/gate.py\<close>), over any usage store. The store's operations are the argument \<open>ops\<close>,
  the optional sinks \<open>sk\<close>, and effects are returned in order.
\<close>

section \<open>QuotaService\<close>

record quota_decision =
  qd_allowed :: bool
  qd_metric :: string
  qd_scope :: quota_scope
  qd_key :: string
  qd_limit :: int
  qd_current :: int
  qd_requested :: int
  qd_projected :: int
  qd_remaining :: int
  qd_reason :: string

definition quota_details :: "quota_decision \<Rightarrow> (string \<times> pyval) list" where
  "quota_details d =
    [(''metric'', PStr (qd_metric d)), (''scope'', PStr (scope_name (qd_scope d))),
     (''limit'', PInt (qd_limit d)), (''current'', PInt (qd_current d)),
     (''requested'', PInt (qd_requested d)), (''projected'', PInt (qd_projected d)),
     (''remaining'', PInt (qd_remaining d)), (''key'', PStr (qd_key d))]"

definition validate_amount :: "int \<Rightarrow> unit result" where
  "validate_amount amount =
    (if amount \<le> 0 then Inl (app_error ''VALIDATION_ERROR''
       ''Quota amount must be greater than zero'' (Some 400) [])
     else Inr ())"

definition quota_decide :: "quota_rule \<Rightarrow> string \<Rightarrow> int \<Rightarrow> int \<Rightarrow> quota_decision" where
  "quota_decide r key current amount =
    (let projected = current + amount; allowed = (projected \<le> qr_limit r) in
     \<lparr>qd_allowed = allowed, qd_metric = qr_metric r, qd_scope = qr_scope r, qd_key = key,
      qd_limit = qr_limit r, qd_current = current, qd_requested = amount,
      qd_projected = projected, qd_remaining = max (qr_limit r - projected) 0,
      qd_reason = (if allowed then ''within_limit'' else ''quota_exceeded'')\<rparr>)"

definition quota_check ::
  "'s usage_ops \<Rightarrow> quota_rule \<Rightarrow> quota_subject \<Rightarrow> int \<Rightarrow> 's \<Rightarrow> quota_decision result" where
  "quota_check ops r subj amount s =
     rbind (validate_amount amount) (\<lambda>_.
     rbind (quota_key_for r subj) (\<lambda>key.
     rbind (uo_get ops key s) (\<lambda>current. Inr (quota_decide r key current amount))))"

definition record_exceeded :: "sinks \<Rightarrow> quota_decision \<Rightarrow> quota_subject \<Rightarrow> effect list" where
  "record_exceeded sk d subj =
    emit_metric sk ''quota_exceeded_total''
      [(''metric'', qd_metric d), (''scope'', scope_name (qd_scope d))]
    @ emit_audit sk
      \<lparr>au_action = ''quota.exceeded'', au_resource_type = ''quota'',
       au_resource_id = Some (qd_metric d), au_result = ''denied'',
       au_tenant = Some (qs_tenant_id subj), au_actor = qs_user_id subj,
       au_reason = Some ''quota_exceeded'', au_policy_version = None, au_request_id = None,
       au_payload = [(''metric'', PStr (qd_metric d)), (''scope'', PStr (scope_name (qd_scope d))),
         (''key'', PStr (qd_key d)), (''limit'', PInt (qd_limit d)),
         (''current'', PInt (qd_current d)), (''requested'', PInt (qd_requested d)),
         (''projected'', PInt (qd_projected d))]\<rparr>"

definition quota_reserve ::
  "'s usage_ops \<Rightarrow> sinks \<Rightarrow> quota_rule \<Rightarrow> quota_subject \<Rightarrow> int \<Rightarrow> 's
    \<Rightarrow> 's \<times> effect list \<times> quota_decision result" where
  "quota_reserve ops sk r subj amount s =
    (case rbind (validate_amount amount) (\<lambda>_. quota_key_for r subj) of
       Inl e \<Rightarrow> (s, [], Inl e)
     | Inr key \<Rightarrow>
        (case uo_reserve ops key amount (qr_limit r) s of
           (s', Inl e) \<Rightarrow> (s', [], Inl e)
         | (s', Inr (Some projected)) \<Rightarrow>
             (s', [], Inr (quota_decide r key (projected - amount) amount))
         | (s', Inr None) \<Rightarrow>
             (case uo_get ops key s' of
                Inl e \<Rightarrow> (s', [], Inl e)
              | Inr current \<Rightarrow>
                  (let d = quota_decide r key current amount in
                   (s', record_exceeded sk d subj, Inr d)))))"

definition quota_require_reserve ::
  "'s usage_ops \<Rightarrow> sinks \<Rightarrow> quota_rule \<Rightarrow> quota_subject \<Rightarrow> int \<Rightarrow> 's
    \<Rightarrow> 's \<times> effect list \<times> quota_decision result" where
  "quota_require_reserve ops sk r subj amount s =
    (case quota_reserve ops sk r subj amount s of
       (s', eff, Inl e) \<Rightarrow> (s', eff, Inl e)
     | (s', eff, Inr d) \<Rightarrow>
         (s', eff, if qd_allowed d then Inr d
           else Inl (app_error ''QUOTA_EXCEEDED'' ''Quota exceeded'' (Some 403) (quota_details d))))"

definition quota_release ::
  "'s usage_ops \<Rightarrow> quota_rule \<Rightarrow> quota_subject \<Rightarrow> int \<Rightarrow> 's \<Rightarrow> 's \<times> int result" where
  "quota_release ops r subj amount s =
    (case rbind (validate_amount amount) (\<lambda>_. quota_key_for r subj) of
       Inl e \<Rightarrow> (s, Inl e)
     | Inr key \<Rightarrow> uo_release ops key amount s)"

section \<open>QuotaMutationGate\<close>

record reservation =
  rs_rule :: quota_rule
  rs_subject :: quota_subject
  rs_amount :: int

text \<open>The reservation loop: the reservations made so far (latest first), and how it ended.\<close>

fun reserve_loop ::
  "'s usage_ops \<Rightarrow> sinks \<Rightarrow> reservation list \<Rightarrow> reservation list \<Rightarrow> 's
    \<Rightarrow> 's \<times> effect list \<times> reservation list \<times> quota_decision list result" where
  "reserve_loop ops sk done_rs [] s = (s, [], done_rs, Inr [])"
| "reserve_loop ops sk done_rs (x # xs) s =
     (case quota_require_reserve ops sk (rs_rule x) (rs_subject x) (rs_amount x) s of
        (s', eff, Inl e) \<Rightarrow> (s', eff, done_rs, Inl e)
      | (s', eff, Inr d) \<Rightarrow>
          (case reserve_loop ops sk (x # done_rs) xs s' of
             (s'', eff', rs, res) \<Rightarrow>
               (s'', eff @ eff', rs, rbind res (\<lambda>ds. Inr (d # ds)))))"

text \<open>
  \<open>_release_reversed\<close> over the reservations, latest first; an exception stops the loop.
\<close>

fun release_loop :: "'s usage_ops \<Rightarrow> reservation list \<Rightarrow> 's \<Rightarrow> 's \<times> unit result" where
  "release_loop ops [] s = (s, Inr ())"
| "release_loop ops (x # xs) s =
     (case quota_release ops (rs_rule x) (rs_subject x) (rs_amount x) s of
        (s', Inl e) \<Rightarrow> (s', Inl e)
      | (s', Inr _) \<Rightarrow> release_loop ops xs s')"

text \<open>
  An exception raised while releasing replaces the one being handled. \<open>run_mutation\<close> and
  \<open>submit_task\<close> release when the handler raises and keep the reservations when it returns.
\<close>

definition release_and_raise :: "'s usage_ops \<Rightarrow> reservation list \<Rightarrow> exn \<Rightarrow> 's \<Rightarrow> 's \<times> exn" where
  "release_and_raise ops rs e s =
    (case release_loop ops rs s of (s', Inl e') \<Rightarrow> (s', e') | (s', Inr _) \<Rightarrow> (s', e))"

definition reserve_and_run ::
  "'s usage_ops \<Rightarrow> sinks \<Rightarrow> reservation list \<Rightarrow> ('s \<Rightarrow> 's \<times> 'v result) \<Rightarrow> bool \<Rightarrow> bool \<Rightarrow> 's
    \<Rightarrow> 's \<times> effect list \<times> ('v \<times> quota_decision list) result" where
  "reserve_and_run ops sk rs handler release_on_error release_on_success s =
    (case reserve_loop ops sk [] rs s of
       (s1, eff, reserved, Inl e) \<Rightarrow>
         (let (s2, e') = release_and_raise ops reserved e s1 in (s2, eff, Inl e'))
     | (s1, eff, reserved, Inr ds) \<Rightarrow>
         (case handler s1 of
            (s2, Inl e) \<Rightarrow>
              (if release_on_error
               then (let (s3, e') = release_and_raise ops reserved e s2 in (s3, eff, Inl e'))
               else (s2, eff, Inl e))
          | (s2, Inr v) \<Rightarrow>
              (if release_on_success
               then (case release_loop ops reserved s2 of
                       (s3, Inl e) \<Rightarrow> (s3, eff, Inl e)
                     | (s3, Inr _) \<Rightarrow> (s3, eff, Inr (v, ds)))
               else (s2, eff, Inr (v, ds)))))"

definition run_mutation ::
  "'s usage_ops \<Rightarrow> sinks \<Rightarrow> reservation list \<Rightarrow> ('s \<Rightarrow> 's \<times> 'v result) \<Rightarrow> 's
    \<Rightarrow> 's \<times> effect list \<times> ('v \<times> quota_decision list) result" where
  "run_mutation ops sk rs handler s = reserve_and_run ops sk rs handler True False s"

definition submit_quota_task ::
  "'s usage_ops \<Rightarrow> sinks \<Rightarrow> ('e \<Rightarrow> reservation list) \<Rightarrow> ('e \<Rightarrow> 's \<Rightarrow> 's \<times> 'v result) \<Rightarrow> 'e \<Rightarrow> 's
    \<Rightarrow> 's \<times> effect list \<times> 'v result" where
  "submit_quota_task ops sk reservations_for submitter envelope s =
    (case reserve_and_run ops sk (reservations_for envelope) (submitter envelope) True False s of
       (s', eff, res) \<Rightarrow> (s', eff, rbind res (\<lambda>(v, _). Inr v)))"

section \<open>Lemmas over any store that meets the contract\<close>

text \<open>The amount a list of reservations holds on a usage key.\<close>

definition reserved_on :: "reservation list \<Rightarrow> string \<Rightarrow> int" where
  "reserved_on rs k =
     sum_list (map (\<lambda>x. if quota_key_for (rs_rule x) (rs_subject x) = Inr k then rs_amount x else 0) rs)"

lemma reserved_on_simps [simp]:
  "reserved_on [] k = 0"
  "reserved_on (x # xs) k =
     (if quota_key_for (rs_rule x) (rs_subject x) = Inr k then rs_amount x else 0) + reserved_on xs k"
  by (simp_all add: reserved_on_def)

lemma reserved_on_append: "reserved_on (xs @ ys) k = reserved_on xs k + reserved_on ys k"
  by (induction xs) auto

lemma reserved_on_rev [simp]: "reserved_on (rev rs) k = reserved_on rs k"
  by (induction rs) (simp_all add: reserved_on_append)

definition sound_reservation :: "reservation \<Rightarrow> bool" where
  "sound_reservation x \<longleftrightarrow> 0 < rs_amount x \<and> is_ok (quota_key_for (rs_rule x) (rs_subject x))"

lemma reserved_on_nonneg: "list_all sound_reservation rs \<Longrightarrow> 0 \<le> reserved_on rs k"
  by (induction rs) (auto simp: sound_reservation_def)

context usage_store
begin

lemma quota_reserve_cases:
  assumes "ok s" and "validate_amount a = Inr ()" and key: "quota_key_for r subj = Inr k"
  shows "if 0 \<le> qr_limit r \<and> used s k + a \<le> qr_limit r
    then snd (snd (quota_reserve ops sk r subj a s)) = Inr (quota_decide r k (used s k) a) \<and>
      used (fst (quota_reserve ops sk r subj a s)) = (used s)(k := used s k + a)
    else used (fst (quota_reserve ops sk r subj a s)) = used s \<and>
      (0 \<le> qr_limit r \<longrightarrow>
        snd (snd (quota_reserve ops sk r subj a s)) = Inr (quota_decide r k (used s k) a))"
proof -
  have a: "0 < a" using assms(2) by (auto simp: validate_amount_def split: if_splits)
  have nb: "\<not> blank k" using key by (rule quota_key_not_blank)
  consider "qr_limit r < 0" | "0 \<le> qr_limit r" "used s k + a \<le> qr_limit r"
    | "0 \<le> qr_limit r" "qr_limit r < used s k + a" by linarith
  then show ?thesis
  proof cases
    case 1
    then obtain e where "uo_reserve ops k a (qr_limit r) s = (s, Inl e)"
      using reserve_invalid by blast
    with 1 assms key show ?thesis by (simp add: quota_reserve_def)
  next
    case 2
    with reserve_fits [OF assms(1) nb a 2] assms(2) key show ?thesis
      by (cases "uo_reserve ops k a (qr_limit r) s") (simp add: quota_reserve_def)
  next
    case 3
    with reserve_full [OF assms(1) nb a 3] assms(2) key get_used [OF nb] show ?thesis
      by (cases "uo_reserve ops k a (qr_limit r) s") (simp add: quota_reserve_def Let_def)
  qed
qed

lemma quota_reserve_ok: "ok s \<Longrightarrow> ok (fst (quota_reserve ops sk r subj a s))"
  using reserve_ok
  by (fastforce simp: quota_reserve_def Let_def
      split: sum.splits prod.splits option.splits dest: arg_cong [where f = fst])

lemma require_reserve_Inr:
  assumes "ok s" and "quota_require_reserve ops sk r subj a s = (s', eff, Inr d)"
  shows "\<exists>k. quota_key_for r subj = Inr k \<and> 0 < a \<and> used s' = (used s)(k := used s k + a) \<and>
    used s k + a \<le> qr_limit r \<and> d = quota_decide r k (used s k) a \<and> ok s'"
proof -
  obtain res where q: "quota_reserve ops sk r subj a s = (s', eff, res)"
    and d: "res = Inr d" "qd_allowed d"
    using assms(2) by (auto simp: quota_require_reserve_def split: prod.splits sum.splits if_splits)
  have va: "validate_amount a = Inr ()"
    using q d by (cases "validate_amount a") (auto simp: quota_reserve_def)
  obtain k where k: "quota_key_for r subj = Inr k"
    using q d va by (cases "quota_key_for r subj") (auto simp: quota_reserve_def)
  have lim: "0 \<le> qr_limit r"
    using reserve_invalid [of "qr_limit r" k a s] q d va k
    by (cases "qr_limit r < 0") (auto simp: quota_reserve_def)
  have "ok s'" using quota_reserve_ok [OF assms(1), of sk r subj a] q by simp
  moreover have "0 < a" using va by (auto simp: validate_amount_def split: if_splits)
  ultimately show ?thesis
    using quota_reserve_cases [OF assms(1) va k, of sk] q d k lim
    by (auto simp: quota_decide_def Let_def split: if_splits)
qed

lemma require_reserve_Inl:
  assumes "ok s" and "quota_require_reserve ops sk r subj a s = (s', eff, Inl e)"
  shows "used s' = used s \<and> ok s'"
proof -
  obtain res where q: "quota_reserve ops sk r subj a s = (s', eff, res)"
    and res: "\<And>d. res = Inr d \<Longrightarrow> \<not> qd_allowed d"
    using assms(2) by (auto simp: quota_require_reserve_def split: prod.splits sum.splits if_splits)
  have ok: "ok s'" using quota_reserve_ok [OF assms(1), of sk r subj a] q by simp
  show ?thesis
  proof (cases "rbind (validate_amount a) (\<lambda>_. quota_key_for r subj)")
    case (Inl e')
    with q ok show ?thesis by (simp add: quota_reserve_def)
  next
    case (Inr k)
    then have va: "validate_amount a = Inr ()" and k: "quota_key_for r subj = Inr k"
      by (auto simp: rbind_Inr_iff)
    show ?thesis
      using quota_reserve_cases [OF assms(1) va k, of sk] q res ok
      by (auto simp: quota_decide_def Let_def split: if_splits)
  qed
qed

lemma release_loop_sound:
  assumes "ok s" and "list_all sound_reservation rs" and "\<forall>k. reserved_on rs k \<le> used s k"
  shows "snd (release_loop ops rs s) = Inr () \<and> ok (fst (release_loop ops rs s)) \<and>
    used (fst (release_loop ops rs s)) = (\<lambda>k. used s k - reserved_on rs k)"
  using assms
proof (induction rs arbitrary: s)
  case (Cons x rs)
  obtain k where k: "quota_key_for (rs_rule x) (rs_subject x) = Inr k" and a: "0 < rs_amount x"
    using Cons.prems(2) by (auto simp: sound_reservation_def is_ok_def split: sum.splits)
  have nb: "\<not> blank k" using k by (rule quota_key_not_blank)
  have ge: "rs_amount x \<le> used s k"
    using Cons.prems(2,3) k reserved_on_nonneg [of rs k] by (force dest: spec [of _ k])
  let ?s = "fst (uo_release ops k (rs_amount x) s)"
  from release_used [OF Cons.prems(1) nb a] ge
  have u: "used ?s = (used s)(k := used s k - rs_amount x)"
    and r: "snd (uo_release ops k (rs_amount x) s) = Inr (used s k - rs_amount x)"
    by (simp_all add: max_def)
  have rel: "quota_release ops (rs_rule x) (rs_subject x) (rs_amount x) s =
      (?s, Inr (used s k - rs_amount x))"
    using r k a by (cases "uo_release ops k (rs_amount x) s")
      (simp add: quota_release_def validate_amount_def)
  have le: "\<forall>k'. reserved_on rs k' \<le> used ?s k'"
    using Cons.prems(3) k u by (auto split: if_splits)
  have okx: "ok ?s" using Cons.prems(1) by (rule release_ok)
  show ?case
    using Cons.IH [OF okx _ le] Cons.prems(2) rel u k by (auto simp: fun_eq_iff)
qed simp

lemma reserve_loop_sound:
  assumes "ok s" and "reserve_loop ops sk acc rs s = (s', eff, reserved, res)"
  shows "ok s' \<and> (\<exists>new. reserved = new @ acc \<and> list_all sound_reservation new \<and>
    used s' = (\<lambda>k. used s k + reserved_on new k) \<and>
    (is_ok res \<longrightarrow> new = rev rs))"
  using assms
proof (induction rs arbitrary: s acc s' eff reserved res)
  case (Cons x xs)
  obtain s1 e1 r1 where q: "quota_require_reserve ops sk (rs_rule x) (rs_subject x) (rs_amount x) s
      = (s1, e1, r1)" by (metis prod_cases3)
  show ?case
  proof (cases r1)
    case (Inl e)
    have st: "s' = s1" "reserved = acc" "res = Inl e" using Cons.prems(2) q Inl by auto
    show ?thesis
      unfolding st using require_reserve_Inl [OF Cons.prems(1) q [unfolded Inl]]
      by (auto intro!: exI [of _ "[]"])
  next
    case (Inr d)
    obtain k where k: "quota_key_for (rs_rule x) (rs_subject x) = Inr k" "0 < rs_amount x"
      and u1: "used s1 = (used s)(k := used s k + rs_amount x)" and ok1: "ok s1"
      using require_reserve_Inr [OF Cons.prems(1) q [unfolded Inr]] by blast
    obtain s2 e2 rs2 r2 where l: "reserve_loop ops sk (x # acc) xs s1 = (s2, e2, rs2, r2)"
      by (metis prod_cases4)
    have st: "s' = s2" "reserved = rs2" "res = rbind r2 (\<lambda>ds. Inr (d # ds))"
      using Cons.prems(2) q Inr l by auto
    from Cons.IH [OF ok1 l] obtain new where new: "ok s2" "rs2 = new @ x # acc"
      "list_all sound_reservation new" "used s2 = (\<lambda>k. used s1 k + reserved_on new k)"
      "is_ok r2 \<longrightarrow> new = rev xs" by blast
    have "used s2 = (\<lambda>k'. used s k' + reserved_on (new @ [x]) k')"
      using new(4) u1 k by (auto simp: fun_eq_iff reserved_on_append)
    moreover have "sound_reservation x" using k by (simp add: sound_reservation_def)
    ultimately show ?thesis
      unfolding st using new by (cases r2) (auto intro!: exI [of _ "new @ [x]"])
  qed
qed (auto intro: exI [of _ "[]"])

text \<open>
  A reservation group is all or nothing: when anything raises, every usage is back where it
  was, and when the mutation succeeds exactly the requested amounts are held.
\<close>

lemma release_and_raise_sound:
  assumes "ok s" and "list_all sound_reservation rs" and "\<forall>k. reserved_on rs k \<le> used s k"
  shows "\<exists>s'. release_and_raise ops rs e s = (s', e) \<and> ok s' \<and>
    used s' = (\<lambda>k. used s k - reserved_on rs k)"
  using release_loop_sound [OF assms]
  by (cases "release_loop ops rs s") (auto simp: release_and_raise_def)

lemma run_mutation_all_or_nothing:
  assumes "ok s" and handler: "\<And>s. ok s \<Longrightarrow> ok (fst (handler s)) \<and> used (fst (handler s)) = used s"
    and run: "run_mutation ops sk rs handler s = (s', eff, res)"
  shows "ok s' \<and> used s' = (\<lambda>k. used s k + (if is_ok res then reserved_on rs k else 0))"
proof -
  obtain s1 e1 reserved r1 where l: "reserve_loop ops sk [] rs s = (s1, e1, reserved, r1)"
    by (metis prod_cases4)
  from reserve_loop_sound [OF assms(1) l] have ok1: "ok s1" and sound: "list_all sound_reservation reserved"
    and u1: "used s1 = (\<lambda>k. used s k + reserved_on reserved k)"
    and all: "is_ok r1 \<longrightarrow> reserved = rev rs" by auto
  have ge: "reserved_on reserved k \<le> used s1 k" for k using u1 used_nonneg [OF assms(1), of k] by simp
  obtain s2 r2 where h: "handler s1 = (s2, r2)" by fastforce
  have h2: "ok s2" "used s2 = used s1" using handler [OF ok1] h by auto
  note undo1 = release_and_raise_sound [OF ok1 sound]
  note undo2 = release_and_raise_sound [OF h2(1) sound]
  show ?thesis
  proof (cases r1)
    case (Inl e)
    with undo1 [of e] ge run l u1 show ?thesis
      by (auto simp: run_mutation_def reserve_and_run_def Let_def)
  next
    case (Inr ds)
    with undo2 [of "projl r2"] ge run l u1 h h2 all show ?thesis
      by (cases r2) (auto simp: run_mutation_def reserve_and_run_def Let_def)
  qed
qed

end

end
