(* ===== verification/Quota_Properties.thy ===== *)
theory Quota_Properties
  imports Quota_Service
begin

text \<open>What the quotas promise.\<close>

definition sample_quota_rule :: quota_rule where
  "sample_quota_rule = \<lparr>qr_metric = ''seats'', qr_limit = 3, qr_scope = Tenant_Scope\<rparr>"

definition sample_subject :: quota_subject where
  "sample_subject = \<lparr>qs_tenant_id = ''t1'', qs_user_id = None, qs_resource_type = None, qs_resource_id = None\<rparr>"

lemma sample_limit: "qr_limit sample_quota_rule = 3"
  by (simp add: sample_quota_rule_def)

lemma sample_quota_key: "quota_key_for sample_quota_rule sample_subject = Inr ''quota:seats:tenant_id=t1''"
  by (simp add: quota_key_for_def sample_quota_rule_def sample_subject_def parts_for_def require_field_def
      cache_key_def bad_segment_def is_space_def)

text \<open>C10: A guarded mutation reserves all or nothing, with the memory store and with the database
  store: when it returns, exactly the requested amounts have been added to the usage of each
  key; when anything raises, a reservation or the mutation itself, every usage is what it was.\<close>

theorem mutation_reserves_all_or_nothing:
  assumes "usage_nonneg s"
    and "\<And>s. usage_nonneg s \<Longrightarrow> usage_nonneg (fst (handler s)) \<and> used_in (fst (handler s)) = used_in s"
    and "run_mutation memory_usage_ops sk rs handler s = (m, eff, res)"
    and "run_mutation database_usage_ops sk rs handler s = (d, eff', res')"
  shows "used_in m = (\<lambda>k. used_in s k + (if is_ok res then reserved_on rs k else 0)) \<and>
    used_in d = (\<lambda>k. used_in s k + (if is_ok res' then reserved_on rs k else 0))"
  using memory_usage.run_mutation_all_or_nothing [OF assms(1-3)]
    database_usage.run_mutation_all_or_nothing [OF assms(1,2,4)] by blast

theorem mutation_reserves_all_or_nothing_witness:
  "used_in (fst (run_mutation memory_usage_ops \<lparr>has_metrics = False, has_audit = False\<rparr>
     [\<lparr>rs_rule = sample_quota_rule, rs_subject = sample_subject, rs_amount = 2\<rparr>,
      \<lparr>rs_rule = sample_quota_rule, rs_subject = sample_subject, rs_amount = 2\<rparr>]
     (\<lambda>s. (s, Inr ())) Map.empty)) = used_in Map.empty"
proof -
  let ?rs = "[\<lparr>rs_rule = sample_quota_rule, rs_subject = sample_subject, rs_amount = 2\<rparr>,
      \<lparr>rs_rule = sample_quota_rule, rs_subject = sample_subject, rs_amount = 2\<rparr>]"
  let ?sk = "\<lparr>has_metrics = False, has_audit = False\<rparr>"
  obtain m eff res where m: "run_mutation memory_usage_ops ?sk ?rs (\<lambda>s. (s, Inr ())) Map.empty = (m, eff, res)"
    by (metis prod_cases3)
  obtain d eff' res' where d: "run_mutation database_usage_ops ?sk ?rs (\<lambda>s. (s, Inr ())) Map.empty = (d, eff', res')"
    by (metis prod_cases3)
  have "\<not> is_ok (snd (snd (run_mutation memory_usage_ops ?sk ?rs (\<lambda>s. (s, Inr ())) Map.empty)))"
    by (simp add: run_mutation_def reserve_and_run_def quota_require_reserve_def quota_reserve_def
        validate_amount_def sample_quota_key memory_usage_ops_def mem_reserve_simp mem_get_usage_def
        mem_release_simp is_space_def used_in_def sample_limit quota_decide_def Let_def
        validate_usage_key_def release_and_raise_def quota_release_def)
  with m have "\<not> is_ok res" by simp
  then show ?thesis
    using mutation_reserves_all_or_nothing [OF _ _ m d] m by (simp add: usage_nonneg_def)
qed

text \<open>C40: The database store never lets a reservation exceed the limit, under any interleaving: if the
  other sessions keep the usage of the key between zero and the limit, so does a reservation,
  and the usage it reports is within the limit.\<close>

theorem database_reservation_within_limit:
  assumes "keeps_within k limit env" and "within k limit rows"
    and "db_reserve env k amount limit rows = (rows', res)"
  shows "within k limit rows' \<and> (\<forall>p. res = Inr (Some p) \<longrightarrow> p \<le> limit)"
proof (cases "validate_reserve k amount limit")
  case (Inl e)
  with assms show ?thesis by (auto simp: db_reserve_def)
next
  case (Inr u)
  then have "0 < amount" using validate_reserve_ok [of k amount limit] by simp
  with Inr assms db_reserve_tries_within [OF assms(1,2), of amount 2] show ?thesis
    by (cases "limit < amount") (auto simp: db_reserve_def)
qed

theorem database_reservation_within_limit_witness:
  "within ''k'' 3 (fst (db_reserve (\<lambda>i rows. rows(''k'' \<mapsto> 3)) ''k'' 1 3 [''k'' \<mapsto> 2]))"
proof -
  obtain rows' res where r: "db_reserve (\<lambda>i rows. rows(''k'' \<mapsto> 3)) ''k'' 1 3 [''k'' \<mapsto> 2] = (rows', res)"
    by fastforce
  have "keeps_within ''k'' 3 (\<lambda>i rows. rows(''k'' \<mapsto> 3))" "within ''k'' 3 [''k'' \<mapsto> 2]"
    by (simp_all add: keeps_within_def within_def)
  from database_reservation_within_limit [OF this r] show ?thesis by (simp add: r)
qed

text \<open>A release in the database store writes what it read less the amount: a change that another
  session commits between its read and its write is lost, so after a concurrent reservation of
  \<open>b\<close> the store records \<open>b\<close> less than is held, and hands that amount out again.\<close>

theorem database_release_loses_update:
  assumes "\<not> blank k" and "0 < amount" and "rows k = Some u" and "amount \<le> u"
    and "env 0 rows k = Some (u + b)"
  shows "fst (db_release_usage env k amount rows) k = Some (u - amount) \<and>
    snd (db_release_usage env k amount rows) = Inr (u - amount)"
  using assms validate_release_ok [of k amount]
  by (auto simp: db_release_usage_def Let_def)

theorem database_release_loses_update_witness:
  "fst (db_release_usage (\<lambda>i rows. rows(''k'' \<mapsto> 5)) ''k'' 1 [''k'' \<mapsto> 2]) ''k'' = Some 1"
  using database_release_loses_update [of "''k''" 1 "[''k'' \<mapsto> 2]" 2 "\<lambda>i rows. rows(''k'' \<mapsto> 5)" 3]
  by (simp add: is_space_def)

text \<open>A rule resolved from a tenant's configuration is the rule of that metric and is valid: the
  metric is not blank and has no colon, and the limit is not negative.\<close>

theorem configured_rules_are_valid:
  assumes "from_tenant_config t config = Inr g" and "resolve_quota_rule g m = Inr r"
  shows "qr_metric r = m \<and> \<not> blank m \<and> CHR '':'' \<notin> set m \<and> 0 \<le> qr_limit r"
  using resolve_quota_rule_ok [OF assms] by (simp add: quota_rule_ok_def)

theorem configured_rules_are_valid_witness:
  "qr_metric \<lparr>qr_metric = ''seats'', qr_limit = 3, qr_scope = Tenant_Scope\<rparr> = ''seats'' \<and>
   resolve_quota_rule \<lparr>qg_tenant_id = ''t1'',
     qg_rules = [(''seats'', \<lparr>qr_metric = ''seats'', qr_limit = 3, qr_scope = Tenant_Scope\<rparr>)]\<rparr> ''seats'' =
     Inr \<lparr>qr_metric = ''seats'', qr_limit = 3, qr_scope = Tenant_Scope\<rparr>"
proof -
  let ?r = "\<lparr>qr_metric = ''seats'', qr_limit = 3, qr_scope = Tenant_Scope\<rparr>"
  let ?g = "\<lparr>qg_tenant_id = ''t1'', qg_rules = [(''seats'', ?r)]\<rparr>"
  have g: "from_tenant_config ''t1'' [(''seats'', Plain 3)] = Inr ?g"
    by (simp add: from_tenant_config_def make_quota_rule_def is_space_def)
  have r: "resolve_quota_rule ?g ''seats'' = Inr ?r" by (simp add: resolve_quota_rule_def dget_def)
  from configured_rules_are_valid [OF g r] r show ?thesis by simp
qed

end
