(* ===== verification/Idempotency_Properties.thy ===== *)
theory Idempotency_Properties
  imports Idempotency
begin

text \<open>What the idempotency guard promises.\<close>

definition sample_scope :: idem_scope where
  "sample_scope = \<lparr>is_tenant_id = ''t1'', is_user_id = ''u1'', is_route = ''POST /x'', is_key = ''k1''\<rparr>"

definition ok_builders :: "int builders" where
  "ok_builders = \<lparr>bd_response = (\<lambda>v. Inr (PInt v)), bd_task_id = None, bd_outbox_event_id = None\<rparr>"

lemma sample_scope_valid: "validate_scope sample_scope ''h'' = Inr ()"
  by (simp add: validate_scope_def scope_values_def sample_scope_def check_nonempty_def is_space_def)

text \<open>A mutation that succeeded is not run again: within the time to live, another call with the
  same key and the same request returns the recorded response, with the same code, body, task and
  event, whatever its handler is, and neither runs the handler nor changes anything.\<close>

theorem mutation_replayed:
  assumes "guard_run k h ttl lock c1 retry1 handler code b (tab, w) = ((tab1, w1), Inr m1)"
    and "mr_outcome m1 = Started" and "to_utc c2 < to_utc c1 + secs ttl"
  shows "\<exists>m2. guard_run k h ttl' lock' c2 retry2 handler' code' b' (tab1, w2) = ((tab1, w2), Inr m2) \<and>
    mr_outcome m2 = Replayed \<and> mr_value m2 = None \<and>
    mr_response_code m2 = mr_response_code m1 \<and> mr_response_body m2 = mr_response_body m1 \<and>
    mr_task_id m2 = mr_task_id m1 \<and> mr_outbox_event_id m2 = mr_outbox_event_id m1"
proof -
  obtain body task ob where t1: "tab1 = mark_succeeded k code body task ob
      (processing_record h ttl lock (to_utc c1)) (tab(k \<mapsto> processing_record h ttl lock (to_utc c1)))"
    and v: "validate_scope k h = Inr ()"
    and m1: "mr_response_code m1 = Some code" "mr_response_body m1 = body" "mr_task_id m1 = task"
      "mr_outbox_event_id m1 = ob"
    using guard_run_Inr_started [OF assms(1,2)] by blast
  let ?r = "(processing_record h ttl lock (to_utc c1))\<lparr>ir_status := Succeeded,
     ir_response_code := Some code, ir_response_body := body, ir_task_id := task,
     ir_outbox_event_id := ob, ir_locked_until := None\<rparr>"
  have r: "tab1 k = Some ?r" by (simp add: t1 mark_succeeded_def)
  have "claim k h ttl' lock' c2 retry2 tab1 = (tab1, Inr \<lparr>cl_outcome = Replayed, cl_record = ?r\<rparr>)"
    using assms(3) by (simp add: claim_existing [where tab = tab1 and k = k, OF r v] handle_existing_def processing_record_def)
  then show ?thesis by (simp add: guard_run_def Let_def m1)
qed

theorem mutation_replayed_witness:
  "\<exists>st m. guard_run sample_scope ''h'' 60 10 (Naive 0) False (\<lambda>w. (Suc w, Inr (5::int))) ''OK'' ok_builders
      (Map.empty, 0::nat) = (st, Inr m) \<and>
    (\<exists>m2. guard_run sample_scope ''h'' 60 10 (Naive 9) False (\<lambda>w. (Suc w, Inr (7::int))) ''OK'' ok_builders st
       = (st, Inr m2) \<and> mr_response_body m2 = PInt 5)"
proof -
  obtain tab m where first: "guard_run sample_scope ''h'' 60 10 (Naive 0) False (\<lambda>w. (Suc w, Inr (5::int)))
      ''OK'' ok_builders (Map.empty, 0::nat) = ((tab, Suc 0), Inr m)"
    "mr_outcome m = Started" "mr_response_body m = PInt 5"
    by (simp add: guard_run_def claim_missing sample_scope_valid build_response_def ok_builders_def
        build_optional_def Let_def)
  from mutation_replayed [OF first(1,2), of "Naive 9" 60 10 False "\<lambda>w. (Suc w, Inr (7::int))" "''OK''" ok_builders "Suc 0"]
  obtain m2 where "guard_run sample_scope ''h'' 60 10 (Naive 9) False (\<lambda>w. (Suc w, Inr (7::int))) ''OK''
      ok_builders (tab, Suc 0) = ((tab, Suc 0), Inr m2)" "mr_response_body m2 = PInt 5"
    using first(3) by (auto simp: secs_def)
  with first show ?thesis by blast
qed

text \<open>A mutation that raised is recorded and not retried silently: its error goes to the caller,
  the record is failed with the error's class, and within the time to live a second call with
  the same request is a conflict, unless it opts into a retry, which starts afresh.\<close>

theorem failed_mutation_needs_opt_in:
  assumes "guard_run k h ttl lock c1 retry1 handler code b (tab, w) = ((tab1, w1), Inl e)"
    and "validate_scope k h = Inr ()" and "tab k = None" and "to_utc c2 < to_utc c1 + secs ttl"
  shows "(\<exists>r. tab1 k = Some r \<and> ir_status r = Failed \<and> ir_response_code r = Some (exn_class e)) \<and>
    (\<exists>e'. claim k h ttl' lock' c2 False tab1 = (tab1, Inl e') \<and> exn_code e' = Some ''CONFLICT'') \<and>
    (\<exists>tab2 cl. claim k h ttl' lock' c2 True tab1 = (tab2, Inr cl) \<and> cl_outcome cl = Started)"
proof -
  have r: "tab1 k = Some ((processing_record h ttl lock (to_utc c1))\<lparr>ir_status := Failed,
      ir_response_code := Some (exn_class e), ir_response_body := failure_body e, ir_locked_until := None\<rparr>)"
    using assms(1) by (auto simp: guard_run_def claim_missing [where tab = tab and k = k, OF assms(3,2)] mark_failed_def Let_def
        split: prod.splits sum.splits)
  then show ?thesis
    using assms(4) by (simp add: claim_existing [where tab = tab1 and k = k, OF r assms(2)] handle_existing_def processing_record_def
        restarted_def Let_def)
qed

theorem failed_mutation_needs_opt_in_witness:
  "\<exists>tab. fst (fst (guard_run sample_scope ''h'' 60 10 (Naive 0) False
      (\<lambda>w. (w, Inl (PyError ''KeyError'' ''x''))) ''OK'' ok_builders (Map.empty, ()))) = tab \<and>
    (\<exists>e'. claim sample_scope ''h'' 60 10 (Naive 9) False tab = (tab, Inl e') \<and>
      exn_code e' = Some ''CONFLICT'')"
proof -
  obtain tab where run: "guard_run sample_scope ''h'' 60 10 (Naive 0) False
      (\<lambda>w. (w, Inl (PyError ''KeyError'' ''x''))) ''OK'' ok_builders (Map.empty, ()) =
      ((tab, ()), Inl (PyError ''KeyError'' ''x''))"
    by (simp add: guard_run_def claim_missing sample_scope_valid Let_def)
  from failed_mutation_needs_opt_in [OF run sample_scope_valid, of "Naive 9"] run
  show ?thesis by (auto simp: secs_def)
qed

text \<open>A diagnosis predicts the claim: for a record whose expired mark, if it has one, is true, what
  \<open>diagnose\<close> says of a request at a time is what \<open>claim\<close> does with it then: a missing, expired or
  retryable key starts, a replayable one is replayed, and a conflicting, unfinished or failed one
  is refused with the matching code; only a processing record whose lease has run out is
  diagnosed as in progress and taken over.\<close>

theorem diagnosis_predicts_claim:
  assumes "diagnose k (Some h) c retry tab = Inr d"
    and "\<forall>r. tab k = Some r \<and> ir_status r = Expired \<longrightarrow> ir_expires_at r \<le> to_utc c"
  shows "let res = snd (claim k h ttl lock c retry tab) in
    (case dg_status d of
       Missing \<Rightarrow> \<exists>cl. res = Inr cl \<and> cl_outcome cl = Started
     | Expired_Reusable \<Rightarrow> \<exists>cl. res = Inr cl \<and> cl_outcome cl = Started
     | Retryable_Failed \<Rightarrow> \<exists>cl. res = Inr cl \<and> cl_outcome cl = Started
     | Replayable \<Rightarrow> \<exists>cl. res = Inr cl \<and> cl_outcome cl = Replayed \<and> tab k = Some (cl_record cl)
     | Request_Hash_Conflict \<Rightarrow> \<exists>e. res = Inl e \<and> exn_code e = Some ''IDEMPOTENCY_KEY_CONFLICT''
     | Failed_Requires_Retry_Opt_In \<Rightarrow> \<exists>e. res = Inl e \<and> exn_code e = Some ''CONFLICT''
     | In_Progress \<Rightarrow>
         (if when_some (tab k) (\<lambda>r. when_some (ir_locked_until r) (\<lambda>l. l \<le> to_utc c))
          then \<exists>cl. res = Inr cl \<and> cl_outcome cl = Started
          else \<exists>e. res = Inl e \<and> exn_code e = Some ''IDEMPOTENCY_IN_PROGRESS''))"
proof -
  have "validate_lookup_scope k (Some h) = validate_scope k h"
    by (simp add: validate_lookup_scope_def validate_scope_def)
  then have v: "validate_scope k h = Inr ()"
    using assms(1) by (auto simp: diagnose_def Let_def rbind_Inr_iff)
  show ?thesis
  proof (cases "tab k")
    case None
    then show ?thesis
      using assms(1) by (auto simp: diagnose_def rbind_Inr_iff claim_missing [where tab = tab and k = k, OF None v])
  next
    case (Some r)
    have d: "dg_status d = (if ir_expires_at r \<le> to_utc c \<or> ir_status r = Expired then Expired_Reusable
        else if ir_request_hash r \<noteq> h then Request_Hash_Conflict
        else if ir_status r = Succeeded then Replayable
        else if ir_status r = Processing then In_Progress
        else if retry then Retryable_Failed else Failed_Requires_Retry_Opt_In)"
      using assms(1) Some by (auto simp: diagnose_def rbind_Inr_iff Let_def split: if_splits)
    show ?thesis
      unfolding Let_def claim_existing [where tab = tab and k = k, OF Some v] d using assms(2) Some
      by (cases "ir_status r") (auto simp: handle_existing_def restarted_def Let_def)
  qed
qed

theorem diagnosis_predicts_claim_witness:
  "\<exists>cl. snd (claim sample_scope ''h'' 60 10 (Naive 0) False Map.empty) = Inr cl \<and> cl_outcome cl = Started"
proof -
  obtain d where d: "diagnose sample_scope (Some ''h'') (Naive 0) False Map.empty = Inr d" "dg_status d = Missing"
    using sample_scope_valid
    by (simp add: diagnose_def validate_lookup_scope_def validate_scope_def)
  show ?thesis using diagnosis_predicts_claim [OF d(1), of 60 10] d(2) by (simp add: Let_def)
qed

text \<open>The table of idempotency records keeps its invariant through every operation: a record has a
  lease exactly while it is processing, and a finished one has its response code.\<close>

theorem idempotency_table_invariant:
  assumes "table_wf tab"
  shows "table_wf (fst (claim k h ttl lock c retry tab)) \<and>
    table_wf (fst (fst (guard_run k h ttl lock c retry handler code b (tab, w)))) \<and>
    table_wf (mark_succeeded k code body task outbox r tab) \<and>
    table_wf (mark_failed k code body r tab) \<and> table_wf (expire_before c tab)"
  using claim_wf [OF assms] guard_run_wf [of "(tab, w)"] mark_succeeded_wf [OF assms]
    mark_failed_wf [OF assms] expire_before_wf [OF assms] assms by simp

theorem idempotency_table_invariant_witness:
  "table_wf (fst (claim sample_scope ''h'' 60 10 (Naive 0) False Map.empty))"
  by (rule conjunct1 [OF idempotency_table_invariant]) (simp add: table_wf_def)

end
