(* ===== verification/App_Dependencies.thy ===== *)
theory App_Dependencies
  imports Errors
begin

text \<open>
  The start-up order of the app modules (\<open>core/apps/dependencies.py\<close>): duplicate labels and
  missing dependencies are collected as errors, and when there are none a depth-first search
  orders the modules with every dependency before its dependants, or reports a cycle. The
  recursion of \<open>visit\<close> takes fuel; \<open>visit_enough\<close> shows that one more than the number of modules
  is enough, and \<open>topological_order\<close> uses that.
\<close>

section \<open>Modules and errors\<close>

record app_module =
  am_label :: string
  am_dependencies :: "string list"

type_synonym module_map = "(string \<times> app_module) list"
type_synonym label_errors = "(string \<times> string list) list"

definition add_error :: "label_errors \<Rightarrow> string \<Rightarrow> string \<Rightarrow> label_errors" where
  "add_error errors label err =
     dput label ((case dget errors label of None \<Rightarrow> [] | Some es \<Rightarrow> es) @ [err]) errors"

lemma dput_not_Nil [simp]: "dput k v d \<noteq> []"
  by (induction k v d rule: dput.induct) auto

lemma add_error_not_Nil [simp]: "add_error errors label err \<noteq> []"
  by (simp add: add_error_def)

text \<open>The first loop: the first module of a label wins, a later one is an error.\<close>

fun collect_modules :: "app_module list \<Rightarrow> module_map \<Rightarrow> label_errors \<Rightarrow> module_map \<times> label_errors" where
  "collect_modules [] ms errors = (ms, errors)"
| "collect_modules (m # mods) ms errors =
     (if dget ms (am_label m) \<noteq> None
        then collect_modules mods ms
          (add_error errors (am_label m) (''Duplicate app label: '' @ am_label m))
      else collect_modules mods (dput (am_label m) m ms) errors)"

text \<open>The second loop, over the collected modules.\<close>

definition missing_of :: "module_map \<Rightarrow> app_module \<Rightarrow> string list" where
  "missing_of ms m = filter (\<lambda>d. dget ms d = None) (am_dependencies m)"

fun collect_missing :: "module_map \<Rightarrow> app_module list \<Rightarrow> label_errors \<Rightarrow> label_errors" where
  "collect_missing ms [] errors = errors"
| "collect_missing ms (m # mods) errors =
     collect_missing ms mods
       (if missing_of ms m \<noteq> []
        then add_error errors (am_label m) (''missing dependencies: '' @ repr_strs (missing_of ms m))
        else errors)"

section \<open>The depth-first search\<close>

record dfs =
  d_ordered :: "string list"
  d_visiting :: "string list"
  d_visited :: "string list"
  d_path :: "string list"
  d_errors :: label_errors

definition deps_of :: "module_map \<Rightarrow> string \<Rightarrow> string list" where
  "deps_of ms l = (case dget ms l of None \<Rightarrow> [] | Some m \<Rightarrow> am_dependencies m)"

text \<open>\<open>path[path.index(label):]\<close>: the part of the path from the label on.\<close>

definition cycle_tail :: "string \<Rightarrow> string list \<Rightarrow> string list" where
  "cycle_tail l path = dropWhile (\<lambda>x. x \<noteq> l) path"

definition report_cycle :: "string \<Rightarrow> dfs \<Rightarrow> dfs" where
  "report_cycle l s =
     s\<lparr>d_errors := add_error (d_errors s) l
        (''circular dependencies: '' @ join '' -> '' (cycle_tail l (d_path s) @ [l]))\<rparr>"

definition enter :: "string \<Rightarrow> dfs \<Rightarrow> dfs" where
  "enter l s = s\<lparr>d_visiting := l # d_visiting s, d_path := d_path s @ [l]\<rparr>"

definition leave :: "string \<Rightarrow> dfs \<Rightarrow> dfs" where
  "leave l s = s\<lparr>d_path := butlast (d_path s), d_visiting := remove1 l (d_visiting s),
     d_visited := l # d_visited s, d_ordered := d_ordered s @ [l]\<rparr>"

fun visit :: "nat \<Rightarrow> module_map \<Rightarrow> string \<Rightarrow> dfs \<Rightarrow> dfs option"
  and visit_all :: "nat \<Rightarrow> module_map \<Rightarrow> string list \<Rightarrow> dfs \<Rightarrow> dfs option" where
  "visit 0 ms l s = None"
| "visit (Suc n) ms l s =
     (if l \<in> set (d_visited s) then Some s
      else if l \<in> set (d_visiting s) then Some (report_cycle l s)
      else (case visit_all n ms (deps_of ms l) (enter l s) of
              None \<Rightarrow> None
            | Some s' \<Rightarrow> Some (leave l s')))"
| "visit_all n ms [] s = Some s"
| "visit_all n ms (d # ds) s =
     (if dget ms d \<noteq> None
      then (case visit n ms d s of None \<Rightarrow> None | Some s' \<Rightarrow> visit_all n ms ds s')
      else visit_all n ms ds s)"

definition start_dfs :: "label_errors \<Rightarrow> dfs" where
  "start_dfs errors = \<lparr>d_ordered = [], d_visiting = [], d_visited = [], d_path = [],
     d_errors = errors\<rparr>"

definition topological_order ::
  "string list \<Rightarrow> module_map \<Rightarrow> label_errors \<Rightarrow> (string list \<times> label_errors) option" where
  "topological_order labels ms errors =
    (case visit_all (Suc (length ms)) ms labels (start_dfs errors) of
       None \<Rightarrow> None
     | Some s \<Rightarrow> Some (if d_errors s \<noteq> [] then [] else d_ordered s, d_errors s))"

record dependency_validation =
  dv_ordered_modules :: "app_module list"
  dv_errors_by_label :: label_errors

definition validation_ok :: "dependency_validation \<Rightarrow> bool" where
  "validation_ok v \<longleftrightarrow> dv_errors_by_label v = []"

definition validate_app_dependencies :: "app_module list \<Rightarrow> dependency_validation option" where
  "validate_app_dependencies mods =
    (let (ms, errors) = collect_modules mods [] [];
         errors = collect_missing ms (map snd ms) errors in
     if errors \<noteq> [] then Some \<lparr>dv_ordered_modules = [], dv_errors_by_label = errors\<rparr>
     else (case topological_order (map am_label mods) ms errors of
       None \<Rightarrow> None
     | Some (order, errors) \<Rightarrow>
         Some \<lparr>dv_ordered_modules = map (\<lambda>l. the (dget ms l)) order, dv_errors_by_label = errors\<rparr>))"

section \<open>The search keeps its invariant\<close>

text \<open>In a good order every dependency that is a module comes before its dependant.\<close>

definition deps_first :: "module_map \<Rightarrow> string list \<Rightarrow> bool" where
  "deps_first ms order \<longleftrightarrow>
     (\<forall>xs l ys. order = xs @ l # ys \<longrightarrow> (\<forall>d \<in> set (deps_of ms l). dget ms d \<noteq> None \<longrightarrow> d \<in> set xs))"

definition edges :: "module_map \<Rightarrow> (string \<times> string) set" where
  "edges ms = {(l, d). dget ms l \<noteq> None \<and> d \<in> set (deps_of ms l) \<and> dget ms d \<noteq> None}"

definition dfs_inv :: "module_map \<Rightarrow> dfs \<Rightarrow> bool" where
  "dfs_inv ms s \<longleftrightarrow>
     set (d_visited s) = set (d_ordered s) \<and> distinct (d_ordered s) \<and>
     set (d_visiting s) = set (d_path s) \<and> distinct (d_visiting s) \<and> distinct (d_path s) \<and>
     set (d_path s) \<inter> set (d_ordered s) = {} \<and>
     set (d_path s) \<union> set (d_ordered s) \<subseteq> {l. dget ms l \<noteq> None} \<and>
     (\<forall>x \<in> set (d_path s). (x, last (d_path s)) \<in> (edges ms)\<^sup>*) \<and>
     (d_errors s = [] \<longrightarrow> deps_first ms (d_ordered s)) \<and>
     (d_errors s \<noteq> [] \<longrightarrow> \<not> acyclic (edges ms))"

text \<open>What a call may be entered with: a module that the top of the path depends on.\<close>

definition callable :: "module_map \<Rightarrow> string \<Rightarrow> dfs \<Rightarrow> bool" where
  "callable ms l s \<longleftrightarrow> dget ms l \<noteq> None \<and> (d_path s \<noteq> [] \<longrightarrow> (last (d_path s), l) \<in> edges ms)"

text \<open>What a call does to the state.\<close>

definition extends :: "dfs \<Rightarrow> dfs \<Rightarrow> bool" where
  "extends s s' \<longleftrightarrow> d_path s' = d_path s \<and> set (d_ordered s) \<subseteq> set (d_ordered s') \<and>
     (d_errors s' = [] \<longrightarrow> d_errors s = [])"

lemma extends_refl: "extends s s"
  by (simp add: extends_def)

lemma extends_trans: "extends s s' \<Longrightarrow> extends s' s'' \<Longrightarrow> extends s s''"
  by (auto simp: extends_def)

lemma deps_first_snoc:
  "deps_first ms (xs @ [l]) \<longleftrightarrow>
     deps_first ms xs \<and> (\<forall>d \<in> set (deps_of ms l). dget ms d \<noteq> None \<longrightarrow> d \<in> set xs)"
  (is "?A \<longleftrightarrow> ?B")
proof
  assume a: ?A
  show ?B
    unfolding deps_first_def
  proof (intro conjI allI impI)
    show "\<forall>d \<in> set (deps_of ms m). dget ms d \<noteq> None \<longrightarrow> d \<in> set as" if "xs = as @ m # bs" for as m bs
      using a that unfolding deps_first_def by (metis append_Cons append_assoc)
    show "\<forall>d \<in> set (deps_of ms l). dget ms d \<noteq> None \<longrightarrow> d \<in> set xs"
      using a unfolding deps_first_def by blast
  qed
next
  assume b: ?B
  show ?A
    unfolding deps_first_def
  proof (intro allI impI)
    fix as m bs
    assume eq: "xs @ [l] = as @ m # bs"
    show "\<forall>d \<in> set (deps_of ms m). dget ms d \<noteq> None \<longrightarrow> d \<in> set as"
      using b eq unfolding deps_first_def by (cases bs rule: rev_cases) auto
  qed
qed

lemma report_cycle_inv:
  assumes "dfs_inv ms s" and "callable ms l s" and "l \<in> set (d_visiting s)"
  shows "dfs_inv ms (report_cycle l s) \<and> extends s (report_cycle l s)"
proof -
  have "l \<in> set (d_path s)" using assms(1,3) by (simp add: dfs_inv_def)
  then have "(l, last (d_path s)) \<in> (edges ms)\<^sup>*" and "(last (d_path s), l) \<in> edges ms"
    using assms(1,2) by (auto simp: dfs_inv_def callable_def)
  then have "(l, l) \<in> (edges ms)\<^sup>+" by simp
  then have "\<not> acyclic (edges ms)" by (auto simp: acyclic_def)
  with assms(1) show ?thesis by (simp add: dfs_inv_def report_cycle_def extends_def)
qed

lemma enter_inv:
  assumes "dfs_inv ms s" and "callable ms l s"
    and "l \<notin> set (d_visited s)" and "l \<notin> set (d_visiting s)"
  shows "dfs_inv ms (enter l s)"
proof -
  have "(x, l) \<in> (edges ms)\<^sup>*" if "x \<in> set (d_path s)" for x
    using assms(1,2) that rtrancl_into_rtrancl [of x "last (d_path s)" "edges ms" l]
    by (auto simp: dfs_inv_def callable_def)
  with assms show ?thesis by (auto simp: dfs_inv_def enter_def callable_def)
qed

lemma leave_inv:
  assumes inv: "dfs_inv ms s'" and path: "d_path s' = path @ [l]"
    and reach: "\<forall>x \<in> set path. (x, last path) \<in> (edges ms)\<^sup>*"
    and deps: "d_errors s' = [] \<longrightarrow> (\<forall>d \<in> set (deps_of ms l). dget ms d \<noteq> None \<longrightarrow> d \<in> set (d_ordered s'))"
  shows "dfs_inv ms (leave l s')"
proof -
  have "set (remove1 l (d_visiting s')) = set (d_visiting s') - {l}"
    using inv by (simp add: dfs_inv_def)
  with inv path reach deps show ?thesis
    by (auto simp: dfs_inv_def leave_def deps_first_snoc distinct_remove1)
qed

lemma visit_inv:
  "visit n ms l s = Some s' \<Longrightarrow> dfs_inv ms s \<Longrightarrow> callable ms l s \<Longrightarrow>
     dfs_inv ms s' \<and> extends s s' \<and> (d_errors s' = [] \<longrightarrow> l \<in> set (d_ordered s'))"
  "visit_all n ms ds s = Some s' \<Longrightarrow> dfs_inv ms s \<Longrightarrow>
     (\<forall>d \<in> set ds. dget ms d \<noteq> None \<longrightarrow> callable ms d s) \<Longrightarrow>
     dfs_inv ms s' \<and> extends s s' \<and>
     (d_errors s' = [] \<longrightarrow> (\<forall>d \<in> set ds. dget ms d \<noteq> None \<longrightarrow> d \<in> set (d_ordered s')))"
proof (induction n ms l s and n ms ds s arbitrary: s' and s' rule: visit_visit_all.induct)
  case (2 n ms l s)
  consider "l \<in> set (d_visited s)" | "l \<notin> set (d_visited s)" "l \<in> set (d_visiting s)"
    | "l \<notin> set (d_visited s)" "l \<notin> set (d_visiting s)" by blast
  then show ?case
  proof cases
    case 1
    with "2.prems" show ?thesis by (auto simp: extends_refl dfs_inv_def)
  next
    case 2
    with "2.prems" report_cycle_inv show ?thesis by (auto simp: report_cycle_def)
  next
    case 3
    then obtain s1 where s1: "visit_all n ms (deps_of ms l) (enter l s) = Some s1"
      and s': "s' = leave l s1" using "2.prems"(1) by (auto split: option.splits)
    have inv: "dfs_inv ms (enter l s)" using enter_inv "2.prems" 3 by blast
    have call: "\<forall>d \<in> set (deps_of ms l). dget ms d \<noteq> None \<longrightarrow> callable ms d (enter l s)"
      using "2.prems"(3) by (auto simp: callable_def enter_def edges_def)
    from "2.IH" [OF 3 s1 inv call] have inv1: "dfs_inv ms s1" and ext: "extends (enter l s) s1"
      and deps: "d_errors s1 = [] \<longrightarrow>
        (\<forall>d \<in> set (deps_of ms l). dget ms d \<noteq> None \<longrightarrow> d \<in> set (d_ordered s1))" by auto
    have path: "d_path s1 = d_path s @ [l]" using ext by (simp add: extends_def enter_def)
    have reach: "\<forall>x \<in> set (d_path s). (x, last (d_path s)) \<in> (edges ms)\<^sup>*"
      using "2.prems"(2) by (simp add: dfs_inv_def)
    have "extends s s'" using ext s' by (auto simp: extends_def enter_def leave_def)
    with leave_inv [OF inv1 path reach deps] s' show ?thesis by (simp add: leave_def)
  qed
next
  case (4 n ms d ds s)
  show ?case
  proof (cases "dget ms d \<noteq> None")
    case True
    then obtain s1 where s1: "visit n ms d s = Some s1" and rest: "visit_all n ms ds s1 = Some s'"
      using "4.prems"(1) by (auto split: option.splits)
    have call: "callable ms d s" using "4.prems"(3) True by simp
    from "4.IH"(1) [OF True s1 "4.prems"(2) call] have inv1: "dfs_inv ms s1"
      and ext: "extends s s1" and d: "d_errors s1 = [] \<longrightarrow> d \<in> set (d_ordered s1)" by auto
    have call': "\<forall>d \<in> set ds. dget ms d \<noteq> None \<longrightarrow> callable ms d s1"
      using "4.prems"(3) ext by (auto simp: callable_def extends_def)
    from "4.IH"(2) [OF True s1 rest inv1 call'] ext d show ?thesis
      by (auto simp: extends_def)
  next
    case False
    then have "visit_all n ms ds s = Some s'" using "4.prems"(1) by simp
    with "4.IH"(3) [OF False] "4.prems"(2,3) False show ?thesis by simp
  qed
qed (auto simp: extends_refl)

section \<open>Enough fuel\<close>

lemma dget_dom: "{l. dget ms l \<noteq> None} = fst ` set ms"
  by (auto simp: dget_def map_of_eq_None_iff image_iff)

lemma path_short: "dfs_inv ms s \<Longrightarrow> length (d_path s) \<le> length ms"
proof -
  assume inv: "dfs_inv ms s"
  then have "length (d_path s) = card (set (d_path s))" by (simp add: dfs_inv_def distinct_card)
  also have "\<dots> \<le> card (fst ` set ms)"
    using inv dget_dom [of ms] by (intro card_mono) (auto simp: dfs_inv_def)
  also have "\<dots> \<le> length ms" using card_image_le [of "set ms" fst] card_length [of ms] by simp
  finally show ?thesis .
qed

lemma visit_enough:
  "dfs_inv ms s \<Longrightarrow> callable ms l s \<Longrightarrow> length ms < n + length (d_path s) \<Longrightarrow>
     \<exists>s'. visit n ms l s = Some s'"
  "dfs_inv ms s \<Longrightarrow> (\<forall>d \<in> set ds. dget ms d \<noteq> None \<longrightarrow> callable ms d s) \<Longrightarrow>
     length ms < n + length (d_path s) \<Longrightarrow> \<exists>s'. visit_all n ms ds s = Some s'"
proof (induction n ms l s and n ms ds s rule: visit_visit_all.induct)
  case (1 ms l s)
  then show ?case using path_short by fastforce
next
  case (2 n ms l s)
  show ?case
  proof (cases "l \<in> set (d_visited s) \<or> l \<in> set (d_visiting s)")
    case False
    have inv: "dfs_inv ms (enter l s)" using enter_inv "2.prems" False by blast
    have call: "\<forall>d \<in> set (deps_of ms l). dget ms d \<noteq> None \<longrightarrow> callable ms d (enter l s)"
      using "2.prems"(2) by (auto simp: callable_def enter_def edges_def)
    have "length ms < n + length (d_path (enter l s))" using "2.prems"(3) by (simp add: enter_def)
    with "2.IH" [OF _ _ inv call] False
    obtain s' where "visit_all n ms (deps_of ms l) (enter l s) = Some s'" by blast
    with False show ?thesis by simp
  qed auto
next
  case (4 n ms d ds s)
  show ?case
  proof (cases "dget ms d \<noteq> None")
    case True
    have call: "callable ms d s" using "4.prems"(2) True by simp
    from "4.IH"(1) [OF True "4.prems"(1) call "4.prems"(3)] obtain s1
      where s1: "visit n ms d s = Some s1" by blast
    from visit_inv(1) [OF s1 "4.prems"(1) call] have inv1: "dfs_inv ms s1" and ext: "extends s s1"
      by auto
    have call': "\<forall>d \<in> set ds. dget ms d \<noteq> None \<longrightarrow> callable ms d s1"
      using "4.prems"(2) ext by (auto simp: callable_def extends_def)
    have "length ms < n + length (d_path s1)" using "4.prems"(3) ext by (simp add: extends_def)
    from "4.IH"(2) [OF True s1 inv1 call' this] s1 True show ?thesis by simp
  next
    case False
    with "4.IH"(3) [OF False "4.prems"(1)] "4.prems" show ?thesis by simp
  qed
qed simp

section \<open>The validation\<close>

definition by_label :: "app_module list \<Rightarrow> module_map" where
  "by_label mods = map (\<lambda>m. (am_label m, m)) mods"

lemma collect_modules_errors: "errors \<noteq> [] \<Longrightarrow> snd (collect_modules mods ms errors) \<noteq> []"
  by (induction mods ms errors rule: collect_modules.induct) auto

lemma collect_modules_ok:
  "snd (collect_modules mods ms []) = [] \<longleftrightarrow>
     distinct (map am_label mods) \<and> (\<forall>m \<in> set mods. dget ms (am_label m) = None)"
proof (induction mods arbitrary: ms)
  case (Cons m mods)
  then show ?case using collect_modules_errors by (fastforce simp: image_iff split: if_splits)
qed simp

lemma collect_modules_map:
  "snd (collect_modules mods ms []) = [] \<Longrightarrow> fst (collect_modules mods ms []) = ms @ by_label mods"
proof (induction mods arbitrary: ms)
  case (Cons m mods)
  show ?case
  proof (cases "dget ms (am_label m)")
    case None
    with Cons show ?thesis by (auto simp: dput_absent by_label_def)
  next
    case (Some m')
    with Cons.prems collect_modules_errors show ?thesis by auto
  qed
qed (simp add: by_label_def)

lemma collect_missing_errors: "errors \<noteq> [] \<Longrightarrow> collect_missing ms mods errors \<noteq> []"
  by (induction mods arbitrary: errors) auto

lemma collect_missing_ok:
  "collect_missing ms mods [] = [] \<longleftrightarrow> (\<forall>m \<in> set mods. missing_of ms m = [])"
proof (induction mods)
  case (Cons m mods)
  then show ?case using collect_missing_errors by auto
qed simp

lemma start_dfs_inv: "dfs_inv ms (start_dfs [])"
  by (simp add: dfs_inv_def start_dfs_def deps_first_def)

lemma start_callable: "dget ms l \<noteq> None \<Longrightarrow> callable ms l (start_dfs e)"
  by (simp add: callable_def start_dfs_def)

text \<open>The search over all labels returns, with an order or with a cycle.\<close>

lemma topological_order_spec:
  assumes "\<forall>l \<in> set labels. dget ms l \<noteq> None"
  shows "\<exists>order errors. topological_order labels ms [] = Some (order, errors) \<and>
    (errors \<noteq> [] \<longrightarrow> order = [] \<and> \<not> acyclic (edges ms)) \<and>
    (errors = [] \<longrightarrow> distinct order \<and> set labels \<subseteq> set order \<and>
       set order \<subseteq> {l. dget ms l \<noteq> None} \<and> deps_first ms order)"
proof -
  have call: "\<forall>d \<in> set labels. dget ms d \<noteq> None \<longrightarrow> callable ms d (start_dfs [])"
    by (simp add: start_callable)
  have fuel: "length ms < Suc (length ms) + length (d_path (start_dfs []))" by simp
  from visit_enough(2) [OF start_dfs_inv call fuel] obtain s
    where s: "visit_all (Suc (length ms)) ms labels (start_dfs []) = Some s" by blast
  from visit_inv(2) [OF s start_dfs_inv call] assms s show ?thesis
    by (auto simp: topological_order_def dfs_inv_def)
qed

text \<open>An order with dependencies first leaves no cycle.\<close>

definition position :: "string list \<Rightarrow> string \<Rightarrow> nat" where
  "position order l = length (takeWhile (\<lambda>x. x \<noteq> l) order)"

lemma position_split: "l \<notin> set xs \<Longrightarrow> position (xs @ l # ys) l = length xs"
  by (induction xs) (auto simp: position_def)

lemma position_before: "d \<in> set xs \<Longrightarrow> position (xs @ ys) d < length xs"
  by (induction xs) (auto simp: position_def)

lemma deps_first_acyclic:
  assumes "deps_first ms order" and "distinct order" and "{l. dget ms l \<noteq> None} \<subseteq> set order"
  shows "acyclic (edges ms)"
proof -
  have "(edges ms)\<inverse> \<subseteq> measure (position order)"
  proof (clarsimp simp: edges_def)
    fix l d m m' assume d: "d \<in> set (deps_of ms l)" "dget ms d = Some m'" and l: "dget ms l = Some m"
    from l assms(3) obtain xs ys where o: "order = xs @ l # ys"
      by (force dest: split_list)
    then have "d \<in> set xs" using assms(1) d unfolding deps_first_def by blast
    moreover have "l \<notin> set xs" using assms(2) o by auto
    ultimately show "position order d < position order l"
      unfolding o by (simp add: position_split position_before)
  qed
  then have "acyclic ((edges ms)\<inverse>)"
    using wf_acyclic wf_subset wf_measure by blast
  then show ?thesis by simp
qed

text \<open>The dependency relation between the labels of the given modules.\<close>

definition depends :: "app_module list \<Rightarrow> (string \<times> string) set" where
  "depends mods = {(am_label m, d) | m d. m \<in> set mods \<and> d \<in> set (am_dependencies m)}"

definition well_formed_apps :: "app_module list \<Rightarrow> bool" where
  "well_formed_apps mods \<longleftrightarrow> distinct (map am_label mods) \<and>
     (\<forall>m \<in> set mods. set (am_dependencies m) \<subseteq> am_label ` set mods)"

lemma dget_by_label:
  "distinct (map am_label mods) \<Longrightarrow> m \<in> set mods \<Longrightarrow> dget (by_label mods) (am_label m) = Some m"
  unfolding dget_def by_label_def by (rule map_of_is_SomeI) (auto simp: o_def)

lemma dget_by_label_dom: "dget (by_label mods) l \<noteq> None \<longleftrightarrow> l \<in> am_label ` set mods"
  by (auto simp: dget_def by_label_def map_of_eq_None_iff image_iff)

lemma edges_by_label:
  assumes "well_formed_apps mods"
  shows "edges (by_label mods) = depends mods"
proof -
  have "(l, d) \<in> edges (by_label mods) \<longleftrightarrow> (l, d) \<in> depends mods" for l d
  proof
    assume "(l, d) \<in> edges (by_label mods)"
    then obtain m where "dget (by_label mods) l = Some m" "d \<in> set (am_dependencies m)"
      by (auto simp: edges_def deps_of_def)
    then show "(l, d) \<in> depends mods"
      by (auto simp: dget_def by_label_def depends_def dest!: map_of_SomeD)
  next
    assume "(l, d) \<in> depends mods"
    then obtain m where m: "m \<in> set mods" "l = am_label m" "d \<in> set (am_dependencies m)"
      by (auto simp: depends_def)
    then have "d \<in> am_label ` set mods" using assms by (auto simp: well_formed_apps_def)
    then have "dget (by_label mods) d \<noteq> None" by (simp only: dget_by_label_dom)
    with m assms dget_by_label [of mods m] show "(l, d) \<in> edges (by_label mods)"
      by (auto simp: edges_def deps_of_def well_formed_apps_def)
  qed
  then show ?thesis by auto
qed

lemma well_formed_check:
  "(let (ms, errors) = collect_modules mods [] [] in collect_missing ms (map snd ms) errors) = []
     \<longleftrightarrow> well_formed_apps mods"
proof (cases "snd (collect_modules mods [] []) = []")
  case True
  then have c: "collect_modules mods [] [] = (by_label mods, [])" and d: "distinct (map am_label mods)"
    using collect_modules_map [OF True] collect_modules_ok [of mods "[]"]
    by (auto simp: prod_eq_iff dget_def)
  have "map snd (by_label mods) = mods" by (simp add: by_label_def o_def)
  moreover have "missing_of (by_label mods) m = [] \<longleftrightarrow> set (am_dependencies m) \<subseteq> am_label ` set mods" for m
    using dget_by_label_dom by (auto simp: missing_of_def filter_empty_conv)
  ultimately show ?thesis using c d by (simp add: collect_missing_ok well_formed_apps_def)
next
  case False
  then have "\<not> well_formed_apps mods"
    using collect_modules_ok [of mods "[]"] by (auto simp: well_formed_apps_def dget_def)
  with False collect_missing_errors show ?thesis by (simp add: split_beta)
qed

text \<open>What the validation returns, in every case.\<close>

lemma validate_app_dependencies_spec:
  "\<exists>v. validate_app_dependencies mods = Some v \<and>
     (validation_ok v \<longleftrightarrow> well_formed_apps mods \<and> acyclic (depends mods)) \<and>
     (\<not> validation_ok v \<longrightarrow> dv_ordered_modules v = []) \<and>
     (validation_ok v \<longrightarrow> distinct (map am_label (dv_ordered_modules v)) \<and>
        set (dv_ordered_modules v) = set mods \<and>
        (\<forall>xs m ys. dv_ordered_modules v = xs @ m # ys \<longrightarrow>
           set (am_dependencies m) \<subseteq> am_label ` set xs))"
proof (cases "well_formed_apps mods")
  case False
  with well_formed_check [of mods] show ?thesis
    by (auto simp: validate_app_dependencies_def validation_ok_def Let_def split_beta)
next
  case True
  let ?ms = "by_label mods"
  have d: "distinct (map am_label mods)" using True by (simp add: well_formed_apps_def)
  then have c: "collect_modules mods [] [] = (?ms, [])"
    using collect_modules_ok [of mods "[]"] collect_modules_map [of mods "[]"]
    by (auto simp: prod_eq_iff dget_def)
  have nomiss: "collect_missing ?ms (map snd ?ms) [] = []"
    using True well_formed_check [of mods] c by simp
  have labels: "\<forall>l \<in> set (map am_label mods). dget ?ms l \<noteq> None"
    using dget_by_label_dom by auto
  from topological_order_spec [OF labels] obtain order errors where
    t: "topological_order (map am_label mods) ?ms [] = Some (order, errors)" and
    bad: "errors \<noteq> [] \<longrightarrow> order = [] \<and> \<not> acyclic (edges ?ms)" and
    good: "errors = [] \<longrightarrow> distinct order \<and> set (map am_label mods) \<subseteq> set order \<and>
      set order \<subseteq> {l. dget ?ms l \<noteq> None} \<and> deps_first ?ms order" by blast
  let ?v = "\<lparr>dv_ordered_modules = map (\<lambda>l. the (dget ?ms l)) order, dv_errors_by_label = errors\<rparr>"
  have v: "validate_app_dependencies mods = Some ?v"
    using c nomiss t by (simp add: validate_app_dependencies_def)
  show ?thesis
  proof (cases "errors = []")
    case False
    with v bad True edges_by_label [OF True] show ?thesis by (auto simp: validation_ok_def)
  next
    case e: True
    with good have o: "distinct order" "set order = am_label ` set mods" "deps_first ?ms order"
      using dget_by_label_dom by auto
    have lab: "am_label (the (dget ?ms l)) = l \<and> the (dget ?ms l) \<in> set mods" if "l \<in> set order" for l
      using that o(2) dget_by_label [OF d] by auto
    have inv: "map am_label (map (\<lambda>l. the (dget ?ms l)) order) = order"
      using lab by (simp add: map_idI)
    have "acyclic (edges ?ms)"
      using deps_first_acyclic [OF o(3,1)] o(2) dget_by_label_dom by auto
    moreover have "set (map (\<lambda>l. the (dget ?ms l)) order) = set mods"
      using lab o(2) dget_by_label [OF d] by (auto simp: image_iff)
    moreover have "set (am_dependencies m) \<subseteq> am_label ` set xs"
      if eq: "map (\<lambda>l. the (dget ?ms l)) order = xs @ m # ys" for xs m ys
    proof
      fix x assume x: "x \<in> set (am_dependencies m)"
      have o': "order = map am_label xs @ am_label m # map am_label ys"
        using inv eq by (metis list.simps(9) map_append)
      have m: "m \<in> set mods" using calculation(2) eq by (metis in_set_conv_decomp)
      then have "x \<in> set (deps_of ?ms (am_label m))" using x dget_by_label [OF d m] by (simp add: deps_of_def)
      moreover have "dget ?ms x \<noteq> None"
        using x m True dget_by_label_dom [of mods x] by (auto simp: well_formed_apps_def)
      ultimately have "x \<in> set (map am_label xs)"
        using o(3) o' unfolding deps_first_def by blast
      then show "x \<in> am_label ` set xs" by simp
    qed
    then have deps: "\<forall>xs m ys. dv_ordered_modules ?v = xs @ m # ys \<longrightarrow>
        set (am_dependencies m) \<subseteq> am_label ` set xs" by simp
    moreover have ok: "validation_ok ?v" using e by (simp add: validation_ok_def)
    moreover have "distinct (map am_label (dv_ordered_modules ?v))"
      using inv o(1) by (simp only: dependency_validation.simps)
    ultimately show ?thesis
      using v True edges_by_label [OF True] by (intro exI [of _ ?v]) simp
  qed
qed

end
