(* ===== verification/Event_Properties.thy ===== *)
theory Event_Properties
  imports Events App_Dependencies Idempotency_Properties
begin

text \<open>
  What the error-code registry, the app dependency check, the event registry and its dispatch
  promise.
\<close>

section \<open>Error codes and start-up order\<close>

definition spec_named :: "string \<Rightarrow> error_spec" where
  "spec_named c = \<lparr>es_code = c, es_status = 409, es_message = ''m'', es_owner = Some ''core'',
     es_deprecated = Some False\<rparr>"

text \<open>Error codes are registered all or none: a batch that is refused leaves the registry as it
  was; one that is accepted without replacement registers each of its specifications, keeps every
  code that was registered as it was, and adds no other code.\<close>

theorem error_codes_all_or_none:
  "(\<forall>e. snd (register_error_codes reg False specs) = Inl e \<longrightarrow>
      fst (register_error_codes reg False specs) = reg) \<and>
   (snd (register_error_codes reg False specs) = Inr () \<longrightarrow>
      (\<forall>s \<in> set specs. fst (register_error_codes reg False specs) (es_code s) = Some s) \<and>
      (\<forall>c s. reg c = Some s \<longrightarrow> fst (register_error_codes reg False specs) c = Some s) \<and>
      dom (fst (register_error_codes reg False specs)) = dom reg \<union> es_code ` set specs)"
proof (cases "check_registration reg False [] specs")
  case (Inl e)
  then show ?thesis by (simp add: register_error_codes_def)
next
  case (Inr u)
  then have ok: "check_registration reg False [] specs = Inr ()" by simp
  then have d: "distinct (map es_code specs)" using check_registration_distinct by blast
  have new: "write_specs reg specs (es_code s) = Some s" if "s \<in> set specs" for s
    using write_specs_mem [OF d that] .
  have keep: "write_specs reg specs c = Some s" if "reg c = Some s" for c s
  proof (cases "c \<in> es_code ` set specs")
    case True
    then obtain s' where "s' \<in> set specs" "c = es_code s'" by blast
    with new check_registration_keeps [OF ok] that show ?thesis by fastforce
  qed (simp add: write_specs_other that)
  have "write_specs reg specs c = None \<longleftrightarrow> reg c = None \<and> c \<notin> es_code ` set specs" for c
    using new keep write_specs_other [of c specs reg]
    by (cases "c \<in> es_code ` set specs"; cases "reg c") auto
  then have "dom (write_specs reg specs) = dom reg \<union> es_code ` set specs" by (auto simp: dom_def)
  with new keep ok show ?thesis by (simp add: register_error_codes_def)
qed

theorem error_codes_all_or_none_witness:
  "fst (register_error_codes Map.empty False [spec_named ''A_B'', spec_named ''A_B'']) = Map.empty"
  using error_codes_all_or_none [of Map.empty "[spec_named ''A_B'', spec_named ''A_B'']"]
  by (simp add: register_error_codes_def spec_named_def validate_error_code_spec_def upper_def digit_char_def)

text \<open>The start-up check of the app modules always ends, within the fuel it is given, and is right:
  it accepts exactly when the labels are unique, every dependency is present and there is no
  cycle; what it accepts it orders completely, each module once and after all it depends on; what
  it refuses it does not order.\<close>

theorem app_startup_order:
  "\<exists>v. validate_app_dependencies mods = Some v \<and>
     (validation_ok v \<longleftrightarrow> well_formed_apps mods \<and> acyclic (depends mods)) \<and>
     (\<not> validation_ok v \<longrightarrow> dv_ordered_modules v = []) \<and>
     (validation_ok v \<longrightarrow> distinct (map am_label (dv_ordered_modules v)) \<and>
        set (dv_ordered_modules v) = set mods \<and>
        (\<forall>xs m ys. dv_ordered_modules v = xs @ m # ys \<longrightarrow>
           set (am_dependencies m) \<subseteq> am_label ` set xs))"
  by (rule validate_app_dependencies_spec)

theorem app_startup_order_witness:
  "\<exists>v. validate_app_dependencies
      [\<lparr>am_label = ''b'', am_dependencies = [''a'']\<rparr>, \<lparr>am_label = ''a'', am_dependencies = []\<rparr>] = Some v \<and>
     set (dv_ordered_modules v) \<subseteq>
       {\<lparr>am_label = ''b'', am_dependencies = [''a'']\<rparr>, \<lparr>am_label = ''a'', am_dependencies = []\<rparr>}"
proof -
  let ?mods = "[\<lparr>am_label = ''b'', am_dependencies = [''a'']\<rparr>, \<lparr>am_label = ''a'', am_dependencies = []\<rparr>]"
  obtain v where v: "validate_app_dependencies ?mods = Some v"
    "\<not> validation_ok v \<longrightarrow> dv_ordered_modules v = []"
    "validation_ok v \<longrightarrow> set (dv_ordered_modules v) = set ?mods"
    using app_startup_order [of ?mods] by blast
  then have "set (dv_ordered_modules v) \<subseteq> set ?mods" by (cases "validation_ok v") auto
  with v(1) show ?thesis by simp
qed

section \<open>Schemas\<close>

text \<open>A declared compatibility is real: when a schema was registered as compatible with an earlier
  version and types the fields the earlier one types, every payload that is valid for the new
  version is valid for the earlier one too, so consumers of the earlier version can read it.\<close>

theorem compatible_schema_is_backward:
  assumes "register_schema sc g = (g', Inr ())" and "v \<in> set (sc_compatible_with sc)"
    and "er_schemas g (sc_type sc, v) = Some old"
    and "fst ` set (sc_field_types (se_schema old)) \<subseteq> fst ` set (sc_field_types sc)"
    and "validate_event (er_schemas g') (sc_type sc) (sc_version sc) tenant payload = Inr ()"
  shows "validate_event (er_schemas g) (sc_type sc) v tenant payload = Inr ()"
proof -
  have compat: "check_compatible (er_schemas g) sc (sc_compatible_with sc) = Inr ()"
    and new: "er_schemas g' (sc_type sc, sc_version sc) = Some \<lparr>se_schema = sc, se_explicit = True\<rparr>"
    using assms(1) by (auto simp: register_schema_def register_schema_as_def Let_def
        split: sum.splits if_splits)
  have req: "set (required_payload_fields (se_schema old)) \<subseteq> set (required_payload_fields sc)"
    and types: "check_type_changes sc (sc_field_types (se_schema old)) = Inr ()"
    using check_compatible_ok [OF compat assms(2)] assms(3) by auto
  have valid: "set (required_payload_fields sc) \<subseteq> set (map fst payload)"
    "dget payload ''tenant_id'' = Some (PStr tenant)"
    "\<And>f ty x. (f, ty) \<in> set (sc_field_types sc) \<Longrightarrow> dget payload f = Some x \<Longrightarrow> matches_field_type x ty"
    using assms(5) new by (auto simp: validate_event_ok)
  have "matches_field_type x ty"
    if "(f, ty) \<in> set (sc_field_types (se_schema old))" "dget payload f = Some x" for f ty x
  proof -
    have "f \<in> fst ` set (sc_field_types sc)" using assms(4) that(1) by force
    then obtain ty' where "dget (sc_field_types sc) f = Some ty'"
      by (auto simp: dget_def dest: weak_map_of_SomeI)
    then have "dget (sc_field_types sc) f = Some ty" using check_type_changes_ok [OF types that(1)] by auto
    then have "(f, ty) \<in> set (sc_field_types sc)" unfolding dget_def by (rule map_of_SomeD)
    then show ?thesis using valid(3) that(2) by blast
  qed
  then show ?thesis using req valid(1,2) assms(3) by (auto simp: validate_event_ok)
qed

definition schema_v :: "int \<Rightarrow> int list \<Rightarrow> event_schema" where
  "schema_v v compatible = \<lparr>sc_type = ''a.b'', sc_version = v, sc_required = [''n''],
     sc_field_types = [(''n'', ''int'')], sc_compatible_with = compatible\<rparr>"

definition schema_payload :: "(string \<times> pyval) list" where
  "schema_payload = [(''tenant_id'', PStr ''t1''), (''actor_id'', PStr ''u1''),
     (''request_id'', PStr ''q1''), (''n'', PInt 4)]"

theorem compatible_schema_is_backward_witness:
  "validate_event (er_schemas (fst (register_schema (schema_v 1 []) (empty_registry :: unit event_registry))))
     ''a.b'' 1 ''t1'' schema_payload = Inr ()"
proof -
  let ?g = "fst (register_schema (schema_v 1 []) (empty_registry :: unit event_registry))"
  note defs = register_schema_def register_schema_as_def schema_v_def check_schema_shape_def
    supported_field_types_def empty_registry_def Let_def
  have g: "er_schemas ?g = [(''a.b'', 1) \<mapsto> \<lparr>se_schema = schema_v 1 [], se_explicit = True\<rparr>]"
    by (simp add: defs)
  obtain g' where g': "register_schema (schema_v 2 [1]) ?g = (g', Inr ())"
    and new: "er_schemas g' (''a.b'', 2) = Some \<lparr>se_schema = schema_v 2 [1], se_explicit = True\<rparr>"
    by (simp add: defs missing_fields_Nil required_payload_fields_def dget_def)
  have "validate_event (er_schemas g') ''a.b'' 2 ''t1'' schema_payload = Inr ()"
    by (auto simp: validate_event_ok new schema_v_def required_payload_fields_def core_required_def
        schema_payload_def dget_def)
  with compatible_schema_is_backward [OF g', of 1 "\<lparr>se_schema = schema_v 1 [], se_explicit = True\<rparr>"
      "''t1''" schema_payload] g
  show ?thesis by (simp add: schema_v_def)
qed

section \<open>Dispatch\<close>

text \<open>The record that a handler of the event leaves when it has succeeded.\<close>

definition handled ::
  "(pyval \<Rightarrow> string) \<Rightarrow> ((string \<times> pyval) list \<Rightarrow> string) \<Rightarrow> datetime \<Rightarrow> event_envelope \<Rightarrow> string
    \<Rightarrow> idem_table \<Rightarrow> bool" where
  "handled show digest clock e key tab \<longleftrightarrow>
     validate_scope (handler_scope show e key) (digest (handler_request e key)) = Inr () \<and>
     when_some (tab (handler_scope show e key)) (\<lambda>r. ir_status r = Succeeded \<and>
       ir_request_hash r = digest (handler_request e key) \<and> to_utc clock < ir_expires_at r)"

lemma dispatch_entry_handled:
  assumes "handled show digest clock e key tab"
  shows "dispatch_entry show digest clock e (key, h) (tab, w) = ((tab, w), Inr ())"
proof -
  let ?k = "handler_scope show e key"
  obtain r where r: "tab ?k = Some r" "ir_status r = Succeeded"
    "ir_request_hash r = digest (handler_request e key)" "to_utc clock < ir_expires_at r"
    and v: "validate_scope ?k (digest (handler_request e key)) = Inr ()"
    using assms by (auto simp: handled_def)
  have "claim ?k (digest (handler_request e key)) day_seconds 60 clock True tab =
      (tab, Inr \<lparr>cl_outcome = Replayed, cl_record = r\<rparr>)"
    using r by (simp add: claim_existing [where tab = tab and k = ?k, OF r(1) v] handle_existing_def)
  then show ?thesis by (simp add: dispatch_entry_def Let_def)
qed

lemma dispatch_entries_handled:
  "\<forall>(key, h) \<in> set done_entries. handled show digest clock e key tab \<Longrightarrow>
     dispatch_entries show digest clock e (done_entries @ rest) (tab, w) =
     dispatch_entries show digest clock e rest (tab, w)"
  by (induction done_entries) (auto simp: dispatch_entry_handled)

lemma dispatch_entries_append:
  "dispatch_entries show digest c e (xs @ ys) st =
     (case dispatch_entries show digest c e xs st of
        (st, Inl err) \<Rightarrow> (st, Inl err)
      | (st, Inr _) \<Rightarrow> dispatch_entries show digest c e ys st)"
  by (induction xs arbitrary: st) (auto split: sum.splits prod.splits)

text \<open>A handler is expected to leave the idempotency records of its own event alone.\<close>

definition leaves_records ::
  "(pyval \<Rightarrow> string) \<Rightarrow> event_envelope \<Rightarrow> 'w handler \<Rightarrow> bool" where
  "leaves_records show e h \<longleftrightarrow>
     (\<forall>key tab w. fst (fst (h e (tab, w))) (handler_scope show e key) = tab (handler_scope show e key))"

lemma leaves_recordsD:
  "leaves_records show e h \<Longrightarrow> h e (tab, w) = ((tab', w'), a) \<Longrightarrow>
     tab' (handler_scope show e key) = tab (handler_scope show e key)"
  unfolding leaves_records_def by (metis fst_conv)

lemma claim_other: "k' \<noteq> k \<Longrightarrow> fst (claim k h ttl lock c retry tab) k' = tab k'"
  by (auto simp: claim_def insert_processing_record_def handle_existing_def restarted_def Let_def
      split: sum.splits option.splits)

lemma dispatch_entry_other:
  assumes "leaves_records show e h" and "key' \<noteq> key"
    and "dispatch_entry show digest clock e (key, h) (tab, w) = ((tab', w'), a)"
  shows "tab' (handler_scope show e key') = tab (handler_scope show e key')"
proof -
  let ?k = "handler_scope show e key" and ?k' = "handler_scope show e key'"
  have ne: "?k' \<noteq> ?k" using assms(2) handler_scope_inj by metis
  obtain tab1 c where c: "claim ?k (digest (handler_request e key)) day_seconds 60 clock True tab = (tab1, c)"
    by fastforce
  have t1: "tab1 ?k' = tab ?k'" using claim_other [OF ne] c by (metis fst_conv)
  obtain tab2 w2 a2 where hd: "h e (tab1, w) = ((tab2, w2), a2)" by (metis prod.exhaust_sel)
  have t2: "tab2 ?k' = tab1 ?k'" by (rule leaves_recordsD [OF assms(1) hd])
  show ?thesis
    using assms(3) t1 t2 ne
    by (simp add: dispatch_entry_def Let_def c hd mark_failed_def mark_succeeded_def
        split: sum.splits if_splits) auto
qed

lemma claim_fresh:
  assumes "tab k = None" and "claim k h ttl lock c retry tab = (tab', Inr cl)"
  shows "validate_scope k h = Inr () \<and> cl_outcome cl = Started \<and>
    cl_record cl = processing_record h ttl lock (to_utc c)"
  using assms by (auto simp: claim_def insert_processing_record_def Let_def split: sum.splits)

lemma dispatch_entry_succeeds:
  assumes "tab (handler_scope show e key) = None"
    and "dispatch_entry show digest c1 e (key, h) (tab, w) = ((tab', w'), Inr ())"
    and "to_utc c2 < to_utc c1 + secs day_seconds"
  shows "handled show digest c2 e key tab'"
proof -
  let ?k = "handler_scope show e key" and ?h = "digest (handler_request e key)"
  obtain tab1 c where c: "claim ?k ?h day_seconds 60 c1 True tab = (tab1, c)" by fastforce
  obtain cl where cl: "c = Inr cl" using assms(2) c by (cases c) (simp_all add: dispatch_entry_def Let_def)
  note started = claim_fresh [where tab = tab and k = ?k, OF assms(1) c [unfolded cl]]
  obtain tab2 w2 a2 where hd: "h e (tab1, w) = ((tab2, w2), a2)" by (metis prod.exhaust_sel)
  have "tab' ?k = Some ((processing_record ?h day_seconds 60 (to_utc c1))\<lparr>ir_status := Succeeded,
     ir_response_code := Some ''OK'', ir_response_body :=
       PDict [(''event_id'', PStr (ev_id e)), (''handler_key'', PStr key)],
     ir_task_id := None, ir_outbox_event_id := Some (ev_id e), ir_locked_until := None\<rparr>)"
    using assms(2) started
    by (cases a2) (auto simp: dispatch_entry_def Let_def c cl hd mark_succeeded_def)
  with started assms(3) show ?thesis by (simp add: handled_def processing_record_def)
qed

lemma handled_same: "tab' (handler_scope show e key) = tab (handler_scope show e key) \<Longrightarrow>
    handled show digest c e key tab' \<longleftrightarrow> handled show digest c e key tab"
  by (simp add: handled_def)

lemma dispatch_entries_other:
  "\<forall>(key, h) \<in> set entries. leaves_records show e h \<Longrightarrow> key' \<notin> fst ` set entries \<Longrightarrow>
   dispatch_entries show digest clock e entries (tab, w) = ((tab', w'), a) \<Longrightarrow>
   tab' (handler_scope show e key') = tab (handler_scope show e key')"
proof (induction entries arbitrary: tab w)
  case (Cons x entries)
  obtain key h where x: "x = (key, h)" by (cases x)
  obtain tab1 w1 a1 where d: "dispatch_entry show digest clock e (key, h) (tab, w) = ((tab1, w1), a1)"
    by (metis prod.exhaust_sel)
  have t1: "tab1 (handler_scope show e key') = tab (handler_scope show e key')"
    using Cons.prems x by (intro dispatch_entry_other [OF _ _ d]) auto
  show ?case
  proof (cases a1)
    case (Inl err)
    with Cons.prems(3) x d t1 show ?thesis by simp
  next
    case (Inr u)
    with Cons.prems x d have "dispatch_entries show digest clock e entries (tab1, w1) = ((tab', w'), a)" by simp
    with Cons.IH Cons.prems t1 show ?thesis by auto
  qed
qed simp

lemma dispatch_entries_succeed:
  "\<forall>(key, h) \<in> set entries. leaves_records show e h \<and> tab (handler_scope show e key) = None \<Longrightarrow>
   distinct (map fst entries) \<Longrightarrow>
   dispatch_entries show digest c1 e entries (tab, w) = ((tab', w'), Inr ()) \<Longrightarrow>
   to_utc c2 < to_utc c1 + secs day_seconds \<Longrightarrow>
   \<forall>(key, h) \<in> set entries. handled show digest c2 e key tab'"
proof (induction entries arbitrary: tab w)
  case (Cons x entries)
  obtain key h where x: "x = (key, h)" by (cases x)
  obtain tab1 w1 a1 where d: "dispatch_entry show digest c1 e (key, h) (tab, w) = ((tab1, w1), a1)"
    by (metis prod.exhaust_sel)
  then have a1: "a1 = Inr ()" and rest: "dispatch_entries show digest c1 e entries (tab1, w1) = ((tab', w'), Inr ())"
    using Cons.prems(3) x by (cases a1; simp)+
  have lr: "leaves_records show e h" and fresh: "tab (handler_scope show e key) = None"
    and notin: "key \<notin> fst ` set entries" using Cons.prems x by auto
  have same: "tab1 (handler_scope show e k) = tab (handler_scope show e k)" if "k \<noteq> key" for k
    using dispatch_entry_other [OF lr that d] .
  have fresh': "leaves_records show e h' \<and> tab1 (handler_scope show e k') = None"
    if mem: "(k', h') \<in> set entries" for k' h'
  proof -
    have "k' \<noteq> key" using notin mem by force
    then show ?thesis using same Cons.prems(1) mem by (simp add: x) blast
  qed
  have "\<forall>(k, h) \<in> set entries. handled show digest c2 e k tab'"
  proof (rule Cons.IH [OF _ _ rest Cons.prems(4)])
    show "\<forall>(k, h) \<in> set entries. leaves_records show e h \<and> tab1 (handler_scope show e k) = None"
      using fresh' by blast
    show "distinct (map fst entries)" using Cons.prems(2) by simp
  qed
  moreover have "tab' (handler_scope show e key) = tab1 (handler_scope show e key)"
    using Cons.prems(1) by (intro dispatch_entries_other [OF _ notin rest]) auto
  from handled_same [where tab' = tab' and tab = tab1, OF this] have "handled show digest c2 e key tab'"
    using dispatch_entry_succeeds [OF fresh d [unfolded a1] Cons.prems(4)] by blast
  ultimately show ?case by (simp add: x)
qed simp

text \<open>C31: A delivered event is not handled twice: when every handler of a fresh event succeeded, a
  second delivery within a day returns without running any handler, and changes nothing, as long
  as the handlers leave the records of the event alone.\<close>

theorem redelivery_runs_nothing:
  assumes "dispatch show digest c1 g e (tab, w) = ((tab1, w1), Inr ())"
    and "\<forall>(key, h) \<in> set (er_handlers g (ev_type e, ev_version e)).
      leaves_records show e h \<and> tab (handler_scope show e key) = None"
    and "distinct (map fst (er_handlers g (ev_type e, ev_version e)))"
    and "to_utc c2 < to_utc c1 + secs day_seconds"
  shows "dispatch show digest c2 g e (tab1, w2) = ((tab1, w2), Inr ())"
proof -
  let ?entries = "er_handlers g (ev_type e, ev_version e)"
  have v: "validate_event (er_schemas g) (ev_type e) (ev_version e) (ev_tenant_id e) (ev_payload e) = Inr ()"
    and ne: "?entries \<noteq> []"
    and run: "dispatch_entries show digest c1 e ?entries (tab, w) = ((tab1, w1), Inr ())"
    using assms(1) by (auto simp: dispatch_def Let_def split: sum.splits if_splits)
  have "\<forall>(key, h) \<in> set ?entries. handled show digest c2 e key tab1"
    by (rule dispatch_entries_succeed [OF assms(2,3) run assms(4)])
  from dispatch_entries_handled [OF this, of "[]" w2] v ne show ?thesis
    by (simp add: dispatch_def)
qed

definition quiet_handler :: "nat handler" where
  "quiet_handler e st = ((fst st, snd st + 1), Inr ())"

definition failing_handler :: "nat handler" where
  "failing_handler e st = (st, Inl (PyError ''KeyError'' ''x''))"

definition show_text :: "pyval \<Rightarrow> string" where
  "show_text v = ''u1''"

definition digest_text :: "(string \<times> pyval) list \<Rightarrow> string" where
  "digest_text d = ''h''"

definition sample_envelope :: event_envelope where
  "sample_envelope = \<lparr>ev_id = ''e1'', ev_type = ''a.b'', ev_version = 1, ev_tenant_id = ''t1'',
     ev_aggregate_type = ''x'', ev_aggregate_id = ''y'', ev_payload = schema_payload\<rparr>"

definition sample_registry :: "nat event_registry" where
  "sample_registry = \<lparr>er_handlers = (\<lambda>_. [(''h1'', quiet_handler)]),
     er_schemas = [(''a.b'', 1) \<mapsto> \<lparr>se_schema = schema_v 1 [], se_explicit = True\<rparr>],
     er_registered_schemas = [schema_v 1 []]\<rparr>"

lemma sample_handlers_leave_records:
  "leaves_records show e quiet_handler" "leaves_records show e failing_handler"
  by (simp_all add: leaves_records_def quiet_handler_def failing_handler_def)

lemma sample_handler_scope:
  "validate_scope (handler_scope show_text sample_envelope k) (digest_text d) = Inr ()"
  by (simp add: validate_scope_def scope_values_def handler_scope_def check_nonempty_def is_space_def
      digest_text_def show_text_def event_actor_def sample_envelope_def handler_route_def
      schema_payload_def dget_def)

lemma sample_dispatch_entry:
  "dispatch_entry show_text digest_text (Naive 0) sample_envelope (''h1'', quiet_handler) (Map.empty, 0) =
     ((mark_succeeded (handler_scope show_text sample_envelope ''h1'') ''OK''
        (PDict [(''event_id'', PStr ''e1''), (''handler_key'', PStr ''h1'')]) None (Some ''e1'')
        (processing_record ''h'' day_seconds 60 0)
        [handler_scope show_text sample_envelope ''h1'' \<mapsto> processing_record ''h'' day_seconds 60 0], 1), Inr ())"
  by (simp add: dispatch_entry_def claim_missing sample_handler_scope quiet_handler_def Let_def)
    (simp add: digest_text_def sample_envelope_def)

theorem redelivery_runs_nothing_witness:
  "\<exists>tab. dispatch show_text digest_text (Naive 0) sample_registry sample_envelope (Map.empty, 0) = ((tab, 1), Inr ()) \<and>
     dispatch show_text digest_text (Naive 60) sample_registry sample_envelope (tab, 1) = ((tab, 1), Inr ())"
proof -
  have "validate_event (er_schemas sample_registry) ''a.b'' 1 ''t1'' schema_payload = Inr ()"
    by (auto simp: validate_event_ok sample_registry_def schema_v_def required_payload_fields_def
        core_required_def schema_payload_def dget_def)
  then obtain tab where d: "dispatch show_text digest_text (Naive 0) sample_registry sample_envelope (Map.empty, 0)
      = ((tab, 1), Inr ())"
    using sample_dispatch_entry
    by (simp add: dispatch_def sample_registry_def [unfolded sample_envelope_def]) (simp add: sample_envelope_def)
  have "dispatch show_text digest_text (Naive 60) sample_registry sample_envelope (tab, 1) = ((tab, 1), Inr ())"
    by (rule redelivery_runs_nothing [OF d])
      (simp_all add: sample_registry_def sample_handlers_leave_records secs_def day_seconds_def)
  with d show ?thesis by blast
qed

text \<open>A retry resumes where the delivery failed: when a handler of a fresh event raises, the error
  goes to the caller, and a second delivery within a day passes over the handlers that had
  succeeded and goes on with the one that failed.\<close>

theorem retry_resumes_at_failure:
  assumes "dispatch_entries show digest c1 e done_entries (tab, w) = ((tab1, w1), Inr ())"
    and "dispatch_entry show digest c1 e (key, h) (tab1, w1) = ((tab2, w2), Inl err)"
    and "\<forall>(key, h) \<in> set (done_entries @ [(key, h)]). leaves_records show e h \<and>
      tab (handler_scope show e key) = None"
    and "distinct (map fst (done_entries @ [(key, h)]))"
    and "to_utc c2 < to_utc c1 + secs day_seconds"
  shows "dispatch_entries show digest c1 e (done_entries @ (key, h) # rest) (tab, w) = ((tab2, w2), Inl err) \<and>
    dispatch_entries show digest c2 e (done_entries @ (key, h) # rest) (tab2, w3) =
      dispatch_entries show digest c2 e ((key, h) # rest) (tab2, w3)"
proof
  show "dispatch_entries show digest c1 e (done_entries @ (key, h) # rest) (tab, w) =
      ((tab2, w2), Inl err)" using assms(1,2) by (simp add: dispatch_entries_append)
  have "\<forall>(key, h) \<in> set done_entries. handled show digest c2 e key tab1"
    by (rule dispatch_entries_succeed [OF _ _ assms(1,5)]) (use assms(3,4) in auto)
  moreover have "handled show digest c2 e k' tab2 = handled show digest c2 e k' tab1"
    if "(k', h') \<in> set done_entries" for k' h'
  proof -
    have "k' \<noteq> key" using assms(4) that by force
    moreover have "leaves_records show e h" using assms(3) by simp
    ultimately show ?thesis by (intro handled_same dispatch_entry_other [OF _ _ assms(2)])
  qed
  ultimately have "\<forall>(key, h) \<in> set done_entries. handled show digest c2 e key tab2"
    by blast
  then show "dispatch_entries show digest c2 e (done_entries @ (key, h) # rest) (tab2, w3) =
      dispatch_entries show digest c2 e ((key, h) # rest) (tab2, w3)"
    by (rule dispatch_entries_handled)
qed

theorem retry_resumes_at_failure_witness:
  "\<exists>tab. dispatch_entries show_text digest_text (Naive 9) sample_envelope
      [(''h1'', quiet_handler), (''h2'', failing_handler)] (tab, 1) =
    dispatch_entries show_text digest_text (Naive 9) sample_envelope [(''h2'', failing_handler)] (tab, 1)"
proof -
  have ne: "handler_scope show_text sample_envelope ''h2'' \<noteq> handler_scope show_text sample_envelope ''h1''"
    using handler_scope_inj by blast
  obtain tab1 where first: "dispatch_entries show_text digest_text (Naive 0) sample_envelope
      [(''h1'', quiet_handler)] (Map.empty, 0) = ((tab1, 1), Inr ())"
    and k2: "tab1 (handler_scope show_text sample_envelope ''h2'') = None"
    using sample_dispatch_entry ne by (simp add: mark_succeeded_def)
  obtain tab2 where second: "dispatch_entry show_text digest_text (Naive 0) sample_envelope
      (''h2'', failing_handler) (tab1, 1) = ((tab2, 1), Inl (PyError ''KeyError'' ''x''))"
    using k2 by (simp add: dispatch_entry_def claim_missing sample_handler_scope failing_handler_def Let_def)
  show ?thesis
    using conjunct2 [OF retry_resumes_at_failure [OF first second, of "Naive 9" "[]" 1]]
    by (simp add: sample_handlers_leave_records secs_def day_seconds_def) blast
qed

end
