(* ===== verification/Outbox.thy ===== *)
theory Outbox
  imports Events Effects Lock_Interface
begin

text \<open>
  The transactional outbox: the table (\<open>core/outbox/models.py\<close>), the repository
  (\<open>repository.py\<close>), the dispatcher (\<open>dispatcher.py\<close>), the replay of dead letters
  (\<open>replay.py\<close>) and the publisher (\<open>publisher.py\<close>). The table is the list of its rows in
  storage order, which breaks ties between equal creation times. Between the statements of one
  dispatcher other sessions may write: the claim loop takes their writes as the argument \<open>env\<close>,
  and the delivery of an event is a function on the table too.
\<close>

section \<open>The table\<close>

datatype outbox_status = Pending | Publishing | Published | Retry_Later | Dead_Letter

text \<open>The stored names; \<open>Retry_Later\<close> is the status \<open>failed\<close>.\<close>

fun outbox_status_name :: "outbox_status \<Rightarrow> string" where
  "outbox_status_name Pending = ''pending''"
| "outbox_status_name Publishing = ''publishing''"
| "outbox_status_name Published = ''published''"
| "outbox_status_name Retry_Later = ''failed''"
| "outbox_status_name Dead_Letter = ''dead_letter''"

record outbox_event =
  ob_id :: string
  ob_tenant_id :: string
  ob_event_type :: string
  ob_event_version :: int
  ob_aggregate_type :: string
  ob_aggregate_id :: string
  ob_payload :: "(string \<times> pyval) list"
  ob_created_at :: instant
  ob_status :: outbox_status
  ob_claim_version :: int
  ob_attempt_count :: int
  ob_max_attempts :: int
  ob_next_retry_at :: "instant option"
  ob_locked_by :: "string option"
  ob_locked_until :: "instant option"
  ob_last_error :: "string option"
  ob_published_at :: "instant option"
  ob_dead_letter_reason :: "string option"

type_synonym outbox_table = "outbox_event list"

definition row_of :: "outbox_table \<Rightarrow> string \<Rightarrow> outbox_event option" where
  "row_of tab i = find (\<lambda>r. ob_id r = i) tab"

definition update_row ::
  "string \<Rightarrow> (outbox_event \<Rightarrow> outbox_event) \<Rightarrow> outbox_table \<Rightarrow> outbox_table" where
  "update_row i f tab = map (\<lambda>r. if ob_id r = i then f r else r) tab"

section \<open>Adding\<close>

definition outbox_validate ::
  "schema_map option \<Rightarrow> string \<Rightarrow> int \<Rightarrow> (string \<times> pyval) list \<Rightarrow> string \<Rightarrow> unit result" where
  "outbox_validate registry t v payload tenant_id =
    (case registry of
       Some ss \<Rightarrow>
        (case validate_event ss t v tenant_id payload of
           Inr _ \<Rightarrow> Inr ()
         | Inl e \<Rightarrow>
            (let m = exn_text e in
             if take 23 m = ''Event payload tenant_id''
               then Inl (app_error ''TENANT_CONTEXT_CONFLICT'' m (Some 403) [])
             else Inl (app_error ''VALIDATION_ERROR'' m (Some 400) [])))
     | None \<Rightarrow>
        (let missing = missing_fields core_required (map fst payload) in
         if missing \<noteq> [] then Inl (app_error ''VALIDATION_ERROR''
           (''Event payload missing required fields: '' @ repr_strs missing) (Some 400) [])
         else if dget payload ''tenant_id'' \<noteq> Some (PStr tenant_id)
           then Inl (app_error ''TENANT_CONTEXT_CONFLICT''
             ''Event payload tenant_id must match outbox tenant_id'' (Some 403) [])
         else Inr ()))"

text \<open>A new row, with the identifier and creation time the database session gives it.\<close>

definition outbox_add ::
  "schema_map option \<Rightarrow> string \<Rightarrow> instant \<Rightarrow> string \<Rightarrow> string \<Rightarrow> string \<Rightarrow> (string \<times> pyval) list
    \<Rightarrow> string \<Rightarrow> int \<Rightarrow> int \<Rightarrow> outbox_table \<Rightarrow> outbox_table \<times> outbox_event result" where
  "outbox_add registry new_id created t aggregate_type aggregate_id payload tenant_id v max_attempts tab =
    (case outbox_validate registry t v payload tenant_id of
       Inl e \<Rightarrow> (tab, Inl e)
     | Inr _ \<Rightarrow>
        (let r = \<lparr>ob_id = new_id, ob_tenant_id = tenant_id, ob_event_type = t,
               ob_event_version = v, ob_aggregate_type = aggregate_type,
               ob_aggregate_id = aggregate_id, ob_payload = payload, ob_created_at = created,
               ob_status = Pending, ob_claim_version = 0, ob_attempt_count = 0,
               ob_max_attempts = max_attempts, ob_next_retry_at = None, ob_locked_by = None,
               ob_locked_until = None, ob_last_error = None, ob_published_at = None,
               ob_dead_letter_reason = None\<rparr>
         in (tab @ [r], Inr r)))"

text \<open>\<open>OutboxEventPublisher.publish\<close>, which returns nothing.\<close>

definition outbox_publish ::
  "schema_map option \<Rightarrow> string \<Rightarrow> instant \<Rightarrow> string \<Rightarrow> string \<Rightarrow> string \<Rightarrow> string
    \<Rightarrow> (string \<times> pyval) list \<Rightarrow> int \<Rightarrow> int \<Rightarrow> outbox_table \<Rightarrow> outbox_table \<times> unit result" where
  "outbox_publish registry new_id created t aggregate_type aggregate_id tenant_id payload v max_attempts tab =
    (case outbox_add registry new_id created t aggregate_type aggregate_id payload tenant_id v max_attempts tab of
       (tab, Inl e) \<Rightarrow> (tab, Inl e)
     | (tab, Inr _) \<Rightarrow> (tab, Inr ()))"

section \<open>Claiming\<close>

text \<open>A comparison with a NULL column is not true.\<close>

definition at_most :: "instant option \<Rightarrow> instant \<Rightarrow> bool" where
  "at_most x now = (case x of None \<Rightarrow> False | Some t \<Rightarrow> t \<le> now)"

definition eligible :: "instant \<Rightarrow> outbox_event \<Rightarrow> bool" where
  "eligible now r \<longleftrightarrow>
     ob_status r \<in> {Pending, Retry_Later}
       \<and> (ob_next_retry_at r = None \<or> at_most (ob_next_retry_at r) now)
       \<and> (ob_locked_until r = None \<or> at_most (ob_locked_until r) now)
     \<or> ob_status r = Publishing \<and> at_most (ob_locked_until r) now"

definition candidate_ids :: "instant \<Rightarrow> nat \<Rightarrow> outbox_table \<Rightarrow> string list" where
  "candidate_ids now n tab = take n (map ob_id (sort_key ob_created_at (filter (eligible now) tab)))"

definition claimed_row :: "string \<Rightarrow> instant \<Rightarrow> outbox_event \<Rightarrow> outbox_event" where
  "claimed_row d lock_until r =
     r\<lparr>ob_status := Publishing, ob_locked_by := Some d, ob_locked_until := Some lock_until,
       ob_claim_version := ob_claim_version r + 1\<rparr>"

definition try_claim_event ::
  "string \<Rightarrow> string \<Rightarrow> instant \<Rightarrow> instant \<Rightarrow> outbox_table \<Rightarrow> outbox_table \<times> outbox_event option" where
  "try_claim_event i d lock_until now tab =
    (case row_of tab i of
       None \<Rightarrow> (tab, None)
     | Some r \<Rightarrow>
         if eligible now r
           then (update_row i (claimed_row d lock_until) tab, Some (claimed_row d lock_until r))
         else (tab, None))"

fun claim_ids ::
  "(string \<Rightarrow> outbox_table \<Rightarrow> outbox_table) \<Rightarrow> string list \<Rightarrow> string \<Rightarrow> instant \<Rightarrow> instant
    \<Rightarrow> outbox_table \<Rightarrow> outbox_table \<times> outbox_event list" where
  "claim_ids env [] d lock_until now tab = (tab, [])"
| "claim_ids env (i # is) d lock_until now tab =
     (let (tab, e) = try_claim_event i d lock_until now (env i tab);
          (tab, es) = claim_ids env is d lock_until now tab
      in (tab, (case e of None \<Rightarrow> es | Some e \<Rightarrow> e # es)))"

definition claim_batch ::
  "(string \<Rightarrow> outbox_table \<Rightarrow> outbox_table) \<Rightarrow> string \<Rightarrow> nat \<Rightarrow> int \<Rightarrow> instant
    \<Rightarrow> outbox_table \<Rightarrow> outbox_table \<times> outbox_event list" where
  "claim_batch env d batch_size lock_seconds now tab =
     claim_ids env (candidate_ids now batch_size tab) d (now + secs lock_seconds) now tab"

section \<open>Completing\<close>

definition lease_lost :: "string \<Rightarrow> outbox_event \<Rightarrow> string \<Rightarrow> outbox_event option \<Rightarrow> exn" where
  "lease_lost operation e d current =
     app_error ''CONFLICT''
       (''Outbox event cannot be marked '' @ operation @ '' without an active dispatcher lease'')
       (Some 409)
       [(''event_id'', PStr (ob_id e)),
        (''status'', case current of None \<Rightarrow> PNone | Some r \<Rightarrow> PStr (outbox_status_name (ob_status r))),
        (''locked_by'', case current of None \<Rightarrow> PNone | Some r \<Rightarrow> opt_str (ob_locked_by r)),
        (''claim_version'', case current of None \<Rightarrow> PNone | Some r \<Rightarrow> PInt (ob_claim_version r)),
        (''dispatcher_id'', PStr d)]"

definition holds_lease :: "instant \<Rightarrow> string \<Rightarrow> int \<Rightarrow> outbox_event \<Rightarrow> bool" where
  "holds_lease now d version r \<longleftrightarrow>
     ob_status r = Publishing \<and> ob_locked_by r = Some d \<and> ob_claim_version r = version
       \<and> (case ob_locked_until r of None \<Rightarrow> False | Some t \<Rightarrow> now < t)"

text \<open>
  The conditional UPDATE. The event is the snapshot the dispatcher holds; on success the
  snapshot is refreshed, and the refreshed row is the answer.
\<close>

definition conditioned_dispatch_update ::
  "outbox_event \<Rightarrow> string \<Rightarrow> string \<Rightarrow> (outbox_event \<Rightarrow> outbox_event) \<Rightarrow> instant
    \<Rightarrow> outbox_table \<Rightarrow> outbox_table \<times> outbox_event result" where
  "conditioned_dispatch_update e d operation values_of now tab =
    (case row_of tab (ob_id e) of
       None \<Rightarrow> (tab, Inl (lease_lost operation e d None))
     | Some r \<Rightarrow>
         if holds_lease now d (ob_claim_version e) r
           then (update_row (ob_id e) values_of tab, Inr (values_of r))
         else (tab, Inl (lease_lost operation e d (Some r))))"

definition published_row :: "instant \<Rightarrow> outbox_event \<Rightarrow> outbox_event" where
  "published_row now r =
     r\<lparr>ob_status := Published, ob_published_at := Some now, ob_locked_by := None,
       ob_locked_until := None, ob_last_error := None\<rparr>"

definition mark_published ::
  "outbox_event \<Rightarrow> string \<Rightarrow> instant \<Rightarrow> outbox_table \<Rightarrow> outbox_table \<times> outbox_event result" where
  "mark_published e d now tab =
     conditioned_dispatch_update e d ''published'' (published_row now) now tab"

definition failure_text :: "exn \<Rightarrow> string" where
  "failure_text err = kind_name (ec_kind (classify_event_handler_error err)) @ '': ''
     @ exn_class err @ '': '' @ exn_text err"

definition gives_up :: "outbox_event \<Rightarrow> exn \<Rightarrow> bool" where
  "gives_up e err \<longleftrightarrow> \<not> ec_retryable (classify_event_handler_error err)
     \<or> ob_attempt_count e + 1 \<ge> ob_max_attempts e"

definition failed_row :: "outbox_event \<Rightarrow> exn \<Rightarrow> int \<Rightarrow> instant \<Rightarrow> outbox_event \<Rightarrow> outbox_event" where
  "failed_row e err delay now r =
    (let r = r\<lparr>ob_attempt_count := ob_attempt_count e + 1, ob_last_error := Some (failure_text err),
               ob_locked_by := None, ob_locked_until := None\<rparr> in
     if gives_up e err
       then r\<lparr>ob_status := Dead_Letter, ob_dead_letter_reason := Some (failure_text err),
              ob_next_retry_at := None\<rparr>
     else r\<lparr>ob_status := Retry_Later, ob_next_retry_at := Some (now + secs delay)\<rparr>)"

definition outbox_mark_failed ::
  "outbox_event \<Rightarrow> exn \<Rightarrow> string \<Rightarrow> int \<Rightarrow> instant \<Rightarrow> outbox_table
    \<Rightarrow> outbox_table \<times> outbox_event result" where
  "outbox_mark_failed e err d delay now tab =
     conditioned_dispatch_update e d ''failed'' (failed_row e err delay now) now tab"

section \<open>Dead letters\<close>

text \<open>
  The replay assigns to the loaded object, and the flush writes the columns whose loaded value
  the assignment changed, with the identifier as the only condition.
\<close>

definition assigned_none :: "'a option \<Rightarrow> 'a option \<Rightarrow> 'a option" where
  "assigned_none loaded stored = (if loaded = None then stored else None)"

definition replayed_row :: "outbox_event \<Rightarrow> outbox_event \<Rightarrow> outbox_event" where
  "replayed_row e r =
     r\<lparr>ob_status := Pending,
       ob_dead_letter_reason := assigned_none (ob_dead_letter_reason e) (ob_dead_letter_reason r),
       ob_last_error := assigned_none (ob_last_error e) (ob_last_error r),
       ob_next_retry_at := assigned_none (ob_next_retry_at e) (ob_next_retry_at r),
       ob_locked_by := assigned_none (ob_locked_by e) (ob_locked_by r),
       ob_locked_until := assigned_none (ob_locked_until e) (ob_locked_until r)\<rparr>"

definition replay_dead_letter :: "outbox_event \<Rightarrow> outbox_table \<Rightarrow> outbox_table \<times> unit result" where
  "replay_dead_letter e tab =
    (if ob_status e \<noteq> Dead_Letter
       then (tab, Inl (app_error ''CONFLICT'' ''Only dead-letter events can be replayed'' (Some 409) []))
     else (update_row (ob_id e) (replayed_row e) tab, Inr ()))"

record replay_result =
  rr_ok :: bool
  rr_event_id :: string
  rr_status :: "string option"
  rr_error :: "string option"

definition replay_dead_letter_by_id :: "string \<Rightarrow> outbox_table \<Rightarrow> outbox_table \<times> replay_result" where
  "replay_dead_letter_by_id i tab =
    (case row_of tab i of
       None \<Rightarrow> (tab, \<lparr>rr_ok = False, rr_event_id = i, rr_status = None,
                     rr_error = Some ''outbox event not found''\<rparr>)
     | Some e \<Rightarrow>
        (case replay_dead_letter e tab of
           (tab, Inl err) \<Rightarrow> (tab, \<lparr>rr_ok = False, rr_event_id = i, rr_status = None,
                                  rr_error = Some (exn_text err)\<rparr>)
         | (tab, Inr _) \<Rightarrow> (tab, \<lparr>rr_ok = True, rr_event_id = i,
                                 rr_status = Some ''pending'', rr_error = None\<rparr>)))"

definition replay_result_dict :: "replay_result \<Rightarrow> (string \<times> pyval) list" where
  "replay_result_dict x =
     [(''ok'', PBool (rr_ok x)), (''event_id'', PStr (rr_event_id x))]
     @ (case rr_status x of None \<Rightarrow> [] | Some s \<Rightarrow> [(''status'', PStr s)])
     @ (case rr_error x of None \<Rightarrow> [] | Some s \<Rightarrow> [(''error'', PStr s)])"

definition event_to_dict :: "outbox_event \<Rightarrow> (string \<times> pyval) list" where
  "event_to_dict r =
     [(''id'', PStr (ob_id r)), (''tenant_id'', PStr (ob_tenant_id r)),
      (''event_type'', PStr (ob_event_type r)), (''event_version'', PInt (ob_event_version r)),
      (''aggregate_type'', PStr (ob_aggregate_type r)),
      (''aggregate_id'', PStr (ob_aggregate_id r)),
      (''status'', PStr (outbox_status_name (ob_status r))),
      (''attempt_count'', PInt (ob_attempt_count r)), (''max_attempts'', PInt (ob_max_attempts r)),
      (''last_error'', opt_str (ob_last_error r)),
      (''dead_letter_reason'', opt_str (ob_dead_letter_reason r))]"

definition list_dead_letter_events :: "nat \<Rightarrow> outbox_table \<Rightarrow> (string \<times> pyval) list list" where
  "list_dead_letter_events n tab =
     map event_to_dict
       (take n (sort_key ob_created_at (filter (\<lambda>r. ob_status r = Dead_Letter) tab)))"

definition count_by_status :: "outbox_status \<Rightarrow> outbox_table \<Rightarrow> int" where
  "count_by_status s tab = int (length (filter (\<lambda>r. ob_status r = s) tab))"

section \<open>The dispatcher\<close>

definition to_envelope :: "outbox_event \<Rightarrow> event_envelope" where
  "to_envelope r =
    \<lparr>ev_id = ob_id r, ev_type = ob_event_type r, ev_version = ob_event_version r,
     ev_tenant_id = ob_tenant_id r, ev_aggregate_type = ob_aggregate_type r,
     ev_aggregate_id = ob_aggregate_id r, ev_payload = ob_payload r\<rparr>"

record dispatch_stats =
  ds_claimed :: nat
  ds_published :: nat
  ds_failed :: nat
  ds_dead_lettered :: nat

definition no_stats :: dispatch_stats where
  "no_stats = \<lparr>ds_claimed = 0, ds_published = 0, ds_failed = 0, ds_dead_lettered = 0\<rparr>"

text \<open>
  The delivery is the external publisher or the registry's dispatch; it works on the table and
  on the rest of the world. \<open>clock i\<close> is the reading when the \<open>i\<close>-th event is marked.
\<close>

type_synonym 'x delivery = "event_envelope \<Rightarrow> outbox_table \<times> 'x \<Rightarrow> (outbox_table \<times> 'x) \<times> unit result"

definition registry_delivery ::
  "(pyval \<Rightarrow> string) \<Rightarrow> ((string \<times> pyval) list \<Rightarrow> string) \<Rightarrow> datetime
    \<Rightarrow> (outbox_table \<times> 'x) event_registry \<Rightarrow> (idem_table \<times> 'x) delivery" where
  "registry_delivery show digest clock g e st =
    (let (tab, idem, x) = st; ((idem, tab, x), a) = dispatch show digest clock g e (idem, tab, x)
     in ((tab, idem, x), a))"

fun dispatch_events ::
  "'x delivery \<Rightarrow> string \<Rightarrow> int \<Rightarrow> (nat \<Rightarrow> instant) \<Rightarrow> nat \<Rightarrow> outbox_event list \<Rightarrow> dispatch_stats
    \<Rightarrow> outbox_table \<times> 'x \<Rightarrow> (outbox_table \<times> 'x) \<times> dispatch_stats result" where
  "dispatch_events deliver d delay clock i [] stats st = (st, Inr stats)"
| "dispatch_events deliver d delay clock i (e # es) stats st =
     (case deliver (to_envelope e) st of
        ((tab, x), Inl err) \<Rightarrow>
          (case outbox_mark_failed e err d delay (clock i) tab of
             (tab, Inl lost) \<Rightarrow> ((tab, x), Inl lost)
           | (tab, Inr r) \<Rightarrow>
               dispatch_events deliver d delay clock (Suc i) es
                 (stats\<lparr>ds_failed := ds_failed stats + 1,
                    ds_dead_lettered := ds_dead_lettered stats
                      + (if ob_status r = Dead_Letter then 1 else 0)\<rparr>) (tab, x))
      | ((tab, x), Inr _) \<Rightarrow>
          (case mark_published e d (clock i) tab of
             (tab, Inl lost) \<Rightarrow> ((tab, x), Inl lost)
           | (tab, Inr r) \<Rightarrow>
               dispatch_events deliver d delay clock (Suc i) es
                 (stats\<lparr>ds_published := ds_published stats + 1\<rparr>) (tab, x)))"

definition dispatch_metrics :: "sinks \<Rightarrow> dispatch_stats \<Rightarrow> outbox_table \<Rightarrow> effect list" where
  "dispatch_metrics k stats tab =
    (if \<not> has_metrics k then [] else
       map (\<lambda>(outcome, n). Counted ''outbox_dispatch_events_total'' [(''outcome'', outcome)] (int n))
         (filter (\<lambda>(outcome, n). n > 0)
           [(''claimed'', ds_claimed stats), (''published'', ds_published stats),
            (''failed'', ds_failed stats), (''dead_lettered'', ds_dead_lettered stats)])
       @ [Gauge ''outbox_events_pending'' (count_by_status Pending tab),
          Gauge ''outbox_events_publishing'' (count_by_status Publishing tab),
          Gauge ''outbox_events_dead_letter'' (count_by_status Dead_Letter tab)])"

record dispatcher =
  dp_id :: string
  dp_batch_size :: nat
  dp_retry_delay :: int
  dp_sinks :: sinks
  dp_lock_key :: string
  dp_lock_ttl :: int

text \<open>The claim uses the repository's default lease of a minute.\<close>

definition dispatch_claimed ::
  "dispatcher \<Rightarrow> 'x delivery \<Rightarrow> (string \<Rightarrow> outbox_table \<Rightarrow> outbox_table) \<Rightarrow> (nat \<Rightarrow> instant)
    \<Rightarrow> outbox_table \<times> 'x \<Rightarrow> (outbox_table \<times> 'x) \<times> (dispatch_stats \<times> effect list) result" where
  "dispatch_claimed dp deliver env clock st =
    (let (tab, x) = st;
         (tab, events) = claim_batch env (dp_id dp) (dp_batch_size dp) 60 (clock 0) tab in
     case dispatch_events deliver (dp_id dp) (dp_retry_delay dp) clock 1 events
            (no_stats\<lparr>ds_claimed := length events\<rparr>) (tab, x) of
       (st, Inl e) \<Rightarrow> (st, Inl e)
     | (st, Inr stats) \<Rightarrow> (st, Inr (stats, dispatch_metrics (dp_sinks dp) stats (fst st))))"

text \<open>
  One round, guarded by the lock when a provider is given: \<open>step\<close> runs an operation of the
  provider. The lock is released whether the round returns or raises, and an error of the
  release replaces what the round gave.
\<close>

definition dispatch_once ::
  "dispatcher \<Rightarrow> (instant \<Rightarrow> string \<Rightarrow> lock_op \<Rightarrow> 'l \<Rightarrow> 'l \<times> lock_answer) option \<Rightarrow> instant \<Rightarrow> instant
    \<Rightarrow> 'x delivery \<Rightarrow> (string \<Rightarrow> outbox_table \<Rightarrow> outbox_table) \<Rightarrow> (nat \<Rightarrow> instant)
    \<Rightarrow> 'l \<times> outbox_table \<times> 'x \<Rightarrow> ('l \<times> outbox_table \<times> 'x) \<times> (dispatch_stats \<times> effect list) result" where
  "dispatch_once dp lock t_acquire t_release deliver env clock st =
    (let (locks, st) = st in
     case lock of
       None \<Rightarrow> (case dispatch_claimed dp deliver env clock st of (st, a) \<Rightarrow> ((locks, st), a))
     | Some step \<Rightarrow>
        (case step t_acquire [] (Acquire (dp_lock_key dp) (dp_lock_ttl dp) (Some (dp_id dp))) locks of
           (locks, AnsHandle (Inr h)) \<Rightarrow>
             if \<not> lh_acquired h
               then ((locks, st), Inr (no_stats, dispatch_metrics (dp_sinks dp) no_stats (fst st)))
             else
               (let (st, a) = dispatch_claimed dp deliver env clock st;
                    (locks, released) = step t_release [] (Release (dp_lock_key dp) (dp_id dp)) locks
                in ((locks, st), (case released of AnsBool (Inl e) \<Rightarrow> Inl e | _ \<Rightarrow> a)))
         | (locks, AnsHandle (Inl e)) \<Rightarrow> ((locks, st), Inl e)
         | (locks, _) \<Rightarrow> ((locks, st), Inl (PyError ''AttributeError'' ''''))))"

end
