(* ===== verification/Outbox_Lifecycle.thy ===== *)
theory Outbox_Lifecycle
  imports Outbox
begin

text \<open>
  How the outbox rows move: the steps any number of dispatchers, publishers and operators can
  take, interleaved in any order and each at its own time, the invariant of the rows, and the
  facts about leases that the properties rest on.
\<close>

section \<open>Rows of the table\<close>

lemma row_of_id: "row_of tab i = Some r \<Longrightarrow> ob_id r = i"
  by (auto simp: row_of_def find_Some_iff)

lemma row_of_update_row:
  assumes "\<And>r. ob_id (f r) = ob_id r"
  shows "row_of (update_row i f tab) j =
    (if i = j then map_option f (row_of tab j) else row_of tab j)"
  by (induction tab) (auto simp: row_of_def update_row_def assms)

lemma row_of_append:
  "row_of (tab @ [r]) j =
    (case row_of tab j of None \<Rightarrow> if ob_id r = j then Some r else None | Some x \<Rightarrow> Some x)"
  by (induction tab) (auto simp: row_of_def)

lemma ids_update_row:
  "(\<And>r. ob_id (f r) = ob_id r) \<Longrightarrow> map ob_id (update_row i f tab) = map ob_id tab"
  by (simp add: update_row_def)

lemma row_of_None: "row_of tab i = None \<longleftrightarrow> i \<notin> ob_id ` set tab"
  by (auto simp: row_of_def find_None_iff)

lemma row_of_mem: "distinct (map ob_id tab) \<Longrightarrow> r \<in> set tab \<Longrightarrow> row_of tab (ob_id r) = Some r"
  by (induction tab) (auto simp: row_of_def rev_image_eqI)

lemma row_of_set: "row_of tab i = Some r \<Longrightarrow> r \<in> set tab"
  by (auto simp: row_of_def find_Some_iff)

lemma changed_ids [simp]:
  "ob_id (claimed_row d x r) = ob_id r" "ob_id (published_row now r) = ob_id r"
  "ob_id (failed_row e err delay now r) = ob_id r" "ob_id (replayed_row e r) = ob_id r"
  by (simp_all add: claimed_row_def published_row_def failed_row_def replayed_row_def Let_def)

section \<open>Steps\<close>

text \<open>What can happen to one row at a time \<open>now\<close>.\<close>

inductive row_step :: "instant \<Rightarrow> outbox_event \<Rightarrow> outbox_event \<Rightarrow> bool" for now where
  row_stays: "row_step now r r"
| row_claimed: "eligible now r \<Longrightarrow> row_step now r (claimed_row d lock_until r)"
| row_published: "holds_lease now d (ob_claim_version r) r \<Longrightarrow> row_step now r (published_row now r)"
| row_failed: "holds_lease now d (ob_claim_version r) r \<Longrightarrow> row_step now r (failed_row r err delay now r)"
| row_replayed: "ob_status r = Dead_Letter \<Longrightarrow> row_step now r (replayed_row r r)"

inductive_cases row_stepE: "row_step now r r'"

text \<open>
  What can happen to the table. A completion uses the row as it was claimed
  (\<open>claim_snapshot_current\<close> shows that a snapshot that passes the lease check is the row), and
  a replay reads the row in the transaction that writes it.
\<close>

inductive outbox_step :: "instant \<Rightarrow> outbox_table \<Rightarrow> outbox_table \<Rightarrow> bool" for now where
  step_add: "outbox_add registry i created t at ai payload tenant v n tab = (tab', a) \<Longrightarrow>
    i \<notin> ob_id ` set tab \<Longrightarrow> outbox_step now tab tab'"
| step_claim: "try_claim_event i d lock_until now tab = (tab', a) \<Longrightarrow> outbox_step now tab tab'"
| step_published: "mark_published e d now tab = (tab', a) \<Longrightarrow> outbox_step now tab tab'"
| step_failed: "outbox_mark_failed e err d delay now tab = (tab', a) \<Longrightarrow>
    row_of tab (ob_id e) = Some e \<Longrightarrow> outbox_step now tab tab'"
| step_replay: "replay_dead_letter_by_id i tab = (tab', a) \<Longrightarrow> outbox_step now tab tab'"

inductive outbox_steps :: "outbox_table \<Rightarrow> outbox_table \<Rightarrow> bool" where
  no_step: "outbox_steps tab tab"
| more_steps: "outbox_steps tab tab' \<Longrightarrow> outbox_step now tab' tab'' \<Longrightarrow> outbox_steps tab tab''"

lemma outbox_step_row:
  assumes "outbox_step now tab tab'" and "row_of tab i = Some r"
  shows "\<exists>r'. row_of tab' i = Some r' \<and> row_step now r r'"
  using assms
proof (induction rule: outbox_step.induct)
  case (step_add registry j created t at ai payload tenant v n tab tab' a)
  then have "tab' = tab \<or> (\<exists>x. tab' = tab @ [x])"
    by (auto simp: outbox_add_def Let_def split: sum.splits)
  then show ?case using step_add.prems by (auto simp: row_of_append intro: row_stays)
next
  case (step_claim j d lock_until tab tab' a)
  then show ?case
    by (auto simp: try_claim_event_def row_of_update_row split: option.splits if_splits
        intro!: row_stays row_claimed)
next
  case (step_published e d tab tab' a)
  then show ?case
    by (auto simp: mark_published_def conditioned_dispatch_update_def row_of_update_row holds_lease_def
        split: option.splits if_splits intro!: row_step.intros)
next
  case (step_failed e err d delay tab tab' a)
  then show ?case
    by (cases "ob_id e = i")
      (auto simp: outbox_mark_failed_def conditioned_dispatch_update_def row_of_update_row
        split: option.splits if_splits intro: row_step.intros)
next
  case (step_replay j tab tab' a)
  have "ob_id x = j" if "row_of tab j = Some x" for x using that by (rule row_of_id)
  with step_replay show ?case
    by (auto simp: replay_dead_letter_by_id_def replay_dead_letter_def row_of_update_row
        split: option.splits if_splits intro!: row_stays row_replayed)
qed

lemma outbox_steps_row:
  assumes "outbox_steps tab tab'" and "row_of tab i = Some r" and "P r"
    and "\<And>now r r'. row_step now r r' \<Longrightarrow> P r \<Longrightarrow> P r'"
  shows "\<exists>r'. row_of tab' i = Some r' \<and> P r'"
  using assms(1-3)
proof (induction rule: outbox_steps.induct)
  case (more_steps tab tab' now tab'')
  then obtain r' where "row_of tab' i = Some r'" "P r'" by blast
  then show ?case using outbox_step_row [OF more_steps.hyps(2)] assms(4) by blast
qed blast

section \<open>The invariant of a row\<close>

definition row_ok :: "outbox_event \<Rightarrow> bool" where
  "row_ok r \<longleftrightarrow>
     (ob_status r = Publishing \<longleftrightarrow> ob_locked_by r \<noteq> None) \<and>
     (ob_status r = Publishing \<longleftrightarrow> ob_locked_until r \<noteq> None) \<and>
     (ob_status r = Retry_Later \<longrightarrow> ob_next_retry_at r \<noteq> None \<and> ob_attempt_count r < ob_max_attempts r
        \<and> ob_last_error r \<noteq> None) \<and>
     (ob_status r = Dead_Letter \<longrightarrow> ob_dead_letter_reason r = ob_last_error r
        \<and> ob_last_error r \<noteq> None \<and> ob_next_retry_at r = None) \<and>
     (ob_status r = Published \<longrightarrow> ob_published_at r \<noteq> None \<and> ob_last_error r = None) \<and>
     (ob_status r \<noteq> Dead_Letter \<longrightarrow> ob_dead_letter_reason r = None) \<and>
     0 \<le> ob_attempt_count r \<and> 0 \<le> ob_claim_version r"

lemmas row_defs = claimed_row_def published_row_def failed_row_def replayed_row_def assigned_none_def

lemma row_step_ok: "row_step now r r' \<Longrightarrow> row_ok r \<Longrightarrow> row_ok r'"
  by (induction rule: row_step.induct)
    (auto simp: row_ok_def row_defs eligible_def holds_lease_def gives_up_def Let_def at_most_def
      split: option.splits)

definition table_ok :: "outbox_table \<Rightarrow> bool" where
  "table_ok tab \<longleftrightarrow> distinct (map ob_id tab) \<and> (\<forall>r \<in> set tab. row_ok r)"

lemma table_ok_rows:
  "table_ok tab \<longleftrightarrow> distinct (map ob_id tab) \<and> (\<forall>i r. row_of tab i = Some r \<longrightarrow> row_ok r)"
  unfolding table_ok_def by (metis row_of_mem row_of_set)

lemma outbox_step_ids:
  "outbox_step now tab tab' \<Longrightarrow> map ob_id tab' = map ob_id tab \<or>
     (\<exists>x. tab' = tab @ [x] \<and> ob_id x \<notin> ob_id ` set tab \<and> row_ok x)"
  by (induction rule: outbox_step.induct)
    (auto simp: outbox_add_def try_claim_event_def mark_published_def outbox_mark_failed_def
      conditioned_dispatch_update_def replay_dead_letter_by_id_def replay_dead_letter_def Let_def
      ids_update_row row_ok_def split: option.splits if_splits sum.splits)

lemma outbox_step_table_ok: "outbox_step now tab tab' \<Longrightarrow> table_ok tab \<Longrightarrow> table_ok tab'"
proof -
  assume step: "outbox_step now tab tab'" and ok: "table_ok tab"
  from outbox_step_ids [OF step] show "table_ok tab'"
  proof (elim disjE exE conjE)
    assume ids: "map ob_id tab' = map ob_id tab"
    have "row_ok r'" if r': "row_of tab' i = Some r'" for i r'
    proof -
      have "i \<in> ob_id ` set tab'" using r' row_of_None [of tab' i] by auto
      then have "i \<in> ob_id ` set tab" using arg_cong [OF ids, of set] by simp
      then obtain r where r: "row_of tab i = Some r" using row_of_None [of tab i] by auto
      then have "row_step now r r'" using outbox_step_row [OF step r] r' by auto
      then show ?thesis using ok r by (auto simp: table_ok_rows intro: row_step_ok)
    qed
    then show ?thesis using ok ids by (auto simp: table_ok_rows)
  next
    fix x
    assume "tab' = tab @ [x]" "ob_id x \<notin> ob_id ` set tab" "row_ok x"
    then show ?thesis using ok by (auto simp: table_ok_def)
  qed
qed

section \<open>Leases\<close>

text \<open>
  What became of a claimed row: it is as it was claimed, or it was claimed again since, or it
  was completed. So a snapshot that passes the lease check is the current row.
\<close>

definition since_claim :: "outbox_event \<Rightarrow> outbox_event \<Rightarrow> bool" where
  "since_claim e r \<longleftrightarrow> r = e \<or> ob_claim_version e < ob_claim_version r
     \<or> ob_claim_version r = ob_claim_version e \<and> ob_status r \<noteq> Publishing"

lemma row_step_since_claim:
  "row_step now r r' \<Longrightarrow> ob_status e = Publishing \<Longrightarrow> since_claim e r \<Longrightarrow> since_claim e r'"
  by (induction rule: row_step.induct) (auto simp: since_claim_def row_defs Let_def)

lemma row_step_version: "row_step now r r' \<Longrightarrow> ob_claim_version r \<le> ob_claim_version r'"
  by (induction rule: row_step.induct) (auto simp: row_defs Let_def)

lemma claim_snapshot_current:
  assumes "outbox_steps tab tab'" and "row_of tab i = Some e" and "ob_status e = Publishing"
    and "row_of tab' i = Some r" and "holds_lease now d (ob_claim_version e) r"
  shows "r = e"
proof -
  have "\<exists>r'. row_of tab' i = Some r' \<and> since_claim e r'"
    by (rule outbox_steps_row [OF assms(1,2)])
      (auto simp: since_claim_def [of e e] intro: row_step_since_claim [OF _ assms(3)])
  with assms(4,5) show ?thesis by (auto simp: since_claim_def holds_lease_def)
qed

lemma steps_version:
  assumes "outbox_steps tab tab'" and "row_of tab i = Some r"
  shows "\<exists>r'. row_of tab' i = Some r' \<and> ob_claim_version r \<le> ob_claim_version r'"
  by (rule outbox_steps_row [OF assms]) (auto dest: row_step_version)

lemma try_claim_Some:
  "try_claim_event i d lock_until now tab = (tab', Some e) \<longleftrightarrow>
     (\<exists>r. row_of tab i = Some r \<and> eligible now r \<and> e = claimed_row d lock_until r \<and>
       tab' = update_row i (claimed_row d lock_until) tab)"
  by (auto simp: try_claim_event_def split: option.splits if_splits)

lemma try_claim_None:
  "try_claim_event i d lock_until now tab = (tab', None) \<longleftrightarrow>
     tab' = tab \<and> (\<forall>r. row_of tab i = Some r \<longrightarrow> \<not> eligible now r)"
  by (auto simp: try_claim_event_def split: option.splits if_splits)

lemma leased_not_eligible:
  "ob_status r = Publishing \<Longrightarrow> ob_locked_until r = Some x \<Longrightarrow> now < x \<Longrightarrow> \<not> eligible now r"
  by (simp add: eligible_def at_most_def)

text \<open>A completion without the lease changes nothing and is a conflict.\<close>

lemma conditioned_update_refused:
  assumes "\<And>r. row_of tab (ob_id e) = Some r \<Longrightarrow> \<not> holds_lease now d (ob_claim_version e) r"
  shows "\<exists>err. conditioned_dispatch_update e d op f now tab = (tab, Inl err) \<and>
    exn_code err = Some ''CONFLICT''"
  using assms by (auto simp: conditioned_dispatch_update_def lease_lost_def split: option.splits)

section \<open>Batches\<close>

lemma claim_ids_alone:
  assumes "distinct is" and "\<forall>i \<in> set is. \<exists>r. row_of tab i = Some r \<and> eligible now r"
  shows "\<exists>tab'. claim_ids (\<lambda>_ t. t) is d x now tab =
       (tab', map (\<lambda>i. claimed_row d x (the (row_of tab i))) is) \<and>
     (\<forall>j. row_of tab' j =
       (if j \<in> set is then Some (claimed_row d x (the (row_of tab j))) else row_of tab j))"
  using assms
proof (induction "is" arbitrary: tab)
  case (Cons i "is")
  obtain r where r: "row_of tab i = Some r" "eligible now r" using Cons.prems by auto
  let ?tab = "update_row i (claimed_row d x) tab"
  have other: "row_of ?tab j = row_of tab j" if "j \<in> set is" for j
    using that Cons.prems by (auto simp: row_of_update_row)
  have "\<forall>j \<in> set is. \<exists>r. row_of ?tab j = Some r \<and> eligible now r"
    using Cons.prems other by simp
  then obtain tab' where tab': "claim_ids (\<lambda>_ t. t) is d x now ?tab =
       (tab', map (\<lambda>j. claimed_row d x (the (row_of ?tab j))) is)"
    "\<forall>j. row_of tab' j =
       (if j \<in> set is then Some (claimed_row d x (the (row_of ?tab j))) else row_of ?tab j)"
    using Cons.IH [of ?tab] Cons.prems(1) by auto
  have "map (\<lambda>j. claimed_row d x (the (row_of ?tab j))) is =
    map (\<lambda>j. claimed_row d x (the (row_of tab j))) is" using other by simp
  with tab' Cons.prems(1) r show ?case
    by (auto simp: try_claim_event_def row_of_update_row)
qed auto

end
