(* ===== verification/Outbox_Properties.thy ===== *)
theory Outbox_Properties
  imports Outbox_Lifecycle Lock_Memory Lock_Database
begin

text \<open>What the outbox promises, whatever the interleaving of its dispatchers.\<close>

section \<open>An event for the witnesses\<close>

definition sample_payload :: "(string \<times> pyval) list" where
  "sample_payload = [(''tenant_id'', PStr ''t1''), (''actor_id'', PStr ''u1''), (''request_id'', PStr ''q1'')]"

definition sample_event :: outbox_event where
  "sample_event =
    \<lparr>ob_id = ''e1'', ob_tenant_id = ''t1'', ob_event_type = ''tenant.created'', ob_event_version = 1,
     ob_aggregate_type = ''tenant'', ob_aggregate_id = ''t1'', ob_payload = sample_payload,
     ob_created_at = 0, ob_status = Pending, ob_claim_version = 0, ob_attempt_count = 0,
     ob_max_attempts = 2, ob_next_retry_at = None, ob_locked_by = None, ob_locked_until = None,
     ob_last_error = None, ob_published_at = None, ob_dead_letter_reason = None\<rparr>"

lemma sample_table:
  "row_of [claimed_row d x sample_event] ''e1'' = Some (claimed_row d x sample_event)"
  "row_of [sample_event] ''e1'' = Some sample_event"
  "update_row ''e1'' f [sample_event] = [f sample_event]"
  "eligible now sample_event"
  by (simp_all add: row_of_def update_row_def sample_event_def claimed_row_def eligible_def)

lemma sample_claim:
  "try_claim_event ''e1'' d x now [sample_event] = ([claimed_row d x sample_event], Some (claimed_row d x sample_event))"
  by (simp add: try_claim_event_def sample_table)

section \<open>The table\<close>



text \<open>A published event is final: no later interleaving of claims, completions and replays
  changes its row, so it is never claimed or delivered again.\<close>

theorem published_is_final:
  assumes "outbox_steps tab tab'" and "row_of tab i = Some r" and "ob_status r = Published"
  shows "row_of tab' i = Some r"
proof -
  have "\<exists>r'. row_of tab' i = Some r' \<and> r' = r"
  proof (rule outbox_steps_row [OF assms(1,2)])
    show "s' = r" if "row_step now s s'" "s = r" for now s s'
      using that assms(3) by (auto elim!: row_stepE simp: eligible_def holds_lease_def)
  qed simp
  then show ?thesis by simp
qed

theorem published_is_final_witness:
  "row_of [published_row 0 sample_event] ''e1'' = Some (published_row 0 sample_event)"
  by (rule published_is_final [OF no_step])
    (simp_all add: row_of_def published_row_def sample_event_def)

text \<open>The claim version fences stale dispatchers: once an event that a dispatcher claimed has
  been claimed again, by anyone and however much later, the first dispatcher's completion, as
  published or as failed, is refused as a conflict and leaves the table as it is.\<close>

theorem stale_completion_refused:
  assumes "try_claim_event i d1 x1 t1 tab0 = (tab1, Some e)" and "outbox_steps tab1 tab2"
    and "try_claim_event i d2 x2 t2 tab2 = (tab3, Some e')" and "outbox_steps tab3 tab4"
  shows "(\<exists>err. mark_published e d1 now tab4 = (tab4, Inl err) \<and> exn_code err = Some ''CONFLICT'') \<and>
    (\<exists>err. outbox_mark_failed e failure d1 delay now tab4 = (tab4, Inl err) \<and>
       exn_code err = Some ''CONFLICT'')"
proof -
  have e: "row_of tab1 i = Some e" "ob_id e = i"
    using assms(1) by (auto simp: try_claim_Some row_of_update_row dest: row_of_id)
  obtain r2 where r2: "row_of tab2 i = Some r2" "ob_claim_version e \<le> ob_claim_version r2"
    using steps_version [OF assms(2) e(1)] by blast
  have r3: "row_of tab3 i = Some (claimed_row d2 x2 r2)"
    using assms(3) r2(1) by (auto simp: try_claim_Some row_of_update_row)
  obtain r4 where "row_of tab4 i = Some r4" "ob_claim_version r2 < ob_claim_version r4"
    using steps_version [OF assms(4) r3] by (auto simp: claimed_row_def)
  with r2(2) e(2) show ?thesis
    unfolding mark_published_def outbox_mark_failed_def
    by (intro conjI conditioned_update_refused) (auto simp: holds_lease_def)
qed

theorem stale_completion_refused_witness:
  "\<exists>err. mark_published (claimed_row ''d1'' 60 sample_event) ''d1'' 10
     [claimed_row ''d2'' 200 (claimed_row ''d1'' 60 sample_event)] =
     ([claimed_row ''d2'' 200 (claimed_row ''d1'' 60 sample_event)], Inl err)"
proof -
  have "try_claim_event ''e1'' ''d2'' 200 100 [claimed_row ''d1'' 60 sample_event] =
    ([claimed_row ''d2'' 200 (claimed_row ''d1'' 60 sample_event)],
     Some (claimed_row ''d2'' 200 (claimed_row ''d1'' 60 sample_event)))"
    by (simp add: try_claim_event_def row_of_def update_row_def sample_event_def claimed_row_def
        eligible_def at_most_def)
  from stale_completion_refused [OF sample_claim [where now = 0] no_step this no_step]
  show ?thesis by blast
qed



section \<open>Batches and completions\<close>

text \<open>Without interference a claim of a batch takes the eligible rows with the oldest
  creation times, at most the batch size of them, gives each to the dispatcher with a lease and
  a new claim version, and leaves every other row alone.\<close>

theorem claim_batch_takes_oldest:
  assumes "table_ok tab"
  shows "\<exists>tab'. claim_batch (\<lambda>_ t. t) d n lock_seconds now tab =
      (tab', map (claimed_row d (now + secs lock_seconds))
         (take n (sort_key ob_created_at (filter (eligible now) tab)))) \<and>
    (\<forall>i. row_of tab' i =
      (if i \<in> set (candidate_ids now n tab)
         then map_option (claimed_row d (now + secs lock_seconds)) (row_of tab i)
       else row_of tab i))"
proof -
  let ?rows = "take n (sort_key ob_created_at (filter (eligible now) tab))"
  let ?ids = "candidate_ids now n tab"
  have ids: "?ids = map ob_id ?rows" by (simp add: candidate_ids_def take_map)
  have mem: "r \<in> set tab \<and> eligible now r" if "r \<in> set ?rows" for r
    using in_set_takeD [OF that] by simp
  have dist: "distinct (map ob_id tab)" using assms by (simp add: table_ok_def)
  have row: "row_of tab (ob_id r) = Some r" if "r \<in> set ?rows" for r
    using mem [OF that] row_of_mem [OF dist] by simp
  have "distinct (map ob_id (sort_key ob_created_at (filter (eligible now) tab)))"
  proof -
    have inj: "inj_on ob_id (set tab)" and d: "distinct tab" using dist unfolding distinct_map by auto
    have "inj_on ob_id (set (sort_key ob_created_at (filter (eligible now) tab)))"
      by (rule inj_on_subset [OF inj]) (simp only: set_sort set_filter, blast)
    moreover have "distinct (sort_key ob_created_at (filter (eligible now) tab))"
      using d by (simp only: distinct_sort distinct_filter)
    ultimately show ?thesis unfolding distinct_map by blast
  qed
  then have "distinct ?ids" unfolding candidate_ids_def by (rule distinct_take)
  moreover have "\<forall>i \<in> set ?ids. \<exists>r. row_of tab i = Some r \<and> eligible now r"
    unfolding ids set_map using mem row by blast
  ultimately obtain tab' where
    claim: "claim_ids (\<lambda>_ t. t) ?ids d (now + secs lock_seconds) now tab =
       (tab', map (\<lambda>i. claimed_row d (now + secs lock_seconds) (the (row_of tab i))) ?ids)"
    and rows: "\<forall>j. row_of tab' j = (if j \<in> set ?ids
       then Some (claimed_row d (now + secs lock_seconds) (the (row_of tab j))) else row_of tab j)"
    using claim_ids_alone by blast
  have "map (\<lambda>i. claimed_row d (now + secs lock_seconds) (the (row_of tab i))) ?ids =
    map (claimed_row d (now + secs lock_seconds)) ?rows"
    unfolding ids list.map_comp o_def using row by (intro map_cong refl) (simp only: option.sel)
  with claim have "claim_batch (\<lambda>_ t. t) d n lock_seconds now tab =
      (tab', map (claimed_row d (now + secs lock_seconds)) ?rows)"
    by (simp only: claim_batch_def)
  moreover have "row_of tab' i =
      (if i \<in> set ?ids then map_option (claimed_row d (now + secs lock_seconds)) (row_of tab i)
       else row_of tab i)" for i
  proof (cases "i \<in> set ?ids")
    case True
    then obtain r where "row_of tab i = Some r" using row unfolding ids set_map by blast
    with True rows show ?thesis by simp
  next
    case False
    with rows show ?thesis by simp
  qed
  ultimately show ?thesis by blast
qed

theorem claim_batch_takes_oldest_witness:
  "\<exists>tab'. claim_batch (\<lambda>_ t. t) ''d1'' 5 60 0 [sample_event] =
     (tab', map (claimed_row ''d1'' (0 + secs 60))
        (take 5 (sort_key ob_created_at (filter (eligible 0) [sample_event]))))"
proof -
  have "table_ok [sample_event]" by (simp add: table_ok_def row_ok_def sample_event_def)
  from claim_batch_takes_oldest [OF this, where n = 5 and d = "''d1''" and lock_seconds = 60 and now = 0]
  show ?thesis by blast
qed

text \<open>A failure reported under a live lease ends the attempt as the policy says: the attempt
  is counted and the lease given up, and the event waits for a retry after the delay when the
  error is transient and attempts are left; otherwise it is a dead letter with the error as its
  reason.\<close>

theorem failure_outcome:
  assumes "row_of tab (ob_id e) = Some e" and "holds_lease now d (ob_claim_version e) e"
  shows "\<exists>r. snd (outbox_mark_failed e err d delay now tab) = Inr r \<and>
    row_of (fst (outbox_mark_failed e err d delay now tab)) (ob_id e) = Some r \<and>
    ob_attempt_count r = ob_attempt_count e + 1 \<and> ob_locked_by r = None \<and> ob_locked_until r = None \<and>
    ob_last_error r = Some (failure_text err) \<and>
    (if exn_class err \<in> {''EventHandlerPermanentError'', ''EventPayloadValidationError''}
        \<or> ob_max_attempts e \<le> ob_attempt_count e + 1
     then ob_status r = Dead_Letter \<and> ob_dead_letter_reason r = Some (failure_text err)
     else ob_status r = Retry_Later \<and> ob_next_retry_at r = Some (now + secs delay))"
  using assms
  by (auto simp: outbox_mark_failed_def conditioned_dispatch_update_def row_of_update_row
      failed_row_def gives_up_def classify_event_handler_error_def Let_def)

theorem failure_outcome_witness:
  "\<exists>r. snd (outbox_mark_failed (claimed_row ''d1'' 60 sample_event) (PyError ''KeyError'' ''x'') ''d1'' 30 10
       [claimed_row ''d1'' 60 sample_event]) = Inr r \<and> ob_status r = Retry_Later"
  using failure_outcome [of "[claimed_row ''d1'' 60 sample_event]" "claimed_row ''d1'' 60 sample_event"
      10 "''d1''" "PyError ''KeyError'' ''x''" 30]
  by (auto simp: row_of_def claimed_row_def sample_event_def holds_lease_def)

lemma dispatch_events_stats:
  "dispatch_events deliver d delay clock i es stats st = (st', Inr stats') \<Longrightarrow>
     ds_claimed stats' = ds_claimed stats \<and>
     ds_published stats' + ds_failed stats' = ds_published stats + ds_failed stats + length es \<and>
     ds_dead_lettered stats' + ds_failed stats \<le> ds_failed stats' + ds_dead_lettered stats"
proof (induction es arbitrary: i stats st)
  case (Cons e es)
  from Cons.prems show ?case
    by (auto split: prod.splits sum.splits if_splits dest!: Cons.IH)
qed auto

text \<open>A round that returns accounts for every event it claimed: each was published or failed,
  and only failed ones became dead letters.\<close>

theorem dispatch_accounts_for_all:
  assumes "dispatch_claimed dp deliver env clock st = (st', Inr (stats, effects))"
  shows "ds_published stats + ds_failed stats = ds_claimed stats \<and>
    ds_claimed stats \<le> dp_batch_size dp \<and> ds_dead_lettered stats \<le> ds_failed stats"
proof -
  have len: "length (snd (claim_ids env is d x now tab)) \<le> length is" for "is" d x now tab
    by (induction "is" arbitrary: tab) (auto simp: split_beta Let_def split: option.splits intro: le_SucI)
  have candidates: "length (candidate_ids now n tab) \<le> n" for now n tab
    by (simp add: candidate_ids_def)
  obtain tab events where claim:
    "claim_batch env (dp_id dp) (dp_batch_size dp) 60 (clock 0) (fst st) = (tab, events)"
    by (cases "claim_batch env (dp_id dp) (dp_batch_size dp) 60 (clock 0) (fst st)")
  have "length events \<le> dp_batch_size dp"
    using claim len candidates unfolding claim_batch_def by (metis order_trans snd_conv)
  moreover have "dispatch_events deliver (dp_id dp) (dp_retry_delay dp) clock 1 events
      (no_stats\<lparr>ds_claimed := length events\<rparr>) (tab, snd st) = (st', Inr stats)"
    using assms claim
    by (auto simp: dispatch_claimed_def Let_def split: prod.splits sum.splits)
  ultimately show ?thesis
    by (auto dest!: dispatch_events_stats simp: no_stats_def)
qed

theorem dispatch_accounts_for_all_witness:
  "\<exists>st stats. dispatch_claimed \<lparr>dp_id = ''d1'', dp_batch_size = 5, dp_retry_delay = 30,
       dp_sinks = \<lparr>has_metrics = False, has_audit = False\<rparr>, dp_lock_key = ''k'', dp_lock_ttl = 60\<rparr>
      (\<lambda>e st. (st, Inr ())) (\<lambda>_ t. t) (\<lambda>_. 0) ([sample_event], ()) = (st, Inr (stats, [])) \<and>
     ds_claimed stats = 1 \<and> ds_published stats + ds_failed stats = ds_claimed stats"
proof -
  let ?dp = "\<lparr>dp_id = ''d1'', dp_batch_size = 5, dp_retry_delay = 30,
       dp_sinks = \<lparr>has_metrics = False, has_audit = False\<rparr>, dp_lock_key = ''k'', dp_lock_ttl = 60\<rparr>"
  have claim: "claim_batch (\<lambda>_ t. t) ''d1'' 5 60 0 [sample_event] =
    ([claimed_row ''d1'' (secs 60) sample_event], [claimed_row ''d1'' (secs 60) sample_event])"
    by (simp add: claim_batch_def candidate_ids_def try_claim_event_def row_of_def update_row_def
        sample_event_def eligible_def)
  have mark: "mark_published (claimed_row ''d1'' (secs 60) sample_event) ''d1'' 0
      [claimed_row ''d1'' (secs 60) sample_event] =
    ([published_row 0 (claimed_row ''d1'' (secs 60) sample_event)],
     Inr (published_row 0 (claimed_row ''d1'' (secs 60) sample_event)))"
    by (simp add: mark_published_def conditioned_dispatch_update_def row_of_def update_row_def
        claimed_row_def holds_lease_def)
  have run: "dispatch_claimed ?dp (\<lambda>e st. (st, Inr ())) (\<lambda>_ t. t) (\<lambda>_. 0) ([sample_event], ()) =
    (([published_row 0 (claimed_row ''d1'' (secs 60) sample_event)], ()),
     Inr (no_stats\<lparr>ds_claimed := 1, ds_published := 1\<rparr>, []))"
    by (simp add: dispatch_claimed_def claim mark dispatch_metrics_def no_stats_def)
  show ?thesis using run dispatch_accounts_for_all [OF run] by (auto simp: no_stats_def)
qed

section \<open>The dispatch lock\<close>

context lock_provider
begin

lemma dispatch_once_excluded:
  assumes "inv locks" and "fst (view t_acquire locks (dp_lock_key dp)) \<noteq> None"
    and "\<not> blank (dp_lock_key dp)" and "\<not> blank (dp_id dp)" and "0 < dp_lock_ttl dp"
  shows "\<exists>locks'. dispatch_once dp (Some step) t_acquire t_release deliver env clock (locks, st) =
      ((locks', st), Inr (no_stats, dispatch_metrics (dp_sinks dp) no_stats (fst st))) \<and>
    view t_acquire locks' = view t_acquire locks"
proof -
  let ?op = "Acquire (dp_lock_key dp) (dp_lock_ttl dp) (Some (dp_id dp))"
  obtain e where e: "fst (view t_acquire locks (dp_lock_key dp)) = Some e" using assms(2) by blast
  have "validate_lock (dp_lock_key dp) (dp_lock_ttl dp) (Some (dp_id dp)) = Inr ()"
    using assms(3-5) by (simp add: validate_lock_ok)
  then show ?thesis
    using step_view [OF assms(1), of t_acquire "[]" ?op] step_answer [OF assms(1), of t_acquire "[]" ?op] e
    by (auto simp: dispatch_once_def spec_acquire_def split: prod.splits lock_answer.splits)
qed

end

text \<open>While another dispatcher holds the dispatch lock, a round claims nothing: it returns empty
  statistics and leaves the outbox, and everything else, as it was. This is so with the memory
  provider and with the database provider.\<close>

theorem dispatch_round_excluded:
  assumes "mem_inv locks" and "fst (mem_view t locks (dp_lock_key dp)) \<noteq> None"
    and "fst (db_view t rows (dp_lock_key dp)) \<noteq> None"
    and "\<not> blank (dp_lock_key dp)" and "\<not> blank (dp_id dp)" and "0 < dp_lock_ttl dp"
  shows "(\<exists>locks'. dispatch_once dp (Some mem_step) t t' deliver env clock (locks, st) =
      ((locks', st), Inr (no_stats, dispatch_metrics (dp_sinks dp) no_stats (fst st)))) \<and>
    (\<exists>rows'. dispatch_once dp (Some db_step) t t' deliver env clock (rows, st) =
      ((rows', st), Inr (no_stats, dispatch_metrics (dp_sinks dp) no_stats (fst st))))"
  using memory_locks.dispatch_once_excluded [OF assms(1,2,4-6)]
    database_locks.dispatch_once_excluded [OF _ assms(3-6)] by (simp add: any_rows_def) blast

theorem dispatch_round_excluded_witness:
  "\<exists>locks'. dispatch_once \<lparr>dp_id = ''d2'', dp_batch_size = 5, dp_retry_delay = 30,
       dp_sinks = \<lparr>has_metrics = False, has_audit = False\<rparr>, dp_lock_key = ''outbox:dispatch'',
       dp_lock_ttl = 60\<rparr> (Some mem_step) 5 9 (\<lambda>e st. (st, Inr ())) (\<lambda>_ t. t) (\<lambda>_. 5)
     (fst (mem_step 0 [] (Acquire ''outbox:dispatch'' 60 (Some ''d1'')) empty_memory_locks), [sample_event], ()) =
     ((locks', [sample_event], ()), Inr (no_stats, []))"
proof -
  let ?locks = "fst (mem_step 0 [] (Acquire ''outbox:dispatch'' 60 (Some ''d1'')) empty_memory_locks)"
  let ?rows = "fst (db_step 0 [] (Acquire ''outbox:dispatch'' 60 (Some ''d1'')) Map.empty)"
  let ?dp = "\<lparr>dp_id = ''d2'', dp_batch_size = 5, dp_retry_delay = 30,
       dp_sinks = \<lparr>has_metrics = False, has_audit = False\<rparr>, dp_lock_key = ''outbox:dispatch'',
       dp_lock_ttl = 60\<rparr>"
  have inv: "mem_inv ?locks"
    by (rule memory_locks.step_inv) (simp add: mem_inv_def empty_memory_locks_def)
  have "fst (mem_view 5 ?locks ''outbox:dispatch'') \<noteq> None"
    "fst (db_view 5 ?rows ''outbox:dispatch'') \<noteq> None"
    by code_simp+
  then show ?thesis
    using dispatch_round_excluded [OF inv, of 5 ?dp ?rows] by (simp add: dispatch_metrics_def is_space_def) blast
qed

section \<open>Replays of dead letters\<close>

text \<open>A replay writes what it read: it checks the status of the loaded object only, and the
  write has no condition. When a concurrent replay came first and the event has been published
  since, the second replay succeeds, sets the published row back to pending, and makes it
  eligible for another delivery.\<close>

theorem stale_replay_republishes:
  assumes "ob_status e = Dead_Letter" and "row_of tab (ob_id e) = Some r" and "ob_status r = Published"
    and "row_ok r"
  shows "snd (replay_dead_letter e tab) = Inr () \<and>
    (\<exists>r'. row_of (fst (replay_dead_letter e tab)) (ob_id e) = Some r' \<and> ob_status r' = Pending \<and>
      (ob_next_retry_at r = None \<longrightarrow> eligible now r'))"
  using assms
  by (auto simp: replay_dead_letter_def row_of_update_row replayed_row_def assigned_none_def row_ok_def
      eligible_def)

theorem stale_replay_republishes_witness:
  "\<exists>r'. row_of (fst (replay_dead_letter (sample_event\<lparr>ob_status := Dead_Letter,
       ob_last_error := Some ''transient: X: y'', ob_dead_letter_reason := Some ''transient: X: y''\<rparr>)
     [published_row 0 (claimed_row ''d1'' 60 sample_event)])) ''e1'' = Some r' \<and> eligible 5 r'"
proof -
  let ?e = "sample_event\<lparr>ob_status := Dead_Letter,
       ob_last_error := Some ''transient: X: y'', ob_dead_letter_reason := Some ''transient: X: y''\<rparr>"
  let ?r = "published_row 0 (claimed_row ''d1'' 60 sample_event)"
  have "row_of [?r] (ob_id ?e) = Some ?r" "row_ok ?r" "ob_status ?r = Published" "ob_next_retry_at ?r = None"
    "ob_id ?e = ''e1''"
    by (simp_all add: row_of_def published_row_def claimed_row_def sample_event_def row_ok_def)
  then show ?thesis
    using stale_replay_republishes [of ?e "[?r]" ?r 5] by auto
qed

text \<open>A replayed dead letter has no fresh attempts: the replay keeps the attempt count, so when
  the attempts were used up, the next failure of any kind makes it a dead letter again.\<close>

theorem replay_grants_one_attempt:
  assumes "row_of tab i = Some r" and "ob_status r = Dead_Letter" and "ob_max_attempts r \<le> ob_attempt_count r"
    and "replay_dead_letter_by_id i tab = (tab1, res)"
    and "try_claim_event i d x now tab1 = (tab2, Some e)" and "now' < x"
    and "outbox_mark_failed e err d delay now' tab2 = (tab3, a)"
  shows "rr_ok res \<and> (\<exists>r'. row_of tab3 i = Some r' \<and> ob_status r' = Dead_Letter \<and>
    ob_attempt_count r' = ob_attempt_count r + 1)"
proof -
  have i: "ob_id r = i" using assms(1) by (rule row_of_id)
  have res: "rr_ok res" and tab1: "tab1 = update_row i (replayed_row r) tab"
    using assms(1,2,4) i by (auto simp: replay_dead_letter_by_id_def replay_dead_letter_def)
  have e: "e = claimed_row d x (replayed_row r r)" and tab2: "row_of tab2 i = Some e"
    using assms(1,5) i by (auto simp: try_claim_Some tab1 row_of_update_row)
  have "holds_lease now' d (ob_claim_version e) e"
    using assms(6) by (simp add: e holds_lease_def claimed_row_def)
  with tab2 have "row_of tab3 i = Some (failed_row e err delay now' e)"
    using assms(7) row_of_id [OF tab2]
    by (auto simp: outbox_mark_failed_def conditioned_dispatch_update_def row_of_update_row)
  then show ?thesis
    using res assms(3) by (auto simp: failed_row_def gives_up_def Let_def e claimed_row_def replayed_row_def)
qed

theorem replay_grants_one_attempt_witness:
  "let r = sample_event\<lparr>ob_status := Dead_Letter, ob_attempt_count := 2\<rparr>;
       (tab1, res) = replay_dead_letter_by_id ''e1'' [r];
       (tab2, e) = try_claim_event ''e1'' ''d1'' 60 0 tab1;
       (tab3, a) = outbox_mark_failed (the e) (PyError ''KeyError'' ''x'') ''d1'' 30 10 tab2
   in rr_ok res \<and> (\<exists>r'. row_of tab3 ''e1'' = Some r' \<and> ob_status r' = Dead_Letter)"
proof -
  let ?r = "sample_event\<lparr>ob_status := Dead_Letter, ob_attempt_count := 2\<rparr>"
  let ?e = "claimed_row ''d1'' 60 (replayed_row ?r ?r)"
  obtain res where replay: "replay_dead_letter_by_id ''e1'' [?r] = ([replayed_row ?r ?r], res)"
    by (simp add: replay_dead_letter_by_id_def replay_dead_letter_def row_of_def update_row_def sample_event_def)
  have claim: "try_claim_event ''e1'' ''d1'' 60 0 [replayed_row ?r ?r] = ([?e], Some ?e)"
    by (simp add: try_claim_event_def row_of_def update_row_def sample_event_def eligible_def
        replayed_row_def assigned_none_def)
  obtain tab3 a where failed: "outbox_mark_failed ?e (PyError ''KeyError'' ''x'') ''d1'' 30 10 [?e] = (tab3, a)"
    by fastforce
  have "row_of [?r] ''e1'' = Some ?r" by (simp add: row_of_def sample_event_def)
  from replay_grants_one_attempt [OF this _ _ replay claim _ failed] show ?thesis
    using replay claim failed by (auto simp: sample_event_def)
qed

end
