(* ===== verification/Permission_Decisions.thy ===== *)
theory Permission_Decisions
  imports Effects "HOL-Library.List_Lexorder" "HOL-Library.Char_ord"
begin

text \<open>
  Authorization decisions: the checks every guarded mutation makes of the decision it is handed
  (\<open>core/permissions/decisions.py\<close>), the cross-tenant gate (\<open>cross_tenant.py\<close>), the decisions a
  route collects (\<open>context.py\<close>), and the authorization service (\<open>authorization.py\<close>), over any
  policy backend. A set of actions is a list; it is sorted, as in the code, when it is shown.
\<close>

section \<open>Decisions\<close>

definition platform_tenant_id :: string where
  "platform_tenant_id = ''__platform__''"

record decision =
  de_allowed :: bool
  de_tenant_id :: string
  de_user_id :: string
  de_resource :: string
  de_action :: string
  de_reason :: string
  de_policy_version :: "int option"

definition denied :: "string \<Rightarrow> (string \<times> pyval) list \<Rightarrow> exn" where
  "denied m details = app_error ''PERMISSION_DENIED'' m (Some 403) details"

definition assert_platform_decision :: "decision \<Rightarrow> unit result" where
  "assert_platform_decision d =
    (if \<not> de_allowed d then Inl (denied ''Cross-tenant access requires an allowed platform decision''
       [(''user_id'', PStr (de_user_id d)), (''resource'', PStr (de_resource d)),
        (''action'', PStr (de_action d)), (''reason'', PStr (de_reason d))])
     else if de_tenant_id d \<noteq> platform_tenant_id
       then Inl (denied ''Cross-tenant access requires a platform-scoped decision''
         [(''tenant_id'', PStr (de_tenant_id d)), (''user_id'', PStr (de_user_id d)),
          (''resource'', PStr (de_resource d)), (''action'', PStr (de_action d))])
     else Inr ())"

definition sorted_set :: "string list \<Rightarrow> pyval" where
  "sorted_set actions = PList (map PStr (sort (remdups actions)))"

definition decision_denied ::
  "string \<Rightarrow> string \<Rightarrow> string \<Rightarrow> string \<Rightarrow> string list \<Rightarrow> string option \<Rightarrow> exn" where
  "decision_denied m tenant_id actor_id resource actions reason = denied m
     [(''tenant_id'', PStr tenant_id), (''actor_id'', PStr actor_id), (''resource'', PStr resource),
      (''allowed_actions'', sorted_set actions), (''reason'', opt_str reason)]"

definition assert_authorization_decision ::
  "decision option \<Rightarrow> string \<Rightarrow> string \<Rightarrow> string \<Rightarrow> string list \<Rightarrow> string \<Rightarrow> bool \<Rightarrow> unit result" where
  "assert_authorization_decision od tenant_id actor_id resource actions operation allow_platform =
    (let deny = (\<lambda>m reason. Inl (decision_denied (operation @ m) tenant_id actor_id resource actions reason)) in
     if actions = [] then Inl (value_error ''authorization decision actions cannot be empty'')
     else case od of
       None \<Rightarrow> deny '' requires an authorization decision'' None
     | Some d \<Rightarrow>
         if \<not> de_allowed d
           then deny '' requires an allowed authorization decision'' (Some (de_reason d))
         else if de_user_id d \<noteq> actor_id
           then deny '' actor must match authorization decision user'' (Some (de_reason d))
         else if de_tenant_id d \<notin> set ([tenant_id] @ (if allow_platform then [platform_tenant_id] else []))
           then deny '' decision tenant does not match target tenant'' (Some (de_reason d))
         else if de_resource d \<noteq> resource
           then deny ('' requires '' @ resource @ '' permission'') (Some (de_reason d))
         else if de_action d \<notin> set actions
           then deny '' decision action is not sufficient'' (Some (de_reason d))
         else Inr ())"

section \<open>Cross-tenant access\<close>

record cross_tenant_permission =
  ct_decision :: decision
  ct_reason :: string
  ct_targets :: "string list"
  ct_resource :: string
  ct_action :: string
  ct_request_id :: "string option"
  ct_resource_id :: "string option"

definition validate_cross_tenant_targets :: "string list \<Rightarrow> string list result" where
  "validate_cross_tenant_targets ids =
    (let targets = map strip (filter (\<lambda>t. \<not> blank t) ids) in
     if targets = [] then Inl (denied ''Cross-tenant access requires at least one target tenant''
       [(''reason'', PStr ''missing_target_tenant'')])
     else Inr targets)"

definition validate_cross_tenant_reason :: "string \<Rightarrow> unit result" where
  "validate_cross_tenant_reason reason =
    (if blank reason then Inl (denied ''Cross-tenant access requires an audit reason''
       [(''reason'', PStr ''missing_audit_reason'')])
     else Inr ())"

definition deny_cross_tenant_access ::
  "string \<Rightarrow> cross_tenant_permission \<Rightarrow> string \<Rightarrow> string list \<Rightarrow> string option \<Rightarrow> exn" where
  "deny_cross_tenant_access m a resource actions target = denied m
     [(''tenant_id'', PStr (de_tenant_id (ct_decision a))),
      (''user_id'', PStr (de_user_id (ct_decision a))), (''resource'', PStr resource),
      (''allowed_actions'', sorted_set actions), (''action'', PStr (ct_action a)),
      (''target_tenant_id'', opt_str target), (''reason'', PStr (ct_reason a))]"

definition assert_cross_tenant_permission ::
  "cross_tenant_permission \<Rightarrow> string \<Rightarrow> string list \<Rightarrow> string option \<Rightarrow> string option \<Rightarrow> unit result" where
  "assert_cross_tenant_permission a resource actions target actor =
    (let deny = (\<lambda>m. Inl (deny_cross_tenant_access m a resource actions target)) in
     if actions = [] then Inl (value_error ''cross-tenant permission actions cannot be empty'')
     else
     rbind (validate_cross_tenant_reason (ct_reason a)) (\<lambda>_.
     rbind (validate_cross_tenant_targets (ct_targets a)) (\<lambda>_.
     rbind (assert_platform_decision (ct_decision a)) (\<lambda>_.
       if actor \<noteq> None \<and> de_user_id (ct_decision a) \<noteq> the actor
         then deny ''Cross-tenant access actor must match platform decision user''
       else if ct_resource a \<noteq> resource \<or> de_resource (ct_decision a) \<noteq> resource
         then deny ''Cross-tenant access requires matching platform resource''
       else if ct_action a \<notin> set actions \<or> de_action (ct_decision a) \<notin> set actions
         then deny ''Cross-tenant access platform action is not sufficient''
       else if target \<noteq> None \<and> the target \<notin> set (ct_targets a)
         then deny ''Cross-tenant access target tenant is not in authorized scope''
       else Inr ()))))"

definition cross_tenant_reason_and_decision ::
  "string option \<Rightarrow> decision option \<Rightarrow> cross_tenant_permission option \<Rightarrow> string \<Rightarrow> string list
    \<Rightarrow> string option \<Rightarrow> (string \<times> decision) result" where
  "cross_tenant_reason_and_decision reason platform_decision platform_access resource actions target =
    (case platform_access of
       Some a \<Rightarrow>
         rbind (assert_cross_tenant_permission a resource actions target None) (\<lambda>_.
           Inr (ct_reason a, ct_decision a))
     | None \<Rightarrow>
        (let r = (case reason of None \<Rightarrow> [] | Some x \<Rightarrow> x) in
         case platform_decision of
           None \<Rightarrow> Inl (denied ''Cross-tenant access requires a platform permission gate''
             [(''resource'', PStr resource), (''allowed_actions'', sorted_set actions)])
         | Some d \<Rightarrow>
             rbind (validate_cross_tenant_reason r) (\<lambda>_.
             rbind (assert_platform_decision d) (\<lambda>_. Inr (strip r, d)))))"

section \<open>The decisions of a route\<close>

text \<open>\<open>str.rpartition(":")\<close>: what precedes and what follows the last colon, when there is one.\<close>

fun rpartition_colon :: "string \<Rightarrow> (string \<times> string) option" where
  "rpartition_colon [] = None"
| "rpartition_colon (c # cs) =
     (case rpartition_colon cs of
        Some (a, b) \<Rightarrow> Some (c # a, b)
      | None \<Rightarrow> if c = CHR '':'' then Some ([], cs) else None)"

definition parse_permission :: "string \<Rightarrow> (string \<times> string) result" where
  "parse_permission permission =
    (let bad = Inl (app_error ''VALIDATION_ERROR'' ''Permission must use resource:action format''
       (Some 400) [(''permission'', PStr permission)]) in
     case rpartition_colon permission of
       None \<Rightarrow> bad
     | Some (resource, action) \<Rightarrow>
         if blank resource \<or> blank action then bad else Inr (resource, action))"

definition scope_for_decision :: "decision \<Rightarrow> string" where
  "scope_for_decision d = (if de_tenant_id d = platform_tenant_id then ''platform'' else ''tenant'')"

definition require_decision :: "decision list \<Rightarrow> string \<Rightarrow> string option \<Rightarrow> decision result" where
  "require_decision ds permission scope =
     rbind (parse_permission permission) (\<lambda>(resource, action).
       case find (\<lambda>d. de_allowed d \<and> de_resource d = resource \<and> de_action d = action
                \<and> (scope = None \<or> scope_for_decision d = the scope)) ds of
         Some d \<Rightarrow> Inr d
       | None \<Rightarrow> Inl (denied ''Route authorization decision is required''
           [(''reason'', PStr ''missing_route_authorization_decision'')]))"

text \<open>
  \<open>require_any_permission\<close>: a permission that is malformed ends the search, one that is not
  granted does not.
\<close>

fun require_any :: "decision list \<Rightarrow> string option \<Rightarrow> string list \<Rightarrow> string list \<Rightarrow> decision result" where
  "require_any ds scope permissions [] = Inl (denied ''Route authorization decision is required''
     [(''reason'', PStr ''missing_route_authorization_decision''),
      (''permissions'', PList (map PStr permissions))])"
| "require_any ds scope permissions (p # ps) =
     (case require_decision ds p scope of
        Inr d \<Rightarrow> Inr d
      | Inl e \<Rightarrow> if exn_code e = Some ''VALIDATION_ERROR'' then Inl e
                 else require_any ds scope permissions ps)"

definition normalize_permissions :: "string list \<Rightarrow> string list result" where
  "normalize_permissions permissions =
    (let resolved = map strip (filter (\<lambda>p. \<not> blank p) permissions) in
     if resolved = [] then Inl (app_error ''VALIDATION_ERROR''
       ''permissions must be a non-empty sequence of resource:action strings'' (Some 400) [])
     else Inr resolved)"

section \<open>The authorization service\<close>

record policy_match =
  pm_tenant_id :: string
  pm_subject :: string
  pm_resource :: string
  pm_action :: string
  pm_role_grant_id :: string
  pm_policy_version :: int
  pm_effect :: string
  pm_reason :: string

text \<open>A backend looks up the policy that allows a subject to act; it may change its cache.\<close>

type_synonym 's policy_backend =
  "string \<Rightarrow> string \<Rightarrow> string \<Rightarrow> string \<Rightarrow> 's \<Rightarrow> 's \<times> policy_match option result"

definition validate_authorization_input :: "string \<Rightarrow> string \<Rightarrow> string \<Rightarrow> string \<Rightarrow> unit result" where
  "validate_authorization_input user_id tenant_id resource action =
    (let missing = map fst (filter (\<lambda>(_, v). blank v)
       [(''user_id'', user_id), (''tenant_id'', tenant_id), (''resource'', resource), (''action'', action)]) in
     if missing \<noteq> [] then Inl (app_error ''VALIDATION_ERROR''
       (''authorization missing required fields: '' @ repr_strs missing) (Some 400) [])
     else Inr ())"

definition record_denial ::
  "sinks \<Rightarrow> string \<Rightarrow> string \<Rightarrow> string \<Rightarrow> string \<Rightarrow> string option \<Rightarrow> string option \<Rightarrow> string \<Rightarrow> string
    \<Rightarrow> effect list" where
  "record_denial k tenant_id user_id resource action resource_id req reason subject =
     emit_audit k \<lparr>au_action = ''authorization.denied'', au_resource_type = resource,
       au_resource_id = resource_id, au_result = ''denied'', au_tenant = Some tenant_id,
       au_actor = Some user_id, au_reason = Some reason,
       au_policy_version = None, au_request_id = req,
       au_payload = [(''resource'', PStr resource), (''action'', PStr action),
         (''subject'', PStr subject), (''reason'', PStr reason)]\<rparr>"

definition authorize ::
  "'s policy_backend \<Rightarrow> sinks \<Rightarrow> string \<Rightarrow> string \<Rightarrow> string \<Rightarrow> string \<Rightarrow> string option
    \<Rightarrow> string option \<Rightarrow> 's \<Rightarrow> 's \<times> effect list \<times> decision result" where
  "authorize backend k user_id tenant_id resource action resource_id req s =
    (case validate_authorization_input user_id tenant_id resource action of
       Inl e \<Rightarrow> (s, [], Inl e)
     | Inr _ \<Rightarrow>
        (let subject = ''user:'' @ user_id in
         case backend tenant_id subject resource action s of
           (s, Inl e) \<Rightarrow> (s, [], Inl e)
         | (s, Inr (Some p)) \<Rightarrow>
             (s, [], Inr \<lparr>de_allowed = True, de_tenant_id = tenant_id, de_user_id = user_id,
                de_resource = resource, de_action = action, de_reason = pm_reason p,
                de_policy_version = Some (pm_policy_version p)\<rparr>)
         | (s, Inr None) \<Rightarrow>
             (s, record_denial k tenant_id user_id resource action resource_id req
                   ''missing_projected_policy'' subject,
              Inr \<lparr>de_allowed = False, de_tenant_id = tenant_id, de_user_id = user_id,
                de_resource = resource, de_action = action,
                de_reason = ''missing_projected_policy'', de_policy_version = None\<rparr>)))"

definition require_authorization ::
  "'s policy_backend \<Rightarrow> sinks \<Rightarrow> string \<Rightarrow> string \<Rightarrow> string \<Rightarrow> string \<Rightarrow> string option
    \<Rightarrow> string option \<Rightarrow> 's \<Rightarrow> 's \<times> effect list \<times> decision result" where
  "require_authorization backend k user_id tenant_id resource action resource_id req s =
    (case authorize backend k user_id tenant_id resource action resource_id req s of
       (s, eff, Inl e) \<Rightarrow> (s, eff, Inl e)
     | (s, eff, Inr d) \<Rightarrow>
         (s, eff, if de_allowed d then Inr d
            else Inl (denied ''Permission denied''
              [(''tenant_id'', PStr tenant_id), (''user_id'', PStr user_id),
               (''resource'', PStr resource), (''action'', PStr action)])))"

definition authorize_platform ::
  "'s policy_backend \<Rightarrow> sinks \<Rightarrow> string \<Rightarrow> string \<Rightarrow> string \<Rightarrow> string option \<Rightarrow> string option \<Rightarrow> 's
    \<Rightarrow> 's \<times> effect list \<times> decision result" where
  "authorize_platform backend k user_id resource action resource_id req s =
     authorize backend k user_id platform_tenant_id resource action resource_id req s"

definition require_platform ::
  "'s policy_backend \<Rightarrow> sinks \<Rightarrow> string \<Rightarrow> string \<Rightarrow> string \<Rightarrow> string option \<Rightarrow> string option \<Rightarrow> 's
    \<Rightarrow> 's \<times> effect list \<times> decision result" where
  "require_platform backend k user_id resource action resource_id req s =
     require_authorization backend k user_id platform_tenant_id resource action resource_id req s"

text \<open>\<open>CrossTenantPermissionGate.require\<close>.\<close>

definition cross_tenant_require ::
  "'s policy_backend \<Rightarrow> sinks \<Rightarrow> string \<Rightarrow> string \<Rightarrow> string \<Rightarrow> string list \<Rightarrow> string \<Rightarrow> string option
    \<Rightarrow> string option \<Rightarrow> 's \<Rightarrow> 's \<times> effect list \<times> cross_tenant_permission result" where
  "cross_tenant_require backend k user_id resource action ids reason resource_id req s =
    (case rbind (validate_cross_tenant_targets ids) (\<lambda>ts.
            rbind (validate_cross_tenant_reason reason) (\<lambda>_. Inr ts)) of
       Inl e \<Rightarrow> (s, [], Inl e)
     | Inr targets \<Rightarrow>
        (case require_platform backend k user_id resource action resource_id req s of
           (s, eff, Inl e) \<Rightarrow> (s, eff, Inl e)
         | (s, eff, Inr d) \<Rightarrow>
             (let a = \<lparr>ct_decision = d, ct_reason = strip reason, ct_targets = targets,
                       ct_resource = resource, ct_action = action, ct_request_id = req,
                       ct_resource_id = resource_id\<rparr> in
              (s, eff, rbind (assert_cross_tenant_permission a resource [action] None None) (\<lambda>_. Inr a)))))"

section \<open>Lemmas\<close>

lemma denied_code [simp]: "denied m d = AppError ''PERMISSION_DENIED'' m (Some 403) d"
  by (simp add: denied_def)

lemma assert_platform_ok:
  "assert_platform_decision d = Inr () \<longleftrightarrow> de_allowed d \<and> de_tenant_id d = platform_tenant_id"
  by (simp add: assert_platform_decision_def)

lemma assert_authorization_ok:
  "assert_authorization_decision od tenant actor resource actions operation allow_platform = Inr () \<longleftrightarrow>
     (\<exists>d. od = Some d \<and> de_allowed d \<and> de_user_id d = actor \<and>
       (de_tenant_id d = tenant \<or> allow_platform \<and> de_tenant_id d = platform_tenant_id) \<and>
       de_resource d = resource \<and> de_action d \<in> set actions)"
  by (cases od) (auto simp: assert_authorization_decision_def Let_def)

lemma assert_authorization_Inl:
  "actions \<noteq> [] \<Longrightarrow>
     assert_authorization_decision od tenant actor resource actions operation allow_platform = Inl e \<Longrightarrow>
     exn_code e = Some ''PERMISSION_DENIED''"
  by (cases od) (auto simp: assert_authorization_decision_def decision_denied_def Let_def split: if_splits)

lemma validate_targets_ok:
  "validate_cross_tenant_targets ids = Inr ts \<longleftrightarrow>
     ts = map strip (filter (\<lambda>t. \<not> blank t) ids) \<and> ts \<noteq> []"
  by (auto simp: validate_cross_tenant_targets_def Let_def)

lemma validate_reason_ok: "validate_cross_tenant_reason r = Inr () \<longleftrightarrow> \<not> blank r"
  by (simp add: validate_cross_tenant_reason_def)

lemma assert_cross_tenant_ok:
  "assert_cross_tenant_permission a resource actions target actor = Inr () \<longleftrightarrow>
     \<not> blank (ct_reason a) \<and> (\<exists>t \<in> set (ct_targets a). \<not> blank t) \<and>
     de_allowed (ct_decision a) \<and> de_tenant_id (ct_decision a) = platform_tenant_id \<and>
     (\<forall>u. actor = Some u \<longrightarrow> de_user_id (ct_decision a) = u) \<and>
     ct_resource a = resource \<and> de_resource (ct_decision a) = resource \<and>
     ct_action a \<in> set actions \<and> de_action (ct_decision a) \<in> set actions \<and>
     (\<forall>t. target = Some t \<longrightarrow> t \<in> set (ct_targets a))"
proof -
  have targets: "(\<exists>ts. validate_cross_tenant_targets ids = Inr ts) \<longleftrightarrow> (\<exists>t \<in> set ids. \<not> blank t)" for ids
    by (simp add: validate_targets_ok filter_empty_conv)
  have unit: "(\<exists>v. r = Inr v \<and> P) \<longleftrightarrow> r = Inr () \<and> P" for r :: "unit result" and P by auto
  have nonempty: "ct_action a \<in> set actions \<Longrightarrow> actions \<noteq> []" by auto
  show ?thesis
    unfolding assert_cross_tenant_permission_def Let_def guard_Inr rbind_Inr_iff unit ex_simps targets
      validate_reason_ok assert_platform_ok
    by (cases actor; cases target) (use nonempty in \<open>simp_all, blast+\<close>)
qed

end
