(* ===== verification/Permission_Policies.thy ===== *)
theory Permission_Policies
  imports Permission_Decisions Cache_Memory "HOL-Library.Product_Lexorder"
begin

text \<open>
  Projected policies: role grants and templates and the rules they give (\<open>policies.py\<close>,
  \<open>models.py\<close>, \<open>registry.py\<close>), the projector that keeps the table \<open>projected_policies\<close> in step and
  the reconciliation that repairs it (\<open>projector.py\<close>), the policy backends (\<open>backends.py\<close>) and the
  cache of their decisions (\<open>cache.py\<close>), all under \<open>core/permissions\<close>.
\<close>

section \<open>The registry of permissions\<close>

record registered_permission =
  rp_app_label :: string
  rp_scope :: string
  rp_resource :: string
  rp_action :: string

record permission_registry =
  pg_permissions :: "registered_permission list"
  pg_errors :: "string list"

type_synonym permission_key = "string \<times> string \<times> string"

definition permission_key :: "registered_permission \<Rightarrow> permission_key" where
  "permission_key p = (rp_scope p, rp_resource p, rp_action p)"

definition show_key :: "permission_key \<Rightarrow> string" where
  "show_key k = (case k of (a, b, c) \<Rightarrow>
     ''('' @ repr_str a @ '', '' @ repr_str b @ '', '' @ repr_str c @ '')'')"

definition register_permission ::
  "registered_permission \<Rightarrow> permission_registry \<times> (permission_key \<rightharpoonup> string)
    \<Rightarrow> permission_registry \<times> (permission_key \<rightharpoonup> string)" where
  "register_permission p st =
    (let (g, seen) = st; k = permission_key p;
         g = (case seen k of
                None \<Rightarrow> g
              | Some owner \<Rightarrow> g\<lparr>pg_errors := pg_errors g
                  @ [''Duplicate permission '' @ show_key k @ '' declared by '' @ repr_str owner
                     @ '' and '' @ repr_str (rp_app_label p)]\<rparr>)
     in (g\<lparr>pg_permissions := pg_permissions g @ [p]\<rparr>, seen(k \<mapsto> rp_app_label p)))"

definition has_permission :: "permission_registry \<Rightarrow> string \<Rightarrow> string \<Rightarrow> string option \<Rightarrow> bool" where
  "has_permission g resource action scope \<longleftrightarrow>
     (\<exists>p \<in> set (pg_permissions g). rp_resource p = resource \<and> rp_action p = action
        \<and> (scope = None \<or> rp_scope p = the scope))"

section \<open>Rules\<close>

record role_template =
  rt_id :: string
  rt_scope :: string
  rt_permissions :: "(string \<times> string) list list"

record role_grant =
  gr_id :: string
  gr_tenant_id :: string
  gr_subject_type :: string
  gr_subject_id :: string
  gr_role_template_id :: string
  gr_policy_version :: int

record policy_rule =
  pr_tenant_id :: string
  pr_subject :: string
  pr_resource :: string
  pr_action :: string
  pr_role_grant_id :: string
  pr_policy_version :: int
  pr_effect :: string

type_synonym rule_key = "string \<times> string \<times> string \<times> string \<times> string"

definition rule_key :: "policy_rule \<Rightarrow> rule_key" where
  "rule_key r = (pr_tenant_id r, pr_subject r, pr_resource r, pr_action r, pr_role_grant_id r)"

definition subject_for_grant :: "role_grant \<Rightarrow> string" where
  "subject_for_grant g = gr_subject_type g @ '':'' @ gr_subject_id g"

text \<open>A template's permission is a dictionary of strings; a missing key is not a string.\<close>

fun check_permissions :: "permission_registry \<Rightarrow> role_template \<Rightarrow> (string \<times> string) list list \<Rightarrow> unit result" where
  "check_permissions g t [] = Inr ()"
| "check_permissions g t (p # ps) =
     (case (dget p ''resource'', dget p ''action'') of
        (Some resource, Some action) \<Rightarrow>
          if has_permission g resource action (Some (rt_scope t)) then check_permissions g t ps
          else Inl (app_error ''VALIDATION_ERROR'' ''RoleTemplate permission is not registered'' (Some 400)
            [(''resource'', PStr resource), (''action'', PStr action), (''scope'', PStr (rt_scope t))])
      | _ \<Rightarrow> Inl (app_error ''VALIDATION_ERROR'' ''RoleTemplate permission must include resource and action''
          (Some 400) [(''role_template_id'', PStr (rt_id t))]))"

definition validate_role_template_permissions ::
  "permission_registry option \<Rightarrow> role_template \<Rightarrow> unit result" where
  "validate_role_template_permissions og t =
    (case og of None \<Rightarrow> Inr () | Some g \<Rightarrow> check_permissions g t (rt_permissions t))"

definition required_key :: "(string \<times> string) list \<Rightarrow> string \<Rightarrow> string result" where
  "required_key d k = (case dget d k of None \<Rightarrow> Inl (PyError ''KeyError'' (repr_str k)) | Some v \<Rightarrow> Inr v)"

definition rule_for :: "role_grant \<Rightarrow> (string \<times> string) list \<Rightarrow> policy_rule result" where
  "rule_for g p =
     rbind (required_key p ''resource'') (\<lambda>resource.
     rbind (required_key p ''action'') (\<lambda>action.
       Inr \<lparr>pr_tenant_id = gr_tenant_id g, pr_subject = subject_for_grant g, pr_resource = resource,
            pr_action = action, pr_role_grant_id = gr_id g, pr_policy_version = gr_policy_version g,
            pr_effect = ''allow''\<rparr>))"

definition rules_for_grant ::
  "permission_registry option \<Rightarrow> role_grant \<Rightarrow> role_template \<Rightarrow> policy_rule list result" where
  "rules_for_grant og g t =
     rbind (validate_role_template_permissions og t) (\<lambda>_. rmap (rule_for g) (rt_permissions t))"

section \<open>The projector\<close>

text \<open>
  The rows of \<open>projected_policies\<close>, each with its identifier; the key of a rule is unique. An
  invalidation is of one subject of a tenant, or of everything. \<open>new_id\<close> gives a new row its
  identifier.
\<close>

type_synonym policy_table = "(string \<times> policy_rule) list"
type_synonym invalidation = "(string \<times> string) option"

definition grant_rows :: "string \<Rightarrow> policy_table \<Rightarrow> policy_table" where
  "grant_rows gid tab = filter (\<lambda>(i, r). pr_role_grant_id r = gid) tab"

definition other_rows :: "string \<Rightarrow> policy_table \<Rightarrow> policy_table" where
  "other_rows gid tab = filter (\<lambda>(i, r). pr_role_grant_id r \<noteq> gid) tab"

definition project_grant ::
  "permission_registry option \<Rightarrow> (policy_rule \<Rightarrow> string) \<Rightarrow> role_grant \<Rightarrow> role_template \<Rightarrow> policy_table
    \<Rightarrow> policy_table \<times> invalidation list \<times> policy_rule list result" where
  "project_grant og new_id g t tab =
    (case rules_for_grant og g t of
       Inl e \<Rightarrow> (tab, [], Inl e)
     | Inr rules \<Rightarrow>
        (let cleared = [Some (gr_tenant_id g, subject_for_grant g)] in
         if \<not> distinct (map rule_key rules) then (tab, cleared, Inl (PyError ''IntegrityError'' ''''))
         else (other_rows (gr_id g) tab @ map (\<lambda>r. (new_id r, r)) rules, cleared, Inr rules)))"

definition invalidate_subjects :: "(string \<times> string) list \<Rightarrow> invalidation list" where
  "invalidate_subjects subjects =
    (if subjects = [] then [None] else map Some (sort (remdups subjects)))"

definition remove_grant_projection ::
  "string \<Rightarrow> string option \<Rightarrow> string option \<Rightarrow> policy_table \<Rightarrow> policy_table \<times> invalidation list" where
  "remove_grant_projection gid tenant subject tab =
    (let projected = map (\<lambda>(i, r). (pr_tenant_id r, pr_subject r)) (grant_rows gid tab);
         subjects = projected @ (case (tenant, subject) of
                                   (Some t, Some s) \<Rightarrow> [(t, s)]
                                 | _ \<Rightarrow> [])
     in (other_rows gid tab, invalidate_subjects subjects))"

text \<open>
  \<open>handle_role_grant_changed\<close>: the event's payload, and the grant and template the session finds.
\<close>

definition payload_text :: "(string \<times> pyval) list \<Rightarrow> string \<Rightarrow> string option" where
  "payload_text payload k =
    (case dget payload k of Some (PStr s) \<Rightarrow> if blank s then None else Some s | _ \<Rightarrow> None)"

definition handle_role_grant_changed ::
  "permission_registry option \<Rightarrow> (policy_rule \<Rightarrow> string) \<Rightarrow> (string \<rightharpoonup> role_grant) \<Rightarrow> (string \<rightharpoonup> role_template)
    \<Rightarrow> string \<Rightarrow> (string \<times> pyval) list \<Rightarrow> policy_table \<Rightarrow> policy_table \<times> invalidation list \<times> unit result" where
  "handle_role_grant_changed og new_id grants templates tenant_id payload tab =
    (case dget payload ''grant_id'' of
       Some (PStr gid) \<Rightarrow>
         if gid = [] then (tab, [], Inl (app_error ''VALIDATION_ERROR''
           ''role grant event requires grant_id'' (Some 400) []))
         else
           (case grants gid of
              None \<Rightarrow>
                (let subject = (case (payload_text payload ''subject_type'', payload_text payload ''subject_id'') of
                                  (Some ty, Some s) \<Rightarrow> Some (ty @ '':'' @ s)
                                | _ \<Rightarrow> None);
                     (tab, cleared) = remove_grant_projection gid (Some tenant_id) subject tab
                 in (tab, cleared, Inr ()))
            | Some g \<Rightarrow>
                (case templates (gr_role_template_id g) of
                   None \<Rightarrow> (tab, [], Inl (app_error ''NOT_FOUND''
                     (''RoleTemplate '' @ repr_str (gr_role_template_id g) @ '' not found'') (Some 404) []))
                 | Some t \<Rightarrow>
                     (case project_grant og new_id g t tab of
                        (tab, cleared, r) \<Rightarrow> (tab, cleared, rbind r (\<lambda>_. Inr ())))))
     | _ \<Rightarrow> (tab, [], Inl (app_error ''VALIDATION_ERROR''
         ''role grant event requires grant_id'' (Some 400) [])))"

section \<open>Reconciliation\<close>

fun expected_rules ::
  "permission_registry option \<Rightarrow> (string \<rightharpoonup> role_template) \<Rightarrow> role_grant list \<Rightarrow> policy_rule list result" where
  "expected_rules og templates [] = Inr []"
| "expected_rules og templates (g # gs) =
     (case templates (gr_role_template_id g) of
        None \<Rightarrow> expected_rules og templates gs
      | Some t \<Rightarrow>
          rbind (rules_for_grant og g t) (\<lambda>rs.
          rbind (expected_rules og templates gs) (\<lambda>rest. Inr (rs @ rest))))"

text \<open>A dictionary comprehension: a later entry replaces an earlier one and keeps its place.\<close>

definition by_key :: "('v \<Rightarrow> 'k) \<Rightarrow> 'v list \<Rightarrow> ('k \<times> 'v) list" where
  "by_key f xs = fold (\<lambda>x d. dput (f x) x d) xs []"

record reconciliation =
  rc_repaired :: bool
  rc_missing :: "policy_rule list"
  rc_stale :: "policy_rule list"

definition reconciliation_ok :: "reconciliation \<Rightarrow> bool" where
  "reconciliation_ok r \<longleftrightarrow> rc_missing r = [] \<and> rc_stale r = []"

definition missing_rules ::
  "('k \<times> policy_rule) list \<Rightarrow> ('k \<times> string \<times> policy_rule) list \<Rightarrow> policy_rule list" where
  "missing_rules expected actual =
     map snd (filter (\<lambda>(k, r). case dget actual k of None \<Rightarrow> True | Some (i, a) \<Rightarrow> a \<noteq> r) expected)"

definition changed_rows ::
  "('k \<times> policy_rule) list \<Rightarrow> ('k \<times> string \<times> policy_rule) list \<Rightarrow> policy_table" where
  "changed_rows expected actual =
     concat (map (\<lambda>(k, r). case dget actual k of
               None \<Rightarrow> [] | Some (i, a) \<Rightarrow> if a \<noteq> r then [(i, a)] else []) expected)"

definition unexpected_rows ::
  "('k \<times> policy_rule) list \<Rightarrow> ('k \<times> string \<times> policy_rule) list \<Rightarrow> policy_table" where
  "unexpected_rows expected actual = map snd (filter (\<lambda>(k, _). dget expected k = None) actual)"

definition reconcile ::
  "permission_registry option \<Rightarrow> (policy_rule \<Rightarrow> string) \<Rightarrow> (string \<rightharpoonup> role_template) \<Rightarrow> role_grant list
    \<Rightarrow> bool \<Rightarrow> policy_table \<Rightarrow> policy_table \<times> invalidation list \<times> reconciliation result" where
  "reconcile og new_id templates grants repair tab =
    (case expected_rules og templates grants of
       Inl e \<Rightarrow> (tab, [], Inl e)
     | Inr rules \<Rightarrow>
        (let expected = by_key rule_key rules; actual = by_key (rule_key \<circ> snd) tab;
             missing = missing_rules expected actual;
             stale = changed_rows expected actual @ unexpected_rows expected actual in
         if repair \<and> (missing \<noteq> [] \<or> stale \<noteq> [])
         then (filter (\<lambda>(i, r). i \<notin> fst ` set stale) tab @ map (\<lambda>r. (new_id r, r)) missing,
               invalidate_subjects (map (\<lambda>r. (pr_tenant_id r, pr_subject r)) (missing @ map snd stale)),
               Inr \<lparr>rc_repaired = True, rc_missing = [], rc_stale = []\<rparr>)
         else (tab, [], Inr \<lparr>rc_repaired = False, rc_missing = missing, rc_stale = map snd stale\<rparr>)))"

section \<open>The backends\<close>

definition match_of :: "policy_rule \<Rightarrow> string \<Rightarrow> policy_match" where
  "match_of r reason =
    \<lparr>pm_tenant_id = pr_tenant_id r, pm_subject = pr_subject r, pm_resource = pr_resource r,
     pm_action = pr_action r, pm_role_grant_id = pr_role_grant_id r,
     pm_policy_version = pr_policy_version r, pm_effect = pr_effect r, pm_reason = reason\<rparr>"

definition allows :: "string \<Rightarrow> string \<Rightarrow> string \<Rightarrow> string \<Rightarrow> policy_rule \<Rightarrow> bool" where
  "allows tenant subject resource action r \<longleftrightarrow>
     pr_tenant_id r = tenant \<and> pr_subject r = subject \<and> pr_resource r = resource
       \<and> pr_action r = action \<and> pr_effect r = ''allow''"

text \<open>ORDER BY policy_version DESC LIMIT 1; rows of one version keep their storage order.\<close>

definition projected_backend ::
  "policy_table \<Rightarrow> string \<Rightarrow> string \<Rightarrow> string \<Rightarrow> string \<Rightarrow> policy_match option" where
  "projected_backend tab tenant subject resource action =
    (case sort_key (\<lambda>r. - pr_policy_version r)
            (filter (allows tenant subject resource action) (map snd tab)) of
       [] \<Rightarrow> None
     | r # _ \<Rightarrow> Some (match_of r ''matched_projected_policy''))"

text \<open>\<open>max(matches, key=...)\<close> gives the first of the greatest.\<close>

fun first_max :: "policy_rule list \<Rightarrow> policy_rule option" where
  "first_max [] = None"
| "first_max (r # rs) =
     (case first_max rs of
        None \<Rightarrow> Some r
      | Some m \<Rightarrow> if pr_policy_version m \<le> pr_policy_version r then Some r else Some m)"

definition casbin_backend ::
  "policy_rule list \<Rightarrow> string \<Rightarrow> string \<Rightarrow> string \<Rightarrow> string \<Rightarrow> policy_match option" where
  "casbin_backend rules tenant subject resource action =
     map_option (\<lambda>r. match_of r ''matched_casbin_equivalent_policy'')
       (first_max (filter (allows tenant subject resource action) rules))"

section \<open>Lemmas\<close>

lemma first_max_filter_sort:
  "first_max rs = (case sort_key (\<lambda>r. - pr_policy_version r) rs of [] \<Rightarrow> None | r # _ \<Rightarrow> Some r)"
proof (induction rs)
  case (Cons r rs)
  then show ?case
    by (cases "sort_key (\<lambda>r. - pr_policy_version r) rs") (auto simp: sort_key_def split: list.splits)
qed simp

lemma by_key_keys: "distinct (map fst d) \<Longrightarrow> distinct (map fst (fold (\<lambda>x d. dput (f x) x d) xs d))"
  by (induction xs arbitrary: d) (auto simp: distinct_dput)

lemma distinct_by_key: "distinct (map fst (by_key f xs))"
  unfolding by_key_def by (rule by_key_keys) simp

lemma dput_mem: "(k', v') \<in> set (dput k v d) \<Longrightarrow> (k', v') = (k, v) \<or> (k', v') \<in> set d"
  by (induction k v d rule: dput.induct) (auto split: if_splits)

lemma by_key_mem: "(k, x) \<in> set (by_key f xs) \<Longrightarrow> k = f x \<and> x \<in> set xs"
proof -
  have "(k, x) \<in> set (fold (\<lambda>x d. dput (f x) x d) xs d) \<Longrightarrow> (k = f x \<and> x \<in> set xs) \<or> (k, x) \<in> set d" for d
    by (induction xs arbitrary: d) (fastforce dest: dput_mem)+
  then show "(k, x) \<in> set (by_key f xs) \<Longrightarrow> k = f x \<and> x \<in> set xs"
    unfolding by_key_def by force
qed

lemma by_key_distinct:
  assumes "distinct (map f xs)"
  shows "by_key f xs = map (\<lambda>x. (f x, x)) xs"
proof -
  have "distinct (map f xs) \<Longrightarrow> f ` set xs \<inter> fst ` set d = {} \<Longrightarrow>
      fold (\<lambda>x d. dput (f x) x d) xs d = d @ map (\<lambda>x. (f x, x)) xs" for d
    by (induction xs arbitrary: d) (auto simp: dput_new)
  with assms show ?thesis by (simp add: by_key_def)
qed

lemma dget_mem: "distinct (map fst d) \<Longrightarrow> dget d k = Some v \<longleftrightarrow> (k, v) \<in> set d"
  by (simp add: dget_def)

lemma dget_None: "dget d k = None \<longleftrightarrow> k \<notin> fst ` set d"
  by (simp add: dget_def map_of_eq_None_iff)

text \<open>The table's constraints, and what reconciliation makes of a table that meets them.\<close>

definition policy_table_ok :: "policy_table \<Rightarrow> bool" where
  "policy_table_ok tab \<longleftrightarrow> distinct (map fst tab) \<and> distinct (map (rule_key \<circ> snd) tab)"

lemma actual_rows:
  assumes "distinct (map (f \<circ> snd) tab)"
  shows "dget (by_key (f \<circ> snd) tab) k = Some (i, r) \<longleftrightarrow> (i, r) \<in> set tab \<and> f r = k"
proof -
  have "by_key (f \<circ> snd) tab = map (\<lambda>x. (f (snd x), x)) tab"
    using by_key_distinct [OF assms] by simp
  moreover have "distinct (map fst (map (\<lambda>x. (f (snd x), x)) tab))"
    using assms by (simp add: o_def)
  ultimately show ?thesis by (force simp: dget_mem image_iff)
qed

lemma changed_mem:
  "(i, a) \<in> set (changed_rows expected actual) \<longleftrightarrow>
     (\<exists>k r. (k, r) \<in> set expected \<and> dget actual k = Some (i, a) \<and> a \<noteq> r)"
proof (induction expected)
  case (Cons x expected)
  obtain k r where x: "x = (k, r)" by (cases x)
  have "changed_rows (x # expected) actual =
      (case dget actual k of None \<Rightarrow> [] | Some (i, a) \<Rightarrow> if a \<noteq> r then [(i, a)] else [])
        @ changed_rows expected actual" by (simp add: changed_rows_def x)
  with Cons.IH show ?case by (cases "dget actual k") (auto simp: x split: if_splits)
qed (simp add: changed_rows_def)

lemma unexpected_mem:
  "(i, a) \<in> set (unexpected_rows expected actual) \<longleftrightarrow>
     (\<exists>k. (k, i, a) \<in> set actual \<and> dget expected k = None)"
  by (force simp: unexpected_rows_def)

lemma missing_mem:
  "r \<in> set (missing_rules expected actual) \<longleftrightarrow>
     (\<exists>k. (k, r) \<in> set expected \<and> (case dget actual k of None \<Rightarrow> True | Some (i, a) \<Rightarrow> a \<noteq> r))"
proof -
  have "r \<in> snd ` {x \<in> set expected. P (fst x) (snd x)} \<longleftrightarrow> (\<exists>k. (k, r) \<in> set expected \<and> P k r)" for P
    by force
  from this [of "\<lambda>k r. case dget actual k of None \<Rightarrow> True | Some (i, a) \<Rightarrow> a \<noteq> r"]
  show ?thesis by (simp add: missing_rules_def case_prod_beta)
qed

definition in_step :: "(policy_rule \<Rightarrow> 'k) \<Rightarrow> ('k \<times> policy_rule) list \<Rightarrow> policy_table \<Rightarrow> bool" where
  "in_step f expected tab \<longleftrightarrow> distinct (map (f \<circ> snd) tab) \<and> snd ` set tab = snd ` set expected"

lemma in_step_reconciled:
  assumes "in_step f (by_key f rules) tab"
  shows "missing_rules (by_key f rules) (by_key (f \<circ> snd) tab) = [] \<and>
    changed_rows (by_key f rules) (by_key (f \<circ> snd) tab) = [] \<and>
    unexpected_rows (by_key f rules) (by_key (f \<circ> snd) tab) = []"
proof -
  let ?E = "by_key f rules" and ?A = "by_key (f \<circ> snd) tab"
  have d: "distinct (map (f \<circ> snd) tab)" and eq: "snd ` set tab = snd ` set ?E"
    using assms by (auto simp: in_step_def)
  have same: "\<exists>i. dget ?A k = Some (i, r)" if "(k, r) \<in> set ?E" for k r
  proof -
    have "r \<in> snd ` set tab" using eq that by force
    then obtain i where "(i, r) \<in> set tab" by auto
    then show ?thesis using actual_rows [OF d] by_key_mem [OF that] by auto
  qed
  have known: "dget ?E k \<noteq> None" if "(k, x) \<in> set ?A" for k x
  proof -
    obtain i r where x: "x = (i, r)" by (cases x)
    have k: "k = f r" and "(i, r) \<in> set tab" using by_key_mem [OF that] x by auto
    then have "r \<in> snd ` set ?E" using eq by force
    then obtain k' where k': "(k', r) \<in> set ?E" by auto
    then have "(k, r) \<in> set ?E" using by_key_mem [OF k'] k by simp
    then show ?thesis unfolding dget_None by force
  qed
  have "missing_rules ?E ?A = []"
    using same by (fastforce simp: missing_rules_def filter_empty_conv)
  moreover have "changed_rows ?E ?A = []"
    using same by (fastforce simp: changed_rows_def)
  moreover have "unexpected_rows ?E ?A = []"
    using known by (auto simp: unexpected_rows_def filter_empty_conv)
  ultimately show ?thesis by blast
qed

lemma repair_in_step:
  assumes "distinct (map fst tab) \<and> distinct (map (f \<circ> snd) tab)" and "expected = by_key f rules"
    and "actual = by_key (f \<circ> snd) tab"
  shows "in_step f expected
    (filter (\<lambda>(i, r). i \<notin> fst ` set (changed_rows expected actual @ unexpected_rows expected actual)) tab
     @ map (\<lambda>r. (new_id r, r)) (missing_rules expected actual))"
proof -
  let ?stale = "changed_rows expected actual @ unexpected_rows expected actual"
  let ?kept = "filter (\<lambda>(i, r). i \<notin> fst ` set ?stale) tab"
  let ?new = "missing_rules expected actual"
  have ids: "distinct (map fst tab)" and keys: "distinct (map (f \<circ> snd) tab)"
    using assms(1) by auto
  have dE: "distinct (map fst expected)" using assms(2) distinct_by_key by simp
  have kE: "k = f r" if "(k, r) \<in> set expected" for k r using by_key_mem [of k r f rules] that assms(2) by simp
  have act: "dget actual k = Some (i, r) \<longleftrightarrow> (i, r) \<in> set tab \<and> f r = k" for k i r
    unfolding assms(3) by (rule actual_rows [OF keys])
  have actual: "by_key (f \<circ> snd) tab = map (\<lambda>x. (f (snd x), x)) tab"
    using by_key_distinct [OF keys] by simp
  have stale: "(i, r) \<in> set ?stale \<longleftrightarrow> (i, r) \<in> set tab \<and> (f r, r) \<notin> set expected" for i r
  proof
    assume "(i, r) \<in> set ?stale"
    then consider k r' where "(k, r') \<in> set expected" "dget actual k = Some (i, r)" "r \<noteq> r'"
      | "(i, r) \<in> set tab" "dget expected (f r) = None"
      using actual assms(3) by (auto simp: changed_mem unexpected_mem)
    then show "(i, r) \<in> set tab \<and> (f r, r) \<notin> set expected"
    proof cases
      case 1
      then have "(i, r) \<in> set tab" "f r = k" using act by auto
      moreover have "(k, r) \<notin> set expected" using 1 dE by (metis dget_mem option.inject)
      ultimately show ?thesis by simp
    next
      case 2
      then show ?thesis by (force simp: dget_None)
    qed
  next
    assume r: "(i, r) \<in> set tab \<and> (f r, r) \<notin> set expected"
    show "(i, r) \<in> set ?stale"
    proof (cases "dget expected (f r)")
      case None
      then have "(i, r) \<in> set (unexpected_rows expected actual)"
        using r by (force simp: unexpected_mem assms(3) actual)
      then show ?thesis by simp
    next
      case (Some r')
      then have e: "(f r, r') \<in> set expected" using dE by (simp add: dget_mem)
      then have "r \<noteq> r'" using r by auto
      moreover have "dget actual (f r) = Some (i, r)" using act r by blast
      ultimately have "(i, r) \<in> set (changed_rows expected actual)"
        using e by (auto simp: changed_mem)
      then show ?thesis by simp
    qed
  qed
  have kept: "(i, r) \<in> set ?kept \<longleftrightarrow> (i, r) \<in> set tab \<and> (f r, r) \<in> set expected" for i r
  proof -
    have "(i, r) \<in> set ?stale" if tab: "(i, r) \<in> set tab" and st: "i \<in> fst ` set ?stale"
    proof -
      obtain a where a: "(i, a) \<in> set ?stale" using st by (auto simp del: set_append)
      then have "(i, a) \<in> set tab" using stale by blast
      then have "a = r" using eq_key_imp_eq_value [OF ids] tab by blast
      with a show ?thesis by blast
    qed
    moreover have "i \<in> fst ` set ?stale" if "(i, r) \<in> set ?stale"
      using imageI [OF that, of fst] by (simp only: fst_conv)
    ultimately show ?thesis using stale [of i r] unfolding set_filter mem_Collect_eq prod.case by blast
  qed
  have new: "r \<in> set ?new \<longleftrightarrow> (f r, r) \<in> set expected \<and> (\<forall>i. (i, r) \<notin> set tab)" for r
  proof -
    have "(case dget actual (f r) of None \<Rightarrow> True | Some (i, a) \<Rightarrow> a \<noteq> r) \<longleftrightarrow> (\<forall>i. (i, r) \<notin> set tab)"
    proof (cases "dget actual (f r)")
      case None
      then show ?thesis using act by (metis option.distinct(1) option.simps(4))
    next
      case (Some x)
      then obtain i a where x: "dget actual (f r) = Some (i, a)" by (cases x) auto
      then have "(\<exists>j. (j, r) \<in> set tab) \<longleftrightarrow> a = r" using act by (metis option.inject prod.inject)
      then show ?thesis using x by auto
    qed
    moreover have "r \<in> set ?new \<longleftrightarrow> (f r, r) \<in> set expected
        \<and> (case dget actual (f r) of None \<Rightarrow> True | Some (i, a) \<Rightarrow> a \<noteq> r)"
      unfolding missing_mem using kE by metis
    ultimately show ?thesis by (simp only:)
  qed
  have "snd ` set (?kept @ map (\<lambda>r. (new_id r, r)) ?new) = snd ` set expected"
  proof (intro set_eqI iffI)
    fix r assume "r \<in> snd ` set (?kept @ map (\<lambda>r. (new_id r, r)) ?new)"
    then have "(\<exists>i. (i, r) \<in> set ?kept) \<or> r \<in> set ?new" by force
    then have "(f r, r) \<in> set expected" using kept new by blast
    then show "r \<in> snd ` set expected" by force
  next
    fix r assume "r \<in> snd ` set expected"
    then have "(f r, r) \<in> set expected" using kE by force
    then have "(\<exists>i. (i, r) \<in> set ?kept) \<or> r \<in> set ?new" using kept new by blast
    then show "r \<in> snd ` set (?kept @ map (\<lambda>r. (new_id r, r)) ?new)" by force
  qed
  moreover have "distinct (map (f \<circ> snd) (?kept @ map (\<lambda>r. (new_id r, r)) ?new))"
  proof -
    have "distinct (map (f \<circ> snd) ?kept)" using keys by (rule distinct_map_filter)
    moreover have "distinct (map f ?new)"
    proof -
      have "map f ?new = map fst (filter (\<lambda>(k, r). case dget actual k of None \<Rightarrow> True
          | Some (i, a) \<Rightarrow> a \<noteq> r) expected)"
        using kE by (auto simp: missing_rules_def)
      then show ?thesis using dE by (simp add: distinct_map_filter)
    qed
    moreover have "f r \<noteq> f r'" if "(i, r) \<in> set ?kept" "r' \<in> set ?new" for i r r'
      using that kept new dE by (metis dget_mem option.inject)
    ultimately show ?thesis by (auto simp: o_def)
  qed
  ultimately show ?thesis by (simp only: in_step_def)
qed

lemma projected_backend_some:
  "projected_backend tab tenant subject resource action \<noteq> None \<longleftrightarrow>
     (\<exists>r \<in> snd ` set tab. allows tenant subject resource action r)"
proof -
  let ?rows = "filter (allows tenant subject resource action) (map snd tab)"
  have "projected_backend tab tenant subject resource action \<noteq> None \<longleftrightarrow>
      sort_key (\<lambda>r. - pr_policy_version r) ?rows \<noteq> []"
    unfolding projected_backend_def by (simp split: list.split)
  also have "\<dots> \<longleftrightarrow> ?rows \<noteq> []"
    by (metis set_empty set_sort)
  also have "\<dots> \<longleftrightarrow> (\<exists>r \<in> snd ` set tab. allows tenant subject resource action r)"
    unfolding filter_empty_conv by auto
  finally show ?thesis .
qed

end
