(* ===== verification/Permission_Cache.thy ===== *)
theory Permission_Cache
  imports Permission_Policies
begin

text \<open>
  The cache of allowing policies (\<open>DistributedPermissionCache\<close> in \<open>core/permissions/cache.py\<close>,
  \<open>CachedPolicyDecisionBackend\<close> in \<open>core/permissions/backends.py\<close>) over the memory cache. A cached
  policy carries the versions of everything, of its tenant and of its subject at the time it was
  written, and is served while they are the current ones. \<open>now i\<close> is the \<open>i\<close>-th reading of the
  clock in an operation; the JSON codec is a pair of arguments.
\<close>

section \<open>Keys\<close>

definition hex_upper :: "nat \<Rightarrow> char" where
  "hex_upper n = (if n < 10 then char_of (48 + n) else char_of (55 + n))"

definition unreserved :: "char \<Rightarrow> bool" where
  "unreserved c \<longleftrightarrow> (let n = of_char c :: nat in
     48 \<le> n \<and> n \<le> 57 \<or> 65 \<le> n \<and> n \<le> 90 \<or> 97 \<le> n \<and> n \<le> 122
       \<or> c \<in> {CHR ''_'', CHR ''.'', CHR ''-'', CHR ''~''})"

definition percent :: "nat \<Rightarrow> string" where
  "percent n = [CHR ''%'', hex_upper (n div 16), hex_upper (n mod 16)]"

text \<open>\<open>urllib.parse.quote(value, safe='')\<close>: each byte of the UTF-8 encoding that is not unreserved.\<close>

definition quote_char :: "char \<Rightarrow> string" where
  "quote_char c =
    (let n = of_char c :: nat in
     if unreserved c then [c]
     else if n < 128 then percent n
     else percent (192 + n div 64) @ percent (128 + n mod 64))"

definition quote :: "string \<Rightarrow> string" where
  "quote s = concat (map quote_char s)"

definition permission_part :: "string \<Rightarrow> string \<Rightarrow> string result" where
  "permission_part name value =
    (if blank value then Inl (app_error ''VALIDATION_ERROR''
       ''Permission cache key parts must be non-empty'' (Some 400) [])
     else Inr (name @ ''='' @ quote value))"

definition decision_key :: "string \<Rightarrow> string \<Rightarrow> string \<Rightarrow> string \<Rightarrow> string result" where
  "decision_key tenant subject resource action =
     rbind (permission_part ''tenant_id'' tenant) (\<lambda>t.
     rbind (permission_part ''subject'' subject) (\<lambda>u.
     rbind (permission_part ''resource'' resource) (\<lambda>r.
     rbind (permission_part ''action'' action) (\<lambda>a.
       cache_key ''permission'' [t, u, r, a, ''decision'']))))"

definition global_version_key :: "string result" where
  "global_version_key = cache_key ''permission'' [''policy_version'']"

definition tenant_version_key :: "string \<Rightarrow> string result" where
  "tenant_version_key tenant =
     rbind (permission_part ''tenant_id'' tenant) (\<lambda>t. cache_key ''permission'' [t, ''policy_version''])"

definition subject_version_key :: "string \<Rightarrow> string \<Rightarrow> string result" where
  "subject_version_key tenant subject =
     rbind (permission_part ''tenant_id'' tenant) (\<lambda>t.
     rbind (permission_part ''subject'' subject) (\<lambda>u.
       cache_key ''permission'' [t, u, ''policy_version'']))"

section \<open>Versions\<close>

type_synonym marker = "int \<times> int \<times> int"  \<comment> \<open>global, tenant, subject\<close>

definition cached_version :: "datetime \<Rightarrow> string \<Rightarrow> (memory_cache, int) state_op" where
  "cached_version c k =
     sbind (cache_get c k) (\<lambda>v.
       sret (if v = PNone then Inr 0
             else case as_int v of
               Some n \<Rightarrow> Inr n
             | None \<Rightarrow> Inl (app_error ''CONFLICT'' ''Permission cache version is not an integer''
                 (Some 409) [])))"

definition current_version :: "datetime \<Rightarrow> string \<Rightarrow> string \<Rightarrow> (memory_cache, int) state_op" where
  "current_version c tenant subject =
     sbind (sret (subject_version_key tenant subject)) (cached_version c)"

definition version_marker ::
  "(nat \<Rightarrow> datetime) \<Rightarrow> string \<Rightarrow> string \<Rightarrow> (memory_cache, marker) state_op" where
  "version_marker now tenant subject =
     sbind (sbind (sret global_version_key) (cached_version (now 0))) (\<lambda>g.
     sbind (sbind (sret (tenant_version_key tenant)) (cached_version (now 1))) (\<lambda>t.
     sbind (current_version (now 2) tenant subject) (\<lambda>u. sret (Inr (g, t, u)))))"

definition invalidation_key :: "string option \<Rightarrow> string option \<Rightarrow> string result" where
  "invalidation_key tenant subject =
    (case (tenant, subject) of
       (None, Some _) \<Rightarrow> Inl (app_error ''VALIDATION_ERROR''
         ''Permission subject cache invalidation requires tenant_id'' (Some 400) [])
     | (Some t, Some u) \<Rightarrow> subject_version_key t u
     | (Some t, None) \<Rightarrow> tenant_version_key t
     | (None, None) \<Rightarrow> global_version_key)"

definition permission_invalidate ::
  "(nat \<Rightarrow> datetime) \<Rightarrow> string option \<Rightarrow> string option \<Rightarrow> (memory_cache, int) state_op" where
  "permission_invalidate now tenant subject =
     sbind (sret (invalidation_key tenant subject)) (\<lambda>k. cache_incr (now 0) (now 1) k 1 None True)"

section \<open>Cached policies\<close>

fun num_eq :: "pyval \<Rightarrow> int \<Rightarrow> bool" where
  "num_eq (PInt m) n = (m = n)"
| "num_eq (PBool b) n = ((if b then 1 else 0) = n)"
| "num_eq (PFloat m e) n = (if 0 \<le> e then m * 2 ^ nat e = n else m = n * 2 ^ nat (- e))"
| "num_eq _ n = False"

text \<open>The stored version is the marker: a dictionary with its three keys and their numbers.\<close>

definition marker_eq :: "pyval option \<Rightarrow> marker \<Rightarrow> bool" where
  "marker_eq v m \<longleftrightarrow>
    (case m of (g, t, u) \<Rightarrow>
     case v of
       Some (PDict d) \<Rightarrow>
         length d = 3 \<and> list_all (\<lambda>(k, n). when_some (dget d k) (\<lambda>x. num_eq x n))
           [(''global'', g), (''tenant'', t), (''subject'', u)]
     | _ \<Rightarrow> False)"

definition marker_dict :: "marker \<Rightarrow> pyval" where
  "marker_dict m =
    (case m of (g, t, u) \<Rightarrow> PDict [(''global'', PInt g), (''tenant'', PInt t), (''subject'', PInt u)])"

definition match_to_dict :: "policy_match \<Rightarrow> pyval" where
  "match_to_dict m = PDict
    [(''tenant_id'', PStr (pm_tenant_id m)), (''subject'', PStr (pm_subject m)),
     (''resource'', PStr (pm_resource m)), (''action'', PStr (pm_action m)),
     (''effect'', PStr (pm_effect m)), (''role_grant_id'', PStr (pm_role_grant_id m)),
     (''policy_version'', PInt (pm_policy_version m)), (''reason'', PStr (pm_reason m))]"

definition match_from_dict :: "(string \<times> pyval) list \<Rightarrow> policy_match option" where
  "match_from_dict d =
    (let str = (\<lambda>k. Option.bind (dget d k) as_str) in
     Option.bind (str ''tenant_id'') (\<lambda>tenant.
     Option.bind (str ''subject'') (\<lambda>subject.
     Option.bind (str ''resource'') (\<lambda>resource.
     Option.bind (str ''action'') (\<lambda>action.
     Option.bind (str ''effect'') (\<lambda>effect.
     Option.bind (str ''role_grant_id'') (\<lambda>gid.
     Option.bind (str ''reason'') (\<lambda>reason.
     Option.bind (Option.bind (dget d ''policy_version'') as_int) (\<lambda>version.
       Some \<lparr>pm_tenant_id = tenant, pm_subject = subject, pm_resource = resource, pm_action = action,
         pm_role_grant_id = gid, pm_policy_version = version, pm_effect = effect,
         pm_reason = reason\<rparr>)))))))))"

definition get_allowing_match ::
  "(pyval \<Rightarrow> pyval result) \<Rightarrow> (nat \<Rightarrow> datetime) \<Rightarrow> string \<Rightarrow> string \<Rightarrow> string \<Rightarrow> string
    \<Rightarrow> (memory_cache, policy_match option) state_op" where
  "get_allowing_match loads now tenant subject resource action =
     sbind (sret (decision_key tenant subject resource action)) (\<lambda>k.
     sbind (cache_get_json loads (now 0) k) (\<lambda>cached.
       case cached of
         PDict d \<Rightarrow>
           sbind (version_marker (\<lambda>i. now (Suc i)) tenant subject) (\<lambda>m.
             sret (Inr (if \<not> marker_eq (dget d ''version'') m then None
               else case dget d ''match'' of Some (PDict md) \<Rightarrow> match_from_dict md | _ \<Rightarrow> None)))
       | _ \<Rightarrow> sret (Inr None)))"

definition match_entry :: "marker \<Rightarrow> policy_match \<Rightarrow> pyval" where
  "match_entry marker m = PDict [(''version'', marker_dict marker), (''match'', match_to_dict m)]"

definition set_allowing_match ::
  "(pyval \<Rightarrow> string) \<Rightarrow> (nat \<Rightarrow> datetime) \<Rightarrow> int \<Rightarrow> policy_match \<Rightarrow> (memory_cache, unit) state_op" where
  "set_allowing_match dumps now ttl m =
     sbind (version_marker now (pm_tenant_id m) (pm_subject m)) (\<lambda>marker.
     sbind (sret (decision_key (pm_tenant_id m) (pm_subject m) (pm_resource m) (pm_action m))) (\<lambda>k.
       cache_set_json dumps (now 3) k (match_entry marker m) (Some ttl) False))"

text \<open>The backend asks the cache, then the backend behind it, and caches what allows.\<close>

definition cached_backend ::
  "(pyval \<Rightarrow> pyval result) \<Rightarrow> (pyval \<Rightarrow> string) \<Rightarrow> (nat \<Rightarrow> datetime) \<Rightarrow> (nat \<Rightarrow> datetime) \<Rightarrow> int
    \<Rightarrow> 'b policy_backend \<Rightarrow> (memory_cache \<times> 'b) policy_backend" where
  "cached_backend loads dumps now now' ttl backend tenant subject resource action = (\<lambda>(s, b).
    (case get_allowing_match loads now tenant subject resource action s of
       (s, Inl e) \<Rightarrow> ((s, b), Inl e)
     | (s, Inr (Some m)) \<Rightarrow> ((s, b), Inr (Some m))
     | (s, Inr None) \<Rightarrow>
        (case backend tenant subject resource action b of
           (b, Inl e) \<Rightarrow> ((s, b), Inl e)
         | (b, Inr None) \<Rightarrow> ((s, b), Inr None)
         | (b, Inr (Some m)) \<Rightarrow>
             (case set_allowing_match dumps now' ttl m s of
                (s, Inl e) \<Rightarrow> ((s, b), Inl e)
              | (s, Inr _) \<Rightarrow> ((s, b), Inr (Some m))))))"

text \<open>The constructor checks the time to live, and a cache in the process just counts.\<close>

definition check_cache_ttl :: "int \<Rightarrow> int result" where
  "check_cache_ttl ttl =
    (if ttl \<le> 0 then Inl (app_error ''VALIDATION_ERROR''
       ''Permission cache TTL must be greater than zero'' (Some 400) [])
     else Inr ttl)"

definition local_invalidate :: "string option \<Rightarrow> string option \<Rightarrow> int \<Rightarrow> int" where
  "local_invalidate tenant subject version = version + 1"

section \<open>Runs of the cache\<close>

datatype cache_op =
    Get_Match string string string string
  | Set_Match policy_match
  | Invalidate "string option" "string option"

fun cache_step ::
  "(pyval \<Rightarrow> pyval result) \<Rightarrow> (pyval \<Rightarrow> string) \<Rightarrow> int \<Rightarrow> (nat \<Rightarrow> datetime) \<times> cache_op
    \<Rightarrow> memory_cache \<Rightarrow> memory_cache" where
  "cache_step loads dumps ttl (now, Get_Match t u r a) s = fst (get_allowing_match loads now t u r a s)"
| "cache_step loads dumps ttl (now, Set_Match m) s = fst (set_allowing_match dumps now ttl m s)"
| "cache_step loads dumps ttl (now, Invalidate t u) s = fst (permission_invalidate now t u s)"

text \<open>An invalidation covers a subject when it is of everything, of its tenant, or of it.\<close>

fun covers :: "string \<Rightarrow> string \<Rightarrow> cache_op \<Rightarrow> bool" where
  "covers t u (Invalidate t' u') \<longleftrightarrow>
     (t' = None \<and> u' = None) \<or> (t' = Some t \<and> (u' = None \<or> u' = Some u))"
| "covers t u _ \<longleftrightarrow> False"

fun writes_decision :: "string \<Rightarrow> cache_op \<Rightarrow> bool" where
  "writes_decision k (Set_Match m) \<longleftrightarrow>
     decision_key (pm_tenant_id m) (pm_subject m) (pm_resource m) (pm_action m) = Inr k"
| "writes_decision k _ \<longleftrightarrow> False"

section \<open>Lemmas\<close>

lemma global_version_key_eq: "global_version_key = Inr ''permission:policy_version''"
  by code_simp

text \<open>A version entry, as invalidations leave it: a permanent count.\<close>

definition version_key :: "string \<Rightarrow> bool" where
  "version_key k \<longleftrightarrow> (\<exists>ps. cache_key ''permission'' (ps @ [''policy_version'']) = Inr k)"

definition versions_ok :: "memory_cache \<Rightarrow> bool" where
  "versions_ok s \<longleftrightarrow> (\<forall>k e. version_key k \<longrightarrow> s k = Some e \<longrightarrow>
     ce_expires e = None \<and> (\<exists>n. ce_value e = PInt n))"

definition version_at :: "memory_cache \<Rightarrow> string \<Rightarrow> int" where
  "version_at s k = (case Option.bind (s k) (\<lambda>e. as_int (ce_value e)) of Some n \<Rightarrow> n | None \<Rightarrow> 0)"

lemma version_keys:
  "global_version_key = Inr k \<Longrightarrow> version_key k"
  "tenant_version_key t = Inr k \<Longrightarrow> version_key k"
  "subject_version_key t u = Inr k \<Longrightarrow> version_key k"
  unfolding version_key_def global_version_key_def tenant_version_key_def subject_version_key_def
    rbind_Inr_iff
  by (metis append_Nil append_Cons)+

lemma decision_not_version: "decision_key t u r a = Inr k \<Longrightarrow> \<not> version_key k"
proof
  assume "decision_key t u r a = Inr k" and "version_key k"
  then obtain ps qs where "cache_key ''permission'' (ps @ [''decision'']) = Inr k"
      "cache_key ''permission'' (qs @ [''policy_version'']) = Inr k"
    unfolding decision_key_def rbind_Inr_iff version_key_def by (metis append_Nil append_Cons)
  from cache_key_inj [OF this] show False by simp
qed

lemma version_key_not_blank: "version_key k \<Longrightarrow> \<not> blank k"
  unfolding version_key_def using cache_key_not_blank by blast

lemma cached_version_ok:
  assumes "versions_ok s" and "version_key k"
  shows "cached_version c k s = (s, Inr (version_at s k))"
proof (cases "s k")
  case None
  then show ?thesis using version_key_not_blank [OF assms(2)]
    by (simp add: cached_version_def sbind_def cache_get_def validate_cache_key_def version_at_def)
next
  case (Some e)
  obtain v x where e: "e = \<lparr>ce_value = v, ce_expires = x\<rparr>" by (cases e)
  have "x = None" and "\<exists>n. v = PInt n" using assms Some e unfolding versions_ok_def by fastforce+
  then show ?thesis using version_key_not_blank [OF assms(2)] Some e
    by (auto simp: cached_version_def sbind_def cache_get_def validate_cache_key_def version_at_def
        entry_expired_def)
qed

definition marker_at :: "memory_cache \<Rightarrow> string \<Rightarrow> string \<Rightarrow> marker result" where
  "marker_at s t u =
     rbind global_version_key (\<lambda>g. rbind (tenant_version_key t) (\<lambda>k. rbind (subject_version_key t u) (\<lambda>v.
       Inr (version_at s g, version_at s k, version_at s v))))"

lemma version_marker_ok:
  assumes "versions_ok s"
  shows "version_marker now t u s = (s, marker_at s t u)"
proof -
  have r: "sbind (sbind (sret kr) (cached_version c)) h s =
      (case kr of Inl e \<Rightarrow> (s, Inl e) | Inr k \<Rightarrow> h (version_at s k) s)"
    if "\<And>k. kr = Inr k \<Longrightarrow> version_key k" for kr c and h :: "int \<Rightarrow> (memory_cache, marker) state_op"
    using that cached_version_ok [OF assms] by (cases kr) (simp_all add: sbind_def)
  have g: "sbind (sbind (sret global_version_key) (cached_version c)) h s =
      (case global_version_key of Inl e \<Rightarrow> (s, Inl e) | Inr k \<Rightarrow> h (version_at s k) s)"
    for c and h :: "int \<Rightarrow> (memory_cache, marker) state_op"
    by (rule r) (rule version_keys(1))
  have t: "sbind (sbind (sret (tenant_version_key t)) (cached_version c)) h s =
      (case tenant_version_key t of Inl e \<Rightarrow> (s, Inl e) | Inr k \<Rightarrow> h (version_at s k) s)"
    for c and h :: "int \<Rightarrow> (memory_cache, marker) state_op"
    by (rule r) (rule version_keys(2))
  have u: "sbind (sbind (sret (subject_version_key t u)) (cached_version c)) h s =
      (case subject_version_key t u of Inl e \<Rightarrow> (s, Inl e) | Inr k \<Rightarrow> h (version_at s k) s)"
    for c and h :: "int \<Rightarrow> (memory_cache, marker) state_op"
    by (rule r) (rule version_keys(3))
  show ?thesis
    unfolding version_marker_def current_version_def marker_at_def g t u rbind_def
    unfolding global_version_key_eq by (auto split: sum.split)
qed

lemma cache_get_json_state:
  "fst (cache_get_json loads c k s) = s \<or> fst (cache_get_json loads c k s) = s(k := None)"
  by (auto simp: cache_get_json_def cache_get_def split: sum.splits option.splits prod.splits if_splits)

lemma versions_ok_upd: "versions_ok s \<Longrightarrow> \<not> version_key k \<Longrightarrow> versions_ok (s(k := x))"
  unfolding versions_ok_def by auto

lemma get_match_state:
  assumes "versions_ok s"
  shows "fst (get_allowing_match loads now t u r a s) = s \<or>
    (\<exists>k. decision_key t u r a = Inr k \<and> fst (get_allowing_match loads now t u r a s) = s(k := None))"
proof (cases "decision_key t u r a")
  case (Inr k)
  obtain s' cached where g: "cache_get_json loads (now 0) k s = (s', cached)"
    by (cases "cache_get_json loads (now 0) k s")
  have s': "s' = s \<or> s' = s(k := None)" using cache_get_json_state [of loads "now 0" k s] g by simp
  then have ok: "versions_ok s'"
    using assms versions_ok_upd decision_not_version [OF Inr] by blast
  have "fst (get_allowing_match loads now t u r a s) = s'"
    using version_marker_ok [OF ok]
    by (cases "marker_at s' t u"; cases cached)
      (auto simp: get_allowing_match_def Inr sbind_def g split: pyval.splits)
  with s' show ?thesis using Inr by blast
qed (simp add: get_allowing_match_def sbind_def)

lemma set_match_state:
  assumes "versions_ok s"
  shows "fst (set_allowing_match dumps now ttl m s) = s \<or>
    (\<exists>k e. decision_key (pm_tenant_id m) (pm_subject m) (pm_resource m) (pm_action m) = Inr k \<and>
       fst (set_allowing_match dumps now ttl m s) = s(k \<mapsto> e))"
  by (cases "marker_at s (pm_tenant_id m) (pm_subject m)";
      cases "decision_key (pm_tenant_id m) (pm_subject m) (pm_resource m) (pm_action m)")
    (auto simp: set_allowing_match_def sbind_def version_marker_ok [OF assms] cache_set_json_def
      cache_set_def split: sum.splits)

definition bump :: "string \<Rightarrow> memory_cache \<Rightarrow> memory_cache" where
  "bump k s = s(k \<mapsto> \<lparr>ce_value = PInt (version_at s k + 1), ce_expires = None\<rparr>)"

lemma incr_version:
  assumes "versions_ok s" and "version_key k"
  shows "cache_incr c1 c2 k 1 None True s = (bump k s, Inr (version_at s k + 1))"
proof (cases "s k")
  case None
  then show ?thesis using version_key_not_blank [OF assms(2)]
    by (simp add: cache_defs version_at_def bump_def)
next
  case (Some e)
  obtain v x where e: "e = \<lparr>ce_value = v, ce_expires = x\<rparr>" by (cases e)
  have "x = None" and "\<exists>n. v = PInt n" using assms Some e unfolding versions_ok_def by fastforce+
  then show ?thesis using version_key_not_blank [OF assms(2)] Some e
    by (auto simp: cache_defs version_at_def entry_expired_def bump_def)
qed

lemma versions_ok_bump: "versions_ok s \<Longrightarrow> versions_ok (bump k s)"
  by (auto simp: versions_ok_def bump_def)

lemma version_at_bump: "version_at (bump k s) k' = (if k' = k then version_at s k + 1 else version_at s k')"
  by (simp add: version_at_def bump_def)

lemma invalidation_key_version: "invalidation_key t u = Inr k \<Longrightarrow> version_key k"
  by (cases t; cases u) (auto simp: invalidation_key_def dest: version_keys)

lemma invalidate_state:
  assumes "versions_ok s"
  shows "permission_invalidate now t u s =
    (case invalidation_key t u of
       Inl e \<Rightarrow> (s, Inl e)
     | Inr k \<Rightarrow> (bump k s, Inr (version_at s k + 1)))"
proof (cases "invalidation_key t u")
  case (Inr k)
  show ?thesis
    using incr_version [OF assms invalidation_key_version [OF Inr]] Inr
    by (simp add: permission_invalidate_def sbind_def)
qed (simp add: permission_invalidate_def sbind_def)

text \<open>What a step may change: versions grow, and an entry that is not written stays or goes.\<close>

definition evolves :: "string \<Rightarrow> memory_cache \<Rightarrow> memory_cache \<Rightarrow> bool" where
  "evolves dk s s' \<longleftrightarrow> versions_ok s' \<and> (\<forall>k. version_key k \<longrightarrow> version_at s k \<le> version_at s' k)
     \<and> (s' dk = s dk \<or> s' dk = None)"

lemma evolves_trans: "evolves dk s s' \<Longrightarrow> evolves dk s' s'' \<Longrightarrow> evolves dk s s''"
  unfolding evolves_def by (metis order_trans)

lemma evolves_refl: "versions_ok s \<Longrightarrow> evolves dk s s"
  unfolding evolves_def by simp

lemma evolves_upd:
  assumes "versions_ok s" and "\<not> version_key k" and "k = dk \<longrightarrow> x = None"
  shows "evolves dk s (s(k := x))"
proof -
  have "version_at (s(k := x)) k' = version_at s k'" if "version_key k'" for k'
    using that assms(2) by (auto simp: version_at_def)
  then show ?thesis using versions_ok_upd [OF assms(1,2)] assms(3) unfolding evolves_def by auto
qed

lemma evolves_bump:
  assumes "versions_ok s" and "version_key k" and "\<not> version_key dk"
  shows "evolves dk s (bump k s)"
  using versions_ok_bump [OF assms(1)] assms
  unfolding evolves_def version_at_bump by (auto simp: bump_def)

lemma cache_step_evolves:
  assumes "versions_ok s" and "\<not> version_key dk" and "\<not> writes_decision dk (snd op)"
  shows "evolves dk s (cache_step loads dumps ttl op s)"
proof -
  obtain now o' where op: "op = (now, o')" by (cases op)
  show ?thesis
  proof (cases o')
    case (Get_Match t u r a)
    have "evolves dk s (s(k := None))" if "decision_key t u r a = Inr k" for k
      using evolves_upd [OF assms(1) decision_not_version [OF that]] by blast
    with get_match_state [OF assms(1), of loads now t u r a] evolves_refl [OF assms(1)]
    show ?thesis unfolding op Get_Match cache_step.simps by metis
  next
    case (Set_Match m)
    have "evolves dk s (s(k \<mapsto> e))"
      if "decision_key (pm_tenant_id m) (pm_subject m) (pm_resource m) (pm_action m) = Inr k" for k e
      using evolves_upd [OF assms(1) decision_not_version [OF that]] assms(3) that op Set_Match by auto
    with set_match_state [OF assms(1), of dumps now ttl m] evolves_refl [OF assms(1)]
    show ?thesis unfolding op Set_Match cache_step.simps by metis
  next
    case (Invalidate t u)
    show ?thesis
      using evolves_bump [OF assms(1) invalidation_key_version assms(2)] evolves_refl [OF assms(1)]
      unfolding op Invalidate cache_step.simps invalidate_state [OF assms(1)]
      by (cases "invalidation_key t u") simp_all
  qed
qed

lemma cache_steps_evolve:
  assumes "versions_ok s" and "\<not> version_key dk" and "\<forall>op \<in> set ops. \<not> writes_decision dk (snd op)"
  shows "evolves dk s (fold (cache_step loads dumps ttl) ops s)"
  using assms
proof (induction ops arbitrary: s)
  case (Cons op ops)
  have e: "evolves dk s (cache_step loads dumps ttl op s)"
    using cache_step_evolves Cons.prems by simp
  then have "versions_ok (cache_step loads dumps ttl op s)" by (simp add: evolves_def)
  with Cons.IH Cons.prems have "evolves dk (cache_step loads dumps ttl op s)
      (fold (cache_step loads dumps ttl) ops (cache_step loads dumps ttl op s))" by simp
  from evolves_trans [OF e this] show ?case by simp
qed (simp add: evolves_refl)

text \<open>The sum of a marker tells whether any of its versions has grown.\<close>

fun marker_sum :: "marker \<Rightarrow> int" where
  "marker_sum (g, t, u) = g + t + u"

lemma marker_grows:
  assumes "evolves dk s s'" and "marker_at s t u = Inr m" and "marker_at s' t u = Inr m'"
  shows "marker_sum m \<le> marker_sum m'"
proof -
  obtain g k v where keys: "global_version_key = Inr g" "tenant_version_key t = Inr k"
      "subject_version_key t u = Inr v"
    and m: "m = (version_at s g, version_at s k, version_at s v)"
    using assms(2) by (auto simp: marker_at_def rbind_Inr_iff)
  have "m' = (version_at s' g, version_at s' k, version_at s' v)"
    using assms(3) unfolding marker_at_def keys by simp
  moreover have "version_at s x \<le> version_at s' x" if "version_key x" for x
    using assms(1) that by (simp add: evolves_def)
  ultimately show ?thesis using m version_keys(1) [OF keys(1)] version_keys(2) [OF keys(2)]
      version_keys(3) [OF keys(3)] by (simp add: add_mono)
qed

lemma covering_invalidation:
  assumes "versions_ok s" and "covers t u (Invalidate t' u')"
    and "marker_at s t u = Inr m"
  shows "\<exists>m'. marker_at (fst (permission_invalidate now t' u' s)) t u = Inr m' \<and> marker_sum m < marker_sum m'"
proof -
  obtain g k v where keys: "global_version_key = Inr g" "tenant_version_key t = Inr k"
      "subject_version_key t u = Inr v"
    and m: "m = (version_at s g, version_at s k, version_at s v)"
    using assms(3) by (auto simp: marker_at_def rbind_Inr_iff)
  obtain x where x: "invalidation_key t' u' = Inr x" "x \<in> {g, k, v}"
    using assms(2) keys by (auto simp: invalidation_key_def)
  have "fst (permission_invalidate now t' u' s) = bump x s"
    by (simp add: invalidate_state [OF assms(1)] x(1))
  moreover have "marker_at (bump x s) t u =
      Inr (version_at (bump x s) g, version_at (bump x s) k, version_at (bump x s) v)"
    unfolding marker_at_def keys by simp
  ultimately show ?thesis using m x(2) by (auto simp: version_at_bump)
qed

lemma marker_at_total: "marker_at s t u = Inr m \<Longrightarrow> \<exists>m'. marker_at s' t u = Inr m'"
  by (auto simp: marker_at_def rbind_Inr_iff)

lemma covering_run:
  assumes "versions_ok s" and "\<not> version_key dk" and "\<forall>op \<in> set ops. \<not> writes_decision dk (snd op)"
    and "\<exists>op \<in> set ops. covers t u (snd op)" and "marker_at s t u = Inr m"
    and "marker_at (fold (cache_step loads dumps ttl) ops s) t u = Inr m'"
  shows "marker_sum m < marker_sum m'"
proof -
  let ?step = "cache_step loads dumps ttl"
  obtain xs now t' u' ys where ops: "ops = xs @ (now, Invalidate t' u') # ys" and c: "covers t u (Invalidate t' u')"
    using assms(4) by (auto dest!: split_list elim!: covers.elims)
  let ?s1 = "fold ?step xs s"
  let ?s2 = "fst (permission_invalidate now t' u' ?s1)"
  have e1: "evolves dk s ?s1" using cache_steps_evolve [OF assms(1,2), of xs] assms(3) ops by simp
  then have ok1: "versions_ok ?s1" by (simp add: evolves_def)
  obtain m1 where m1: "marker_at ?s1 t u = Inr m1" using marker_at_total [OF assms(5)] by blast
  obtain m2 where m2: "marker_at ?s2 t u = Inr m2" "marker_sum m1 < marker_sum m2"
    using covering_invalidation [OF ok1 c m1] by blast
  have "evolves dk ?s1 ?s2"
    using cache_step_evolves [OF ok1 assms(2), of "(now, Invalidate t' u')" loads dumps ttl] by simp
  then have ok2: "versions_ok ?s2" by (simp add: evolves_def)
  have "evolves dk ?s2 (fold ?step ys ?s2)"
    using cache_steps_evolve [OF ok2 assms(2), of ys] assms(3) ops by simp
  moreover have "fold ?step ops s = fold ?step ys ?s2" by (simp add: ops)
  ultimately have "marker_sum m2 \<le> marker_sum m'" using marker_grows m2(1) assms(6) by metis
  with marker_grows [OF e1 assms(5) m1] m2(2) show ?thesis by simp
qed

text \<open>What is written for a match, and what is read back.\<close>

lemma match_round_trip: "match_to_dict m = PDict d \<Longrightarrow> match_from_dict d = Some m"
  by (auto simp: match_to_dict_def match_from_dict_def dget_def)

lemma marker_eq_dict: "marker_eq (Some (marker_dict m)) m' \<longleftrightarrow> m = m'"
  by (cases m; cases m') (simp add: marker_eq_def marker_dict_def dget_def)

definition stored_match :: "(pyval \<Rightarrow> string) \<Rightarrow> (nat \<Rightarrow> datetime) \<Rightarrow> int \<Rightarrow> marker \<Rightarrow> policy_match \<Rightarrow> cache_entry" where
  "stored_match dumps now ttl marker m =
     \<lparr>ce_value = PStr (dumps (match_entry marker m)), ce_expires = Some (to_utc (now 3) + secs ttl)\<rparr>"

lemma decision_key_not_blank: "decision_key t u r a = Inr k \<Longrightarrow> \<not> blank k"
  by (auto simp: decision_key_def rbind_Inr_iff dest: cache_key_not_blank)

lemma set_match:
  assumes "versions_ok s" and "marker_at s (pm_tenant_id m) (pm_subject m) = Inr marker" and "0 < ttl"
    and "decision_key (pm_tenant_id m) (pm_subject m) (pm_resource m) (pm_action m) = Inr k"
  shows "set_allowing_match dumps now ttl m s = (s(k \<mapsto> stored_match dumps now ttl marker m), Inr ())"
  using assms(3) decision_key_not_blank [OF assms(4)]
  by (simp add: set_allowing_match_def sbind_def version_marker_ok [OF assms(1)] assms(2,4)
      cache_set_json_def cache_defs stored_match_def)

lemma get_match:
  assumes "versions_ok s" and "marker_at s t u = Inr marker'"
    and "decision_key t u r a = Inr k" and "s k = Some (stored_match dumps now ttl marker m)"
    and "loads (PStr (dumps (match_entry marker m))) = Inr (match_entry marker m)"
  shows "snd (get_allowing_match loads now' t u r a s) = Inr
    (if marker = marker' \<and> to_utc (now' 0) < to_utc (now 3) + secs ttl then Some m else None)"
proof -
  obtain d where d: "match_to_dict m = PDict d" by (simp add: match_to_dict_def)
  have read: "cache_get_json loads (now' 0) k s =
      (if to_utc (now' 0) < to_utc (now 3) + secs ttl then (s, Inr (match_entry marker m))
       else (s(k := None), Inr PNone))"
    using assms(4,5) decision_key_not_blank [OF assms(3)]
    by (simp add: cache_get_json_def cache_defs stored_match_def entry_expired_def)
  show ?thesis
    using match_round_trip [OF d]
    by (simp add: marker_eq_dict get_allowing_match_def sbind_def assms(3) read version_marker_ok [OF assms(1)] assms(2)
        match_entry_def d dget_def)
qed

text \<open>An entry that is missing or was stored under another marker is not served.\<close>

lemma get_match_none:
  assumes "decision_key t u r a = Inr k" and "s k = None"
  shows "snd (get_allowing_match loads now t u r a s) = Inr None"
  using assms decision_key_not_blank [OF assms(1)]
  by (simp add: get_allowing_match_def sbind_def cache_get_json_def cache_defs)

lemma marker_at_upd: "\<not> version_key k \<Longrightarrow> marker_at (s(k := x)) t u = marker_at s t u"
proof -
  assume k: "\<not> version_key k"
  have v: "version_at (s(k := x)) k' = version_at s k'" if "version_key k'" for k'
    using that k by (auto simp: version_at_def)
  have bind: "rbind r f = rbind r g" if "\<And>v. r = Inr v \<Longrightarrow> f v = g v"
    for r :: "string result" and f g :: "string \<Rightarrow> marker result"
    using that by (cases r) simp_all
  show ?thesis
    unfolding marker_at_def
    using v [OF version_keys(1)] v [OF version_keys(2)] v [OF version_keys(3)] by (intro bind) simp
qed

lemma projected_backend_fields:
  assumes "projected_backend tab tenant subject resource action = Some m"
  shows "pm_tenant_id m = tenant \<and> pm_subject m = subject \<and> pm_resource m = resource \<and> pm_action m = action"
proof -
  let ?rows = "filter (allows tenant subject resource action) (map snd tab)"
  obtain r rs where r: "sort_key (\<lambda>r. - pr_policy_version r) ?rows = r # rs"
    and m: "m = match_of r ''matched_projected_policy''"
    using assms by (auto simp: projected_backend_def split: list.splits)
  have "r \<in> set ?rows" using r by (metis list.set_intros(1) set_sort)
  then show ?thesis using m by (auto simp: allows_def match_of_def)
qed

end
