(* ===== verification/Permission_Properties.thy ===== *)
theory Permission_Properties
  imports Permission_Cache
begin

text \<open>The properties of authorization: what a decision opens, the projected policies, the cache.\<close>

text \<open>An authorization that the service requires is exactly what a guarded mutation accepts:
  when \<open>require\<close> returns, the backend has an allowing policy for that user, tenant, resource and
  action, the decision passes \<open>assert_authorization_decision\<close> for every set of actions with that
  action, and it passes for no other user, resource or tenant and for no set without the action.
  The platform's decisions pass for a tenant only where the mutation admits them.\<close>

theorem required_decision_opens_its_action:
  assumes "require_authorization backend k user tenant resource action resource_id req s = (s', eff, Inr d)"
    and "actions \<noteq> []"
  shows "(\<exists>p. backend tenant (''user:'' @ user) resource action s = (s', Inr (Some p)) \<and>
      de_policy_version d = Some (pm_policy_version p)) \<and> eff = [] \<and>
    (assert_authorization_decision (Some d) tenant' user' resource' actions operation admit = Inr () \<longleftrightarrow>
       user' = user \<and> resource' = resource \<and> action \<in> set actions \<and>
       (tenant' = tenant \<or> admit \<and> tenant = platform_tenant_id))"
proof -
  have "de_allowed d" and auth: "authorize backend k user tenant resource action resource_id req s = (s', eff, Inr d)"
    using assms(1) by (auto simp: require_authorization_def split: prod.splits sum.splits if_splits)
  then obtain p where p: "backend tenant (''user:'' @ user) resource action s = (s', Inr (Some p))"
    and d: "eff = []" "d = \<lparr>de_allowed = True, de_tenant_id = tenant, de_user_id = user,
       de_resource = resource, de_action = action, de_reason = pm_reason p,
       de_policy_version = Some (pm_policy_version p)\<rparr>"
    by (auto simp: authorize_def Let_def split: prod.splits sum.splits option.splits)
  then show ?thesis unfolding assert_authorization_ok by auto
qed

definition example_match :: policy_match where
  "example_match = \<lparr>pm_tenant_id = ''t1'', pm_subject = ''user:u1'', pm_resource = ''invoice'',
    pm_action = ''read'', pm_role_grant_id = ''g1'', pm_policy_version = 3, pm_effect = ''allow'',
    pm_reason = ''matched_projected_policy''\<rparr>"

theorem required_decision_opens_its_action_witness:
  "assert_authorization_decision (Some \<lparr>de_allowed = True, de_tenant_id = ''t1'', de_user_id = ''u1'',
     de_resource = ''invoice'', de_action = ''read'', de_reason = ''matched_projected_policy'',
     de_policy_version = Some 3\<rparr>) ''t1'' ''u1'' ''invoice'' [''read'', ''list''] ''Export'' False = Inr ()"
proof -
  let ?d = "\<lparr>de_allowed = True, de_tenant_id = ''t1'', de_user_id = ''u1'',
     de_resource = ''invoice'', de_action = ''read'', de_reason = ''matched_projected_policy'',
     de_policy_version = Some 3\<rparr>"
  have "require_authorization (\<lambda>_ _ _ _ s. (s, Inr (Some example_match))) \<lparr>has_metrics = True, has_audit = True\<rparr>
      ''u1'' ''t1'' ''invoice'' ''read'' None None () = ((), [], Inr ?d)"
    by (simp add: require_authorization_def authorize_def validate_authorization_input_def example_match_def
        is_space_def)
  from required_decision_opens_its_action [OF this, of "[''read'', ''list'']" "''t1''" "''u1''" "''invoice''"
      "''Export''" False]
  show ?thesis by simp
qed

text \<open>The backend that queries the projected policies and the Casbin-style backend over the same
  rules, in storage order, give the same answer to every question, the same grant and version of the
  policy included, and differ only in the reason they report.\<close>

theorem policy_backends_agree:
  "map_option (\<lambda>m. m\<lparr>pm_reason := x\<rparr>) (projected_backend tab tenant subject resource action) =
   map_option (\<lambda>m. m\<lparr>pm_reason := x\<rparr>) (casbin_backend (map snd tab) tenant subject resource action)"
  by (simp add: projected_backend_def casbin_backend_def first_max_filter_sort match_of_def
      split: list.split)

text \<open>C33: A repairing reconciliation that returns leaves the table of projected policies with exactly
  the rules the grants and their templates give: it reports that nothing is missing or stale, a
  reconciliation run right after it finds the table in step and changes nothing, and the projected
  backend then allows what some expected rule allows and nothing else.\<close>

theorem reconciliation_repairs:
  assumes "policy_table_ok tab"
    and "reconcile og new_id templates grants True tab = (tab', cleared, Inr report)"
    and "expected_rules og templates grants = Inr rules"
  shows "reconciliation_ok report \<and>
    reconcile og new_id' templates grants False tab' =
      (tab', [], Inr \<lparr>rc_repaired = False, rc_missing = [], rc_stale = []\<rparr>) \<and>
    snd ` set tab' = snd ` set (by_key rule_key rules) \<and>
    (projected_backend tab' tenant subject resource action \<noteq> None \<longleftrightarrow>
       (\<exists>r \<in> snd ` set (by_key rule_key rules). allows tenant subject resource action r))"
proof -
  let ?E = "by_key rule_key rules"
  let ?A = "by_key (rule_key \<circ> snd) tab"
  have ok: "distinct (map fst tab) \<and> distinct (map (rule_key \<circ> snd) tab)"
    using assms(1) by (simp add: policy_table_ok_def)
  have repaired: "in_step rule_key ?E
    (filter (\<lambda>(i, r). i \<notin> fst ` set (changed_rows ?E ?A @ unexpected_rows ?E ?A)) tab
     @ map (\<lambda>r. (new_id r, r)) (missing_rules ?E ?A))"
    by (rule repair_in_step [OF ok refl refl])
  have quiet: "filter (\<lambda>(i, r). i \<notin> fst ` set ([] @ [])) tab @ map (\<lambda>r. (new_id r, r)) [] = tab"
    by simp
  have "in_step rule_key ?E tab' \<and> reconciliation_ok report"
  proof (cases "missing_rules ?E ?A \<noteq> [] \<or> changed_rows ?E ?A @ unexpected_rows ?E ?A \<noteq> []")
    case True
    then show ?thesis using assms(2) repaired unfolding reconcile_def assms(3) Let_def
      by (auto simp: reconciliation_ok_def)
  next
    case False
    then have nil: "missing_rules ?E ?A = []" "changed_rows ?E ?A = []" "unexpected_rows ?E ?A = []"
      by simp_all
    then have "tab' = tab" and "reconciliation_ok report"
      using assms(2) unfolding reconcile_def assms(3) Let_def by (auto simp: reconciliation_ok_def)
    with repaired show ?thesis unfolding nil quiet by simp
  qed
  then have step: "in_step rule_key ?E tab'" and rep: "reconciliation_ok report" by auto
  have rows: "snd ` set tab' = snd ` set ?E" using step by (simp add: in_step_def)
  have "reconcile og new_id' templates grants False tab' =
      (tab', [], Inr \<lparr>rc_repaired = False, rc_missing = [], rc_stale = []\<rparr>)"
    using in_step_reconciled [OF step] unfolding reconcile_def assms(3) Let_def by simp
  moreover have "projected_backend tab' tenant subject resource action \<noteq> None \<longleftrightarrow>
      (\<exists>r \<in> snd ` set ?E. allows tenant subject resource action r)"
    unfolding projected_backend_some rows [symmetric] by blast
  ultimately show ?thesis using rep rows by blast
qed

definition example_rule :: "int \<Rightarrow> policy_rule" where
  "example_rule version = \<lparr>pr_tenant_id = ''t1'', pr_subject = ''user:u1'', pr_resource = ''invoice'',
    pr_action = ''read'', pr_role_grant_id = ''g1'', pr_policy_version = version, pr_effect = ''allow''\<rparr>"

definition example_grant :: role_grant where
  "example_grant = \<lparr>gr_id = ''g1'', gr_tenant_id = ''t1'', gr_subject_type = ''user'',
    gr_subject_id = ''u1'', gr_role_template_id = ''r1'', gr_policy_version = 3\<rparr>"

definition example_template :: role_template where
  "example_template = \<lparr>rt_id = ''r1'', rt_scope = ''tenant'',
    rt_permissions = [[(''resource'', ''invoice''), (''action'', ''read'')]]\<rparr>"

theorem reconciliation_repairs_witness:
  "snd ` set [(''n1'', example_rule 3)] = snd ` set (by_key rule_key [example_rule 3])"
proof -
  have ok: "policy_table_ok [(''p1'', example_rule 2)]" by (simp add: policy_table_ok_def)
  have rules: "expected_rules None [''r1'' \<mapsto> example_template] [example_grant] = Inr [example_rule 3]"
    by (simp add: example_grant_def example_template_def example_rule_def rules_for_grant_def
        validate_role_template_permissions_def rule_for_def required_key_def dget_def subject_for_grant_def)
  have same: "rule_key (example_rule 2) = rule_key (example_rule 3)"
    by (simp add: rule_key_def example_rule_def)
  have "example_rule 2 \<noteq> example_rule 3" by (simp add: example_rule_def)
  then have rec: "reconcile None (\<lambda>_. ''n1'') [''r1'' \<mapsto> example_template] [example_grant] True
      [(''p1'', example_rule 2)] =
      ([(''n1'', example_rule 3)], invalidate_subjects [(''t1'', ''user:u1''), (''t1'', ''user:u1'')],
       Inr \<lparr>rc_repaired = True, rc_missing = [], rc_stale = []\<rparr>)"
    unfolding reconcile_def rules sum.case Let_def
    by (simp add: by_key_def missing_rules_def changed_rows_def unexpected_rows_def dget_def same)
      (simp add: example_rule_def)
  show ?thesis using reconciliation_repairs [OF ok rec rules, of "\<lambda>_. ''n2''" "''t1''" "''user:u1''" "''invoice''" "''read''"]
    by blast
qed

text \<open>C15: Invalidation reaches the cached grants: once a policy has been cached for a subject and an
  invalidation of everything, of the tenant or of the subject has followed, the cached policy is not
  served again, whatever reads, other writes and invalidations of the permission cache come between,
  at any time, unless the same decision is written anew.\<close>

theorem invalidated_grant_is_dropped:
  assumes "versions_ok s" and "0 < ttl"
    and "marker_at s (pm_tenant_id m) (pm_subject m) = Inr marker"
    and "decision_key (pm_tenant_id m) (pm_subject m) (pm_resource m) (pm_action m) = Inr k"
    and "loads (PStr (dumps (match_entry marker m))) = Inr (match_entry marker m)"
    and "\<forall>op \<in> set ops. \<not> writes_decision k (snd op)"
    and "\<exists>op \<in> set ops. covers (pm_tenant_id m) (pm_subject m) (snd op)"
  shows "snd (get_allowing_match loads now' (pm_tenant_id m) (pm_subject m) (pm_resource m) (pm_action m)
      (fold (cache_step loads dumps ttl) ops (fst (set_allowing_match dumps now ttl m s)))) = Inr None"
proof -
  let ?t = "pm_tenant_id m" and ?u = "pm_subject m"
  let ?e = "stored_match dumps now ttl marker m"
  have nk: "\<not> version_key k" by (rule decision_not_version [OF assms(4)])
  have set: "fst (set_allowing_match dumps now ttl m s) = s(k \<mapsto> ?e)"
    using set_match [OF assms(1,3,2,4)] by simp
  have ok: "versions_ok (s(k \<mapsto> ?e))" by (rule versions_ok_upd [OF assms(1) nk])
  let ?s' = "fold (cache_step loads dumps ttl) ops (s(k \<mapsto> ?e))"
  have ev: "evolves k (s(k \<mapsto> ?e)) ?s'" by (rule cache_steps_evolve [OF ok nk assms(6)])
  have marker: "marker_at (s(k \<mapsto> ?e)) ?t ?u = Inr marker" using marker_at_upd [OF nk] assms(3) by simp
  obtain marker' where m': "marker_at ?s' ?t ?u = Inr marker'" using marker_at_total [OF marker] by blast
  have newer: "marker \<noteq> marker'" using covering_run [OF ok nk assms(6,7) marker m'] by auto
  have ok': "versions_ok ?s'" and kept: "?s' k = Some ?e \<or> ?s' k = None" using ev by (auto simp: evolves_def)
  show ?thesis
  proof (cases "?s' k")
    case None
    show ?thesis unfolding set by (rule get_match_none [where s = "?s'", OF assms(4) None])
  next
    case (Some e)
    then have "?s' k = Some ?e" using kept by simp
    from get_match [where loads = loads and dumps = dumps and s = "?s'" and now' = now',
        OF ok' m' assms(4) this assms(5)] newer show ?thesis unfolding set by simp
  qed
qed

definition at :: "int \<Rightarrow> nat \<Rightarrow> datetime" where
  "at t i = Naive (secs t)"

definition example_loads :: "pyval \<Rightarrow> pyval result" where
  "example_loads v = Inr (match_entry (if v = PStr ''v0'' then (0, 0, 0) else (0, 0, 1)) example_match)"

definition example_dumps :: "pyval \<Rightarrow> string" where
  "example_dumps v = (if v = match_entry (0, 0, 0) example_match then ''v0'' else ''v1'')"

definition example_key :: string where
  "example_key = ''permission:tenant_id=t1:subject=user%3Au1:resource=invoice:action=read:decision''"

lemma example_decision_key: "decision_key ''t1'' ''user:u1'' ''invoice'' ''read'' = Inr example_key"
  by code_simp

lemma example_marker: "marker_at Map.empty ''t1'' ''user:u1'' = Inr (0, 0, 0)"
  by code_simp

lemma example_marker_bumped:
  "marker_at (fst (permission_invalidate (at 6) (Some ''t1'') (Some ''user:u1'') Map.empty)) ''t1'' ''user:u1''
     = Inr (0, 0, 1)"
  by code_simp

lemma example_round_trip:
  "example_loads (PStr (example_dumps (match_entry (0, 0, 0) example_match))) = Inr (match_entry (0, 0, 0) example_match)"
  "example_loads (PStr (example_dumps (match_entry (0, 0, 1) example_match))) = Inr (match_entry (0, 0, 1) example_match)"
  by (simp_all add: example_loads_def example_dumps_def match_entry_def marker_dict_def)

lemma versions_ok_empty: "versions_ok Map.empty"
  by (simp add: versions_ok_def)

theorem invalidated_grant_is_dropped_witness:
  "snd (get_allowing_match example_loads (at 7) ''t1'' ''user:u1'' ''invoice'' ''read''
     (fold (cache_step example_loads example_dumps 60)
       [(at 6, Get_Match ''t1'' ''user:u1'' ''invoice'' ''read''), (at 6, Invalidate (Some ''t1'') None)]
       (fst (set_allowing_match example_dumps (at 5) 60 example_match Map.empty)))) = Inr None"
  using invalidated_grant_is_dropped [where s = Map.empty and ttl = 60 and m = example_match
      and loads = example_loads and dumps = example_dumps and marker = "(0, 0, 0)" and k = example_key
      and now = "at 5" and now' = "at 7" and ops = "[(at 6, Get_Match ''t1'' ''user:u1'' ''invoice'' ''read''),
        (at 6, Invalidate (Some ''t1'') None)]",
      OF versions_ok_empty _ _ _ example_round_trip(1)]
  by (simp add: example_match_def example_marker example_decision_key)

text \<open>A policy revoked while a decision was being looked up stays in the cache. The lookup of
  \<open>CachedPolicyDecisionBackend\<close> finds the policy in the table, then the grant is revoked, the projected
  rows go and the subject is invalidated, and only then does the lookup write what it found, under the
  versions of after the invalidation: until the entry's time to live has passed, a new lookup answers
  with the revoked policy, although the backend behind the cache no longer allows it.\<close>

theorem revoked_grant_cached_after_lookup:
  assumes "versions_ok s" and "0 < ttl"
    and "projected_backend tab tenant subject resource action = Some m"
    and "projected_backend tab' tenant subject resource action = None"
    and "after = fst (permission_invalidate now (Some tenant) (Some subject) s)"
    and "marker_at after tenant subject = Inr marker"
    and "decision_key tenant subject resource action = Inr k"
    and "loads (PStr (dumps (match_entry marker m))) = Inr (match_entry marker m)"
    and "to_utc (later 0) < to_utc (written 3) + secs ttl"
  shows "snd (cached_backend loads dumps later later' ttl
      (\<lambda>t u r a b. (b, Inr (projected_backend b t u r a))) tenant subject resource action
      (fst (set_allowing_match dumps written ttl m after), tab')) = Inr (Some m)"
proof -
  have mk: "pm_tenant_id m = tenant" "pm_subject m = subject" "pm_resource m = resource" "pm_action m = action"
    using projected_backend_fields [OF assms(3)] by auto
  have ok: "versions_ok after"
    unfolding assms(5) using invalidate_state [OF assms(1), of now "Some tenant" "Some subject"] versions_ok_bump [OF assms(1)] assms(1)
    by (simp split: sum.split)
  have nk: "\<not> version_key k" by (rule decision_not_version [OF assms(7)])
  let ?s = "after(k \<mapsto> stored_match dumps written ttl marker m)"
  have set: "fst (set_allowing_match dumps written ttl m after) = ?s"
    using set_match [OF ok _ assms(2), of m marker k] mk assms(6,7) by simp
  have ok': "versions_ok ?s" by (rule versions_ok_upd [OF ok nk])
  have marker: "marker_at ?s tenant subject = Inr marker" using marker_at_upd [OF nk] assms(6) by simp
  have "snd (get_allowing_match loads later tenant subject resource action ?s) = Inr (Some m)"
    using get_match [where s = "?s" and m = m and now = written and ttl = ttl and loads = loads
        and dumps = dumps and now' = later, OF ok' marker assms(7) _ assms(8)] assms(9) by simp
  then show ?thesis unfolding set cached_backend_def by (auto split: prod.splits)
qed

theorem revoked_grant_cached_after_lookup_witness:
  "snd (cached_backend example_loads example_dumps (at 9) (at 9) 60
      (\<lambda>t u r a b. (b, Inr (projected_backend b t u r a))) ''t1'' ''user:u1'' ''invoice'' ''read''
      (fst (set_allowing_match example_dumps (at 8) 60 example_match
        (fst (permission_invalidate (at 6) (Some ''t1'') (Some ''user:u1'') Map.empty))), []))
    = Inr (Some example_match)"
proof -
  have found: "projected_backend [(''p1'', example_rule 3)] ''t1'' ''user:u1'' ''invoice'' ''read'' = Some example_match"
    by code_simp
  have gone: "projected_backend [] ''t1'' ''user:u1'' ''invoice'' ''read'' = None"
    by (simp add: projected_backend_def)
  show ?thesis
    by (rule revoked_grant_cached_after_lookup [where loads = example_loads and dumps = example_dumps
          and m = example_match and marker = "(0, 0, 1)", OF versions_ok_empty _ found gone refl example_marker_bumped
          example_decision_key example_round_trip(2)]) (simp_all add: at_def secs_def)
qed

end
