(* ===== verification/Tenant_Lifecycle.thy ===== *)
theory Tenant_Lifecycle
  imports Outbox Permission_Decisions
begin

text \<open>
  Tenancy (\<open>core/tenancy\<close>): the statuses of a tenant, what each lets it do and how they follow one
  another (\<open>lifecycle.py\<close>), the service that moves a tenant through them and the orchestrator that
  deletes it in steps that can be resumed (\<open>services.py\<close>), the events they publish (\<open>events.py\<close>).

  The event publisher, the audit recorder, the task repository and the hooks are arguments: each
  works on the rest of the world and may raise. A change of the tenant's row or of a step record
  stays in the session when a later call raises, as in the code.
\<close>

section \<open>Statuses and operations\<close>

datatype tenant_status = Provisioning | Active | Suspended | Deleting | Archived | Deleted

datatype tenant_operation =
  Login | Read | Write | Task_Execution | File_Download | Background_Cleanup | Admin

fun tenant_status_name :: "tenant_status \<Rightarrow> string" where
  "tenant_status_name Provisioning = ''provisioning''"
| "tenant_status_name Active = ''active''"
| "tenant_status_name Suspended = ''suspended''"
| "tenant_status_name Deleting = ''deleting''"
| "tenant_status_name Archived = ''archived''"
| "tenant_status_name Deleted = ''deleted''"

fun tenant_operation_name :: "tenant_operation \<Rightarrow> string" where
  "tenant_operation_name Login = ''login''"
| "tenant_operation_name Read = ''read''"
| "tenant_operation_name Write = ''write''"
| "tenant_operation_name Task_Execution = ''task''"
| "tenant_operation_name File_Download = ''file_download''"
| "tenant_operation_name Background_Cleanup = ''background_cleanup''"
| "tenant_operation_name Admin = ''admin''"

record lifecycle_policy =
  allow_suspended_file_download :: bool
  allow_archived_read :: bool
  allow_archived_file_download :: bool

definition default_policy :: lifecycle_policy where
  "default_policy = \<lparr>allow_suspended_file_download = False, allow_archived_read = False,
     allow_archived_file_download = False\<rparr>"

fun allowed_transitions :: "tenant_status \<Rightarrow> tenant_status set" where
  "allowed_transitions Provisioning = {Active, Deleted}"
| "allowed_transitions Active = {Suspended, Deleting}"
| "allowed_transitions Suspended = {Active, Deleting}"
| "allowed_transitions Deleting = {Archived, Deleted}"
| "allowed_transitions Archived = {Deleted}"
| "allowed_transitions Deleted = {}"

definition is_tenant_operation_allowed ::
  "tenant_status \<Rightarrow> tenant_operation \<Rightarrow> lifecycle_policy option \<Rightarrow> bool" where
  "is_tenant_operation_allowed status oper policy =
    (let p = (case policy of None \<Rightarrow> default_policy | Some p \<Rightarrow> p) in
     if oper = Admin then True
     else if status = Active then True
     else if status = Suspended then
       (if oper \<in> {Login, Read} then True
        else if oper = File_Download then allow_suspended_file_download p
        else False)
     else if status = Deleting then oper = Background_Cleanup
     else if status = Archived then
       (if oper = Read then allow_archived_read p
        else if oper = File_Download then allow_archived_file_download p
        else False)
     else False)"

definition assert_tenant_operation_allowed ::
  "string \<Rightarrow> tenant_status \<Rightarrow> tenant_operation \<Rightarrow> lifecycle_policy option \<Rightarrow> unit result" where
  "assert_tenant_operation_allowed tenant_id status oper policy =
    (if is_tenant_operation_allowed status oper policy then Inr ()
     else Inl (app_error ''TENANT_STATE_FORBIDDEN'' ''Tenant state does not allow this operation'' (Some 403)
       [(''tenant_id'', PStr tenant_id), (''status'', PStr (tenant_status_name status)),
        (''operation'', PStr (tenant_operation_name oper))]))"

definition validate_tenant_transition :: "tenant_status \<Rightarrow> tenant_status \<Rightarrow> unit result" where
  "validate_tenant_transition current target =
    (if target \<in> allowed_transitions current then Inr ()
     else Inl (app_error ''TENANT_STATE_FORBIDDEN''
       (''Invalid tenant lifecycle transition: '' @ tenant_status_name current @ '' -> ''
          @ tenant_status_name target) (Some 409)
       [(''current'', PStr (tenant_status_name current)), (''target'', PStr (tenant_status_name target))]))"

section \<open>The service\<close>

record tenant =
  tn_id :: string
  tn_name :: string
  tn_code :: string
  tn_status :: tenant_status
  tn_deployment_mode :: string

record tenant_member =
  tm_tenant_id :: string
  tm_user_id :: string
  tm_status :: string

text \<open>What the services call: the publisher takes type, aggregate type and id, tenant and payload.\<close>

record 'w tenant_env =
  te_publish :: "string \<Rightarrow> string \<Rightarrow> string \<Rightarrow> string \<Rightarrow> (string \<times> pyval) list \<Rightarrow> ('w, unit) state_op"
  te_audit :: "(audit_event \<Rightarrow> ('w, unit) state_op) option"
  te_revoke_sessions :: "(string \<Rightarrow> string \<Rightarrow> ('w, unit) state_op) option"

record caller =
  ca_actor_id :: string
  ca_request_id :: string
  ca_reason :: string
  ca_decision :: "decision option"

definition assert_tenant_mutation_authorized :: "decision option \<Rightarrow> string \<Rightarrow> string \<Rightarrow> unit result" where
  "assert_tenant_mutation_authorized od actor_id mutation =
     assert_authorization_decision od platform_tenant_id actor_id ''tenant'' [''manage'', mutation]
       ''Tenant lifecycle mutation'' False"

definition publish_lifecycle_event ::
  "'w tenant_env \<Rightarrow> string \<Rightarrow> tenant \<Rightarrow> caller \<Rightarrow> (string \<times> pyval) list \<Rightarrow> ('w, unit) state_op" where
  "publish_lifecycle_event env event_type t c extra =
     te_publish env event_type ''tenant'' (tn_id t) (tn_id t)
       ([(''tenant_id'', PStr (tn_id t)), (''actor_id'', PStr (ca_actor_id c)),
         (''request_id'', PStr (ca_request_id c)), (''status'', PStr (tenant_status_name (tn_status t)))]
        @ extra)"

definition audit_transition ::
  "'w tenant_env \<Rightarrow> string \<Rightarrow> tenant \<Rightarrow> tenant_status \<Rightarrow> caller \<Rightarrow> string option \<Rightarrow> bool
    \<Rightarrow> (string \<times> pyval) list \<Rightarrow> ('w, unit) state_op" where
  "audit_transition env event_type t from c reason revoke extra =
    (case te_audit env of
       None \<Rightarrow> sret (Inr ())
     | Some record \<Rightarrow> record \<lparr>au_action = event_type, au_resource_type = ''tenant'',
         au_resource_id = Some (tn_id t), au_result = ''success'', au_tenant = Some (tn_id t),
         au_actor = Some (ca_actor_id c), au_reason = reason, au_policy_version = None,
         au_request_id = Some (ca_request_id c),
         au_payload = [(''from_status'', PStr (tenant_status_name from)),
           (''to_status'', PStr (tenant_status_name (tn_status t))), (''event_type'', PStr event_type),
           (''revoke_sessions'', PBool revoke)] @ extra\<rparr>)"

definition revoke_sessions :: "'w tenant_env \<Rightarrow> string \<Rightarrow> string \<Rightarrow> ('w, unit) state_op" where
  "revoke_sessions env tenant_id reason =
    (case te_revoke_sessions env of None \<Rightarrow> sret (Inr ()) | Some hook \<Rightarrow> hook tenant_id reason)"

text \<open>\<open>_transition\<close>: the status changes before the hook, the event and the audit are tried.\<close>

definition transition ::
  "'w tenant_env \<Rightarrow> tenant_status \<Rightarrow> string \<Rightarrow> caller \<Rightarrow> bool \<Rightarrow> string \<Rightarrow> (tenant \<times> 'w, unit) state_op" where
  "transition env target event_type c revoke mutation = (\<lambda>(t, w).
    (case rbind (assert_tenant_mutation_authorized (ca_decision c) (ca_actor_id c) mutation) (\<lambda>_.
            validate_tenant_transition (tn_status t) target) of
       Inl e \<Rightarrow> ((t, w), Inl e)
     | Inr _ \<Rightarrow>
        (let t' = t\<lparr>tn_status := target\<rparr>;
             (w, r) = sbind (if revoke then revoke_sessions env (tn_id t) (ca_reason c) else sret (Inr ())) (\<lambda>_.
               sbind (publish_lifecycle_event env event_type t' c [(''reason'', PStr (ca_reason c))]) (\<lambda>_.
                 audit_transition env event_type t' (tn_status t) c (Some (ca_reason c)) revoke [])) w
         in ((t', w), r))))"

definition suspend_tenant :: "'w tenant_env \<Rightarrow> caller \<Rightarrow> (tenant \<times> 'w, unit) state_op" where
  "suspend_tenant env c = transition env Suspended ''tenant.suspended'' c True ''suspend''"

definition reactivate_tenant :: "'w tenant_env \<Rightarrow> caller \<Rightarrow> (tenant \<times> 'w, unit) state_op" where
  "reactivate_tenant env c = transition env Active ''tenant.reactivated'' c False ''reactivate''"

definition begin_delete_tenant :: "'w tenant_env \<Rightarrow> caller \<Rightarrow> (tenant \<times> 'w, unit) state_op" where
  "begin_delete_tenant env c = transition env Deleting ''tenant.deleting'' c True ''delete''"

definition finish_delete_tenant ::
  "'w tenant_env \<Rightarrow> tenant_status \<Rightarrow> caller \<Rightarrow> (tenant \<times> 'w, unit) state_op" where
  "finish_delete_tenant env target c =
    (if target \<notin> {Archived, Deleted}
       then sret (Inl (value_error ''finish_delete_tenant target must be archived or deleted''))
     else transition env target
       (if target = Archived then ''tenant.archived'' else ''tenant.deleted'') c False ''delete'')"

text \<open>\<open>provision_tenant\<close> adds the tenant and its owner to the session; it has no reason.\<close>

definition provision_tenant ::
  "'w tenant_env \<Rightarrow> string \<Rightarrow> string \<Rightarrow> string \<Rightarrow> string \<Rightarrow> string \<Rightarrow> caller
    \<Rightarrow> (tenant list \<times> tenant_member list \<times> 'w, tenant) state_op" where
  "provision_tenant env tenant_id name code owner mode c = (\<lambda>(ts, ms, w).
    (case assert_tenant_mutation_authorized (ca_decision c) (ca_actor_id c) ''provision'' of
       Inl e \<Rightarrow> ((ts, ms, w), Inl e)
     | Inr _ \<Rightarrow>
        (let t = \<lparr>tn_id = tenant_id, tn_name = name, tn_code = code, tn_status = Provisioning,
               tn_deployment_mode = mode\<rparr>;
             m = \<lparr>tm_tenant_id = tenant_id, tm_user_id = owner, tm_status = ''active''\<rparr> in
         case validate_tenant_transition Provisioning Active of
           Inl e \<Rightarrow> ((ts @ [t], ms @ [m], w), Inl e)
         | Inr _ \<Rightarrow>
            (let t' = t\<lparr>tn_status := Active\<rparr>; extra = [(''owner_user_id'', PStr owner)];
                 (w, r) = sbind (publish_lifecycle_event env ''tenant.created'' t' c extra) (\<lambda>_.
                   sbind (audit_transition env ''tenant.created'' t' Provisioning c None False extra) (\<lambda>_.
                     sret (Inr t'))) w
             in ((ts @ [t'], ms @ [m], w), r)))))"

section \<open>Deletion in steps\<close>

datatype deletion_step = Mark_Deleting | Cancel_Tasks | Cleanup_Business_Data | Cleanup_Files | Finish

definition deletion_steps :: "deletion_step list" where
  "deletion_steps = [Mark_Deleting, Cancel_Tasks, Cleanup_Business_Data, Cleanup_Files, Finish]"

fun step_name :: "deletion_step \<Rightarrow> string" where
  "step_name Mark_Deleting = ''mark_deleting''"
| "step_name Cancel_Tasks = ''cancel_tasks''"
| "step_name Cleanup_Business_Data = ''cleanup_business_data''"
| "step_name Cleanup_Files = ''cleanup_files''"
| "step_name Finish = ''finish''"

fun step_order :: "deletion_step \<Rightarrow> string" where
  "step_order Mark_Deleting = ''01''"
| "step_order Cancel_Tasks = ''02''"
| "step_order Cleanup_Business_Data = ''03''"
| "step_order Cleanup_Files = ''04''"
| "step_order Finish = ''05''"

definition step_record_id :: "string \<Rightarrow> deletion_step \<Rightarrow> string" where
  "step_record_id tenant_id step = tenant_id @ '':delete:'' @ step_order step @ ''_'' @ step_name step"

datatype step_status = Step_Pending | Step_Succeeded | Step_Failed

fun step_status_name :: "step_status \<Rightarrow> string" where
  "step_status_name Step_Pending = ''pending''"
| "step_status_name Step_Succeeded = ''succeeded''"
| "step_status_name Step_Failed = ''failed''"

record step_record =
  sr_step :: deletion_step
  sr_status :: step_status
  sr_attempt_count :: nat
  sr_forward_fix_required :: bool
  sr_result_payload :: "(string \<times> pyval) list option"
  sr_last_error :: "string option"
  sr_started_at :: "instant option"
  sr_finished_at :: "instant option"

definition pending_record :: "deletion_step \<Rightarrow> step_record" where
  "pending_record step = \<lparr>sr_step = step, sr_status = Step_Pending, sr_attempt_count = 0,
     sr_forward_fix_required = False, sr_result_payload = None, sr_last_error = None,
     sr_started_at = None, sr_finished_at = None\<rparr>"

text \<open>What a cleanup hook returns, and the payload it gives.\<close>

datatype cleanup_result = No_Result | Row_Count pyval | Cleanup_Details "(string \<times> pyval) list"

fun cleanup_payload :: "cleanup_result \<Rightarrow> (string \<times> pyval) list" where
  "cleanup_payload No_Result = []"
| "cleanup_payload (Row_Count n) = [(''count'', n)]"
| "cleanup_payload (Cleanup_Details d) = d"

record 'w deletion_env =
  de_services :: "'w tenant_env"
  de_cancel_for_tenant :: "(string \<Rightarrow> string \<Rightarrow> ('w, nat) state_op) option"
  de_business_cleanup :: "(string \<Rightarrow> string \<Rightarrow> ('w, cleanup_result) state_op) option"
  de_file_cleanup :: "(string \<Rightarrow> string \<Rightarrow> ('w, cleanup_result) state_op) option"

type_synonym payload = "(string \<times> pyval) list"

definition mark_deleting :: "'w deletion_env \<Rightarrow> caller \<Rightarrow> (tenant \<times> 'w, payload) state_op" where
  "mark_deleting env c = (\<lambda>(t, w).
    if tn_status t = Deleting then ((t, w), Inr [(''status'', PStr ''already_deleting'')])
    else sbind (begin_delete_tenant (de_services env) c) (\<lambda>_. sret (Inr
      [(''from_status'', PStr (tenant_status_name (tn_status t))), (''to_status'', PStr ''deleting'')])) (t, w))"

definition finish_deletion ::
  "'w deletion_env \<Rightarrow> tenant_status \<Rightarrow> caller \<Rightarrow> (tenant \<times> 'w, payload) state_op" where
  "finish_deletion env target c = (\<lambda>(t, w).
    if tn_status t = target then ((t, w), Inr [(''status'', PStr (''already_'' @ tenant_status_name target))])
    else sbind (finish_delete_tenant ((de_services env)\<lparr>te_revoke_sessions := None\<rparr>) target c) (\<lambda>_. sret (Inr
      [(''from_status'', PStr (tenant_status_name (tn_status t))),
       (''to_status'', PStr (tenant_status_name target))])) (t, w))"

text \<open>A call that does not touch the tenant's row.\<close>

definition on_world :: "('w, 'a) state_op \<Rightarrow> (tenant \<times> 'w, 'a) state_op" where
  "on_world f = (\<lambda>(t, w). let (w, r) = f w in ((t, w), r))"

definition invoke_cleanup_hook ::
  "(string \<Rightarrow> string \<Rightarrow> ('w, cleanup_result) state_op) option \<Rightarrow> string \<Rightarrow> string \<Rightarrow> ('w, payload) state_op" where
  "invoke_cleanup_hook hook tenant_id reason =
    (case hook of
       None \<Rightarrow> sret (Inr [])
     | Some h \<Rightarrow> sbind (h tenant_id reason) (\<lambda>r. sret (Inr (cleanup_payload r))))"

definition cancel_tenant_tasks :: "'w deletion_env \<Rightarrow> string \<Rightarrow> string \<Rightarrow> ('w, payload) state_op" where
  "cancel_tenant_tasks env tenant_id reason =
    (case de_cancel_for_tenant env of
       None \<Rightarrow> sret (Inr [(''cancelled_task_count'', PInt 0)])
     | Some cancel \<Rightarrow> sbind (cancel tenant_id reason) (\<lambda>n.
         sret (Inr [(''cancelled_task_count'', PInt (int n))])))"

fun execute_step ::
  "'w deletion_env \<Rightarrow> tenant_status \<Rightarrow> caller \<Rightarrow> deletion_step \<Rightarrow> (tenant \<times> 'w, payload) state_op" where
  "execute_step env target c Mark_Deleting st = mark_deleting env c st"
| "execute_step env target c Cancel_Tasks st =
     on_world (cancel_tenant_tasks env (tn_id (fst st)) (ca_reason c)) st"
| "execute_step env target c Cleanup_Business_Data st =
     on_world (invoke_cleanup_hook (de_business_cleanup env) (tn_id (fst st)) (ca_reason c)) st"
| "execute_step env target c Cleanup_Files st =
     on_world (invoke_cleanup_hook (de_file_cleanup env) (tn_id (fst st)) (ca_reason c)) st"
| "execute_step env target c Finish st = finish_deletion env target c st"

text \<open>The audit of a step, and the records a step leaves when it succeeds and when it fails.\<close>

definition audit_step ::
  "'w deletion_env \<Rightarrow> tenant \<Rightarrow> step_record \<Rightarrow> string \<Rightarrow> caller \<Rightarrow> ('w, unit) state_op" where
  "audit_step env t r result c =
    (case te_audit (de_services env) of
       None \<Rightarrow> sret (Inr ())
     | Some record \<Rightarrow> record \<lparr>au_action = ''tenant.deletion_step.'' @ step_status_name (sr_status r),
         au_resource_type = ''tenant_lifecycle_step'',
         au_resource_id = Some (step_record_id (tn_id t) (sr_step r)), au_result = result,
         au_tenant = Some (tn_id t), au_actor = Some (ca_actor_id c), au_reason = Some (ca_reason c),
         au_policy_version = None, au_request_id = Some (ca_request_id c),
         au_payload = [(''workflow'', PStr ''delete''), (''step'', PStr (step_name (sr_step r))),
           (''attempt_count'', PInt (int (sr_attempt_count r))),
           (''forward_fix_required'', PBool (sr_forward_fix_required r)),
           (''last_error'', opt_str (sr_last_error r))]\<rparr>)"

definition succeeded_step :: "instant \<Rightarrow> payload \<Rightarrow> step_record \<Rightarrow> step_record" where
  "succeeded_step now p r =
     r\<lparr>sr_status := Step_Succeeded, sr_attempt_count := sr_attempt_count r + 1,
       sr_forward_fix_required := False, sr_result_payload := Some p, sr_last_error := None,
       sr_started_at := Some now, sr_finished_at := Some now\<rparr>"

definition failed_step :: "instant \<Rightarrow> exn \<Rightarrow> step_record \<Rightarrow> step_record" where
  "failed_step now e r =
     r\<lparr>sr_status := Step_Failed, sr_attempt_count := sr_attempt_count r + 1,
       sr_forward_fix_required := True, sr_result_payload := None,
       sr_last_error := Some (exn_class e @ '': '' @ exn_text e),
       sr_started_at := Some now, sr_finished_at := Some now\<rparr>"

record 'w deletion =
  dl_tenant :: tenant
  dl_records :: "deletion_step \<rightharpoonup> step_record"
  dl_world :: 'w

definition step_failure :: "tenant \<Rightarrow> step_record \<Rightarrow> exn" where
  "step_failure t r = app_error ''TENANT_DELETE_STEP_FAILED'' ''Tenant deletion step failed'' (Some 409)
     [(''tenant_id'', PStr (tn_id t)), (''step'', PStr (step_name (sr_step r))),
      (''attempt_count'', PInt (int (sr_attempt_count r))), (''forward_fix_required'', PBool True)]"

text \<open>One round of the loop of \<open>run\<close>, for a step whose record has not succeeded.\<close>

definition run_step ::
  "'w deletion_env \<Rightarrow> tenant_status \<Rightarrow> caller \<Rightarrow> instant \<Rightarrow> deletion_step \<Rightarrow> step_record
    \<Rightarrow> ('w deletion, step_record) state_op" where
  "run_step env target c now step r d =
    (case execute_step env target c step (dl_tenant d, dl_world d) of
       ((t, w), Inl e) \<Rightarrow>
         (let r' = failed_step now e r;
              (w, audited) = audit_step env t r' ''failure'' c w;
              d' = \<lparr>dl_tenant = t, dl_records = (dl_records d)(step \<mapsto> r'), dl_world = w\<rparr>
          in (d', case audited of Inl e' \<Rightarrow> Inl e' | Inr _ \<Rightarrow> Inl (step_failure t r')))
     | ((t, w), Inr p) \<Rightarrow>
         (let r' = succeeded_step now p r;
              (w, audited) = audit_step env t r' ''success'' c w;
              d' = \<lparr>dl_tenant = t, dl_records = (dl_records d)(step \<mapsto> r'), dl_world = w\<rparr>
          in (d', case audited of Inl e' \<Rightarrow> Inl e' | Inr _ \<Rightarrow> Inr r')))"

definition step_record_of :: "'w deletion \<Rightarrow> deletion_step \<Rightarrow> step_record" where
  "step_record_of d step = (case dl_records d step of None \<Rightarrow> pending_record step | Some r \<Rightarrow> r)"

fun run_steps ::
  "'w deletion_env \<Rightarrow> tenant_status \<Rightarrow> caller \<Rightarrow> (deletion_step \<Rightarrow> instant) \<Rightarrow> deletion_step list
    \<Rightarrow> ('w deletion, step_record list) state_op" where
  "run_steps env target c now [] d = (d, Inr [])"
| "run_steps env target c now (step # steps) d =
    (let r = step_record_of d step; d = d\<lparr>dl_records := (dl_records d)(step \<mapsto> r)\<rparr> in
     case (if sr_status r = Step_Succeeded then (d, Inr r) else run_step env target c (now step) step r d) of
       (d, Inl e) \<Rightarrow> (d, Inl e)
     | (d, Inr r) \<Rightarrow>
        (case run_steps env target c now steps d of
           (d, Inl e) \<Rightarrow> (d, Inl e)
         | (d, Inr rs) \<Rightarrow> (d, Inr (r # rs))))"

record deletion_result =
  dr_tenant_id :: string
  dr_status :: tenant_status
  dr_steps :: "step_record list"

definition run_deletion ::
  "'w deletion_env \<Rightarrow> tenant_status \<Rightarrow> caller \<Rightarrow> (deletion_step \<Rightarrow> instant)
    \<Rightarrow> ('w deletion, deletion_result) state_op" where
  "run_deletion env target c now d =
    (if target \<notin> {Archived, Deleted}
       then (d, Inl (value_error ''tenant deletion target must be archived or deleted''))
     else case assert_tenant_mutation_authorized (ca_decision c) (ca_actor_id c) ''delete'' of
       Inl e \<Rightarrow> (d, Inl e)
     | Inr _ \<Rightarrow>
        (case run_steps env target c now deletion_steps d of
           (d, Inl e) \<Rightarrow> (d, Inl e)
         | (d, Inr rs) \<Rightarrow> (d, Inr \<lparr>dr_tenant_id = tn_id (dl_tenant d), dr_status = tn_status (dl_tenant d),
             dr_steps = rs\<rparr>)))"

section \<open>Lemmas\<close>

lemma transition_keeps:
  "tn_id (fst (fst (transition env target ty c revoke mutation st))) = tn_id (fst st)"
  by (cases st) (auto simp: transition_def Let_def split: sum.splits prod.splits)

lemma transition_status:
  "tn_status (fst (fst (transition env target ty c revoke mutation st))) \<in> {tn_status (fst st), target} \<and>
   (tn_status (fst (fst (transition env target ty c revoke mutation st))) \<noteq> tn_status (fst st) \<longrightarrow>
      target \<in> allowed_transitions (tn_status (fst st)))"
  by (cases st)
    (auto simp: transition_def Let_def validate_tenant_transition_def rbind_def split: sum.splits prod.splits if_splits)

lemma transition_Inr:
  assumes "transition env target ty c revoke mutation st = (st', Inr x)"
  shows "tn_status (fst st') = target \<and> target \<in> allowed_transitions (tn_status (fst st))"
  using assms by (cases st; cases st')
    (auto simp: transition_def Let_def validate_tenant_transition_def rbind_def split: sum.splits prod.splits if_splits)

lemma sbind_transition_Inr:
  assumes "sbind (transition env target ty c revoke mutation) (\<lambda>_. sret (Inr q)) st = (st', Inr p)"
  shows "tn_status (fst st') = target"
proof (cases "transition env target ty c revoke mutation st")
  case (Pair st1 r)
  with assms have "st1 = st'" and "\<exists>x. r = Inr x" by (cases r; simp add: sbind_def)+
  with Pair show ?thesis using transition_Inr by blast
qed

lemma finish_deletion_status:
  assumes "finish_deletion env target c st = (st', Inr p)" and "target \<in> {Archived, Deleted}"
  shows "tn_status (fst st') = target"
  using assms by (cases st)
    (auto simp: finish_deletion_def finish_delete_tenant_def split: if_splits dest: sbind_transition_Inr)

text \<open>The records of a deletion are filed under their step.\<close>

definition records_ok :: "(deletion_step \<rightharpoonup> step_record) \<Rightarrow> bool" where
  "records_ok recs \<longleftrightarrow> (\<forall>step r. recs step = Some r \<longrightarrow> sr_step r = step)"

definition succeeded :: "(deletion_step \<rightharpoonup> step_record) \<Rightarrow> deletion_step \<Rightarrow> bool" where
  "succeeded recs step \<longleftrightarrow> (\<exists>r. recs step = Some r \<and> sr_status r = Step_Succeeded)"

lemma step_record_of_step: "records_ok (dl_records d) \<Longrightarrow> sr_step (step_record_of d step) = step"
  by (auto simp: step_record_of_def records_ok_def pending_record_def split: option.splits)

lemma run_step_records:
  assumes "run_step env target c now step r d = (d', res)"
  shows "\<exists>r'. dl_records d' = (dl_records d)(step \<mapsto> r') \<and> sr_step r' = sr_step r \<and>
    sr_attempt_count r' = sr_attempt_count r + 1 \<and>
    (\<forall>x. res = Inr x \<longrightarrow> x = r' \<and> sr_status r' = Step_Succeeded \<and>
       (\<exists>w p. execute_step env target c step (dl_tenant d, dl_world d) = ((dl_tenant d', w), Inr p))) \<and>
    (sr_status r' = Step_Failed \<and> sr_forward_fix_required r' \<or> sr_status r' = Step_Succeeded)"
proof (cases "execute_step env target c step (dl_tenant d, dl_world d)")
  case (Pair tw x)
  obtain t w where tw: "tw = (t, w)" by (cases tw)
  show ?thesis
  proof (cases x)
    case (Inl e)
    let ?r = "failed_step now e r"
    obtain w' a where a: "audit_step env t ?r ''failure'' c w = (w', a)"
      by (cases "audit_step env t ?r ''failure'' c w")
    have "d' = \<lparr>dl_tenant = t, dl_records = (dl_records d)(step \<mapsto> ?r), dl_world = w'\<rparr>"
      and "\<exists>e'. res = Inl e'"
      using assms Pair tw Inl a by (auto simp: run_step_def Let_def split: sum.splits)
    then show ?thesis by (intro exI [of _ ?r]) (auto simp: failed_step_def)
  next
    case (Inr p)
    let ?r = "succeeded_step now p r"
    obtain w' a where a: "audit_step env t ?r ''success'' c w = (w', a)"
      by (cases "audit_step env t ?r ''success'' c w")
    have "d' = \<lparr>dl_tenant = t, dl_records = (dl_records d)(step \<mapsto> ?r), dl_world = w'\<rparr>"
      and "\<forall>x. res = Inr x \<longrightarrow> x = ?r"
      using assms Pair tw Inr a by (auto simp: run_step_def Let_def split: sum.splits)
    then show ?thesis using Pair tw Inr by (intro exI [of _ ?r]) (auto simp: succeeded_step_def)
  qed
qed

lemma run_steps_append:
  "run_steps env target c now (xs @ ys) d =
    (case run_steps env target c now xs d of
       (d, Inl e) \<Rightarrow> (d, Inl e)
     | (d, Inr rs) \<Rightarrow>
        (case run_steps env target c now ys d of
           (d, Inl e) \<Rightarrow> (d, Inl e)
         | (d, Inr rs') \<Rightarrow> (d, Inr (rs @ rs'))))"
  by (induction xs arbitrary: d) (auto simp: Let_def split: prod.splits sum.splits)

text \<open>A step that has succeeded is passed over: nothing is called, nothing is written.\<close>

lemma run_steps_succeeded:
  assumes "\<forall>step \<in> set xs. succeeded (dl_records d) step"
  shows "run_steps env target c now xs d = (d, Inr (map (step_record_of d) xs))"
  using assms
proof (induction xs)
  case (Cons step xs)
  obtain r where r: "dl_records d step = Some r" "sr_status r = Step_Succeeded"
    using Cons.prems by (auto simp: succeeded_def)
  then have "d\<lparr>dl_records := (dl_records d)(step \<mapsto> r)\<rparr> = d" by (simp add: fun_upd_idem)
  with Cons r show ?case by (simp add: step_record_of_def Let_def)
qed simp

lemma run_steps_other:
  "step \<notin> set steps \<Longrightarrow> dl_records (fst (run_steps env target c now steps d)) step = dl_records d step"
proof (induction steps arbitrary: d)
  case (Cons x xs)
  let ?d = "d\<lparr>dl_records := (dl_records d)(x \<mapsto> step_record_of d x)\<rparr>"
  obtain d1 res where r: "(if sr_status (step_record_of d x) = Step_Succeeded then (?d, Inr (step_record_of d x))
      else run_step env target c (now x) x (step_record_of d x) ?d) = (d1, res)" by (metis surj_pair)
  have "dl_records d1 step = dl_records d step"
  proof (cases "sr_status (step_record_of d x) = Step_Succeeded")
    case False
    with r have "run_step env target c (now x) x (step_record_of d x) ?d = (d1, res)" by simp
    from run_step_records [OF this] Cons.prems show ?thesis by auto
  qed (use r Cons.prems in auto)
  moreover have "dl_records (fst (run_steps env target c now xs d1)) step = dl_records d1 step"
    using Cons by simp
  ultimately show ?case
    using r by (cases "run_steps env target c now xs d1") (auto simp: Let_def split: sum.splits)
qed simp

lemma run_steps_Inr:
  assumes "run_steps env target c now steps d = (d', Inr rs)" and "distinct steps" and "records_ok (dl_records d)"
  shows "map sr_step rs = steps \<and> (\<forall>r \<in> set rs. sr_status r = Step_Succeeded \<and> dl_records d' (sr_step r) = Some r)
    \<and> records_ok (dl_records d')"
  using assms
proof (induction steps arbitrary: d rs)
  case (Cons x xs)
  let ?r = "step_record_of d x"
  let ?d = "d\<lparr>dl_records := (dl_records d)(x \<mapsto> ?r)\<rparr>"
  have sx: "sr_step ?r = x" using Cons.prems(3) by (rule step_record_of_step)
  obtain d1 res where r1: "(if sr_status ?r = Step_Succeeded then (?d, Inr ?r)
      else run_step env target c (now x) x ?r ?d) = (d1, res)" by (metis surj_pair)
  obtain r where res: "res = Inr r"
    using Cons.prems(1) r1 by (cases res) (auto simp: Let_def)
  obtain rs' where rs: "rs = r # rs'" and rest: "run_steps env target c now xs d1 = (d', Inr rs')"
    using Cons.prems(1) r1 res by (auto simp: Let_def split: sum.splits prod.splits)
  have d1: "dl_records d1 = (dl_records d)(x \<mapsto> r)" and r: "sr_status r = Step_Succeeded" "sr_step r = x"
  proof -
    have "dl_records d1 = (dl_records d)(x \<mapsto> r) \<and> sr_status r = Step_Succeeded \<and> sr_step r = x"
    proof (cases "sr_status ?r = Step_Succeeded")
      case False
      with r1 res have "run_step env target c (now x) x ?r ?d = (d1, Inr r)" by simp
      from run_step_records [OF this] sx show ?thesis by auto
    qed (use r1 res sx in auto)
    then show "dl_records d1 = (dl_records d)(x \<mapsto> r)" "sr_status r = Step_Succeeded" "sr_step r = x" by auto
  qed
  have ok: "records_ok (dl_records d1)" using Cons.prems(3) r(2) by (auto simp: d1 records_ok_def)
  have "dl_records d' x = Some r"
    using run_steps_other [of x xs env target c now d1] Cons.prems(2) rest d1 by simp
  with Cons.IH [OF rest _ ok] Cons.prems(2) rs r show ?case by auto
qed simp

end
