(* ===== verification/Tenant_Resolver.thy ===== *)
theory Tenant_Resolver
  imports Tenant_Lifecycle
begin

text \<open>
  Which tenant a request works in (\<open>core/tenancy/resolver.py\<close>, \<open>db_resolver.py\<close>): the tenant is
  selected from the token, the header and the user's default, the user has to be an active member,
  and the tenant's status has to allow the operation. The request context (\<open>core/context/context.py\<close>)
  is threaded through; it is bound to the tenant and frozen at the end.
\<close>

section \<open>The request context\<close>

record request_context =
  rx_request_id :: string
  rx_user_id :: "string option"
  rx_tenant_id :: "string option"
  rx_frozen :: bool

definition ensure_mutable :: "request_context \<Rightarrow> string \<Rightarrow> unit result" where
  "ensure_mutable x field =
    (if rx_frozen x then Inl (PyError ''RuntimeError''
       (''RequestContext is frozen; cannot modify '' @ field))
     else Inr ())"

definition with_user :: "request_context \<Rightarrow> string \<Rightarrow> request_context result" where
  "with_user x user_id = rbind (ensure_mutable x ''user_id'') (\<lambda>_. Inr (x\<lparr>rx_user_id := Some user_id\<rparr>))"

definition with_tenant :: "request_context \<Rightarrow> string \<Rightarrow> request_context result" where
  "with_tenant x tenant_id =
     rbind (ensure_mutable x ''tenant_id'') (\<lambda>_. Inr (x\<lparr>rx_tenant_id := Some tenant_id\<rparr>))"

definition freeze :: "request_context \<Rightarrow> request_context" where
  "freeze x = x\<lparr>rx_frozen := True\<rparr>"

section \<open>Resolution\<close>

record membership =
  ms_tenant_id :: string
  ms_active :: bool

record tenant_user =
  tu_user_id :: string
  tu_default_tenant_id :: "string option"
  tu_memberships :: "membership list"

record tenant_record =
  tr_tenant_id :: string
  tr_status :: tenant_status

text \<open>An optional string is true when it is there and not empty; \<open>or\<close> takes the first true one.\<close>

definition present :: "string option \<Rightarrow> bool" where
  "present x \<longleftrightarrow> x \<noteq> None \<and> x \<noteq> Some []"

definition or_else :: "string option \<Rightarrow> string option \<Rightarrow> string option" where
  "or_else x y = (if present x then x else y)"

definition select_tenant_id ::
  "string option \<Rightarrow> string option \<Rightarrow> string option \<Rightarrow> bool \<Rightarrow> string option result" where
  "select_tenant_id token header fallback allow_header =
    (if present header \<and> \<not> allow_header then Inl (app_error ''TENANT_CONTEXT_CONFLICT''
       ''Header tenant is not allowed for this request'' (Some 403)
       [(''reason'', PStr ''header_tenant_not_allowed'')])
     else if present token \<and> present header \<and> token \<noteq> header then Inl (app_error ''TENANT_CONTEXT_CONFLICT''
       ''Header tenant conflicts with token tenant'' (Some 403)
       [(''token_tenant_id'', opt_str token), (''header_tenant_id'', opt_str header)])
     else Inr (or_else token (or_else header fallback)))"

definition has_active_membership :: "tenant_user \<Rightarrow> string \<Rightarrow> bool" where
  "has_active_membership u tenant_id \<longleftrightarrow>
     list_ex (\<lambda>m. ms_tenant_id m = tenant_id \<and> ms_active m) (tu_memberships u)"

definition bind_context ::
  "tenant_user \<Rightarrow> string \<Rightarrow> request_context option \<Rightarrow> request_context option \<times> string result" where
  "bind_context u tenant_id ctx =
    (case ctx of
       None \<Rightarrow> (None, Inr tenant_id)
     | Some x \<Rightarrow>
        (case rbind (with_user x (tu_user_id u)) (\<lambda>x. with_tenant x tenant_id) of
           Inl e \<Rightarrow> (ctx, Inl e)
         | Inr x \<Rightarrow> (Some (freeze x), Inr tenant_id)))"

definition resolve_current_tenant ::
  "tenant_user option \<Rightarrow> string option \<Rightarrow> string option \<Rightarrow> tenant_record option \<Rightarrow> tenant_operation
    \<Rightarrow> lifecycle_policy option \<Rightarrow> bool \<Rightarrow> request_context option
    \<Rightarrow> request_context option \<times> string result" where
  "resolve_current_tenant user token header rec oper policy allow_header ctx =
    (case user of
       None \<Rightarrow> (ctx, Inl (app_error ''AUTH_INVALID_TOKEN''
         ''Authenticated user is required before tenant resolution'' (Some 401) []))
     | Some u \<Rightarrow>
        (case select_tenant_id token header (tu_default_tenant_id u) allow_header of
           Inl e \<Rightarrow> (ctx, Inl e)
         | Inr None \<Rightarrow> (ctx, Inl (app_error ''TENANT_ACCESS_DENIED''
             ''Tenant selection is required'' (Some 403) []))
         | Inr (Some selected) \<Rightarrow>
             if \<not> has_active_membership u selected then (ctx, Inl (app_error ''TENANT_ACCESS_DENIED''
               ''Current user is not an active member of the tenant'' (Some 403)
               [(''tenant_id'', PStr selected)]))
             else (case rec of
               None \<Rightarrow> (ctx, Inl (app_error ''TENANT_ACCESS_DENIED''
                 ''Tenant record must be loaded before tenant resolution'' (Some 403)
                 [(''tenant_id'', PStr selected)]))
             | Some r \<Rightarrow>
                 if tr_tenant_id r \<noteq> selected then (ctx, Inl (app_error ''TENANT_CONTEXT_CONFLICT''
                   ''Resolved tenant does not match loaded tenant record'' (Some 403)
                   [(''selected_tenant_id'', PStr selected), (''tenant_id'', PStr (tr_tenant_id r))]))
                 else (case assert_tenant_operation_allowed selected (tr_status r) oper policy of
                   Inl e \<Rightarrow> (ctx, Inl e)
                 | Inr _ \<Rightarrow> bind_context u selected ctx))))"

text \<open>
  \<open>DatabaseTenantContextResolver.resolve\<close>, for an authenticated user given by identifier and
  tenant, over the tables of tenants and of members. A primary key is unique, so the session's
  \<open>get\<close> finds the first tenant with the identifier.
\<close>

definition tenant_record_for :: "tenant list \<Rightarrow> string option \<Rightarrow> tenant_record option" where
  "tenant_record_for tenants tenant_id =
     Option.bind tenant_id (\<lambda>i. map_option (\<lambda>t. \<lparr>tr_tenant_id = tn_id t, tr_status = tn_status t\<rparr>)
       (find (\<lambda>t. tn_id t = i) tenants))"

definition memberships_of :: "tenant_member list \<Rightarrow> string \<Rightarrow> membership list" where
  "memberships_of members user_id =
     map (\<lambda>m. \<lparr>ms_tenant_id = tm_tenant_id m, ms_active = (tm_status m = ''active'')\<rparr>)
       (filter (\<lambda>m. tm_user_id m = user_id) members)"

definition resolve_database_tenant ::
  "tenant list \<Rightarrow> tenant_member list \<Rightarrow> lifecycle_policy option \<Rightarrow> string \<Rightarrow> string option
    \<Rightarrow> string option \<Rightarrow> string option \<Rightarrow> tenant_operation \<Rightarrow> bool \<Rightarrow> request_context option
    \<Rightarrow> request_context option \<times> string result" where
  "resolve_database_tenant tenants members policy user_id user_tenant token header oper allow_header ctx =
    (let token = or_else token user_tenant in
     case select_tenant_id token header user_tenant allow_header of
       Inl e \<Rightarrow> (ctx, Inl e)
     | Inr selected \<Rightarrow>
         resolve_current_tenant
           (Some \<lparr>tu_user_id = user_id, tu_default_tenant_id = user_tenant,
              tu_memberships = memberships_of members user_id\<rparr>)
           token header (tenant_record_for tenants selected) oper policy allow_header ctx)"

section \<open>Lemmas\<close>

lemma assert_operation_ok:
  "assert_tenant_operation_allowed t st oper policy = Inr () \<longleftrightarrow> is_tenant_operation_allowed st oper policy"
  by (simp add: assert_tenant_operation_allowed_def)

lemma bind_context_tenant:
  "bind_context u t ctx = (ctx', Inr t') \<Longrightarrow> t' = t \<and>
     (case ctx of None \<Rightarrow> ctx' = None
      | Some x \<Rightarrow> \<not> rx_frozen x \<and> ctx' = Some (x\<lparr>rx_user_id := Some (tu_user_id u), rx_tenant_id := Some t,
          rx_frozen := True\<rparr>))"
  by (auto simp: bind_context_def with_user_def with_tenant_def ensure_mutable_def freeze_def
      split: option.splits if_splits)

lemma select_tenant_ok:
  "select_tenant_id token header fallback allow_header = Inr s \<longleftrightarrow>
     (present header \<longrightarrow> allow_header) \<and> (present token \<longrightarrow> present header \<longrightarrow> token = header) \<and>
     s = or_else token (or_else header fallback)"
  by (auto simp: select_tenant_id_def)

lemma resolve_current_tenant_Inr:
  assumes "resolve_current_tenant user token header rec oper policy allow_header ctx = (ctx', Inr t)"
  shows "\<exists>u r. user = Some u \<and> rec = Some r \<and>
    select_tenant_id token header (tu_default_tenant_id u) allow_header = Inr (Some t) \<and>
    has_active_membership u t \<and> tr_tenant_id r = t \<and> is_tenant_operation_allowed (tr_status r) oper policy \<and>
    bind_context u t ctx = (ctx', Inr t)"
proof -
  obtain u where u: "user = Some u"
    using assms by (cases user) (auto simp: resolve_current_tenant_def)
  obtain s where s: "select_tenant_id token header (tu_default_tenant_id u) allow_header = Inr (Some s)"
    using assms u by (auto simp: resolve_current_tenant_def split: sum.splits option.splits)
  obtain r where r: "rec = Some r" and m: "has_active_membership u s"
    using assms u s by (auto simp: resolve_current_tenant_def split: option.splits if_splits)
  have "tr_tenant_id r = s" and a: "assert_tenant_operation_allowed s (tr_status r) oper policy = Inr ()"
    and b: "bind_context u s ctx = (ctx', Inr t)"
    using assms u s r m by (auto simp: resolve_current_tenant_def split: sum.splits if_splits)
  moreover have "s = t" using bind_context_tenant [OF b] by simp
  ultimately show ?thesis using u r s m assert_operation_ok by auto
qed

end
