(* ===== verification/Tenant_Properties.thy ===== *)
theory Tenant_Properties
  imports Tenant_Resolver
begin

text \<open>What tenancy promises: deletions that recover, statuses that do not come back, resolution.\<close>

declare run_steps.simps(2) [simp del]

section \<open>Recovery of deletions\<close>

text \<open>
  The state of a deletion towards a target: until the first step has succeeded the tenant can still
  be moved to deleting, afterwards it is deleting or at the target.
\<close>

definition on_track :: "tenant_status \<Rightarrow> 'w deletion \<Rightarrow> bool" where
  "on_track target d \<longleftrightarrow> records_ok (dl_records d) \<and>
     (if succeeded (dl_records d) Mark_Deleting
      then tn_status (dl_tenant d) \<in> {Deleting, target} \<and>
        (succeeded (dl_records d) Finish \<longrightarrow> tn_status (dl_tenant d) = target)
      else tn_status (dl_tenant d) \<in> {Active, Suspended, Deleting} \<and> \<not> succeeded (dl_records d) Finish)"

definition returns :: "('w, 'a) state_op \<Rightarrow> bool" where
  "returns f \<longleftrightarrow> (\<forall>w. \<exists>w' v. f w = (w', Inr v))"

definition all_return :: "'w deletion_env \<Rightarrow> bool" where
  "all_return env \<longleftrightarrow>
     (\<forall>ty at ai ten p. returns (te_publish (de_services env) ty at ai ten p)) \<and>
     (\<forall>f e. te_audit (de_services env) = Some f \<longrightarrow> returns (f e)) \<and>
     (\<forall>f t r. te_revoke_sessions (de_services env) = Some f \<longrightarrow> returns (f t r)) \<and>
     (\<forall>f t r. de_cancel_for_tenant env = Some f \<longrightarrow> returns (f t r)) \<and>
     (\<forall>f t r. de_business_cleanup env = Some f \<longrightarrow> returns (f t r)) \<and>
     (\<forall>f t r. de_file_cleanup env = Some f \<longrightarrow> returns (f t r))"

lemma returns_sret [simp]: "returns (sret (Inr v))"
  by (simp add: returns_def)

lemma returns_sbind: "returns f \<Longrightarrow> (\<And>v. returns (g v)) \<Longrightarrow> returns (sbind f g)"
proof -
  assume f: "returns f" and g: "\<And>v. returns (g v)"
  show ?thesis
    unfolding returns_def
  proof
    fix w
    obtain w1 v where "f w = (w1, Inr v)" using f unfolding returns_def by blast
    moreover obtain w2 u where "g v w1 = (w2, Inr u)" using g [of v] unfolding returns_def by blast
    ultimately show "\<exists>w' u. sbind f g w = (w', Inr u)" by (simp add: sbind_def)
  qed
qed

lemma mark_deleting_status:
  assumes "mark_deleting env c st = (st', r)"
  shows "tn_status (fst st') \<in> {tn_status (fst st), Deleting} \<and> (\<forall>p. r = Inr p \<longrightarrow> tn_status (fst st') = Deleting)"
proof (cases "tn_status (fst st) = Deleting")
  case True
  then show ?thesis using assms by (cases st) (auto simp: mark_deleting_def)
next
  case False
  let ?f = "transition (de_services env) Deleting ''tenant.deleting'' c True ''delete''"
  obtain st1 x where t: "?f st = (st1, x)" by (metis surj_pair)
  have st': "st' = st1" and r: "\<forall>p. r = Inr p \<longrightarrow> (\<exists>y. x = Inr y)"
    using assms False t
    by (cases st; cases x; auto simp: mark_deleting_def begin_delete_tenant_def sbind_def)+
  have "tn_status (fst st1) \<in> {tn_status (fst st), Deleting}"
    using transition_status [of "de_services env" Deleting "''tenant.deleting''" c True "''delete''" st] t by simp
  with st' r t transition_Inr show ?thesis by metis
qed

lemma finish_deletion_range:
  assumes "finish_deletion env target c st = (st', r)"
  shows "tn_status (fst st') \<in> {tn_status (fst st), target}"
proof (cases "tn_status (fst st) = target \<or> target \<notin> {Archived, Deleted}")
  case True
  then show ?thesis using assms
    by (cases st) (auto simp: finish_deletion_def finish_delete_tenant_def sbind_def split: if_splits)
next
  case False
  let ?env = "(de_services env)\<lparr>te_revoke_sessions := None\<rparr>"
  let ?ty = "if target = Archived then ''tenant.archived'' else ''tenant.deleted''"
  obtain st1 x where t: "transition ?env target ?ty c False ''delete'' st = (st1, x)" by (metis surj_pair)
  have "st' = st1"
    using assms False t by (cases st; cases x; auto simp: finish_deletion_def finish_delete_tenant_def sbind_def)
  with transition_status [of ?env target ?ty c False "''delete''" st] t show ?thesis by auto
qed

lemma on_world_tenant: "fst (fst (on_world f st)) = fst st"
  by (cases st) (auto simp: on_world_def Let_def split: prod.splits)

lemma execute_middle_step:
  "step \<noteq> Mark_Deleting \<Longrightarrow> step \<noteq> Finish \<Longrightarrow> fst (fst (execute_step env target c step st)) = fst st"
  by (cases step) (simp_all add: on_world_tenant)

lemma run_step_tenant:
  "dl_tenant (fst (run_step env target c now step r d)) =
     fst (fst (execute_step env target c step (dl_tenant d, dl_world d)))"
  by (auto simp: run_step_def Let_def split: prod.splits sum.splits)

text \<open>One step keeps a deletion on its track, whatever the hooks do.\<close>

definition visit_step ::
  "'w deletion_env \<Rightarrow> tenant_status \<Rightarrow> caller \<Rightarrow> (deletion_step \<Rightarrow> instant) \<Rightarrow> deletion_step
    \<Rightarrow> ('w deletion, step_record list) state_op" where
  "visit_step env target c now step = run_steps env target c now [step]"

lemma visit_step_cases:
  assumes "visit_step env target c now step d = (d', res)" and "records_ok (dl_records d)"
  shows "succeeded (dl_records d) step \<and> d' = d \<and> (\<exists>rs. res = Inr rs) \<or>
    \<not> succeeded (dl_records d) step \<and> (\<exists>r'. dl_records d' = (dl_records d)(step \<mapsto> r') \<and> sr_step r' = step \<and>
       dl_tenant d' = fst (fst (execute_step env target c step (dl_tenant d, dl_world d))) \<and>
       (\<forall>rs. res = Inr rs \<longrightarrow> sr_status r' = Step_Succeeded) \<and>
       (sr_status r' = Step_Succeeded \<longrightarrow>
          (\<exists>p. snd (execute_step env target c step (dl_tenant d, dl_world d)) = Inr p)))"
proof (cases "succeeded (dl_records d) step")
  case True
  then show ?thesis using assms(1) run_steps_succeeded [of "[step]" d env target c now]
    by (auto simp: visit_step_def)
next
  case False
  let ?r = "step_record_of d step"
  let ?d = "d\<lparr>dl_records := (dl_records d)(step \<mapsto> ?r)\<rparr>"
  have "sr_status ?r \<noteq> Step_Succeeded"
    using False by (auto simp: step_record_of_def succeeded_def pending_record_def split: option.splits)
  then obtain res' where run: "run_step env target c (now step) step ?r ?d = (d', res')"
    and r': "\<forall>rs. res = Inr rs \<longrightarrow> (\<exists>x. res' = Inr x)"
    using assms(1) by (auto simp: visit_step_def run_steps.simps(2) Let_def split: prod.splits sum.splits)
  obtain r' where r'': "dl_records d' = (dl_records ?d)(step \<mapsto> r')" "sr_step r' = sr_step ?r"
      "\<forall>x. res' = Inr x \<longrightarrow> x = r' \<and> sr_status r' = Step_Succeeded"
    using run_step_records [OF run] by blast
  have t: "dl_tenant d' = fst (fst (execute_step env target c step (dl_tenant d, dl_world d)))"
    using run_step_tenant [of env target c "now step" step ?r ?d] run by simp
  have "\<exists>p. snd (execute_step env target c step (dl_tenant d, dl_world d)) = Inr p"
    if "sr_status r' = Step_Succeeded"
  proof (rule ccontr)
    assume "\<not> ?thesis"
    then obtain e where "snd (execute_step env target c step (dl_tenant d, dl_world d)) = Inl e"
      by (cases "snd (execute_step env target c step (dl_tenant d, dl_world d))") auto
    then have "sr_status (the (dl_records d' step)) = Step_Failed"
      using run by (auto simp: run_step_def Let_def failed_step_def split: prod.splits sum.splits)
    with r''(1) that show False by simp
  qed
  with r'' r' t step_record_of_step [OF assms(2), of step] False show ?thesis by auto
qed

lemma visit_on_track:
  assumes v: "visit_step env target c now step d = (d', res)" and track: "on_track target d"
    and target: "target \<in> {Archived, Deleted}"
    and first: "step \<noteq> Mark_Deleting \<Longrightarrow> succeeded (dl_records d) Mark_Deleting"
  shows "on_track target d' \<and> (\<forall>rs. res = Inr rs \<longrightarrow> succeeded (dl_records d') step) \<and>
    (\<forall>x. succeeded (dl_records d) x \<longrightarrow> succeeded (dl_records d') x)"
proof -
  have ok: "records_ok (dl_records d)" using track by (simp add: on_track_def)
  let ?ex = "execute_step env target c step (dl_tenant d, dl_world d)"
  consider "succeeded (dl_records d) step" "d' = d"
    | r' where "\<not> succeeded (dl_records d) step" "dl_records d' = (dl_records d)(step \<mapsto> r')" "sr_step r' = step"
        "dl_tenant d' = fst (fst ?ex)" "\<forall>rs. res = Inr rs \<longrightarrow> sr_status r' = Step_Succeeded"
        "sr_status r' = Step_Succeeded \<longrightarrow> (\<exists>p. snd ?ex = Inr p)"
    using visit_step_cases [OF v ok] by auto
  then show ?thesis
  proof cases
    case 1
    then show ?thesis using track by simp
  next
    case (2 r')
    obtain st' q where ex: "?ex = (st', q)" by (cases ?ex)
    have suc: "succeeded (dl_records d') x \<longleftrightarrow> (if x = step then sr_status r' = Step_Succeeded else succeeded (dl_records d) x)" for x
      using 2(2) by (simp add: succeeded_def)
    have ok': "records_ok (dl_records d')" using ok 2(2,3) by (auto simp: records_ok_def)
    have q: "\<exists>p. q = Inr p" if "sr_status r' = Step_Succeeded" using 2(6) ex that by auto
    have mid: "fst st' = dl_tenant d" if "step \<noteq> Mark_Deleting" "step \<noteq> Finish"
      using that ex execute_middle_step [of step env target c "(dl_tenant d, dl_world d)"] by simp
    consider "step = Mark_Deleting" | "step = Finish" | "step \<noteq> Mark_Deleting" "step \<noteq> Finish" by blast
    then have "on_track target d'"
    proof cases
      case m: 1
      have "tn_status (fst st') \<in> {tn_status (dl_tenant d), Deleting}"
        and "\<And>p. q = Inr p \<Longrightarrow> tn_status (fst st') = Deleting"
        using mark_deleting_status [of env c "(dl_tenant d, dl_world d)" st' q] ex m by auto
      then show ?thesis using track 2(1,4) ok' q suc m ex by (auto simp: on_track_def)
    next
      case fin: 2
      have m: "succeeded (dl_records d) Mark_Deleting" using first fin by simp
      have "tn_status (fst st') \<in> {tn_status (dl_tenant d), target}"
        using finish_deletion_range [of env target c "(dl_tenant d, dl_world d)" st' q] ex fin by simp
      moreover have "tn_status (fst st') = target" if "q = Inr p" for p
        using finish_deletion_status [of env target c "(dl_tenant d, dl_world d)" st' p] ex fin target that by simp
      ultimately show ?thesis using track 2(1,4) ok' q suc fin ex m by (auto simp: on_track_def)
    next
      case 3
      then have t: "dl_tenant d' = dl_tenant d" using mid 2(4) ex by simp
      have "succeeded (dl_records d') Mark_Deleting = succeeded (dl_records d) Mark_Deleting"
        and "succeeded (dl_records d') Finish = succeeded (dl_records d) Finish"
        using suc 3 by (metis)+
      then show ?thesis using track ok' unfolding on_track_def t by (auto split: if_splits)
    qed
    moreover have "succeeded (dl_records d') x" if "succeeded (dl_records d) x" for x
      using suc that 2(1) by auto
    ultimately show ?thesis using 2(5) suc by simp
  qed
qed

lemma run_steps_visit:
  "run_steps env target c now (step # steps) d =
    (case visit_step env target c now step d of
       (d, Inl e) \<Rightarrow> (d, Inl e)
     | (d, Inr rs) \<Rightarrow>
        (case run_steps env target c now steps d of
           (d, Inl e) \<Rightarrow> (d, Inl e)
         | (d, Inr rs') \<Rightarrow> (d, Inr (rs @ rs'))))"
  using run_steps_append [of env target c now "[step]" steps d] by (simp add: visit_step_def)

lemma run_steps_on_track:
  assumes "on_track target d" and "target \<in> {Archived, Deleted}"
    and "Mark_Deleting \<notin> set steps" and "succeeded (dl_records d) Mark_Deleting"
  shows "on_track target (fst (run_steps env target c now steps d))"
  using assms
proof (induction steps arbitrary: d)
  case (Cons x xs)
  obtain d1 res where v: "visit_step env target c now x d = (d1, res)" by (metis surj_pair)
  from visit_on_track [OF v Cons.prems(1,2) Cons.prems(4)]
  have "on_track target d1" and "succeeded (dl_records d1) Mark_Deleting" using Cons.prems(4) by auto
  with Cons.IH [of d1] Cons.prems have "on_track target (fst (run_steps env target c now xs d1))" by simp
  with \<open>on_track target d1\<close> show ?case
    unfolding run_steps_visit v by (cases res; cases "run_steps env target c now xs d1") (auto split: sum.splits)
qed simp

lemma run_deletion_on_track:
  assumes track: "on_track target d" and target: "target \<in> {Archived, Deleted}"
  shows "on_track target (fst (run_deletion env target c now d))"
proof -
  obtain d1 res where v: "visit_step env target c now Mark_Deleting d = (d1, res)" by (metis surj_pair)
  let ?rest = "[Cancel_Tasks, Cleanup_Business_Data, Cleanup_Files, Finish]"
  from visit_on_track [OF v track target]
  have t1: "on_track target d1" and m: "\<forall>rs. res = Inr rs \<longrightarrow> succeeded (dl_records d1) Mark_Deleting" by auto
  have "on_track target (fst (run_steps env target c now deletion_steps d))"
  proof (cases res)
    case (Inl e)
    then show ?thesis using t1 unfolding deletion_steps_def run_steps_visit [of _ _ _ _ Mark_Deleting] v by simp
  next
    case (Inr rs)
    then have "on_track target (fst (run_steps env target c now ?rest d1))"
      using run_steps_on_track [OF t1 target] m by simp
    then show ?thesis unfolding deletion_steps_def run_steps_visit [of _ _ _ _ Mark_Deleting] v Inr
      by (cases "run_steps env target c now ?rest d1") (auto split: sum.splits)
  qed
  then show ?thesis using track target
    by (auto simp: run_deletion_def split: sum.splits prod.splits)
qed

section \<open>A run whose calls return\<close>

lemma transition_returns:
  assumes "assert_tenant_mutation_authorized (ca_decision c) (ca_actor_id c) mutation = Inr ()"
    and "target \<in> allowed_transitions (tn_status (fst st))"
    and "\<And>ty at ai ten p. returns (te_publish env ty at ai ten p)"
    and "\<And>f e. te_audit env = Some f \<Longrightarrow> returns (f e)"
    and "\<And>f t r. revoke \<Longrightarrow> te_revoke_sessions env = Some f \<Longrightarrow> returns (f t r)"
  shows "\<exists>st'. transition env target ty c revoke mutation st = (st', Inr ())"
proof -
  obtain t w where st: "st = (t, w)" by (cases st)
  let ?t = "t\<lparr>tn_status := target\<rparr>"
  let ?f = "sbind (if revoke then revoke_sessions env (tn_id t) (ca_reason c) else sret (Inr ())) (\<lambda>_.
     sbind (publish_lifecycle_event env ty ?t c [(''reason'', PStr (ca_reason c))]) (\<lambda>_.
       audit_transition env ty ?t (tn_status t) c (Some (ca_reason c)) revoke []))"
  have "returns ?f"
  proof (intro returns_sbind)
    show "returns (if revoke then revoke_sessions env (tn_id t) (ca_reason c) else sret (Inr ()))"
      using assms(5) by (auto simp: revoke_sessions_def split: option.split)
    show "returns (publish_lifecycle_event env ty ?t c [(''reason'', PStr (ca_reason c))])"
      unfolding publish_lifecycle_event_def by (rule assms(3))
    show "returns (audit_transition env ty ?t (tn_status t) c (Some (ca_reason c)) revoke [])"
      using assms(4) by (auto simp: audit_transition_def split: option.split)
  qed
  then obtain w' v where "?f w = (w', Inr v)" unfolding returns_def by blast
  then show ?thesis using assms(1,2) st by (simp add: transition_def validate_tenant_transition_def)
qed

lemma execute_step_returns:
  fixes env :: "'w deletion_env"
  assumes env: "all_return env" and auth: "assert_tenant_mutation_authorized (ca_decision c) (ca_actor_id c) ''delete'' = Inr ()"
    and track: "on_track target d" and target: "target \<in> {Archived, Deleted}"
    and first: "step \<noteq> Mark_Deleting \<Longrightarrow> succeeded (dl_records d) Mark_Deleting"
    and new: "\<not> succeeded (dl_records d) step"
  shows "\<exists>p. snd (execute_step env target c step (dl_tenant d, dl_world d)) = Inr p"
proof -
  have world: "\<exists>p. snd (on_world f st) = Inr p" if "returns f" for f :: "('w, payload) state_op" and st
  proof -
    obtain t w where st: "st = (t, w)" by (cases st)
    obtain w' p where "f w = (w', Inr p)" using \<open>returns f\<close> unfolding returns_def by blast
    with st show ?thesis by (simp add: on_world_def)
  qed
  have hook: "returns (invoke_cleanup_hook h t r)" if "\<And>f t r. h = Some f \<Longrightarrow> returns (f t r)"
    for h :: "(string \<Rightarrow> string \<Rightarrow> ('w, cleanup_result) state_op) option" and t r
    using that by (auto simp: invoke_cleanup_hook_def intro: returns_sbind split: option.split)
  show ?thesis
  proof (cases step)
    case Mark_Deleting
    have "tn_status (dl_tenant d) \<in> {Active, Suspended, Deleting}"
      using track new Mark_Deleting by (simp add: on_track_def)
    then have al: "tn_status (dl_tenant d) \<noteq> Deleting \<Longrightarrow> Deleting \<in> allowed_transitions (tn_status (dl_tenant d))"
      by auto
    have "\<exists>st'. transition (de_services env) Deleting ''tenant.deleting'' c True ''delete'' (dl_tenant d, dl_world d) = (st', Inr ())"
      if "tn_status (dl_tenant d) \<noteq> Deleting"
      using env al [OF that] auth unfolding all_return_def by (intro transition_returns) auto
    then show ?thesis using Mark_Deleting
      by (auto simp: mark_deleting_def begin_delete_tenant_def sbind_def)
  next
    case Finish
    have "tn_status (dl_tenant d) \<in> {Deleting, target}"
      using track first Finish by (simp add: on_track_def)
    then have al: "tn_status (dl_tenant d) \<noteq> target \<Longrightarrow> target \<in> allowed_transitions (tn_status (dl_tenant d))"
      using target by auto
    let ?ty = "if target = Archived then ''tenant.archived'' else ''tenant.deleted''"
    show ?thesis
    proof (cases "tn_status (dl_tenant d) = target")
      case False
      have "\<exists>st'. transition ((de_services env)\<lparr>te_revoke_sessions := None\<rparr>) target ?ty c False ''delete''
          (dl_tenant d, dl_world d) = (st', Inr ())"
        using env al [OF False] auth unfolding all_return_def by (intro transition_returns) auto
      then obtain st' where "finish_delete_tenant ((de_services env)\<lparr>te_revoke_sessions := None\<rparr>) target c
          (dl_tenant d, dl_world d) = (st', Inr ())"
        using target by (auto simp: finish_delete_tenant_def)
      then show ?thesis using Finish False by (simp add: finish_deletion_def sbind_def)
    qed (simp add: Finish finish_deletion_def)
  next
    case Cancel_Tasks
    have "returns (cancel_tenant_tasks env t r)" for t r
      using env unfolding all_return_def
      by (auto simp: cancel_tenant_tasks_def intro: returns_sbind split: option.split)
    with Cancel_Tasks world show ?thesis by simp
  next
    case Cleanup_Business_Data
    with world hook [of "de_business_cleanup env"] env show ?thesis by (simp add: all_return_def)
  next
    case Cleanup_Files
    with world hook [of "de_file_cleanup env"] env show ?thesis by (simp add: all_return_def)
  qed
qed

lemma visit_step_returns:
  assumes "all_return env" and "assert_tenant_mutation_authorized (ca_decision c) (ca_actor_id c) ''delete'' = Inr ()"
    and "on_track target d" and "target \<in> {Archived, Deleted}"
    and "step \<noteq> Mark_Deleting \<Longrightarrow> succeeded (dl_records d) Mark_Deleting"
  shows "\<exists>d' rs. visit_step env target c now step d = (d', Inr rs)"
proof (cases "succeeded (dl_records d) step")
  case True
  then show ?thesis using run_steps_succeeded [of "[step]" d env target c now] by (simp add: visit_step_def)
next
  case False
  let ?r = "step_record_of d step"
  let ?d = "d\<lparr>dl_records := (dl_records d)(step \<mapsto> ?r)\<rparr>"
  have st: "sr_status ?r \<noteq> Step_Succeeded"
    using False by (auto simp: step_record_of_def succeeded_def pending_record_def split: option.splits)
  obtain t w p where ex: "execute_step env target c step (dl_tenant d, dl_world d) = ((t, w), Inr p)"
    using execute_step_returns [OF assms(1-5) False] by (metis prod.collapse snd_conv)
  have "returns (audit_step env t r ''success'' c)" for r
    using assms(1) by (auto simp: audit_step_def all_return_def split: option.split)
  then obtain w' v where "audit_step env t (succeeded_step (now step) p ?r) ''success'' c w = (w', Inr v)"
    unfolding returns_def by blast
  then show ?thesis using st ex by (simp add: visit_step_def run_steps.simps(2) Let_def run_step_def)
qed

lemma run_steps_returns:
  assumes "all_return env" and "assert_tenant_mutation_authorized (ca_decision c) (ca_actor_id c) ''delete'' = Inr ()"
    and "on_track target d" and "target \<in> {Archived, Deleted}" and "succeeded (dl_records d) Mark_Deleting"
  shows "\<exists>d' rs. run_steps env target c now steps d = (d', Inr rs)"
  using assms(3,5)
proof (induction steps arbitrary: d)
  case (Cons x xs)
  obtain d1 rs where v: "visit_step env target c now x d = (d1, Inr rs)"
    using visit_step_returns [OF assms(1,2) Cons.prems(1) assms(4)] Cons.prems(2) by blast
  from visit_on_track [OF v Cons.prems(1) assms(4) Cons.prems(2)] Cons.prems(2)
  obtain d' rs' where "run_steps env target c now xs d1 = (d', Inr rs')" using Cons.IH [of d1] by blast
  then show ?case unfolding run_steps_visit v by simp
qed simp

text \<open>C36: A tenant's deletion recovers: after any number of runs towards a target that failed at any
  step, for any reason, a run whose calls return completes it, for a caller who may delete: the
  records then say of every step, in order, that it succeeded, and the tenant is at the target.\<close>

theorem deletion_recovers:
  assumes "tn_status t \<in> {Active, Suspended}" and "target \<in> {Archived, Deleted}"
    and "d = fold (\<lambda>(env, c, now) d. fst (run_deletion env target c now d)) failed
               \<lparr>dl_tenant = t, dl_records = Map.empty, dl_world = w\<rparr>"
    and "all_return env"
    and "assert_tenant_mutation_authorized (ca_decision c) (ca_actor_id c) ''delete'' = Inr ()"
  shows "\<exists>d' rs. run_deletion env target c now d =
      (d', Inr \<lparr>dr_tenant_id = tn_id (dl_tenant d'), dr_status = target, dr_steps = rs\<rparr>) \<and>
    map sr_step rs = deletion_steps \<and>
    (\<forall>r \<in> set rs. sr_status r = Step_Succeeded \<and> dl_records d' (sr_step r) = Some r) \<and>
    tn_status (dl_tenant d') = target"
proof -
  have keep: "on_track target (fold (\<lambda>(env, c, now) d. fst (run_deletion env target c now d)) failed d0)"
    if "on_track target d0" for d0 :: "'a deletion"
    using that by (induction failed arbitrary: d0) (simp_all add: case_prod_beta run_deletion_on_track [OF _ assms(2)])
  have "on_track target \<lparr>dl_tenant = t, dl_records = Map.empty, dl_world = w\<rparr>"
    using assms(1) by (auto simp: on_track_def records_ok_def succeeded_def)
  then have track: "on_track target d" unfolding assms(3) by (rule keep)
  obtain d1 rs1 where v: "visit_step env target c now Mark_Deleting d = (d1, Inr rs1)"
    using visit_step_returns [OF assms(4,5) track assms(2), of Mark_Deleting now] by auto
  have t1: "on_track target d1" and m1: "succeeded (dl_records d1) Mark_Deleting"
    using visit_on_track [OF v track assms(2)] by auto
  obtain d' rs2 where r2: "run_steps env target c now [Cancel_Tasks, Cleanup_Business_Data, Cleanup_Files, Finish] d1 = (d', Inr rs2)"
    using run_steps_returns [OF assms(4,5) t1 assms(2) m1] by blast
  have run: "run_steps env target c now deletion_steps d = (d', Inr (rs1 @ rs2))"
    unfolding deletion_steps_def run_steps_visit [of _ _ _ _ Mark_Deleting] v using r2 by simp
  have dist: "distinct deletion_steps" by (simp add: deletion_steps_def)
  have recs: "records_ok (dl_records d)" using track unfolding on_track_def by blast
  have steps: "map sr_step (rs1 @ rs2) = deletion_steps \<and>
      (\<forall>r \<in> set (rs1 @ rs2). sr_status r = Step_Succeeded \<and> dl_records d' (sr_step r) = Some r) \<and> records_ok (dl_records d')"
    by (rule run_steps_Inr [OF run dist recs])
  have all: "succeeded (dl_records d') x" if "x \<in> set deletion_steps" for x
  proof -
    have "x \<in> sr_step ` set (rs1 @ rs2)"
      using that conjunct1 [OF steps] unfolding set_map [symmetric] by (simp only:)
    then obtain r where "r \<in> set (rs1 @ rs2)" "x = sr_step r" by (rule imageE)
    with steps show ?thesis unfolding succeeded_def by blast
  qed
  have "on_track target d'"
    using run_steps_on_track [OF t1 assms(2) _ m1, of "[Cancel_Tasks, Cleanup_Business_Data, Cleanup_Files, Finish]" env c now] r2
    by simp
  moreover have "succeeded (dl_records d') Mark_Deleting" "succeeded (dl_records d') Finish"
    using all by (simp_all add: deletion_steps_def)
  ultimately have st: "tn_status (dl_tenant d') = target" by (simp add: on_track_def)
  have "\<not> target \<notin> {Archived, Deleted}" using assms(2) by simp
  then have "run_deletion env target c now d =
      (d', Inr \<lparr>dr_tenant_id = tn_id (dl_tenant d'), dr_status = target, dr_steps = rs1 @ rs2\<rparr>)"
    unfolding run_deletion_def run assms(5) by (simp add: st)
  with steps st show ?thesis by blast
qed

text \<open>Instances for the witnesses: the world is the list of what was called.\<close>

definition logged :: "string \<Rightarrow> (string list, 'a) state_op \<Rightarrow> (string list, 'a) state_op" where
  "logged m f w = f (w @ [m])"

definition log_services :: "(string list, unit) state_op \<Rightarrow> string list tenant_env" where
  "log_services hook = \<lparr>te_publish = (\<lambda>ty _ _ _ _. logged ty (sret (Inr ()))), te_audit = None,
     te_revoke_sessions = Some (\<lambda>_ _. logged ''revoke'' hook)\<rparr>"

definition log_env :: "(string list, unit) state_op \<Rightarrow> string list deletion_env" where
  "log_env hook = \<lparr>de_services = log_services hook, de_cancel_for_tenant = Some (\<lambda>_ _. logged ''cancel'' (sret (Inr 2))),
     de_business_cleanup = None, de_file_cleanup = None\<rparr>"

definition admin :: caller where
  "admin = \<lparr>ca_actor_id = ''u1'', ca_request_id = ''r1'', ca_reason = ''bye'',
     ca_decision = Some \<lparr>de_allowed = True, de_tenant_id = platform_tenant_id, de_user_id = ''u1'',
       de_resource = ''tenant'', de_action = ''delete'', de_reason = ''ok'', de_policy_version = None\<rparr>\<rparr>"

definition acme :: "tenant_status \<Rightarrow> tenant" where
  "acme st = \<lparr>tn_id = ''t1'', tn_name = ''Acme'', tn_code = ''acme'', tn_status = st, tn_deployment_mode = ''local''\<rparr>"

lemma admin_may_delete: "assert_tenant_mutation_authorized (ca_decision admin) (ca_actor_id admin) ''delete'' = Inr ()"
  by (simp add: assert_tenant_mutation_authorized_def assert_authorization_ok admin_def)

lemma log_env_returns: "returns hook \<Longrightarrow> all_return (log_env hook)"
  by (auto simp: all_return_def log_env_def log_services_def returns_def logged_def)

theorem deletion_recovers_witness:
  "\<exists>d' rs. run_deletion (log_env (sret (Inr ()))) Archived admin (\<lambda>_. 9)
      (fst (run_deletion (log_env (sret (Inl (PyError ''OSError'' ''down'')))) Archived admin (\<lambda>_. 5)
        \<lparr>dl_tenant = acme Active, dl_records = Map.empty, dl_world = []\<rparr>)) =
      (d', Inr \<lparr>dr_tenant_id = tn_id (dl_tenant d'), dr_status = Archived, dr_steps = rs\<rparr>)"
proof -
  have st: "tn_status (acme Active) \<in> {Active, Suspended}" by (simp add: acme_def)
  have all: "all_return (log_env (sret (Inr ())))" by (rule log_env_returns) simp
  show ?thesis
    using deletion_recovers [where target = Archived and w = "[]" and now = "\<lambda>_. 9" and
        failed = "[(log_env (sret (Inl (PyError ''OSError'' ''down''))), admin, \<lambda>_. 5)]",
        OF st _ refl all admin_may_delete] by auto
qed

section \<open>What a failed first step loses\<close>

text \<open>Environments that differ only in the session hook and in what publishes \<open>tenant.deleting\<close>.\<close>

definition agree_after_deleting :: "'w deletion_env \<Rightarrow> 'w deletion_env \<Rightarrow> bool" where
  "agree_after_deleting env env' \<longleftrightarrow>
     de_cancel_for_tenant env = de_cancel_for_tenant env' \<and> de_business_cleanup env = de_business_cleanup env' \<and>
     de_file_cleanup env = de_file_cleanup env' \<and> te_audit (de_services env) = te_audit (de_services env') \<and>
     (\<forall>ty. ty \<noteq> ''tenant.deleting'' \<longrightarrow> te_publish (de_services env) ty = te_publish (de_services env') ty)"

lemma transition_agree:
  assumes "te_audit env = te_audit env'" and "te_publish env ty = te_publish env' ty"
  shows "transition env target ty c False mutation st = transition env' target ty c False mutation st"
proof -
  have p: "publish_lifecycle_event env' ty = publish_lifecycle_event env ty"
    by (intro ext) (simp add: publish_lifecycle_event_def assms(2))
  have a: "audit_transition env' ty = audit_transition env ty"
    by (intro ext) (simp add: audit_transition_def assms(1))
  show ?thesis unfolding transition_def p a if_False ..
qed

lemma execute_step_agree:
  assumes "agree_after_deleting env env'" and "step = Mark_Deleting \<Longrightarrow> tn_status (fst st) = Deleting"
  shows "execute_step env target c step st = execute_step env' target c step st"
proof (cases step)
  case Mark_Deleting
  then show ?thesis using assms by (cases st) (simp add: mark_deleting_def)
next
  case Finish
  have t: "transition ((de_services env)\<lparr>te_revoke_sessions := None\<rparr>) target ty c False ''delete'' =
      transition ((de_services env')\<lparr>te_revoke_sessions := None\<rparr>) target ty c False ''delete''"
    if "ty = ''tenant.archived'' \<or> ty = ''tenant.deleted''" for ty
    using assms(1) that by (intro ext transition_agree) (auto simp: agree_after_deleting_def)
  have "transition ((de_services env)\<lparr>te_revoke_sessions := None\<rparr>) target
        (if target = Archived then ''tenant.archived'' else ''tenant.deleted'') c False ''delete'' =
      transition ((de_services env')\<lparr>te_revoke_sessions := None\<rparr>) target
        (if target = Archived then ''tenant.archived'' else ''tenant.deleted'') c False ''delete''"
    by (rule t) simp
  then have "finish_delete_tenant ((de_services env)\<lparr>te_revoke_sessions := None\<rparr>) target c =
      finish_delete_tenant ((de_services env')\<lparr>te_revoke_sessions := None\<rparr>) target c"
    unfolding finish_delete_tenant_def by (simp only:)
  then have "finish_deletion env target c = finish_deletion env' target c"
    unfolding finish_deletion_def by (simp only:)
  with Finish show ?thesis by (simp only: execute_step.simps)
qed (use assms in \<open>simp_all add: agree_after_deleting_def cancel_tenant_tasks_def\<close>)

lemma run_step_agree:
  assumes "agree_after_deleting env env'" and "step = Mark_Deleting \<Longrightarrow> tn_status (dl_tenant d) = Deleting"
  shows "run_step env target c n step r d = run_step env' target c n step r d"
proof -
  have e: "execute_step env' target c step (dl_tenant d, dl_world d) =
      execute_step env target c step (dl_tenant d, dl_world d)"
    by (rule execute_step_agree [OF assms(1), symmetric]) (simp add: assms(2))
  have a: "audit_step env' = audit_step env"
    using assms(1) by (intro ext) (simp add: audit_step_def agree_after_deleting_def)
  show ?thesis unfolding run_step_def e a ..
qed

lemma run_steps_agree:
  assumes "agree_after_deleting env env'" and "Mark_Deleting \<notin> set steps"
  shows "run_steps env target c now steps d = run_steps env' target c now steps d"
  using assms(2)
proof (induction steps arbitrary: d)
  case (Cons x xs)
  have r: "run_step env' target c n x r d = run_step env target c n x r d" for n r d
    using Cons.prems by (intro run_step_agree [OF assms(1), symmetric]) auto
  have rest: "run_steps env' target c now xs d = run_steps env target c now xs d" for d
    using Cons by simp
  show ?case unfolding run_steps.simps(2) r rest ..
qed simp

lemma run_deletion_agree:
  assumes "agree_after_deleting env env'" and "tn_status (dl_tenant d) = Deleting"
  shows "run_deletion env target c now d = run_deletion env' target c now d"
proof -
  let ?rest = "[Cancel_Tasks, Cleanup_Business_Data, Cleanup_Files, Finish]"
  have rest: "run_steps env' target c now ?rest d = run_steps env target c now ?rest d" for d
    by (rule run_steps_agree [OF assms(1), symmetric]) simp
  have "run_step env' target c n Mark_Deleting r (d\<lparr>dl_records := recs\<rparr>) =
      run_step env target c n Mark_Deleting r (d\<lparr>dl_records := recs\<rparr>)" for n r recs
    by (rule run_step_agree [OF assms(1), symmetric]) (simp add: assms(2))
  then have "visit_step env' target c now Mark_Deleting d = visit_step env target c now Mark_Deleting d"
    unfolding visit_step_def run_steps.simps Let_def by simp
  then have "run_steps env' target c now deletion_steps d = run_steps env target c now deletion_steps d"
    unfolding deletion_steps_def run_steps_visit [of _ _ _ _ Mark_Deleting] rest by simp
  then show ?thesis unfolding run_deletion_def by (simp only:)
qed

text \<open>A deletion whose first step failed after it moved the tenant never tells anyone: when the
  session revocation of \<open>begin_delete_tenant\<close> raises, the tenant is already deleting and the step is
  recorded as failed, to be retried; every retry then finds the tenant deleting and passes the step,
  so no retry revokes a session or publishes \<open>tenant.deleting\<close>: it does the same with any session
  hook and with any publisher that agrees on the other events.\<close>

theorem failed_revocation_is_not_retried:
  assumes "tn_status t \<in> {Active, Suspended}" and "target \<in> {Archived, Deleted}"
    and "assert_tenant_mutation_authorized (ca_decision c) (ca_actor_id c) ''delete'' = Inr ()"
    and "te_revoke_sessions (de_services env) = Some hook" and "hook (tn_id t) (ca_reason c) w = (w1, Inl e)"
    and "run_deletion env target c now \<lparr>dl_tenant = t, dl_records = Map.empty, dl_world = w\<rparr> = (d, res)"
    and "agree_after_deleting env1 env2"
  shows "tn_status (dl_tenant d) = Deleting \<and>
    sr_status (step_record_of d Mark_Deleting) = Step_Failed \<and> (\<exists>e'. res = Inl e') \<and>
    run_deletion env1 target c' now' d = run_deletion env2 target c' now' d"
proof -
  let ?d0 = "\<lparr>dl_tenant = t, dl_records = Map.empty, dl_world = w\<rparr>"
  let ?d1 = "?d0\<lparr>dl_records := [Mark_Deleting \<mapsto> pending_record Mark_Deleting]\<rparr>"
  have al: "tn_status t \<noteq> Deleting" "Deleting \<in> allowed_transitions (tn_status t)" using assms(1) by auto
  have "mark_deleting env c (t, w) = ((t\<lparr>tn_status := Deleting\<rparr>, w1), Inl e)"
    using al assms(3-5) by (simp add: mark_deleting_def begin_delete_tenant_def transition_def
        validate_tenant_transition_def revoke_sessions_def sbind_def)
  then have step: "\<exists>w2 e'. run_step env target c (now Mark_Deleting) Mark_Deleting (pending_record Mark_Deleting) ?d1 =
      (\<lparr>dl_tenant = t\<lparr>tn_status := Deleting\<rparr>,
        dl_records = [Mark_Deleting \<mapsto> failed_step (now Mark_Deleting) e (pending_record Mark_Deleting)],
        dl_world = w2\<rparr>, Inl e')"
    by (auto simp: run_step_def Let_def split: prod.splits sum.splits)
  then obtain w2 e' where "run_steps env target c now deletion_steps ?d0 =
      (\<lparr>dl_tenant = t\<lparr>tn_status := Deleting\<rparr>,
        dl_records = [Mark_Deleting \<mapsto> failed_step (now Mark_Deleting) e (pending_record Mark_Deleting)],
        dl_world = w2\<rparr>, Inl e')"
    by (auto simp: deletion_steps_def run_steps.simps(2) [of _ _ _ _ Mark_Deleting] step_record_of_def
        pending_record_def)
  then have d: "d = \<lparr>dl_tenant = t\<lparr>tn_status := Deleting\<rparr>,
        dl_records = [Mark_Deleting \<mapsto> failed_step (now Mark_Deleting) e (pending_record Mark_Deleting)],
        dl_world = w2\<rparr>" and res: "res = Inl e'"
    using assms(2,3,6) by (auto simp: run_deletion_def)
  have "tn_status (dl_tenant d) = Deleting" by (simp add: d)
  then show ?thesis using run_deletion_agree [OF assms(7)] res
    by (auto simp: d step_record_of_def failed_step_def)
qed

theorem failed_revocation_is_not_retried_witness:
  "\<exists>d res. run_deletion (log_env (sret (Inl (PyError ''OSError'' ''down'')))) Archived admin (\<lambda>_. 5)
      \<lparr>dl_tenant = acme Active, dl_records = Map.empty, dl_world = []\<rparr> = (d, res) \<and>
    run_deletion (log_env (sret (Inr ()))) Archived admin (\<lambda>_. 9) d =
      run_deletion (log_env (sret (Inl (PyError ''OSError'' ''down'')))) Archived admin (\<lambda>_. 9) d"
proof -
  let ?bad = "log_env (sret (Inl (PyError ''OSError'' ''down'')))"
  obtain d res where r: "run_deletion ?bad Archived admin (\<lambda>_. 5)
      \<lparr>dl_tenant = acme Active, dl_records = Map.empty, dl_world = []\<rparr> = (d, res)" by (metis surj_pair)
  have st: "tn_status (acme Active) \<in> {Active, Suspended}" by (simp add: acme_def)
  have hook: "te_revoke_sessions (de_services ?bad) =
      Some (\<lambda>_ _. logged ''revoke'' (sret (Inl (PyError ''OSError'' ''down''))))"
    by (simp add: log_env_def log_services_def)
  have fails: "(\<lambda>_ _. logged ''revoke'' (sret (Inl (PyError ''OSError'' ''down'')))) (tn_id (acme Active))
      (ca_reason admin) [] = ([''revoke''], Inl (PyError ''OSError'' ''down''))"
    by (simp add: logged_def)
  have agree: "agree_after_deleting (log_env (sret (Inr ()))) ?bad"
    by (simp add: agree_after_deleting_def log_env_def log_services_def)
  show ?thesis
    using failed_revocation_is_not_retried [OF st _ admin_may_delete hook fails r agree] r by blast
qed

text \<open>An archived tenant stays archived: once a deletion towards the archive has succeeded in every
  step, a run towards \<open>deleted\<close>, a transition the lifecycle allows, reports success with the status
  \<open>archived\<close>, having called nothing and changed nothing.\<close>

theorem archived_deletion_is_not_resumed:
  assumes "tn_status (dl_tenant d) = Archived" and "\<forall>step \<in> set deletion_steps. succeeded (dl_records d) step"
    and "assert_tenant_mutation_authorized (ca_decision c) (ca_actor_id c) ''delete'' = Inr ()"
  shows "Deleted \<in> allowed_transitions (tn_status (dl_tenant d)) \<and>
    run_deletion env Deleted c now d = (d, Inr \<lparr>dr_tenant_id = tn_id (dl_tenant d), dr_status = Archived,
      dr_steps = map (step_record_of d) deletion_steps\<rparr>)"
proof -
  have "\<not> Deleted \<notin> {Archived, Deleted}" by simp
  then show ?thesis
    unfolding run_deletion_def run_steps_succeeded [OF assms(2)] assms(3) by (simp add: assms(1))
qed

definition done_record :: "deletion_step \<Rightarrow> step_record" where
  "done_record step = succeeded_step 5 [] (pending_record step)"

theorem archived_deletion_is_not_resumed_witness:
  "dr_status (projr (snd (run_deletion (log_env (sret (Inr ()))) Deleted admin (\<lambda>_. 9)
     \<lparr>dl_tenant = acme Archived, dl_records = (\<lambda>step. Some (done_record step)), dl_world = []\<rparr>))) = Archived"
  using archived_deletion_is_not_resumed [OF _ _ admin_may_delete, of
      "\<lparr>dl_tenant = acme Archived, dl_records = (\<lambda>step. Some (done_record step)), dl_world = []\<rparr>"
      "log_env (sret (Inr ()))" "\<lambda>_. 9"]
  by (simp add: acme_def succeeded_def done_record_def succeeded_step_def)

section \<open>Statuses do not come back\<close>

datatype 'w lifecycle_call =
    Suspend_Call "'w tenant_env" caller
  | Reactivate_Call "'w tenant_env" caller
  | Begin_Delete_Call "'w tenant_env" caller
  | Finish_Delete_Call "'w tenant_env" tenant_status caller

fun do_call :: "'w lifecycle_call \<Rightarrow> tenant \<times> 'w \<Rightarrow> tenant \<times> 'w" where
  "do_call (Suspend_Call env c) st = fst (suspend_tenant env c st)"
| "do_call (Reactivate_Call env c) st = fst (reactivate_tenant env c st)"
| "do_call (Begin_Delete_Call env c) st = fst (begin_delete_tenant env c st)"
| "do_call (Finish_Delete_Call env target c) st = fst (finish_delete_tenant env target c st)"

lemma transition_closed:
  assumes "tn_status (fst st) \<in> {Deleting, Archived, Deleted}"
  shows "tn_status (fst (fst (transition env target ty c revoke mutation st))) \<in> {Deleting, Archived, Deleted}"
proof -
  let ?s = "tn_status (fst (fst (transition env target ty c revoke mutation st)))"
  have "?s = tn_status (fst st) \<or> ?s \<in> allowed_transitions (tn_status (fst st))"
    using transition_status [of env target ty c revoke mutation st] by auto
  with assms show ?thesis by auto
qed

lemma do_call_closed:
  assumes "tn_status (fst st) \<in> {Deleting, Archived, Deleted}"
  shows "tn_status (fst (do_call call st)) \<in> {Deleting, Archived, Deleted}"
proof (cases call)
  case (Finish_Delete_Call env target c)
  then show ?thesis using assms transition_closed [OF assms]
    by (simp only: do_call.simps finish_delete_tenant_def split: if_split) auto
qed (use transition_closed [OF assms] in
  \<open>simp_all only: do_call.simps suspend_tenant_def reactivate_tenant_def begin_delete_tenant_def\<close>)

text \<open>Deletion is one way: once a tenant is being deleted, whatever the service is asked afterwards,
  by anyone and with any hooks, the tenant is deleting, archived or deleted; so under every policy no
  login, no write and no task is allowed, a read or a download only of an archived tenant whose policy
  says so, and a cleanup only while it is deleting.\<close>

theorem deletion_is_one_way:
  assumes "tn_status (fst st) = Deleting"
  shows "let s = tn_status (fst (fold do_call calls st)) in
    s \<in> {Deleting, Archived, Deleted} \<and>
    (\<forall>oper policy. is_tenant_operation_allowed s oper policy \<longleftrightarrow>
       oper = Admin \<or> s = Deleting \<and> oper = Background_Cleanup \<or>
       s = Archived \<and> (\<exists>p. policy = Some p \<and>
         (oper = Read \<and> allow_archived_read p \<or> oper = File_Download \<and> allow_archived_file_download p)))"
proof -
  have "tn_status (fst (fold do_call calls st)) \<in> {Deleting, Archived, Deleted}"
    if "tn_status (fst st) \<in> {Deleting, Archived, Deleted}" for st :: "tenant \<times> 'a"
    using that by (induction calls arbitrary: st) (simp_all only: fold_simps comp_apply id_apply do_call_closed)
  from this [of st] assms show ?thesis
    by (auto simp: Let_def is_tenant_operation_allowed_def default_policy_def split: option.split)
qed

theorem deletion_is_one_way_witness:
  "\<not> is_tenant_operation_allowed (tn_status (fst (fold do_call
     [Reactivate_Call (log_services (sret (Inr ()))) admin, Finish_Delete_Call (log_services (sret (Inr ()))) Archived admin]
     (acme Deleting, [])))) Write None"
  using deletion_is_one_way [of "(acme Deleting, [])"
      "[Reactivate_Call (log_services (sret (Inr ()))) admin, Finish_Delete_Call (log_services (sret (Inr ()))) Archived admin]"]
  by (simp add: Let_def acme_def)

section \<open>Resolution\<close>

text \<open>C37: A request works only in a tenant that is open to its user: when the resolver returns, the user is
  an active member of that tenant, the tenant's status allows the operation, the tenant is the one of
  the token, or of the user, or, only without those and only where headers are allowed, the
  header's; a header that was given agrees; and a request context, which was not frozen, is now bound
  to that user and tenant and frozen.\<close>

theorem resolved_tenant_is_open:
  assumes "resolve_database_tenant tenants members policy user user_tenant token header oper allow_header ctx
      = (ctx', Inr t)"
  shows "(\<exists>m \<in> set members. tm_user_id m = user \<and> tm_tenant_id m = t \<and> tm_status m = ''active'') \<and>
    (\<exists>x \<in> set tenants. tn_id x = t \<and> is_tenant_operation_allowed (tn_status x) oper policy) \<and>
    (if present token then token = Some t else if present user_tenant then user_tenant = Some t
     else header = Some t \<and> allow_header \<or> user_tenant = Some t \<and> \<not> present header) \<and>
    (present header \<longrightarrow> allow_header \<and> header = Some t) \<and>
    (case ctx of None \<Rightarrow> ctx' = None
     | Some x \<Rightarrow> \<not> rx_frozen x \<and>
         ctx' = Some (x\<lparr>rx_user_id := Some user, rx_tenant_id := Some t, rx_frozen := True\<rparr>))"
proof -
  let ?token = "or_else token user_tenant"
  let ?u = "\<lparr>tu_user_id = user, tu_default_tenant_id = user_tenant, tu_memberships = memberships_of members user\<rparr>"
  obtain s where s: "select_tenant_id ?token header user_tenant allow_header = Inr s"
    and run: "resolve_current_tenant (Some ?u) ?token header (tenant_record_for tenants s) oper policy allow_header ctx
      = (ctx', Inr t)"
    using assms by (auto simp: resolve_database_tenant_def Let_def split: sum.splits)
  obtain r where r: "tenant_record_for tenants s = Some r"
    and sel: "select_tenant_id ?token header user_tenant allow_header = Inr (Some t)"
    and mem: "has_active_membership ?u t" and allowed: "is_tenant_operation_allowed (tr_status r) oper policy"
    and bind: "bind_context ?u t ctx = (ctx', Inr t)"
    using resolve_current_tenant_Inr [OF run] by auto
  have "\<exists>m \<in> set members. tm_user_id m = user \<and> tm_tenant_id m = t \<and> tm_status m = ''active''"
    using mem by (auto simp: has_active_membership_def memberships_of_def list_ex_iff)
  moreover have "\<exists>x \<in> set tenants. tn_id x = t \<and> is_tenant_operation_allowed (tn_status x) oper policy"
    using r sel s allowed by (auto simp: tenant_record_for_def find_Some_iff)
  moreover have "present header \<longrightarrow> allow_header" "present ?token \<longrightarrow> present header \<longrightarrow> ?token = header"
    and "Some t = or_else ?token (or_else header user_tenant)"
    using sel unfolding select_tenant_ok by auto
  moreover have "case ctx of None \<Rightarrow> ctx' = None
     | Some x \<Rightarrow> \<not> rx_frozen x \<and>
         ctx' = Some (x\<lparr>rx_user_id := Some user, rx_tenant_id := Some t, rx_frozen := True\<rparr>)"
    using bind_context_tenant [OF bind] by (simp split: option.splits)
  ultimately show ?thesis by (auto simp: or_else_def present_def split: if_splits)
qed

theorem resolved_tenant_is_open_witness:
  "resolve_database_tenant [acme Suspended] [\<lparr>tm_tenant_id = ''t1'', tm_user_id = ''u1'', tm_status = ''active''\<rparr>]
     None ''u1'' None None (Some ''t1'') Read True None = (None, Inr ''t1'') \<and>
   is_tenant_operation_allowed (tn_status (acme Suspended)) Read None"
proof -
  have "resolve_database_tenant [acme Suspended] [\<lparr>tm_tenant_id = ''t1'', tm_user_id = ''u1'', tm_status = ''active''\<rparr>]
     None ''u1'' None None (Some ''t1'') Read True None = (None, Inr ''t1'')"
    by code_simp
  with resolved_tenant_is_open [OF this] show ?thesis by (simp add: acme_def)
qed

end
