(* ===== verification/Python_Text.thy ===== *)
theory Python_Text
  imports Errors
begin

text \<open>
  The string operations of Python that the later components use: \<open>int\<close> of a text, \<open>split\<close> at a
  character, the tests for a prefix and a suffix, and a map over a list that raises at the first
  element that fails.
\<close>

section \<open>Reading integers\<close>

text \<open>\<open>int(text)\<close>: white space around it, a sign, digits with single underscores between them.\<close>

fun digits_value :: "nat \<Rightarrow> bool \<Rightarrow> string \<Rightarrow> nat option" where
  "digits_value acc after_digit [] = (if after_digit then Some acc else None)"
| "digits_value acc after_digit (c # cs) =
     (if digit_char c then digits_value (10 * acc + (of_char c - 48)) True cs
      else if c = CHR ''_'' \<and> after_digit then digits_value acc False cs
      else None)"

definition parse_int :: "string \<Rightarrow> int option" where
  "parse_int s =
    (case strip s of
       [] \<Rightarrow> None
     | c # cs \<Rightarrow>
         if c = CHR ''-'' then map_option (\<lambda>n. - int n) (digits_value 0 False cs)
         else if c = CHR ''+'' then map_option int (digits_value 0 False cs)
         else map_option int (digits_value 0 False (c # cs)))"

definition py_int :: "string \<Rightarrow> int result" where
  "py_int s = (case parse_int s of Some n \<Rightarrow> Inr n
     | None \<Rightarrow> Inl (value_error (''invalid literal for int() with base 10: '' @ repr_str s)))"

text \<open>What \<open>str\<close> writes of an integer \<open>int\<close> reads back.\<close>

lemma digit_char_digit: "n < 10 \<Longrightarrow> digit_char (digit n)"
  by (simp add: digit_char_def of_char_digit)

lemma digits_value_snoc_after:
  "list_all digit_char ds \<Longrightarrow> d < 10 \<Longrightarrow>
     digits_value acc True (ds @ [digit d]) = map_option (\<lambda>n. 10 * n + d) (digits_value acc True ds)"
  by (induction ds arbitrary: acc) (auto simp: digit_char_digit of_char_digit)

lemma digits_value_snoc:
  "list_all digit_char ds \<Longrightarrow> ds \<noteq> [] \<Longrightarrow> d < 10 \<Longrightarrow>
     digits_value acc b (ds @ [digit d]) = map_option (\<lambda>n. 10 * n + d) (digits_value acc b ds)"
  by (cases ds) (auto simp: digits_value_snoc_after)

lemma nat_str_digits: "list_all digit_char (nat_str n)"
  by (auto simp: list_all_iff dest!: nat_str_chars intro: digit_char_digit)

lemma digits_value_nat_str: "digits_value 0 False (nat_str n) = Some n"
proof (induction n rule: nat_str.induct)
  case (1 n)
  show ?case
  proof (cases "n < 10")
    case True
    then show ?thesis by (subst nat_str.simps) (simp add: digit_char_digit of_char_digit)
  next
    case False
    then have "digits_value 0 False (nat_str n) =
        map_option (\<lambda>m. 10 * m + n mod 10) (digits_value 0 False (nat_str (n div 10)))"
      by (subst nat_str.simps) (simp add: digits_value_snoc nat_str_digits)
    with 1 False show ?thesis by simp
  qed
qed

lemma digit_char_not_space: "digit_char c \<Longrightarrow> \<not> is_space c"
  by (auto simp: digit_char_def is_space_def Let_def)

lemma strip_no_space: "list_all (\<lambda>c. \<not> is_space c) s \<Longrightarrow> strip s = s"
proof -
  assume a: "list_all (\<lambda>c. \<not> is_space c) s"
  have d: "dropWhile is_space t = t" if "list_all (\<lambda>c. \<not> is_space c) t" for t
    using that by (cases t) auto
  from a have "list_all (\<lambda>c. \<not> is_space c) (rev s)" by (simp add: list_all_iff)
  with a show ?thesis by (simp add: strip_def d)
qed

lemma nat_str_no_space: "list_all (\<lambda>c. \<not> is_space c) (nat_str n)"
  using nat_str_digits digit_char_not_space by (auto simp: list_all_iff)

lemma parse_int_str: "parse_int (int_str i) = Some i"
proof (cases "i < 0")
  case True
  have "strip (CHR ''-'' # nat_str (nat (- i))) = CHR ''-'' # nat_str (nat (- i))"
    by (rule strip_no_space) (simp add: nat_str_no_space, simp add: is_space_def)
  with True show ?thesis by (simp add: parse_int_def int_str_def digits_value_nat_str)
next
  case False
  obtain c cs where s: "nat_str (nat i) = c # cs" by (cases "nat_str (nat i)") auto
  have "digit_char c" using nat_str_digits [of "nat i"] s by simp
  then have "c \<noteq> CHR ''-''" and "c \<noteq> CHR ''+''" by (auto simp: digit_char_def Let_def)
  moreover have "strip (nat_str (nat i)) = nat_str (nat i)"
    by (rule strip_no_space) (rule nat_str_no_space)
  ultimately show ?thesis
    using False s digits_value_nat_str [of "nat i"]
    by (simp add: parse_int_def int_str_def del: digits_value.simps)
qed

section \<open>Splitting and testing\<close>

fun split_on :: "char \<Rightarrow> string \<Rightarrow> string list" where
  "split_on c [] = [[]]"
| "split_on c (x # xs) =
     (if x = c then [] # split_on c xs
      else (case split_on c xs of [] \<Rightarrow> [[x]] | p # ps \<Rightarrow> (x # p) # ps))"

lemma split_on_nonempty [simp]: "split_on c s \<noteq> []"
  by (cases s) (auto split: list.split)

lemma join_split_on: "join [c] (split_on c s) = s"
proof (induction s)
  case (Cons x xs)
  then show ?case
    by (cases "split_on c xs"; cases "tl (split_on c xs)") auto
qed simp

lemma split_on_free: "c \<notin> set s \<Longrightarrow> split_on c s = [s]"
  by (induction s) auto

fun starts_with :: "string \<Rightarrow> string \<Rightarrow> bool" where
  "starts_with s [] = True"
| "starts_with [] (p # ps) = False"
| "starts_with (c # s) (p # ps) = (c = p \<and> starts_with s ps)"

lemma starts_with_iff: "starts_with s p \<longleftrightarrow> (\<exists>t. s = p @ t)"
  by (induction s p rule: starts_with.induct) auto

definition ends_with :: "string \<Rightarrow> string \<Rightarrow> bool" where
  "ends_with s p = starts_with (rev s) (rev p)"

lemma ends_with_iff: "ends_with s p \<longleftrightarrow> (\<exists>t. s = t @ p)"
proof
  assume "ends_with s p"
  then obtain t where "rev s = rev p @ t" by (auto simp: ends_with_def starts_with_iff)
  then have "s = rev t @ p" by (metis rev_append rev_rev_ident)
  then show "\<exists>t. s = t @ p" ..
next
  assume "\<exists>t. s = t @ p"
  then show "ends_with s p" by (auto simp: ends_with_def starts_with_iff)
qed

text \<open>Substring test, \<open>p in s\<close>.\<close>

fun contains :: "string \<Rightarrow> string \<Rightarrow> bool" where
  "contains [] p = (p = [])"
| "contains (c # s) p = (starts_with (c # s) p \<or> contains s p)"

lemma contains_iff: "contains s p \<longleftrightarrow> (\<exists>t u. s = t @ p @ u)"
proof (induction s)
  case (Cons c s)
  then show ?case by (auto simp: starts_with_iff Cons_eq_append_conv)
qed auto

text \<open>\<open>s.rpartition(c)\<close> without the separator: what precedes its last occurrence, nothing when there is
  none, and what follows.\<close>

fun rpartition :: "char \<Rightarrow> string \<Rightarrow> string \<times> string" where
  "rpartition c [] = ([], [])"
| "rpartition c (x # xs) =
     (if c \<in> set xs then (x # fst (rpartition c xs), snd (rpartition c xs))
      else if x = c then ([], xs)
      else ([], x # xs))"

lemma rpartition_split: "c \<in> set s \<Longrightarrow> rpartition c s = (a, b) \<Longrightarrow> s = a @ c # b \<and> c \<notin> set b"
proof (induction s arbitrary: a)
  case (Cons x xs)
  show ?case
  proof (cases "c \<in> set xs")
    case True
    then obtain a' where "rpartition c xs = (a', b)" and "a = x # a'"
      using Cons.prems by (cases "rpartition c xs") auto
    with Cons.IH True show ?thesis by simp
  next
    case False
    with Cons.prems show ?thesis by (auto split: if_splits)
  qed
qed simp

lemma rpartition_none: "c \<notin> set s \<Longrightarrow> rpartition c s = ([], s)"
  by (cases s) auto

text \<open>\<open>str.lower\<close> on code points below 256.\<close>

definition lower_char :: "char \<Rightarrow> char" where
  "lower_char c = (let n = of_char c :: nat in
     if 65 \<le> n \<and> n \<le> 90 \<or> 192 \<le> n \<and> n \<le> 222 \<and> n \<noteq> 215 then char_of (n + 32) else c)"

definition lower :: "string \<Rightarrow> string" where
  "lower s = map lower_char s"

section \<open>Loops that raise\<close>

text \<open>A loop over a list whose body checks an element and may raise.\<close>

fun check_all :: "('a \<Rightarrow> unit result) \<Rightarrow> 'a list \<Rightarrow> unit result" where
  "check_all f [] = Inr ()"
| "check_all f (x # xs) = rbind (f x) (\<lambda>_. check_all f xs)"

lemma check_all_ok: "check_all f xs = Inr () \<longleftrightarrow> (\<forall>x \<in> set xs. f x = Inr ())"
  by (induction xs) (auto simp: rbind_Inr_iff)

lemma check_all_fails: "check_all f xs = Inl e \<longleftrightarrow>
    (\<exists>ys x zs. xs = ys @ x # zs \<and> (\<forall>y \<in> set ys. f y = Inr ()) \<and> f x = Inl e)"
proof (induction xs)
  case (Cons a xs)
  show ?case
  proof (cases "f a")
    case (Inl d)
    then have "f a \<noteq> Inr ()" by simp
    then show ?thesis using Inl by (force simp: Cons_eq_append_conv)
  next
    case (Inr u)
    then have u: "f a = Inr ()" by simp
    show ?thesis
    proof
      assume "check_all f (a # xs) = Inl e"
      with u Cons obtain ys x zs where
        "xs = ys @ x # zs" "\<forall>y \<in> set ys. f y = Inr ()" "f x = Inl e" by auto
      with u show "\<exists>ys x zs. a # xs = ys @ x # zs \<and> (\<forall>y \<in> set ys. f y = Inr ()) \<and> f x = Inl e"
        by (intro exI [of _ "a # ys"] exI [of _ x] exI [of _ zs]) simp
    next
      assume "\<exists>ys x zs. a # xs = ys @ x # zs \<and> (\<forall>y \<in> set ys. f y = Inr ()) \<and> f x = Inl e"
      then obtain ys x zs where
        e: "a # xs = ys @ x # zs" "\<forall>y \<in> set ys. f y = Inr ()" "f x = Inl e" by blast
      with u obtain ys' where "ys = a # ys'" by (cases ys) auto
      with e u Cons show "check_all f (a # xs) = Inl e" by auto
    qed
  qed
qed simp

text \<open>A loop that threads a state and may raise.\<close>

fun fold_result :: "('a \<Rightarrow> 's \<Rightarrow> 's result) \<Rightarrow> 'a list \<Rightarrow> 's \<Rightarrow> 's result" where
  "fold_result f [] s = Inr s"
| "fold_result f (x # xs) s = rbind (f x s) (fold_result f xs)"

lemma fold_result_invariant:
  assumes "fold_result f xs s = Inr s'" and "P s"
    and "\<And>x s s'. x \<in> set xs \<Longrightarrow> P s \<Longrightarrow> f x s = Inr s' \<Longrightarrow> P s'"
  shows "P s'"
  using assms by (induction xs arbitrary: s) (auto simp: rbind_Inr_iff)

lemma fold_result_append:
  "fold_result f (xs @ ys) s = rbind (fold_result f xs s) (fold_result f ys)"
proof (induction xs arbitrary: s)
  case (Cons x xs)
  then show ?case by (cases "f x s") auto
qed simp

end
