(* ===== verification/Task_Runs.thy ===== *)
theory Task_Runs
  imports Python_Text "HOL-Library.List_Lexorder" "HOL-Library.Char_ord" "HOL-Library.Product_Lexorder"
begin

text \<open>
  The table of task runs (\<open>core/tasks/models.py\<close>) and its repository (\<open>core/tasks/repository.py\<close>).

  A session loads a row as an object, changes attributes of the object, and a flush writes the
  attributes that changed to the row with the object's identifier, whatever other sessions have
  committed to that row since: \<open>save_run loaded object\<close> is that flush. The operations on an object
  are functions of it, the operations on the table load, change and save. A clock reading is an
  argument, as is \<open>created_at\<close>, which the server fills in.
\<close>

section \<open>Runs\<close>

datatype task_status =
  Task_Pending | Task_Running | Task_Succeeded | Task_Failed | Task_Dead_Letter | Task_Cancelled

fun task_status_name :: "task_status \<Rightarrow> string" where
  "task_status_name Task_Pending = ''pending''"
| "task_status_name Task_Running = ''running''"
| "task_status_name Task_Succeeded = ''succeeded''"
| "task_status_name Task_Failed = ''failed''"
| "task_status_name Task_Dead_Letter = ''dead_letter''"
| "task_status_name Task_Cancelled = ''cancelled''"

type_synonym task_payload = "(string \<times> pyval) list"

record task_envelope =
  tk_task_id :: string
  tk_task_type :: string
  tk_tenant_id :: string
  tk_payload :: task_payload
  tk_idempotency_key :: string
  tk_request_id :: string
  tk_trace_id :: "string option"

record task_run =
  tr_id :: string
  tr_tenant_id :: string
  tr_task_type :: string
  tr_idempotency_key :: string
  tr_status :: task_status
  tr_progress :: int
  tr_input_payload :: task_payload
  tr_result_payload :: "task_payload option"
  tr_error_message :: "string option"
  tr_queue :: string
  tr_attempt_count :: int
  tr_max_attempts :: int
  tr_request_id :: "string option"
  tr_trace_id :: "string option"
  tr_created_at :: instant
  tr_next_retry_at :: "instant option"
  tr_started_at :: "instant option"
  tr_finished_at :: "instant option"

type_synonym task_table = "task_run list"

definition to_task_envelope :: "task_run \<Rightarrow> task_envelope" where
  "to_task_envelope r =
    \<lparr>tk_task_id = tr_id r, tk_task_type = tr_task_type r, tk_tenant_id = tr_tenant_id r,
     tk_payload = tr_input_payload r, tk_idempotency_key = tr_idempotency_key r,
     tk_request_id = (case tr_request_id r of None \<Rightarrow> [] | Some i \<Rightarrow> i), tk_trace_id = tr_trace_id r\<rparr>"

section \<open>The flush of a changed object\<close>

definition changed :: "'a \<Rightarrow> 'a \<Rightarrow> 'a \<Rightarrow> 'a" where
  "changed loaded new stored = (if new = loaded then stored else new)"

lemma changed_simps [simp]: "changed v v s = s" "changed v n v = n"
  by (simp_all add: changed_def)

definition write_changes :: "task_run \<Rightarrow> task_run \<Rightarrow> task_run \<Rightarrow> task_run" where
  "write_changes loaded new r =
    r\<lparr>tr_status := changed (tr_status loaded) (tr_status new) (tr_status r),
      tr_progress := changed (tr_progress loaded) (tr_progress new) (tr_progress r),
      tr_result_payload := changed (tr_result_payload loaded) (tr_result_payload new) (tr_result_payload r),
      tr_error_message := changed (tr_error_message loaded) (tr_error_message new) (tr_error_message r),
      tr_attempt_count := changed (tr_attempt_count loaded) (tr_attempt_count new) (tr_attempt_count r),
      tr_next_retry_at := changed (tr_next_retry_at loaded) (tr_next_retry_at new) (tr_next_retry_at r),
      tr_started_at := changed (tr_started_at loaded) (tr_started_at new) (tr_started_at r),
      tr_finished_at := changed (tr_finished_at loaded) (tr_finished_at new) (tr_finished_at r)\<rparr>"

definition save_run :: "task_run \<Rightarrow> task_run \<Rightarrow> task_table \<Rightarrow> task_table" where
  "save_run loaded new runs = map (\<lambda>r. if tr_id r = tr_id loaded then write_changes loaded new r else r) runs"

section \<open>Creation\<close>

definition integrity_error :: "task_run \<Rightarrow> task_table \<Rightarrow> bool" where
  "integrity_error row runs = list_ex (\<lambda>r. tr_id r = tr_id row \<or>
     tr_tenant_id r = tr_tenant_id row \<and> tr_idempotency_key r = tr_idempotency_key row) runs"

definition get_by_idempotency_key :: "string \<Rightarrow> string \<Rightarrow> task_table \<Rightarrow> task_run option" where
  "get_by_idempotency_key tenant_id key runs =
     find (\<lambda>r. tr_tenant_id r = tenant_id \<and> tr_idempotency_key r = key) runs"

definition assert_same_idempotent_request :: "task_run \<Rightarrow> task_envelope \<Rightarrow> unit result" where
  "assert_same_idempotent_request r e =
    (if tr_task_type r = tk_task_type e \<and> tr_input_payload r = tk_payload e then Inr ()
     else Inl (app_error ''TASK_IDEMPOTENCY_KEY_CONFLICT''
       ''Task idempotency key was already used with a different task request'' (Some 409)
       [(''tenant_id'', PStr (tk_tenant_id e)), (''idempotency_key'', PStr (tk_idempotency_key e)),
        (''existing_task_id'', PStr (tr_id r)), (''existing_task_type'', PStr (tr_task_type r)),
        (''requested_task_type'', PStr (tk_task_type e))]))"

datatype start_outcome = Run_Started | Run_Replayed | Run_In_Progress

fun start_outcome_name :: "start_outcome \<Rightarrow> string" where
  "start_outcome_name Run_Started = ''started''"
| "start_outcome_name Run_Replayed = ''replayed''"
| "start_outcome_name Run_In_Progress = ''in_progress''"

text \<open>The INSERT under a savepoint, and what follows when a constraint refuses it: the existing run
  answers for a repeated request.\<close>

definition insert_once ::
  "string \<Rightarrow> task_run \<Rightarrow> task_envelope \<Rightarrow> task_table \<Rightarrow> task_table \<times> (start_outcome \<times> task_run) result" where
  "insert_once raced row e runs =
    (if integrity_error row runs then
       (case get_by_idempotency_key (tk_tenant_id e) (tk_idempotency_key e) runs of
          None \<Rightarrow> (runs, Inl (app_error ''CONFLICT'' raced (Some 409) []))
        | Some r \<Rightarrow> (runs, rbind (assert_same_idempotent_request r e) (\<lambda>_.
            Inr (if tr_status r \<in> {Task_Pending, Task_Running} then Run_In_Progress else Run_Replayed, r))))
     else (runs @ [row], Inr (Run_Started, row)))"

definition running_run :: "task_envelope \<Rightarrow> string \<Rightarrow> int \<Rightarrow> instant \<Rightarrow> instant \<Rightarrow> task_run" where
  "running_run e queue max_attempts created now =
    \<lparr>tr_id = tk_task_id e, tr_tenant_id = tk_tenant_id e, tr_task_type = tk_task_type e,
     tr_idempotency_key = tk_idempotency_key e, tr_status = Task_Running, tr_progress = 0,
     tr_input_payload = tk_payload e, tr_result_payload = None, tr_error_message = None,
     tr_queue = queue, tr_attempt_count = 1, tr_max_attempts = max_attempts,
     tr_request_id = Some (tk_request_id e), tr_trace_id = tk_trace_id e, tr_created_at = created,
     tr_next_retry_at = None, tr_started_at = Some now, tr_finished_at = None\<rparr>"

definition pending_run :: "task_envelope \<Rightarrow> string \<Rightarrow> int \<Rightarrow> instant \<Rightarrow> task_run" where
  "pending_run e queue max_attempts created =
    \<lparr>tr_id = tk_task_id e, tr_tenant_id = tk_tenant_id e, tr_task_type = tk_task_type e,
     tr_idempotency_key = tk_idempotency_key e, tr_status = Task_Pending, tr_progress = 0,
     tr_input_payload = tk_payload e, tr_result_payload = None, tr_error_message = None,
     tr_queue = queue, tr_attempt_count = 0, tr_max_attempts = max_attempts,
     tr_request_id = Some (tk_request_id e), tr_trace_id = tk_trace_id e, tr_created_at = created,
     tr_next_retry_at = None, tr_started_at = None, tr_finished_at = None\<rparr>"

definition start_once ::
  "task_envelope \<Rightarrow> string \<Rightarrow> int \<Rightarrow> instant \<Rightarrow> instant \<Rightarrow> task_table
    \<Rightarrow> task_table \<times> (start_outcome \<times> task_run) result" where
  "start_once e queue max_attempts created now =
     insert_once ''Task idempotency claim raced but no task run was found''
       (running_run e queue max_attempts created now) e"

definition enqueue_once ::
  "task_envelope \<Rightarrow> string \<Rightarrow> int \<Rightarrow> instant \<Rightarrow> task_table
    \<Rightarrow> task_table \<times> (start_outcome \<times> task_run) result" where
  "enqueue_once e queue max_attempts created =
     insert_once ''Task idempotency enqueue raced but no task run was found''
       (pending_run e queue max_attempts created) e"

definition get_run :: "string \<Rightarrow> task_table \<Rightarrow> task_run option" where
  "get_run task_id runs = find (\<lambda>r. tr_id r = task_id) runs"

definition require_run :: "string \<Rightarrow> task_table \<Rightarrow> task_run result" where
  "require_run task_id runs =
    (case get_run task_id runs of
       Some r \<Rightarrow> Inr r
     | None \<Rightarrow> Inl (app_error ''NOT_FOUND'' (''TaskRun '' @ repr_str task_id @ '' not found'') (Some 404) []))"

section \<open>Changes of one run\<close>

definition attempt_started :: "instant \<Rightarrow> task_run \<Rightarrow> task_run" where
  "attempt_started now r =
     r\<lparr>tr_status := Task_Running, tr_progress := 0, tr_attempt_count := tr_attempt_count r + 1,
       tr_result_payload := None, tr_error_message := None, tr_next_retry_at := None,
       tr_started_at := Some now, tr_finished_at := None\<rparr>"

definition start_pending :: "instant \<Rightarrow> task_run \<Rightarrow> task_run result" where
  "start_pending now r =
    (if tr_status r \<noteq> Task_Pending then
       Inl (app_error ''CONFLICT'' ''Only pending task runs can be claimed by a worker'' (Some 409) [])
     else Inr (attempt_started now r))"

definition start_retry :: "instant \<Rightarrow> task_run \<Rightarrow> task_run result" where
  "start_retry now r =
    (if tr_status r \<notin> {Task_Failed, Task_Dead_Letter} then
       Inl (app_error ''CONFLICT'' ''Only failed or dead-letter task runs can be retried'' (Some 409) [])
     else Inr (attempt_started now r))"

definition run_succeeded :: "task_payload option \<Rightarrow> instant \<Rightarrow> task_run \<Rightarrow> task_run" where
  "run_succeeded result now r =
     r\<lparr>tr_status := Task_Succeeded, tr_progress := 100, tr_result_payload := result,
       tr_error_message := None, tr_next_retry_at := None, tr_finished_at := Some now\<rparr>"

definition exhausted :: "task_run \<Rightarrow> bool" where
  "exhausted r \<longleftrightarrow> tr_max_attempts r \<le> tr_attempt_count r"

definition run_failed :: "string \<Rightarrow> instant \<Rightarrow> task_run \<Rightarrow> task_run" where
  "run_failed error_message now r =
     r\<lparr>tr_status := (if exhausted r then Task_Dead_Letter else Task_Failed),
       tr_error_message := Some error_message, tr_next_retry_at := None, tr_finished_at := Some now\<rparr>"

definition run_retry_pending :: "string \<Rightarrow> int \<Rightarrow> instant \<Rightarrow> task_run \<Rightarrow> task_run" where
  "run_retry_pending error_message backoff now r =
    (let r' = r\<lparr>tr_progress := 0, tr_result_payload := None, tr_error_message := Some error_message,
                tr_finished_at := Some now\<rparr> in
     if exhausted r then r'\<lparr>tr_status := Task_Dead_Letter, tr_next_retry_at := None\<rparr>
     else r'\<lparr>tr_status := Task_Pending, tr_next_retry_at := Some (now + secs (max 0 backoff))\<rparr>)"

definition run_recovered :: "string \<Rightarrow> instant \<Rightarrow> task_run \<Rightarrow> task_run" where
  "run_recovered error_message now r =
     r\<lparr>tr_status := (if exhausted r then Task_Dead_Letter else Task_Failed),
       tr_error_message := Some error_message, tr_finished_at := Some now\<rparr>"

definition run_cancelled :: "string \<Rightarrow> instant \<Rightarrow> task_run \<Rightarrow> task_run" where
  "run_cancelled reason now r =
     r\<lparr>tr_status := Task_Cancelled, tr_progress := 0, tr_error_message := Some reason,
       tr_next_retry_at := None, tr_finished_at := Some now\<rparr>"

section \<open>Operations on the table\<close>

definition claimable :: "string option \<Rightarrow> instant \<Rightarrow> task_run \<Rightarrow> bool" where
  "claimable queue now r \<longleftrightarrow> tr_status r = Task_Pending \<and>
     (tr_next_retry_at r = None \<or> when_some (tr_next_retry_at r) (\<lambda>t. t \<le> now)) \<and>
     (queue = None \<or> queue = Some (tr_queue r))"

definition claim_order :: "task_run \<Rightarrow> int \<times> string" where
  "claim_order r = (tr_created_at r, tr_id r)"

definition oldest_claimable :: "string option \<Rightarrow> instant \<Rightarrow> task_table \<Rightarrow> task_run option" where
  "oldest_claimable queue now runs =
    (case sort_key claim_order (filter (claimable queue now) runs) of [] \<Rightarrow> None | r # _ \<Rightarrow> Some r)"

text \<open>
  The SELECT takes no row lock and the UPDATE has no condition on the status: \<open>others\<close> is what other
  sessions commit in between.
\<close>

definition claim_next_pending ::
  "(task_table \<Rightarrow> task_table) \<Rightarrow> string option \<Rightarrow> instant \<Rightarrow> task_table \<Rightarrow> task_table \<times> task_run option result" where
  "claim_next_pending others queue now runs =
    (case oldest_claimable queue now runs of
       None \<Rightarrow> (runs, Inr None)
     | Some r \<Rightarrow> (case start_pending now r of
         Inl e \<Rightarrow> (others runs, Inl e)
       | Inr r' \<Rightarrow> (save_run r r' (others runs), Inr (Some r'))))"

text \<open>Recovery and cancellation change each row they selected.\<close>

definition save_all :: "(task_run \<Rightarrow> task_run) \<Rightarrow> task_run list \<Rightarrow> task_table \<Rightarrow> task_table" where
  "save_all f rows runs = fold (\<lambda>r. save_run r (f r)) rows runs"

definition stale :: "instant \<Rightarrow> task_run \<Rightarrow> bool" where
  "stale older_than r \<longleftrightarrow> tr_status r = Task_Running \<and> when_some (tr_started_at r) (\<lambda>t. t < older_than)"

definition started_key :: "task_run \<Rightarrow> int" where
  "started_key r = (case tr_started_at r of None \<Rightarrow> 0 | Some t \<Rightarrow> t)"

definition stale_runs :: "instant \<Rightarrow> nat \<Rightarrow> task_table \<Rightarrow> task_run list" where
  "stale_runs older_than limit runs = take limit (sort_key started_key (filter (stale older_than) runs))"

definition recover_stale_running ::
  "instant \<Rightarrow> nat \<Rightarrow> string \<Rightarrow> instant \<Rightarrow> task_table \<Rightarrow> task_table \<times> task_run list" where
  "recover_stale_running older_than limit error_message now runs =
    (let rows = stale_runs older_than limit runs; f = run_recovered error_message now in
     (save_all f rows runs, map f rows))"

definition cancellable :: "string \<Rightarrow> task_run \<Rightarrow> bool" where
  "cancellable tenant_id r \<longleftrightarrow>
     tr_tenant_id r = tenant_id \<and> tr_status r \<in> {Task_Pending, Task_Running, Task_Failed}"

definition cancel_for_tenant ::
  "string \<Rightarrow> string \<Rightarrow> instant \<Rightarrow> task_table \<Rightarrow> task_table \<times> task_run list" where
  "cancel_for_tenant tenant_id reason now runs =
    (let rows = sort_key claim_order (filter (cancellable tenant_id) runs); f = run_cancelled reason now in
     (save_all f rows runs, map f rows))"

definition list_failed :: "nat \<Rightarrow> task_table \<Rightarrow> task_run list" where
  "list_failed limit runs =
     take limit (sort_key tr_created_at (filter (\<lambda>r. tr_status r \<in> {Task_Failed, Task_Dead_Letter}) runs))"

end
