(* ===== verification/Task_Providers.thy ===== *)
theory Task_Providers
  imports Task_Runs Tenant_Lifecycle
begin

text \<open>
  The registry of task handlers (\<open>core/tasks/registry.py\<close>), the providers that run or queue a task
  (\<open>core/tasks/provider.py\<close>), what a Celery worker runs (\<open>core/tasks/celery_app.py\<close>) and one round of
  the worker loop (\<open>core/tasks/runtime.py\<close>).

  The state is the table of runs and a world of the handlers, \<open>'w\<close>. A handler is any operation on
  both: other sessions may commit to the table while it runs. \<open>import_handler\<close> is Python's import of
  the module and attribute at a dotted path. The background context that surrounds a handler is not
  carried.
\<close>

section \<open>The registry\<close>

type_synonym 'w task_state = "task_table \<times> 'w"

type_synonym 'w task_handler = "task_envelope \<Rightarrow> ('w task_state, task_payload option) state_op"

record task_handler_spec =
  ts_task_type :: string
  ts_handler_path :: string
  ts_queue :: string

record 'w registered_task =
  rt_app_label :: string
  rt_spec :: task_handler_spec
  rt_handler :: "'w task_handler"

type_synonym 'w task_registry = "(string \<times> 'w registered_task) list"

definition import_task_handler ::
  "(string \<Rightarrow> string \<Rightarrow> 'w task_handler result) \<Rightarrow> string \<Rightarrow> 'w task_handler result" where
  "import_task_handler import_handler path =
    (case rpartition CHR ''.'' path of (module, attribute) \<Rightarrow>
       if module = [] \<or> attribute = []
         then Inl (value_error (''Invalid task handler path: '' @ repr_str path))
       else import_handler module attribute)"

definition register_task ::
  "(string \<Rightarrow> string \<Rightarrow> 'w task_handler result) \<Rightarrow> string \<times> task_handler_spec \<Rightarrow> 'w task_registry
    \<Rightarrow> 'w task_registry result" where
  "register_task import_handler = (\<lambda>(app_label, spec) reg.
    if dget reg (ts_task_type spec) \<noteq> None
      then Inl (value_error (''Duplicate task handler for '' @ repr_str (ts_task_type spec)))
    else rbind (import_task_handler import_handler (ts_handler_path spec)) (\<lambda>h.
      Inr (dput (ts_task_type spec) \<lparr>rt_app_label = app_label, rt_spec = spec, rt_handler = h\<rparr> reg)))"

text \<open>\<open>from_app_registry\<close>: the handlers of every app module, in order.\<close>

definition task_registry_from ::
  "(string \<Rightarrow> string \<Rightarrow> 'w task_handler result) \<Rightarrow> (string \<times> task_handler_spec list) list
    \<Rightarrow> 'w task_registry result" where
  "task_registry_from import_handler modules =
     fold_result (register_task import_handler)
       (concat (map (\<lambda>(label, specs). map (Pair label) specs) modules)) []"

definition get_task :: "'w task_registry \<Rightarrow> string \<Rightarrow> 'w registered_task result" where
  "get_task reg task_type =
    (case dget reg task_type of
       Some r \<Rightarrow> Inr r
     | None \<Rightarrow> Inl (value_error (''No task handler registered for '' @ repr_str task_type)))"

section \<open>Results\<close>

record task_result =
  re_task_id :: string
  re_task_type :: string
  re_status :: task_status
  re_result_payload :: "task_payload option"
  re_error_message :: "string option"
  re_metadata :: "(string \<times> pyval) list"

definition task_result_ok :: "task_result \<Rightarrow> bool" where
  "task_result_ok r \<longleftrightarrow>
     re_status r \<in> {Task_Pending, Task_Running, Task_Succeeded} \<and> re_error_message r = None"

definition task_result_from_run ::
  "task_run \<Rightarrow> string \<Rightarrow> string \<Rightarrow> string \<Rightarrow> (string \<times> pyval) list \<Rightarrow> task_result" where
  "task_result_from_run r queue idempotency provider extra =
    \<lparr>re_task_id = tr_id r, re_task_type = tr_task_type r, re_status = tr_status r,
     re_result_payload = tr_result_payload r, re_error_message = tr_error_message r,
     re_metadata = [(''provider'', PStr provider), (''queue'', PStr queue),
       (''idempotency'', PStr idempotency)] @ extra\<rparr>"

definition executed_result ::
  "task_envelope \<Rightarrow> task_status \<Rightarrow> task_payload option \<Rightarrow> string option \<Rightarrow> string \<Rightarrow> string \<Rightarrow> task_result" where
  "executed_result e status result error_message provider queue =
    \<lparr>re_task_id = tk_task_id e, re_task_type = tk_task_type e, re_status = status,
     re_result_payload = result, re_error_message = error_message,
     re_metadata = [(''provider'', PStr provider), (''queue'', PStr queue)]\<rparr>"

definition error_text :: "exn \<Rightarrow> string" where
  "error_text e = exn_class e @ '': '' @ exn_text e"

definition check_task_allowed :: "string \<Rightarrow> tenant_status \<Rightarrow> unit result" where
  "check_task_allowed tenant_id status = assert_tenant_operation_allowed tenant_id status Task_Execution None"

section \<open>Execution\<close>

text \<open>
  \<open>_execute\<close> of both providers: the handler runs, then its outcome is written through the object
  that was loaded before it. \<open>on_error\<close> is the provider's treatment of a failure.
\<close>

definition execute ::
  "string \<Rightarrow> (string \<Rightarrow> task_run \<Rightarrow> task_run) \<Rightarrow> instant \<Rightarrow> 'w registered_task \<Rightarrow> task_run option
    \<Rightarrow> task_envelope \<Rightarrow> ('w task_state, task_result) state_op" where
  "execute provider on_error now task run e s =
    (let queue = ts_queue (rt_spec task) in
     case rt_handler task e s of
       ((runs, w), Inl err) \<Rightarrow>
         (case run of
            None \<Rightarrow> ((runs, w), Inr (executed_result e Task_Failed None (Some (error_text err)) provider queue))
          | Some r \<Rightarrow>
              let r' = on_error (error_text err) r in
              ((save_run r r' runs, w),
               Inr (executed_result e (tr_status r') None (Some (error_text err)) provider queue)))
     | ((runs, w), Inr result) \<Rightarrow>
         ((case run of None \<Rightarrow> runs | Some r \<Rightarrow> save_run r (run_succeeded result now r) runs, w),
          Inr (executed_result e Task_Succeeded result None provider queue)))"

definition sync_execute ::
  "instant \<Rightarrow> 'w registered_task \<Rightarrow> task_run option \<Rightarrow> task_envelope \<Rightarrow> ('w task_state, task_result) state_op" where
  "sync_execute now = execute ''sync'' (\<lambda>m. run_failed m now) now"

definition queue_execute ::
  "int \<Rightarrow> instant \<Rightarrow> 'w registered_task \<Rightarrow> task_run \<Rightarrow> task_envelope \<Rightarrow> ('w task_state, task_result) state_op" where
  "queue_execute backoff now task r =
     execute ''database-queue'' (\<lambda>m. run_retry_pending m backoff now) now task (Some r)"

text \<open>An operation on the table alone, and one that changes a loaded run and flushes it.\<close>

definition on_table :: "(task_table \<Rightarrow> task_table \<times> 'a result) \<Rightarrow> ('w task_state, 'a) state_op" where
  "on_table f s = (case f (fst s) of (runs, r) \<Rightarrow> ((runs, snd s), r))"

definition flush_run :: "(task_run \<Rightarrow> task_run result) \<Rightarrow> task_run \<Rightarrow> ('w task_state, task_run) state_op" where
  "flush_run f r s = (case f r of
     Inl e \<Rightarrow> (s, Inl e) | Inr r' \<Rightarrow> ((save_run r r' (fst s), snd s), Inr r'))"

section \<open>The synchronous provider\<close>

record sync_provider =
  sp_persists :: bool  \<comment> \<open>\<open>task_repository is not None\<close>\<close>
  sp_max_attempts :: int

definition sync_submit ::
  "'w task_registry \<Rightarrow> sync_provider \<Rightarrow> instant \<Rightarrow> instant \<Rightarrow> instant \<Rightarrow> tenant_status \<Rightarrow> task_envelope
    \<Rightarrow> ('w task_state, task_result) state_op" where
  "sync_submit reg p created started finished tenant_status e =
    sbind (sret (check_task_allowed (tk_tenant_id e) tenant_status)) (\<lambda>_.
    sbind (sret (get_task reg (tk_task_type e))) (\<lambda>task.
      let queue = ts_queue (rt_spec task) in
      if \<not> sp_persists p then sync_execute finished task None e
      else sbind (on_table (start_once e queue (sp_max_attempts p) created started)) (\<lambda>(outcome, r).
        if outcome \<noteq> Run_Started
          then sret (Inr (task_result_from_run r queue (start_outcome_name outcome) ''sync'' []))
        else sync_execute finished task (Some r) e)))"

definition sync_retry ::
  "'w task_registry \<Rightarrow> sync_provider \<Rightarrow> instant \<Rightarrow> instant \<Rightarrow> tenant_status \<Rightarrow> task_run
    \<Rightarrow> ('w task_state, task_result) state_op" where
  "sync_retry reg p started finished tenant_status r =
    (if \<not> sp_persists p
       then sret (Inl (PyError ''RuntimeError'' ''task_repository is required to retry a persisted task run''))
     else
       sbind (sret (check_task_allowed (tr_tenant_id r) tenant_status)) (\<lambda>_.
       sbind (sret (get_task reg (tr_task_type r))) (\<lambda>task.
       sbind (flush_run (start_retry started) r) (\<lambda>r'.
         sync_execute finished task (Some r') (to_task_envelope r')))))"

definition sync_run_task_run ::
  "'w task_registry \<Rightarrow> sync_provider \<Rightarrow> instant \<Rightarrow> instant \<Rightarrow> tenant_status \<Rightarrow> task_run
    \<Rightarrow> ('w task_state, task_result) state_op" where
  "sync_run_task_run reg p started finished tenant_status r =
    (if \<not> sp_persists p
       then sret (Inl (PyError ''RuntimeError'' ''task_repository is required to run a persisted task run''))
     else
       sbind (sret (check_task_allowed (tr_tenant_id r) tenant_status)) (\<lambda>_.
       sbind (sret (get_task reg (tr_task_type r))) (\<lambda>task.
         let run = (\<lambda>r'. sync_execute finished task (Some r') (to_task_envelope r')) in
         if tr_status r = Task_Pending then sbind (flush_run (start_pending started) r) run
         else if tr_status r \<in> {Task_Failed, Task_Dead_Letter}
           then sbind (flush_run (start_retry started) r) run
         else if tr_status r \<noteq> Task_Running
           then sret (Inr (task_result_from_run r (ts_queue (rt_spec task)) ''replayed'' ''sync'' []))
         else run r)))"

section \<open>The database queue\<close>

record queue_provider =
  qp_max_attempts :: int
  qp_retry_backoff_seconds :: int

definition queue_submit ::
  "'w task_registry \<Rightarrow> queue_provider \<Rightarrow> instant \<Rightarrow> tenant_status \<Rightarrow> task_envelope
    \<Rightarrow> ('w task_state, task_result) state_op" where
  "queue_submit reg p created tenant_status e =
    sbind (sret (check_task_allowed (tk_tenant_id e) tenant_status)) (\<lambda>_.
    sbind (sret (get_task reg (tk_task_type e))) (\<lambda>task.
      let queue = ts_queue (rt_spec task) in
      sbind (on_table (enqueue_once e queue (qp_max_attempts p) created)) (\<lambda>(outcome, r).
        sret (Inr (task_result_from_run r queue (start_outcome_name outcome) ''database-queue'' [])))))"

definition queue_run_task_run ::
  "'w task_registry \<Rightarrow> queue_provider \<Rightarrow> instant \<Rightarrow> instant \<Rightarrow> tenant_status \<Rightarrow> task_run
    \<Rightarrow> ('w task_state, task_result) state_op" where
  "queue_run_task_run reg p started finished tenant_status r =
    sbind (sret (check_task_allowed (tr_tenant_id r) tenant_status)) (\<lambda>_.
    sbind (sret (get_task reg (tr_task_type r))) (\<lambda>task.
      let run = (\<lambda>r'. queue_execute (qp_retry_backoff_seconds p) finished task r' (to_task_envelope r')) in
      if tr_status r = Task_Pending then sbind (flush_run (start_pending started) r) run
      else if tr_status r \<in> {Task_Succeeded, Task_Dead_Letter, Task_Cancelled}
        then sret (Inr (task_result_from_run r (ts_queue (rt_spec task)) ''replayed'' ''database-queue'' []))
      else if tr_status r \<noteq> Task_Running
        then sret (Inl (value_error
          (''Database queue cannot run task status '' @ repr_str (task_status_name (tr_status r)))))
      else run r))"

definition run_next ::
  "(task_table \<Rightarrow> task_table) \<Rightarrow> 'w task_registry \<Rightarrow> queue_provider \<Rightarrow> instant \<Rightarrow> instant \<Rightarrow> tenant_status
    \<Rightarrow> string \<Rightarrow> ('w task_state, task_result option) state_op" where
  "run_next others reg p started finished tenant_status queue =
    sbind (on_table (claim_next_pending others (Some queue) started)) (\<lambda>claimed.
      case claimed of
        None \<Rightarrow> sret (Inr None)
      | Some r \<Rightarrow> sbind (queue_run_task_run reg p started finished tenant_status r) (\<lambda>x. sret (Inr (Some x))))"

section \<open>Celery\<close>

text \<open>\<open>send_task\<close> is the call into Celery with the task's identifier and queue; it may raise.\<close>

definition celery_submit ::
  "'w task_registry \<Rightarrow> (string \<Rightarrow> string \<Rightarrow> string \<Rightarrow> ('w task_state, unit) state_op) \<Rightarrow> string \<Rightarrow> int
    \<Rightarrow> instant \<Rightarrow> tenant_status \<Rightarrow> task_envelope \<Rightarrow> ('w task_state, task_result) state_op" where
  "celery_submit reg send_task celery_task_name max_attempts created tenant_status e =
    sbind (sret (check_task_allowed (tk_tenant_id e) tenant_status)) (\<lambda>_.
    sbind (sret (get_task reg (tk_task_type e))) (\<lambda>task.
      let queue = ts_queue (rt_spec task) in
      sbind (on_table (enqueue_once e queue max_attempts created)) (\<lambda>(outcome, r).
      sbind (if outcome = Run_Started then send_task celery_task_name (tr_id r) queue else sret (Inr ())) (\<lambda>_.
        sret (Inr (task_result_from_run r queue (start_outcome_name outcome) ''celery''
          [(''celery_task_name'', PStr celery_task_name)]))))))"

text \<open>What the worker runs for a message: the tenant's status is left at its default.\<close>

definition run_persisted_task ::
  "'w task_registry \<Rightarrow> int \<Rightarrow> instant \<Rightarrow> instant \<Rightarrow> string \<Rightarrow> ('w task_state, task_result) state_op" where
  "run_persisted_task reg max_attempts started finished task_id =
    sbind (on_table (\<lambda>runs. (runs, require_run task_id runs)))
      (sync_run_task_run reg \<lparr>sp_persists = True, sp_max_attempts = max_attempts\<rparr> started finished Active)"

section \<open>The worker loop\<close>

record worker_stats =
  ws_iterations :: nat
  ws_claimed :: nat
  ws_succeeded :: nat
  ws_failed :: nat
  ws_dead_lettered :: nat

definition count_result :: "task_result option \<Rightarrow> worker_stats \<Rightarrow> worker_stats" where
  "count_result res st =
    (let st = st\<lparr>ws_iterations := ws_iterations st + 1\<rparr> in
     case res of
       None \<Rightarrow> st
     | Some r \<Rightarrow>
         let st = st\<lparr>ws_claimed := ws_claimed st + 1\<rparr> in
         if re_status r = Task_Succeeded then st\<lparr>ws_succeeded := ws_succeeded st + 1\<rparr>
         else (let st = st\<lparr>ws_failed := ws_failed st + 1\<rparr> in
           if re_status r = Task_Dead_Letter then st\<lparr>ws_dead_lettered := ws_dead_lettered st + 1\<rparr> else st))"

definition worker_ok :: "worker_stats \<Rightarrow> bool" where
  "worker_ok st \<longleftrightarrow> ws_failed st = 0 \<and> ws_dead_lettered st = 0"

text \<open>One round for each of the two providers the loop accepts; an exception leaves the loop, and the
  unit of work that surrounds the round is rolled back.\<close>

datatype worker_kind = Sync_Worker | Database_Worker queue_provider

definition worker_round ::
  "(task_table \<Rightarrow> task_table) \<Rightarrow> 'w task_registry \<Rightarrow> worker_kind \<Rightarrow> int \<Rightarrow> instant \<Rightarrow> instant \<Rightarrow> tenant_status
    \<Rightarrow> string \<Rightarrow> ('w task_state, task_result option) state_op" where
  "worker_round others reg kind max_attempts started finished tenant_status queue =
    (case kind of
       Database_Worker p \<Rightarrow> run_next others reg p started finished tenant_status queue
     | Sync_Worker \<Rightarrow>
         sbind (on_table (claim_next_pending others (Some queue) started)) (\<lambda>claimed.
           case claimed of
             None \<Rightarrow> sret (Inr None)
           | Some r \<Rightarrow> sbind (sync_run_task_run reg \<lparr>sp_persists = True, sp_max_attempts = max_attempts\<rparr>
                 started finished tenant_status r) (\<lambda>x. sret (Inr (Some x)))))"

end
