(* ===== verification/Task_Machine.thy ===== *)
theory Task_Machine
  imports Task_Providers
begin

text \<open>
  What a task run promises: a state machine on its status and the number of its attempts. The lemmas
  show that every operation of the repository, and every provider whose handlers leave the table
  alone, moves each run along the machine.
\<close>

section \<open>The machine\<close>

type_synonym run_state = "task_status \<times> int"

inductive task_step :: "int \<Rightarrow> run_state \<Rightarrow> run_state \<Rightarrow> bool" for m where
  start: "task_step m (Task_Pending, n) (Task_Running, n + 1)"
| retry: "s \<in> {Task_Failed, Task_Dead_Letter} \<Longrightarrow> task_step m (s, n) (Task_Running, n + 1)"
| succeed: "task_step m (Task_Running, n) (Task_Succeeded, n)"
| fail: "n < m \<Longrightarrow> task_step m (Task_Running, n) (Task_Failed, n)"
| requeue: "n < m \<Longrightarrow> task_step m (Task_Running, n) (Task_Pending, n)"
| bury: "m \<le> n \<Longrightarrow> task_step m (Task_Running, n) (Task_Dead_Letter, n)"
| cancel: "s \<in> {Task_Pending, Task_Running, Task_Failed} \<Longrightarrow> task_step m (s, n) (Task_Cancelled, n)"

inductive_cases task_stepE: "task_step m x y"

abbreviation task_path :: "int \<Rightarrow> run_state \<Rightarrow> run_state \<Rightarrow> bool" where
  "task_path m \<equiv> (task_step m)\<^sup>*\<^sup>*"

definition initial_state :: "run_state \<Rightarrow> bool" where
  "initial_state x \<longleftrightarrow> x = (Task_Pending, 0) \<or> x = (Task_Running, 1)"

text \<open>What the machine keeps: a run that waits or may be retried has attempts left, a dead letter has
  none, and a run that succeeded or was cancelled stays so.\<close>

definition sound_state :: "int \<Rightarrow> run_state \<Rightarrow> bool" where
  "sound_state m x \<longleftrightarrow> 0 \<le> snd x \<and> (fst x \<in> {Task_Pending, Task_Failed} \<longrightarrow> snd x < m) \<and>
     (fst x = Task_Dead_Letter \<longrightarrow> m \<le> snd x) \<and> (fst x \<notin> {Task_Pending, Task_Cancelled} \<longrightarrow> 1 \<le> snd x)"

lemma task_step_sound: "task_step m x y \<Longrightarrow> sound_state m x \<Longrightarrow> sound_state m y"
  by (induction rule: task_step.induct) (auto simp: sound_state_def)

lemma task_path_sound: "task_path m x y \<Longrightarrow> sound_state m x \<Longrightarrow> sound_state m y"
  by (induction rule: rtranclp_induct) (auto intro: task_step_sound)

lemma initial_sound: "initial_state x \<Longrightarrow> 1 \<le> m \<Longrightarrow> sound_state m x"
  by (auto simp: initial_state_def sound_state_def)

lemma task_step_attempts: "task_step m x y \<Longrightarrow> snd x \<le> snd y"
  by (induction rule: task_step.induct) auto

lemma task_path_attempts: "task_path m x y \<Longrightarrow> snd x \<le> snd y"
  by (induction rule: rtranclp_induct) (auto dest: task_step_attempts)

lemma task_step_final: "task_step m x y \<Longrightarrow> fst x \<notin> {Task_Succeeded, Task_Cancelled}"
  by (induction rule: task_step.induct) auto

lemma task_path_final: "task_path m x y \<Longrightarrow> fst x \<in> {Task_Succeeded, Task_Cancelled} \<Longrightarrow> y = x"
  by (induction rule: rtranclp_induct) (auto dest: task_step_final)

section \<open>Tables that follow it\<close>

definition run_state :: "task_run \<Rightarrow> run_state" where
  "run_state r = (tr_status r, tr_attempt_count r)"

text \<open>The columns no operation changes.\<close>

definition same_request :: "task_run \<Rightarrow> task_run \<Rightarrow> bool" where
  "same_request r r' \<longleftrightarrow> tr_id r' = tr_id r \<and> tr_tenant_id r' = tr_tenant_id r \<and>
     tr_task_type r' = tr_task_type r \<and> tr_idempotency_key r' = tr_idempotency_key r \<and>
     tr_input_payload r' = tr_input_payload r \<and> tr_queue r' = tr_queue r \<and>
     tr_max_attempts r' = tr_max_attempts r \<and> tr_request_id r' = tr_request_id r \<and>
     tr_trace_id r' = tr_trace_id r \<and> tr_created_at r' = tr_created_at r"

lemma same_request_refl [simp]: "same_request r r"
  by (simp add: same_request_def)

definition follows :: "task_run \<Rightarrow> task_run \<Rightarrow> bool" where
  "follows r r' \<longleftrightarrow> same_request r r' \<and> task_path (tr_max_attempts r) (run_state r) (run_state r')"

definition fresh_run :: "task_run \<Rightarrow> bool" where
  "fresh_run r \<longleftrightarrow> (\<exists>x. initial_state x \<and> task_path (tr_max_attempts r) x (run_state r))"

definition runs_evolve :: "task_table \<Rightarrow> task_table \<Rightarrow> bool" where
  "runs_evolve runs runs' \<longleftrightarrow>
    (\<exists>kept new. runs' = kept @ new \<and> list_all2 follows runs kept \<and> list_all fresh_run new)"

lemma follows_refl [simp]: "follows r r"
  by (simp add: follows_def)

lemma follows_trans: "follows r r' \<Longrightarrow> follows r' r'' \<Longrightarrow> follows r r''"
  unfolding follows_def same_request_def by (metis rtranclp_trans)

lemma follows_fresh: "follows r r' \<Longrightarrow> fresh_run r \<Longrightarrow> fresh_run r'"
  unfolding follows_def same_request_def fresh_run_def by (metis rtranclp_trans)

lemma follows_step:
  "same_request r r' \<Longrightarrow> task_step (tr_max_attempts r) (run_state r) (run_state r') \<Longrightarrow> follows r r'"
  by (simp add: follows_def)

lemma runs_evolve_refl [simp]: "runs_evolve runs runs"
  unfolding runs_evolve_def by (intro exI [of _ runs] exI [of _ "[]"]) (simp add: list_all2_refl)

lemma runs_evolve_trans:
  assumes "runs_evolve a b" and "runs_evolve b c"
  shows "runs_evolve a c"
proof -
  obtain k n where b: "b = k @ n" and k: "list_all2 follows a k" and n: "list_all fresh_run n"
    using assms(1) unfolding runs_evolve_def by blast
  obtain k' n' where c: "c = k' @ n'" and k': "list_all2 follows b k'" and n': "list_all fresh_run n'"
    using assms(2) unfolding runs_evolve_def by blast
  obtain k1 k2 where s: "k' = k1 @ k2" and k1: "list_all2 follows k k1" and k2: "list_all2 follows n k2"
    using k' unfolding b list_all2_append1 by blast
  have "list_all2 follows a k1"
    using list_all2_trans [OF follows_trans k k1] .
  moreover have "list_all fresh_run k2"
    using k2 n by (induction rule: list_all2_induct) (auto intro: follows_fresh)
  ultimately show ?thesis
    unfolding runs_evolve_def using c s n' by (intro exI [of _ k1] exI [of _ "k2 @ n'"]) simp
qed

lemma runs_evolve_map: "(\<And>r. r \<in> set runs \<Longrightarrow> follows r (f r)) \<Longrightarrow> runs_evolve runs (map f runs)"
  unfolding runs_evolve_def
  by (intro exI [of _ "map f runs"] exI [of _ "[]"]) (simp add: list_all2_map2 list.rel_refl_strong)

lemma runs_evolve_append: "fresh_run r \<Longrightarrow> runs_evolve runs (runs @ [r])"
  unfolding runs_evolve_def by (intro exI [of _ runs] exI [of _ "[r]"]) (simp add: list_all2_refl)

text \<open>An old row is still there, moved along the machine; a row that was not there is fresh.\<close>

lemma runs_evolve_mem:
  assumes "runs_evolve runs runs'" and "r \<in> set runs"
  shows "\<exists>r' \<in> set runs'. follows r r'"
proof -
  obtain k n where "runs' = k @ n" and k: "list_all2 follows runs k"
    using assms(1) unfolding runs_evolve_def by blast
  moreover obtain i where "i < length runs" and "r = runs ! i" using assms(2) by (metis in_set_conv_nth)
  ultimately show ?thesis
    using list_all2_nthD [OF k] list_all2_lengthD [OF k] by (metis UnI1 nth_mem set_append)
qed

lemma runs_evolve_origin:
  assumes "runs_evolve runs runs'" and "r' \<in> set runs'"
  shows "(\<exists>r \<in> set runs. follows r r') \<or> fresh_run r'"
proof -
  obtain k n where r: "runs' = k @ n" and k: "list_all2 follows runs k" and n: "list_all fresh_run n"
    using assms(1) unfolding runs_evolve_def by blast
  consider "r' \<in> set k" | "r' \<in> set n" using assms(2) r by auto
  then show ?thesis
  proof cases
    case 1
    then obtain i where "i < length k" and "r' = k ! i" by (metis in_set_conv_nth)
    then show ?thesis using list_all2_nthD2 [OF k] list_all2_lengthD [OF k] by (metis nth_mem)
  next
    case 2
    then show ?thesis using n by (auto simp: list_all_iff)
  qed
qed

text \<open>The identifiers, and the keys within a tenant, are unique.\<close>

definition run_key :: "task_run \<Rightarrow> string \<times> string" where
  "run_key r = (tr_tenant_id r, tr_idempotency_key r)"

definition unique_runs :: "task_table \<Rightarrow> bool" where
  "unique_runs runs \<longleftrightarrow> distinct (map tr_id runs) \<and> distinct (map run_key runs)"

lemma unique_runs_id: "unique_runs runs \<Longrightarrow> r \<in> set runs \<Longrightarrow> r' \<in> set runs \<Longrightarrow> tr_id r = tr_id r' \<Longrightarrow> r = r'"
  unfolding unique_runs_def distinct_map by (auto dest: inj_onD)

lemma unique_runs_key: "unique_runs runs \<Longrightarrow> r \<in> set runs \<Longrightarrow> r' \<in> set runs \<Longrightarrow> run_key r = run_key r' \<Longrightarrow> r = r'"
  unfolding unique_runs_def distinct_map by (auto dest: inj_onD)

section \<open>Saving a current object\<close>

lemma write_changes_current: "same_request r r' \<Longrightarrow> write_changes r r' r = r'"
  by (simp add: write_changes_def changed_def same_request_def)

lemma save_run_current:
  assumes "unique_runs runs" and "r \<in> set runs" and "same_request r r'"
  shows "save_run r r' runs = map (\<lambda>x. if x = r then r' else x) runs"
proof -
  have "x = r" if "x \<in> set runs" and "tr_id x = tr_id r" for x
    using unique_runs_id [OF assms(1) that(1) assms(2) that(2)] .
  then show ?thesis
    unfolding save_run_def using assms(3) by (intro map_cong) (auto simp: write_changes_current)
qed

text \<open>The keys of a table are those of the rows; a change of a run keeps them.\<close>

lemma unique_runs_cong:
  "map tr_id runs' = map tr_id runs \<Longrightarrow> map run_key runs' = map run_key runs \<Longrightarrow> unique_runs runs' = unique_runs runs"
  by (simp add: unique_runs_def)

lemma save_run_keys:
  "map tr_id (save_run r r' runs) = map tr_id runs" "map run_key (save_run r r' runs) = map run_key runs"
  by (simp_all add: save_run_def write_changes_def run_key_def)

lemma unique_save_run [simp]: "unique_runs (save_run r r' runs) = unique_runs runs"
  by (rule unique_runs_cong) (simp_all only: save_run_keys)

lemma saved_run_mem:
  assumes "unique_runs runs" and "r \<in> set runs" and "same_request r r'"
  shows "r' \<in> set (save_run r r' runs)"
  unfolding save_run_current [OF assms] using assms(2) by force

lemma runs_evolve_save_run:
  assumes "unique_runs runs" and "r \<in> set runs" and "follows r r'"
  shows "runs_evolve runs (save_run r r' runs)"
proof -
  have "same_request r r'" using assms(3) by (simp add: follows_def)
  from save_run_current [OF assms(1,2) this] show ?thesis
    using assms(3) by (auto intro!: runs_evolve_map)
qed

lemma save_all_keeps [simp]: "unique_runs (save_all f rows runs) = unique_runs runs"
  by (induction rows arbitrary: runs) (auto simp: save_all_def)

lemma runs_evolve_save_all:
  assumes "unique_runs runs" and "set rows \<subseteq> set runs" and "distinct rows"
    and "\<And>r. r \<in> set rows \<Longrightarrow> follows r (f r)"
  shows "runs_evolve runs (save_all f rows runs)"
  using assms
proof (induction rows arbitrary: runs)
  case Nil
  then show ?case by (simp add: save_all_def)
next
  case (Cons r rows)
  have r: "r \<in> set runs" and f: "follows r (f r)" using Cons.prems by auto
  then have "same_request r (f r)" by (simp add: follows_def)
  with Cons.prems(1) r have s: "save_run r (f r) runs = map (\<lambda>x. if x = r then f r else x) runs"
    by (rule save_run_current)
  have "x \<in> set (save_run r (f r) runs)" if "x \<in> set rows" for x
  proof -
    have "x \<in> set runs" and "x \<noteq> r" using that Cons.prems(2,3) by auto
    then show ?thesis unfolding s by force
  qed
  then have "runs_evolve (save_run r (f r) runs) (save_all f rows (save_run r (f r) runs))"
    using Cons.prems by (intro Cons.IH) auto
  moreover have "runs_evolve runs (save_run r (f r) runs)"
    using Cons.prems(1) r f by (rule runs_evolve_save_run)
  ultimately show ?case unfolding save_all_def by (auto intro: runs_evolve_trans)
qed

section \<open>The operations of the repository\<close>

named_theorems run_changes \<open>the operations on one run\<close>

lemmas [run_changes] = attempt_started_def run_succeeded_def run_failed_def run_retry_pending_def
  run_recovered_def run_cancelled_def

lemma same_request_changes [simp]:
  "same_request r (attempt_started now r)" "same_request r (run_succeeded p now r)"
  "same_request r (run_failed m now r)" "same_request r (run_retry_pending m b now r)"
  "same_request r (run_recovered m now r)" "same_request r (run_cancelled m now r)"
  by (simp_all add: same_request_def run_changes Let_def)

lemma follows_attempt_started:
  "tr_status r \<in> {Task_Pending, Task_Failed, Task_Dead_Letter} \<Longrightarrow> follows r (attempt_started now r)"
  by (rule follows_step, simp)
    (auto simp: run_state_def attempt_started_def intro: task_step.start task_step.retry)

lemma outcome_step:
  "task_step m (Task_Running, n) (if m \<le> n then Task_Dead_Letter else Task_Failed, n)"
  "task_step m (Task_Running, n) (if m \<le> n then Task_Dead_Letter else Task_Pending, n)"
  by (auto intro: task_step.fail task_step.requeue task_step.bury)

lemma follows_outcome:
  assumes "tr_status r = Task_Running"
  shows "follows r (run_succeeded p now r)" "follows r (run_failed m now r)"
    "follows r (run_retry_pending m b now r)" "follows r (run_recovered m now r)"
proof -
  note step = outcome_step [of "tr_max_attempts r" "tr_attempt_count r"]
  show "follows r (run_succeeded p now r)"
    by (rule follows_step, simp) (simp add: assms run_state_def run_succeeded_def task_step.succeed)
  show "follows r (run_failed m now r)"
    by (rule follows_step, simp) (use step assms in \<open>simp add: run_state_def run_failed_def exhausted_def\<close>)
  show "follows r (run_recovered m now r)"
    by (rule follows_step, simp) (use step assms in \<open>simp add: run_state_def run_recovered_def exhausted_def\<close>)
  show "follows r (run_retry_pending m b now r)"
    by (rule follows_step, simp)
      (use step assms in \<open>simp add: run_state_def run_retry_pending_def exhausted_def Let_def split: if_splits\<close>)
qed

lemma follows_cancelled:
  "tr_status r \<in> {Task_Pending, Task_Running, Task_Failed} \<Longrightarrow> follows r (run_cancelled m now r)"
  by (rule follows_step, simp) (auto simp: run_state_def run_cancelled_def intro: task_step.cancel)

lemma fresh_created: "fresh_run (running_run e q m c t)" "fresh_run (pending_run e q m c)"
  by (auto simp: fresh_run_def initial_state_def run_state_def running_run_def pending_run_def)

lemma not_integrity_error:
  "\<not> integrity_error row runs \<Longrightarrow> unique_runs runs \<Longrightarrow> unique_runs (runs @ [row])"
  by (auto simp: integrity_error_def unique_runs_def list_ex_iff run_key_def)

lemma insert_once_evolve:
  assumes "unique_runs runs" and "fresh_run row" and "insert_once raced row e runs = (runs', res)"
  shows "runs_evolve runs runs' \<and> unique_runs runs' \<and>
    (\<forall>r. res = Inr (Run_Started, r) \<longrightarrow> r = row \<and> row \<in> set runs')"
proof (cases "integrity_error row runs")
  case True
  have "runs' = runs \<and> (\<forall>r. res \<noteq> Inr (Run_Started, r))"
  proof (cases "get_by_idempotency_key (tk_tenant_id e) (tk_idempotency_key e) runs")
    case None
    with True assms(3) show ?thesis by (auto simp: insert_once_def)
  next
    case (Some r)
    with True assms(3) show ?thesis
      by (cases "assert_same_idempotent_request r e") (auto simp: insert_once_def split: if_splits)
  qed
  with assms show ?thesis by simp
next
  case False
  then have "runs' = runs @ [row]" and "res = Inr (Run_Started, row)"
    using assms(3) by (auto simp: insert_once_def)
  with assms False show ?thesis by (simp add: runs_evolve_append not_integrity_error)
qed

lemma oldest_claimable_mem:
  assumes "oldest_claimable queue now runs = Some r"
  shows "r \<in> set runs" "claimable queue now r"
proof -
  obtain rs where "sort_key claim_order (filter (claimable queue now) runs) = r # rs"
    using assms by (auto simp: oldest_claimable_def split: list.splits)
  then have "r \<in> set (sort_key claim_order (filter (claimable queue now) runs))" by (simp only: list.set_intros)
  then show "r \<in> set runs" and "claimable queue now r" unfolding set_sort set_filter by blast+
qed

lemma claim_next_pending_evolve:
  assumes "unique_runs runs" and "claim_next_pending id queue now runs = (runs', res)"
  shows "runs_evolve runs runs' \<and> unique_runs runs' \<and>
    (\<forall>r. res = Inr (Some r) \<longrightarrow> r \<in> set runs' \<and> tr_status r = Task_Running)"
proof (cases "oldest_claimable queue now runs")
  case None
  with assms show ?thesis by (auto simp: claim_next_pending_def)
next
  case (Some r)
  note mem = oldest_claimable_mem [OF Some]
  then have p: "tr_status r = Task_Pending" by (simp add: claimable_def)
  then have eq: "runs' = save_run r (attempt_started now r) runs" "res = Inr (Some (attempt_started now r))"
    using assms(2) Some by (auto simp: claim_next_pending_def start_pending_def)
  have "runs_evolve runs runs'"
    unfolding eq using assms(1) mem(1) p by (intro runs_evolve_save_run follows_attempt_started) auto
  moreover have "attempt_started now r \<in> set runs'"
    unfolding eq using assms(1) mem(1) by (intro saved_run_mem) auto
  ultimately show ?thesis using assms(1) eq by (simp add: attempt_started_def)
qed

lemma recover_evolve:
  assumes "unique_runs runs"
  shows "runs_evolve runs (fst (recover_stale_running older limit msg now runs))"
proof -
  have d: "distinct runs" using assms by (auto simp: unique_runs_def distinct_map)
  have sub: "set (stale_runs older limit runs) \<subseteq> {r \<in> set runs. stale older r}"
    unfolding stale_runs_def by (rule order_trans [OF set_take_subset]) (simp only: set_sort set_filter)
  have "distinct (stale_runs older limit runs)"
    unfolding stale_runs_def using d by (simp only: distinct_take distinct_sort distinct_filter)
  then show ?thesis
    unfolding recover_stale_running_def Let_def fst_conv
    using assms sub by (intro runs_evolve_save_all follows_outcome) (auto simp: stale_def)
qed

lemma cancel_evolve:
  assumes "unique_runs runs"
  shows "runs_evolve runs (fst (cancel_for_tenant tenant_id reason now runs))"
proof -
  let ?rows = "sort_key claim_order (filter (cancellable tenant_id) runs)"
  have d: "distinct runs" using assms by (auto simp: unique_runs_def distinct_map)
  have sub: "set ?rows = {r \<in> set runs. cancellable tenant_id r}" by (simp only: set_sort set_filter)
  have "distinct ?rows" using d by (simp only: distinct_sort distinct_filter)
  then show ?thesis
    unfolding cancel_for_tenant_def Let_def fst_conv
    using assms sub by (intro runs_evolve_save_all follows_cancelled) (auto simp: cancellable_def)
qed

lemma unique_recover_cancel:
  "unique_runs (fst (recover_stale_running older limit msg now runs)) = unique_runs runs"
  "unique_runs (fst (cancel_for_tenant tenant_id reason now runs)) = unique_runs runs"
  by (simp_all add: recover_stale_running_def cancel_for_tenant_def Let_def)

end
