(* ===== verification/Task_Calls.thy ===== *)
theory Task_Calls
  imports Task_Machine
begin

text \<open>
  The providers follow the machine of \<open>Task_Machine\<close>: a small calculus of operations that move the
  table along it, one lemma per provider operation, and the calls a deployment makes, in any order.
\<close>

section \<open>Operations that move the table along the machine\<close>

definition moves :: "(task_table \<Rightarrow> bool) \<Rightarrow> ('w task_state, 'a) state_op \<Rightarrow> ('a \<Rightarrow> task_table \<Rightarrow> bool) \<Rightarrow> bool" where
  "moves P f Q \<longleftrightarrow> (\<forall>s. unique_runs (fst s) \<longrightarrow> P (fst s) \<longrightarrow>
     runs_evolve (fst s) (fst (fst (f s))) \<and> unique_runs (fst (fst (f s))) \<and>
     (\<forall>x. snd (f s) = Inr x \<longrightarrow> Q x (fst (fst (f s)))))"

lemma movesI:
  assumes "\<And>runs w. unique_runs runs \<Longrightarrow> P runs \<Longrightarrow>
    runs_evolve runs (fst (fst (f (runs, w)))) \<and> unique_runs (fst (fst (f (runs, w)))) \<and>
    (\<forall>x. snd (f (runs, w)) = Inr x \<longrightarrow> Q x (fst (fst (f (runs, w)))))"
  shows "moves P f Q"
  unfolding moves_def using assms by simp

lemma movesD:
  assumes "moves P f Q" and "unique_runs (fst s)" and "P (fst s)" and "f s = (s', res)"
  shows "runs_evolve (fst s) (fst s')" "unique_runs (fst s')" "\<And>x. res = Inr x \<Longrightarrow> Q x (fst s')"
  using assms(1) [unfolded moves_def, rule_format, OF assms(2,3)] assms(4) by auto

lemma moves_sret: "(\<And>x runs. r = Inr x \<Longrightarrow> P runs \<Longrightarrow> Q x runs) \<Longrightarrow> moves P (sret r) Q"
  by (simp add: moves_def)

lemma moves_sbind:
  assumes f: "moves P f Q" and g: "\<And>x. moves (Q x) (g x) R"
  shows "moves P (sbind f g) R"
proof (rule movesI)
  fix runs w
  assume u: "unique_runs runs" and p: "P runs"
  obtain s' res where fs: "f (runs, w) = (s', res)" by (cases "f (runs, w)")
  note f' = movesD [OF f _ _ fs, simplified, OF u p]
  show "runs_evolve runs (fst (fst (sbind f g (runs, w)))) \<and> unique_runs (fst (fst (sbind f g (runs, w)))) \<and>
    (\<forall>x. snd (sbind f g (runs, w)) = Inr x \<longrightarrow> R x (fst (fst (sbind f g (runs, w)))))"
  proof (cases res)
    case (Inl e)
    with fs f' show ?thesis by (simp add: sbind_def)
  next
    case (Inr x)
    obtain s'' res' where gs: "g x s' = (s'', res')" by (cases "g x s'")
    from movesD [OF g f'(2) f'(3) [OF Inr] gs] f'(1) show ?thesis
      using fs Inr gs by (auto simp: sbind_def intro: runs_evolve_trans)
  qed
qed

text \<open>A check in front, whose result is not about the table.\<close>

lemma moves_check: "(\<And>x. r = Inr x \<Longrightarrow> moves P (g x) R) \<Longrightarrow> moves P (sbind (sret r) g) R"
  unfolding moves_def by (cases r) (simp_all del: split_paired_All)

lemma moves_unless: "(c \<Longrightarrow> moves P f Q) \<Longrightarrow> (\<not> c \<Longrightarrow> moves P g Q) \<Longrightarrow> moves P (if c then f else g) Q"
  by simp

abbreviation runs_there :: "task_run \<Rightarrow> task_table \<Rightarrow> bool" where
  "runs_there r runs \<equiv> r \<in> set runs \<and> tr_status r = Task_Running"

lemma moves_flush:
  assumes "\<And>r'. f r = Inr r' \<Longrightarrow> follows r r' \<and> tr_status r' = Task_Running"
  shows "moves (\<lambda>runs. r \<in> set runs) (flush_run f r) runs_there"
proof (rule movesI)
  fix runs :: task_table and w
  assume u: "unique_runs runs" and m: "r \<in> set runs"
  show "runs_evolve runs (fst (fst (flush_run f r (runs, w)))) \<and> unique_runs (fst (fst (flush_run f r (runs, w)))) \<and>
    (\<forall>x. snd (flush_run f r (runs, w)) = Inr x \<longrightarrow> runs_there x (fst (fst (flush_run f r (runs, w)))))"
  proof (cases "f r")
    case (Inl e)
    with u show ?thesis by (simp add: flush_run_def)
  next
    case (Inr r')
    then have "follows r r'" and "tr_status r' = Task_Running" using assms by blast+
    moreover from this have "same_request r r'" by (simp add: follows_def)
    ultimately show ?thesis
      using Inr u m by (simp add: flush_run_def runs_evolve_save_run saved_run_mem)
  qed
qed

section \<open>Execution\<close>

definition keeps_table :: "'w registered_task \<Rightarrow> bool" where
  "keeps_table task \<longleftrightarrow> (\<forall>e s. fst (fst (rt_handler task e s)) = fst s)"

definition registry_keeps_table :: "'w task_registry \<Rightarrow> bool" where
  "registry_keeps_table reg \<longleftrightarrow> (\<forall>task \<in> ran (dget reg). keeps_table task)"

lemma get_task_keeps: "registry_keeps_table reg \<Longrightarrow> get_task reg t = Inr task \<Longrightarrow> keeps_table task"
  by (auto simp: registry_keeps_table_def get_task_def ran_def split: option.splits)

lemma moves_execute:
  assumes k: "keeps_table task" and e: "\<And>m r. tr_status r = Task_Running \<Longrightarrow> follows r (on_error m r)"
  shows "moves (\<lambda>runs. \<forall>r. run = Some r \<longrightarrow> runs_there r runs) (execute provider on_error now task run e) (\<lambda>_ _. True)"
proof (rule movesI)
  fix runs :: task_table and w
  assume u: "unique_runs runs" and m: "\<forall>r. run = Some r \<longrightarrow> runs_there r runs"
  obtain runs' w' res where h: "rt_handler task e (runs, w) = ((runs', w'), res)"
    by (metis prod.collapse)
  then have "runs' = runs" using k unfolding keeps_table_def by (metis fst_conv)
  with h have h: "rt_handler task e (runs, w) = ((runs, w'), res)" by simp
  show "runs_evolve runs (fst (fst (execute provider on_error now task run e (runs, w)))) \<and>
    unique_runs (fst (fst (execute provider on_error now task run e (runs, w)))) \<and>
    (\<forall>x. snd (execute provider on_error now task run e (runs, w)) = Inr x \<longrightarrow> True)"
  proof (cases run)
    case None
    with h u show ?thesis by (cases res) (simp_all add: execute_def Let_def)
  next
    case (Some r)
    with m have r: "r \<in> set runs" "tr_status r = Task_Running" by simp_all
    show ?thesis
      using h u Some r e [OF r(2)] follows_outcome(1) [OF r(2)]
      by (cases res) (simp_all add: execute_def Let_def runs_evolve_save_run)
  qed
qed

lemma moves_weaken: "moves P f Q \<Longrightarrow> (\<And>runs. P' runs \<Longrightarrow> P runs) \<Longrightarrow> moves P' f Q"
  unfolding moves_def by blast

lemma moves_sync_execute:
  "keeps_table task \<Longrightarrow> moves (runs_there r) (sync_execute now task (Some r) e) (\<lambda>_ _. True)"
  unfolding sync_execute_def
  by (rule moves_weaken, rule moves_execute) (auto intro: follows_outcome)

lemma moves_sync_execute_unsaved:
  "keeps_table task \<Longrightarrow> moves P (sync_execute now task None e) (\<lambda>_ _. True)"
  unfolding sync_execute_def
  by (rule moves_weaken, rule moves_execute) (auto intro: follows_outcome)

lemma moves_queue_execute:
  "keeps_table task \<Longrightarrow> moves (runs_there r) (queue_execute b now task r e) (\<lambda>_ _. True)"
  unfolding queue_execute_def
  by (rule moves_weaken, rule moves_execute) (auto intro: follows_outcome)

section \<open>The providers\<close>

lemma moves_start_once:
  "moves (\<lambda>_. True) (on_table (start_once e q m c t))
     (\<lambda>(outcome, r) runs. outcome = Run_Started \<longrightarrow> runs_there r runs)"
proof (rule movesI)
  fix runs :: task_table and w
  assume u: "unique_runs runs"
  obtain runs' res where s: "start_once e q m c t runs = (runs', res)" by (cases "start_once e q m c t runs")
  have "tr_status (running_run e q m c t) = Task_Running" by (simp add: running_run_def)
  with insert_once_evolve [OF u fresh_created(1) s [unfolded start_once_def]]
  have res: "runs_evolve runs runs' \<and> unique_runs runs' \<and> (\<forall>r. res = Inr (Run_Started, r) \<longrightarrow> runs_there r runs')"
    by blast
  show "runs_evolve runs (fst (fst (on_table (start_once e q m c t) (runs, w)))) \<and>
    unique_runs (fst (fst (on_table (start_once e q m c t) (runs, w)))) \<and>
    (\<forall>x. snd (on_table (start_once e q m c t) (runs, w)) = Inr x \<longrightarrow>
      (case x of (outcome, r) \<Rightarrow> \<lambda>runs. outcome = Run_Started \<longrightarrow> runs_there r runs)
        (fst (fst (on_table (start_once e q m c t) (runs, w)))))"
    using res s by (simp add: on_table_def split: prod.split)
qed

lemma moves_enqueue_once: "moves (\<lambda>_. True) (on_table (enqueue_once e q m c)) (\<lambda>_ _. True)"
proof (rule movesI)
  fix runs :: task_table and w
  assume u: "unique_runs runs"
  obtain runs' res where s: "enqueue_once e q m c runs = (runs', res)" by (cases "enqueue_once e q m c runs")
  from insert_once_evolve [OF u fresh_created(2) s [unfolded enqueue_once_def]] s
  show "runs_evolve runs (fst (fst (on_table (enqueue_once e q m c) (runs, w)))) \<and>
    unique_runs (fst (fst (on_table (enqueue_once e q m c) (runs, w)))) \<and>
    (\<forall>x. snd (on_table (enqueue_once e q m c) (runs, w)) = Inr x \<longrightarrow> True)"
    by (simp add: on_table_def)
qed

lemma moves_claim:
  "moves (\<lambda>_. True) (on_table (claim_next_pending id q t)) (\<lambda>x runs. \<forall>r. x = Some r \<longrightarrow> runs_there r runs)"
proof (rule movesI)
  fix runs :: task_table and w
  assume u: "unique_runs runs"
  obtain runs' res where s: "claim_next_pending id q t runs = (runs', res)" by (cases "claim_next_pending id q t runs")
  from claim_next_pending_evolve [OF u s] s
  show "runs_evolve runs (fst (fst (on_table (claim_next_pending id q t) (runs, w)))) \<and>
    unique_runs (fst (fst (on_table (claim_next_pending id q t) (runs, w)))) \<and>
    (\<forall>x. snd (on_table (claim_next_pending id q t) (runs, w)) = Inr x \<longrightarrow>
       (\<forall>r. x = Some r \<longrightarrow> runs_there r (fst (fst (on_table (claim_next_pending id q t) (runs, w))))))"
    by (auto simp: on_table_def)
qed

lemma start_pending_follows:
  "start_pending now r = Inr r' \<Longrightarrow> follows r r' \<and> tr_status r' = Task_Running"
  by (auto simp: start_pending_def attempt_started_def [of now r, THEN arg_cong [where f = tr_status]]
      intro: follows_attempt_started split: if_splits)

lemma start_retry_follows:
  "start_retry now r = Inr r' \<Longrightarrow> follows r r' \<and> tr_status r' = Task_Running"
  by (auto simp: start_retry_def attempt_started_def [of now r, THEN arg_cong [where f = tr_status]]
      intro: follows_attempt_started split: if_splits)

lemma moves_sync_submit:
  assumes "registry_keeps_table reg"
  shows "moves (\<lambda>_. True) (sync_submit reg p c t0 t1 status e) (\<lambda>_ _. True)"
proof -
  have "moves (\<lambda>_. True)
    (let queue = ts_queue (rt_spec task) in
      if \<not> sp_persists p then sync_execute t1 task None e
      else sbind (on_table (start_once e queue (sp_max_attempts p) c t0)) (\<lambda>(outcome, r).
        if outcome \<noteq> Run_Started
          then sret (Inr (task_result_from_run r queue (start_outcome_name outcome) ''sync'' []))
        else sync_execute t1 task (Some r) e)) (\<lambda>_ _. True)" if "keeps_table task" for task
    unfolding Let_def
  proof (intro moves_unless moves_sync_execute_unsaved [OF that], rule moves_sbind [OF moves_start_once])
    fix x :: "start_outcome \<times> task_run"
    obtain outcome r where x: "x = (outcome, r)" by (cases x)
    show "moves (case x of (outcome, r) \<Rightarrow> \<lambda>runs. outcome = Run_Started \<longrightarrow> runs_there r runs)
      (case x of (outcome, r) \<Rightarrow> if outcome \<noteq> Run_Started
        then sret (Inr (task_result_from_run r (ts_queue (rt_spec task)) (start_outcome_name outcome) ''sync'' []))
        else sync_execute t1 task (Some r) e) (\<lambda>_ _. True)"
      unfolding x prod.case
      by (intro moves_unless moves_sret) (auto intro: moves_weaken [OF moves_sync_execute [OF that]])
  qed
  then show ?thesis
    unfolding sync_submit_def
    by (intro moves_check) (use assms get_task_keeps in blast)
qed

lemma moves_queue_submit: "moves (\<lambda>_. True) (queue_submit reg p c status e) (\<lambda>_ _. True)"
  unfolding queue_submit_def Let_def
  by (intro moves_check moves_sbind [OF moves_enqueue_once]) (auto intro: moves_sret)

lemma moves_celery_submit:
  assumes "\<And>n i q. moves (\<lambda>_. True) (send n i q) (\<lambda>_ _. True)"
  shows "moves (\<lambda>_. True) (celery_submit reg send name m c status e) (\<lambda>_ _. True)"
  unfolding celery_submit_def Let_def
  by (intro moves_check moves_sbind [OF moves_enqueue_once])
    (auto intro!: moves_sbind [where Q = "\<lambda>_ _. True"] moves_sret intro: assms)

lemma moves_retry_then:
  assumes "keeps_table task"
  shows "moves (\<lambda>runs. r \<in> set runs)
    (sbind (flush_run (start_retry t0) r) (\<lambda>r'. sync_execute t1 task (Some r') (to_task_envelope r'))) (\<lambda>_ _. True)"
  by (rule moves_sbind [OF moves_flush]) (use start_retry_follows moves_sync_execute [OF assms] in blast)+

lemma moves_sync_retry:
  assumes "registry_keeps_table reg"
  shows "moves (\<lambda>runs. r \<in> set runs) (sync_retry reg p t0 t1 status r) (\<lambda>_ _. True)"
  unfolding sync_retry_def
  by (intro moves_unless moves_check moves_sret moves_retry_then get_task_keeps [OF assms]) auto

lemma moves_sync_run:
  assumes "registry_keeps_table reg"
  shows "moves (\<lambda>runs. r \<in> set runs) (sync_run_task_run reg p t0 t1 status r) (\<lambda>_ _. True)"
proof -
  have "moves (\<lambda>runs. r \<in> set runs)
      (sbind (flush_run (start_pending t0) r) (\<lambda>r'. sync_execute t1 task (Some r') (to_task_envelope r'))) (\<lambda>_ _. True)"
    if "keeps_table task" for task
    by (rule moves_sbind [OF moves_flush]) (use start_pending_follows moves_sync_execute [OF that] in blast)+
  then show ?thesis
    unfolding sync_run_task_run_def Let_def
    by (intro moves_unless moves_check moves_sret moves_retry_then)
      (auto intro: get_task_keeps [OF assms] moves_weaken [OF moves_sync_execute])
qed

lemma moves_queue_run:
  assumes "registry_keeps_table reg"
  shows "moves (\<lambda>runs. r \<in> set runs) (queue_run_task_run reg p t0 t1 status r) (\<lambda>_ _. True)"
proof -
  have "moves (\<lambda>runs. r \<in> set runs)
      (sbind (flush_run (start_pending t0) r)
        (\<lambda>r'. queue_execute (qp_retry_backoff_seconds p) t1 task r' (to_task_envelope r'))) (\<lambda>_ _. True)"
    if "keeps_table task" for task
    by (rule moves_sbind [OF moves_flush]) (use start_pending_follows moves_queue_execute [OF that] in blast)+
  then show ?thesis
    unfolding queue_run_task_run_def Let_def
    by (intro moves_unless moves_check moves_sret)
      (auto intro: get_task_keeps [OF assms] moves_weaken [OF moves_queue_execute])
qed

lemma moves_worker_round:
  assumes "registry_keeps_table reg"
  shows "moves (\<lambda>_. True) (worker_round id reg kind m t0 t1 status q) (\<lambda>_ _. True)"
proof (cases kind)
  case Sync_Worker
  have "moves (\<lambda>runs. \<forall>r. x = Some r \<longrightarrow> runs_there r runs)
    (case x of None \<Rightarrow> sret (Inr None)
     | Some r \<Rightarrow> sbind (sync_run_task_run reg \<lparr>sp_persists = True, sp_max_attempts = m\<rparr> t0 t1 status r)
         (\<lambda>y. sret (Inr (Some y)))) (\<lambda>_ _. True)" for x
    by (cases x) (auto intro!: moves_sret moves_sbind [OF moves_weaken [OF moves_sync_run [OF assms]]])
  with Sync_Worker show ?thesis
    unfolding worker_round_def by (auto intro: moves_sbind [OF moves_claim])
next
  case (Database_Worker p)
  have "moves (\<lambda>runs. \<forall>r. x = Some r \<longrightarrow> runs_there r runs)
    (case x of None \<Rightarrow> sret (Inr None)
     | Some r \<Rightarrow> sbind (queue_run_task_run reg p t0 t1 status r) (\<lambda>y. sret (Inr (Some y)))) (\<lambda>_ _. True)" for x
    by (cases x) (auto intro!: moves_sret moves_sbind [OF moves_weaken [OF moves_queue_run [OF assms]]])
  with Database_Worker show ?thesis
    unfolding worker_round_def run_next_def by (auto intro: moves_sbind [OF moves_claim])
qed

section \<open>Repeated submissions\<close>

lemma insert_once_existing:
  assumes "unique_runs runs" and "r \<in> set runs"
    and "tr_tenant_id r = tk_tenant_id e" and "tr_idempotency_key r = tk_idempotency_key e"
    and "tr_tenant_id row = tk_tenant_id e" and "tr_idempotency_key row = tk_idempotency_key e"
  shows "insert_once raced row e runs = (runs, rbind (assert_same_idempotent_request r e) (\<lambda>_.
    Inr (if tr_status r \<in> {Task_Pending, Task_Running} then Run_In_Progress else Run_Replayed, r)))"
proof -
  have "integrity_error row runs" using assms by (auto simp: integrity_error_def list_ex_iff)
  moreover have "get_by_idempotency_key (tk_tenant_id e) (tk_idempotency_key e) runs = Some r"
  proof -
    obtain r' where f: "get_by_idempotency_key (tk_tenant_id e) (tk_idempotency_key e) runs = Some r'"
      using assms unfolding get_by_idempotency_key_def
      by (cases "find (\<lambda>r. tr_tenant_id r = tk_tenant_id e \<and> tr_idempotency_key r = tk_idempotency_key e) runs")
        (auto simp: find_None_iff)
    then have "r' \<in> set runs" and "run_key r' = run_key r"
      using assms by (auto simp: get_by_idempotency_key_def find_Some_iff run_key_def)
    with f show ?thesis using unique_runs_key [OF assms(1), of r' r] assms(2) by simp
  qed
  ultimately show ?thesis by (simp add: insert_once_def)
qed

lemma start_once_existing:
  assumes "unique_runs runs" and "r \<in> set runs"
    and "tr_tenant_id r = tk_tenant_id e" and "tr_idempotency_key r = tk_idempotency_key e"
  shows "start_once e queue n c t runs = (runs, rbind (assert_same_idempotent_request r e) (\<lambda>_.
    Inr (if tr_status r \<in> {Task_Pending, Task_Running} then Run_In_Progress else Run_Replayed, r)))"
  unfolding start_once_def by (rule insert_once_existing [OF assms]) (simp_all add: running_run_def)

lemma enqueue_once_existing:
  assumes "unique_runs runs" and "r \<in> set runs"
    and "tr_tenant_id r = tk_tenant_id e" and "tr_idempotency_key r = tk_idempotency_key e"
  shows "enqueue_once e queue n c runs = (runs, rbind (assert_same_idempotent_request r e) (\<lambda>_.
    Inr (if tr_status r \<in> {Task_Pending, Task_Running} then Run_In_Progress else Run_Replayed, r)))"
  unfolding enqueue_once_def by (rule insert_once_existing [OF assms]) (simp_all add: pending_run_def)

text \<open>A run that answers an envelope: same tenant, key, type and payload.\<close>

definition run_of :: "task_envelope \<Rightarrow> task_run \<Rightarrow> bool" where
  "run_of e r \<longleftrightarrow> tr_tenant_id r = tk_tenant_id e \<and> tr_idempotency_key r = tk_idempotency_key e \<and>
     tr_task_type r = tk_task_type e \<and> tr_input_payload r = tk_payload e"

lemma run_of_same_request: "same_request r r' \<Longrightarrow> run_of e r \<Longrightarrow> run_of e r'"
  by (simp add: run_of_def same_request_def)

lemma insert_once_run_of:
  assumes "insert_once raced row e runs = (runs', Inr (outcome, r))" and "run_of e row"
  shows "r \<in> set runs' \<and> run_of e r"
proof (cases "integrity_error row runs")
  case True
  obtain x where g: "get_by_idempotency_key (tk_tenant_id e) (tk_idempotency_key e) runs = Some x"
    and same: "assert_same_idempotent_request x e = Inr ()" and "runs' = runs" and "r = x"
  proof -
    obtain x where g: "get_by_idempotency_key (tk_tenant_id e) (tk_idempotency_key e) runs = Some x"
      using True assms(1) by (cases "get_by_idempotency_key (tk_tenant_id e) (tk_idempotency_key e) runs")
        (simp_all add: insert_once_def)
    have i: "insert_once raced row e runs = (runs, rbind (assert_same_idempotent_request x e) (\<lambda>_.
        Inr (if tr_status x \<in> {Task_Pending, Task_Running} then Run_In_Progress else Run_Replayed, x)))"
      unfolding insert_once_def g using True by simp
    have same: "assert_same_idempotent_request x e = Inr ()"
      using assms(1) unfolding i by (cases "assert_same_idempotent_request x e") simp_all
    show thesis using that [OF g same] assms(1) unfolding i same by simp
  qed
  moreover have "tr_tenant_id x = tk_tenant_id e" "tr_idempotency_key x = tk_idempotency_key e" "x \<in> set runs"
    using g by (auto simp: get_by_idempotency_key_def find_Some_iff)
  ultimately show ?thesis by (simp add: run_of_def assert_same_idempotent_request_def split: if_splits)
next
  case False
  with assms show ?thesis by (auto simp: insert_once_def)
qed

lemma moves_start_once_run_of:
  "moves (\<lambda>_. True) (on_table (start_once e q m c t))
     (\<lambda>(outcome, r) runs. r \<in> set runs \<and> run_of e r \<and> (outcome = Run_Started \<longrightarrow> runs_there r runs))"
proof (rule movesI)
  fix runs :: task_table and w
  assume u: "unique_runs runs"
  obtain runs' res where s: "start_once e q m c t runs = (runs', res)" by (cases "start_once e q m c t runs")
  have f: "on_table (start_once e q m c t) (runs, w) = ((runs', w), res)" using s by (simp add: on_table_def)
  have "run_of e (running_run e q m c t)" by (simp add: run_of_def running_run_def)
  then have "r \<in> set runs' \<and> run_of e r" if "res = Inr (outcome, r)" for outcome r
    using insert_once_run_of s that unfolding start_once_def by blast
  moreover note movesD [OF moves_start_once, of "(runs, w)", simplified fst_conv, OF u TrueI f, simplified fst_conv]
  ultimately show "runs_evolve runs (fst (fst (on_table (start_once e q m c t) (runs, w)))) \<and>
    unique_runs (fst (fst (on_table (start_once e q m c t) (runs, w)))) \<and>
    (\<forall>x. snd (on_table (start_once e q m c t) (runs, w)) = Inr x \<longrightarrow>
      (case x of (outcome, r) \<Rightarrow> \<lambda>runs. r \<in> set runs \<and> run_of e r \<and> (outcome = Run_Started \<longrightarrow> runs_there r runs))
        (fst (fst (on_table (start_once e q m c t) (runs, w)))))"
    unfolding f fst_conv snd_conv by (cases res) (auto split: prod.splits)
qed

lemma runs_evolve_run_of:
  "runs_evolve runs runs' \<Longrightarrow> \<exists>r \<in> set runs. run_of e r \<Longrightarrow> \<exists>r \<in> set runs'. run_of e r"
  using runs_evolve_mem run_of_same_request unfolding follows_def by blast

text \<open>A submission that answers leaves a run of its envelope in the table.\<close>

lemma sync_submit_leaves_run:
  assumes "registry_keeps_table reg" and "sp_persists p" and u: "unique_runs (fst s)"
    and run: "sync_submit reg p c t0 t1 status e s = (s', Inr x)"
  shows "unique_runs (fst s') \<and> (\<exists>r \<in> set (fst s'). run_of e r)"
proof -
  obtain task where task: "get_task reg (tk_task_type e) = Inr task"
    and allowed: "check_task_allowed (tk_tenant_id e) status = Inr ()"
    using run by (cases "get_task reg (tk_task_type e)"; cases "check_task_allowed (tk_tenant_id e) status")
      (simp_all add: sync_submit_def)
  obtain s1 y where y: "on_table (start_once e (ts_queue (rt_spec task)) (sp_max_attempts p) c t0) s = (s1, y)"
    by (cases "on_table (start_once e (ts_queue (rt_spec task)) (sp_max_attempts p) c t0) s")
  obtain outcome r where out: "y = Inr (outcome, r)"
    using run task allowed y assms(2) by (cases y) (auto simp: sync_submit_def sbind_def Let_def)
  note first = movesD [OF moves_start_once_run_of u TrueI y]
  from first(3) [OF out] have r: "r \<in> set (fst s1)" "run_of e r" "outcome = Run_Started \<Longrightarrow> runs_there r (fst s1)"
    by simp_all
  show ?thesis
  proof (cases "outcome = Run_Started")
    case True
    then have "sync_execute t1 task (Some r) e s1 = (s', Inr x)"
      using run task allowed y assms(2) out by (simp add: sync_submit_def sbind_def Let_def)
    from movesD(1,2) [OF moves_sync_execute [OF get_task_keeps [OF assms(1) task]] first(2) r(3) [OF True] this]
    show ?thesis using runs_evolve_run_of r(1,2) by blast
  next
    case False
    then have "s' = s1" using run task allowed y assms(2) out by (simp add: sync_submit_def sbind_def Let_def)
    with first(2) r show ?thesis by blast
  qed
qed

lemma sync_submit_existing:
  assumes "unique_runs (fst s)" and "r \<in> set (fst s)" and "run_of e r" and "sp_persists p"
    and "get_task reg (tk_task_type e) = Inr task" and "check_task_allowed (tk_tenant_id e) status = Inr ()"
  shows "\<exists>x. sync_submit reg p c t0 t1 status e s = (s, Inr x) \<and> re_status x = tr_status r"
proof -
  obtain runs w where s: "s = (runs, w)" by (cases s)
  have e: "tr_tenant_id r = tk_tenant_id e" "tr_idempotency_key r = tk_idempotency_key e"
    "assert_same_idempotent_request r e = Inr ()"
    using assms(3) by (simp_all add: run_of_def assert_same_idempotent_request_def)
  note start = start_once_existing [OF assms(1,2) [unfolded s fst_conv] e(1,2)]
  show ?thesis
    using assms(4-6) e(3) unfolding s
    by (simp add: sync_submit_def on_table_def start sbind_def Let_def task_result_from_run_def)
qed

end
