(* ===== verification/Task_Properties.thy ===== *)
theory Task_Properties
  imports Task_Calls
begin

text \<open>
  The properties of the task runs: every call, in any order, moves the table along the machine; a
  repeated submission runs nothing; the retries of the database queue end; and two ways in which
  its workers go wrong.
\<close>

section \<open>Calls in any order\<close>

datatype task_call =
  Submit_Sync sync_provider instant instant instant tenant_status task_envelope
| Submit_Queue queue_provider instant tenant_status task_envelope
| Submit_Celery string int instant tenant_status task_envelope
| Work worker_kind int instant instant tenant_status string
| Run_Celery int instant instant string
| Retry_Run sync_provider instant instant tenant_status string
| Recover_Stale instant nat string instant
| Cancel_Tenant string string instant

fun do_task_call ::
  "'w task_registry \<Rightarrow> (string \<Rightarrow> string \<Rightarrow> string \<Rightarrow> ('w task_state, unit) state_op) \<Rightarrow> task_call
    \<Rightarrow> 'w task_state \<Rightarrow> 'w task_state" where
  "do_task_call reg send (Submit_Sync p c t0 t1 status e) s = fst (sync_submit reg p c t0 t1 status e s)"
| "do_task_call reg send (Submit_Queue p c status e) s = fst (queue_submit reg p c status e s)"
| "do_task_call reg send (Submit_Celery name m c status e) s = fst (celery_submit reg send name m c status e s)"
| "do_task_call reg send (Work kind m t0 t1 status q) s = fst (worker_round id reg kind m t0 t1 status q s)"
| "do_task_call reg send (Run_Celery m t0 t1 task_id) s = fst (run_persisted_task reg m t0 t1 task_id s)"
| "do_task_call reg send (Retry_Run p t0 t1 status task_id) s =
     (case get_run task_id (fst s) of None \<Rightarrow> s | Some r \<Rightarrow> fst (sync_retry reg p t0 t1 status r s))"
| "do_task_call reg send (Recover_Stale older limit msg now) s =
     (fst (recover_stale_running older limit msg now (fst s)), snd s)"
| "do_task_call reg send (Cancel_Tenant tenant_id reason now) s =
     (fst (cancel_for_tenant tenant_id reason now (fst s)), snd s)"

definition send_keeps_table :: "(string \<Rightarrow> string \<Rightarrow> string \<Rightarrow> ('w task_state, unit) state_op) \<Rightarrow> bool" where
  "send_keeps_table send \<longleftrightarrow> (\<forall>n i q s. fst (fst (send n i q s)) = fst s)"

lemma get_run_mem: "get_run task_id runs = Some r \<Longrightarrow> r \<in> set runs"
  by (auto simp: get_run_def find_Some_iff)

lemma moves_run_persisted:
  assumes "registry_keeps_table reg"
  shows "moves (\<lambda>_. True) (run_persisted_task reg m t0 t1 task_id) (\<lambda>_ _. True)"
proof -
  have "moves (\<lambda>_. True) (on_table (\<lambda>runs. (runs, require_run task_id runs)) :: ('a task_state, task_run) state_op)
      (\<lambda>r runs. r \<in> set runs)"
    by (rule movesI) (auto simp: on_table_def require_run_def dest: get_run_mem split: option.splits)
  from moves_sbind [OF this moves_sync_run [OF assms]] show ?thesis
    unfolding run_persisted_task_def .
qed

lemma do_task_call_evolve:
  assumes reg: "registry_keeps_table reg" and send: "send_keeps_table send"
    and u: "unique_runs (fst s)"
  shows "runs_evolve (fst s) (fst (do_task_call reg send call s)) \<and> unique_runs (fst (do_task_call reg send call s))"
proof -
  have step: "runs_evolve (fst s) (fst (fst (f s))) \<and> unique_runs (fst (fst (f s)))"
    if "moves P f Q" and "P (fst s)" for P Q and f :: "('a task_state, 'b) state_op"
    using movesD(1,2) [OF that(1) u that(2)] by (cases "f s") simp
  have send: "moves (\<lambda>_. True) (send n i q) (\<lambda>_ _. True)" for n i q
    using send by (simp add: moves_def send_keeps_table_def)
  show ?thesis
  proof (cases call)
    case (Retry_Run p t0 t1 status task_id)
    show ?thesis
    proof (cases "get_run task_id (fst s)")
      case (Some r)
      with Retry_Run step [OF moves_sync_retry [OF reg], of r] get_run_mem [OF Some] show ?thesis by simp
    qed (use Retry_Run u in simp)
  next
    case (Submit_Sync p c t0 t1 status e)
    then show ?thesis using step [OF moves_sync_submit [OF reg]] by simp
  next
    case (Submit_Queue p c status e)
    then show ?thesis using step [OF moves_queue_submit] by simp
  next
    case (Submit_Celery name m c status e)
    then show ?thesis using step [OF moves_celery_submit [OF send]] by simp
  next
    case (Work kind m t0 t1 status q)
    then show ?thesis using step [OF moves_worker_round [OF reg]] by simp
  next
    case (Run_Celery m t0 t1 task_id)
    then show ?thesis using step [OF moves_run_persisted [OF reg]] by simp
  next
    case (Recover_Stale older limit msg now)
    then show ?thesis using recover_evolve [OF u] u by (simp add: unique_recover_cancel)
  next
    case (Cancel_Tenant tenant_id reason now)
    then show ?thesis using cancel_evolve [OF u] u by (simp add: unique_recover_cancel)
  qed
qed

lemma do_task_calls_evolve:
  assumes "registry_keeps_table reg" and "send_keeps_table send" and "unique_runs (fst s)"
  shows "runs_evolve (fst s) (fst (fold (do_task_call reg send) calls s)) \<and>
    unique_runs (fst (fold (do_task_call reg send) calls s))"
  using assms(3)
proof (induction calls arbitrary: s)
  case (Cons call calls)
  note one = do_task_call_evolve [OF assms(1,2) Cons.prems, where call = call]
  from Cons.IH [OF one [THEN conjunct2]] one show ?case by (auto intro: runs_evolve_trans)
qed simp


section \<open>Witness data\<close>

definition good_handler :: "string list task_handler" where
  "good_handler e s = ((fst s, tk_task_id e # snd s), Inr None)"

definition bad_handler :: "string list task_handler" where
  "bad_handler e s = ((fst s, tk_task_id e # snd s), Inl (PyError ''RuntimeError'' ''no''))"

definition mail_task :: "string list task_handler \<Rightarrow> string list registered_task" where
  "mail_task h = \<lparr>rt_app_label = ''app'', rt_spec = \<lparr>ts_task_type = ''mail'', ts_handler_path = ''app.mail'',
     ts_queue = ''q''\<rparr>, rt_handler = h\<rparr>"

definition mail_registry :: "string list task_handler \<Rightarrow> string list task_registry" where
  "mail_registry h = [(''mail'', mail_task h)]"

definition mail :: "string \<Rightarrow> task_envelope" where
  "mail i = \<lparr>tk_task_id = i, tk_task_type = ''mail'', tk_tenant_id = ''t'', tk_payload = [],
     tk_idempotency_key = i, tk_request_id = ''r'', tk_trace_id = None\<rparr>"

lemma mail_registry_keeps: "registry_keeps_table (mail_registry good_handler)" "registry_keeps_table (mail_registry bad_handler)"
  by (auto simp: registry_keeps_table_def keeps_table_def mail_registry_def mail_task_def ran_def dget_def
      good_handler_def bad_handler_def)

lemma get_mail [simp]: "get_task (mail_registry h) ''mail'' = Inr (mail_task h)"
  by (simp add: get_task_def mail_registry_def dget_def)


section \<open>Repeated submissions\<close>

text \<open>A submission under a key that its tenant has used runs nothing: with any of the three providers, no
  handler is called, no message is sent and the table stays as it is; the answer is the stored run
  when the task type and the payload are the same, and a key conflict when they are not.
\<close>

theorem resubmission_runs_nothing:
  assumes "unique_runs (fst s)" and "r \<in> set (fst s)"
    and "tr_tenant_id r = tk_tenant_id e" and "tr_idempotency_key r = tk_idempotency_key e"
    and "sp_persists p" and "get_task reg (tk_task_type e) = Inr task"
    and "check_task_allowed (tk_tenant_id e) status = Inr ()"
  shows "let outcome = (if tr_status r \<in> {Task_Pending, Task_Running} then Run_In_Progress else Run_Replayed);
      answer = (\<lambda>provider extra. rbind (assert_same_idempotent_request r e) (\<lambda>_. Inr
        (task_result_from_run r (ts_queue (rt_spec task)) (start_outcome_name outcome) provider extra)))
    in sync_submit reg p c t0 t1 status e s = (s, answer ''sync'' []) \<and>
       queue_submit reg q c status e s = (s, answer ''database-queue'' []) \<and>
       celery_submit reg send name m c status e s = (s, answer ''celery'' [(''celery_task_name'', PStr name)])"
proof -
  obtain runs w where s: "s = (runs, w)" by (cases s)
  note start = start_once_existing [OF assms(1,2) [unfolded s fst_conv] assms(3,4)]
    and enqueue = enqueue_once_existing [OF assms(1,2) [unfolded s fst_conv] assms(3,4)]
  show ?thesis
    using assms(5-7) unfolding Let_def s
    by (cases "assert_same_idempotent_request r e")
      (simp_all add: sync_submit_def queue_submit_def celery_submit_def on_table_def start enqueue sbind_def Let_def)
qed

definition mail_run :: "string \<Rightarrow> task_run" where
  "mail_run i = pending_run (mail i) ''q'' 3 0"

theorem resubmission_runs_nothing_witness:
  "sync_submit (mail_registry good_handler) \<lparr>sp_persists = True, sp_max_attempts = 3\<rparr> 1 1 1 Active (mail ''a'')
     ([mail_run ''a''], []) = (([mail_run ''a''], []),
       Inr (task_result_from_run (mail_run ''a'') ''q'' ''in_progress'' ''sync'' []))"
  using resubmission_runs_nothing [where s = "([mail_run ''a''], [])" and r = "mail_run ''a''" and e = "mail ''a''"
      and reg = "mail_registry good_handler" and task = "mail_task good_handler" and status = Active and c = 1
      and ?t0.0 = 1 and ?t1.0 = 1 and p = "\<lparr>sp_persists = True, sp_max_attempts = 3\<rparr>"]
  by (simp add: unique_runs_def mail_run_def pending_run_def mail_def mail_task_def Let_def
      assert_same_idempotent_request_def check_task_allowed_def assert_tenant_operation_allowed_def
      is_tenant_operation_allowed_def)

section \<open>The queue's retries\<close>

definition attempts_left :: "task_run \<Rightarrow> nat" where
  "attempts_left r = (if tr_status r = Task_Pending then nat (tr_max_attempts r - tr_attempt_count r) else 0)"

definition all_left :: "task_table \<Rightarrow> nat" where
  "all_left runs = sum_list (map attempts_left runs)"

lemma sum_list_replace:
  fixes g :: "'b \<Rightarrow> nat"
  assumes "distinct xs" and "x \<in> set xs" and "g y < g x"
  shows "sum_list (map g (map (\<lambda>z. if z = x then y else z) xs)) < sum_list (map g xs)"
  using assms
proof (induction xs)
  case (Cons z zs)
  show ?case
  proof (cases "z = x")
    case True
    then have "map (\<lambda>z. if z = x then y else z) zs = zs" using Cons.prems(1) by (intro map_idI) auto
    then show ?thesis using True Cons.prems(3) by simp
  next
    case False
    with Cons show ?thesis by simp
  qed
qed simp

text \<open>What the queue makes of a run it claims: it succeeded, waits again or is a dead letter.\<close>

definition worked :: "task_run \<Rightarrow> task_run \<Rightarrow> bool" where
  "worked r r' \<longleftrightarrow> (\<exists>t0 t1. (\<exists>p. r' = run_succeeded p t1 (attempt_started t0 r)) \<or>
     (\<exists>m b. r' = run_retry_pending m b t1 (attempt_started t0 r)))"

lemma worked_follows:
  assumes "tr_status r = Task_Pending" and "worked r r'"
  shows "follows r r'"
proof -
  obtain t0 t1 where w: "(\<exists>p. r' = run_succeeded p t1 (attempt_started t0 r)) \<or>
      (\<exists>m b. r' = run_retry_pending m b t1 (attempt_started t0 r))"
    using assms(2) unfolding worked_def by blast
  have "follows r (attempt_started t0 r)" using assms(1) by (intro follows_attempt_started) simp
  moreover have "tr_status (attempt_started t0 r) = Task_Running" by (simp add: attempt_started_def)
  then have "follows (attempt_started t0 r) r'" using w follows_outcome by blast
  ultimately show ?thesis by (rule follows_trans)
qed

lemma worked_left:
  assumes "tr_status r = Task_Pending" and "worked r r'" and "sound_state (tr_max_attempts r) (run_state r)"
  shows "attempts_left r' < attempts_left r"
proof -
  have lt: "tr_attempt_count r < tr_max_attempts r" using assms(1,3) by (simp add: sound_state_def run_state_def)
  have "tr_status r' = Task_Pending \<longrightarrow>
      tr_max_attempts r' = tr_max_attempts r \<and> tr_attempt_count r' = tr_attempt_count r + 1"
    using assms(2) unfolding worked_def
    by (auto simp: run_succeeded_def run_retry_pending_def attempt_started_def Let_def)
  with lt show ?thesis using assms(1) by (auto simp: attempts_left_def)
qed

lemma save_run_twice:
  assumes u: "unique_runs runs" and r: "r \<in> set runs" and "same_request r r'" and "same_request r' r''"
  shows "save_run r' r'' (save_run r r' runs) = map (\<lambda>x. if x = r then r'' else x) runs"
proof -
  have i: "tr_id r' = tr_id r" using assms(3) by (simp add: same_request_def)
  have "x = r" if "x \<in> set runs" and "tr_id x = tr_id r" for x
    using unique_runs_id [OF u that(1) r that(2)] .
  then show ?thesis
    unfolding save_run_current [OF assms(1-3)] unfolding save_run_def map_map o_def
    using i assms(4) by (intro map_cong) (auto simp: write_changes_current)
qed

lemma run_next_outcome:
  assumes k: "registry_keeps_table reg" and u: "unique_runs runs"
    and run: "run_next id reg p t0 t1 status q (runs, w) = (s', Inr x)"
  shows "case x of None \<Rightarrow> fst s' = runs
    | Some _ \<Rightarrow> \<exists>r r'. r \<in> set runs \<and> tr_status r = Task_Pending \<and> worked r r' \<and>
        fst s' = map (\<lambda>z. if z = r then r' else z) runs"
proof (cases "oldest_claimable (Some q) t0 runs")
  case None
  with run show ?thesis by (auto simp: run_next_def claim_next_pending_def on_table_def sbind_def)
next
  case (Some r)
  note mem = oldest_claimable_mem [OF Some]
  then have p: "tr_status r = Task_Pending" by (simp add: claimable_def)
  let ?r1 = "attempt_started t0 r"
  let ?runs1 = "save_run r ?r1 runs"
  have r1: "tr_status ?r1 = Task_Running" by (simp add: attempt_started_def)
  have c: "on_table (claim_next_pending id (Some q) t0) (runs, w) = ((?runs1, w), Inr (Some ?r1))"
    using Some p by (simp add: on_table_def claim_next_pending_def start_pending_def)
  obtain task where task: "get_task reg (tr_task_type ?r1) = Inr task"
    and allowed: "check_task_allowed (tr_tenant_id ?r1) status = Inr ()"
    using run c by (cases "get_task reg (tr_task_type ?r1)"; cases "check_task_allowed (tr_tenant_id ?r1) status")
      (simp_all add: run_next_def queue_run_task_run_def sbind_def)
  obtain w' res where h: "rt_handler task (to_task_envelope ?r1) (?runs1, w) = ((?runs1, w'), res)"
    using get_task_keeps [OF k task] unfolding keeps_table_def by (metis fst_conv prod.collapse)
  define r' where "r' = (case res of Inl e \<Rightarrow> run_retry_pending (error_text e) (qp_retry_backoff_seconds p) t1 ?r1
    | Inr v \<Rightarrow> run_succeeded v t1 ?r1)"
  have "fst s' = save_run ?r1 r' ?runs1 \<and> x \<noteq> None"
    using run c task allowed r1 h
    by (cases res) (auto simp: run_next_def queue_run_task_run_def sbind_def queue_execute_def execute_def Let_def r'_def)
  moreover have "same_request ?r1 r'" by (cases res) (simp_all add: r'_def)
  then have "save_run ?r1 r' ?runs1 = map (\<lambda>z. if z = r then r' else z) runs"
    using save_run_twice [OF u mem(1)] by simp
  moreover have "worked r r'"
    unfolding worked_def r'_def by (rule exI [of _ t0], rule exI [of _ t1]) (cases res; simp; blast)
  ultimately show ?thesis using mem(1) p by (cases x) auto
qed

text \<open>Rounds of a worker, counting the runs it claims; a round that raises is rolled back.\<close>

fun queue_rounds ::
  "'w task_registry \<Rightarrow> queue_provider \<Rightarrow> tenant_status \<Rightarrow> string \<Rightarrow> (instant \<times> instant) list
    \<Rightarrow> 'w task_state \<Rightarrow> 'w task_state \<times> nat" where
  "queue_rounds reg p status q [] s = (s, 0)"
| "queue_rounds reg p status q ((t0, t1) # clock) s =
     (case run_next id reg p t0 t1 status q s of
        (_, Inl _) \<Rightarrow> queue_rounds reg p status q clock s
      | (s', Inr None) \<Rightarrow> queue_rounds reg p status q clock s'
      | (s', Inr (Some _)) \<Rightarrow> map_prod id Suc (queue_rounds reg p status q clock s'))"



section \<open>Two ways in which the workers go wrong\<close>

text \<open>The claim does not look at the row it writes: whatever other workers have committed since the
  SELECT (here \<open>others\<close>, which may have claimed, executed and completed the same run), the claim
  succeeds, its worker executes the handler again on the same request, and the run is written back
  as running with the attempt counted from what the SELECT saw.
\<close>

theorem run_claimed_twice:
  assumes "oldest_claimable (Some q) t0 runs = Some r"
    and "get_task reg (tr_task_type r) = Inr task" and "check_task_allowed (tr_tenant_id r) status = Inr ()"
    and "rt_handler task (to_task_envelope r) (save_run r (attempt_started t0 r) (others runs), w) = ((runs', w'), Inr v)"
  shows "run_next others reg p t0 t1 status q (runs, w) =
      ((save_run (attempt_started t0 r) (run_succeeded v t1 (attempt_started t0 r)) runs', w'),
       Inr (Some (executed_result (to_task_envelope r) Task_Succeeded v None ''database-queue'' (ts_queue (rt_spec task))))) \<and>
    (\<forall>x \<in> set (save_run r (attempt_started t0 r) (others runs)). tr_id x = tr_id r \<longrightarrow>
       tr_status x = Task_Running \<and> tr_attempt_count x = tr_attempt_count r + 1)"
proof -
  note mem = oldest_claimable_mem [OF assms(1)]
  then have p: "tr_status r = Task_Pending" by (simp add: claimable_def)
  have same: "tr_task_type (attempt_started t0 r) = tr_task_type r" "tr_tenant_id (attempt_started t0 r) = tr_tenant_id r"
    "to_task_envelope (attempt_started t0 r) = to_task_envelope r" "tr_status (attempt_started t0 r) = Task_Running"
    by (simp_all add: attempt_started_def to_task_envelope_def)
  have c: "on_table (claim_next_pending others (Some q) t0) (runs, w) =
      ((save_run r (attempt_started t0 r) (others runs), w), Inr (Some (attempt_started t0 r)))"
    using assms(1) p by (simp add: on_table_def claim_next_pending_def start_pending_def)
  have "run_next others reg p t0 t1 status q (runs, w) =
      ((save_run (attempt_started t0 r) (run_succeeded v t1 (attempt_started t0 r)) runs', w'),
       Inr (Some (executed_result (to_task_envelope r) Task_Succeeded v None ''database-queue'' (ts_queue (rt_spec task)))))"
    using c assms(2-4) same
    by (simp add: run_next_def queue_run_task_run_def sbind_def queue_execute_def execute_def Let_def)
  moreover have "tr_status x = Task_Running \<and> tr_attempt_count x = tr_attempt_count r + 1"
    if "x \<in> set (save_run r (attempt_started t0 r) (others runs))" and "tr_id x = tr_id r" for x
    using that p by (auto simp: save_run_def write_changes_def changed_def attempt_started_def split: if_splits)
  ultimately show ?thesis by blast
qed

definition done_elsewhere :: task_run where
  "done_elsewhere = run_succeeded None 2 (attempt_started 1 (mail_run ''a''))"

theorem run_claimed_twice_witness:
  "snd (fst (run_next (\<lambda>_. [done_elsewhere]) (mail_registry good_handler)
     \<lparr>qp_max_attempts = 3, qp_retry_backoff_seconds = 5\<rparr> 1 3 Active ''q'' ([mail_run ''a''], [''a'']))) = [''a'', ''a'']"
proof -
  have o: "oldest_claimable (Some ''q'') 1 [mail_run ''a''] = Some (mail_run ''a'')"
    by (simp add: oldest_claimable_def claimable_def mail_run_def pending_run_def)
  have g: "get_task (mail_registry good_handler) (tr_task_type (mail_run ''a'')) = Inr (mail_task good_handler)"
    by (simp add: mail_run_def pending_run_def mail_def)
  have a: "check_task_allowed (tr_tenant_id (mail_run ''a'')) Active = Inr ()"
    by (simp add: check_task_allowed_def assert_tenant_operation_allowed_def is_tenant_operation_allowed_def)
  have h: "rt_handler (mail_task good_handler) (to_task_envelope (mail_run ''a''))
      (save_run (mail_run ''a'') (attempt_started 1 (mail_run ''a'')) [done_elsewhere], [''a'']) =
    ((save_run (mail_run ''a'') (attempt_started 1 (mail_run ''a'')) [done_elsewhere], [''a'', ''a'']), Inr None)"
    by (simp add: mail_task_def good_handler_def to_task_envelope_def mail_run_def pending_run_def mail_def)
  show ?thesis
    using run_claimed_twice [OF o g a, where others = "\<lambda>_. [done_elsewhere]", OF h] by simp
qed

text \<open>A run of a task type that no app registers any more blocks its queue: while it is the oldest one that
  is due, every round of every worker of the queue raises, is rolled back, and leaves the runs
  behind it waiting; no attempt is counted, so it never becomes a dead letter.
\<close>

theorem unknown_task_blocks_queue:
  assumes "oldest_claimable (Some q) t0 runs = Some r" and "dget reg (tr_task_type r) = None"
    and "check_task_allowed (tr_tenant_id r) status = Inr ()"
  shows "snd (worker_round others reg kind m t0 t1 status q (runs, w)) =
    Inl (value_error (''No task handler registered for '' @ repr_str (tr_task_type r)))"
proof -
  note mem = oldest_claimable_mem [OF assms(1)]
  then have p: "tr_status r = Task_Pending" by (simp add: claimable_def)
  have same: "tr_task_type (attempt_started t0 r) = tr_task_type r" "tr_tenant_id (attempt_started t0 r) = tr_tenant_id r"
    by (simp_all add: attempt_started_def)
  have c: "on_table (claim_next_pending others (Some q) t0) (runs, w) =
      ((save_run r (attempt_started t0 r) (others runs), w), Inr (Some (attempt_started t0 r)))"
    using assms(1) p by (simp add: on_table_def claim_next_pending_def start_pending_def)
  show ?thesis
    using c assms(2,3) same
    by (cases kind) (simp_all add: worker_round_def run_next_def queue_run_task_run_def sync_run_task_run_def
        sbind_def get_task_def)
qed

theorem unknown_task_blocks_queue_witness:
  "snd (worker_round id (mail_registry good_handler) Sync_Worker 3 1 1 Active ''q''
     ([(mail_run ''a'')\<lparr>tr_task_type := ''old''\<rparr>, mail_run ''b''], [])) =
   Inl (value_error (''No task handler registered for '' @ repr_str ''old''))"
  using unknown_task_blocks_queue [where q = "''q''" and ?t0.0 = 1 and ?t1.0 = 1 and status = Active
      and runs = "[(mail_run ''a'')\<lparr>tr_task_type := ''old''\<rparr>, mail_run ''b'']" and kind = Sync_Worker and m = 3
      and r = "(mail_run ''a'')\<lparr>tr_task_type := ''old''\<rparr>" and reg = "mail_registry good_handler" and others = id and w = "[]"]
  by (simp add: oldest_claimable_def claimable_def claim_order_def mail_run_def pending_run_def mail_def
      check_task_allowed_def assert_tenant_operation_allowed_def is_tenant_operation_allowed_def
      mail_registry_def dget_def)

end
