(* ===== verification/Scheduler_Cron.thy ===== *)
theory Scheduler_Cron
  imports Python_Text "HOL-Library.List_Lexorder" "HOL-Library.Char_ord"
begin

text \<open>
  Cron slots and their planning (\<open>core/scheduler/repository.py\<close>) with the rows of the scheduler
  (\<open>core/scheduler/models.py\<close>). A slot is an instant at a full minute in UTC. A trigger configuration
  is a dictionary of strings with the fields \<open>hour\<close>, \<open>minute\<close> and \<open>misfire_limit\<close>.
\<close>

section \<open>Matching\<close>

definition minute_us :: int where
  "minute_us = 60 * 1000000"

definition hour_of :: "instant \<Rightarrow> int" where
  "hour_of t = (t div (60 * minute_us)) mod 24"

definition minute_of :: "instant \<Rightarrow> int" where
  "minute_of t = (t div minute_us) mod 60"

type_synonym trigger_config = "(string \<times> string) list"

fun match_items :: "int \<Rightarrow> int \<Rightarrow> int \<Rightarrow> string list \<Rightarrow> bool result" where
  "match_items actual minimum maximum [] = Inr False"
| "match_items actual minimum maximum (item # items) =
     (let item = strip item in
      if item = [] then match_items actual minimum maximum items
      else rbind (py_int item) (\<lambda>expected.
        if expected < minimum \<or> maximum < expected
          then Inl (value_error (''cron value '' @ int_str expected @ '' out of range ''
            @ int_str minimum @ ''-'' @ int_str maximum))
        else if expected = actual then Inr True
        else match_items actual minimum maximum items))"

definition cron_matches :: "string \<Rightarrow> int \<Rightarrow> int \<Rightarrow> int \<Rightarrow> bool result" where
  "cron_matches v actual minimum maximum =
    (if v = ''*'' then Inr True else match_items actual minimum maximum (split_on CHR '','' v))"

definition field_or :: "trigger_config \<Rightarrow> string \<Rightarrow> string \<Rightarrow> string" where
  "field_or config key fallback = (case dget config key of None \<Rightarrow> fallback | Some v \<Rightarrow> v)"

text \<open>\<open>and\<close> does not look at the minute when the hour does not match.\<close>

definition cron_matches_config :: "trigger_config \<Rightarrow> instant \<Rightarrow> bool result" where
  "cron_matches_config config t =
    rbind (cron_matches (field_or config ''hour'' ''*'') (hour_of t) 0 23) (\<lambda>h.
      if h then cron_matches (field_or config ''minute'' ''0'') (minute_of t) 0 59 else Inr False)"

section \<open>Due slots\<close>

definition planned_at_of :: "datetime \<Rightarrow> instant" where
  "planned_at_of d = to_utc d - to_utc d mod minute_us"

text \<open>The loop over the minutes after the last planned slot, up to the current one.\<close>

function scan_slots :: "trigger_config \<Rightarrow> instant \<Rightarrow> instant \<Rightarrow> instant list result" where
  "scan_slots config cursor until =
    (if cursor \<le> until then
       rbind (cron_matches_config config cursor) (\<lambda>m.
       rbind (scan_slots config (cursor + minute_us) until) (\<lambda>slots.
         Inr (if m then cursor # slots else slots)))
     else Inr [])"
  by auto
termination
  by (relation "measure (\<lambda>(_, cursor, until). nat (until + 1 - cursor))") (auto simp: minute_us_def)

declare scan_slots.simps [simp del]

definition cron_due_slots :: "trigger_config \<Rightarrow> datetime option \<Rightarrow> instant \<Rightarrow> instant list result" where
  "cron_due_slots config after until =
    (case after of
       None \<Rightarrow> rbind (cron_matches_config config until) (\<lambda>m. Inr (if m then [until] else []))
     | Some a \<Rightarrow> scan_slots config (planned_at_of a + minute_us) until)"

section \<open>The plan of a schedule\<close>

record due_plan =
  dp_planned_slots :: "instant list"
  dp_skipped_until :: "instant option"

record schedule_state =
  ss_last_planned_at :: "datetime option"
  ss_last_triggered_at :: "datetime option"
  ss_last_checked_at :: "datetime option"

text \<open>A state is found by schedule and tenant.\<close>

type_synonym schedule_states = "string \<times> string \<rightharpoonup> schedule_state"

definition utc_datetime :: "instant \<Rightarrow> datetime" where
  "utc_datetime t = Aware t 0"

definition misfire_limit :: "trigger_config \<Rightarrow> int result" where
  "misfire_limit config = rbind (py_int (field_or config ''misfire_limit'' ''3'')) (\<lambda>n. Inr (max 1 n))"

definition apply_misfire_policy :: "string \<Rightarrow> trigger_config \<Rightarrow> instant \<Rightarrow> instant list \<Rightarrow> due_plan result" where
  "apply_misfire_policy policy config current slots =
    (if policy = ''skip'' then
       (if slots \<noteq> [] \<and> last slots = current
          then Inr \<lparr>dp_planned_slots = [current], dp_skipped_until = None\<rparr>
        else Inr \<lparr>dp_planned_slots = [], dp_skipped_until = (if slots = [] then None else Some (last slots))\<rparr>)
     else if policy = ''run_once'' then
       Inr \<lparr>dp_planned_slots = (if slots = [] then [] else [last slots]), dp_skipped_until = None\<rparr>
     else if policy = ''catch_up_limited'' then
       rbind (misfire_limit config) (\<lambda>limit.
         Inr \<lparr>dp_planned_slots = take (nat limit) slots, dp_skipped_until = None\<rparr>)
     else Inl (value_error (''Unknown misfire policy: '' @ repr_str policy)))"

definition plan_cron_due_slots ::
  "string \<Rightarrow> string \<Rightarrow> trigger_config \<Rightarrow> string \<Rightarrow> datetime \<Rightarrow> schedule_states \<Rightarrow> due_plan result" where
  "plan_cron_due_slots schedule_id tenant_id config policy now states =
    (let current = planned_at_of now;
         last_planned = (case states (schedule_id, tenant_id) of None \<Rightarrow> None | Some st \<Rightarrow> ss_last_planned_at st) in
     rbind (cron_due_slots config last_planned current) (apply_misfire_policy policy config current))"

definition upsert_state ::
  "string \<Rightarrow> string \<Rightarrow> datetime \<Rightarrow> datetime \<Rightarrow> datetime option \<Rightarrow> schedule_states \<Rightarrow> schedule_states" where
  "upsert_state schedule_id tenant_id planned checked triggered states =
    states((schedule_id, tenant_id) \<mapsto>
      (case states (schedule_id, tenant_id) of
         None \<Rightarrow> \<lparr>ss_last_planned_at = Some planned, ss_last_triggered_at = triggered, ss_last_checked_at = Some checked\<rparr>
       | Some st \<Rightarrow> st\<lparr>ss_last_planned_at := Some planned,
           ss_last_triggered_at := (case triggered of None \<Rightarrow> ss_last_triggered_at st | Some t \<Rightarrow> Some t),
           ss_last_checked_at := Some checked\<rparr>))"

definition mark_triggered :: "string \<Rightarrow> string \<Rightarrow> instant \<Rightarrow> instant \<Rightarrow> schedule_states \<Rightarrow> schedule_states" where
  "mark_triggered schedule_id tenant_id planned triggered =
     upsert_state schedule_id tenant_id (utc_datetime planned) (utc_datetime triggered) (Some (utc_datetime triggered))"

definition mark_skipped_until :: "string \<Rightarrow> string \<Rightarrow> instant \<Rightarrow> instant \<Rightarrow> schedule_states \<Rightarrow> schedule_states" where
  "mark_skipped_until schedule_id tenant_id planned checked =
     upsert_state schedule_id tenant_id (utc_datetime planned) (utc_datetime checked) None"

section \<open>A reference for the slots\<close>

text \<open>The values a field names, as a set, for a field whose items are all integers in its range.\<close>

definition field_items :: "string \<Rightarrow> string list" where
  "field_items v = filter (\<lambda>i. i \<noteq> []) (map strip (split_on CHR '','' v))"

definition field_ok :: "int \<Rightarrow> int \<Rightarrow> string \<Rightarrow> bool" where
  "field_ok minimum maximum v \<longleftrightarrow> v = ''*'' \<or>
     (\<forall>i \<in> set (field_items v). when_some (parse_int i) (\<lambda>n. minimum \<le> n \<and> n \<le> maximum))"

definition field_has :: "string \<Rightarrow> int \<Rightarrow> bool" where
  "field_has v n \<longleftrightarrow> v = ''*'' \<or> (\<exists>i \<in> set (field_items v). parse_int i = Some n)"

definition config_ok :: "trigger_config \<Rightarrow> bool" where
  "config_ok config \<longleftrightarrow> field_ok 0 23 (field_or config ''hour'' ''*'') \<and> field_ok 0 59 (field_or config ''minute'' ''0'')"

definition slot_matches :: "trigger_config \<Rightarrow> instant \<Rightarrow> bool" where
  "slot_matches config t \<longleftrightarrow> field_has (field_or config ''hour'' ''*'') (hour_of t) \<and>
     field_has (field_or config ''minute'' ''0'') (minute_of t)"

definition due :: "trigger_config \<Rightarrow> instant \<Rightarrow> instant \<Rightarrow> instant set" where
  "due config after until = {t. after < t \<and> t \<le> until \<and> minute_us dvd t \<and> slot_matches config t}"

lemma match_items_ok:
  assumes "\<forall>i \<in> set (filter (\<lambda>i. i \<noteq> []) (map strip items)). \<exists>n. parse_int i = Some n \<and> lo \<le> n \<and> n \<le> hi"
  shows "match_items a lo hi items =
    Inr (\<exists>i \<in> set (filter (\<lambda>i. i \<noteq> []) (map strip items)). parse_int i = Some a)"
  using assms
proof (induction items)
  case (Cons item items)
  show ?case
  proof (cases "strip item = []")
    case True
    with Cons show ?thesis by (simp add: Let_def)
  next
    case False
    with Cons.prems obtain n where n: "parse_int (strip item) = Some n" "lo \<le> n" "n \<le> hi" by auto
    have "match_items a lo hi items =
        Inr (\<exists>i \<in> set (filter (\<lambda>i. i \<noteq> []) (map strip items)). parse_int i = Some a)"
      by (rule Cons.IH) (use Cons.prems in auto)
    with False n show ?thesis by (auto simp: Let_def py_int_def)
  qed
qed simp

lemma cron_matches_ok: "field_ok lo hi v \<Longrightarrow> cron_matches v a lo hi = Inr (field_has v a)"
  by (cases "v = ''*''")
    (simp_all add: cron_matches_def field_ok_def field_has_def field_items_def match_items_ok)

lemma cron_matches_config_ok: "config_ok config \<Longrightarrow> cron_matches_config config t = Inr (slot_matches config t)"
  by (simp add: cron_matches_config_def config_ok_def cron_matches_ok slot_matches_def)

lemma minute_us_pos [simp]: "0 < minute_us"
  by (simp add: minute_us_def)

lemma minute_us_nonzero [simp]: "minute_us \<noteq> 0"
  by (simp add: minute_us_def)

lemma to_utc_datetime [simp]: "to_utc (utc_datetime t) = t"
  by (simp add: utc_datetime_def)

lemma after_minute: "a + minute_us \<le> t \<Longrightarrow> a < t"
  by (simp add: minute_us_def)

lemma planned_at_dvd [simp]: "minute_us dvd planned_at_of d"
  by (simp add: planned_at_of_def)

lemma planned_at_le: "planned_at_of d \<le> to_utc d"
  by (simp add: planned_at_of_def)

lemma planned_at_utc [simp]: "minute_us dvd t \<Longrightarrow> planned_at_of (utc_datetime t) = t"
  by (simp add: planned_at_of_def utc_datetime_def)

text \<open>No full minute lies strictly between two neighbours.\<close>

lemma next_minute:
  assumes "minute_us dvd a" and "minute_us dvd t"
  shows "a < t \<longleftrightarrow> a + minute_us \<le> t"
proof
  assume "a < t"
  then have "0 < t - a" and "minute_us dvd t - a" using assms by (simp_all add: dvd_diff)
  then have "minute_us \<le> t - a" by (rule zdvd_imp_le [rotated])
  then show "a + minute_us \<le> t" by simp
next
  assume "a + minute_us \<le> t"
  then show "a < t" by (rule after_minute)
qed

lemma due_step:
  assumes "minute_us dvd cursor" and "cursor \<le> until"
  shows "{t. cursor \<le> t \<and> t \<le> until \<and> minute_us dvd t \<and> slot_matches config t} =
    (if slot_matches config cursor then {cursor} else {}) \<union>
    {t. cursor + minute_us \<le> t \<and> t \<le> until \<and> minute_us dvd t \<and> slot_matches config t}"
  using assms next_minute [OF assms(1)] by (auto simp: order_le_less)

lemma scan_slots_due:
  assumes "config_ok config" and "minute_us dvd cursor"
  shows "\<exists>slots. scan_slots config cursor until = Inr slots \<and> sorted_wrt (<) slots \<and>
    set slots = {t. cursor \<le> t \<and> t \<le> until \<and> minute_us dvd t \<and> slot_matches config t}"
  using assms
proof (induction config cursor until rule: scan_slots.induct)
  case (1 config cursor until)
  show ?case
  proof (cases "cursor \<le> until")
    case True
    have m: "cron_matches_config config cursor = Inr (slot_matches config cursor)"
      using "1.prems"(1) by (rule cron_matches_config_ok)
    have "minute_us dvd cursor + minute_us" using "1.prems"(2) by simp
    from "1.IH" [OF True "1.prems"(1) this] obtain slots where
      s: "scan_slots config (cursor + minute_us) until = Inr slots" "sorted_wrt (<) slots"
        "set slots = {t. cursor + minute_us \<le> t \<and> t \<le> until \<and> minute_us dvd t \<and> slot_matches config t}"
      by blast
    have "scan_slots config cursor until = Inr (if slot_matches config cursor then cursor # slots else slots)"
      by (subst scan_slots.simps) (simp add: True m s(1))
    moreover have "\<forall>t \<in> set slots. cursor < t" unfolding s(3) using after_minute by blast
    ultimately show ?thesis
      using s(2,3) due_step [OF "1.prems"(2) True, of config] by auto
  next
    case False
    then show ?thesis by (subst scan_slots.simps) auto
  qed
qed

lemma cron_due_slots_due:
  assumes "config_ok config"
  shows "\<exists>slots. cron_due_slots config (Some after) until = Inr slots \<and> sorted_wrt (<) slots \<and>
    set slots = due config (planned_at_of after) until"
proof -
  have "minute_us dvd planned_at_of after + minute_us" by simp
  from scan_slots_due [OF assms this, of until] show ?thesis
    using next_minute [OF planned_at_dvd] by (fastforce simp: cron_due_slots_def due_def)
qed

lemma cron_due_slots_first:
  "config_ok config \<Longrightarrow> cron_due_slots config None until = Inr (if slot_matches config until then [until] else [])"
  by (simp add: cron_due_slots_def cron_matches_config_ok)

text \<open>A plan holds due slots only, in order, whatever the configuration.\<close>

lemma scan_slots_range:
  "scan_slots config cursor until = Inr slots \<Longrightarrow> minute_us dvd cursor \<Longrightarrow>
     sorted_wrt (<) slots \<and> (\<forall>t \<in> set slots. cursor \<le> t \<and> t \<le> until \<and> minute_us dvd t)"
proof (induction config cursor until arbitrary: slots rule: scan_slots.induct)
  case (1 config cursor until)
  show ?case
  proof (cases "cursor \<le> until")
    case True
    from "1.prems" True obtain m rest where m: "cron_matches_config config cursor = Inr m"
      and rest: "scan_slots config (cursor + minute_us) until = Inr rest"
      and slots: "slots = (if m then cursor # rest else rest)"
      by (subst (asm) scan_slots.simps) (auto simp: rbind_Inr_iff)
    have "minute_us dvd cursor + minute_us" using "1.prems"(2) by simp
    from "1.IH" [OF True rest this] have "sorted_wrt (<) rest"
      "\<forall>t \<in> set rest. cursor + minute_us \<le> t \<and> t \<le> until \<and> minute_us dvd t" by blast+
    then have "\<forall>t \<in> set rest. cursor < t \<and> t \<le> until \<and> minute_us dvd t" using after_minute by blast
    then show ?thesis using slots True "1.prems"(2) \<open>sorted_wrt (<) rest\<close> by (cases m) (auto simp: less_imp_le)
  next
    case False
    with "1.prems" show ?thesis by (subst (asm) scan_slots.simps) simp
  qed
qed

lemma cron_due_slots_range:
  assumes "cron_due_slots config after until = Inr slots" and "minute_us dvd until"
  shows "sorted_wrt (<) slots \<and> (\<forall>t \<in> set slots. t \<le> until \<and> minute_us dvd t \<and>
    (\<forall>a. after = Some a \<longrightarrow> planned_at_of a < t))"
proof (cases after)
  case None
  with assms show ?thesis by (auto simp: cron_due_slots_def rbind_Inr_iff)
next
  case (Some a)
  then have s: "scan_slots config (planned_at_of a + minute_us) until = Inr slots"
    using assms(1) by (simp add: cron_due_slots_def)
  have "minute_us dvd planned_at_of a + minute_us" by simp
  note range = scan_slots_range [OF s this]
  have "planned_at_of a < t" if "t \<in> set slots" for t
    using range that after_minute by blast
  with range Some show ?thesis by simp
qed

end
