(* ===== verification/Scheduler_Providers.thy ===== *)
theory Scheduler_Providers
  imports Scheduler_Cron Task_Providers Lock_Interface
begin

text \<open>
  The schedule registry (\<open>core/scheduler/registry.py\<close>), the log of triggers
  (\<open>core/scheduler/repository.py\<close>), the trigger providers (\<open>core/scheduler/provider.py\<close>) and the
  wrappers for external schedulers (\<open>core/scheduler/external.py\<close>).

  A trigger provider is an operation on the log of triggers and the rest of the world, \<open>'s\<close>; the
  task provider it submits to, the lock provider and the audit recorder are operations on that
  world. \<open>isoformat\<close> is \<open>datetime.isoformat\<close> of a UTC time and \<open>digest\<close> the first 16 digits of the SHA-256
  of a text. The background context is not carried.
\<close>

section \<open>The registry\<close>

record schedule_spec =
  sc_schedule_id :: string
  sc_task_type :: string
  sc_trigger :: string
  sc_trigger_config :: trigger_config
  sc_misfire_policy :: string

record registered_schedule =
  rs_app_label :: string
  rs_spec :: schedule_spec

type_synonym schedule_registry = "(string \<times> registered_schedule) list"

definition register_schedule ::
  "'w task_registry \<Rightarrow> string \<times> schedule_spec \<Rightarrow> schedule_registry \<Rightarrow> schedule_registry result" where
  "register_schedule tasks = (\<lambda>(app_label, spec) reg.
    if dget reg (sc_schedule_id spec) \<noteq> None
      then Inl (value_error (''Duplicate schedule '' @ repr_str (sc_schedule_id spec)))
    else if dget tasks (sc_task_type spec) = None
      then Inl (value_error (''Schedule '' @ repr_str (sc_schedule_id spec) @ '' references unknown task ''
        @ repr_str (sc_task_type spec)))
    else Inr (dput (sc_schedule_id spec) \<lparr>rs_app_label = app_label, rs_spec = spec\<rparr> reg))"

definition schedule_registry_from ::
  "'w task_registry \<Rightarrow> (string \<times> schedule_spec list) list \<Rightarrow> schedule_registry result" where
  "schedule_registry_from tasks modules =
     fold_result (register_schedule tasks) (concat (map (\<lambda>(label, specs). map (Pair label) specs) modules)) []"

definition get_schedule :: "schedule_registry \<Rightarrow> string \<Rightarrow> registered_schedule result" where
  "get_schedule reg schedule_id =
    (case dget reg schedule_id of
       Some r \<Rightarrow> Inr r
     | None \<Rightarrow> Inl (value_error (''No schedule registered for '' @ repr_str schedule_id)))"

section \<open>The log of triggers\<close>

record trigger_log =
  tl_id :: string
  tl_schedule_id :: string
  tl_tenant_id :: string
  tl_task_id :: string
  tl_task_type :: string
  tl_planned_at :: instant
  tl_triggered_at :: instant
  tl_request_id :: string
  tl_status :: string
  tl_error_message :: "string option"
  tl_details :: "(string \<times> pyval) list"

definition trigger_key :: "trigger_log \<Rightarrow> string \<times> string \<times> instant" where
  "trigger_key l = (tl_schedule_id l, tl_tenant_id l, tl_planned_at l)"

definition get_by_trigger_key :: "string \<times> string \<times> instant \<Rightarrow> trigger_log list \<Rightarrow> trigger_log option" where
  "get_by_trigger_key key logs = find (\<lambda>l. trigger_key l = key) logs"

definition assert_same_trigger ::
  "(datetime \<Rightarrow> string) \<Rightarrow> string \<Rightarrow> string \<Rightarrow> trigger_log \<Rightarrow> unit result" where
  "assert_same_trigger isoformat task_id task_type l =
    (if tl_task_id l = task_id \<and> tl_task_type l = task_type then Inr ()
     else Inl (app_error ''SCHEDULE_TRIGGER_CONFLICT'' ''Schedule trigger key was already used with a different task''
       (Some 409) [(''schedule_id'', PStr (tl_schedule_id l)), (''tenant_id'', PStr (tl_tenant_id l)),
         (''planned_at'', PStr (isoformat (utc_datetime (tl_planned_at l)))),
         (''existing_task_id'', PStr (tl_task_id l)), (''requested_task_id'', PStr task_id)]))"

datatype history_outcome = History_Started | History_Replayed

fun history_name :: "history_outcome \<Rightarrow> string" where
  "history_name History_Started = ''started''"
| "history_name History_Replayed = ''replayed''"

text \<open>The INSERT under a savepoint; the identifier is fresh, so only the trigger key can refuse it, and
  then the row is found unless another session has deleted it, which none does.\<close>

definition record_result ::
  "(datetime \<Rightarrow> string) \<Rightarrow> trigger_log \<Rightarrow> trigger_log list \<Rightarrow> trigger_log list \<times> (history_outcome \<times> trigger_log) result" where
  "record_result isoformat l logs =
    (case get_by_trigger_key (trigger_key l) logs of
       Some existing \<Rightarrow>
         (logs, rbind (assert_same_trigger isoformat (tl_task_id l) (tl_task_type l) existing) (\<lambda>_.
            Inr (History_Replayed, existing)))
     | None \<Rightarrow> (logs @ [l], Inr (History_Started, l)))"

section \<open>Triggers\<close>

record trigger_request =
  tq_schedule_id :: string
  tq_tenant_id :: string
  tq_request_id :: string
  tq_trace_id :: "string option"
  tq_planned_at :: "datetime option"
  tq_payload :: task_payload

record trigger_result =
  tg_schedule_id :: string
  tg_task_id :: string
  tg_task_type :: string
  tg_planned_at :: instant
  tg_triggered_at :: instant
  tg_task_result :: task_result
  tg_metadata :: "(string \<times> pyval) list"

definition trigger_ok :: "trigger_result \<Rightarrow> bool" where
  "trigger_ok r = task_result_ok (tg_task_result r)"

definition trigger_to_dict ::
  "(datetime \<Rightarrow> string) \<Rightarrow> (task_result \<Rightarrow> pyval) \<Rightarrow> trigger_result \<Rightarrow> (string \<times> pyval) list" where
  "trigger_to_dict isoformat task_dict r =
    [(''ok'', PBool (trigger_ok r)), (''schedule_id'', PStr (tg_schedule_id r)), (''task_id'', PStr (tg_task_id r)),
     (''task_type'', PStr (tg_task_type r)), (''planned_at'', PStr (isoformat (utc_datetime (tg_planned_at r)))),
     (''triggered_at'', PStr (isoformat (utc_datetime (tg_triggered_at r)))),
     (''task_result'', task_dict (tg_task_result r)), (''metadata'', PDict (tg_metadata r))]"

definition task_result_to_dict :: "task_result \<Rightarrow> pyval" where
  "task_result_to_dict r = PDict
    [(''ok'', PBool (task_result_ok r)), (''task_id'', PStr (re_task_id r)), (''task_type'', PStr (re_task_type r)),
     (''status'', PStr (task_status_name (re_status r))),
     (''result_payload'', (case re_result_payload r of None \<Rightarrow> PNone | Some p \<Rightarrow> PDict p)),
     (''error_message'', opt_str (re_error_message r)), (''metadata'', PDict (re_metadata r))]"

type_synonym 's trigger = "trigger_request \<Rightarrow> tenant_status \<Rightarrow> (trigger_log list \<times> 's, trigger_result) state_op"

definition planned_or_now :: "instant \<Rightarrow> trigger_request \<Rightarrow> instant" where
  "planned_or_now now q = (case tq_planned_at q of None \<Rightarrow> now | Some d \<Rightarrow> to_utc d)"

definition idempotency_key_of :: "(datetime \<Rightarrow> string) \<Rightarrow> string \<Rightarrow> string \<Rightarrow> instant \<Rightarrow> string" where
  "idempotency_key_of isoformat schedule_id tenant_id planned =
     ''schedule:'' @ schedule_id @ '':'' @ tenant_id @ '':'' @ isoformat (utc_datetime planned)"

definition task_id_of :: "(string \<Rightarrow> string) \<Rightarrow> string \<Rightarrow> string" where
  "task_id_of digest idempotency_key = ''schedule-'' @ digest idempotency_key"

definition lock_key_of :: "(datetime \<Rightarrow> string) \<Rightarrow> string \<Rightarrow> string \<Rightarrow> instant \<Rightarrow> string" where
  "lock_key_of isoformat schedule_id tenant_id planned =
     ''scheduler:trigger:'' @ schedule_id @ '':'' @ tenant_id @ '':'' @ isoformat (utc_datetime planned)"

text \<open>What a manual provider is built from: \<open>mp_submit\<close> is the task provider's \<open>submit\<close>, \<open>mp_records\<close>
  tells whether there is a trigger repository, \<open>mp_fresh\<close> is the identifier of a new log row.\<close>

record 's manual_provider =
  mp_registry :: schedule_registry
  mp_submit :: "tenant_status \<Rightarrow> task_envelope \<Rightarrow> ('s, task_result) state_op"
  mp_records :: bool
  mp_iso :: "datetime \<Rightarrow> string"
  mp_digest :: "string \<Rightarrow> string"
  mp_fresh :: "trigger_request \<Rightarrow> string"

definition schedule_envelope :: "'s manual_provider \<Rightarrow> trigger_request \<Rightarrow> instant \<Rightarrow> string \<Rightarrow> task_envelope" where
  "schedule_envelope p q planned task_type =
    (let key = idempotency_key_of (mp_iso p) (tq_schedule_id q) (tq_tenant_id q) planned in
     \<lparr>tk_task_id = task_id_of (mp_digest p) key, tk_task_type = task_type, tk_tenant_id = tq_tenant_id q,
      tk_payload = tq_payload q, tk_idempotency_key = key, tk_request_id = tq_request_id q, tk_trace_id = tq_trace_id q\<rparr>)"

definition trigger_log_of ::
  "'s manual_provider \<Rightarrow> trigger_request \<Rightarrow> instant \<Rightarrow> instant \<Rightarrow> task_envelope \<Rightarrow> task_result \<Rightarrow> trigger_log" where
  "trigger_log_of p q planned triggered e r =
    \<lparr>tl_id = mp_fresh p q, tl_schedule_id = tq_schedule_id q, tl_tenant_id = tq_tenant_id q,
     tl_task_id = tk_task_id e, tl_task_type = tk_task_type e, tl_planned_at = planned, tl_triggered_at = triggered,
     tl_request_id = tq_request_id q, tl_status = task_status_name (re_status r), tl_error_message = re_error_message r,
     tl_details = [(''task_ok'', PBool (task_result_ok r))]\<rparr>"

text \<open>\<open>now\<close> is read once for a request without a planned time and once for \<open>triggered_at\<close>.\<close>

definition manual_trigger :: "'s manual_provider \<Rightarrow> instant \<Rightarrow> instant \<Rightarrow> 's trigger" where
  "manual_trigger p now triggered q tenant_status s =
    (let planned = planned_or_now now q in
     sbind (sret (get_schedule (mp_registry p) (tq_schedule_id q))) (\<lambda>registered s.
       let spec = rs_spec registered; e = schedule_envelope p q planned (sc_task_type spec) in
       case mp_submit p tenant_status e (snd s) of
         (w, Inl err) \<Rightarrow> ((fst s, w), Inl err)
       | (w, Inr r) \<Rightarrow>
           (let metadata = [(''provider'', PStr ''manual''), (''trigger'', PStr (sc_trigger spec)),
                  (''misfire_policy'', PStr (sc_misfire_policy spec))];
                answer = (\<lambda>extra. \<lparr>tg_schedule_id = tq_schedule_id q, tg_task_id = tk_task_id e,
                  tg_task_type = sc_task_type spec, tg_planned_at = planned, tg_triggered_at = triggered,
                  tg_task_result = r, tg_metadata = metadata @ extra\<rparr>) in
            if \<not> mp_records p then ((fst s, w), Inr (answer []))
            else (case record_result (mp_iso p) (trigger_log_of p q planned triggered e r) (fst s) of
                (logs, Inl err) \<Rightarrow> ((logs, w), Inl err)
              | (logs, Inr (outcome, l)) \<Rightarrow> ((logs, w), Inr (answer
                  [(''trigger_history'', PStr (history_name outcome)), (''trigger_log_id'', PStr (tl_id l))]))))) s)"

section \<open>The wrappers\<close>

text \<open>A lock provider on the world: \<open>require_acquire\<close> and \<open>release\<close>.\<close>

record 's lock_service =
  lk_require_acquire :: "string \<Rightarrow> int \<Rightarrow> ('s, lock_handle) state_op"
  lk_release :: "string \<Rightarrow> string \<Rightarrow> ('s, unit) state_op"

definition on_rest :: "('s, 'a) state_op \<Rightarrow> (trigger_log list \<times> 's, 'a) state_op" where
  "on_rest f s = (case f (snd s) of (w, r) \<Rightarrow> ((fst s, w), r))"

definition set_metadata :: "string \<Rightarrow> pyval \<Rightarrow> trigger_result \<Rightarrow> trigger_result" where
  "set_metadata k v r = r\<lparr>tg_metadata := dput k v (tg_metadata r)\<rparr>"

text \<open>The release stands in a \<open>finally\<close>: it is made whatever the provider did, and replaces its outcome
  when it raises itself.\<close>

definition locked_trigger ::
  "'s lock_service \<Rightarrow> (datetime \<Rightarrow> string) \<Rightarrow> int \<Rightarrow> instant \<Rightarrow> 's trigger \<Rightarrow> 's trigger" where
  "locked_trigger locks isoformat ttl now inner q tenant_status =
    (let planned = planned_or_now now q;
         key = lock_key_of isoformat (tq_schedule_id q) (tq_tenant_id q) planned in
     sbind (on_rest (lk_require_acquire locks key ttl)) (\<lambda>h s.
       case inner (q\<lparr>tq_planned_at := Some (utc_datetime planned)\<rparr>) tenant_status s of (s', res) \<Rightarrow>
       case on_rest (lk_release locks key (lh_owner h)) s' of
         (s'', Inl err) \<Rightarrow> (s'', Inl err)
       | (s'', Inr _) \<Rightarrow> (s'', rbind res (\<lambda>r. Inr (set_metadata ''fencing_token'' (PInt (lh_fencing h))
             (set_metadata ''lock_key'' (PStr key) r))))))"

definition audit_success_payload :: "(datetime \<Rightarrow> string) \<Rightarrow> tenant_status \<Rightarrow> trigger_result \<Rightarrow> (string \<times> pyval) list" where
  "audit_success_payload isoformat tenant_status r =
    [(''schedule_id'', PStr (tg_schedule_id r)), (''task_id'', PStr (tg_task_id r)),
     (''task_type'', PStr (tg_task_type r)), (''task_status'', PStr (task_status_name (re_status (tg_task_result r)))),
     (''planned_at'', PStr (isoformat (utc_datetime (tg_planned_at r)))),
     (''triggered_at'', PStr (isoformat (utc_datetime (tg_triggered_at r)))),
     (''tenant_status'', PStr (tenant_status_name tenant_status))]
    @ concat (map (\<lambda>k. case dget (tg_metadata r) k of None \<Rightarrow> [] | Some v \<Rightarrow> [(k, v)])
        [''lock_key'', ''fencing_token'', ''scheduler_provider''])"

definition trigger_audit ::
  "trigger_request \<Rightarrow> string \<Rightarrow> string option \<Rightarrow> (string \<times> pyval) list \<Rightarrow> audit_event" where
  "trigger_audit q outcome reason payload =
    \<lparr>au_action = ''scheduler.triggered'', au_resource_type = ''schedule'', au_resource_id = Some (tq_schedule_id q),
     au_result = outcome, au_tenant = Some (tq_tenant_id q), au_actor = None, au_reason = reason,
     au_policy_version = None, au_request_id = Some (tq_request_id q), au_payload = payload\<rparr>"

definition audited_trigger ::
  "(audit_event \<Rightarrow> ('s, unit) state_op) \<Rightarrow> (datetime \<Rightarrow> string) \<Rightarrow> 's trigger \<Rightarrow> 's trigger" where
  "audited_trigger audit isoformat inner q tenant_status s =
    (case inner q tenant_status s of
       (s', Inl err) \<Rightarrow>
         sbind (on_rest (audit (trigger_audit q ''failure'' (Some (error_text err))
           [(''schedule_id'', PStr (tq_schedule_id q)),
            (''planned_at'', (case tq_planned_at q of None \<Rightarrow> PNone | Some d \<Rightarrow> PStr (isoformat (utc_datetime (to_utc d))))),
            (''tenant_status'', PStr (tenant_status_name tenant_status))]))) (\<lambda>_. sret (Inl err)) s'
     | (s', Inr r) \<Rightarrow>
         sbind (on_rest (audit (trigger_audit q (if trigger_ok r then ''success'' else ''failure'')
           (re_error_message (tg_task_result r)) (audit_success_payload isoformat tenant_status r))))
           (\<lambda>_. sret (Inr (set_metadata ''audit'' (PStr ''recorded'') r))) s')"

definition external_trigger :: "string \<Rightarrow> 's trigger \<Rightarrow> 's trigger" where
  "external_trigger name inner q tenant_status =
     sbind (inner q tenant_status) (\<lambda>r. sret (Inr (set_metadata ''scheduler_provider'' (PStr name) r)))"

definition wrap_external :: "string \<Rightarrow> 's trigger \<Rightarrow> 's trigger result" where
  "wrap_external provider inner =
    (if provider \<in> {''apscheduler'', ''celery_beat''} then Inr (external_trigger provider inner)
     else if provider = ''local'' then Inr inner
     else Inl (value_error (''Unknown scheduler provider: '' @ repr_str provider)))"

record external_job =
  ej_provider :: string
  ej_schedule_id :: string
  ej_task_type :: string
  ej_tenant_id :: string
  ej_trigger :: string
  ej_trigger_config :: trigger_config
  ej_misfire_policy :: string
  ej_request_id_prefix :: string
  ej_payload :: task_payload

definition external_jobs :: "string \<Rightarrow> schedule_registry \<Rightarrow> string \<Rightarrow> string \<Rightarrow> task_payload \<Rightarrow> external_job list" where
  "external_jobs provider reg tenant_id prefix payload =
    map (\<lambda>(_, r). let spec = rs_spec r in
      \<lparr>ej_provider = provider, ej_schedule_id = sc_schedule_id spec, ej_task_type = sc_task_type spec,
       ej_tenant_id = tenant_id, ej_trigger = sc_trigger spec, ej_trigger_config = sc_trigger_config spec,
       ej_misfire_policy = sc_misfire_policy spec, ej_request_id_prefix = prefix, ej_payload = payload\<rparr>)
     (filter (\<lambda>(_, r). sc_trigger (rs_spec r) \<noteq> ''manual'') reg)"

definition beat_entry :: "string \<Rightarrow> external_job \<Rightarrow> (string \<times> pyval) list" where
  "beat_entry task_name job =
    [(''task'', PStr task_name),
     (''schedule'', PDict [(''trigger'', PStr (ej_trigger job)),
        (''trigger_config'', PDict (map (\<lambda>(k, v). (k, PStr v)) (ej_trigger_config job)))]),
     (''kwargs'', PDict [(''schedule_id'', PStr (ej_schedule_id job)), (''tenant_id'', PStr (ej_tenant_id job)),
        (''request_id_prefix'', PStr (ej_request_id_prefix job)), (''payload'', PDict (ej_payload job)),
        (''misfire_policy'', PStr (ej_misfire_policy job))])]"

definition beat_schedule ::
  "string \<Rightarrow> schedule_registry \<Rightarrow> string \<Rightarrow> string \<Rightarrow> task_payload \<Rightarrow> (string \<times> (string \<times> pyval) list) list" where
  "beat_schedule task_name reg tenant_id prefix payload =
    fold (\<lambda>job. dput (ej_schedule_id job) (beat_entry task_name job))
      (external_jobs ''celery_beat'' reg tenant_id prefix payload) []"

section \<open>One iteration of the scheduler loop\<close>

text \<open>
  \<open>core/scheduler/runtime.py\<close>: the loop plans each cron schedule and triggers its slots in order. What
  a slot came to is kept as \<open>slot_report\<close>; the dictionaries of the result are built from it.
\<close>

record slot_report =
  sr_schedule_id :: string
  sr_planned_at :: instant
  sr_outcome :: "trigger_result result"

record scheduler_stats =
  st_iterations :: nat
  st_checked :: nat
  st_triggered :: nat
  st_failed :: nat
  st_reports :: "slot_report list"

type_synonym 's scheduler_state = "schedule_states \<times> (trigger_log list \<times> 's)"

record tick_config =
  tc_tenant_id :: string
  tc_tenant_status :: tenant_status
  tc_request_id_prefix :: string
  tc_payload :: task_payload
  tc_iso :: "datetime \<Rightarrow> string"

definition slot_request :: "tick_config \<Rightarrow> string \<Rightarrow> instant \<Rightarrow> trigger_request" where
  "slot_request c schedule_id slot =
    \<lparr>tq_schedule_id = schedule_id, tq_tenant_id = tc_tenant_id c,
     tq_request_id = tc_request_id_prefix c @ '':'' @ schedule_id @ '':'' @ tc_iso c (utc_datetime slot),
     tq_trace_id = None, tq_planned_at = Some (utc_datetime slot), tq_payload = tc_payload c\<rparr>"

definition run_slot ::
  "tick_config \<Rightarrow> 's trigger \<Rightarrow> string \<Rightarrow> instant \<Rightarrow> instant \<Rightarrow> 's scheduler_state \<times> scheduler_stats
    \<Rightarrow> 's scheduler_state \<times> scheduler_stats" where
  "run_slot c trigger schedule_id planned slot = (\<lambda>((states, s), stats).
    case trigger (slot_request c schedule_id slot) (tc_tenant_status c) s of
      (s', Inl err) \<Rightarrow>
        ((states, s'), stats\<lparr>st_failed := st_failed stats + 1,
           st_reports := st_reports stats @ [\<lparr>sr_schedule_id = schedule_id, sr_planned_at = slot, sr_outcome = Inl err\<rparr>]\<rparr>)
    | (s', Inr r) \<Rightarrow>
        ((mark_triggered schedule_id (tc_tenant_id c) slot planned states, s'),
         stats\<lparr>st_triggered := st_triggered stats + 1,
           st_failed := st_failed stats + (if trigger_ok r then 0 else 1),
           st_reports := st_reports stats @ [\<lparr>sr_schedule_id = schedule_id, sr_planned_at = slot, sr_outcome = Inr r\<rparr>]\<rparr>))"

text \<open>One schedule: an exception of the planning leaves the loop.\<close>

definition run_schedule ::
  "tick_config \<Rightarrow> 's trigger \<Rightarrow> instant \<Rightarrow> registered_schedule \<Rightarrow> 's scheduler_state \<times> scheduler_stats
    \<Rightarrow> ('s scheduler_state \<times> scheduler_stats) result" where
  "run_schedule c trigger planned registered x =
    (let spec = rs_spec registered; schedule_id = sc_schedule_id spec; states = fst (fst x) in
     if sc_trigger spec \<noteq> ''cron'' then Inr x
     else rbind (plan_cron_due_slots schedule_id (tc_tenant_id c) (sc_trigger_config spec) (sc_misfire_policy spec)
           (utc_datetime planned) states) (\<lambda>plan.
       let states' = (case dp_skipped_until plan of
             None \<Rightarrow> states
           | Some t \<Rightarrow> mark_skipped_until schedule_id (tc_tenant_id c) t planned states) in
       Inr (fold (run_slot c trigger schedule_id planned) (dp_planned_slots plan) ((states', snd (fst x)), snd x))))"

definition run_tick ::
  "tick_config \<Rightarrow> 's trigger \<Rightarrow> schedule_registry \<Rightarrow> datetime \<Rightarrow> 's scheduler_state \<times> scheduler_stats
    \<Rightarrow> ('s scheduler_state \<times> scheduler_stats) result" where
  "run_tick c trigger reg now = (\<lambda>(s, stats).
    rbind (fold_result (run_schedule c trigger (planned_at_of now)) (map snd reg)
        (s, stats\<lparr>st_checked := st_checked stats + length reg\<rparr>)) (\<lambda>(s', stats').
      Inr (s', stats'\<lparr>st_iterations := st_iterations stats' + 1\<rparr>)))"

text \<open>The loop, over the clock readings of its iterations. The heartbeat row an iteration may write
  is not carried.\<close>

definition no_scheduler_stats :: scheduler_stats where
  "no_scheduler_stats = \<lparr>st_iterations = 0, st_checked = 0, st_triggered = 0, st_failed = 0, st_reports = []\<rparr>"

definition run_scheduler_loop ::
  "tick_config \<Rightarrow> 's trigger \<Rightarrow> schedule_registry \<Rightarrow> datetime list \<Rightarrow> 's scheduler_state
    \<Rightarrow> ('s scheduler_state \<times> scheduler_stats) result" where
  "run_scheduler_loop c trigger reg readings s =
     fold_result (run_tick c trigger reg) readings (s, no_scheduler_stats)"

definition report_to_dict :: "(datetime \<Rightarrow> string) \<Rightarrow> slot_report \<Rightarrow> (string \<times> pyval) list" where
  "report_to_dict isoformat r =
    (case sr_outcome r of
       Inl err \<Rightarrow> [(''ok'', PBool False), (''schedule_id'', PStr (sr_schedule_id r)),
         (''planned_at'', PStr (isoformat (utc_datetime (sr_planned_at r)))), (''error'', PStr (error_text err))]
     | Inr t \<Rightarrow> trigger_to_dict isoformat task_result_to_dict t)"

definition scheduler_result_to_dict ::
  "(datetime \<Rightarrow> string) \<Rightarrow> string \<Rightarrow> string option \<Rightarrow> scheduler_stats \<Rightarrow> (string \<times> pyval) list" where
  "scheduler_result_to_dict isoformat tenant_id instance_id stats =
    [(''ok'', PBool (st_failed stats = 0)), (''tenant_id'', PStr tenant_id),
     (''iterations'', PInt (int (st_iterations stats))), (''checked'', PInt (int (st_checked stats))),
     (''triggered'', PInt (int (st_triggered stats))), (''failed'', PInt (int (st_failed stats))),
     (''schedule_results'', PList (map (\<lambda>r. PDict (report_to_dict isoformat r)) (st_reports stats)))]
    @ (case instance_id of None \<Rightarrow> [] | Some i \<Rightarrow> [(''instance_id'', PStr i)])"

end
