(* ===== verification/Scheduler_Properties.thy ===== *)
theory Scheduler_Properties
  imports Scheduler_Providers Task_Properties
begin

text \<open>
  The properties of the scheduler: which slots are due, that the loop triggers a slot at most once,
  that a limited catch-up recovers, and how a slot is lost.
\<close>

section \<open>Due slots\<close>

lemma sorted_list_of_set_unique:
  "sorted_wrt (<) xs \<Longrightarrow> set xs = A \<Longrightarrow> xs = sorted_list_of_set A" for xs :: "int list"
  by (metis sorted_list_of_set.idem_if_sorted_distinct strict_sorted_iff)

lemma due_slots_eq:
  assumes "config_ok config"
  shows "cron_due_slots config (Some after) until = Inr (sorted_list_of_set (due config (planned_at_of after) until))"
proof -
  obtain slots where s: "cron_due_slots config (Some after) until = Inr slots"
    and "sorted_wrt (<) slots" and "set slots = due config (planned_at_of after) until"
    using cron_due_slots_due [OF assms] by blast
  then have "slots = sorted_list_of_set (due config (planned_at_of after) until)"
    by (intro sorted_list_of_set_unique)
  with s show ?thesis by (simp only:)
qed

text \<open>C38: The minute-by-minute scan finds exactly the slots of the reference: for a configuration whose fields
  name integers in their range, it returns, in increasing order, the full minutes after the last
  planned one and up to the current one whose hour and minute the fields name; a schedule that was
  never planned has only the current minute, if that matches.
\<close>

theorem due_slots_are_the_matching_minutes:
  assumes "config_ok config"
  shows "cron_due_slots config (Some after) until = Inr (sorted_list_of_set (due config (planned_at_of after) until)) \<and>
    cron_due_slots config None until = Inr (if slot_matches config until then [until] else [])"
  using due_slots_eq [OF assms] cron_due_slots_first [OF assms] by blast

theorem due_slots_are_the_matching_minutes_witness:
  "cron_due_slots [(''hour'', ''*''), (''minute'', ''5, 07'')] None 0 = Inr []"
proof -
  have ok: "config_ok [(''hour'', ''*''), (''minute'', ''5, 07'')]" by code_simp
  have "\<not> slot_matches [(''hour'', ''*''), (''minute'', ''5, 07'')] 0" by code_simp
  then show ?thesis using due_slots_are_the_matching_minutes [OF ok] by simp
qed

section \<open>The loop\<close>

definition last_planned :: "string \<Rightarrow> string \<Rightarrow> schedule_states \<Rightarrow> instant option" where
  "last_planned tenant_id schedule_id states =
    (case states (schedule_id, tenant_id) of None \<Rightarrow> None | Some st \<Rightarrow> map_option planned_at_of (ss_last_planned_at st))"

definition attempts_of :: "string \<Rightarrow> slot_report list \<Rightarrow> slot_report list" where
  "attempts_of schedule_id reports = filter (\<lambda>r. sr_schedule_id r = schedule_id) reports"

definition marked :: "string \<Rightarrow> slot_report list \<Rightarrow> instant list" where
  "marked schedule_id reports = map sr_planned_at (filter (\<lambda>r. is_ok (sr_outcome r)) (attempts_of schedule_id reports))"

lemma marked_append [simp]: "marked i (xs @ ys) = marked i xs @ marked i ys"
  by (simp add: marked_def attempts_of_def)

lemma attempts_append [simp]: "attempts_of i (xs @ ys) = attempts_of i xs @ attempts_of i ys"
  by (simp add: attempts_of_def)

lemma marked_one [simp]:
  "marked i [\<lparr>sr_schedule_id = j, sr_planned_at = t, sr_outcome = Inl e\<rparr>] = []"
  "marked i [\<lparr>sr_schedule_id = j, sr_planned_at = t, sr_outcome = Inr x\<rparr>] = (if i = j then [t] else [])"
  by (simp_all add: marked_def attempts_of_def)

lemma last_planned_mark_triggered:
  "minute_us dvd t \<Longrightarrow> last_planned tn i (mark_triggered j tn t p states) = (if i = j then Some t else last_planned tn i states)"
  by (simp add: last_planned_def mark_triggered_def upsert_state_def split: option.split)

lemma last_planned_mark_skipped:
  "minute_us dvd t \<Longrightarrow> last_planned tn i (mark_skipped_until j tn t p states) = (if i = j then Some t else last_planned tn i states)"
  by (simp add: last_planned_def mark_skipped_until_def upsert_state_def split: option.split)

text \<open>What the loop keeps of one schedule since it began with the last slot \<open>l\<close>: every attempt lies after
  \<open>l\<close>, the triggered slots increase, and none lies after the last planned slot.\<close>

definition after_slot :: "instant option \<Rightarrow> instant \<Rightarrow> bool" where
  "after_slot l t \<longleftrightarrow> (\<forall>x. l = Some x \<longrightarrow> x < t)"

definition on_schedule :: "string \<Rightarrow> string \<Rightarrow> instant option \<Rightarrow> 's scheduler_state \<times> scheduler_stats \<Rightarrow> bool" where
  "on_schedule tn i l x \<longleftrightarrow> (let states = fst (fst x); reports = st_reports (snd x) in
     (\<forall>r \<in> set (attempts_of i reports). after_slot l (sr_planned_at r)) \<and>
     sorted_wrt (<) (marked i reports) \<and>
     (\<forall>t \<in> set (marked i reports). \<exists>p. last_planned tn i states = Some p \<and> t \<le> p) \<and>
     (\<forall>v. l = Some v \<longrightarrow> (\<exists>p. last_planned tn i states = Some p \<and> v \<le> p)))"

lemma on_scheduleD:
  assumes "on_schedule tn i l x"
  shows "r \<in> set (attempts_of i (st_reports (snd x))) \<Longrightarrow> after_slot l (sr_planned_at r)"
    "sorted_wrt (<) (marked i (st_reports (snd x)))"
    "t \<in> set (marked i (st_reports (snd x))) \<Longrightarrow> \<exists>p. last_planned tn i (fst (fst x)) = Some p \<and> t \<le> p"
    "l = Some v \<Longrightarrow> \<exists>p. last_planned tn i (fst (fst x)) = Some p \<and> v \<le> p"
  using assms unfolding on_schedule_def Let_def by blast+

lemma run_slot_cases:
  obtains (raised) s' err where "trigger (slot_request c j slot) (tc_tenant_status c) s = (s', Inl err)"
    "run_slot c trigger j p slot ((states, s), stats) = ((states, s'), stats\<lparr>st_failed := st_failed stats + 1,
       st_reports := st_reports stats @ [\<lparr>sr_schedule_id = j, sr_planned_at = slot, sr_outcome = Inl err\<rparr>]\<rparr>)"
  | (returned) s' r where "trigger (slot_request c j slot) (tc_tenant_status c) s = (s', Inr r)"
    "run_slot c trigger j p slot ((states, s), stats) =
      ((mark_triggered j (tc_tenant_id c) slot p states, s'), stats\<lparr>st_triggered := st_triggered stats + 1,
       st_failed := st_failed stats + (if trigger_ok r then 0 else 1),
       st_reports := st_reports stats @ [\<lparr>sr_schedule_id = j, sr_planned_at = slot, sr_outcome = Inr r\<rparr>]\<rparr>)"
proof -
  obtain s' res where t: "trigger (slot_request c j slot) (tc_tenant_status c) s = (s', res)"
    by (cases "trigger (slot_request c j slot) (tc_tenant_status c) s")
  then show thesis using raised returned by (cases res) (auto simp: run_slot_def)
qed

lemma run_slot_other:
  assumes "i \<noteq> j" and "minute_us dvd slot"
  shows "last_planned (tc_tenant_id c) i (fst (fst (run_slot c trigger j p slot x))) =
      last_planned (tc_tenant_id c) i (fst (fst x)) \<and>
    attempts_of i (st_reports (snd (run_slot c trigger j p slot x))) = attempts_of i (st_reports (snd x))"
proof -
  obtain states s stats where x: "x = ((states, s), stats)" by (metis prod.collapse)
  show ?thesis
    unfolding x
    by (rule run_slot_cases [of trigger c j slot s p states stats])
      (use assms in \<open>simp_all add: last_planned_mark_triggered attempts_of_def\<close>)
qed

lemma run_slot_on_schedule:
  assumes "on_schedule (tc_tenant_id c) i l x" and "minute_us dvd slot"
    and "i = j \<longrightarrow> after_slot (last_planned (tc_tenant_id c) j (fst (fst x))) slot"
  shows "on_schedule (tc_tenant_id c) i l (run_slot c trigger j p slot x)"
proof (cases "i = j")
  case False
  from run_slot_other [OF this assms(2), of c trigger p x] show ?thesis
    using assms(1) unfolding on_schedule_def marked_def Let_def by simp
next
  case True
  obtain states s stats where x: "x = ((states, s), stats)" by (metis prod.collapse)
  note d = on_scheduleD [OF assms(1) [unfolded x], simplified fst_conv snd_conv]
  have new: "after_slot (last_planned (tc_tenant_id c) i states) slot" using assms(3) True x by simp
  have l: "after_slot l slot"
  proof (cases l)
    case (Some v)
    with d(4) obtain q where "last_planned (tc_tenant_id c) i states = Some q" "v \<le> q" by blast
    with new Some show ?thesis by (simp add: after_slot_def)
  qed (simp add: after_slot_def)
  have lt: "t < slot" if "t \<in> set (marked i (st_reports stats))" for t
    using d(3) [OF that] new by (auto simp: after_slot_def)
  show ?thesis
    unfolding x
  proof (rule run_slot_cases [of trigger c j slot s p states stats])
    fix s' err
    assume eq: "run_slot c trigger j p slot ((states, s), stats) = ((states, s'), stats\<lparr>st_failed := st_failed stats + 1,
       st_reports := st_reports stats @ [\<lparr>sr_schedule_id = j, sr_planned_at = slot, sr_outcome = Inl err\<rparr>]\<rparr>)"
    show "on_schedule (tc_tenant_id c) i l (run_slot c trigger j p slot ((states, s), stats))"
      unfolding eq on_schedule_def using d l by (auto simp: Let_def attempts_of_def)
  next
    fix s' r
    assume eq: "run_slot c trigger j p slot ((states, s), stats) =
      ((mark_triggered j (tc_tenant_id c) slot p states, s'), stats\<lparr>st_triggered := st_triggered stats + 1,
       st_failed := st_failed stats + (if trigger_ok r then 0 else 1),
       st_reports := st_reports stats @ [\<lparr>sr_schedule_id = j, sr_planned_at = slot, sr_outcome = Inr r\<rparr>]\<rparr>)"
    have v: "v \<le> slot" if "l = Some v" for v using l that by (simp add: after_slot_def)
    show "on_schedule (tc_tenant_id c) i l (run_slot c trigger j p slot ((states, s), stats))"
      unfolding eq on_schedule_def Let_def
      using True d(1,2) l lt v assms(2)
      by (auto simp: last_planned_mark_triggered sorted_wrt_append attempts_of_def less_imp_le)
  qed
qed

lemma run_slot_last:
  assumes "minute_us dvd slot"
  shows "last_planned (tc_tenant_id c) j (fst (fst (run_slot c trigger j p slot x))) \<in>
    {last_planned (tc_tenant_id c) j (fst (fst x)), Some slot}"
proof -
  obtain states s stats where x: "x = ((states, s), stats)" by (metis prod.collapse)
  show ?thesis
    unfolding x
    by (rule run_slot_cases [of trigger c j slot s p states stats])
      (use assms in \<open>simp_all add: last_planned_mark_triggered\<close>)
qed

lemma run_slots_on_schedule:
  assumes "on_schedule (tc_tenant_id c) i l x" and "sorted_wrt (<) slots" and "\<forall>t \<in> set slots. minute_us dvd t"
    and "\<forall>t \<in> set slots. after_slot (last_planned (tc_tenant_id c) j (fst (fst x))) t"
  shows "on_schedule (tc_tenant_id c) i l (fold (run_slot c trigger j p) slots x)"
  using assms
proof (induction slots arbitrary: x)
  case (Cons slot slots)
  let ?x = "run_slot c trigger j p slot x"
  have m: "minute_us dvd slot" using Cons.prems(3) by simp
  have "\<forall>t \<in> set slots. after_slot (last_planned (tc_tenant_id c) j (fst (fst ?x))) t"
    using run_slot_last [OF m, of c j trigger p x] Cons.prems(2,4) by (auto simp: after_slot_def)
  moreover have "on_schedule (tc_tenant_id c) i l ?x"
    using Cons.prems m by (intro run_slot_on_schedule) auto
  ultimately show ?case using Cons by simp
qed simp

text \<open>A plan: its slots are due, in order, and skipping moves the last slot forward.\<close>

lemma apply_misfire_policy_plan:
  assumes "apply_misfire_policy policy config current slots = Inr plan" and "sorted_wrt (<) slots"
  shows "sorted_wrt (<) (dp_planned_slots plan) \<and> set (dp_planned_slots plan) \<subseteq> set slots \<and>
    (dp_skipped_until plan \<noteq> None \<longrightarrow> dp_planned_slots plan = [] \<and> the (dp_skipped_until plan) \<in> set slots)"
  using assms
  by (auto simp: apply_misfire_policy_def rbind_Inr_iff sorted_wrt_take
      split: if_splits dest: in_set_takeD)

lemma plan_slots:
  assumes "plan_cron_due_slots i tn config policy (utc_datetime planned) states = Inr plan" and "minute_us dvd planned"
  shows "sorted_wrt (<) (dp_planned_slots plan)"
    "\<forall>t \<in> set (dp_planned_slots plan) \<union> set_option (dp_skipped_until plan).
       minute_us dvd t \<and> after_slot (last_planned tn i states) t"
    "dp_skipped_until plan \<noteq> None \<Longrightarrow> dp_planned_slots plan = []"
proof -
  define a where "a = (case states (i, tn) of None \<Rightarrow> None | Some st \<Rightarrow> ss_last_planned_at st)"
  have lp: "last_planned tn i states = map_option planned_at_of a"
    by (simp add: a_def last_planned_def split: option.split)
  obtain slots where slots: "cron_due_slots config a planned = Inr slots"
    and pol: "apply_misfire_policy policy config planned slots = Inr plan"
    using assms by (auto simp: plan_cron_due_slots_def Let_def rbind_Inr_iff a_def)
  note range = cron_due_slots_range [OF slots assms(2)]
  note p = apply_misfire_policy_plan [OF pol range [THEN conjunct1]]
  show "sorted_wrt (<) (dp_planned_slots plan)" using p by blast
  show "dp_skipped_until plan \<noteq> None \<Longrightarrow> dp_planned_slots plan = []" using p by blast
  have "minute_us dvd t \<and> after_slot (last_planned tn i states) t" if "t \<in> set slots" for t
    using range that lp by (auto simp: after_slot_def)
  then show "\<forall>t \<in> set (dp_planned_slots plan) \<union> set_option (dp_skipped_until plan).
       minute_us dvd t \<and> after_slot (last_planned tn i states) t"
    using p by (cases "dp_skipped_until plan") auto
qed

lemma skip_on_schedule:
  assumes "on_schedule tn i l ((states, s), stats)" and "minute_us dvd t" and "after_slot (last_planned tn j states) t"
  shows "on_schedule tn i l ((mark_skipped_until j tn t p states, s), stats)"
  using assms unfolding on_schedule_def
  by (auto simp: Let_def last_planned_mark_skipped after_slot_def)

lemma run_schedule_on_schedule:
  assumes "on_schedule (tc_tenant_id c) i l x" and "minute_us dvd planned"
    and "run_schedule c trigger planned registered x = Inr x'"
  shows "on_schedule (tc_tenant_id c) i l x'"
proof (cases "sc_trigger (rs_spec registered) = ''cron''")
  case False
  with assms show ?thesis by (simp add: run_schedule_def Let_def)
next
  case True
  let ?j = "sc_schedule_id (rs_spec registered)"
  obtain states s stats where x: "x = ((states, s), stats)" by (metis prod.collapse)
  obtain plan where plan: "plan_cron_due_slots ?j (tc_tenant_id c) (sc_trigger_config (rs_spec registered))
      (sc_misfire_policy (rs_spec registered)) (utc_datetime planned) states = Inr plan"
    and x': "x' = fold (run_slot c trigger ?j planned) (dp_planned_slots plan)
      (((case dp_skipped_until plan of None \<Rightarrow> states
         | Some t \<Rightarrow> mark_skipped_until ?j (tc_tenant_id c) t planned states), s), stats)"
    using assms(3) True x by (auto simp: run_schedule_def Let_def rbind_Inr_iff)
  note p = plan_slots [OF plan assms(2)]
  show ?thesis
  proof (cases "dp_skipped_until plan")
    case None
    with p x' x assms(1) show ?thesis by (auto intro: run_slots_on_schedule)
  next
    case (Some t)
    with p x' x assms(1) show ?thesis by (auto intro: skip_on_schedule)
  qed
qed

lemma run_tick_on_schedule:
  assumes "on_schedule (tc_tenant_id c) i l x" and "run_tick c trigger reg now x = Inr x'"
  shows "on_schedule (tc_tenant_id c) i l x'"
proof -
  obtain s stats where x: "x = (s, stats)" by (cases x)
  obtain s1 stats1 where f: "fold_result (run_schedule c trigger (planned_at_of now)) (map snd reg)
      (s, stats\<lparr>st_checked := st_checked stats + length reg\<rparr>) = Inr (s1, stats1)"
    and x': "x' = (s1, stats1\<lparr>st_iterations := st_iterations stats1 + 1\<rparr>)"
    using assms(2) x by (auto simp: run_tick_def rbind_Inr_iff)
  have "on_schedule (tc_tenant_id c) i l (s1, stats1)"
  proof (rule fold_result_invariant [OF f, where P = "on_schedule (tc_tenant_id c) i l"])
    show "on_schedule (tc_tenant_id c) i l (s, stats\<lparr>st_checked := st_checked stats + length reg\<rparr>)"
      using assms(1) unfolding x on_schedule_def by simp
  qed (rule run_schedule_on_schedule [OF _ planned_at_dvd])
  then show ?thesis unfolding x' on_schedule_def by simp
qed

lemma loop_on_schedule:
  assumes "run_scheduler_loop c trigger reg readings s = Inr x"
  shows "on_schedule (tc_tenant_id c) i (last_planned (tc_tenant_id c) i (fst s)) x"
proof (rule fold_result_invariant [OF assms [unfolded run_scheduler_loop_def]])
  show "on_schedule (tc_tenant_id c) i (last_planned (tc_tenant_id c) i (fst s)) (s, no_scheduler_stats)"
    by (auto simp: on_schedule_def no_scheduler_stats_def attempts_of_def marked_def)
qed (rule run_tick_on_schedule)

text \<open>The loop triggers a slot at most once: over any number of iterations, at any readings of the clock
  (also ones that go back) and whatever the provider answers or raises, the slots of a schedule that
  were triggered are increasing, they lie after the slot its state recorded at the start, and every
  slot that was tried does.
\<close>

theorem slots_triggered_at_most_once:
  assumes "run_scheduler_loop c trigger reg readings s = Inr (s', stats)"
  shows "sorted_wrt (<) (marked i (st_reports stats)) \<and>
    (\<forall>r \<in> set (st_reports stats). sr_schedule_id r = i \<longrightarrow>
       after_slot (last_planned (tc_tenant_id c) i (fst s)) (sr_planned_at r))"
  using on_scheduleD(1,2) [OF loop_on_schedule [OF assms, of i]] by (auto simp: attempts_of_def)

definition every_minute :: registered_schedule where
  "every_minute = \<lparr>rs_app_label = ''app'', rs_spec = \<lparr>sc_schedule_id = ''j'', sc_task_type = ''mail'',
     sc_trigger = ''cron'', sc_trigger_config = [(''minute'', ''*'')], sc_misfire_policy = ''catch_up_limited''\<rparr>\<rparr>"

definition plain_config :: tick_config where
  "plain_config = \<lparr>tc_tenant_id = ''t'', tc_tenant_status = Active, tc_request_id_prefix = ''r'', tc_payload = [],
     tc_iso = (\<lambda>d. int_str (to_utc d))\<rparr>"

definition any_result :: trigger_result where
  "any_result = \<lparr>tg_schedule_id = ''j'', tg_task_id = ''k'', tg_task_type = ''mail'', tg_planned_at = 0, tg_triggered_at = 0,
     tg_task_result = \<lparr>re_task_id = ''k'', re_task_type = ''mail'', re_status = Task_Succeeded, re_result_payload = None,
       re_error_message = None, re_metadata = []\<rparr>, tg_metadata = []\<rparr>"

text \<open>A provider that raises for the slots in \<open>bad\<close>.\<close>

definition flaky :: "instant list \<Rightarrow> unit trigger" where
  "flaky bad q status s = (s, if planned_or_now 0 q \<in> set bad then Inl (PyError ''RuntimeError'' ''no'') else Inr any_result)"

definition at_minute :: "int \<Rightarrow> schedule_states" where
  "at_minute n = [(''j'', ''t'') \<mapsto> \<lparr>ss_last_planned_at = Some (utc_datetime (n * minute_us)),
     ss_last_triggered_at = None, ss_last_checked_at = None\<rparr>]"

lemma parse_3: "parse_int ''3'' = Some 3"
  by code_simp

lemma minute_slots: "scan_slots [(''minute'', ''*'')] (2 * minute_us) (3 * minute_us) = Inr [2 * minute_us, 3 * minute_us]"
proof -
  have scan: "scan_slots [(''minute'', ''*'')] t u = (if t \<le> u then
      rbind (scan_slots [(''minute'', ''*'')] (t + minute_us) u) (\<lambda>slots. Inr (t # slots)) else Inr [])" for t u
    by (subst scan_slots.simps) (simp add: cron_matches_config_def field_or_def dget_def cron_matches_def)
  show ?thesis by (subst scan, subst scan, subst scan) (simp add: minute_us_def)
qed

lemma minute_plan:
  "plan_cron_due_slots ''j'' ''t'' [(''minute'', ''*'')] ''catch_up_limited'' (utc_datetime (3 * minute_us)) (at_minute 1)
    = Inr \<lparr>dp_planned_slots = [2 * minute_us, 3 * minute_us], dp_skipped_until = None\<rparr>"
  using minute_slots parse_3
  by (simp add: plan_cron_due_slots_def at_minute_def cron_due_slots_def apply_misfire_policy_def
      misfire_limit_def field_or_def dget_def py_int_def)

lemmas loop_defs = run_scheduler_loop_def run_tick_def run_schedule_def every_minute_def plain_config_def
  run_slot_def flaky_def slot_request_def planned_or_now_def no_scheduler_stats_def Let_def
  trigger_ok_def any_result_def task_result_ok_def

lemma flaky_loop:
  "run_scheduler_loop plain_config (flaky [2 * minute_us]) [(''j'', every_minute)] [utc_datetime (3 * minute_us)] (at_minute 1, [], ())
    = Inr (((mark_triggered ''j'' ''t'' (3 * minute_us) (3 * minute_us) (at_minute 1)), [], ()),
      \<lparr>st_iterations = 1, st_checked = 1, st_triggered = 1, st_failed = 1,
       st_reports = [\<lparr>sr_schedule_id = ''j'', sr_planned_at = 2 * minute_us, sr_outcome = Inl (PyError ''RuntimeError'' ''no'')\<rparr>,
         \<lparr>sr_schedule_id = ''j'', sr_planned_at = 3 * minute_us, sr_outcome = Inr any_result\<rparr>]\<rparr>)"
  using minute_plan by (simp add: loop_defs)

lemma steady_loop:
  "\<exists>s' stats. run_scheduler_loop plain_config (flaky []) [(''j'', every_minute)] [utc_datetime (3 * minute_us)] (at_minute 1, [], ())
    = Inr (s', stats) \<and> marked ''j'' (st_reports stats) = [2 * minute_us, 3 * minute_us]"
  using minute_plan by (simp add: loop_defs marked_def attempts_of_def)

theorem slots_triggered_at_most_once_witness:
  "sorted_wrt (<) (marked ''j'' [\<lparr>sr_schedule_id = ''j'', sr_planned_at = 2 * minute_us, sr_outcome = Inl (PyError ''RuntimeError'' ''no'')\<rparr>,
     \<lparr>sr_schedule_id = ''j'', sr_planned_at = 3 * minute_us, sr_outcome = Inr any_result\<rparr>])"
  using slots_triggered_at_most_once [OF flaky_loop, of "''j''"] by simp

text \<open>A slot whose trigger raised is lost when a later slot of the same schedule was triggered: the
  state records the later one, and no further iteration, with any provider and at any reading of the
  clock, tries a slot that is not after it. A failure in a plan of several slots is so not retried,
  although it is when it is the last.
\<close>

theorem failed_slot_is_lost:
  assumes "run_scheduler_loop c trigger reg readings s = Inr (s1, stats1)"
    and "failed \<in> set (st_reports stats1)" and "later \<in> set (st_reports stats1)"
    and "sr_schedule_id later = sr_schedule_id failed" and "is_ok (sr_outcome later)"
    and "sr_planned_at failed < sr_planned_at later"
    and "run_scheduler_loop c' trigger' reg' readings' s1 = Inr (s2, stats2)" and "tc_tenant_id c' = tc_tenant_id c"
  shows "\<forall>r \<in> set (st_reports stats2). sr_schedule_id r = sr_schedule_id failed \<longrightarrow> sr_planned_at failed < sr_planned_at r"
proof -
  let ?i = "sr_schedule_id failed"
  have "sr_planned_at later \<in> set (marked ?i (st_reports stats1))"
    using assms(3-5) by (auto simp: marked_def attempts_of_def)
  with on_scheduleD(3) [OF loop_on_schedule [OF assms(1), of ?i]] obtain p where
    p: "last_planned (tc_tenant_id c) ?i (fst s1) = Some p" "sr_planned_at later \<le> p" by force
  have "p < sr_planned_at r" if "r \<in> set (st_reports stats2)" "sr_schedule_id r = ?i" for r
    using on_scheduleD(1) [OF loop_on_schedule [OF assms(7), of ?i], of r] that p(1) assms(8)
    by (simp add: attempts_of_def after_slot_def)
  then show ?thesis using p(2) assms(6) by fastforce
qed

text \<open>The next iteration, a minute later: the slot of minute two is not tried, that of minute four is.\<close>

lemma last_minute_slot: "scan_slots [(''minute'', ''*'')] (4 * minute_us) (4 * minute_us) = Inr [4 * minute_us]"
proof -
  have scan: "scan_slots [(''minute'', ''*'')] t u = (if t \<le> u then
      rbind (scan_slots [(''minute'', ''*'')] (t + minute_us) u) (\<lambda>slots. Inr (t # slots)) else Inr [])" for t u
    by (subst scan_slots.simps) (simp add: cron_matches_config_def field_or_def dget_def cron_matches_def)
  show ?thesis by (subst scan, subst scan) (simp add: minute_us_def)
qed

lemma next_plan:
  "plan_cron_due_slots ''j'' ''t'' [(''minute'', ''*'')] ''catch_up_limited'' (utc_datetime (4 * minute_us))
     (mark_triggered ''j'' ''t'' (3 * minute_us) (3 * minute_us) (at_minute 1))
    = Inr \<lparr>dp_planned_slots = [4 * minute_us], dp_skipped_until = None\<rparr>"
  using last_minute_slot parse_3
  by (simp add: plan_cron_due_slots_def at_minute_def mark_triggered_def upsert_state_def cron_due_slots_def
      apply_misfire_policy_def misfire_limit_def field_or_def dget_def py_int_def)

lemma next_loop:
  "run_scheduler_loop plain_config (flaky []) [(''j'', every_minute)] [utc_datetime (4 * minute_us)]
      (mark_triggered ''j'' ''t'' (3 * minute_us) (3 * minute_us) (at_minute 1), [], ())
    = Inr ((mark_triggered ''j'' ''t'' (4 * minute_us) (4 * minute_us)
        (mark_triggered ''j'' ''t'' (3 * minute_us) (3 * minute_us) (at_minute 1)), [], ()),
      \<lparr>st_iterations = 1, st_checked = 1, st_triggered = 1, st_failed = 0,
       st_reports = [\<lparr>sr_schedule_id = ''j'', sr_planned_at = 4 * minute_us, sr_outcome = Inr any_result\<rparr>]\<rparr>)"
  using next_plan by (simp add: loop_defs)

theorem failed_slot_is_lost_witness:
  "run_scheduler_loop plain_config (flaky []) [(''j'', every_minute)] [utc_datetime (4 * minute_us)]
      (mark_triggered ''j'' ''t'' (3 * minute_us) (3 * minute_us) (at_minute 1), [], ())
    = Inr ((mark_triggered ''j'' ''t'' (4 * minute_us) (4 * minute_us)
        (mark_triggered ''j'' ''t'' (3 * minute_us) (3 * minute_us) (at_minute 1)), [], ()),
      \<lparr>st_iterations = 1, st_checked = 1, st_triggered = 1, st_failed = 0,
       st_reports = [\<lparr>sr_schedule_id = ''j'', sr_planned_at = 4 * minute_us, sr_outcome = Inr any_result\<rparr>]\<rparr>) \<and>
   2 * minute_us < 4 * minute_us"
proof
  have "plain_config = plain_config" by simp
  from failed_slot_is_lost [OF flaky_loop _ _ _ _ _ next_loop this [THEN arg_cong, of tc_tenant_id],
      where failed = "\<lparr>sr_schedule_id = ''j'', sr_planned_at = 2 * minute_us, sr_outcome = Inl (PyError ''RuntimeError'' ''no'')\<rparr>"
      and later = "\<lparr>sr_schedule_id = ''j'', sr_planned_at = 3 * minute_us, sr_outcome = Inr any_result\<rparr>"]
  show "2 * minute_us < 4 * minute_us" by (simp add: minute_us_def)
qed (rule next_loop)

section \<open>Limited catch-up\<close>

lemma finite_due: "finite (due config a u)"
  by (rule finite_subset [of _ "{a..u}"]) (auto simp: due_def)

lemma due_after_take:
  fixes a u :: instant and config :: trigger_config
  defines "D \<equiv> sorted_list_of_set (due config a u)"
  shows "sorted_list_of_set (due config (if take m D = [] then a else last (take m D)) u) = drop m D"
proof (cases "take m D = []")
  case True
  then show ?thesis by (cases m) (auto simp: D_def)
next
  case False
  have srt: "sorted_wrt (<) (take m D @ drop m D)" by (simp add: D_def strict_sorted_iff [symmetric])
  have set: "set D = due config a u" unfolding D_def by (simp add: finite_due)
  let ?l = "last (take m D)"
  have l: "?l \<in> set D" using False by (meson in_set_takeD last_in_set)
  have le: "t \<le> ?l" if "t \<in> set (take m D)" for t
  proof -
    have "sorted (take m D)" by (simp add: D_def sorted_wrt_take)
    moreover obtain i where i: "i < length (take m D)" "t = take m D ! i" using \<open>t \<in> set (take m D)\<close> by (metis in_set_conv_nth)
    ultimately have "take m D ! i \<le> take m D ! (length (take m D) - 1)"
      by (intro sorted_nth_mono) auto
    moreover have "last (take m D) = take m D ! (length (take m D) - 1)" using False by (rule last_conv_nth)
    ultimately show ?thesis unfolding i(2) by (simp only:)
  qed
  have gt: "?l < t" if "t \<in> set (drop m D)" for t
    using srt False that unfolding sorted_wrt_append by (meson last_in_set)
  have "set (drop m D) = due config ?l u"
  proof
    show "set (drop m D) \<subseteq> due config ?l u"
      using gt set set_drop_subset [of m D] unfolding due_def by blast
    show "due config ?l u \<subseteq> set (drop m D)"
    proof
      fix t assume t: "t \<in> due config ?l u"
      then have "t \<in> set D" using l unfolding set by (auto simp: due_def)
      moreover have "t \<notin> set (take m D)" using t le by (auto simp: due_def dest: leD)
      ultimately show "t \<in> set (drop m D)" by (metis UnE append_take_drop_id set_append)
    qed
  qed
  then show ?thesis
    using False sorted_list_of_set_unique [of "drop m D"] srt by (simp add: sorted_wrt_append)
qed

definition answers :: "'s trigger \<Rightarrow> bool" where
  "answers trigger \<longleftrightarrow> (\<forall>q status s. is_ok (snd (trigger q status s)))"

lemma run_slots_answered:
  assumes "answers trigger" and "\<forall>t \<in> set slots. minute_us dvd t"
  shows "marked i (st_reports (snd (fold (run_slot c trigger i p) slots x))) = marked i (st_reports (snd x)) @ slots \<and>
    last_planned (tc_tenant_id c) i (fst (fst (fold (run_slot c trigger i p) slots x))) =
      (if slots = [] then last_planned (tc_tenant_id c) i (fst (fst x)) else Some (last slots))"
  using assms(2)
proof (induction slots arbitrary: x)
  case (Cons slot slots)
  obtain states s stats where x: "x = ((states, s), stats)" by (metis prod.collapse)
  have "marked i (st_reports (snd (run_slot c trigger i p slot x))) = marked i (st_reports (snd x)) @ [slot] \<and>
      last_planned (tc_tenant_id c) i (fst (fst (run_slot c trigger i p slot x))) = Some slot"
    unfolding x
  proof (rule run_slot_cases [of trigger c i slot s p states stats])
    fix s' err
    assume "trigger (slot_request c i slot) (tc_tenant_status c) s = (s', Inl err)"
    then show "marked i (st_reports (snd (run_slot c trigger i p slot ((states, s), stats)))) =
        marked i (st_reports (snd ((states, s), stats))) @ [slot] \<and>
      last_planned (tc_tenant_id c) i (fst (fst (run_slot c trigger i p slot ((states, s), stats)))) = Some slot"
      using assms(1) unfolding answers_def by (metis is_ok_simps(1) snd_conv)
  qed (use Cons.prems in \<open>simp add: last_planned_mark_triggered\<close>)
  with Cons show ?case by simp
qed simp

lemma run_slots_other:
  assumes "i \<noteq> j" and "\<forall>t \<in> set slots. minute_us dvd t"
  shows "last_planned (tc_tenant_id c) i (fst (fst (fold (run_slot c trigger j p) slots x))) =
      last_planned (tc_tenant_id c) i (fst (fst x)) \<and>
    attempts_of i (st_reports (snd (fold (run_slot c trigger j p) slots x))) = attempts_of i (st_reports (snd x))"
  using assms(2)
proof (induction slots arbitrary: x)
  case (Cons slot slots)
  with run_slot_other [OF assms(1), of slot c trigger p x] show ?case by simp
qed simp

lemma run_schedule_other:
  assumes "sc_schedule_id (rs_spec r) \<noteq> i" and "run_schedule c trigger planned r x = Inr x'" and "minute_us dvd planned"
  shows "last_planned (tc_tenant_id c) i (fst (fst x')) = last_planned (tc_tenant_id c) i (fst (fst x)) \<and>
    marked i (st_reports (snd x')) = marked i (st_reports (snd x))"
proof (cases "sc_trigger (rs_spec r) = ''cron''")
  case False
  with assms show ?thesis by (simp add: run_schedule_def Let_def)
next
  case True
  let ?j = "sc_schedule_id (rs_spec r)"
  have ij: "i \<noteq> ?j" using assms(1) by simp
  obtain states s stats where x: "x = ((states, s), stats)" by (metis prod.collapse)
  obtain plan where plan: "plan_cron_due_slots ?j (tc_tenant_id c) (sc_trigger_config (rs_spec r))
      (sc_misfire_policy (rs_spec r)) (utc_datetime planned) states = Inr plan"
    and x': "x' = fold (run_slot c trigger ?j planned) (dp_planned_slots plan)
      (((case dp_skipped_until plan of None \<Rightarrow> states
         | Some t \<Rightarrow> mark_skipped_until ?j (tc_tenant_id c) t planned states), s), stats)"
    using assms(2) True x by (auto simp: run_schedule_def Let_def rbind_Inr_iff)
  note p = plan_slots(2) [OF plan assms(3)]
  then have "\<forall>t \<in> set (dp_planned_slots plan). minute_us dvd t" by blast
  note other = run_slots_other [OF ij this, of c trigger planned]
  have "last_planned (tc_tenant_id c) i (case dp_skipped_until plan of None \<Rightarrow> states
      | Some t \<Rightarrow> mark_skipped_until ?j (tc_tenant_id c) t planned states) = last_planned (tc_tenant_id c) i states"
    using p ij by (cases "dp_skipped_until plan") (simp_all add: last_planned_mark_skipped)
  then show ?thesis unfolding x' x marked_def other [THEN conjunct1] other [THEN conjunct2] by simp
qed

lemma plan_catch_up:
  assumes "last_planned tn i states = Some a" and "config_ok config" and "misfire_limit config = Inr limit"
    and "minute_us dvd planned"
  shows "plan_cron_due_slots i tn config ''catch_up_limited'' (utc_datetime planned) states =
    Inr \<lparr>dp_planned_slots = take (nat limit) (sorted_list_of_set (due config a planned)), dp_skipped_until = None\<rparr>"
proof -
  obtain st d where st: "states (i, tn) = Some st" "ss_last_planned_at st = Some d" and a: "planned_at_of d = a"
    using assms(1) by (auto simp: last_planned_def split: option.splits)
  show ?thesis
    using st due_slots_eq [OF assms(2), of d planned] assms(3,4)
    by (simp add: plan_cron_due_slots_def apply_misfire_policy_def a)
qed

lemma run_schedule_catch_up:
  assumes "answers trigger" and "sc_trigger (rs_spec r) = ''cron''" and "sc_misfire_policy (rs_spec r) = ''catch_up_limited''"
    and "config_ok (sc_trigger_config (rs_spec r))" and "misfire_limit (sc_trigger_config (rs_spec r)) = Inr limit"
    and "minute_us dvd planned" and "last_planned (tc_tenant_id c) (sc_schedule_id (rs_spec r)) (fst (fst x)) = Some a"
    and "run_schedule c trigger planned r x = Inr x'"
  defines "new \<equiv> take (nat limit) (sorted_list_of_set (due (sc_trigger_config (rs_spec r)) a planned))"
  shows "marked (sc_schedule_id (rs_spec r)) (st_reports (snd x')) = marked (sc_schedule_id (rs_spec r)) (st_reports (snd x)) @ new \<and>
    last_planned (tc_tenant_id c) (sc_schedule_id (rs_spec r)) (fst (fst x')) = Some (if new = [] then a else last new)"
proof -
  let ?i = "sc_schedule_id (rs_spec r)"
  note plan = plan_catch_up [OF assms(7,4,5,6), folded new_def]
  have x': "x' = fold (run_slot c trigger ?i planned) new x"
    using assms(8) plan assms(2,3) by (cases x) (simp add: run_schedule_def Let_def)
  have "\<forall>t \<in> set new. minute_us dvd t"
  proof
    fix t assume "t \<in> set new"
    then have "t \<in> due (sc_trigger_config (rs_spec r)) a planned"
      unfolding new_def using finite_due by (auto dest!: in_set_takeD)
    then show "minute_us dvd t" by (simp add: due_def)
  qed
  from run_slots_answered [OF assms(1) this, of ?i c planned x] show ?thesis
    unfolding x' using assms(7) by simp
qed

lemma run_schedules_catch_up:
  assumes "fold_result (run_schedule c trigger planned) rs x = Inr x'" and "r \<in> set rs"
    and "distinct (map (\<lambda>r. sc_schedule_id (rs_spec r)) rs)" and "answers trigger"
    and "sc_trigger (rs_spec r) = ''cron''" and "sc_misfire_policy (rs_spec r) = ''catch_up_limited''"
    and "config_ok (sc_trigger_config (rs_spec r))" and "misfire_limit (sc_trigger_config (rs_spec r)) = Inr limit"
    and "minute_us dvd planned" and "last_planned (tc_tenant_id c) (sc_schedule_id (rs_spec r)) (fst (fst x)) = Some a"
  defines "new \<equiv> take (nat limit) (sorted_list_of_set (due (sc_trigger_config (rs_spec r)) a planned))"
  shows "marked (sc_schedule_id (rs_spec r)) (st_reports (snd x')) = marked (sc_schedule_id (rs_spec r)) (st_reports (snd x)) @ new \<and>
    last_planned (tc_tenant_id c) (sc_schedule_id (rs_spec r)) (fst (fst x')) = Some (if new = [] then a else last new)"
proof -
  let ?i = "sc_schedule_id (rs_spec r)"
  have others: "last_planned (tc_tenant_id c) ?i (fst (fst y')) = last_planned (tc_tenant_id c) ?i (fst (fst y)) \<and>
      marked ?i (st_reports (snd y')) = marked ?i (st_reports (snd y))"
    if "fold_result (run_schedule c trigger planned) qs y = Inr y'" and "\<forall>q \<in> set qs. sc_schedule_id (rs_spec q) \<noteq> ?i" for qs y y'
    using that
  proof (induction qs arbitrary: y)
    case (Cons q qs)
    then obtain z where z: "run_schedule c trigger planned q y = Inr z"
      and zs: "fold_result (run_schedule c trigger planned) qs z = Inr y'" by (auto simp: rbind_Inr_iff)
    have "sc_schedule_id (rs_spec q) \<noteq> ?i" using Cons.prems(2) by simp
    from run_schedule_other [OF this z assms(9)] Cons.IH [OF zs] Cons.prems(2) show ?case by simp
  qed simp
  obtain before after where rs: "rs = before @ r # after" using assms(2) by (meson split_list)
  obtain y z where y: "fold_result (run_schedule c trigger planned) before x = Inr y"
    and z: "run_schedule c trigger planned r y = Inr z"
    and x': "fold_result (run_schedule c trigger planned) after z = Inr x'"
    using assms(1) unfolding rs fold_result_append by (auto simp: rbind_Inr_iff)
  have b: "\<forall>q \<in> set before. sc_schedule_id (rs_spec q) \<noteq> ?i" and f: "\<forall>q \<in> set after. sc_schedule_id (rs_spec q) \<noteq> ?i"
    using assms(3) unfolding rs by (simp, metis imageI)+
  have ly: "last_planned (tc_tenant_id c) ?i (fst (fst y)) = Some a" using others [OF y b] assms(10) by simp
  from run_schedule_catch_up [OF assms(4-9) ly z] others [OF y b] others [OF x' f] show ?thesis
    unfolding new_def by simp
qed

lemma loop_catch_up:
  assumes "fold_result (run_tick c trigger reg) (replicate n now) x = Inr x'" and "r \<in> set (map snd reg)"
    and "distinct (map (\<lambda>r. sc_schedule_id (rs_spec r)) (map snd reg))" and "answers trigger"
    and "sc_trigger (rs_spec r) = ''cron''" and "sc_misfire_policy (rs_spec r) = ''catch_up_limited''"
    and "config_ok (sc_trigger_config (rs_spec r))" and "misfire_limit (sc_trigger_config (rs_spec r)) = Inr limit"
    and "last_planned (tc_tenant_id c) (sc_schedule_id (rs_spec r)) (fst (fst x)) = Some a"
  shows "marked (sc_schedule_id (rs_spec r)) (st_reports (snd x')) = marked (sc_schedule_id (rs_spec r)) (st_reports (snd x)) @
    take (n * nat limit) (sorted_list_of_set (due (sc_trigger_config (rs_spec r)) a (planned_at_of now)))"
  using assms(1,9)
proof (induction n arbitrary: x a)
  case (Suc n)
  let ?i = "sc_schedule_id (rs_spec r)"
  let ?D = "\<lambda>a. sorted_list_of_set (due (sc_trigger_config (rs_spec r)) a (planned_at_of now))"
  let ?new = "take (nat limit) (?D a)"
  obtain y where y: "run_tick c trigger reg now x = Inr y"
    and rest: "fold_result (run_tick c trigger reg) (replicate n now) y = Inr x'"
    using Suc.prems(1) by (auto simp: rbind_Inr_iff)
  obtain s stats where x: "x = (s, stats)" by (cases x)
  obtain s1 stats1 where f: "fold_result (run_schedule c trigger (planned_at_of now)) (map snd reg)
      (s, stats\<lparr>st_checked := st_checked stats + length reg\<rparr>) = Inr (s1, stats1)"
    and y': "y = (s1, stats1\<lparr>st_iterations := st_iterations stats1 + 1\<rparr>)"
    using y x by (auto simp: run_tick_def rbind_Inr_iff)
  have "last_planned (tc_tenant_id c) ?i (fst (fst (s, stats\<lparr>st_checked := st_checked stats + length reg\<rparr>))) = Some a"
    using Suc.prems(2) x by simp
  note one = run_schedules_catch_up [OF f assms(2-8) planned_at_dvd this]
  then have "last_planned (tc_tenant_id c) ?i (fst (fst y)) = Some (if ?new = [] then a else last ?new)" by (simp add: y')
  note ih = Suc.IH [OF rest this]
  have "?D (if ?new = [] then a else last ?new) = drop (nat limit) (?D a)" by (rule due_after_take)
  then have "marked ?i (st_reports (snd x')) = marked ?i (st_reports stats) @ ?new @ take (n * nat limit) (drop (nat limit) (?D a))"
    using ih one y' by simp
  then show ?case using x by (simp add: take_add)
qed simp

text \<open>A limited catch-up recovers: when the provider answers and the planning of no schedule raises, a
  schedule with that policy triggers, after enough iterations, every slot that was due, each once and
  in order; an iteration takes up to \<open>misfire_limit\<close> of them, so the number of due slots divided by the
  limit is enough.
\<close>

theorem catch_up_triggers_all_due:
  assumes "run_scheduler_loop c trigger reg (replicate n now) s = Inr (s', stats)" and "r \<in> set (map snd reg)"
    and "distinct (map (\<lambda>r. sc_schedule_id (rs_spec r)) (map snd reg))" and "answers trigger"
    and "sc_trigger (rs_spec r) = ''cron''" and "sc_misfire_policy (rs_spec r) = ''catch_up_limited''"
    and "config_ok (sc_trigger_config (rs_spec r))" and "misfire_limit (sc_trigger_config (rs_spec r)) = Inr limit"
    and "last_planned (tc_tenant_id c) (sc_schedule_id (rs_spec r)) (fst s) = Some a"
    and "card (due (sc_trigger_config (rs_spec r)) a (planned_at_of now)) \<le> n * nat limit"
  shows "marked (sc_schedule_id (rs_spec r)) (st_reports stats) =
    sorted_list_of_set (due (sc_trigger_config (rs_spec r)) a (planned_at_of now))"
proof -
  have "last_planned (tc_tenant_id c) (sc_schedule_id (rs_spec r)) (fst (fst (s, no_scheduler_stats))) = Some a"
    using assms(9) by simp
  note loop = loop_catch_up [OF assms(1) [unfolded run_scheduler_loop_def] assms(2-8) this]
  have "length (sorted_list_of_set (due (sc_trigger_config (rs_spec r)) a (planned_at_of now))) \<le> n * nat limit"
    using assms(10) by simp
  with loop show ?thesis by (simp add: no_scheduler_stats_def marked_def attempts_of_def)
qed

theorem catch_up_triggers_all_due_witness:
  "sorted_list_of_set (due [(''minute'', ''*'')] minute_us (3 * minute_us)) = [2 * minute_us, 3 * minute_us]"
proof -
  obtain s' stats where run: "run_scheduler_loop plain_config (flaky []) [(''j'', every_minute)]
      (replicate 1 (utc_datetime (3 * minute_us))) (at_minute 1, [], ()) = Inr (s', stats)"
    and m: "marked ''j'' (st_reports stats) = [2 * minute_us, 3 * minute_us]" using steady_loop by auto
  have ok: "config_ok [(''minute'', ''*'')]" by code_simp
  have "planned_at_of (utc_datetime minute_us) + minute_us = 2 * minute_us" by simp
  with due_slots_eq [OF ok, of "utc_datetime minute_us" "3 * minute_us"] minute_slots
  have "sorted_list_of_set (due [(''minute'', ''*'')] minute_us (3 * minute_us)) = [2 * minute_us, 3 * minute_us]"
    by (simp add: cron_due_slots_def)
  then have "length (sorted_list_of_set (due [(''minute'', ''*'')] minute_us (3 * minute_us))) = 2" by (simp only: list.size)
  then have "card (due [(''minute'', ''*'')] minute_us (3 * minute_us)) = 2" by simp
  moreover have "planned_at_of (utc_datetime (3 * minute_us)) = 3 * minute_us" by (rule planned_at_utc) simp
  ultimately show ?thesis
    using catch_up_triggers_all_due [OF run, where r = every_minute and limit = 3 and a = minute_us] ok parse_3 m
    by (simp add: every_minute_def answers_def flaky_def misfire_limit_def field_or_def dget_def py_int_def
        last_planned_def at_minute_def plain_config_def)
qed

section \<open>A slot triggered again\<close>

lemma record_result_leaves:
  assumes "record_result isoformat l logs = (logs', Inr (outcome, l'))"
  shows "\<exists>x. get_by_trigger_key (trigger_key l) logs' = Some x \<and> tl_task_id x = tl_task_id l \<and> tl_task_type x = tl_task_type l"
proof (cases "get_by_trigger_key (trigger_key l) logs")
  case None
  then have "logs' = logs @ [l]" using assms by (auto simp: record_result_def)
  moreover have "\<forall>x \<in> set logs. trigger_key x \<noteq> trigger_key l"
    using None by (auto simp: get_by_trigger_key_def find_None_iff)
  then have "find (\<lambda>x. trigger_key x = trigger_key l) (logs @ [l]) = Some l" by (induction logs) auto
  ultimately show ?thesis by (simp add: get_by_trigger_key_def)
next
  case (Some x)
  have "tl_task_id x = tl_task_id l \<and> tl_task_type x = tl_task_type l \<and> logs' = logs"
    using assms Some
    by (cases "assert_same_trigger isoformat (tl_task_id l) (tl_task_type l) x")
      (auto simp: record_result_def assert_same_trigger_def split: if_splits)
  with Some show ?thesis by simp
qed

lemma record_result_again:
  assumes "get_by_trigger_key (trigger_key l) logs = Some x" and "tl_task_id x = tl_task_id l" and "tl_task_type x = tl_task_type l"
  shows "record_result isoformat l logs = (logs, Inr (History_Replayed, x))"
  using assms by (simp add: record_result_def assert_same_trigger_def)

text \<open>A manual provider over the synchronous task provider, at given readings of the clock.\<close>

definition sync_manual ::
  "schedule_registry \<Rightarrow> 'w task_registry \<Rightarrow> sync_provider \<Rightarrow> (datetime \<Rightarrow> string) \<Rightarrow> (string \<Rightarrow> string)
    \<Rightarrow> instant \<times> instant \<times> instant \<Rightarrow> (trigger_request \<Rightarrow> string) \<Rightarrow> 'w task_state manual_provider" where
  "sync_manual schedules tasks p isoformat digest clock fresh =
    \<lparr>mp_registry = schedules,
     mp_submit = (\<lambda>status e. sync_submit tasks p (fst clock) (fst (snd clock)) (snd (snd clock)) status e),
     mp_records = True, mp_iso = isoformat, mp_digest = digest, mp_fresh = fresh\<rparr>"

lemma manual_trigger_Inr:
  assumes "manual_trigger (sync_manual schedules tasks p isoformat digest clock fresh) now triggered q status s = (s', Inr r)"
  obtains registered x w outcome l where
    "get_schedule schedules (tq_schedule_id q) = Inr registered"
    "sync_submit tasks p (fst clock) (fst (snd clock)) (snd (snd clock)) status
       (schedule_envelope (sync_manual schedules tasks p isoformat digest clock fresh) q (planned_or_now now q)
         (sc_task_type (rs_spec registered))) (snd s) = (w, Inr x)"
    "record_result isoformat (trigger_log_of (sync_manual schedules tasks p isoformat digest clock fresh) q (planned_or_now now q)
       triggered (schedule_envelope (sync_manual schedules tasks p isoformat digest clock fresh) q (planned_or_now now q)
         (sc_task_type (rs_spec registered))) x) (fst s) = (fst s', Inr (outcome, l))"
    "snd s' = w"
proof -
  let ?p = "sync_manual schedules tasks p isoformat digest clock fresh"
  have eqs: "mp_registry ?p = schedules" "mp_records ?p" "mp_iso ?p = isoformat"
    "mp_submit ?p = (\<lambda>status e. sync_submit tasks p (fst clock) (fst (snd clock)) (snd (snd clock)) status e)"
    by (simp_all add: sync_manual_def)
  obtain registered where reg: "get_schedule schedules (tq_schedule_id q) = Inr registered"
    using assms by (cases "get_schedule schedules (tq_schedule_id q)") (simp_all add: manual_trigger_def eqs)
  let ?e = "schedule_envelope ?p q (planned_or_now now q) (sc_task_type (rs_spec registered))"
  obtain w res where sub: "sync_submit tasks p (fst clock) (fst (snd clock)) (snd (snd clock)) status ?e (snd s) = (w, res)"
    by (cases "sync_submit tasks p (fst clock) (fst (snd clock)) (snd (snd clock)) status ?e (snd s)")
  obtain x where res: "res = Inr x"
    using assms reg sub by (cases res) (simp_all add: manual_trigger_def eqs Let_def)
  let ?l = "trigger_log_of ?p q (planned_or_now now q) triggered ?e x"
  obtain logs lres where rec: "record_result isoformat ?l (fst s) = (logs, lres)" by (cases "record_result isoformat ?l (fst s)")
  obtain outcome l where lres: "lres = Inr (outcome, l)"
    using assms reg sub res rec by (cases lres) (auto simp: manual_trigger_def eqs Let_def)
  have "s' = (logs, w)"
    using assms reg sub res rec lres by (simp add: manual_trigger_def eqs Let_def)
  with that [of registered w x outcome l] reg sub res rec lres show thesis by simp
qed


definition slot_request_one :: trigger_request where
  "slot_request_one = \<lparr>tq_schedule_id = ''j'', tq_tenant_id = ''t'', tq_request_id = ''r'', tq_trace_id = None,
     tq_planned_at = Some (utc_datetime 0), tq_payload = []\<rparr>"

definition stamp :: "datetime \<Rightarrow> string" where
  "stamp d = int_str (to_utc d)"


end
