(* ===== verification/Upload_Policy.thy ===== *)
theory Upload_Policy
  imports Python_Text "HOL-Library.List_Lexorder" "HOL-Library.Char_ord"
begin

text \<open>
  The checks of an upload (\<open>core/security/upload.py\<close>). A sequence of bytes is a string, whose
  characters are the bytes; \<open>sha\<close> is the hexadecimal SHA-256 of one.
\<close>

type_synonym bytes = string

record upload_policy =
  up_max_bytes :: int
  up_allowed_content_types :: "(string \<times> string list) list"

definition default_allowed_types :: "(string \<times> string list) list" where
  "default_allowed_types =
    [(''.csv'', [''text/csv'', ''application/csv'', ''application/vnd.ms-excel'']),
     (''.doc'', [''application/msword'']),
     (''.docx'', [''application/vnd.openxmlformats-officedocument.wordprocessingml.document'']),
     (''.jpeg'', [''image/jpeg'']), (''.jpg'', [''image/jpeg'']), (''.pdf'', [''application/pdf'']),
     (''.png'', [''image/png'']), (''.txt'', [''text/plain'']), (''.xls'', [''application/vnd.ms-excel'']),
     (''.xlsx'', [''application/vnd.openxmlformats-officedocument.spreadsheetml.sheet'']),
     (''.zip'', [''application/zip'', ''application/x-zip-compressed''])]"

definition default_upload_policy :: upload_policy where
  "default_upload_policy = \<lparr>up_max_bytes = 50 * 1024 * 1024, up_allowed_content_types = default_allowed_types\<rparr>"

definition check_allowed_types :: "string \<times> string list \<Rightarrow> unit result" where
  "check_allowed_types = (\<lambda>(extension, types).
    if \<not> starts_with extension ''.'' \<or> blank extension
      then Inl (validation_error (''Upload extension must start with '' @ repr_str ''.''))
    else if types = []
      then Inl (validation_error (''Upload extension '' @ repr_str extension @ '' must declare content types''))
    else Inr ())"

definition check_upload_policy :: "upload_policy \<Rightarrow> unit result" where
  "check_upload_policy p =
    (if up_max_bytes p \<le> 0 then Inl (validation_error ''Upload max_bytes must be greater than zero'')
     else if up_allowed_content_types p = [] then Inl (validation_error ''Upload allowed_content_types must not be empty'')
     else check_all check_allowed_types (up_allowed_content_types p))"

record upload_validation =
  uv_file_name :: string
  uv_content_type :: string
  uv_extension :: string
  uv_size :: int
  uv_checksum :: string

definition reject_upload :: "string \<Rightarrow> (string \<times> pyval) list \<Rightarrow> exn" where
  "reject_upload reason details = app_error ''UPLOAD_REJECTED'' ''Upload rejected by security policy'' (Some 400)
     ((''reason'', PStr reason) # details)"

definition bad_file_name :: "string \<Rightarrow> bool" where
  "bad_file_name name \<longleftrightarrow> CHR ''/'' \<in> set name \<or> CHR 0x5C \<in> set name \<or> CHR 0x00 \<in> set name \<or> name \<in> {''.'', ''..''}"

definition upload_details :: "string \<Rightarrow> string \<Rightarrow> int \<Rightarrow> (string \<times> pyval) list" where
  "upload_details name content_type n =
     [(''file_name'', PStr name), (''content_type'', PStr content_type), (''size'', PInt n)]"

definition validate_file_name :: "string \<Rightarrow> string \<Rightarrow> bytes \<Rightarrow> string result" where
  "validate_file_name file_name content_type data =
    (let name = strip file_name in
     if name = [] \<or> bad_file_name name
       then Inl (reject_upload ''invalid_file_name'' (upload_details file_name content_type (int (length data))))
     else if blank content_type
       then Inl (reject_upload ''missing_content_type'' (upload_details name content_type 0))
     else if data = [] then Inl (reject_upload ''empty_file'' (upload_details name content_type 0))
     else Inr name)"

definition extension_of :: "string \<Rightarrow> string" where
  "extension_of name = (if CHR ''.'' \<notin> set name then [] else CHR ''.'' # lower (snd (rpartition CHR ''.'' name)))"

definition allowed_types :: "upload_policy \<Rightarrow> string \<Rightarrow> string list" where
  "allowed_types p extension =
    (case dget (up_allowed_content_types p) extension of None \<Rightarrow> [] | Some types \<Rightarrow> map lower types)"

definition validate_upload ::
  "(bytes \<Rightarrow> string) \<Rightarrow> string \<Rightarrow> string \<Rightarrow> bytes \<Rightarrow> upload_policy \<Rightarrow> string option \<Rightarrow> upload_validation result" where
  "validate_upload sha file_name content_type data p expected_checksum =
    rbind (validate_file_name file_name content_type data) (\<lambda>name.
      let ctype = lower (strip content_type); extension = extension_of name; n = int (length data);
          allowed = allowed_types p extension; checksum = sha data; details = upload_details name ctype n in
      if up_max_bytes p < n
        then Inl (reject_upload ''file_too_large'' (details @ [(''max_bytes'', PInt (up_max_bytes p))]))
      else if allowed = []
        then Inl (reject_upload ''extension_not_allowed'' (details @ [(''extension'', PStr extension)]))
      else if ctype \<notin> set allowed
        then Inl (reject_upload ''content_type_not_allowed'' (details @ [(''extension'', PStr extension),
          (''allowed_content_types'', PList (map PStr (sort (remdups allowed))))]))
      else if (case expected_checksum of None \<Rightarrow> False | Some e \<Rightarrow> checksum \<noteq> lower e)
        then Inl (reject_upload ''checksum_mismatch'' (details @ [(''expected_checksum'', opt_str expected_checksum),
          (''checksum'', PStr checksum)]))
      else Inr \<lparr>uv_file_name = name, uv_content_type = ctype, uv_extension = extension, uv_size = n,
        uv_checksum = checksum\<rparr>)"

text \<open>What an accepted upload satisfies.\<close>

lemma validate_upload_Inr:
  assumes "validate_upload sha file_name content_type data p expected = Inr v"
  shows "data \<noteq> []" "int (length data) \<le> up_max_bytes p" "uv_checksum v = sha data"
    "\<not> bad_file_name (uv_file_name v)" "uv_file_name v = strip file_name" "uv_file_name v \<noteq> []"
    "uv_content_type v \<in> set (allowed_types p (extension_of (uv_file_name v)))"
    "\<And>e. expected = Some e \<Longrightarrow> sha data = lower e"
proof -
  obtain name where n: "validate_file_name file_name content_type data = Inr name"
    using assms by (auto simp: validate_upload_def rbind_Inr_iff)
  then have name: "name = strip file_name" "name \<noteq> []" "\<not> bad_file_name name" "data \<noteq> []"
    by (auto simp: validate_file_name_def Let_def split: if_splits)
  note v = assms [unfolded validate_upload_def n rbind_simps Let_def]
  show "data \<noteq> []" by (rule name)
  show "int (length data) \<le> up_max_bytes p" "uv_checksum v = sha data" "\<not> bad_file_name (uv_file_name v)"
    "uv_file_name v = strip file_name" "uv_file_name v \<noteq> []"
    "uv_content_type v \<in> set (allowed_types p (extension_of (uv_file_name v)))"
    "\<And>e. expected = Some e \<Longrightarrow> sha data = lower e"
    using v name by (auto split: if_splits option.splits)
qed

end
