(* ===== verification/Storage.thy ===== *)
theory Storage
  imports Upload_Policy
begin

text \<open>
  Object storage: the keys (\<open>core/storage/paths.py\<close>), the protocol (\<open>core/storage/provider.py\<close>), the
  local provider over a file system (\<open>core/storage/local.py\<close>) and the S3 provider over a client
  (\<open>core/storage/s3.py\<close>).

  A file system is a map from the parts of a path below the root to the bytes of the file; there are
  no symbolic links below the root, and no path of a file leads through another file or to a
  directory other than the root. The S3 client is a
  record of operations on the world; what its responses hold is what the provider reads of them.
\<close>

section \<open>Keys\<close>

definition file_object_key :: "string \<Rightarrow> string \<Rightarrow> string" where
  "file_object_key tenant_id file_id = ''tenants/'' @ tenant_id @ ''/files/'' @ file_id @ ''/original.bin''"

definition resource_object_key :: "string \<Rightarrow> string \<Rightarrow> string \<Rightarrow> string \<Rightarrow> string" where
  "resource_object_key tenant_id resource_type resource_id file_id =
     ''tenants/'' @ tenant_id @ ''/resources/'' @ resource_type @ ''/'' @ resource_id @ ''/'' @ file_id @ ''.bin''"

text \<open>\<open>PurePosixPath(key).parts\<close> of a relative path: empty and single-dot segments are dropped.\<close>

definition path_parts :: "string \<Rightarrow> string list" where
  "path_parts key = filter (\<lambda>p. p \<noteq> [] \<and> p \<noteq> ''.'') (split_on CHR ''/'' key)"

definition rooted :: "string \<Rightarrow> bool" where
  "rooted key \<longleftrightarrow> starts_with key ''/'' \<or> starts_with key [CHR 0x5C]"

definition local_path :: "string \<Rightarrow> string list result" where
  "local_path key =
    (if key = [] \<or> rooted key \<or> ''..'' \<in> set (path_parts key)
       then Inl (validation_error ''invalid storage object key'')
     else Inr (path_parts key))"

definition check_s3_key :: "string \<Rightarrow> unit result" where
  "check_s3_key key =
    (if blank key \<or> rooted key \<or> ''..'' \<in> set (path_parts key)
       then Inl (validation_error ''invalid storage object key'')
     else Inr ())"

section \<open>The protocol\<close>

record stored_object =
  so_bucket :: string
  so_object_key :: string
  so_size :: int
  so_checksum :: string

record upload_part =
  pt_part_number :: int
  pt_etag :: string

record 's storage =
  sg_bucket :: string
  sg_put :: "string \<Rightarrow> bytes \<Rightarrow> ('s, stored_object) state_op"
  sg_get :: "string \<Rightarrow> ('s, bytes) state_op"
  sg_delete :: "string \<Rightarrow> ('s, unit) state_op"
  sg_exists :: "string \<Rightarrow> ('s, bool) state_op"
  sg_download_url :: "string \<Rightarrow> int \<Rightarrow> ('s, string) state_op"
  sg_upload_url :: "string \<Rightarrow> string \<Rightarrow> int \<Rightarrow> ('s, string) state_op"
  sg_create_multipart :: "string \<Rightarrow> string \<Rightarrow> ('s, string) state_op"
  sg_part_url :: "string \<Rightarrow> string \<Rightarrow> int \<Rightarrow> int \<Rightarrow> ('s, string) state_op"
  sg_complete_multipart :: "string \<Rightarrow> string \<Rightarrow> upload_part list \<Rightarrow> ('s, stored_object) state_op"
  sg_abort_multipart :: "string \<Rightarrow> string \<Rightarrow> ('s, unit) state_op"

section \<open>Argument checks of both providers\<close>

definition check_expiry :: "int \<Rightarrow> unit result" where
  "check_expiry n = (if n \<le> 0 then Inl (validation_error ''URL expiry must be greater than zero'') else Inr ())"

definition check_content_type :: "string \<Rightarrow> unit result" where
  "check_content_type t = (if blank t then Inl (validation_error ''content_type is required'') else Inr ())"

definition check_upload_id :: "string \<Rightarrow> unit result" where
  "check_upload_id i = (if blank i then Inl (validation_error ''multipart upload_id is required'') else Inr ())"

definition check_part_number :: "int \<Rightarrow> unit result" where
  "check_part_number n =
    (if n \<le> 0 then Inl (validation_error ''multipart part_number must be greater than zero'') else Inr ())"

definition no_parts :: exn where
  "no_parts = validation_error ''multipart upload completion requires at least one part''"

section \<open>The local provider\<close>

type_synonym file_system = "string list \<rightharpoonup> bytes"

text \<open>\<open>quote\<close> is \<open>urllib.parse.quote\<close>, \<open>fresh\<close> the new UUID of an upload. The root itself is a directory:
  writing to it raises what Python raises.\<close>

definition is_directory :: "string list \<Rightarrow> file_system \<Rightarrow> bool" where
  "is_directory path fs \<longleftrightarrow> path = []"

definition local_put :: "(bytes \<Rightarrow> string) \<Rightarrow> string \<Rightarrow> string \<Rightarrow> bytes \<Rightarrow> (file_system, stored_object) state_op" where
  "local_put sha bucket key data fs =
    (case local_path key of
       Inl e \<Rightarrow> (fs, Inl e)
     | Inr path \<Rightarrow>
         if is_directory path fs then (fs, Inl (PyError ''IsADirectoryError'' key))
         else (fs(path \<mapsto> data), Inr \<lparr>so_bucket = bucket, so_object_key = key, so_size = int (length data), so_checksum = sha data\<rparr>))"

definition local_get :: "string \<Rightarrow> (file_system, bytes) state_op" where
  "local_get key fs =
    (fs, rbind (local_path key) (\<lambda>path. case fs path of
       None \<Rightarrow> Inl (app_error ''NOT_FOUND'' ''storage object not found'' (Some 404) [])
     | Some data \<Rightarrow> Inr data))"

definition local_delete :: "string \<Rightarrow> (file_system, unit) state_op" where
  "local_delete key fs =
    (case local_path key of
       Inl e \<Rightarrow> (fs, Inl e)
     | Inr path \<Rightarrow>
         if is_directory path fs then (fs, Inl (PyError ''IsADirectoryError'' key))
         else (fs(path := None), Inr ()))"

definition local_exists :: "string \<Rightarrow> (file_system, bool) state_op" where
  "local_exists key fs = (fs, rbind (local_path key) (\<lambda>path. Inr (fs path \<noteq> None)))"

definition local_url :: "string \<Rightarrow> (string \<Rightarrow> string) \<Rightarrow> string \<Rightarrow> string \<Rightarrow> string" where
  "local_url bucket quote key query = ''local://'' @ bucket @ ''/'' @ quote key @ ''?'' @ query"

definition local_download_url :: "string \<Rightarrow> (string \<Rightarrow> string) \<Rightarrow> string \<Rightarrow> int \<Rightarrow> string result" where
  "local_download_url bucket quote key expires =
    rbind (local_path key) (\<lambda>_. rbind (check_expiry expires) (\<lambda>_.
      Inr (local_url bucket quote key (''expires_seconds='' @ int_str expires))))"

definition local_upload_url :: "string \<Rightarrow> (string \<Rightarrow> string) \<Rightarrow> string \<Rightarrow> string \<Rightarrow> int \<Rightarrow> string result" where
  "local_upload_url bucket quote key content_type expires =
    rbind (local_path key) (\<lambda>_. rbind (check_content_type content_type) (\<lambda>_. rbind (check_expiry expires) (\<lambda>_.
      Inr (local_url bucket quote key (''operation=put&content_type='' @ quote content_type
        @ ''&expires_seconds='' @ int_str expires)))))"

definition local_create_multipart :: "string \<Rightarrow> string \<Rightarrow> string \<Rightarrow> string result" where
  "local_create_multipart fresh key content_type =
    rbind (local_path key) (\<lambda>_. rbind (check_content_type content_type) (\<lambda>_. Inr (''local-'' @ fresh)))"

definition local_part_url :: "string \<Rightarrow> (string \<Rightarrow> string) \<Rightarrow> string \<Rightarrow> string \<Rightarrow> int \<Rightarrow> int \<Rightarrow> string result" where
  "local_part_url bucket quote key upload_id part_number expires =
    rbind (local_path key) (\<lambda>_. rbind (check_upload_id upload_id) (\<lambda>_. rbind (check_part_number part_number) (\<lambda>_.
    rbind (check_expiry expires) (\<lambda>_.
      Inr (local_url bucket quote key (''operation=upload_part&upload_id='' @ quote upload_id @ ''&part_number=''
        @ int_str part_number @ ''&expires_seconds='' @ int_str expires))))))"

definition local_complete_multipart ::
  "string \<Rightarrow> string \<Rightarrow> string \<Rightarrow> upload_part list \<Rightarrow> (file_system, stored_object) state_op" where
  "local_complete_multipart bucket key upload_id parts fs =
    (fs, rbind (local_path key) (\<lambda>path. rbind (check_upload_id upload_id) (\<lambda>_.
       if parts = [] then Inl no_parts
       else Inr \<lparr>so_bucket = bucket, so_object_key = key,
         so_size = (case fs path of None \<Rightarrow> 0 | Some data \<Rightarrow> int (length data)),
         so_checksum = ''multipart:'' @ upload_id\<rparr>)))"

definition local_abort_multipart :: "string \<Rightarrow> string \<Rightarrow> unit result" where
  "local_abort_multipart key upload_id = rbind (local_path key) (\<lambda>_. check_upload_id upload_id)"

definition local_storage ::
  "(bytes \<Rightarrow> string) \<Rightarrow> (string \<Rightarrow> string) \<Rightarrow> string \<Rightarrow> string \<Rightarrow> file_system storage" where
  "local_storage sha quote fresh bucket =
    \<lparr>sg_bucket = bucket, sg_put = local_put sha bucket, sg_get = local_get, sg_delete = local_delete,
     sg_exists = local_exists, sg_download_url = (\<lambda>key n. sret (local_download_url bucket quote key n)),
     sg_upload_url = (\<lambda>key t n. sret (local_upload_url bucket quote key t n)),
     sg_create_multipart = (\<lambda>key t. sret (local_create_multipart fresh key t)),
     sg_part_url = (\<lambda>key i p n. sret (local_part_url bucket quote key i p n)),
     sg_complete_multipart = local_complete_multipart bucket,
     sg_abort_multipart = (\<lambda>key i. sret (local_abort_multipart key i))\<rparr>"

section \<open>The S3 provider\<close>

record 's s3_client =
  s3_put :: "string \<Rightarrow> string \<Rightarrow> bytes \<Rightarrow> ('s, unit) state_op"
  s3_get :: "string \<Rightarrow> string \<Rightarrow> ('s, bytes) state_op"
  s3_delete :: "string \<Rightarrow> string \<Rightarrow> ('s, unit) state_op"
  s3_head :: "string \<Rightarrow> string \<Rightarrow> ('s, int option) state_op"  \<comment> \<open>\<open>ContentLength\<close>\<close>
  s3_create_multipart :: "string \<Rightarrow> string \<Rightarrow> string \<Rightarrow> ('s, string option) state_op"  \<comment> \<open>\<open>UploadId\<close>\<close>
  s3_complete_multipart :: "string \<Rightarrow> string \<Rightarrow> string \<Rightarrow> (string \<times> int) list \<Rightarrow> ('s, unit) state_op"
  s3_abort_multipart :: "string \<Rightarrow> string \<Rightarrow> string \<Rightarrow> ('s, unit) state_op"
  s3_presign :: "string \<Rightarrow> (string \<times> pyval) list \<Rightarrow> int \<Rightarrow> ('s, string) state_op"

definition s3_put_file :: "(bytes \<Rightarrow> string) \<Rightarrow> 's s3_client \<Rightarrow> string \<Rightarrow> string \<Rightarrow> bytes \<Rightarrow> ('s, stored_object) state_op" where
  "s3_put_file sha c bucket key data =
    sbind (sret (check_s3_key key)) (\<lambda>_. sbind (s3_put c bucket key data) (\<lambda>_.
      sret (Inr \<lparr>so_bucket = bucket, so_object_key = key, so_size = int (length data), so_checksum = sha data\<rparr>)))"

text \<open>Any exception of the client is taken for a missing object.\<close>

definition s3_get_file :: "'s s3_client \<Rightarrow> string \<Rightarrow> string \<Rightarrow> ('s, bytes) state_op" where
  "s3_get_file c bucket key =
    sbind (sret (check_s3_key key)) (\<lambda>_ s. case s3_get c bucket key s of
      (s', Inl _) \<Rightarrow> (s', Inl (app_error ''NOT_FOUND'' ''storage object not found'' (Some 404) []))
    | (s', Inr data) \<Rightarrow> (s', Inr data))"

definition s3_exists :: "'s s3_client \<Rightarrow> string \<Rightarrow> string \<Rightarrow> ('s, bool) state_op" where
  "s3_exists c bucket key =
    sbind (sret (check_s3_key key)) (\<lambda>_ s. case s3_head c bucket key s of (s', r) \<Rightarrow> (s', Inr (is_ok r)))"

definition s3_create :: "'s s3_client \<Rightarrow> string \<Rightarrow> string \<Rightarrow> string \<Rightarrow> ('s, string) state_op" where
  "s3_create c bucket key content_type =
    sbind (sret (check_s3_key key)) (\<lambda>_. sbind (sret (check_content_type content_type)) (\<lambda>_.
    sbind (s3_create_multipart c bucket key content_type) (\<lambda>upload_id.
      sret (if upload_id = None \<or> upload_id = Some []
        then Inl (app_error ''STORAGE_ERROR'' ''S3 multipart upload did not return an upload id'' (Some 502) [])
        else Inr (the upload_id)))))"

definition check_part :: "upload_part \<Rightarrow> unit result" where
  "check_part p = rbind (check_part_number (pt_part_number p)) (\<lambda>_.
    if blank (pt_etag p) then Inl (validation_error ''multipart part etag is required'') else Inr ())"

definition s3_complete :: "'s s3_client \<Rightarrow> string \<Rightarrow> string \<Rightarrow> string \<Rightarrow> upload_part list \<Rightarrow> ('s, stored_object) state_op" where
  "s3_complete c bucket key upload_id parts =
    sbind (sret (check_s3_key key)) (\<lambda>_. sbind (sret (check_upload_id upload_id)) (\<lambda>_.
    if parts = [] then sret (Inl no_parts)
    else sbind (sret (check_all check_part parts)) (\<lambda>_.
      sbind (s3_complete_multipart c bucket key upload_id
        (map (\<lambda>p. (pt_etag p, pt_part_number p)) (sort_key pt_part_number parts))) (\<lambda>_.
      sbind (s3_head c bucket key) (\<lambda>n.
        sret (Inr \<lparr>so_bucket = bucket, so_object_key = key, so_size = (case n of None \<Rightarrow> 0 | Some k \<Rightarrow> k),
          so_checksum = ''multipart:'' @ upload_id\<rparr>))))))"

definition s3_delete_file :: "'s s3_client \<Rightarrow> string \<Rightarrow> string \<Rightarrow> ('s, unit) state_op" where
  "s3_delete_file c bucket key = sbind (sret (check_s3_key key)) (\<lambda>_. s3_delete c bucket key)"

definition s3_download_url :: "'s s3_client \<Rightarrow> string \<Rightarrow> string \<Rightarrow> int \<Rightarrow> ('s, string) state_op" where
  "s3_download_url c bucket key expires =
    sbind (sret (check_s3_key key)) (\<lambda>_. sbind (sret (check_expiry expires)) (\<lambda>_.
      s3_presign c ''get_object'' [(''Bucket'', PStr bucket), (''Key'', PStr key)] expires))"

definition s3_upload_url :: "'s s3_client \<Rightarrow> string \<Rightarrow> string \<Rightarrow> string \<Rightarrow> int \<Rightarrow> ('s, string) state_op" where
  "s3_upload_url c bucket key content_type expires =
    sbind (sret (check_s3_key key)) (\<lambda>_. sbind (sret (check_content_type content_type)) (\<lambda>_.
    sbind (sret (check_expiry expires)) (\<lambda>_. s3_presign c ''put_object''
      [(''Bucket'', PStr bucket), (''Key'', PStr key), (''ContentType'', PStr content_type)] expires)))"

definition s3_part_url :: "'s s3_client \<Rightarrow> string \<Rightarrow> string \<Rightarrow> string \<Rightarrow> int \<Rightarrow> int \<Rightarrow> ('s, string) state_op" where
  "s3_part_url c bucket key upload_id part_number expires =
    sbind (sret (check_s3_key key)) (\<lambda>_. sbind (sret (check_upload_id upload_id)) (\<lambda>_.
    sbind (sret (check_part_number part_number)) (\<lambda>_. sbind (sret (check_expiry expires)) (\<lambda>_.
      s3_presign c ''upload_part'' [(''Bucket'', PStr bucket), (''Key'', PStr key), (''UploadId'', PStr upload_id),
        (''PartNumber'', PInt part_number)] expires))))"

definition s3_abort :: "'s s3_client \<Rightarrow> string \<Rightarrow> string \<Rightarrow> string \<Rightarrow> ('s, unit) state_op" where
  "s3_abort c bucket key upload_id =
    sbind (sret (check_s3_key key)) (\<lambda>_. sbind (sret (check_upload_id upload_id)) (\<lambda>_.
      s3_abort_multipart c bucket key upload_id))"

definition s3_storage :: "(bytes \<Rightarrow> string) \<Rightarrow> 's s3_client \<Rightarrow> string \<Rightarrow> 's storage" where
  "s3_storage sha c bucket =
    \<lparr>sg_bucket = bucket, sg_put = s3_put_file sha c bucket, sg_get = s3_get_file c bucket,
     sg_delete = s3_delete_file c bucket, sg_exists = s3_exists c bucket,
     sg_download_url = s3_download_url c bucket, sg_upload_url = s3_upload_url c bucket,
     sg_create_multipart = s3_create c bucket, sg_part_url = s3_part_url c bucket,
     sg_complete_multipart = s3_complete c bucket, sg_abort_multipart = s3_abort c bucket\<rparr>"

section \<open>Confinement and round trip\<close>

lemma local_path_below_root: "local_path key = Inr path \<Longrightarrow> ''..'' \<notin> set path \<and> [] \<notin> set path"
  by (auto simp: local_path_def path_parts_def split: if_splits)

text \<open>Splitting a path at its separators, segment by segment.\<close>

lemma split_on_append: "c \<notin> set p \<Longrightarrow> split_on c (p @ c # q) = p # split_on c q"
  by (induction p) auto

lemma path_parts_Cons:
  "CHR ''/'' \<notin> set p \<Longrightarrow> path_parts (p @ CHR ''/'' # q) = (if p \<noteq> [] \<and> p \<noteq> ''.'' then [p] else []) @ path_parts q"
  by (simp add: path_parts_def split_on_append)

lemma path_parts_single: "CHR ''/'' \<notin> set p \<Longrightarrow> path_parts p = (if p \<noteq> [] \<and> p \<noteq> ''.'' then [p] else [])"
  by (simp add: path_parts_def split_on_free)

text \<open>A segment of a key: not empty, no separator, not a dot or two dots.\<close>

definition segment :: "string \<Rightarrow> bool" where
  "segment p \<longleftrightarrow> p \<noteq> [] \<and> CHR ''/'' \<notin> set p \<and> p \<noteq> ''.'' \<and> p \<noteq> ''..''"

lemma file_object_key_parts:
  assumes "segment tenant_id" and "segment file_id"
  shows "path_parts (file_object_key tenant_id file_id) = [''tenants'', tenant_id, ''files'', file_id, ''original.bin'']"
proof -
  have "file_object_key tenant_id file_id = ''tenants'' @ CHR ''/'' # tenant_id @ CHR ''/'' # ''files'' @ CHR ''/'' #
      file_id @ CHR ''/'' # ''original.bin''" by (simp add: file_object_key_def)
  moreover have t: "CHR ''/'' \<notin> set tenant_id" and f: "CHR ''/'' \<notin> set file_id" using assms by (simp_all add: segment_def)
  moreover have c: "CHR ''/'' \<notin> set ''tenants''" "CHR ''/'' \<notin> set ''files''" "CHR ''/'' \<notin> set ''original.bin''" by simp_all
  ultimately have "path_parts (file_object_key tenant_id file_id) =
      (if ''tenants'' \<noteq> [] \<and> ''tenants'' \<noteq> ''.'' then [''tenants''] else []) @
      (if tenant_id \<noteq> [] \<and> tenant_id \<noteq> ''.'' then [tenant_id] else []) @
      (if ''files'' \<noteq> [] \<and> ''files'' \<noteq> ''.'' then [''files''] else []) @
      (if file_id \<noteq> [] \<and> file_id \<noteq> ''.'' then [file_id] else []) @
      (if ''original.bin'' \<noteq> [] \<and> ''original.bin'' \<noteq> ''.'' then [''original.bin''] else [])"
    by (simp only: path_parts_Cons [OF c(1)] path_parts_Cons [OF c(2)] path_parts_Cons [OF t] path_parts_Cons [OF f]
        path_parts_single [OF c(3)])
  then show ?thesis using assms by (simp add: segment_def)
qed

lemma file_object_key_path:
  assumes "segment tenant_id" and "segment file_id"
  shows "local_path (file_object_key tenant_id file_id) = Inr [''tenants'', tenant_id, ''files'', file_id, ''original.bin'']"
    "check_s3_key (file_object_key tenant_id file_id) = Inr ()"
proof -
  have p: "''..'' \<notin> set (path_parts (file_object_key tenant_id file_id))"
    unfolding file_object_key_parts [OF assms] using assms by (auto simp: segment_def)
  have r: "\<not> rooted (file_object_key tenant_id file_id)" by (simp add: rooted_def file_object_key_def)
  have b: "\<not> blank (file_object_key tenant_id file_id)" by (simp add: file_object_key_def is_space_def)
  show "local_path (file_object_key tenant_id file_id) = Inr [''tenants'', tenant_id, ''files'', file_id, ''original.bin'']"
    using p r b assms by (auto simp: local_path_def file_object_key_parts)
  show "check_s3_key (file_object_key tenant_id file_id) = Inr ()"
    using p r b by (simp add: check_s3_key_def)
qed

lemma local_put_get:
  assumes "local_put sha bucket key data fs = (fs', Inr x)"
  shows "local_get key fs' = (fs', Inr data)" "so_checksum x = sha data" "so_size x = int (length data)" "so_object_key x = key"
    "so_bucket x = bucket"
  using assms by (auto simp: local_put_def local_get_def split: sum.splits if_splits)

end
