(* ===== verification/Files.thy ===== *)
theory Files
  imports Storage Tenant_Lifecycle Quota_Rules "HOL-Library.Product_Lexorder"
begin

text \<open>
  The files app (\<open>platform_apps/files/services.py\<close>, \<open>models.py\<close>): uploads of bytes, presigned and
  multipart uploads, downloads, deletion and purge.

  The state is the table of file objects and the rest of the world, \<open>'s\<close>, on which the storage
  provider, the virus scanner, the quota service and the authorization service operate; each of these
  may be any operation. A new identifier is an argument. A row is found by its identifier; the
  statements of one operation are taken without another session's writes to the table in between.
\<close>

section \<open>File objects\<close>

datatype file_status = File_Uploading | File_Available | File_Deleted | File_Purged

fun file_status_name :: "file_status \<Rightarrow> string" where
  "file_status_name File_Uploading = ''uploading''"
| "file_status_name File_Available = ''available''"
| "file_status_name File_Deleted = ''deleted''"
| "file_status_name File_Purged = ''purged''"

record file_object =
  fo_id :: string
  fo_tenant_id :: string
  fo_owner_type :: string
  fo_owner_id :: string
  fo_bucket :: string
  fo_object_key :: string
  fo_file_name :: string
  fo_content_type :: string
  fo_size :: int
  fo_checksum :: string
  fo_file_type :: string
  fo_status :: file_status
  fo_version :: int
  fo_created_at :: instant
  fo_deleted_at :: "instant option"

type_synonym 's file_state = "file_object list \<times> 's"

datatype file_action = Upload_File | Download_File | Delete_File

fun file_action_name :: "file_action \<Rightarrow> string" where
  "file_action_name Upload_File = ''upload''"
| "file_action_name Download_File = ''download''"
| "file_action_name Delete_File = ''delete''"

section \<open>Authorization\<close>

text \<open>\<open>authorization.require\<close> with user, tenant, resource, action, resource identifier and request.\<close>

type_synonym 's require_op =
  "string \<Rightarrow> string \<Rightarrow> string \<Rightarrow> string \<Rightarrow> string option \<Rightarrow> string option \<Rightarrow> ('s, unit) state_op"

text \<open>Who calls: the user, the authorization service when there is one, the request.\<close>

record 's file_caller =
  fc_user_id :: "string option"
  fc_authorization :: "'s require_op option"
  fc_request_id :: "string option"

definition assert_file_access :: "file_object \<Rightarrow> string \<Rightarrow> string \<Rightarrow> string \<Rightarrow> unit result" where
  "assert_file_access f tenant_id owner_type owner_id =
    (if fo_tenant_id f \<noteq> tenant_id
       then Inl (app_error ''TENANT_CONTEXT_CONFLICT'' ''file tenant does not match current tenant'' (Some 403) [])
     else if fo_owner_type f \<noteq> owner_type \<or> fo_owner_id f \<noteq> owner_id
       then Inl (app_error ''PERMISSION_DENIED'' ''file owner scope is not allowed'' (Some 403) [])
     else Inr ())"

type_synonym 's resource_adapter =
  "file_object option \<Rightarrow> string \<Rightarrow> string \<Rightarrow> string \<Rightarrow> file_action \<Rightarrow> 's file_caller \<Rightarrow> ('s, unit) state_op"

definition owner_only_adapter :: "'s resource_adapter" where
  "owner_only_adapter file tenant_id owner_type owner_id action caller =
    sret (case file of None \<Rightarrow> Inr () | Some f \<Rightarrow> assert_file_access f tenant_id owner_type owner_id)"

definition default_action_map :: "(string \<times> string) list" where
  "default_action_map = [(''upload'', ''write''), (''download'', ''read''), (''delete'', ''write'')]"

definition no_user :: "string \<Rightarrow> string \<Rightarrow> string \<Rightarrow> exn" where
  "no_user message action resource = app_error ''VALIDATION_ERROR'' message (Some 400)
     [(''action'', PStr action), (''resource'', PStr resource)]"

definition no_authorization :: "string \<Rightarrow> string \<Rightarrow> string \<Rightarrow> exn" where
  "no_authorization message action resource = app_error ''PERMISSION_DENIED'' message (Some 403)
     [(''action'', PStr action), (''resource'', PStr resource)]"

text \<open>A check that needs the authorization service and a user, then asks for a permission.\<close>

definition require_with ::
  "string \<Rightarrow> string \<Rightarrow> string \<Rightarrow> string \<Rightarrow> 's file_caller \<Rightarrow> ('s require_op \<Rightarrow> string \<Rightarrow> ('s, unit) state_op) \<Rightarrow> ('s, unit) state_op" where
  "require_with missing no_user_message action resource caller ask =
    (case fc_authorization caller of
       None \<Rightarrow> sret (Inl (no_authorization missing action resource))
     | Some require \<Rightarrow>
         (case fc_user_id caller of
            None \<Rightarrow> sret (Inl (no_user no_user_message action resource))
          | Some u \<Rightarrow> if blank u then sret (Inl (no_user no_user_message action resource)) else ask require u))"

definition authorization_adapter :: "(string \<times> string) list \<Rightarrow> 's resource_adapter" where
  "authorization_adapter action_map file tenant_id owner_type owner_id action caller =
    sbind (sret (case file of None \<Rightarrow> Inr () | Some f \<Rightarrow> assert_file_access f tenant_id owner_type owner_id)) (\<lambda>_.
      let (owner_type, owner_id) = (case file of None \<Rightarrow> (owner_type, owner_id) | Some f \<Rightarrow> (fo_owner_type f, fo_owner_id f)) in
      require_with ''File resource authorization requires AuthorizationService''
        ''user_id is required for file resource authorization'' (file_action_name action) owner_type caller
        (\<lambda>require u. case dget action_map (file_action_name action) of
           None \<Rightarrow> sret (Inl (PyError ''KeyError'' (repr_str (file_action_name action))))
         | Some resource_action \<Rightarrow> require u tenant_id owner_type resource_action (Some owner_id) (fc_request_id caller)))"

section \<open>The service\<close>

record scan_result =
  sn_status :: string
  sn_provider :: string
  sn_signature :: "string option"

record 's upload_quota =
  uq_reserve :: "quota_rule \<Rightarrow> string \<Rightarrow> int \<Rightarrow> ('s, unit) state_op"
  uq_release :: "quota_rule \<Rightarrow> string \<Rightarrow> int \<Rightarrow> ('s, unit) state_op"

record 's file_service =
  fs_storage :: "'s storage"
  fs_upload_policy :: upload_policy
  fs_quota_service :: "'s upload_quota option"
  fs_quota_rules :: "quota_rule list"
  fs_scan :: "string \<Rightarrow> string \<Rightarrow> string \<Rightarrow> bytes \<Rightarrow> string \<Rightarrow> ('s, scan_result) state_op"
  fs_retention_seconds :: int
  fs_adapter :: "'s resource_adapter"
  fs_lifecycle_policy :: "lifecycle_policy option"
  fs_sha :: "bytes \<Rightarrow> string"

definition check_file_service :: "'s file_service \<Rightarrow> unit result" where
  "check_file_service svc = (if fs_retention_seconds svc < 0
     then Inl (validation_error ''delete_retention_seconds must not be negative'') else Inr ())"

definition allow_all_scan :: "string \<Rightarrow> string \<Rightarrow> string \<Rightarrow> bytes \<Rightarrow> string \<Rightarrow> ('s, scan_result) state_op" where
  "allow_all_scan tenant_id file_name content_type data checksum =
     sret (Inr \<lparr>sn_status = ''clean'', sn_provider = ''allow-all'', sn_signature = None\<rparr>)"

definition require_file_permission ::
  "file_action \<Rightarrow> string \<Rightarrow> string option \<Rightarrow> 's file_caller \<Rightarrow> ('s file_state, unit) state_op" where
  "require_file_permission action tenant_id resource_id caller =
    on_world_of (require_with ''File permission authorization is required'' ''user_id is required for file authorization''
      (file_action_name action) ''file'' caller
      (\<lambda>require u. require u tenant_id ''file'' (file_action_name action) resource_id (fc_request_id caller)))"

definition require_resource_access ::
  "'s file_service \<Rightarrow> file_object option \<Rightarrow> file_action \<Rightarrow> string \<Rightarrow> string \<Rightarrow> string \<Rightarrow> 's file_caller
    \<Rightarrow> ('s file_state, unit) state_op" where
  "require_resource_access svc file action tenant_id owner_type owner_id caller =
     on_world_of (fs_adapter svc file tenant_id owner_type owner_id action caller)"

section \<open>Uploads\<close>

record upload_request =
  ur_tenant_id :: string
  ur_owner_type :: string
  ur_owner_id :: string
  ur_file_name :: string
  ur_content_type :: string
  ur_file_type :: string

definition missing_upload_fields :: "upload_request \<Rightarrow> string list" where
  "missing_upload_fields q = map fst (filter (\<lambda>(_, v). blank v)
    [(''tenant_id'', ur_tenant_id q), (''owner_type'', ur_owner_type q), (''owner_id'', ur_owner_id q),
     (''file_name'', ur_file_name q), (''content_type'', ur_content_type q), (''file_type'', ur_file_type q)])"

definition check_upload_fields :: "upload_request \<Rightarrow> unit result" where
  "check_upload_fields q =
    (if missing_upload_fields q \<noteq> []
       then Inl (validation_error (''file upload missing required fields: '' @ repr_strs (missing_upload_fields q)))
     else Inr ())"

definition validate_upload_bytes ::
  "'s file_service \<Rightarrow> upload_request \<Rightarrow> bytes \<Rightarrow> string option \<Rightarrow> upload_validation result" where
  "validate_upload_bytes svc q data expected_checksum =
    rbind (check_upload_fields q) (\<lambda>_.
      validate_upload (fs_sha svc) (ur_file_name q) (ur_content_type q) data (fs_upload_policy svc) expected_checksum)"

text \<open>The checks of a presigned or multipart upload: the size is what the client declares, and
  neither the extension nor the content type is looked up.\<close>

definition validate_upload_metadata ::
  "'s file_service \<Rightarrow> upload_request \<Rightarrow> int \<Rightarrow> int \<Rightarrow> (string \<times> string) result" where
  "validate_upload_metadata svc q expected_size expires_seconds =
    rbind (check_upload_fields q) (\<lambda>_.
      let name = strip (ur_file_name q); ctype = lower (strip (ur_content_type q)) in
      if bad_file_name name
        then Inl (reject_upload ''invalid_file_name'' [(''file_name'', PStr (ur_file_name q))])
      else if expected_size \<le> 0 then Inl (validation_error ''expected_size must be greater than zero'')
      else if up_max_bytes (fs_upload_policy svc) < expected_size
        then Inl (reject_upload ''file_too_large'' (upload_details name ctype expected_size
          @ [(''max_bytes'', PInt (up_max_bytes (fs_upload_policy svc)))]))
      else if expires_seconds \<le> 0 then Inl (validation_error ''expires_seconds must be greater than zero'')
      else Inr (name, ctype))"

definition scan_upload :: "'s file_service \<Rightarrow> string \<Rightarrow> upload_validation \<Rightarrow> bytes \<Rightarrow> ('s file_state, unit) state_op" where
  "scan_upload svc tenant_id v data =
    sbind (on_world_of (fs_scan svc tenant_id (uv_file_name v) (uv_content_type v) data (uv_checksum v))) (\<lambda>r.
      sret (if lower (sn_status r) = ''clean'' then Inr ()
        else Inl (app_error ''UPLOAD_REJECTED'' ''Upload rejected by virus scan'' (Some 400)
          [(''reason'', PStr ''virus_detected''), (''provider'', PStr (sn_provider r)),
           (''signature'', opt_str (sn_signature r)), (''file_name'', PStr (uv_file_name v))])))"

definition upload_amount :: "bytes \<Rightarrow> quota_rule \<Rightarrow> int" where
  "upload_amount data rule = (if qr_metric rule = ''storage_bytes'' then int (length data) else 1)"

fun release_uploads :: "'s upload_quota \<Rightarrow> string \<Rightarrow> (quota_rule \<times> int) list \<Rightarrow> ('s, unit) state_op" where
  "release_uploads quota tenant_id [] = sret (Inr ())"
| "release_uploads quota tenant_id ((rule, amount) # rest) =
     sbind (uq_release quota rule tenant_id amount) (\<lambda>_. release_uploads quota tenant_id rest)"

text \<open>After an exception: the reservations are released, last first, and it is raised again, unless a
  release raises.\<close>

definition release_then_raise ::
  "'s upload_quota \<Rightarrow> string \<Rightarrow> (quota_rule \<times> int) list \<Rightarrow> exn \<Rightarrow> ('s, 'a) state_op" where
  "release_then_raise quota tenant_id reserved e =
     sbind (release_uploads quota tenant_id (rev reserved)) (\<lambda>_. sret (Inl e))"

fun reserve_uploads ::
  "'s upload_quota \<Rightarrow> string \<Rightarrow> bytes \<Rightarrow> (quota_rule \<times> int) list \<Rightarrow> quota_rule list \<Rightarrow> ('s, (quota_rule \<times> int) list) state_op" where
  "reserve_uploads quota tenant_id data reserved [] = sret (Inr reserved)"
| "reserve_uploads quota tenant_id data reserved (rule # rules) = (\<lambda>s.
     case uq_reserve quota rule tenant_id (upload_amount data rule) s of
       (s', Inl e) \<Rightarrow> release_then_raise quota tenant_id reserved e s'
     | (s', Inr _) \<Rightarrow> reserve_uploads quota tenant_id data (reserved @ [(rule, upload_amount data rule)]) rules s')"

definition reserve_upload_quotas :: "'s file_service \<Rightarrow> string \<Rightarrow> bytes \<Rightarrow> ('s, (quota_rule \<times> int) list) state_op" where
  "reserve_upload_quotas svc tenant_id data =
    (if fs_quota_rules svc = [] then sret (Inr [])
     else (case fs_quota_service svc of
        None \<Rightarrow> sret (Inl (validation_error ''quota_service is required when upload_quota_rules are configured''))
      | Some quota \<Rightarrow> reserve_uploads quota tenant_id data [] (fs_quota_rules svc)))"

definition release_after :: "'s file_service \<Rightarrow> string \<Rightarrow> (quota_rule \<times> int) list \<Rightarrow> exn \<Rightarrow> ('s, 'a) state_op" where
  "release_after svc tenant_id reserved e =
    (case fs_quota_service svc of
       None \<Rightarrow> sret (Inl e)
     | Some quota \<Rightarrow> release_then_raise quota tenant_id reserved e)"

definition insert_file :: "file_object \<Rightarrow> file_object list \<Rightarrow> file_object list result" where
  "insert_file f files =
    (if list_ex (\<lambda>g. fo_id g = fo_id f \<or> fo_object_key g = fo_object_key f) files
       then Inl (PyError ''IntegrityError'' ''UNIQUE constraint failed'')
     else Inr (files @ [f]))"

definition stored_file :: "string \<Rightarrow> instant \<Rightarrow> upload_request \<Rightarrow> stored_object \<Rightarrow> file_object" where
  "stored_file file_id created q stored =
    \<lparr>fo_id = file_id, fo_tenant_id = ur_tenant_id q, fo_owner_type = ur_owner_type q, fo_owner_id = ur_owner_id q,
     fo_bucket = so_bucket stored, fo_object_key = so_object_key stored, fo_file_name = ur_file_name q,
     fo_content_type = ur_content_type q, fo_size = so_size stored, fo_checksum = so_checksum stored,
     fo_file_type = ur_file_type q, fo_status = File_Available, fo_version = 1, fo_created_at = created,
     fo_deleted_at = None\<rparr>"

definition store_and_insert ::
  "'s file_service \<Rightarrow> string \<Rightarrow> instant \<Rightarrow> upload_request \<Rightarrow> bytes \<Rightarrow> ('s file_state, file_object) state_op" where
  "store_and_insert svc file_id created q data =
    sbind (on_world_of (sg_put (fs_storage svc) (file_object_key (ur_tenant_id q) file_id) data)) (\<lambda>stored x.
      let f = stored_file file_id created q stored in
      case insert_file f (fst x) of
        Inl e \<Rightarrow> (x, Inl e)
      | Inr files \<Rightarrow> ((files, snd x), Inr f))"

definition upload_bytes ::
  "'s file_service \<Rightarrow> string \<Rightarrow> instant \<Rightarrow> upload_request \<Rightarrow> bytes \<Rightarrow> string option \<Rightarrow> 's file_caller
    \<Rightarrow> ('s file_state, file_object) state_op" where
  "upload_bytes svc file_id created q data expected_checksum caller =
    sbind (require_file_permission Upload_File (ur_tenant_id q) (Some (ur_owner_id q)) caller) (\<lambda>_.
    sbind (require_resource_access svc None Upload_File (ur_tenant_id q) (ur_owner_type q) (ur_owner_id q) caller) (\<lambda>_.
    sbind (sret (validate_upload_bytes svc q data expected_checksum)) (\<lambda>v.
    sbind (scan_upload svc (ur_tenant_id q) v data) (\<lambda>_.
    sbind (on_world_of (reserve_upload_quotas svc (ur_tenant_id q) data)) (\<lambda>reserved x.
      case store_and_insert svc file_id created q data x of
        (x', Inr f) \<Rightarrow> (x', Inr f)
      | (x', Inl e) \<Rightarrow> on_world_of (release_after svc (ur_tenant_id q) reserved e) x')))))"

text \<open>A batch: one upload after the other, with a fresh identifier each.\<close>

record batch_file =
  bf_file_name :: string
  bf_content_type :: string
  bf_data :: bytes
  bf_file_type :: string
  bf_expected_checksum :: "string option"

fun upload_batch ::
  "'s file_service \<Rightarrow> string list \<Rightarrow> instant \<Rightarrow> string \<Rightarrow> string \<Rightarrow> string \<Rightarrow> 's file_caller \<Rightarrow> batch_file list
    \<Rightarrow> ('s file_state, file_object list) state_op" where
  "upload_batch svc (i # ids) created tenant_id owner_type owner_id caller (b # bs) =
     sbind (upload_bytes svc i created \<lparr>ur_tenant_id = tenant_id, ur_owner_type = owner_type, ur_owner_id = owner_id,
         ur_file_name = bf_file_name b, ur_content_type = bf_content_type b, ur_file_type = bf_file_type b\<rparr>
         (bf_data b) (bf_expected_checksum b) caller) (\<lambda>f.
     sbind (upload_batch svc ids created tenant_id owner_type owner_id caller bs) (\<lambda>fs. sret (Inr (f # fs))))"
| "upload_batch svc ids created tenant_id owner_type owner_id caller bs = sret (Inr [])"

definition uploading_file ::
  "'s file_service \<Rightarrow> string \<Rightarrow> instant \<Rightarrow> upload_request \<Rightarrow> string \<times> string \<Rightarrow> int \<Rightarrow> string option \<Rightarrow> file_object" where
  "uploading_file svc file_id created q normalized expected_size expected_checksum =
    \<lparr>fo_id = file_id, fo_tenant_id = ur_tenant_id q, fo_owner_type = ur_owner_type q, fo_owner_id = ur_owner_id q,
     fo_bucket = sg_bucket (fs_storage svc), fo_object_key = file_object_key (ur_tenant_id q) file_id,
     fo_file_name = fst normalized, fo_content_type = snd normalized, fo_size = expected_size,
     fo_checksum = (case expected_checksum of None \<Rightarrow> [] | Some c \<Rightarrow> c), fo_file_type = ur_file_type q,
     fo_status = File_Uploading, fo_version = 1, fo_created_at = created, fo_deleted_at = None\<rparr>"

definition create_uploading_file ::
  "'s file_service \<Rightarrow> string \<Rightarrow> instant \<Rightarrow> upload_request \<Rightarrow> int \<Rightarrow> int \<Rightarrow> string option \<Rightarrow> 's file_caller
    \<Rightarrow> ('s file_state, file_object) state_op" where
  "create_uploading_file svc file_id created q expected_size expires_seconds expected_checksum caller =
    sbind (require_file_permission Upload_File (ur_tenant_id q) (Some (ur_owner_id q)) caller) (\<lambda>_.
    sbind (require_resource_access svc None Upload_File (ur_tenant_id q) (ur_owner_type q) (ur_owner_id q) caller) (\<lambda>_.
    sbind (sret (validate_upload_metadata svc q expected_size expires_seconds)) (\<lambda>normalized x.
      let f = uploading_file svc file_id created q normalized expected_size expected_checksum in
      case insert_file f (fst x) of
        Inl e \<Rightarrow> (x, Inl e)
      | Inr files \<Rightarrow> ((files, snd x), Inr f))))"

definition create_presigned_upload ::
  "'s file_service \<Rightarrow> string \<Rightarrow> instant \<Rightarrow> upload_request \<Rightarrow> int \<Rightarrow> int \<Rightarrow> string option \<Rightarrow> 's file_caller
    \<Rightarrow> ('s file_state, file_object \<times> string) state_op" where
  "create_presigned_upload svc file_id created q expected_size expires_seconds expected_checksum caller =
    sbind (create_uploading_file svc file_id created q expected_size expires_seconds expected_checksum caller) (\<lambda>f.
    sbind (on_world_of (sg_upload_url (fs_storage svc) (fo_object_key f) (fo_content_type f) expires_seconds)) (\<lambda>url.
      sret (Inr (f, url))))"

fun part_urls :: "'s storage \<Rightarrow> string \<Rightarrow> string \<Rightarrow> int \<Rightarrow> int list \<Rightarrow> ('s, (int \<times> string) list) state_op" where
  "part_urls st key upload_id expires [] = sret (Inr [])"
| "part_urls st key upload_id expires (n # ns) =
     sbind (sg_part_url st key upload_id n expires) (\<lambda>url.
     sbind (part_urls st key upload_id expires ns) (\<lambda>rest. sret (Inr ((n, url) # rest))))"

definition initiate_multipart_upload ::
  "'s file_service \<Rightarrow> string \<Rightarrow> instant \<Rightarrow> upload_request \<Rightarrow> int \<Rightarrow> int \<Rightarrow> int \<Rightarrow> string option \<Rightarrow> 's file_caller
    \<Rightarrow> ('s file_state, file_object \<times> string \<times> (int \<times> string) list) state_op" where
  "initiate_multipart_upload svc file_id created q expected_size part_count expires_seconds expected_checksum caller =
    (if part_count \<le> 0 then sret (Inl (validation_error ''part_count must be greater than zero''))
     else
       sbind (create_uploading_file svc file_id created q expected_size expires_seconds expected_checksum caller) (\<lambda>f.
       sbind (on_world_of (sg_create_multipart (fs_storage svc) (fo_object_key f) (fo_content_type f))) (\<lambda>upload_id.
       sbind (on_world_of (part_urls (fs_storage svc) (fo_object_key f) upload_id expires_seconds [1..part_count])) (\<lambda>parts.
         sret (Inr (f, upload_id, parts))))))"

section \<open>Loading and changing rows\<close>

definition load_file :: "file_status \<Rightarrow> string \<Rightarrow> ('s file_state, file_object) state_op" where
  "load_file status file_id x =
    (x, case find (\<lambda>f. fo_id f = file_id) (fst x) of
       None \<Rightarrow> Inl (app_error ''NOT_FOUND'' (''FileObject '' @ repr_str file_id @ '' not found'') (Some 404) [])
     | Some f \<Rightarrow> if fo_status f \<noteq> status
         then Inl (app_error ''NOT_FOUND'' (''FileObject '' @ repr_str file_id @ '' not found'') (Some 404) [])
         else Inr f)"

definition put_file_row :: "file_object \<Rightarrow> file_object list \<Rightarrow> file_object list" where
  "put_file_row f files = map (\<lambda>g. if fo_id g = fo_id f then f else g) files"

definition completed_file :: "stored_object \<Rightarrow> file_object \<Rightarrow> file_object" where
  "completed_file stored f =
     f\<lparr>fo_bucket := so_bucket stored, fo_object_key := so_object_key stored, fo_size := so_size stored,
       fo_checksum := so_checksum stored, fo_status := File_Available, fo_version := fo_version f + 1\<rparr>"

definition check_etag :: "upload_part \<Rightarrow> unit result" where
  "check_etag p = (if blank (pt_etag p) then Inl (validation_error ''multipart part etag is required'') else Inr ())"

definition complete_multipart_upload ::
  "'s file_service \<Rightarrow> string \<Rightarrow> string \<Rightarrow> string \<Rightarrow> upload_part list \<Rightarrow> 's file_caller \<Rightarrow> ('s file_state, file_object) state_op" where
  "complete_multipart_upload svc file_id tenant_id upload_id parts caller =
    (if parts = [] then sret (Inl no_parts)
     else
       sbind (sret (check_all check_etag parts)) (\<lambda>_.
       sbind (load_file File_Uploading file_id) (\<lambda>f.
       sbind (require_resource_access svc (Some f) Upload_File tenant_id (fo_owner_type f) (fo_owner_id f) caller) (\<lambda>_.
       sbind (require_file_permission Upload_File tenant_id (Some (fo_id f)) caller) (\<lambda>_.
       sbind (on_world_of (sg_complete_multipart (fs_storage svc) (fo_object_key f) upload_id parts)) (\<lambda>stored x.
         ((put_file_row (completed_file stored f) (fst x), snd x), Inr (completed_file stored f))))))))"

section \<open>Reading\<close>

definition file_order :: "file_object \<Rightarrow> int \<times> string \<times> string" where
  "file_order f = (fo_created_at f, fo_file_name f, fo_id f)"

definition list_files ::
  "'s file_service \<Rightarrow> string \<Rightarrow> string \<Rightarrow> string \<Rightarrow> string \<Rightarrow> 's file_caller \<Rightarrow> ('s file_state, file_object list) state_op" where
  "list_files svc tenant_id owner_type owner_id status caller =
    sbind (require_resource_access svc None Download_File tenant_id owner_type owner_id caller) (\<lambda>_.
    sbind (require_file_permission Download_File tenant_id (Some owner_id) caller) (\<lambda>_ x.
      (x, Inr (sort_key file_order (filter (\<lambda>f. fo_tenant_id f = tenant_id \<and> fo_owner_type f = owner_type \<and>
         fo_owner_id f = owner_id \<and> file_status_name (fo_status f) = status) (fst x))))))"

definition get_file_object ::
  "'s file_service \<Rightarrow> string \<Rightarrow> string \<Rightarrow> 's file_caller \<Rightarrow> ('s file_state, file_object) state_op" where
  "get_file_object svc file_id tenant_id caller =
    sbind (load_file File_Available file_id) (\<lambda>f.
    sbind (require_resource_access svc (Some f) Download_File tenant_id (fo_owner_type f) (fo_owner_id f) caller) (\<lambda>_.
    sbind (require_file_permission Download_File tenant_id (Some (fo_id f)) caller) (\<lambda>_.
      sret (Inr f))))"

record file_download =
  fd_file_id :: string
  fd_file_name :: string
  fd_content_type :: string
  fd_checksum :: string
  fd_size :: int
  fd_data :: bytes

definition check_download_allowed :: "'s file_service \<Rightarrow> string \<Rightarrow> tenant_status \<Rightarrow> unit result" where
  "check_download_allowed svc tenant_id status =
     assert_tenant_operation_allowed tenant_id status File_Download (fs_lifecycle_policy svc)"

definition download_bytes ::
  "'s file_service \<Rightarrow> string \<Rightarrow> string \<Rightarrow> string \<Rightarrow> string \<Rightarrow> tenant_status \<Rightarrow> 's file_caller \<Rightarrow> ('s file_state, file_download) state_op" where
  "download_bytes svc file_id tenant_id owner_type owner_id status caller =
    sbind (sret (check_download_allowed svc tenant_id status)) (\<lambda>_.
    sbind (load_file File_Available file_id) (\<lambda>f.
    sbind (require_resource_access svc (Some f) Download_File tenant_id owner_type owner_id caller) (\<lambda>_.
    sbind (require_file_permission Download_File tenant_id (Some (fo_id f)) caller) (\<lambda>_.
    sbind (on_world_of (sg_get (fs_storage svc) (fo_object_key f))) (\<lambda>data.
      sret (Inr \<lparr>fd_file_id = fo_id f, fd_file_name = fo_file_name f, fd_content_type = fo_content_type f,
        fd_checksum = fo_checksum f, fd_size = fo_size f, fd_data = data\<rparr>))))))"

definition create_presigned_download ::
  "'s file_service \<Rightarrow> string \<Rightarrow> string \<Rightarrow> int \<Rightarrow> tenant_status \<Rightarrow> 's file_caller
    \<Rightarrow> ('s file_state, file_object \<times> string) state_op" where
  "create_presigned_download svc file_id tenant_id expires_seconds status caller =
    sbind (sret (check_download_allowed svc tenant_id status)) (\<lambda>_.
    if expires_seconds \<le> 0 then sret (Inl (validation_error ''expires_seconds must be greater than zero''))
    else
      sbind (get_file_object svc file_id tenant_id caller) (\<lambda>f.
      sbind (on_world_of (sg_download_url (fs_storage svc) (fo_object_key f) expires_seconds)) (\<lambda>url.
        sret (Inr (f, url)))))"

section \<open>Deletion and purge\<close>

definition deleted_file :: "instant \<Rightarrow> file_object \<Rightarrow> file_object" where
  "deleted_file now f = f\<lparr>fo_status := File_Deleted, fo_deleted_at := Some now, fo_version := fo_version f + 1\<rparr>"

text \<open>The storage is called before the flush: when it raises, the row is not written.\<close>

definition delete_file ::
  "'s file_service \<Rightarrow> string \<Rightarrow> string \<Rightarrow> string \<Rightarrow> string \<Rightarrow> datetime \<Rightarrow> 's file_caller \<Rightarrow> ('s file_state, unit) state_op" where
  "delete_file svc file_id tenant_id owner_type owner_id now caller =
    sbind (load_file File_Available file_id) (\<lambda>f.
    sbind (require_resource_access svc (Some f) Delete_File tenant_id owner_type owner_id caller) (\<lambda>_.
    sbind (require_file_permission Delete_File tenant_id (Some (fo_id f)) caller) (\<lambda>_.
    sbind (if fs_retention_seconds svc = 0 then on_world_of (sg_delete (fs_storage svc) (fo_object_key f)) else sret (Inr ())) (\<lambda>_ x.
      ((put_file_row (deleted_file (to_utc now) f) (fst x), snd x), Inr ())))))"

definition purged_file :: "file_object \<Rightarrow> file_object" where
  "purged_file f = f\<lparr>fo_status := File_Purged, fo_version := fo_version f + 1\<rparr>"

definition purgeable :: "string \<Rightarrow> instant \<Rightarrow> file_object \<Rightarrow> bool" where
  "purgeable tenant_id cutoff f \<longleftrightarrow> fo_tenant_id f = tenant_id \<and> fo_status f = File_Deleted \<and>
     when_some (fo_deleted_at f) (\<lambda>t. t \<le> cutoff)"

fun purge_storage :: "'s storage \<Rightarrow> file_object list \<Rightarrow> ('s, unit) state_op" where
  "purge_storage st [] = sret (Inr ())"
| "purge_storage st (f # fs) = sbind (sg_delete st (fo_object_key f)) (\<lambda>_. purge_storage st fs)"

text \<open>The rows are flushed after the loop, so a storage that raises leaves them all deleted.\<close>

definition purge_deleted_files ::
  "'s file_service \<Rightarrow> string \<Rightarrow> tenant_status \<Rightarrow> datetime \<Rightarrow> ('s file_state, nat) state_op" where
  "purge_deleted_files svc tenant_id status now =
    sbind (sret (assert_tenant_operation_allowed tenant_id status Background_Cleanup (fs_lifecycle_policy svc))) (\<lambda>_ x.
      let cutoff = to_utc now - secs (fs_retention_seconds svc);
          rows = filter (purgeable tenant_id cutoff) (fst x) in
      sbind (on_world_of (purge_storage (fs_storage svc) rows)) (\<lambda>_ x.
        ((map (\<lambda>f. if purgeable tenant_id cutoff f then purged_file f else f) (fst x), snd x), Inr (length rows))) x)"

end
