(* ===== verification/File_Properties.thy ===== *)
theory File_Properties
  imports Files
begin

text \<open>
  The properties of the files app: what is uploaded is downloaded, a download needs the file's tenant
  and owner and a permission, a failed upload leaves no quota reserved; and the ways in which an
  upload escapes a limit.
\<close>

section \<open>Lemmas\<close>

lemma load_file_returns [returns]:
  "load_file status file_id x = (x', Inr f) \<longleftrightarrow>
     x' = x \<and> find (\<lambda>f. fo_id f = file_id) (fst x) = Some f \<and> fo_status f = status"
  by (auto simp: load_file_def split: option.splits if_splits)

lemma require_with_returns [returns]:
  "require_with missing msg action resource caller ask s = (s', Inr x) \<longleftrightarrow>
     (\<exists>require u. fc_authorization caller = Some require \<and> fc_user_id caller = Some u \<and> \<not> blank u \<and>
        ask require u s = (s', Inr x))"
  by (auto simp: require_with_def split: option.splits if_splits)

lemma find_by_id: "find (\<lambda>f. fo_id f = file_id) files = Some f \<Longrightarrow> f \<in> set files \<and> fo_id f = file_id"
  by (auto simp: find_Some_iff)

text \<open>An adapter that compares the tenant and the owner of a file with those named.\<close>

definition checks_owner :: "'s resource_adapter \<Rightarrow> bool" where
  "checks_owner adapter \<longleftrightarrow> (\<forall>f tenant_id owner_type owner_id action caller s s' x.
     adapter (Some f) tenant_id owner_type owner_id action caller s = (s', Inr x) \<longrightarrow>
     fo_tenant_id f = tenant_id \<and> fo_owner_type f = owner_type \<and> fo_owner_id f = owner_id)"

lemma assert_file_access_Inr:
  "assert_file_access f t ot oi = Inr x \<longleftrightarrow> fo_tenant_id f = t \<and> fo_owner_type f = ot \<and> fo_owner_id f = oi"
  by (simp add: assert_file_access_def)

lemma adapters_check_owner: "checks_owner owner_only_adapter" "checks_owner (authorization_adapter m)"
  unfolding checks_owner_def owner_only_adapter_def authorization_adapter_def
  by (simp_all add: returns assert_file_access_Inr)

lemma resource_access_checks:
  "checks_owner (fs_adapter svc) \<Longrightarrow>
   require_resource_access svc (Some f) action t ot oi caller x = (x', Inr y) \<Longrightarrow>
   fst x' = fst x \<and> fo_tenant_id f = t \<and> fo_owner_type f = ot \<and> fo_owner_id f = oi"
  unfolding require_resource_access_def checks_owner_def on_world_of_returns by (elim exE conjE, intro conjI) (simp, blast+)

text \<open>The authorization service has let the caller perform an action on a file.\<close>

definition file_granted :: "'s file_caller \<Rightarrow> string \<Rightarrow> file_action \<Rightarrow> string \<Rightarrow> bool" where
  "file_granted caller tenant_id action file_id \<longleftrightarrow>
     (\<exists>require u s s'. fc_authorization caller = Some require \<and> fc_user_id caller = Some u \<and> \<not> blank u \<and>
        require u tenant_id ''file'' (file_action_name action) (Some file_id) (fc_request_id caller) s = (s', Inr ()))"

lemma file_permission_granted:
  "require_file_permission action t (Some i) caller x = (x', Inr y) \<Longrightarrow> fst x' = fst x \<and> file_granted caller t action i"
  unfolding require_file_permission_def file_granted_def by (auto simp: returns)

lemma download_allowed [returns]:
  "check_download_allowed svc t status = Inr y \<longleftrightarrow>
     is_tenant_operation_allowed status File_Download (fs_lifecycle_policy svc)"
  by (simp add: check_download_allowed_def assert_tenant_operation_allowed_def)

section \<open>Downloads\<close>

definition readable_file :: "'s file_service \<Rightarrow> string \<Rightarrow> string \<Rightarrow> tenant_status \<Rightarrow> 's file_caller \<Rightarrow> file_object \<Rightarrow> bool" where
  "readable_file svc file_id tenant_id status caller f \<longleftrightarrow>
     is_tenant_operation_allowed status File_Download (fs_lifecycle_policy svc) \<and>
     fo_id f = file_id \<and> fo_status f = File_Available \<and> fo_tenant_id f = tenant_id \<and>
     file_granted caller tenant_id Download_File file_id"

lemma download_bytes_readable:
  assumes "checks_owner (fs_adapter svc)"
    and "download_bytes svc file_id tenant_id owner_type owner_id status caller x = (x', Inr d)"
  shows "\<exists>f \<in> set (fst x). readable_file svc file_id tenant_id status caller f \<and> fo_owner_type f = owner_type \<and>
    fo_owner_id f = owner_id \<and> fd_checksum d = fo_checksum f \<and> fd_size d = fo_size f"
  using assms(2) unfolding download_bytes_def sbind_returns load_file_returns readable_file_def
  by (auto simp: returns dest!: find_by_id resource_access_checks [OF assms(1)] file_permission_granted)

lemma presigned_download_readable:
  assumes "checks_owner (fs_adapter svc)"
    and "create_presigned_download svc file_id tenant_id expires status caller x = (x', Inr p)"
  shows "\<exists>f \<in> set (fst x). readable_file svc file_id tenant_id status caller f \<and> fst p = f \<and> 0 < expires"
proof -
  from assms(2) have "0 < expires" unfolding create_presigned_download_def sbind_returns by (auto split: if_splits)
  then show ?thesis
    using assms(2)
    unfolding create_presigned_download_def get_file_object_def sbind_returns load_file_returns readable_file_def
    by (auto simp: returns dest!: find_by_id resource_access_checks [OF assms(1)] file_permission_granted)
qed

text \<open>C17: A download needs everything: when \<open>download_bytes\<close> or \<open>create_presigned_download\<close> returns, with an
  adapter that compares tenants and owners, as both adapters do, the tenant's status allows
  downloads, the file is available and belongs to that tenant (and, for the bytes, to the owner that
  was named), there is a user, and the authorization service has granted that user
  \<open>file:download\<close> in the tenant for this file.
\<close>

theorem download_needs_owner_and_permission:
  assumes "checks_owner (fs_adapter svc)"
    and "download_bytes svc file_id tenant_id owner_type owner_id status caller x = (x', Inr d) \<or>
      create_presigned_download svc file_id tenant_id expires status caller x = (x', Inr p)"
  shows "\<exists>f \<in> set (fst x). readable_file svc file_id tenant_id status caller f \<and>
      (download_bytes svc file_id tenant_id owner_type owner_id status caller x = (x', Inr d) \<longrightarrow>
         fo_owner_type f = owner_type \<and> fo_owner_id f = owner_id)"
proof (cases "download_bytes svc file_id tenant_id owner_type owner_id status caller x = (x', Inr d)")
  case True
  with download_bytes_readable [OF assms(1) True] show ?thesis by blast
next
  case False
  with assms(2) presigned_download_readable [OF assms(1)] show ?thesis by blast
qed

section \<open>Uploads\<close>

lemma find_appended: "\<forall>y \<in> set xs. \<not> P y \<Longrightarrow> P z \<Longrightarrow> find P (xs @ [z]) = Some z"
  by (induction xs) auto

lemma release_never_returns [simp]:
  "release_then_raise quota t r e s \<noteq> (s', Inr v)" "release_after svc t r e s \<noteq> (s', Inr v)"
  by (auto simp: release_then_raise_def release_after_def returns split: option.splits)

lemma store_and_insert_returns:
  assumes "store_and_insert svc i created q data x = (x', Inr f)"
  obtains so where "sg_put (fs_storage svc) (file_object_key (ur_tenant_id q) i) data (snd x) = (snd x', Inr so)"
    and "f = stored_file i created q so" and "insert_file f (fst x) = Inr (fst x')"
proof -
  from assms obtain s so where put: "sg_put (fs_storage svc) (file_object_key (ur_tenant_id q) i) data (snd x) = (s, Inr so)"
    and rest: "(case insert_file (stored_file i created q so) (fst x) of Inl e \<Rightarrow> ((fst x, s), Inl e)
      | Inr files \<Rightarrow> ((files, snd (fst x, s)), Inr (stored_file i created q so))) = (x', Inr f)"
    unfolding store_and_insert_def sbind_returns on_world_of_returns by (auto simp: Let_def)
  then show thesis using that by (cases "insert_file (stored_file i created q so) (fst x)") auto
qed

lemma insert_file_returns:
  assumes "insert_file f files = Inr files'"
  shows "fo_id f \<notin> fo_id ` set files" "fo_object_key f \<notin> fo_object_key ` set files" "files' = files @ [f]"
proof -
  from assms have "\<forall>g \<in> set files. fo_id g \<noteq> fo_id f \<and> fo_object_key g \<noteq> fo_object_key f" "files' = files @ [f]"
    by (auto simp: insert_file_def list_ex_iff split: if_splits)
  then show "fo_id f \<notin> fo_id ` set files" "fo_object_key f \<notin> fo_object_key ` set files" "files' = files @ [f]"
    by (metis imageE)+
qed

lemma scan_keeps_files: "scan_upload svc t v data x = (x', r) \<Longrightarrow> fst x' = fst x"
  unfolding scan_upload_def sbind_def by (auto simp: on_world_of_def split: prod.splits sum.splits)

lemma upload_bytes_returns:
  assumes "upload_bytes svc i created q data expected caller x = (x', Inr f)"
  obtains s so v where "sg_put (fs_storage svc) (file_object_key (ur_tenant_id q) i) data s = (snd x', Inr so)"
    and "f = stored_file i created q so" and "fst x' = fst x @ [f]" and "i \<notin> fo_id ` set (fst x)"
    and "validate_upload_bytes svc q data expected = Inr v"
proof -
  from assms obtain x1 x2 x3 x4 r v where a: "fst x1 = fst x"
    and b: "require_resource_access svc None Upload_File (ur_tenant_id q) (ur_owner_type q) (ur_owner_id q) caller x1 = (x2, Inr ())"
    and v: "validate_upload_bytes svc q data expected = Inr v"
    and c: "scan_upload svc (ur_tenant_id q) v data x2 = (x3, Inr ())"
    and d: "on_world_of (reserve_upload_quotas svc (ur_tenant_id q) data) x3 = (x4, Inr r)"
    and rest: "(case store_and_insert svc i created q data x4 of (x', Inr f) \<Rightarrow> (x', Inr f)
      | (x', Inl e) \<Rightarrow> on_world_of (release_after svc (ur_tenant_id q) r e) x') = (x', Inr f)"
    unfolding upload_bytes_def sbind_returns sret_apply by (auto dest!: file_permission_granted)
  from rest have e: "store_and_insert svc i created q data x4 = (x', Inr f)"
    by (cases "store_and_insert svc i created q data x4" rule: prod.exhaust; cases "snd (store_and_insert svc i created q data x4)")
      (auto simp: on_world_of_returns)
  from b have "fst x2 = fst x1" unfolding require_resource_access_def on_world_of_returns by auto
  moreover from d have "fst x4 = fst x3" unfolding on_world_of_returns by auto
  ultimately have "fst x4 = fst x" using a scan_keeps_files [OF c] by simp
  moreover from e obtain so where put: "sg_put (fs_storage svc) (file_object_key (ur_tenant_id q) i) data (snd x4) = (snd x', Inr so)"
    and f: "f = stored_file i created q so" and ins: "insert_file f (fst x4) = Inr (fst x')"
    by (rule store_and_insert_returns)
  moreover have "fo_id f = i" by (simp add: f stored_file_def)
  ultimately show thesis using insert_file_returns [OF ins] v by (intro that) simp_all
qed

text \<open>A storage that returns what it was given: the object that was put is read back, under its key.\<close>

definition stores :: "(bytes \<Rightarrow> string) \<Rightarrow> 's storage \<Rightarrow> bool" where
  "stores sha st \<longleftrightarrow> (\<forall>key data s s' so. sg_put st key data s = (s', Inr so) \<longrightarrow>
     sg_get st key s' = (s', Inr data) \<and> so_object_key so = key \<and> so_checksum so = sha data \<and>
     so_size so = int (length data))"

lemma local_storage_stores: "stores sha (local_storage sha quote fresh bucket)"
  unfolding stores_def local_storage_def by (auto dest: local_put_get)

text \<open>Who may download without a change of the world.\<close>

definition may_download :: "'s file_caller \<Rightarrow> string \<Rightarrow> string \<Rightarrow> bool" where
  "may_download caller tenant_id file_id \<longleftrightarrow>
     (\<exists>require u. fc_authorization caller = Some require \<and> fc_user_id caller = Some u \<and> \<not> blank u \<and>
        (\<forall>s. require u tenant_id ''file'' ''download'' (Some file_id) (fc_request_id caller) s = (s, Inr ())))"

lemma may_download_permission:
  "may_download caller t i \<Longrightarrow> require_file_permission Download_File t (Some i) caller x = (x, Inr ())"
  unfolding may_download_def require_file_permission_def on_world_of_def require_with_def by auto

text \<open>C18: Round trip of the bytes: once an upload has returned, over a storage that returns what it was given,
  such as the local provider, whoever may download the file in its tenant and names its owner gets
  exactly the bytes that were uploaded, with their length, their checksum, and the name and content
  type as the uploader wrote them.
\<close>

theorem uploaded_bytes_are_downloaded:
  assumes "stores (fs_sha svc) (fs_storage svc)" and "fs_adapter svc = owner_only_adapter"
    and "upload_bytes svc file_id created q data expected uploader x = (x', Inr f)"
    and "may_download caller (ur_tenant_id q) file_id"
    and "is_tenant_operation_allowed status File_Download (fs_lifecycle_policy svc)"
  shows "download_bytes svc file_id (ur_tenant_id q) (ur_owner_type q) (ur_owner_id q) status caller x' =
    (x', Inr \<lparr>fd_file_id = file_id, fd_file_name = ur_file_name q, fd_content_type = ur_content_type q,
       fd_checksum = fs_sha svc data, fd_size = int (length data), fd_data = data\<rparr>)"
proof -
  from upload_bytes_returns [OF assms(3)] obtain s so
    where put: "sg_put (fs_storage svc) (file_object_key (ur_tenant_id q) file_id) data s = (snd x', Inr so)"
      and f: "f = stored_file file_id created q so" and rows: "fst x' = fst x @ [f]" and new: "file_id \<notin> fo_id ` set (fst x)"
    by blast
  have so: "so_object_key so = file_object_key (ur_tenant_id q) file_id" "so_checksum so = fs_sha svc data"
      "so_size so = int (length data)"
    and get: "sg_get (fs_storage svc) (so_object_key so) (snd x') = (snd x', Inr data)"
    using assms(1) put unfolding stores_def by simp_all
  have "find (\<lambda>g. fo_id g = file_id) (fst x @ [f]) = Some f"
    by (rule find_appended) (use new in \<open>auto simp: f stored_file_def\<close>)
  then have load: "load_file File_Available file_id x' = (x', Inr f)"
    unfolding load_file_returns rows by (simp add: f stored_file_def)
  have access: "require_resource_access svc (Some f) Download_File (ur_tenant_id q) (ur_owner_type q) (ur_owner_id q) caller x' = (x', Inr ())"
    by (simp add: require_resource_access_def assms(2) owner_only_adapter_def on_world_of_def assert_file_access_def f stored_file_def)
  have world: "on_world_of (sg_get (fs_storage svc) (fo_object_key f)) x' = (x', Inr data)"
    using get by (simp add: on_world_of_def f stored_file_def)
  have allowed: "check_download_allowed svc (ur_tenant_id q) status = Inr ()" using assms(5) by (simp add: returns)
  have id: "fo_id f = file_id" by (simp add: f stored_file_def)
  show ?thesis
    using may_download_permission [OF assms(4)]
    by (simp add: download_bytes_def allowed sbind_def load access id world)
      (simp add: f stored_file_def so)
qed

section \<open>Quota accounting\<close>

text \<open>
  A quota service that counts: the usage read off the world by \<open>used\<close> grows by the amount of a
  reservation that succeeds, keeps its value when one raises, and shrinks by the amount released; a
  release does not raise.
\<close>

type_synonym usage_view = "quota_rule \<Rightarrow> string \<Rightarrow> int"

definition charged :: "usage_view \<Rightarrow> string \<Rightarrow> (quota_rule \<times> int) list \<Rightarrow> usage_view" where
  "charged u tenant_id rs = (\<lambda>rule t. u rule t +
     (if t = tenant_id then sum_list (map snd (filter (\<lambda>p. fst p = rule) rs)) else 0))"

definition refunded :: "usage_view \<Rightarrow> string \<Rightarrow> (quota_rule \<times> int) list \<Rightarrow> usage_view" where
  "refunded u tenant_id rs = (\<lambda>rule t. u rule t -
     (if t = tenant_id then sum_list (map snd (filter (\<lambda>p. fst p = rule) rs)) else 0))"

definition quota_counts :: "('s \<Rightarrow> usage_view) \<Rightarrow> 's upload_quota \<Rightarrow> bool" where
  "quota_counts used quota \<longleftrightarrow>
     (\<forall>rule t n s s' e. uq_reserve quota rule t n s = (s', Inl e) \<longrightarrow> used s' = used s) \<and>
     (\<forall>rule t n s s'. uq_reserve quota rule t n s = (s', Inr ()) \<longrightarrow> used s' = charged (used s) t [(rule, n)]) \<and>
     (\<forall>rule t n s. \<exists>s'. uq_release quota rule t n s = (s', Inr ()) \<and> used s' = refunded (used s) t [(rule, n)])"

definition keeps_usage :: "('s \<Rightarrow> usage_view) \<Rightarrow> ('s, 'a) state_op \<Rightarrow> bool" where
  "keeps_usage used f \<longleftrightarrow> (\<forall>s. used (fst (f s)) = used s)"

lemma keeps_usageD: "keeps_usage used f \<Longrightarrow> f s = (s', r) \<Longrightarrow> used s' = used s"
  unfolding keeps_usage_def by (metis fst_conv)

lemma charged_Cons: "charged (charged u t [(r, n)]) t rs = charged u t ((r, n) # rs)"
  by (simp add: charged_def fun_eq_iff)

lemma charged_append: "charged (charged u t rs) t rs' = charged u t (rs @ rs')"
  by (simp add: charged_def fun_eq_iff)

lemma refunded_Cons: "refunded (refunded u t [(r, n)]) t rs = refunded u t ((r, n) # rs)"
  by (simp add: refunded_def fun_eq_iff)

lemma refunded_rev [simp]: "refunded u t (rev rs) = refunded u t rs"
  unfolding refunded_def by (simp only: rev_filter [symmetric] rev_map [symmetric] sum_list.rev)

lemma refunded_charged [simp]: "refunded (charged u t rs) t rs = u"
  by (simp add: charged_def refunded_def fun_eq_iff)

lemma charged_Nil [simp]: "charged u t [] = u"
  by (simp add: charged_def fun_eq_iff)

lemma refunded_Nil [simp]: "refunded u t [] = u"
  by (simp add: refunded_def fun_eq_iff)

lemma release_uploads_refunds:
  assumes "quota_counts used quota"
  shows "\<exists>s'. release_uploads quota t rs s = (s', Inr ()) \<and> used s' = refunded (used s) t rs"
proof (induction rs arbitrary: s)
  case Nil
  then show ?case by simp
next
  case (Cons p rs)
  obtain rule n where p: "p = (rule, n)" by (cases p)
  from assms obtain s1 where one: "uq_release quota rule t n s = (s1, Inr ())" "used s1 = refunded (used s) t [(rule, n)]"
    unfolding quota_counts_def by blast
  with Cons.IH [of s1] show ?case by (auto simp: p sbind_Inr refunded_Cons)
qed

lemma release_then_raise_refunds:
  assumes "quota_counts used quota"
  shows "\<exists>s'. release_then_raise quota t rs e s = (s', Inl e) \<and> used s' = refunded (used s) t rs"
  using release_uploads_refunds [OF assms, of t "rev rs" s]
  by (auto simp: release_then_raise_def sbind_Inr)

lemma reserve_uploads_usage:
  fixes s :: 's
  assumes "quota_counts used quota" and "used s = charged u t reserved"
    and "reserve_uploads quota t data reserved rules s = (s', r)"
  shows "case r of Inl e \<Rightarrow> used s' = u
    | Inr rs \<Rightarrow> rs = reserved @ map (\<lambda>rule. (rule, upload_amount data rule)) rules \<and> used s' = charged u t rs"
  using assms(2,3)
proof (induction rules arbitrary: reserved s)
  case Nil
  then show ?case by auto
next
  case (Cons rule rules)
  obtain s1 r1 where res: "uq_reserve quota rule t (upload_amount data rule) s = (s1, r1)" by fastforce
  show ?case
  proof (cases r1)
    case (Inl e)
    with assms(1) res have "used s1 = used s" unfolding quota_counts_def by blast
    moreover obtain s2 where "release_then_raise quota t reserved e s1 = (s2 :: 's, Inl e :: (quota_rule \<times> int) list result)" "used s2 = refunded (used s1) t reserved"
      using release_then_raise_refunds [OF assms(1)] by blast
    ultimately show ?thesis using Cons.prems res Inl by auto
  next
    case (Inr v)
    with assms(1) res have "used s1 = charged (used s) t [(rule, upload_amount data rule)]"
      unfolding quota_counts_def by (metis (full_types) old.unit.exhaust)
    then have "used s1 = charged u t (reserved @ [(rule, upload_amount data rule)])"
      using Cons.prems(1) by (simp add: charged_append)
    from Cons.IH [OF this] Cons.prems(2) res Inr show ?thesis by (auto split: sum.splits)
  qed
qed

text \<open>The parts of an upload that are not the quota service leave the usage alone.\<close>

definition upload_parts_keep_usage :: "('s \<Rightarrow> usage_view) \<Rightarrow> 's file_service \<Rightarrow> 's file_caller \<Rightarrow> bool" where
  "upload_parts_keep_usage used svc caller \<longleftrightarrow>
     (\<forall>t ot oi a. keeps_usage used (fs_adapter svc None t ot oi a caller)) \<and>
     (\<forall>t n c d k. keeps_usage used (fs_scan svc t n c d k)) \<and>
     (\<forall>k d. keeps_usage used (sg_put (fs_storage svc) k d)) \<and>
     (\<forall>require u t a b i r. fc_authorization caller = Some require \<longrightarrow> keeps_usage used (require u t a b i r))"

lemma world_keeps: "keeps_usage used f \<Longrightarrow> on_world_of f x = (x', r) \<Longrightarrow> used (snd x') = used (snd x)"
  unfolding on_world_of_def by (auto dest: keeps_usageD split: prod.splits)

lemma keeps_usage_sbind:
  "keeps_usage used f \<Longrightarrow> (\<And>v. keeps_usage used (g v)) \<Longrightarrow> keeps_usage used (sbind f g)"
  unfolding keeps_usage_def sbind_def by (auto split: prod.split sum.split) (metis fst_conv)+

lemma keeps_usage_sret [simp]: "keeps_usage used (sret r)"
  by (simp add: keeps_usage_def)

lemma store_and_insert_keeps:
  assumes "\<forall>k d. keeps_usage used (sg_put (fs_storage svc) k d)"
    and "store_and_insert svc i created q data x = (x', r)"
  shows "used (snd x') = used (snd x)"
proof -
  note step = assms(2) [unfolded store_and_insert_def]
  show ?thesis
    using step
  proof (cases rule: sbindE)
    case raises
    with assms(1) world_keeps show ?thesis by blast
  next
    case (goes_on s1 so)
    then have "used (snd s1) = used (snd x)" using assms(1) world_keeps by blast
    with goes_on(2) show ?thesis
      by (cases "insert_file (stored_file i created q so) (fst s1)") (auto simp: Let_def)
  qed
qed

lemma upload_parts_usage:
  assumes "upload_parts_keep_usage used svc caller"
  shows "require_file_permission Upload_File t i caller x = (x', r) \<Longrightarrow> used (snd x') = used (snd x)"
    and "require_resource_access svc None Upload_File t ot oi caller x = (x', r) \<Longrightarrow> used (snd x') = used (snd x)"
    and "scan_upload svc t v data x = (x', r) \<Longrightarrow> used (snd x') = used (snd x)"
    and "store_and_insert svc i' created q data x = (x', r') \<Longrightarrow> used (snd x') = used (snd x)"
proof -
  note parts = assms [unfolded upload_parts_keep_usage_def]
  have "keeps_usage used (require_with m n a b caller (\<lambda>require u. require u t c d i (fc_request_id caller)))" for m n a b c d
    using parts unfolding require_with_def by (auto split: option.split)
  then show "require_file_permission Upload_File t i caller x = (x', r) \<Longrightarrow> used (snd x') = used (snd x)"
    unfolding require_file_permission_def by (rule world_keeps)
  show "require_resource_access svc None Upload_File t ot oi caller x = (x', r) \<Longrightarrow> used (snd x') = used (snd x)"
    unfolding require_resource_access_def using parts by (elim world_keeps [rotated]) blast
  show "store_and_insert svc i' created q data x = (x', r') \<Longrightarrow> used (snd x') = used (snd x)"
    using parts by (elim store_and_insert_keeps [rotated]) blast
  have scan: "keeps_usage used (fs_scan svc t n c d k)" for n c d k using parts by blast
  show "used (snd x') = used (snd x)" if "scan_upload svc t v data x = (x', r)"
    using that [unfolded scan_upload_def]
  proof (cases rule: sbindE)
    case raises
    then show ?thesis using world_keeps [OF scan] by blast
  next
    case (goes_on s1 v)
    then show ?thesis using world_keeps [OF scan goes_on(1)] by auto
  qed
qed

text \<open>The last part of an upload: the reservations, then the storage and the row.\<close>

definition charged_upload ::
  "'s file_service \<Rightarrow> string \<Rightarrow> instant \<Rightarrow> upload_request \<Rightarrow> bytes \<Rightarrow> ('s file_state, file_object) state_op" where
  "charged_upload svc i created q data =
    sbind (on_world_of (reserve_upload_quotas svc (ur_tenant_id q) data)) (\<lambda>reserved x.
      case store_and_insert svc i created q data x of
        (x', Inr f) \<Rightarrow> (x', Inr f)
      | (x', Inl e) \<Rightarrow> on_world_of (release_after svc (ur_tenant_id q) reserved e) x')"

lemma reserve_upload_quotas_usage:
  assumes "fs_quota_service svc = Some quota" and "quota_counts used quota"
    and "reserve_upload_quotas svc t data s = (s', r)"
  shows "case r of Inl e \<Rightarrow> used s' = used s
    | Inr rs \<Rightarrow> rs = map (\<lambda>rule. (rule, upload_amount data rule)) (fs_quota_rules svc) \<and> used s' = charged (used s) t rs"
proof (cases "fs_quota_rules svc = []")
  case True
  with assms(3) show ?thesis by (auto simp: reserve_upload_quotas_def)
next
  case False
  with assms(1,3) have "reserve_uploads quota t data [] (fs_quota_rules svc) s = (s', r)"
    by (simp add: reserve_upload_quotas_def)
  from reserve_uploads_usage [OF assms(2) _ this, of "used s"] show ?thesis by (auto split: sum.splits)
qed

lemma charged_upload_usage:
  assumes "fs_quota_service svc = Some quota" and "quota_counts used quota"
    and "upload_parts_keep_usage used svc caller"
    and "charged_upload svc i created q data x = (x', r)"
  shows "used (snd x') = (case r of Inl e \<Rightarrow> used (snd x)
    | Inr f \<Rightarrow> charged (used (snd x)) (ur_tenant_id q) (map (\<lambda>rule. (rule, upload_amount data rule)) (fs_quota_rules svc)))"
  using assms(4) [unfolded charged_upload_def]
proof (cases rule: sbindE)
  case (raises e)
  then have r: "reserve_upload_quotas svc (ur_tenant_id q) data (snd x) = (snd x', Inl e)"
    by (cases "reserve_upload_quotas svc (ur_tenant_id q) data (snd x)") (auto simp: on_world_of_def)
  from reserve_upload_quotas_usage [OF assms(1,2) r] raises(2) show ?thesis by simp
next
  case (goes_on x1 rs)
  then obtain s1 where "reserve_upload_quotas svc (ur_tenant_id q) data (snd x) = (s1, Inr rs)" "x1 = (fst x, s1)"
    unfolding on_world_of_returns by blast
  with reserve_upload_quotas_usage [OF assms(1,2)] have
    rs: "rs = map (\<lambda>rule. (rule, upload_amount data rule)) (fs_quota_rules svc)"
    and u1: "used (snd x1) = charged (used (snd x)) (ur_tenant_id q) rs" by fastforce+
  obtain x2 r2 where put: "store_and_insert svc i created q data x1 = (x2, r2)" by fastforce
  have u2: "used (snd x2) = used (snd x1)" using upload_parts_usage(4) [OF assms(3) put] .
  show ?thesis
  proof (cases r2)
    case (Inr f)
    with goes_on(2) put u1 u2 rs show ?thesis by auto
  next
    case (Inl e)
    obtain s3 where "release_then_raise quota (ur_tenant_id q) rs e (snd x2) = (s3, Inl e :: file_object result)"
      "used s3 = refunded (used (snd x2)) (ur_tenant_id q) rs" using release_then_raise_refunds [OF assms(2)] by blast
    with goes_on(2) put Inl u1 u2 assms(1) show ?thesis by (auto simp: on_world_of_def release_after_def)
  qed
qed


text \<open>The service with other limits.\<close>

definition with_limits ::
  "'s file_service \<Rightarrow> upload_policy \<Rightarrow> (string \<Rightarrow> string \<Rightarrow> string \<Rightarrow> bytes \<Rightarrow> string \<Rightarrow> ('s, scan_result) state_op) \<Rightarrow>
    's upload_quota option \<Rightarrow> quota_rule list \<Rightarrow> 's file_service" where
  "with_limits svc policy scan quota rules =
     svc\<lparr>fs_upload_policy := policy, fs_scan := scan, fs_quota_service := quota, fs_quota_rules := rules\<rparr>"

lemma completion_unchecked:
  "complete_multipart_upload (with_limits svc policy scan quota rules) = complete_multipart_upload svc"
  unfolding with_limits_def complete_multipart_upload_def [abs_def] require_resource_access_def by (simp cong: if_cong)

text \<open>A multipart upload escapes every check on its content. Completing one marks the file available with
  whatever size the storage reports, and returns the same result and the same world for any upload
  policy, scanner, quota service and quota rules: the declared size is not compared with the real one,
  nothing is scanned, no checksum is compared and no quota is charged.
\<close>

theorem multipart_upload_escapes_checks:
  assumes "complete_multipart_upload svc file_id tenant_id upload_id parts caller x = (x', Inr f)"
  shows "complete_multipart_upload (with_limits svc policy scan quota rules) file_id tenant_id upload_id parts caller x = (x', Inr f) \<and>
    (\<exists>so s. sg_complete_multipart (fs_storage svc) (fo_object_key (the (find (\<lambda>f. fo_id f = file_id) (fst x)))) upload_id parts s
      = (snd x', Inr so) \<and> fo_size f = so_size so \<and> fo_status f = File_Available \<and> f \<in> set (fst x'))"
proof
  show "complete_multipart_upload (with_limits svc policy scan quota rules) file_id tenant_id upload_id parts caller x = (x', Inr f)"
    using assms by (simp add: completion_unchecked)
  have "parts \<noteq> []" using assms by (auto simp: complete_multipart_upload_def)
  from assms obtain g x2 x3 s so where g: "find (\<lambda>f. fo_id f = file_id) (fst x) = Some g"
    and "require_resource_access svc (Some g) Upload_File tenant_id (fo_owner_type g) (fo_owner_id g) caller x = (x2, Inr ())"
    and "require_file_permission Upload_File tenant_id (Some (fo_id g)) caller x2 = (x3, Inr ())"
    and so: "sg_complete_multipart (fs_storage svc) (fo_object_key g) upload_id parts (snd x3) = (s, Inr so)"
    and x': "x' = (put_file_row (completed_file so g) (fst x3), s)" and f: "f = completed_file so g"
    unfolding complete_multipart_upload_def if_not_P [OF \<open>parts \<noteq> []\<close>] sbind_returns load_file_returns on_world_of_returns
    by auto
  then have "fst x3 = fst x"
    by (auto dest!: file_permission_granted simp: require_resource_access_def on_world_of_returns)
  moreover from g have "g \<in> set (fst x)" "fo_id g = file_id" by (auto dest: find_by_id)
  ultimately have "f \<in> set (fst x')" unfolding x' f put_file_row_def
    by (auto simp: completed_file_def image_iff intro!: bexI [of _ g])
  with g so x' f show "\<exists>so s. sg_complete_multipart (fs_storage svc) (fo_object_key (the (find (\<lambda>f. fo_id f = file_id) (fst x)))) upload_id parts s
        = (snd x', Inr so) \<and> fo_size f = so_size so \<and> fo_status f = File_Available \<and> f \<in> set (fst x')"
    by (intro exI [of _ so] exI [of _ "snd x3"]) (simp add: completed_file_def)
qed

section \<open>A concrete service\<close>

definition demo_caller :: "'s file_caller" where
  "demo_caller = \<lparr>fc_user_id = Some ''ann'', fc_authorization = Some (\<lambda>u t a b i r. sret (Inr ())), fc_request_id = None\<rparr>"

definition demo_service :: "file_system file_service" where
  "demo_service = \<lparr>fs_storage = local_storage (\<lambda>d. int_str (int (length d))) (\<lambda>k. k) ''new'' ''files'',
     fs_upload_policy = default_upload_policy\<lparr>up_max_bytes := 3\<rparr>, fs_quota_service = None, fs_quota_rules = [],
     fs_scan = allow_all_scan, fs_retention_seconds = 0, fs_adapter = owner_only_adapter, fs_lifecycle_policy = None,
     fs_sha = (\<lambda>d. int_str (int (length d)))\<rparr>"

definition demo_request :: upload_request where
  "demo_request = \<lparr>ur_tenant_id = ''t'', ur_owner_type = ''task'', ur_owner_id = ''1'', ur_file_name = ''A.txt'',
     ur_content_type = ''text/plain'', ur_file_type = ''doc''\<rparr>"

lemma demo_upload:
  "upload_bytes demo_service ''f'' 0 demo_request ''abc'' None demo_caller ([], Map.empty) =
     (([stored_file ''f'' 0 demo_request \<lparr>so_bucket = ''files'', so_object_key = ''tenants/t/files/f/original.bin'',
          so_size = 3, so_checksum = ''3''\<rparr>], [[''tenants'', ''t'', ''files'', ''f'', ''original.bin''] \<mapsto> ''abc'']),
      Inr (stored_file ''f'' 0 demo_request \<lparr>so_bucket = ''files'', so_object_key = ''tenants/t/files/f/original.bin'',
          so_size = 3, so_checksum = ''3''\<rparr>))"
proof -
  have k: "local_path (file_object_key ''t'' ''f'') = Inr [''tenants'', ''t'', ''files'', ''f'', ''original.bin'']"
    by (rule file_object_key_path) (simp_all add: segment_def)
  have k': "file_object_key ''t'' ''f'' = ''tenants/t/files/f/original.bin''" by (simp add: file_object_key_def)
  have n: "int_str 3 = ''3''" by code_simp
  have v: "validate_upload_bytes demo_service demo_request ''abc'' None = Inr \<lparr>uv_file_name = ''A.txt'',
      uv_content_type = ''text/plain'', uv_extension = ''.txt'', uv_size = 3, uv_checksum = ''3''\<rparr>"
    by code_simp
  have put: "sg_put (fs_storage demo_service) (file_object_key (ur_tenant_id demo_request) ''f'') ''abc'' Map.empty =
     ([[''tenants'', ''t'', ''files'', ''f'', ''original.bin''] \<mapsto> ''abc''],
      Inr \<lparr>so_bucket = ''files'', so_object_key = ''tenants/t/files/f/original.bin'', so_size = 3, so_checksum = ''3''\<rparr>)"
    using k n by (simp add: local_put_def k' is_directory_def demo_service_def local_storage_def demo_request_def)
  have store: "store_and_insert demo_service ''f'' 0 demo_request ''abc'' ([], Map.empty) =
     (([stored_file ''f'' 0 demo_request \<lparr>so_bucket = ''files'', so_object_key = ''tenants/t/files/f/original.bin'',
          so_size = 3, so_checksum = ''3''\<rparr>], [[''tenants'', ''t'', ''files'', ''f'', ''original.bin''] \<mapsto> ''abc'']),
      Inr (stored_file ''f'' 0 demo_request \<lparr>so_bucket = ''files'', so_object_key = ''tenants/t/files/f/original.bin'',
          so_size = 3, so_checksum = ''3''\<rparr>))"
    by (simp add: store_and_insert_def sbind_def on_world_of_def put insert_file_def Let_def)
  have c: "lower ''clean'' = ''clean''" and b: "\<not> blank ''ann''" by code_simp+
  have perm: "require_file_permission Upload_File t i demo_caller x = (x, Inr ())" for t i and x :: "file_system file_state"
    using b by (simp add: require_file_permission_def require_with_def on_world_of_def demo_caller_def del: blank_Cons)
  have acc: "require_resource_access demo_service None Upload_File t ot oi demo_caller x = (x, Inr ())" for t ot oi x
    by (simp add: require_resource_access_def on_world_of_def demo_service_def owner_only_adapter_def)
  have scan: "scan_upload demo_service t v d x = (x, Inr ())" for t v d x
    by (simp add: scan_upload_def sbind_def on_world_of_def demo_service_def allow_all_scan_def c)
  have res: "on_world_of (reserve_upload_quotas demo_service t d) x = (x, Inr [])" for t d x
    by (simp add: reserve_upload_quotas_def demo_service_def on_world_of_def)
  show ?thesis
    by (simp add: upload_bytes_def sbind_def perm acc v scan res store)
qed

theorem uploaded_bytes_are_downloaded_witness:
  "download_bytes demo_service ''f'' ''t'' ''task'' ''1'' Active demo_caller
      (fst (upload_bytes demo_service ''f'' 0 demo_request ''abc'' None demo_caller ([], Map.empty))) =
    (fst (upload_bytes demo_service ''f'' 0 demo_request ''abc'' None demo_caller ([], Map.empty)),
     Inr \<lparr>fd_file_id = ''f'', fd_file_name = ''A.txt'', fd_content_type = ''text/plain'', fd_checksum = ''3'', fd_size = 3,
       fd_data = ''abc''\<rparr>)"
proof -
  have "stores (fs_sha demo_service) (fs_storage demo_service)" "fs_adapter demo_service = owner_only_adapter"
    by (simp_all add: demo_service_def local_storage_stores)
  moreover have b: "\<not> blank ''ann''" by code_simp
  then have "may_download demo_caller (ur_tenant_id demo_request) ''f''" unfolding may_download_def demo_caller_def
    by (simp del: blank_Cons)
  moreover have "is_tenant_operation_allowed Active File_Download (fs_lifecycle_policy demo_service)"
    by (simp add: is_tenant_operation_allowed_def)
  moreover have "int_str 3 = ''3''" by code_simp
  ultimately show ?thesis
    using uploaded_bytes_are_downloaded [OF _ _ demo_upload] by (simp add: demo_upload) (simp add: demo_request_def demo_service_def)
qed

theorem download_needs_owner_and_permission_witness:
  "\<exists>f \<in> set (fst (fst (upload_bytes demo_service ''f'' 0 demo_request ''abc'' None demo_caller ([], Map.empty)))).
     readable_file demo_service ''f'' ''t'' Active demo_caller f \<and> fo_owner_type f = ''task'' \<and> fo_owner_id f = ''1''"
proof -
  let ?x = "fst (upload_bytes demo_service ''f'' 0 demo_request ''abc'' None demo_caller ([], Map.empty))"
  have "checks_owner (fs_adapter demo_service)" by (simp add: demo_service_def adapters_check_owner)
  moreover have b: "\<not> blank ''ann''" by code_simp
  have f: "file_object_key ''t'' ''f'' = ''tenants/t/files/f/original.bin''" by (simp add: file_object_key_def)
  have k: "local_path ''tenants/t/files/f/original.bin'' = Inr [''tenants'', ''t'', ''files'', ''f'', ''original.bin'']"
    using file_object_key_path(1) [of "''t''" "''f''"] by (simp add: f segment_def)
  have d: "download_bytes demo_service ''f'' ''t'' ''task'' ''1'' Active demo_caller ?x = (?x,
      Inr \<lparr>fd_file_id = ''f'', fd_file_name = ''A.txt'', fd_content_type = ''text/plain'', fd_checksum = ''3'', fd_size = 3,
       fd_data = ''abc''\<rparr>)"
    unfolding demo_upload fst_conv
    using b by (simp add: download_bytes_def sbind_def check_download_allowed_def assert_tenant_operation_allowed_def
        is_tenant_operation_allowed_def load_file_def require_resource_access_def require_file_permission_def
        require_with_def on_world_of_def demo_service_def demo_caller_def demo_request_def stored_file_def owner_only_adapter_def
        assert_file_access_def local_storage_def local_get_def k del: blank_Cons)
  ultimately show ?thesis using download_needs_owner_and_permission [where d = "\<lparr>fd_file_id = ''f'', fd_file_name = ''A.txt'',
       fd_content_type = ''text/plain'', fd_checksum = ''3'', fd_size = 3, fd_data = ''abc''\<rparr>"] by blast
qed

text \<open>A world that is the usage itself, with a quota service that refuses beyond the limit of a rule.\<close>

definition demo_quota :: "usage_view upload_quota" where
  "demo_quota = \<lparr>uq_reserve = (\<lambda>rule t n u. if u rule t + n \<le> qr_limit rule then (charged u t [(rule, n)], Inr ())
       else (u, Inl (app_error ''QUOTA_EXCEEDED'' ''Quota exceeded'' None []))),
     uq_release = (\<lambda>rule t n u. (refunded u t [(rule, n)], Inr ()))\<rparr>"

definition demo_rules :: "quota_rule list" where
  "demo_rules = [\<lparr>qr_metric = ''storage_bytes'', qr_limit = 100, qr_scope = Tenant_Scope\<rparr>,
     \<lparr>qr_metric = ''files'', qr_limit = 0, qr_scope = Tenant_Scope\<rparr>]"

definition demo_storage :: "'s storage" where
  "demo_storage = \<lparr>sg_bucket = ''files'', sg_put = (\<lambda>k d. sret (Inr \<lparr>so_bucket = ''files'', so_object_key = k,
       so_size = int (length d), so_checksum = d\<rparr>)),
     sg_get = (\<lambda>k. sret (Inr k)), sg_delete = (\<lambda>k. sret (Inr ())), sg_exists = (\<lambda>k. sret (Inr True)),
     sg_download_url = (\<lambda>k n. sret (Inr k)), sg_upload_url = (\<lambda>k t n. sret (Inr k)),
     sg_create_multipart = (\<lambda>k t. sret (Inr ''u'')), sg_part_url = (\<lambda>k i p n. sret (Inr k)),
     sg_complete_multipart = (\<lambda>k i ps. sret (Inr \<lparr>so_bucket = ''files'', so_object_key = k, so_size = 9000,
       so_checksum = ''multipart:'' @ i\<rparr>)),
     sg_abort_multipart = (\<lambda>k i. sret (Inr ()))\<rparr>"

definition counting_service :: "usage_view file_service" where
  "counting_service = \<lparr>fs_storage = demo_storage, fs_upload_policy = default_upload_policy\<lparr>up_max_bytes := 3\<rparr>,
     fs_quota_service = Some demo_quota, fs_quota_rules = demo_rules,
     fs_scan = allow_all_scan, fs_retention_seconds = 0, fs_adapter = owner_only_adapter, fs_lifecycle_policy = None,
     fs_sha = (\<lambda>d. int_str (int (length d)))\<rparr>"

lemma counting_service_counts:
  "quota_counts (\<lambda>u. u) demo_quota" "upload_parts_keep_usage (\<lambda>u. u) counting_service demo_caller"
  by (auto simp: quota_counts_def demo_quota_def upload_parts_keep_usage_def counting_service_def demo_caller_def
      owner_only_adapter_def allow_all_scan_def demo_storage_def split: if_splits)


definition pending_file :: file_object where
  "pending_file = uploading_file counting_service ''f'' 0 demo_request (''A.txt'', ''text/plain'') 2 None"

text \<open>A file declared with two bytes, where three are allowed, is available with nine thousand.\<close>

theorem multipart_upload_escapes_checks_witness:
  "\<exists>x' f. complete_multipart_upload (with_limits counting_service (default_upload_policy\<lparr>up_max_bytes := 1\<rparr>)
       (\<lambda>t n c d k. sret (Inr \<lparr>sn_status = ''infected'', sn_provider = ''av'', sn_signature = None\<rparr>)) None []) ''f'' ''t'' ''u''
       [\<lparr>pt_part_number = 1, pt_etag = ''e''\<rparr>] demo_caller ([pending_file], \<lambda>r t. 0) = (x', Inr f) \<and>
     fo_size f = 9000"
proof -
  let ?r = "complete_multipart_upload counting_service ''f'' ''t'' ''u'' [\<lparr>pt_part_number = 1, pt_etag = ''e''\<rparr>] demo_caller
    ([pending_file], \<lambda>r t. 0)"
  have "case snd ?r of Inr f \<Rightarrow> fo_size f = 9000 | _ \<Rightarrow> False" by code_simp
  then obtain x' f where r: "?r = (x', Inr f)" and n: "fo_size f = 9000" by (cases ?r; cases "snd ?r") auto
  from multipart_upload_escapes_checks [OF r] n show ?thesis by blast
qed

end
