(* ===== verification/Role_Grants.thy ===== *)
theory Role_Grants
  imports Permission_Policies Python_Text
begin

text \<open>
  Who holds which role: the service that writes grants (\<open>core/permissions/services.py\<close>), and the
  services of the access app over it (\<open>platform_apps/access/services.py\<close>, \<open>bootstrap.py\<close>): role
  templates, tenant grants, effective permissions, platform administrators and the first of them.

  The state is the three tables and the rest of the world, \<open>'w\<close>, on which the event publisher, the
  audit recorder and the permission cache operate. Rows are in insertion order, text is ordered by
  code points, and the statements of one operation are taken without another session's writes.
\<close>

section \<open>State and calls\<close>

record stored_template = role_template +
  rt_name :: string
  rt_version :: int

record access_tables =
  ac_templates :: "stored_template list"
  ac_grants :: "role_grant list"
  ac_policies :: policy_table

type_synonym 'w access_state = "access_tables \<times> 'w"

text \<open>The publisher takes type, aggregate type and identifier, tenant and payload; the cache is
  invalidated for a subject of a tenant.\<close>

record 'w access_env =
  ae_publish :: "string \<Rightarrow> string \<Rightarrow> string \<Rightarrow> string \<Rightarrow> (string \<times> pyval) list \<Rightarrow> ('w, unit) state_op"
  ae_audit :: "(audit_event \<Rightarrow> ('w, unit) state_op) option"
  ae_invalidate :: "(string \<Rightarrow> string \<Rightarrow> ('w, unit) state_op) option"

record role_caller =
  rl_actor_id :: string
  rl_request_id :: string
  rl_decision :: "decision option"
  rl_reason :: "string option"

definition not_found :: "string \<Rightarrow> string \<Rightarrow> exn" where
  "not_found kind i = app_error ''NOT_FOUND'' (kind @ '' '' @ repr_str i @ '' not found'') (Some 404) []"

definition integrity_error :: exn where
  "integrity_error = PyError ''IntegrityError'' ''UNIQUE constraint failed''"

text \<open>What a flush checks: the primary keys and the unique constraints of grants and templates.\<close>

definition grant_key :: "role_grant \<Rightarrow> string \<times> string \<times> string \<times> string" where
  "grant_key g = (gr_tenant_id g, gr_subject_type g, gr_subject_id g, gr_role_template_id g)"

definition template_key :: "stored_template \<Rightarrow> string \<times> string \<times> int" where
  "template_key t = (rt_scope t, rt_name t, rt_version t)"

definition flush_access :: "('w access_state, unit) state_op" where
  "flush_access x =
    (x, if distinct (map gr_id (ac_grants (fst x))) \<and> distinct (map grant_key (ac_grants (fst x))) \<and>
           distinct (map rt_id (ac_templates (fst x))) \<and> distinct (map template_key (ac_templates (fst x)))
        then Inr () else Inl integrity_error)"

definition find_template :: "string \<Rightarrow> access_tables \<Rightarrow> stored_template option" where
  "find_template i tabs = find (\<lambda>t. rt_id t = i) (ac_templates tabs)"

definition find_grant :: "string \<Rightarrow> access_tables \<Rightarrow> role_grant option" where
  "find_grant i tabs = find (\<lambda>g. gr_id g = i) (ac_grants tabs)"

section \<open>The role grant service\<close>

definition role_grant_changed :: string where
  "role_grant_changed = ''permissions.role_grant_changed''"

definition assert_role_grant_mutation :: "decision option \<Rightarrow> string \<Rightarrow> string \<Rightarrow> string \<Rightarrow> unit result" where
  "assert_role_grant_mutation od tenant_id actor_id mutation =
     assert_authorization_decision od tenant_id actor_id ''role_grant'' [''manage'', mutation] ''Role grant mutation'' False"

definition publish_role_event ::
  "'w access_env \<Rightarrow> role_grant \<Rightarrow> role_caller \<Rightarrow> (string \<times> pyval) list \<Rightarrow> ('w access_state, unit) state_op" where
  "publish_role_event env g c extra =
     on_world_of (ae_publish env role_grant_changed ''role_grant'' (gr_id g) (gr_tenant_id g)
       ([(''tenant_id'', PStr (gr_tenant_id g)), (''actor_id'', PStr (rl_actor_id c)),
         (''request_id'', PStr (rl_request_id c)), (''grant_id'', PStr (gr_id g)),
         (''subject_type'', PStr (gr_subject_type g)), (''subject_id'', PStr (gr_subject_id g))] @ extra))"

definition audit_role ::
  "'w access_env \<Rightarrow> string \<Rightarrow> role_grant \<Rightarrow> role_caller \<Rightarrow> string option \<Rightarrow> ('w access_state, unit) state_op" where
  "audit_role env action g c reason =
    (case ae_audit env of
       None \<Rightarrow> sret (Inr ())
     | Some record \<Rightarrow> on_world_of (record \<lparr>au_action = action, au_resource_type = ''role_grant'',
         au_resource_id = Some (gr_id g), au_result = ''success'', au_tenant = Some (gr_tenant_id g),
         au_actor = Some (rl_actor_id c), au_reason = reason, au_policy_version = Some (gr_policy_version g),
         au_request_id = Some (rl_request_id c),
         au_payload = [(''subject_type'', PStr (gr_subject_type g)), (''subject_id'', PStr (gr_subject_id g)),
           (''role_template_id'', PStr (gr_role_template_id g))]\<rparr>))"

definition add_grant :: "role_grant \<Rightarrow> ('w access_state, unit) state_op" where
  "add_grant g x = (((fst x)\<lparr>ac_grants := ac_grants (fst x) @ [g]\<rparr>, snd x), Inr ())"

definition core_grant_role :: "'w access_env \<Rightarrow> role_grant \<Rightarrow> role_caller \<Rightarrow> ('w access_state, role_grant) state_op" where
  "core_grant_role env g c =
    sbind (sret (assert_role_grant_mutation (rl_decision c) (gr_tenant_id g) (rl_actor_id c) ''grant'')) (\<lambda>_.
    sbind (add_grant g) (\<lambda>_.
    sbind (publish_role_event env g c []) (\<lambda>_.
    sbind (audit_role env ''role.granted'' g c (rl_reason c)) (\<lambda>_.
      sret (Inr g)))))"

definition delete_projection :: "string \<Rightarrow> ('w access_state, unit) state_op" where
  "delete_projection gid x = (((fst x)\<lparr>ac_policies := other_rows gid (ac_policies (fst x))\<rparr>, snd x), Inr ())"

definition delete_grant :: "string \<Rightarrow> ('w access_state, unit) state_op" where
  "delete_grant gid x = (((fst x)\<lparr>ac_grants := filter (\<lambda>g. gr_id g \<noteq> gid) (ac_grants (fst x))\<rparr>, snd x), Inr ())"

definition invalidate_subject :: "'w access_env \<Rightarrow> string \<Rightarrow> string \<Rightarrow> ('w access_state, unit) state_op" where
  "invalidate_subject env tenant_id subject =
    (case ae_invalidate env of None \<Rightarrow> sret (Inr ()) | Some f \<Rightarrow> on_world_of (f tenant_id subject))"

definition core_revoke_role :: "'w access_env \<Rightarrow> string \<Rightarrow> role_caller \<Rightarrow> ('w access_state, role_grant) state_op" where
  "core_revoke_role env gid c x =
    (case find_grant gid (fst x) of
       None \<Rightarrow> (x, Inl (not_found ''RoleGrant'' gid))
     | Some g \<Rightarrow>
        (sbind (sret (assert_role_grant_mutation (rl_decision c) (gr_tenant_id g) (rl_actor_id c) ''revoke'')) (\<lambda>_.
         sbind (publish_role_event env g c [(''change_type'', PStr ''revoked'')]) (\<lambda>_.
         sbind (audit_role env ''role.revoked'' g c (rl_reason c)) (\<lambda>_.
         sbind (delete_projection (gr_id g)) (\<lambda>_.
         sbind (invalidate_subject env (gr_tenant_id g) (subject_for_grant g)) (\<lambda>_.
         sbind (delete_grant (gr_id g)) (\<lambda>_.
         sbind flush_access (\<lambda>_. sret (Inr g)))))))) x))"

section \<open>Normalized arguments\<close>

definition normalize_scope :: "string \<Rightarrow> string result" where
  "normalize_scope v = (if strip v \<notin> {''platform'', ''tenant''}
     then Inl (validation_error ''RoleTemplate scope must be platform or tenant'') else Inr (strip v))"

definition normalize_name :: "string \<Rightarrow> string result" where
  "normalize_name v = (if blank v then Inl (validation_error ''RoleTemplate name is required'') else Inr (strip v))"

definition validate_version :: "int \<Rightarrow> unit result" where
  "validate_version n = (if n < 1 then Inl (validation_error ''RoleTemplate version must be greater than zero'') else Inr ())"

definition normalize_subject_type :: "string \<Rightarrow> string result" where
  "normalize_subject_type v = (if strip v \<notin> {''user'', ''service_account''}
     then Inl (validation_error ''RoleGrant subject_type must be user or service_account'') else Inr (strip v))"

definition normalize_subject_id :: "string \<Rightarrow> string result" where
  "normalize_subject_id v = (if blank v then Inl (validation_error ''RoleGrant subject_id is required'') else Inr (strip v))"

definition require_reason :: "string option \<Rightarrow> string \<Rightarrow> string result" where
  "require_reason v operation =
    (case v of
       None \<Rightarrow> Inl (validation_error (operation @ '' reason is required''))
     | Some r \<Rightarrow> if blank r then Inl (validation_error (operation @ '' reason is required'')) else Inr (strip r))"

section \<open>Role templates\<close>

definition text_of :: "(string \<times> string) list \<Rightarrow> string \<Rightarrow> string" where
  "text_of d k = (case dget d k of None \<Rightarrow> [] | Some v \<Rightarrow> strip v)"

fun resolve_permissions ::
  "permission_registry \<Rightarrow> string \<Rightarrow> (string \<times> string) list \<Rightarrow> (string \<times> string) list list
    \<Rightarrow> (string \<times> string) list list result" where
  "resolve_permissions reg scope seen [] = Inr []"
| "resolve_permissions reg scope seen (p # ps) =
    (let resource = text_of p ''resource''; action = text_of p ''action'' in
     if resource = [] \<or> action = []
       then Inl (validation_error ''RoleTemplate permission requires resource and action'')
     else if \<not> has_permission reg resource action (Some scope)
       then Inl (app_error ''VALIDATION_ERROR'' ''RoleTemplate permission is not registered'' (Some 400)
         [(''scope'', PStr scope), (''resource'', PStr resource), (''action'', PStr action)])
     else if (resource, action) \<in> set seen then resolve_permissions reg scope seen ps
     else rbind (resolve_permissions reg scope ((resource, action) # seen) ps) (\<lambda>rest.
       Inr ([(''resource'', resource), (''action'', action)] # rest)))"

definition validate_permissions ::
  "permission_registry \<Rightarrow> string \<Rightarrow> (string \<times> string) list list \<Rightarrow> (string \<times> string) list list result" where
  "validate_permissions reg scope permissions =
    (if permissions = [] then Inl (validation_error ''RoleTemplate requires at least one permission'')
     else resolve_permissions reg scope [] permissions)"

definition list_templates :: "string option \<Rightarrow> access_tables \<Rightarrow> stored_template list result" where
  "list_templates scope tabs =
     rbind (case scope of None \<Rightarrow> Inr (ac_templates tabs)
            | Some s \<Rightarrow> rbind (normalize_scope s) (\<lambda>s. Inr (filter (\<lambda>t. rt_scope t = s) (ac_templates tabs)))) (\<lambda>ts.
       Inr (sort_key (\<lambda>t. (rt_scope t, rt_name t)) ts))"

definition add_template :: "stored_template \<Rightarrow> ('w access_state, unit) state_op" where
  "add_template t x = (((fst x)\<lparr>ac_templates := ac_templates (fst x) @ [t]\<rparr>, snd x), Inr ())"

definition template_exists :: "string \<Rightarrow> string \<Rightarrow> int \<Rightarrow> access_tables \<Rightarrow> bool" where
  "template_exists scope name version tabs \<longleftrightarrow>
     list_ex (\<lambda>t. rt_scope t = scope \<and> rt_name t = name \<and> rt_version t = version) (ac_templates tabs)"

definition create_template ::
  "permission_registry \<Rightarrow> string \<Rightarrow> string \<Rightarrow> string \<Rightarrow> int \<Rightarrow> (string \<times> string) list list
    \<Rightarrow> ('w access_state, stored_template) state_op" where
  "create_template reg new_id scope name version permissions x =
    (case rbind (normalize_scope scope) (\<lambda>s. rbind (normalize_name name) (\<lambda>n. rbind (validate_version version) (\<lambda>_.
            rbind (validate_permissions reg s permissions) (\<lambda>ps.
              Inr \<lparr>rt_id = new_id, rt_scope = s, rt_permissions = ps, rt_name = n, rt_version = version\<rparr>)))) of
       Inl e \<Rightarrow> (x, Inl e)
     | Inr t \<Rightarrow>
         if template_exists (rt_scope t) (rt_name t) version (fst x)
           then (x, Inl (app_error ''CONFLICT'' ''RoleTemplate already exists for scope, name and version'' (Some 409) []))
         else (sbind (add_template t) (\<lambda>_. sbind flush_access (\<lambda>_. sret (Inr t)))) x)"

definition put_template :: "stored_template \<Rightarrow> ('w access_state, unit) state_op" where
  "put_template t x =
    (((fst x)\<lparr>ac_templates := map (\<lambda>u. if rt_id u = rt_id t then t else u) (ac_templates (fst x))\<rparr>, snd x), Inr ())"

text \<open>The attributes are assigned one by one, so a name stays assigned when the permissions raise.\<close>

definition renamed :: "string option \<Rightarrow> stored_template \<Rightarrow> stored_template result" where
  "renamed name t = (case name of None \<Rightarrow> Inr t | Some n \<Rightarrow> rbind (normalize_name n) (\<lambda>n. Inr (t\<lparr>rt_name := n\<rparr>)))"

definition repermitted ::
  "permission_registry \<Rightarrow> (string \<times> string) list list option \<Rightarrow> stored_template \<Rightarrow> stored_template result" where
  "repermitted reg permissions t =
    (case permissions of
       None \<Rightarrow> Inr t
     | Some ps \<Rightarrow> rbind (validate_permissions reg (rt_scope t) ps) (\<lambda>ps.
         Inr (t\<lparr>rt_permissions := ps, rt_version := rt_version t + 1\<rparr>)))"

definition update_template ::
  "permission_registry \<Rightarrow> string \<Rightarrow> string option \<Rightarrow> (string \<times> string) list list option
    \<Rightarrow> ('w access_state, stored_template) state_op" where
  "update_template reg i name permissions x =
    (case find_template i (fst x) of
       None \<Rightarrow> (x, Inl (not_found ''RoleTemplate'' i))
     | Some t \<Rightarrow>
        (sbind (sret (renamed name t)) (\<lambda>t. sbind (put_template t) (\<lambda>_.
         sbind (sret (repermitted reg permissions t)) (\<lambda>t. sbind (put_template t) (\<lambda>_.
         sbind flush_access (\<lambda>_. sret (Inr t)))))) x))"

section \<open>Grants of a tenant\<close>

definition list_grants :: "string \<Rightarrow> access_tables \<Rightarrow> role_grant list" where
  "list_grants tenant_id tabs =
     sort_key (\<lambda>g. (gr_subject_type g, gr_subject_id g)) (filter (\<lambda>g. gr_tenant_id g = tenant_id) (ac_grants tabs))"

definition existing_grant :: "string \<times> string \<times> string \<times> string \<Rightarrow> access_tables \<Rightarrow> role_grant option" where
  "existing_grant k tabs = find (\<lambda>g. grant_key g = k) (ac_grants tabs)"

text \<open>The projection of a grant, without a cache.\<close>

definition project_into ::
  "permission_registry option \<Rightarrow> (policy_rule \<Rightarrow> string) \<Rightarrow> role_grant \<Rightarrow> stored_template
    \<Rightarrow> ('w access_state, policy_rule list) state_op" where
  "project_into og rule_id g t x =
    (case project_grant og rule_id g (role_template.truncate t) (ac_policies (fst x)) of
       (tab, _, r) \<Rightarrow> (((fst x)\<lparr>ac_policies := tab\<rparr>, snd x), r))"

definition duplicate_grant :: "role_grant \<Rightarrow> exn" where
  "duplicate_grant g = app_error ''CONFLICT'' ''RoleGrant already exists for this subject and role template'' (Some 409)
     [(''grant_id'', PStr (gr_id g)), (''tenant_id'', PStr (gr_tenant_id g)), (''subject_type'', PStr (gr_subject_type g)),
      (''subject_id'', PStr (gr_subject_id g)), (''role_template_id'', PStr (gr_role_template_id g))]"

text \<open>The checks before a tenant grant: reason, subject, template of tenant scope, no such grant yet.\<close>

definition tenant_grant ::
  "string \<Rightarrow> string \<Rightarrow> string \<Rightarrow> string \<Rightarrow> string \<Rightarrow> role_caller \<Rightarrow> access_tables
    \<Rightarrow> (role_grant \<times> stored_template \<times> string) result" where
  "tenant_grant new_id tenant_id subject_type subject_id template_id c tabs =
    rbind (require_reason (rl_reason c) ''Role grant'') (\<lambda>reason.
    rbind (normalize_subject_type subject_type) (\<lambda>ty. rbind (normalize_subject_id subject_id) (\<lambda>s.
    case find_template template_id tabs of
      None \<Rightarrow> Inl (not_found ''RoleTemplate'' template_id)
    | Some t \<Rightarrow>
        if rt_scope t \<noteq> ''tenant'' then Inl (validation_error ''Tenant role grants require a tenant role template'')
        else (case existing_grant (tenant_id, ty, s, rt_id t) tabs of
            Some g \<Rightarrow> Inl (duplicate_grant g)
          | None \<Rightarrow> Inr (\<lparr>gr_id = new_id, gr_tenant_id = tenant_id, gr_subject_type = ty, gr_subject_id = s,
              gr_role_template_id = rt_id t, gr_policy_version = rt_version t\<rparr>, t, reason)))))"

definition tenant_grant_role ::
  "'w access_env \<Rightarrow> permission_registry option \<Rightarrow> (policy_rule \<Rightarrow> string) \<Rightarrow> string \<Rightarrow> string \<Rightarrow> string \<Rightarrow> string \<Rightarrow> string
    \<Rightarrow> role_caller \<Rightarrow> ('w access_state, role_grant) state_op" where
  "tenant_grant_role env og rule_id new_id tenant_id subject_type subject_id template_id c x =
    (case tenant_grant new_id tenant_id subject_type subject_id template_id c (fst x) of
       Inl e \<Rightarrow> (x, Inl e)
     | Inr (g, t, reason) \<Rightarrow>
        (sbind (core_grant_role (env\<lparr>ae_invalidate := None\<rparr>) g (c\<lparr>rl_reason := Some reason\<rparr>)) (\<lambda>g.
         sbind flush_access (\<lambda>_.
         sbind (project_into og rule_id g t) (\<lambda>_. sret (Inr g)))) x))"

definition tenant_revoke_role ::
  "'w access_env \<Rightarrow> string \<Rightarrow> string \<Rightarrow> role_caller \<Rightarrow> ('w access_state, role_grant) state_op" where
  "tenant_revoke_role env tenant_id gid c x =
    (case require_reason (rl_reason c) ''Role revoke'' of
       Inl e \<Rightarrow> (x, Inl e)
     | Inr reason \<Rightarrow>
        (case find_grant gid (fst x) of
           None \<Rightarrow> (x, Inl (not_found ''RoleGrant'' gid))
         | Some g \<Rightarrow>
             if gr_tenant_id g \<noteq> tenant_id then (x, Inl (not_found ''RoleGrant'' gid))
             else core_revoke_role (env\<lparr>ae_invalidate := None\<rparr>) gid (c\<lparr>rl_reason := Some reason\<rparr>) x))"

definition list_effective_permissions ::
  "string \<Rightarrow> string \<Rightarrow> string \<Rightarrow> access_tables \<Rightarrow> policy_rule list result" where
  "list_effective_permissions tenant_id subject_type subject_id tabs =
    rbind (normalize_subject_type subject_type) (\<lambda>ty. rbind (normalize_subject_id subject_id) (\<lambda>s.
      Inr (sort_key (\<lambda>r. (pr_resource r, pr_action r))
        (filter (\<lambda>r. pr_tenant_id r = tenant_id \<and> pr_subject r = ty @ '':'' @ s) (map snd (ac_policies tabs))))))"

definition access_reconcile ::
  "permission_registry option \<Rightarrow> (policy_rule \<Rightarrow> string) \<Rightarrow> bool \<Rightarrow> ('w access_state, reconciliation) state_op" where
  "access_reconcile og rule_id repair x =
    (case reconcile og rule_id (\<lambda>i. map_option role_template.truncate (find_template i (fst x))) (ac_grants (fst x)) repair
        (ac_policies (fst x)) of
       (tab, _, r) \<Rightarrow> (((fst x)\<lparr>ac_policies := tab\<rparr>, snd x), r))"

definition list_permissions :: "permission_registry \<Rightarrow> registered_permission list" where
  "list_permissions reg = sort_key (\<lambda>p. (rp_scope p, rp_app_label p, rp_resource p, rp_action p)) (pg_permissions reg)"

section \<open>Platform administrators\<close>

definition assert_platform_admin_mutation :: "decision option \<Rightarrow> string \<Rightarrow> unit result" where
  "assert_platform_admin_mutation od actor_id =
     assert_authorization_decision od platform_tenant_id actor_id ''access.platform_admin'' [''manage'']
       ''Platform administrator grant'' True"

text \<open>\<open>authorization_decision.policy_version or role_template.version\<close>: zero counts as none.\<close>

definition admin_policy_version :: "decision option \<Rightarrow> stored_template \<Rightarrow> int" where
  "admin_policy_version od t =
    (case Option.bind od de_policy_version of None \<Rightarrow> rt_version t | Some v \<Rightarrow> if v = 0 then rt_version t else v)"

definition grant_platform_admin ::
  "'w access_env \<Rightarrow> string \<Rightarrow> string \<Rightarrow> string \<Rightarrow> role_caller \<Rightarrow> ('w access_state, role_grant) state_op" where
  "grant_platform_admin env new_id user_id template_id c x =
    (case rbind (require_reason (rl_reason c) ''Platform administrator grant'') (\<lambda>reason.
            rbind (assert_platform_admin_mutation (rl_decision c) (rl_actor_id c)) (\<lambda>_.
            case find_template template_id (fst x) of
              None \<Rightarrow> Inl (not_found ''RoleTemplate'' template_id)
            | Some t \<Rightarrow> if rt_scope t \<noteq> ''platform''
                then Inl (validation_error ''Platform administrator grants require a platform role template'')
                else Inr (reason, t))) of
       Inl e \<Rightarrow> (x, Inl e)
     | Inr (reason, t) \<Rightarrow>
        (case existing_grant (platform_tenant_id, ''user'', user_id, template_id) (fst x) of
           Some g \<Rightarrow> (x, Inr g)
         | None \<Rightarrow>
            (let g = \<lparr>gr_id = new_id, gr_tenant_id = platform_tenant_id, gr_subject_type = ''user'', gr_subject_id = user_id,
                   gr_role_template_id = template_id, gr_policy_version = admin_policy_version (rl_decision c) t\<rparr> in
             sbind (add_grant g) (\<lambda>_. sbind flush_access (\<lambda>_.
             sbind (publish_role_event env g c [(''role_template_id'', PStr template_id), (''reason'', PStr reason)]) (\<lambda>_.
             sbind (audit_role env ''platform_admin.granted'' g c (Some reason)) (\<lambda>_. sret (Inr g))))) x)))"

section \<open>The first platform administrator\<close>

definition required_text :: "string \<Rightarrow> string \<Rightarrow> string result" where
  "required_text field v = (if blank v then Inl (validation_error (field @ '' is required'')) else Inr (strip v))"

fun platform_permissions_from :: "(string \<times> string) list \<Rightarrow> registered_permission list \<Rightarrow> (string \<times> string) list list" where
  "platform_permissions_from seen [] = []"
| "platform_permissions_from seen (p # ps) =
    (if rp_scope p \<noteq> ''platform'' \<or> (rp_resource p, rp_action p) \<in> set seen then platform_permissions_from seen ps
     else [(''resource'', rp_resource p), (''action'', rp_action p)]
       # platform_permissions_from ((rp_resource p, rp_action p) # seen) ps)"

definition platform_permissions :: "permission_registry \<Rightarrow> (string \<times> string) list list" where
  "platform_permissions reg = platform_permissions_from [] (sort_key (\<lambda>p. (rp_resource p, rp_action p)) (pg_permissions reg))"

definition bootstrap_template ::
  "permission_registry \<Rightarrow> string \<Rightarrow> string \<Rightarrow> ('w access_state, stored_template) state_op" where
  "bootstrap_template reg template_id template_name x =
    (case find_template template_id (fst x) of
       Some t \<Rightarrow>
         if rt_scope t \<noteq> ''platform'' then (x, Inl (app_error ''VALIDATION_ERROR''
           ''platform admin bootstrap requires a platform role template'' (Some 400)
           [(''role_template_id'', PStr template_id), (''scope'', PStr (rt_scope t))]))
         else (x, Inr t)
     | None \<Rightarrow>
         if platform_permissions reg = []
           then (x, Inl (validation_error ''platform admin bootstrap requires at least one platform permission''))
         else
           (let t = \<lparr>rt_id = template_id, rt_scope = ''platform'', rt_permissions = platform_permissions reg,
                  rt_name = template_name, rt_version = 1\<rparr> in
            sbind (add_template t) (\<lambda>_. sbind flush_access (\<lambda>_. sret (Inr t))) x))"

record bootstrap_result =
  bs_grant :: role_grant
  bs_role_template :: stored_template
  bs_projected_permissions :: nat

definition platform_grant_count :: "access_tables \<Rightarrow> nat" where
  "platform_grant_count tabs = length (filter (\<lambda>g. gr_tenant_id g = platform_tenant_id) (ac_grants tabs))"

definition bootstrap_first_admin ::
  "permission_registry \<Rightarrow> (policy_rule \<Rightarrow> string) \<Rightarrow> string \<Rightarrow> string \<Rightarrow> string \<Rightarrow> string \<Rightarrow> string
    \<Rightarrow> ('w access_state, bootstrap_result) state_op" where
  "bootstrap_first_admin reg rule_id new_id user_id template_id template_name reason x =
    (case rbind (required_text ''user_id'' user_id) (\<lambda>u. rbind (required_text ''role_template_id'' template_id) (\<lambda>i.
            rbind (required_text ''template_name'' template_name) (\<lambda>n. rbind (required_text ''reason'' reason) (\<lambda>_. Inr (u, i, n))))) of
       Inl e \<Rightarrow> (x, Inl e)
     | Inr (u, i, n) \<Rightarrow>
         if platform_grant_count (fst x) \<noteq> 0
           then (x, Inl (app_error ''CONFLICT'' ''platform administrator bootstrap is already completed'' (Some 409)
             [(''platform_grant_count'', PInt (int (platform_grant_count (fst x))))]))
         else
           (sbind (bootstrap_template reg i n) (\<lambda>t.
            let g = \<lparr>gr_id = new_id, gr_tenant_id = platform_tenant_id, gr_subject_type = ''user'', gr_subject_id = u,
                  gr_role_template_id = rt_id t, gr_policy_version = rt_version t\<rparr> in
            sbind (add_grant g) (\<lambda>_. sbind flush_access (\<lambda>_.
            sbind (project_into (Some reg) rule_id g t) (\<lambda>rules x.
              let n = length (grant_rows new_id (ac_policies (fst x))) in
              (x, Inr \<lparr>bs_grant = g, bs_role_template = t,
                bs_projected_permissions = (if n = 0 then length rules else n)\<rparr>))))) x))"

end
