(* ===== verification/Role_Properties.thy ===== *)
theory Role_Properties
  imports Role_Grants
begin

text \<open>
  The properties of role grants: what a grant opens and a revocation closes, who may change them, and
  what a change of a template leaves behind.
\<close>

section \<open>Lemmas\<close>

text \<open>Calls of the outside leave the tables alone.\<close>

lemma outside_calls [simp]:
  "fst (fst (publish_role_event env g c extra x)) = fst x"
  "fst (fst (audit_role env a g c r x)) = fst x"
  "fst (fst (invalidate_subject env t s x)) = fst x"
  by (simp_all add: publish_role_event_def audit_role_def invalidate_subject_def split: option.split)

lemma outside_calls_same:
  "publish_role_event env g c extra x = (x', r) \<Longrightarrow> fst x' = fst x"
  "audit_role env a g c rs x = (x', r) \<Longrightarrow> fst x' = fst x"
  "invalidate_subject env t s x = (x', r) \<Longrightarrow> fst x' = fst x"
  using outside_calls by (metis fst_conv)+

lemma flush_returns [returns]:
  "flush_access x = (x', Inr v) \<longleftrightarrow> x' = x \<and> distinct (map gr_id (ac_grants (fst x))) \<and>
     distinct (map grant_key (ac_grants (fst x))) \<and> distinct (map rt_id (ac_templates (fst x))) \<and>
     distinct (map template_key (ac_templates (fst x)))"
  by (auto simp: flush_access_def)

lemma flush_same: "flush_access x = (x', r) \<Longrightarrow> x' = x"
  by (auto simp: flush_access_def)

lemma find_by_grant_id: "find_grant i tabs = Some g \<Longrightarrow> g \<in> set (ac_grants tabs) \<and> gr_id g = i"
  by (auto simp: find_grant_def find_Some_iff)

text \<open>Who is authorized to change a role: an allowed decision for the actor, tenant, resource and action.\<close>

definition authorized_for :: "role_caller \<Rightarrow> string \<Rightarrow> string \<Rightarrow> string list \<Rightarrow> bool" where
  "authorized_for c tenant_id resource actions \<longleftrightarrow>
     (\<exists>d. rl_decision c = Some d \<and> de_allowed d \<and> de_user_id d = rl_actor_id c \<and> de_tenant_id d = tenant_id \<and>
        de_resource d = resource \<and> de_action d \<in> set actions)"

lemma assert_role_grant_ok:
  "assert_role_grant_mutation (rl_decision c) t (rl_actor_id c) m = Inr () \<longleftrightarrow>
     authorized_for c t ''role_grant'' [''manage'', m]"
  by (simp add: assert_role_grant_mutation_def assert_authorization_ok authorized_for_def)

lemma assert_platform_admin_ok:
  "assert_platform_admin_mutation (rl_decision c) (rl_actor_id c) = Inr () \<longleftrightarrow>
     authorized_for c platform_tenant_id ''access.platform_admin'' [''manage'']"
  by (simp add: assert_platform_admin_mutation_def assert_authorization_ok authorized_for_def)

lemma core_grant_returns:
  assumes "core_grant_role env g c x = (x', Inr g')"
  shows "g' = g" and "fst x' = (fst x)\<lparr>ac_grants := ac_grants (fst x) @ [g]\<rparr>"
    and "authorized_for c (gr_tenant_id g) ''role_grant'' [''manage'', ''grant'']"
  using assms unfolding core_grant_role_def
  by (auto simp: returns add_grant_def assert_role_grant_ok dest!: outside_calls_same)

lemma core_revoke_returns:
  assumes "core_revoke_role env gid c x = (x', Inr g)"
  shows "find_grant gid (fst x) = Some g"
    and "fst x' = (fst x)\<lparr>ac_grants := filter (\<lambda>h. gr_id h \<noteq> gid) (ac_grants (fst x)),
           ac_policies := other_rows gid (ac_policies (fst x))\<rparr>"
proof -
  obtain h where h: "find_grant gid (fst x) = Some h"
    using assms by (auto simp: core_revoke_role_def split: option.splits)
  then have id: "gr_id h = gid" by (simp add: find_by_grant_id)
  from assms have "h = g" and x': "fst x' = (fst x)\<lparr>ac_grants := filter (\<lambda>h. gr_id h \<noteq> gid) (ac_grants (fst x)),
           ac_policies := other_rows gid (ac_policies (fst x))\<rparr>"
    unfolding core_revoke_role_def h option.case
    by (auto simp: returns delete_projection_def delete_grant_def id dest!: outside_calls_same)
  with h show "find_grant gid (fst x) = Some g" and "fst x' = (fst x)\<lparr>ac_grants := filter (\<lambda>h. gr_id h \<noteq> gid) (ac_grants (fst x)),
           ac_policies := other_rows gid (ac_policies (fst x))\<rparr>" by simp_all
qed

lemma tenant_grant_returns:
  assumes "tenant_grant_role env og rule_id new_id tenant_id subject_type subject_id template_id c x = (x', Inr g)"
  obtains t tab cleared rules where "find_template template_id (fst x) = Some t"
    and "rt_scope t = ''tenant''"
    and "g = \<lparr>gr_id = new_id, gr_tenant_id = tenant_id, gr_subject_type = strip subject_type, gr_subject_id = strip subject_id,
              gr_role_template_id = rt_id t, gr_policy_version = rt_version t\<rparr>"
    and "authorized_for c tenant_id ''role_grant'' [''manage'', ''grant'']"
    and "distinct (map gr_id (ac_grants (fst x) @ [g]))"
    and "project_grant og rule_id g (role_template.truncate t) (ac_policies (fst x)) = (tab, cleared, Inr rules)"
    and "fst x' = (fst x)\<lparr>ac_grants := ac_grants (fst x) @ [g], ac_policies := tab\<rparr>"
proof -
  obtain g0 t reason where pre: "tenant_grant new_id tenant_id subject_type subject_id template_id c (fst x) = Inr (g0, t, reason)"
    using assms unfolding tenant_grant_role_def by (cases "tenant_grant new_id tenant_id subject_type subject_id template_id c (fst x)") auto
  then have t: "find_template template_id (fst x) = Some t" "rt_scope t = ''tenant''"
    and g0: "g0 = \<lparr>gr_id = new_id, gr_tenant_id = tenant_id, gr_subject_type = strip subject_type, gr_subject_id = strip subject_id,
              gr_role_template_id = rt_id t, gr_policy_version = rt_version t\<rparr>"
    by (auto simp: tenant_grant_def rbind_Inr_iff normalize_subject_type_def normalize_subject_id_def
        split: option.splits if_splits)
  from assms obtain x1 x2 rules where core: "core_grant_role (env\<lparr>ae_invalidate := None\<rparr>) g0 (c\<lparr>rl_reason := Some reason\<rparr>) x = (x1, Inr g)"
    and fl: "flush_access x1 = (x2, Inr ())" and pj: "project_into og rule_id g t x2 = (x', Inr rules)"
    unfolding tenant_grant_role_def pre by (auto simp: sbind_returns)
  obtain tab cleared r where p: "project_grant og rule_id g (role_template.truncate t) (ac_policies (fst x2)) = (tab, cleared, r)"
    by (cases "project_grant og rule_id g (role_template.truncate t) (ac_policies (fst x2))")
  note c = core_grant_returns [OF core]
  have "x2 = x1" using flush_same [OF fl] .
  moreover have "distinct (map gr_id (ac_grants (fst x1)))" using fl by (simp add: returns)
  moreover have "authorized_for c tenant_id ''role_grant'' [''manage'', ''grant'']"
    using c(3) by (simp add: g0 authorized_for_def)
  ultimately show thesis using t c(1,2) p pj g0 by (intro that [of t tab cleared rules]) (auto simp: project_into_def)
qed

lemma rmap_elem: "rmap f xs = Inr ys \<Longrightarrow> y \<in> set ys \<longleftrightarrow> (\<exists>x \<in> set xs. f x = Inr y)"
  by (induction xs arbitrary: ys) (auto simp: rbind_Inr_iff)

definition template_opens :: "'a role_template_scheme \<Rightarrow> string \<Rightarrow> string \<Rightarrow> bool" where
  "template_opens t resource action \<longleftrightarrow>
     (\<exists>p \<in> set (rt_permissions t). dget p ''resource'' = Some resource \<and> dget p ''action'' = Some action)"

lemma required_key_ok: "required_key d k = Inr v \<longleftrightarrow> dget d k = Some v"
  by (simp add: required_key_def split: option.split)

lemma projected_rows:
  assumes "project_grant og rule_id g t tab = (tab', cleared, Inr rules)"
  shows "tab' = other_rows (gr_id g) tab @ map (\<lambda>r. (rule_id r, r)) rules"
    and "\<forall>r \<in> set rules. pr_role_grant_id r = gr_id g"
    and "(\<exists>r \<in> set rules. allows tenant subject resource action r) \<longleftrightarrow>
      tenant = gr_tenant_id g \<and> subject = subject_for_grant g \<and> template_opens t resource action"
proof -
  from assms obtain rules' where rules': "rules_for_grant og g t = Inr rules'"
    and r: "rules' = rules" and tab': "tab' = other_rows (gr_id g) tab @ map (\<lambda>r. (rule_id r, r)) rules"
    by (cases "rules_for_grant og g t") (auto simp: project_grant_def Let_def split: if_splits)
  then have "rmap (rule_for g) (rt_permissions t) = Inr rules" by (auto simp: rules_for_grant_def rbind_Inr_iff)
  note mem = rmap_elem [OF this]
  have rule: "rule_for g p = Inr r \<longleftrightarrow> (\<exists>resource action. dget p ''resource'' = Some resource \<and> dget p ''action'' = Some action \<and>
      r = \<lparr>pr_tenant_id = gr_tenant_id g, pr_subject = subject_for_grant g, pr_resource = resource, pr_action = action,
           pr_role_grant_id = gr_id g, pr_policy_version = gr_policy_version g, pr_effect = ''allow''\<rparr>)" for p r
    by (auto simp: rule_for_def rbind_Inr_iff required_key_ok)
  show "tab' = other_rows (gr_id g) tab @ map (\<lambda>r. (rule_id r, r)) rules" by (rule tab')
  show "\<forall>r \<in> set rules. pr_role_grant_id r = gr_id g" using mem rule by auto
  show "(\<exists>r \<in> set rules. allows tenant subject resource action r) \<longleftrightarrow>
      tenant = gr_tenant_id g \<and> subject = subject_for_grant g \<and> template_opens t resource action"
  proof -
    have one: "(\<exists>r. rule_for g p = Inr r \<and> allows tenant subject resource action r) \<longleftrightarrow>
        tenant = gr_tenant_id g \<and> subject = subject_for_grant g \<and>
        dget p ''resource'' = Some resource \<and> dget p ''action'' = Some action" for p
    proof
      assume "tenant = gr_tenant_id g \<and> subject = subject_for_grant g \<and>
        dget p ''resource'' = Some resource \<and> dget p ''action'' = Some action"
      then show "\<exists>r. rule_for g p = Inr r \<and> allows tenant subject resource action r"
        by (intro exI [of _ "\<lparr>pr_tenant_id = tenant, pr_subject = subject, pr_resource = resource, pr_action = action,
           pr_role_grant_id = gr_id g, pr_policy_version = gr_policy_version g, pr_effect = ''allow''\<rparr>"])
          (simp add: rule allows_def)
    qed (auto simp: rule allows_def)
    have "(\<exists>r \<in> set rules. allows tenant subject resource action r) \<longleftrightarrow>
        (\<exists>p \<in> set (rt_permissions t). \<exists>r. rule_for g p = Inr r \<and> allows tenant subject resource action r)"
      using mem by blast
    also have "\<dots> \<longleftrightarrow> tenant = gr_tenant_id g \<and> subject = subject_for_grant g \<and> template_opens t resource action"
      unfolding one template_opens_def by blast
    finally show ?thesis .
  qed
qed

lemma truncate_opens [simp]: "template_opens (role_template.truncate t) = template_opens t"
  by (simp add: template_opens_def fun_eq_iff role_template.defs)

text \<open>No policy of the table comes from a grant with this identifier.\<close>

definition no_policy_of :: "string \<Rightarrow> policy_table \<Rightarrow> bool" where
  "no_policy_of gid tab \<longleftrightarrow> list_all (\<lambda>(i, r). pr_role_grant_id r \<noteq> gid) tab"

lemma other_rows_fresh: "no_policy_of gid tab \<Longrightarrow> other_rows gid tab = tab"
  unfolding other_rows_def no_policy_of_def list_all_iff by (rule filter_True) auto

lemma other_rows_projected:
  assumes "no_policy_of gid tab" and "\<forall>r \<in> set rules. pr_role_grant_id r = gid"
  shows "other_rows gid (tab @ map (\<lambda>r. (rule_id r, r)) rules) = tab"
proof -
  have "filter (\<lambda>(i, r). pr_role_grant_id r \<noteq> gid) (map (\<lambda>r. (rule_id r, r)) rules) = []"
    using assms(2) by (auto simp: filter_empty_conv)
  then show ?thesis using other_rows_fresh [OF assms(1)] by (simp add: other_rows_def)
qed

text \<open>What the authorization service answers from the projected policies.\<close>

definition permits :: "access_tables \<Rightarrow> string \<Rightarrow> string \<Rightarrow> string \<Rightarrow> string \<Rightarrow> bool" where
  "permits tabs tenant_id subject resource action \<longleftrightarrow>
     projected_backend (ac_policies tabs) tenant_id subject resource action \<noteq> None"

lemma permits_iff: "permits tabs t s a b \<longleftrightarrow> (\<exists>r \<in> snd ` set (ac_policies tabs). allows t s a b r)"
  unfolding permits_def by (rule projected_backend_some)

lemma tenant_revoke_core:
  assumes "tenant_revoke_role env t gid c x = (x', Inr g)"
  obtains c' where "core_revoke_role (env\<lparr>ae_invalidate := None\<rparr>) gid c' x = (x', Inr g)"
proof (cases "require_reason (rl_reason c) ''Role revoke''")
  case (Inl e)
  with assms show thesis by (simp add: tenant_revoke_role_def)
next
  case (Inr reason)
  with assms that show thesis
    by (cases "find_grant gid (fst x)") (simp_all add: tenant_revoke_role_def split: if_splits)
qed

section \<open>Grants\<close>

lemma grant_opens_template:
  assumes "tenant_grant_role env og rule_id new_id tenant_id subject_type subject_id template_id c x = (x', Inr g)"
    and "no_policy_of new_id (ac_policies (fst x))"
  shows "authorized_for c tenant_id ''role_grant'' [''manage'', ''grant''] \<and>
    (\<exists>template. find_template template_id (fst x) = Some template \<and> rt_scope template = ''tenant'' \<and>
      permits (fst x') t s resource action =
        (permits (fst x) t s resource action \<or>
         t = tenant_id \<and> s = strip subject_type @ '':'' @ strip subject_id \<and> template_opens template resource action))"
proof -
  obtain template tab cleared rules where t: "find_template template_id (fst x) = Some template" "rt_scope template = ''tenant''"
      and g: "g = \<lparr>gr_id = new_id, gr_tenant_id = tenant_id, gr_subject_type = strip subject_type, gr_subject_id = strip subject_id,
              gr_role_template_id = rt_id template, gr_policy_version = rt_version template\<rparr>"
      and a: "authorized_for c tenant_id ''role_grant'' [''manage'', ''grant'']"
      and "distinct (map gr_id (ac_grants (fst x) @ [g]))"
      and pj: "project_grant og rule_id g (role_template.truncate template) (ac_policies (fst x)) = (tab, cleared, Inr rules)"
      and x': "fst x' = (fst x)\<lparr>ac_grants := ac_grants (fst x) @ [g], ac_policies := tab\<rparr>"
    by (rule tenant_grant_returns [OF assms(1)])
  have "tab = ac_policies (fst x) @ map (\<lambda>r. (rule_id r, r)) rules"
    using projected_rows(1) [OF pj] assms(2) by (simp add: g other_rows_fresh)
  then have "permits (fst x') t s resource action =
        (permits (fst x) t s resource action \<or> (\<exists>r \<in> set rules. allows t s resource action r))"
    unfolding permits_iff x' by (simp add: image_Un image_image bex_Un)
  also have "\<dots> = (permits (fst x) t s resource action \<or>
      t = tenant_id \<and> s = strip subject_type @ '':'' @ strip subject_id \<and> template_opens template resource action)"
    unfolding projected_rows(3) [OF pj] by (simp add: g subject_for_grant_def)
  finally show ?thesis using t a by blast
qed


text \<open>Round trip of a grant: revoking it, at any later time at which the tables are as it left them,
  restores grants, templates and policies to what they were, whoever revokes and whatever the
  publisher and the audit recorder do.
\<close>

theorem revocation_undoes_grant:
  assumes "tenant_grant_role env og rule_id new_id tenant_id subject_type subject_id template_id c x = (x1, Inr g)"
    and "no_policy_of new_id (ac_policies (fst x))"
    and "tenant_revoke_role env' tenant_id (gr_id g) c' (fst x1, w) = (x2, Inr g')"
  shows "fst x2 = fst x \<and> g' = g"
proof -
  obtain template tab cleared rules where "find_template template_id (fst x) = Some template" and "rt_scope template = ''tenant''"
      and g: "g = \<lparr>gr_id = new_id, gr_tenant_id = tenant_id, gr_subject_type = strip subject_type, gr_subject_id = strip subject_id,
              gr_role_template_id = rt_id template, gr_policy_version = rt_version template\<rparr>"
      and "authorized_for c tenant_id ''role_grant'' [''manage'', ''grant'']"
      and d: "distinct (map gr_id (ac_grants (fst x) @ [g]))"
      and pj: "project_grant og rule_id g (role_template.truncate template) (ac_policies (fst x)) = (tab, cleared, Inr rules)"
      and x1: "fst x1 = (fst x)\<lparr>ac_grants := ac_grants (fst x) @ [g], ac_policies := tab\<rparr>"
    by (rule tenant_grant_returns [OF assms(1)])
  have id: "gr_id g = new_id" by (simp add: g)
  obtain c'' where rv: "core_revoke_role (env'\<lparr>ae_invalidate := None\<rparr>) (gr_id g) c'' (fst x1, w) = (x2, Inr g')"
    using assms(3) by (rule tenant_revoke_core)
  note r = core_revoke_returns [OF rv, unfolded fst_conv x1]
  have "filter (\<lambda>h. gr_id h \<noteq> new_id) (ac_grants (fst x) @ [g]) = ac_grants (fst x)"
    using d id by (simp add: filter_id_conv) (metis imageI)
  moreover have "other_rows new_id tab = ac_policies (fst x)"
    using other_rows_projected [OF assms(2)] projected_rows(1,2) [OF pj] assms(2) by (simp add: id other_rows_fresh)
  ultimately have "fst x2 = fst x" using r(2) id by simp
  moreover have "g' = g"
  proof -
    have "g' \<in> set (ac_grants (fst x) @ [g])" "gr_id g' = gr_id g" using find_by_grant_id [OF r(1)] by simp_all
    moreover have "gr_id g \<notin> gr_id ` set (ac_grants (fst x))" using d by simp
    ultimately show ?thesis unfolding set_append by (metis UnE empty_iff imageI insert_iff list.set(1,2))
  qed
  ultimately show ?thesis by simp
qed

section \<open>Who may change roles\<close>

lemma sbind_sret_unless: "r \<noteq> Inr () \<Longrightarrow> fst (sbind (sret r) f x) = x"
  by (cases r) (auto simp: sbind_def)

lemma core_grant_unauthorized:
  assumes "\<not> authorized_for c (gr_tenant_id g) ''role_grant'' [''manage'', ''grant'']"
  shows "fst (core_grant_role env g c x) = x"
  unfolding core_grant_role_def by (rule sbind_sret_unless) (use assms in \<open>simp add: assert_role_grant_ok\<close>)

lemma core_revoke_unauthorized:
  assumes "find_grant gid (fst x) = Some g" and "\<not> authorized_for c (gr_tenant_id g) ''role_grant'' [''manage'', ''revoke'']"
  shows "fst (core_revoke_role env gid c x) = x"
  unfolding core_revoke_role_def assms(1) option.case
  by (rule sbind_sret_unless) (use assms(2) in \<open>simp add: assert_role_grant_ok\<close>)

lemma sbind_raised: "f x = (x', Inl e) \<Longrightarrow> fst (sbind f g x) = x'"
  by (simp add: sbind_Inl)

lemma authorized_reason [simp]: "authorized_for (c\<lparr>rl_reason := r\<rparr>) = authorized_for c"
  by (simp add: authorized_for_def fun_eq_iff)

lemma core_grant_unauthorized_raises:
  assumes "\<not> authorized_for c (gr_tenant_id g) ''role_grant'' [''manage'', ''grant'']"
  obtains e where "core_grant_role env g c x = (x, Inl e)"
proof -
  obtain e where "assert_role_grant_mutation (rl_decision c) (gr_tenant_id g) (rl_actor_id c) ''grant'' = Inl e"
    using assms by (cases "assert_role_grant_mutation (rl_decision c) (gr_tenant_id g) (rl_actor_id c) ''grant''")
      (auto simp: assert_role_grant_ok)
  then show thesis using that by (simp add: core_grant_role_def)
qed

lemma tenant_grant_unauthorized:
  assumes "\<not> authorized_for c tenant_id ''role_grant'' [''manage'', ''grant'']"
  shows "fst (tenant_grant_role env og rule_id new_id tenant_id subject_type subject_id template_id c x) = x"
proof (cases "tenant_grant new_id tenant_id subject_type subject_id template_id c (fst x)")
  case (Inl e)
  then show ?thesis by (simp add: tenant_grant_role_def)
next
  case (Inr p)
  obtain g t reason where p: "p = (g, t, reason)" by (cases p)
  have "gr_tenant_id g = tenant_id"
    using Inr unfolding p by (auto simp: tenant_grant_def rbind_Inr_iff split: option.splits if_splits)
  then have "\<not> authorized_for (c\<lparr>rl_reason := Some reason\<rparr>) (gr_tenant_id g) ''role_grant'' [''manage'', ''grant'']"
    using assms by simp
  then obtain e where "core_grant_role (env\<lparr>ae_invalidate := None\<rparr>) g (c\<lparr>rl_reason := Some reason\<rparr>) x = (x, Inl e)"
    by (rule core_grant_unauthorized_raises)
  then show ?thesis by (simp add: tenant_grant_role_def Inr p sbind_Inl)
qed

lemma tenant_revoke_unauthorized:
  assumes "\<not> authorized_for c tenant_id ''role_grant'' [''manage'', ''revoke'']"
  shows "fst (tenant_revoke_role env tenant_id gid c x) = x"
proof (cases "require_reason (rl_reason c) ''Role revoke''")
  case (Inl e)
  then show ?thesis by (simp add: tenant_revoke_role_def)
next
  case (Inr reason)
  show ?thesis
  proof (cases "find_grant gid (fst x)")
    case None
    then show ?thesis by (simp add: tenant_revoke_role_def Inr)
  next
    case (Some g)
    have "fst (core_revoke_role (env\<lparr>ae_invalidate := None\<rparr>) gid (c\<lparr>rl_reason := Some reason\<rparr>) x) = x" if "gr_tenant_id g = tenant_id"
      by (rule core_revoke_unauthorized [OF Some]) (use assms that in simp)
    then show ?thesis by (simp add: tenant_revoke_role_def Inr Some)
  qed
qed

lemma platform_admin_unauthorized:
  assumes "\<not> authorized_for c platform_tenant_id ''access.platform_admin'' [''manage'']"
  shows "fst (grant_platform_admin env new_id user_id template_id c x) = x"
proof -
  obtain e where e: "assert_platform_admin_mutation (rl_decision c) (rl_actor_id c) = Inl e"
    using assms by (cases "assert_platform_admin_mutation (rl_decision c) (rl_actor_id c)") (auto simp: assert_platform_admin_ok)
  show ?thesis
    by (cases "require_reason (rl_reason c) ''Platform administrator grant''") (simp_all add: grant_platform_admin_def e)
qed


section \<open>Templates\<close>

lemma update_template_policies:
  assumes "update_template reg i name permissions x = (x', r)"
  shows "ac_policies (fst x') = ac_policies (fst x)" "ac_grants (fst x') = ac_grants (fst x)" "snd x' = snd x"
proof -
  have p: "ac_policies (fst (fst (put_template t x))) = ac_policies (fst x)" "ac_grants (fst (fst (put_template t x))) = ac_grants (fst x)"
    "snd (fst (put_template t x)) = snd x" for t and x :: "'a access_state"
    by (simp_all add: put_template_def)
  have "ac_policies (fst x') = ac_policies (fst x) \<and> ac_grants (fst x') = ac_grants (fst x) \<and> snd x' = snd x"
  proof (cases "find_template i (fst x)")
    case None
    with assms show ?thesis by (auto simp: update_template_def)
  next
    case (Some t)
    note u = assms [unfolded update_template_def Some option.case]
    show ?thesis
    proof (cases "renamed name t")
      case (Inl e)
      with u show ?thesis by simp
    next
      case (Inr t1)
      show ?thesis
        using u by (cases "repermitted reg permissions t1") (auto simp: Inr sbind_def put_template_def flush_access_def split: prod.splits sum.splits if_splits)
    qed
  qed
  then show "ac_policies (fst x') = ac_policies (fst x)" "ac_grants (fst x') = ac_grants (fst x)" "snd x' = snd x" by simp_all
qed

text \<open>A change of a template does not reach those who hold it. After a grant and an update of its template
  that drops a permission, the backend still permits the dropped permission to the subject of the
  grant; the update publishes no event and records no audit, so nothing will project the change
  before somebody reconciles.
\<close>

theorem dropped_permission_stays_open:
  assumes "tenant_grant_role env og rule_id new_id tenant_id subject_type subject_id template_id c x = (x1, Inr g)"
    and "no_policy_of new_id (ac_policies (fst x))"
    and "find_template template_id (fst x) = Some template" and "template_opens template resource action"
    and "update_template reg template_id name permissions x1 = (x2, Inr updated)"
    and "\<not> template_opens updated resource action"
  shows "permits (fst x2) tenant_id (strip subject_type @ '':'' @ strip subject_id) resource action \<and> snd x2 = snd x1"
proof -
  from grant_opens_template [OF assms(1,2), of tenant_id "strip subject_type @ '':'' @ strip subject_id" resource action]
  have "permits (fst x1) tenant_id (strip subject_type @ '':'' @ strip subject_id) resource action"
    using assms(3,4) by auto
  then show ?thesis using update_template_policies [OF assms(5)] by (simp add: permits_def)
qed

section \<open>The first platform administrator\<close>

lemma platform_permissions_from_form:
  "p \<in> set (platform_permissions_from seen ps) \<Longrightarrow> \<exists>r a. p = [(''resource'', r), (''action'', a)]"
  by (induction seen ps rule: platform_permissions_from.induct) (auto split: if_splits)

lemma platform_permissions_from_mem:
  "[(''resource'', r), (''action'', a)] \<in> set (platform_permissions_from seen ps) \<longleftrightarrow>
     (r, a) \<notin> set seen \<and> (\<exists>p \<in> set ps. rp_scope p = ''platform'' \<and> rp_resource p = r \<and> rp_action p = a)"
  by (induction seen ps rule: platform_permissions_from.induct) auto

lemma platform_permissions_open:
  "(\<exists>p \<in> set (platform_permissions reg). dget p ''resource'' = Some r \<and> dget p ''action'' = Some a) \<longleftrightarrow>
     has_permission reg r a (Some ''platform'')"
proof -
  have "(\<exists>p \<in> set (platform_permissions reg). dget p ''resource'' = Some r \<and> dget p ''action'' = Some a) \<longleftrightarrow>
      [(''resource'', r), (''action'', a)] \<in> set (platform_permissions reg)"
  proof
    assume "\<exists>p \<in> set (platform_permissions reg). dget p ''resource'' = Some r \<and> dget p ''action'' = Some a"
    then obtain p where p: "p \<in> set (platform_permissions reg)" "dget p ''resource'' = Some r" "dget p ''action'' = Some a"
      by blast
    then obtain r' a' where "p = [(''resource'', r'), (''action'', a')]"
      unfolding platform_permissions_def by (auto dest: platform_permissions_from_form)
    with p show "[(''resource'', r), (''action'', a)] \<in> set (platform_permissions reg)" by (simp add: dget_def)
  next
    assume "[(''resource'', r), (''action'', a)] \<in> set (platform_permissions reg)"
    then show "\<exists>p \<in> set (platform_permissions reg). dget p ''resource'' = Some r \<and> dget p ''action'' = Some a"
      by (intro bexI) (auto simp: dget_def)
  qed
  then show ?thesis unfolding platform_permissions_def platform_permissions_from_mem by (auto simp: has_permission_def)
qed

lemma bootstrap_returns:
  assumes "bootstrap_first_admin reg rule_id new_id user_id template_id template_name reason x = (x', Inr b)"
    and "find_template (strip template_id) (fst x) = None"
  obtains t g tab cleared rules where "rt_permissions t = platform_permissions reg"
    and "g = \<lparr>gr_id = new_id, gr_tenant_id = platform_tenant_id, gr_subject_type = ''user'', gr_subject_id = strip user_id,
              gr_role_template_id = rt_id t, gr_policy_version = rt_version t\<rparr>"
    and "project_grant (Some reg) rule_id g (role_template.truncate t) (ac_policies (fst x)) = (tab, cleared, Inr rules)"
    and "fst x' = (fst x)\<lparr>ac_templates := ac_templates (fst x) @ [t], ac_grants := ac_grants (fst x) @ [g], ac_policies := tab\<rparr>"
    and "platform_grant_count (fst x) = 0"
proof -
  obtain n where pre: "rbind (required_text ''user_id'' user_id) (\<lambda>u. rbind (required_text ''role_template_id'' template_id) (\<lambda>i.
        rbind (required_text ''template_name'' template_name) (\<lambda>n. rbind (required_text ''reason'' reason) (\<lambda>_. Inr (u, i, n)))))
      = Inr (strip user_id, strip template_id, n)"
    using assms(1) unfolding bootstrap_first_admin_def required_text_def by (auto split: if_splits)
  note r = assms(1) [unfolded bootstrap_first_admin_def pre sum.case prod.case Let_def]
  then have zero: "platform_grant_count (fst x) = 0" by (simp split: if_splits)
  let ?g = "\<lambda>t. \<lparr>gr_id = new_id, gr_tenant_id = platform_tenant_id, gr_subject_type = ''user'', gr_subject_id = strip user_id,
      gr_role_template_id = rt_id t, gr_policy_version = rt_version t\<rparr>"
  from r zero obtain x1 t x2 rules x3 where bt: "bootstrap_template reg (strip template_id) n x = (x1, Inr t)"
    and x2: "add_grant (?g t) x1 = (x2, Inr ())"
    and pj: "project_into (Some reg) rule_id (?g t) t x2 = (x3, Inr rules)" and x3: "x' = x3"
    by (simp add: returns) blast
  from bt have t: "rt_permissions t = platform_permissions reg"
    and x1: "fst x1 = (fst x)\<lparr>ac_templates := ac_templates (fst x) @ [t]\<rparr>"
    using assms(2) by (auto simp: bootstrap_template_def Let_def returns add_template_def split: if_splits)
  have "fst x2 = (fst x)\<lparr>ac_templates := ac_templates (fst x) @ [t], ac_grants := ac_grants (fst x) @ [?g t]\<rparr>"
    using x2 x1 by (auto simp: add_grant_def)
  moreover obtain tab cleared r where "project_grant (Some reg) rule_id (?g t) (role_template.truncate t) (ac_policies (fst x2)) = (tab, cleared, r)"
    by (cases "project_grant (Some reg) rule_id (?g t) (role_template.truncate t) (ac_policies (fst x2))")
  ultimately show thesis using pj x3 t zero
    by (intro that [OF t refl, of tab cleared rules]) (auto simp: project_into_def)
qed

text \<open>The first administrator. When the bootstrap returns and its template is new, no platform grant existed
  before; the user holds exactly the registered permissions of platform scope, in the platform tenant,
  and nobody else gains anything; and every later bootstrap, for whomever, is refused and changes nothing.
\<close>

theorem first_admin_holds_the_platform:
  assumes "bootstrap_first_admin reg rule_id new_id user_id template_id template_name reason x = (x', Inr b)"
    and "find_template (strip template_id) (fst x) = None" and "no_policy_of new_id (ac_policies (fst x))"
  shows "platform_grant_count (fst x) = 0 \<and>
    permits (fst x') t s resource action = (permits (fst x) t s resource action \<or>
      t = platform_tenant_id \<and> s = ''user:'' @ strip user_id \<and> has_permission reg resource action (Some ''platform'')) \<and>
    fst (bootstrap_first_admin reg' rule_id' new_id' user_id' template_id' template_name' reason' x') = x' \<and>
    \<not> is_ok (snd (bootstrap_first_admin reg' rule_id' new_id' user_id' template_id' template_name' reason' x'))"
proof -
  obtain template g tab cleared rules where perms: "rt_permissions template = platform_permissions reg"
    and g: "g = \<lparr>gr_id = new_id, gr_tenant_id = platform_tenant_id, gr_subject_type = ''user'', gr_subject_id = strip user_id,
              gr_role_template_id = rt_id template, gr_policy_version = rt_version template\<rparr>"
    and pj: "project_grant (Some reg) rule_id g (role_template.truncate template) (ac_policies (fst x)) = (tab, cleared, Inr rules)"
    and x': "fst x' = (fst x)\<lparr>ac_templates := ac_templates (fst x) @ [template], ac_grants := ac_grants (fst x) @ [g], ac_policies := tab\<rparr>"
    and zero: "platform_grant_count (fst x) = 0"
    by (rule bootstrap_returns [OF assms(1,2)])
  have "tab = ac_policies (fst x) @ map (\<lambda>r. (rule_id r, r)) rules"
    using projected_rows(1) [OF pj] assms(3) by (simp add: g other_rows_fresh)
  then have "permits (fst x') t s resource action =
        (permits (fst x) t s resource action \<or> (\<exists>r \<in> set rules. allows t s resource action r))"
    unfolding permits_iff x' by (simp add: image_Un image_image bex_Un)
  moreover have "(\<exists>r \<in> set rules. allows t s resource action r) \<longleftrightarrow> t = platform_tenant_id \<and> s = ''user:'' @ strip user_id \<and>
      has_permission reg resource action (Some ''platform'')"
    unfolding projected_rows(3) [OF pj] template_opens_def role_template.defs
    using platform_permissions_open [of reg resource action] by (simp add: g subject_for_grant_def perms role_template.truncate_def)
  moreover have "platform_grant_count (fst x') \<noteq> 0" unfolding platform_grant_count_def x' by (simp add: g)
  then have "fst (bootstrap_first_admin reg' rule_id' new_id' user_id' template_id' template_name' reason' x') = x' \<and>
    \<not> is_ok (snd (bootstrap_first_admin reg' rule_id' new_id' user_id' template_id' template_name' reason' x'))"
    unfolding bootstrap_first_admin_def by (simp add: required_text_def)
  ultimately show ?thesis using zero by simp
qed

section \<open>Witnesses\<close>

definition quiet_env :: "unit access_env" where
  "quiet_env = \<lparr>ae_publish = (\<lambda>t a i n p. sret (Inr ())), ae_audit = Some (\<lambda>e. sret (Inr ())), ae_invalidate = None\<rparr>"

definition note_registry :: permission_registry where
  "note_registry = \<lparr>pg_permissions =
     [\<lparr>rp_app_label = ''notes'', rp_scope = ''tenant'', rp_resource = ''note'', rp_action = ''read''\<rparr>,
      \<lparr>rp_app_label = ''notes'', rp_scope = ''tenant'', rp_resource = ''note'', rp_action = ''write''\<rparr>,
      \<lparr>rp_app_label = ''core'', rp_scope = ''platform'', rp_resource = ''tenant'', rp_action = ''manage''\<rparr>], pg_errors = []\<rparr>"

definition editor :: stored_template where
  "editor = \<lparr>rt_id = ''e'', rt_scope = ''tenant'', rt_permissions =
     [[(''resource'', ''note''), (''action'', ''read'')], [(''resource'', ''note''), (''action'', ''write'')]],
     rt_name = ''editor'', rt_version = 1\<rparr>"

definition one_template :: access_tables where
  "one_template = \<lparr>ac_templates = [editor], ac_grants = [], ac_policies = []\<rparr>"

definition role_admin :: role_caller where
  "role_admin = \<lparr>rl_actor_id = ''root'', rl_request_id = ''q'',
     rl_decision = Some \<lparr>de_allowed = True, de_tenant_id = ''t'', de_user_id = ''root'', de_resource = ''role_grant'',
       de_action = ''manage'', de_reason = ''ok'', de_policy_version = None\<rparr>, rl_reason = Some ''new editor''\<rparr>"

definition ann_edits :: role_grant where
  "ann_edits = \<lparr>gr_id = ''g'', gr_tenant_id = ''t'', gr_subject_type = ''user'', gr_subject_id = ''ann'',
     gr_role_template_id = ''e'', gr_policy_version = 1\<rparr>"

definition ann_rule :: "string \<Rightarrow> policy_rule" where
  "ann_rule action = \<lparr>pr_tenant_id = ''t'', pr_subject = ''user:ann'', pr_resource = ''note'', pr_action = action,
     pr_role_grant_id = ''g'', pr_policy_version = 1, pr_effect = ''allow''\<rparr>"

definition granted_tables :: access_tables where
  "granted_tables = \<lparr>ac_templates = [editor], ac_grants = [ann_edits],
     ac_policies = [(''read'', ann_rule ''read''), (''write'', ann_rule ''write'')]\<rparr>"

lemma ann_granted:
  "tenant_grant_role quiet_env (Some note_registry) pr_action ''g'' ''t'' '' user'' ''ann '' ''e'' role_admin (one_template, ()) =
     ((granted_tables, ()), Inr ann_edits)"
  by code_simp


theorem revocation_undoes_grant_witness:
  "\<exists>x g. tenant_revoke_role quiet_env ''t'' ''g'' role_admin (granted_tables, ()) = (x, Inr g) \<and> fst x = one_template"
proof -
  have "is_ok (snd (tenant_revoke_role quiet_env ''t'' ''g'' role_admin (granted_tables, ())))" by code_simp
  then obtain x g where r: "tenant_revoke_role quiet_env ''t'' ''g'' role_admin (granted_tables, ()) = (x, Inr g)"
    by (cases "tenant_revoke_role quiet_env ''t'' ''g'' role_admin (granted_tables, ())"; cases "snd (tenant_revoke_role quiet_env ''t'' ''g'' role_admin (granted_tables, ()))") auto
  have "no_policy_of ''g'' (ac_policies (fst (one_template, ())))" and "gr_id ann_edits = ''g''" by code_simp+
  with revocation_undoes_grant [OF ann_granted, where env' = quiet_env and c' = role_admin and w = "()" and ?x2.0 = x and g' = g] r
  show ?thesis by auto
qed

definition reader :: stored_template where
  "reader = \<lparr>rt_id = ''e'', rt_scope = ''tenant'', rt_permissions = [[(''resource'', ''note''), (''action'', ''read'')]],
     rt_name = ''editor'', rt_version = 2\<rparr>"

lemma write_dropped:
  "update_template note_registry ''e'' None (Some [[(''resource'', ''note''), (''action'', ''read'')]]) (granted_tables, ()) =
     ((granted_tables\<lparr>ac_templates := [reader]\<rparr>, ()), Inr reader)"
  by code_simp

theorem dropped_permission_stays_open_witness:
  "permits (granted_tables\<lparr>ac_templates := [reader]\<rparr>) ''t'' ''user:ann'' ''note'' ''write'' \<and> \<not> template_opens reader ''note'' ''write''"
proof -
  have "no_policy_of ''g'' (ac_policies (fst (one_template, ())))" and "\<not> template_opens reader ''note'' ''write''"
    and "find_template ''e'' one_template = Some editor" "template_opens editor ''note'' ''write''"
    and "strip '' user'' @ '':'' @ strip ''ann '' = ''user:ann''" by code_simp+
  with dropped_permission_stays_open [OF ann_granted _ _ _ write_dropped, of editor "''note''" "''write''"] show ?thesis by simp
qed

theorem first_admin_holds_the_platform_witness:
  "\<exists>x b. bootstrap_first_admin note_registry pr_action ''g'' ''ann'' ''pa'' ''admins'' ''first'' (one_template, ()) = (x, Inr b) \<and>
     permits (fst x) platform_tenant_id ''user:ann'' ''tenant'' ''manage'' \<and>
     \<not> is_ok (snd (bootstrap_first_admin note_registry pr_action ''h'' ''bob'' ''pa'' ''admins'' ''second'' x))"
proof -
  let ?r = "bootstrap_first_admin note_registry pr_action ''g'' ''ann'' ''pa'' ''admins'' ''first'' (one_template, ())"
  have "is_ok (snd ?r)" by code_simp
  then obtain x b where r: "?r = (x, Inr b)" by (cases ?r; cases "snd ?r") auto
  have f: "find_template (strip ''pa'') (fst (one_template, ())) = None" "no_policy_of ''g'' (ac_policies (fst (one_template, ())))"
    "has_permission note_registry ''tenant'' ''manage'' (Some ''platform'')" "''user:'' @ strip ''ann'' = ''user:ann''" by code_simp+
  note first_admin_holds_the_platform [OF r f(1,2)]
  from this [of platform_tenant_id "''user:ann''" "''tenant''" "''manage''"]
    this [where reg' = note_registry and rule_id' = pr_action and new_id' = "''h''" and user_id' = "''bob''" and template_id' = "''pa''"
      and template_name' = "''admins''" and reason' = "''second''"] f(3,4) r
  show ?thesis by auto
qed

end
