(* ===== verification/Frontend_Access.thy ===== *)
theory Frontend_Access
  imports Role_Grants
begin

text \<open>
  Frontend access mappings of the access app (\<open>platform_apps/access/services.py\<close>): boolean expressions
  over permissions that tell a client what to show, their validation and revisions, and their
  evaluation against the projected policies of a user.

  What a client sends is a JSON value; what is stored is the normalized expression, a datatype, whose
  JSON form is \<open>expression_json\<close>. A set of permissions is a list without repetitions, in the order in
  which its elements first appear, unless the code sorts it. \<open>str_of\<close> is Python's \<open>str\<close> of a value that
  is not a string, \<open>digest\<close> the shortened SHA-256 of the canonical JSON text of a value.
\<close>

section \<open>Permissions as text\<close>

definition parse_access_permission :: "string \<Rightarrow> (string \<times> string) result" where
  "parse_access_permission v =
    (let bad = Inl (app_error ''VALIDATION_ERROR'' ''Permission must use resource:action format'' (Some 400)
       [(''permission'', PStr v)]) in
     case rpartition_colon v of
       None \<Rightarrow> bad
     | Some (resource, action) \<Rightarrow> if blank resource \<or> blank action then bad else Inr (strip resource, strip action))"

definition format_permission :: "string \<Rightarrow> string \<Rightarrow> string" where
  "format_permission resource action = resource @ '':'' @ action"

section \<open>Expressions\<close>

datatype access_expression =
    Permission string
  | All "access_expression list"
  | Any "access_expression list"

fun expression_json :: "access_expression \<Rightarrow> pyval" where
  "expression_json (Permission p) = PDict [(''permission'', PStr p)]"
| "expression_json (All es) = PDict [(''all'', PList (map expression_json es))]"
| "expression_json (Any es) = PDict [(''any'', PList (map expression_json es))]"

lemma rmap_cong [fundef_cong]: "xs = ys \<Longrightarrow> (\<And>x. x \<in> set ys \<Longrightarrow> f x = g x) \<Longrightarrow> rmap f xs = rmap g ys"
proof (induction ys arbitrary: xs)
  case (Cons y ys)
  then have "f y = g y" "rmap f ys = rmap g ys" by auto
  then show ?case using Cons.prems(1) by simp
qed simp

lemma dget_size: "dget d k = Some v \<Longrightarrow> size v < size (PDict d)"
proof -
  assume "dget d k = Some v"
  then have m: "(k, v) \<in> set d" by (simp add: dget_def map_of_SomeD)
  have "size_prod (\<lambda>_. 0) size (k, v) < Suc (size_list (size_prod (\<lambda>_. 0) size) d)"
    using size_list_estimation' [OF m, of "size_prod (\<lambda>_. 0) size (k, v)" "size_prod (\<lambda>_. 0) size"] by simp
  then show ?thesis by simp
qed

lemma list_item_size: "v \<in> set vs \<Longrightarrow> size v < size (PList vs)"
  using size_list_estimation' [of v vs "size v" size] by simp

definition text_value :: "(pyval \<Rightarrow> string) \<Rightarrow> pyval \<Rightarrow> string" where
  "text_value str_of v = (case v of PStr s \<Rightarrow> s | _ \<Rightarrow> str_of v)"

definition expression_keys :: "string list" where
  "expression_keys = [''permission'', ''all'', ''any'']"

definition bad_expression :: "string \<Rightarrow> exn" where
  "bad_expression m = validation_error (''Frontend access '' @ m)"

function normalize_expression :: "(pyval \<Rightarrow> string) \<Rightarrow> pyval \<Rightarrow> access_expression result" where
  "normalize_expression str_of v =
    (case v of
       PDict d \<Rightarrow>
         if length (filter (\<lambda>k. k \<in> set expression_keys) (remdups (map fst d))) \<noteq> 1
            \<or> filter (\<lambda>k. k \<notin> set expression_keys) (map fst d) \<noteq> []
           then Inl (bad_expression ''expression must contain exactly one of permission, all or any'')
         else (case dget d ''permission'' of
           Some p \<Rightarrow> rbind (parse_access_permission (text_value str_of p)) (\<lambda>(resource, action).
             Inr (Permission (format_permission resource action)))
         | None \<Rightarrow>
           (case dget d ''all'' of
              Some (PList vs) \<Rightarrow>
                if vs = [] then Inl (bad_expression ''all expression requires a non-empty list'')
                else rbind (rmap (normalize_expression str_of) vs) (\<lambda>es. Inr (All es))
            | Some _ \<Rightarrow> Inl (bad_expression ''all expression requires a non-empty list'')
            | None \<Rightarrow>
              (case dget d ''any'' of
                 Some (PList vs) \<Rightarrow>
                   if vs = [] then Inl (bad_expression ''any expression requires a non-empty list'')
                   else rbind (rmap (normalize_expression str_of) vs) (\<lambda>es. Inr (Any es))
               | _ \<Rightarrow> Inl (bad_expression ''any expression requires a non-empty list''))))
     | _ \<Rightarrow> Inl (bad_expression ''expression must be an object''))"
  by pat_completeness auto

termination
  by (relation "measure (\<lambda>(str_of, v). size v)")
    (simp_all del: pyval.size, (metis dget_size list_item_size less_trans)+)

declare normalize_expression.simps [simp del]

text \<open>The permissions of an expression, and its value under a set of permissions: \<open>all\<close> and \<open>any\<close>
  stop at the first child that decides, so a later child that would raise is not looked at.\<close>

fun expression_pairs :: "access_expression \<Rightarrow> (string \<times> string) list result" where
  "expression_pairs (Permission p) = rbind (parse_access_permission p) (\<lambda>x. Inr [x])"
| "expression_pairs (All es) = rbind (rmap expression_pairs es) (\<lambda>xss. Inr (remdups (concat xss)))"
| "expression_pairs (Any es) = rbind (rmap expression_pairs es) (\<lambda>xss. Inr (remdups (concat xss)))"

fun all_children :: "('a \<Rightarrow> bool result) \<Rightarrow> 'a list \<Rightarrow> bool result" where
  "all_children f [] = Inr True"
| "all_children f (x # xs) = rbind (f x) (\<lambda>b. if b then all_children f xs else Inr False)"

fun any_child :: "('a \<Rightarrow> bool result) \<Rightarrow> 'a list \<Rightarrow> bool result" where
  "any_child f [] = Inr False"
| "any_child f (x # xs) = rbind (f x) (\<lambda>b. if b then Inr True else any_child f xs)"

lemma all_children_cong [fundef_cong]:
  "xs = ys \<Longrightarrow> (\<And>x. x \<in> set ys \<Longrightarrow> f x = g x) \<Longrightarrow> all_children f xs = all_children g ys"
proof (induction ys arbitrary: xs)
  case (Cons y ys)
  then have "f y = g y" "all_children f ys = all_children g ys" by auto
  then show ?case using Cons.prems(1) by (cases "g y") simp_all
qed simp

lemma any_child_cong [fundef_cong]:
  "xs = ys \<Longrightarrow> (\<And>x. x \<in> set ys \<Longrightarrow> f x = g x) \<Longrightarrow> any_child f xs = any_child g ys"
proof (induction ys arbitrary: xs)
  case (Cons y ys)
  then have "f y = g y" "any_child f ys = any_child g ys" by auto
  then show ?case using Cons.prems(1) by (cases "g y") simp_all
qed simp

fun evaluate_expression :: "access_expression \<Rightarrow> (string \<times> string) list \<Rightarrow> bool result" where
  "evaluate_expression (Permission p) allowed = rbind (parse_access_permission p) (\<lambda>x. Inr (x \<in> set allowed))"
| "evaluate_expression (All es) allowed = all_children (\<lambda>e. evaluate_expression e allowed) es"
| "evaluate_expression (Any es) allowed = any_child (\<lambda>e. evaluate_expression e allowed) es"

section \<open>Validation\<close>

definition normalize_evaluation_scope :: "string \<Rightarrow> string result" where
  "normalize_evaluation_scope v = (if strip v \<notin> {''tenant'', ''platform''}
     then Inl (validation_error ''Frontend access evaluation_scope must be tenant or platform'') else Inr (strip v))"

definition normalize_access_status :: "string \<Rightarrow> string result" where
  "normalize_access_status v = (if strip v \<notin> {''active'', ''disabled'', ''deprecated''}
     then Inl (validation_error ''Frontend access status must be active, disabled or deprecated'') else Inr (strip v))"

definition optional_text :: "string option \<Rightarrow> string option" where
  "optional_text v = (case v of None \<Rightarrow> None | Some s \<Rightarrow> if blank s then None else Some (strip s))"

definition registered_for_scope :: "permission_registry \<Rightarrow> string \<Rightarrow> string \<Rightarrow> string \<Rightarrow> bool" where
  "registered_for_scope reg scope resource action \<longleftrightarrow>
    (if scope = ''platform'' then has_permission reg resource action (Some ''platform'')
     else list_ex (\<lambda>p. rp_resource p = resource \<and> rp_action p = action \<and>
       rp_scope p \<in> {''tenant'', ''own'', ''resource''}) (pg_permissions reg))"

definition check_registered :: "permission_registry \<Rightarrow> string \<Rightarrow> string \<times> string \<Rightarrow> unit result" where
  "check_registered reg scope = (\<lambda>(resource, action).
    if registered_for_scope reg scope resource action then Inr ()
    else Inl (app_error ''VALIDATION_ERROR'' ''Frontend access permission is not registered for scope'' (Some 400)
      [(''evaluation_scope'', PStr scope), (''resource'', PStr resource), (''action'', PStr action)]))"

definition validate_expression ::
  "(pyval \<Rightarrow> string) \<Rightarrow> permission_registry \<Rightarrow> string \<Rightarrow> pyval \<Rightarrow> access_expression result" where
  "validate_expression str_of reg scope v =
    rbind (normalize_evaluation_scope scope) (\<lambda>scope.
    rbind (normalize_expression str_of v) (\<lambda>e.
    rbind (expression_pairs e) (\<lambda>pairs.
    rbind (check_all (check_registered reg scope) pairs) (\<lambda>_. Inr e))))"

section \<open>Mappings and their revisions\<close>

record access_mapping =
  fm_id :: string
  fm_client_id :: string
  fm_access_key :: string
  fm_owner_module :: string
  fm_evaluation_scope :: string
  fm_expression :: access_expression
  fm_description :: "string option"
  fm_status :: string
  fm_version :: int
  fm_updated_by :: string
  fm_reason :: string

record mapping_revision =
  fr_id :: string
  fr_mapping_id :: string
  fr_client_id :: string
  fr_access_key :: string
  fr_old_expression :: "access_expression option"
  fr_new_expression :: "access_expression option"
  fr_old_status :: "string option"
  fr_new_status :: "string option"
  fr_version :: int
  fr_changed_by :: string
  fr_reason :: string

type_synonym 'w mapping_state = "(access_mapping list \<times> mapping_revision list) \<times> 'w"

record 'w mapping_service =
  ms_registry :: permission_registry
  ms_audit :: "(audit_event \<Rightarrow> ('w, unit) state_op) option"
  ms_str_of :: "pyval \<Rightarrow> string"

definition find_mapping :: "string \<Rightarrow> string \<Rightarrow> access_mapping list \<Rightarrow> access_mapping option result" where
  "find_mapping client_id access_key mappings =
    rbind (required_text ''client_id'' client_id) (\<lambda>c. rbind (required_text ''access_key'' access_key) (\<lambda>k.
      Inr (find (\<lambda>m. fm_client_id m = c \<and> fm_access_key m = k) mappings)))"

definition get_mapping :: "string \<Rightarrow> string \<Rightarrow> access_mapping list \<Rightarrow> access_mapping result" where
  "get_mapping client_id access_key mappings =
    rbind (find_mapping client_id access_key mappings) (\<lambda>om. case om of
      None \<Rightarrow> Inl (app_error ''NOT_FOUND'' (''Frontend access mapping '' @ repr_str access_key @ '' not found'') (Some 404) [])
    | Some m \<Rightarrow> Inr m)"

definition list_mappings :: "string \<Rightarrow> access_mapping list \<Rightarrow> access_mapping list result" where
  "list_mappings client_id mappings =
    rbind (required_text ''client_id'' client_id) (\<lambda>c.
      Inr (sort_key fm_access_key (filter (\<lambda>m. fm_client_id m = c) mappings)))"

definition list_revisions ::
  "string \<Rightarrow> string \<Rightarrow> access_mapping list \<Rightarrow> mapping_revision list \<Rightarrow> mapping_revision list result" where
  "list_revisions client_id access_key mappings revisions =
    rbind (get_mapping client_id access_key mappings) (\<lambda>m.
      Inr (sort_key fr_version (filter (\<lambda>r. fr_mapping_id r = fm_id m) revisions)))"

definition audit_mapping ::
  "'w mapping_service \<Rightarrow> string \<Rightarrow> access_mapping option \<Rightarrow> string \<Rightarrow> string \<Rightarrow> string \<Rightarrow> (string \<times> pyval) list
    \<Rightarrow> ('w mapping_state, unit) state_op" where
  "audit_mapping svc action om actor_id request_id reason payload =
    (case ms_audit svc of
       None \<Rightarrow> sret (Inr ())
     | Some record \<Rightarrow> on_world_of (record \<lparr>au_action = action, au_resource_type = ''frontend_access_mapping'',
         au_resource_id = map_option fm_id om, au_result = ''success'', au_tenant = Some platform_tenant_id,
         au_actor = Some actor_id, au_reason = Some reason, au_policy_version = map_option fm_version om,
         au_request_id = Some request_id,
         au_payload = (if payload \<noteq> [] then payload else (case om of None \<Rightarrow> []
           | Some m \<Rightarrow> [(''client_id'', PStr (fm_client_id m)), (''access_key'', PStr (fm_access_key m)),
               (''evaluation_scope'', PStr (fm_evaluation_scope m)), (''status'', PStr (fm_status m))]))\<rparr>))"

definition revision_of ::
  "string \<Rightarrow> access_mapping \<Rightarrow> access_expression option \<Rightarrow> string option \<Rightarrow> mapping_revision" where
  "revision_of new_id m old_expression old_status =
    \<lparr>fr_id = new_id, fr_mapping_id = fm_id m, fr_client_id = fm_client_id m, fr_access_key = fm_access_key m,
     fr_old_expression = old_expression, fr_new_expression = Some (fm_expression m), fr_old_status = old_status,
     fr_new_status = Some (fm_status m), fr_version = fm_version m, fr_changed_by = fm_updated_by m, fr_reason = fm_reason m\<rparr>"

definition add_revision :: "mapping_revision \<Rightarrow> ('w mapping_state, unit) state_op" where
  "add_revision r x = (((fst (fst x), snd (fst x) @ [r]), snd x), Inr ())"

definition add_mapping :: "access_mapping \<Rightarrow> ('w mapping_state, unit) state_op" where
  "add_mapping m x = (((fst (fst x) @ [m], snd (fst x)), snd x), Inr ())"

definition put_mapping :: "access_mapping \<Rightarrow> ('w mapping_state, unit) state_op" where
  "put_mapping m x = (((map (\<lambda>n. if fm_id n = fm_id m then m else n) (fst (fst x)), snd (fst x)), snd x), Inr ())"

definition flush_mappings :: "('w mapping_state, unit) state_op" where
  "flush_mappings x = (x, if distinct (map fm_id (fst (fst x))) \<and>
     distinct (map (\<lambda>m. (fm_client_id m, fm_access_key m)) (fst (fst x))) then Inr () else Inl integrity_error)"

record mapping_caller =
  mc_actor_id :: string
  mc_request_id :: string
  mc_reason :: "string option"

text \<open>What \<open>create_mapping\<close> checks, in the order of the code, and the row it adds.\<close>

definition new_mapping ::
  "'w mapping_service \<Rightarrow> string \<Rightarrow> string \<Rightarrow> string \<Rightarrow> string \<Rightarrow> string \<Rightarrow> pyval \<Rightarrow> string option \<Rightarrow> mapping_caller
    \<Rightarrow> access_mapping list \<Rightarrow> access_mapping result" where
  "new_mapping svc new_id client_id access_key owner_module scope v description c mappings =
    rbind (require_reason (mc_reason c) ''Frontend access mapping'') (\<lambda>reason.
    rbind (required_text ''client_id'' client_id) (\<lambda>client. rbind (required_text ''access_key'' access_key) (\<lambda>key.
    rbind (find_mapping client key mappings) (\<lambda>om.
    if om \<noteq> None then Inl (app_error ''CONFLICT'' ''Frontend access mapping already exists'' (Some 409)
      [(''client_id'', PStr client), (''access_key'', PStr key)])
    else
    rbind (normalize_evaluation_scope scope) (\<lambda>scope.
    rbind (validate_expression (ms_str_of svc) (ms_registry svc) scope v) (\<lambda>e.
    rbind (required_text ''owner_module'' owner_module) (\<lambda>owner.
      Inr \<lparr>fm_id = new_id, fm_client_id = client, fm_access_key = key, fm_owner_module = owner, fm_evaluation_scope = scope,
        fm_expression = e, fm_description = optional_text description, fm_status = ''active'', fm_version = 1,
        fm_updated_by = mc_actor_id c, fm_reason = reason\<rparr>)))))))"

definition create_mapping ::
  "'w mapping_service \<Rightarrow> string \<Rightarrow> string \<Rightarrow> string \<Rightarrow> string \<Rightarrow> string \<Rightarrow> string \<Rightarrow> pyval \<Rightarrow> string option \<Rightarrow> mapping_caller
    \<Rightarrow> ('w mapping_state, access_mapping) state_op" where
  "create_mapping svc new_id revision_id client_id access_key owner_module scope v description c x =
    (case new_mapping svc new_id client_id access_key owner_module scope v description c (fst (fst x)) of
       Inl e \<Rightarrow> (x, Inl e)
     | Inr m \<Rightarrow>
        (sbind (add_mapping m) (\<lambda>_. sbind flush_mappings (\<lambda>_.
         sbind (add_revision (revision_of revision_id m None None)) (\<lambda>_.
         sbind (audit_mapping svc ''frontend_access.mapping_created'' (Some m) (mc_actor_id c) (mc_request_id c) (fm_reason m) []) (\<lambda>_.
           sret (Inr m))))) x))"

text \<open>The changes of \<open>update_mapping\<close>: the attributes before the status, which may still raise.\<close>

record mapping_changes =
  mu_owner_module :: "string option"
  mu_evaluation_scope :: "string option"
  mu_expression :: "pyval option"
  mu_description :: "string option"
  mu_status :: "string option"

definition map_optional :: "('a \<Rightarrow> 'b result) \<Rightarrow> 'a option \<Rightarrow> 'b option result" where
  "map_optional f o' = (case o' of None \<Rightarrow> Inr None | Some v \<Rightarrow> rbind (f v) (\<lambda>w. Inr (Some w)))"

definition keep :: "'a \<Rightarrow> 'a option \<Rightarrow> 'a" where
  "keep old new = (case new of None \<Rightarrow> old | Some v \<Rightarrow> v)"

definition changed_mapping ::
  "'w mapping_service \<Rightarrow> mapping_changes \<Rightarrow> access_mapping \<Rightarrow> access_mapping result" where
  "changed_mapping svc ch m =
    rbind (map_optional normalize_evaluation_scope (mu_evaluation_scope ch)) (\<lambda>new_scope.
    rbind (if mu_expression ch = None \<and> mu_evaluation_scope ch = None then Inr (fm_expression m)
           else validate_expression (ms_str_of svc) (ms_registry svc) (keep (fm_evaluation_scope m) new_scope)
             (keep (expression_json (fm_expression m)) (mu_expression ch))) (\<lambda>e.
    rbind (map_optional (required_text ''owner_module'') (mu_owner_module ch)) (\<lambda>owner.
      Inr (m\<lparr>fm_owner_module := keep (fm_owner_module m) owner, fm_evaluation_scope := keep (fm_evaluation_scope m) new_scope,
        fm_expression := e, fm_description := (if mu_description ch = None then fm_description m else optional_text (mu_description ch))\<rparr>))))"

definition finished_mapping :: "string \<Rightarrow> string \<Rightarrow> string option \<Rightarrow> access_mapping \<Rightarrow> access_mapping" where
  "finished_mapping actor_id reason status m =
    m\<lparr>fm_status := keep (fm_status m) status, fm_version := fm_version m + 1, fm_updated_by := actor_id, fm_reason := reason\<rparr>"

definition update_mapping ::
  "'w mapping_service \<Rightarrow> string \<Rightarrow> string \<Rightarrow> string \<Rightarrow> mapping_changes \<Rightarrow> mapping_caller
    \<Rightarrow> ('w mapping_state, access_mapping) state_op" where
  "update_mapping svc revision_id client_id access_key ch c x =
    (case rbind (require_reason (mc_reason c) ''Frontend access mapping'') (\<lambda>reason.
            rbind (get_mapping client_id access_key (fst (fst x))) (\<lambda>m.
            rbind (changed_mapping svc ch m) (\<lambda>m'. Inr (reason, m, m')))) of
       Inl e \<Rightarrow> (x, Inl e)
     | Inr (reason, m, m') \<Rightarrow>
        (sbind (put_mapping m') (\<lambda>_.
         sbind (sret (map_optional normalize_access_status (mu_status ch))) (\<lambda>status.
         let m'' = finished_mapping (mc_actor_id c) reason status m' in
         sbind (put_mapping m'') (\<lambda>_. sbind flush_mappings (\<lambda>_.
         sbind (add_revision (revision_of revision_id m'' (Some (fm_expression m)) (Some (fm_status m)))) (\<lambda>_.
         sbind (audit_mapping svc ''frontend_access.mapping_updated'' (Some m'') (mc_actor_id c) (mc_request_id c) reason []) (\<lambda>_.
           sret (Inr m''))))))) x))"

definition disable_mapping ::
  "'w mapping_service \<Rightarrow> string \<Rightarrow> string \<Rightarrow> string \<Rightarrow> mapping_caller \<Rightarrow> ('w mapping_state, access_mapping) state_op" where
  "disable_mapping svc revision_id client_id access_key c =
     update_mapping svc revision_id client_id access_key
       \<lparr>mu_owner_module = None, mu_evaluation_scope = None, mu_expression = None, mu_description = None,
        mu_status = Some ''disabled''\<rparr> c"

definition validate_mapping ::
  "'w mapping_service \<Rightarrow> string \<Rightarrow> pyval \<Rightarrow> mapping_caller \<Rightarrow> ('w mapping_state, string list) state_op" where
  "validate_mapping svc scope v c =
    sbind (sret (rbind (require_reason (mc_reason c) ''Frontend access validation'') (\<lambda>reason.
      rbind (normalize_evaluation_scope scope) (\<lambda>scope.
      rbind (validate_expression (ms_str_of svc) (ms_registry svc) scope v) (\<lambda>e. Inr (reason, scope, e)))))) (\<lambda>(reason, scope, e).
    sbind (audit_mapping svc ''frontend_access.mapping_validated'' None (mc_actor_id c) (mc_request_id c) reason
      [(''evaluation_scope'', PStr scope)]) (\<lambda>_.
    sret (rbind (expression_pairs e) (\<lambda>pairs. Inr (map (\<lambda>(r, a). format_permission r a) pairs)))))"

section \<open>Evaluation\<close>

record permission_sets =
  ps_tenant :: "(string \<times> string) list"
  ps_platform :: "(string \<times> string) list"
  ps_policy_version :: int

definition subject_policies :: "string option \<Rightarrow> string \<Rightarrow> policy_table \<Rightarrow> policy_rule list" where
  "subject_policies tenant_id subject tab =
     filter (\<lambda>r. (pr_tenant_id r = platform_tenant_id \<or> Some (pr_tenant_id r) = tenant_id) \<and> pr_subject r = subject \<and>
       pr_effect r = ''allow'') (map snd tab)"

definition permission_sets :: "string option \<Rightarrow> string \<Rightarrow> policy_table \<Rightarrow> permission_sets result" where
  "permission_sets tenant_id user_id tab =
    rbind (normalize_subject_id user_id) (\<lambda>u.
      let rules = subject_policies tenant_id (''user:'' @ u) tab;
          pairs = (\<lambda>rs. remdups (map (\<lambda>r. (pr_resource r, pr_action r)) rs)) in
      Inr \<lparr>ps_tenant = pairs (filter (\<lambda>r. pr_tenant_id r \<noteq> platform_tenant_id) rules),
           ps_platform = pairs (filter (\<lambda>r. pr_tenant_id r = platform_tenant_id) rules),
           ps_policy_version = fold (\<lambda>r v. max v (pr_policy_version r)) rules 0\<rparr>)"

definition set_for_scope :: "permission_sets \<Rightarrow> string \<Rightarrow> (string \<times> string) list" where
  "set_for_scope ps scope =
     (if scope = ''tenant'' then ps_tenant ps else if scope = ''platform'' then ps_platform ps else [])"

definition evaluate_mapping :: "access_mapping \<Rightarrow> permission_sets \<Rightarrow> string option \<Rightarrow> (bool \<times> string) result" where
  "evaluate_mapping m ps tenant_id =
    (if fm_status m \<noteq> ''active'' then Inr (False, ''disabled_mapping'')
     else if fm_evaluation_scope m = ''tenant'' \<and> tenant_id = None then Inr (False, ''tenant_context_required'')
     else (case evaluate_expression (fm_expression m) (set_for_scope ps (fm_evaluation_scope m)) of
        Inr b \<Rightarrow> Inr (b, if b then ''matched_expression'' else ''missing_permission'')
      | Inl (AppError _ _ _ _) \<Rightarrow> Inr (False, ''invalid_mapping'')
      | Inl e \<Rightarrow> Inl e))"

text \<open>The payload whose digest tells a client that something has changed.\<close>

definition pair_texts :: "(string \<times> string) list \<Rightarrow> pyval" where
  "pair_texts ps = PList (map (\<lambda>(r, a). PStr (format_permission r a)) (sort ps))"

definition access_revision :: "(pyval \<Rightarrow> string) \<Rightarrow> string \<Rightarrow> access_mapping list \<Rightarrow> permission_sets \<Rightarrow> string" where
  "access_revision digest client_id mappings ps = digest (PDict
    [(''client_id'', PStr client_id),
     (''mappings'', PList (map (\<lambda>m. PDict [(''access_key'', PStr (fm_access_key m)),
        (''evaluation_scope'', PStr (fm_evaluation_scope m)), (''status'', PStr (fm_status m)), (''version'', PInt (fm_version m))])
        (sort_key fm_access_key mappings))),
     (''permissions'', PDict [(''platform'', pair_texts (ps_platform ps)), (''tenant'', pair_texts (ps_tenant ps))])])"

record access_report =
  ar_client_id :: string
  ar_tenant_id :: "string option"
  ar_version :: int
  ar_policy_version :: int
  ar_access_revision :: string
  ar_evaluated_at :: string
  ar_permissions :: "string list"
  ar_access :: "(string \<times> bool) list"

definition evaluate_all ::
  "(pyval \<Rightarrow> string) \<Rightarrow> string \<Rightarrow> access_mapping list \<Rightarrow> policy_table \<Rightarrow> string \<Rightarrow> string option \<Rightarrow> string \<Rightarrow> access_report result" where
  "evaluate_all digest now mappings tab client_id tenant_id user_id =
    rbind (list_mappings client_id mappings) (\<lambda>ms.
    rbind (permission_sets tenant_id user_id tab) (\<lambda>ps.
    rbind (rmap (\<lambda>m. rbind (evaluate_mapping m ps tenant_id) (\<lambda>(b, _). Inr (fm_access_key m, b))) ms) (\<lambda>access.
    rbind (required_text ''client_id'' client_id) (\<lambda>client.
      Inr \<lparr>ar_client_id = client, ar_tenant_id = tenant_id, ar_version = (if ms = [] then 0 else Max (set (map fm_version ms))),
        ar_policy_version = ps_policy_version ps, ar_access_revision = access_revision digest client_id ms ps,
        ar_evaluated_at = now,
        ar_permissions = map (\<lambda>(r, a). format_permission r a)
          (sort (if tenant_id \<noteq> None then ps_tenant ps else ps_platform ps)),
        ar_access = access\<rparr>))))"

record access_result =
  ax_access_key :: string
  ax_allowed :: bool
  ax_reason :: string
  ax_version :: "int option"

definition check_key ::
  "access_mapping list \<Rightarrow> permission_sets \<Rightarrow> string option \<Rightarrow> string \<Rightarrow> access_result result" where
  "check_key ms ps tenant_id k =
    (case find (\<lambda>m. fm_access_key m = k) ms of
       None \<Rightarrow> Inr \<lparr>ax_access_key = k, ax_allowed = False, ax_reason = ''unknown_access_key'', ax_version = None\<rparr>
     | Some m \<Rightarrow> rbind (evaluate_mapping m ps tenant_id) (\<lambda>(b, reason).
         Inr \<lparr>ax_access_key = k, ax_allowed = b, ax_reason = reason, ax_version = Some (fm_version m)\<rparr>))"

record check_report =
  cr_client_id :: string
  cr_tenant_id :: "string option"
  cr_policy_version :: int
  cr_access_revision :: string
  cr_evaluated_at :: string
  cr_results :: "access_result list"

definition check_access ::
  "(pyval \<Rightarrow> string) \<Rightarrow> string \<Rightarrow> access_mapping list \<Rightarrow> policy_table \<Rightarrow> string \<Rightarrow> string option \<Rightarrow> string \<Rightarrow> string list
    \<Rightarrow> check_report result" where
  "check_access digest now mappings tab client_id tenant_id user_id access_keys =
    rbind (required_text ''client_id'' client_id) (\<lambda>client.
    rbind (rmap (required_text ''access_key'') access_keys) (\<lambda>requested.
    rbind (list_mappings client mappings) (\<lambda>ms.
    rbind (permission_sets tenant_id user_id tab) (\<lambda>ps.
    rbind (rmap (check_key ms ps tenant_id) requested) (\<lambda>results.
      Inr \<lparr>cr_client_id = client, cr_tenant_id = tenant_id, cr_policy_version = ps_policy_version ps,
        cr_access_revision = access_revision digest client ms ps, cr_evaluated_at = now, cr_results = results\<rparr>)))))"

end
