(* ===== verification/Frontend_Properties.thy ===== *)
theory Frontend_Properties
  imports Frontend_Access
begin

text \<open>
  The properties of the frontend access mappings: what is stored is well formed and means what it says,
  a client is told exactly what the policy backend would permit, and the revisions tell the whole
  history of a mapping.
\<close>

section \<open>Permissions as text\<close>

lemma rpartition_colon_None: "rpartition_colon s = None \<longleftrightarrow> CHR '':'' \<notin> set s"
  by (induction s) (auto split: option.splits)

lemma rpartition_colon_Some: "rpartition_colon s = Some (a, b) \<Longrightarrow> s = a @ CHR '':'' # b \<and> CHR '':'' \<notin> set b"
proof (induction s arbitrary: a)
  case (Cons c s)
  show ?case
  proof (cases "rpartition_colon s")
    case None
    with Cons.prems show ?thesis by (auto simp: rpartition_colon_None split: if_splits)
  next
    case (Some p)
    with Cons show ?thesis by (cases p) auto
  qed
qed simp

lemma rpartition_colon_last: "CHR '':'' \<notin> set b \<Longrightarrow> rpartition_colon (a @ CHR '':'' # b) = Some (a, b)"
  by (induction a) (auto simp: rpartition_colon_None [THEN iffD2])

lemma parse_formatted:
  assumes "parse_access_permission v = Inr (r, a)"
  shows "parse_access_permission (format_permission r a) = Inr (r, a)" "strip r = r" "strip a = a"
proof -
  from assms obtain p q where v: "rpartition_colon v = Some (p, q)" and r: "r = strip p" and a: "a = strip q"
    and nb: "\<not> blank p" "\<not> blank q"
    by (auto simp: parse_access_permission_def Let_def split: option.splits if_splits)
  have "CHR '':'' \<notin> set a" using rpartition_colon_Some [OF v] set_strip [of q] a by auto
  then have "rpartition_colon (format_permission r a) = Some (r, a)"
    by (simp add: format_permission_def rpartition_colon_last)
  then show "parse_access_permission (format_permission r a) = Inr (r, a)"
    using nb by (simp add: parse_access_permission_def Let_def r a)
  show "strip r = r" "strip a = a" by (simp_all add: r a)
qed

section \<open>Expressions\<close>

fun wf_expression :: "access_expression \<Rightarrow> bool" where
  "wf_expression (Permission p) \<longleftrightarrow>
     (case parse_access_permission p of Inr (r, a) \<Rightarrow> p = format_permission r a | Inl _ \<Rightarrow> False)"
| "wf_expression (All es) \<longleftrightarrow> es \<noteq> [] \<and> list_all wf_expression es"
| "wf_expression (Any es) \<longleftrightarrow> es \<noteq> [] \<and> list_all wf_expression es"

text \<open>What an expression means: a Boolean combination of permissions.\<close>

fun holds :: "(string \<Rightarrow> string \<Rightarrow> bool) \<Rightarrow> access_expression \<Rightarrow> bool" where
  "holds P (Permission p) \<longleftrightarrow> (case parse_access_permission p of Inr (r, a) \<Rightarrow> P r a | Inl _ \<Rightarrow> False)"
| "holds P (All es) \<longleftrightarrow> list_all (holds P) es"
| "holds P (Any es) \<longleftrightarrow> list_ex (holds P) es"

lemma evaluate_holds:
  "wf_expression e \<Longrightarrow> evaluate_expression e allowed = Inr (holds (\<lambda>r a. (r, a) \<in> set allowed) e)"
proof (induction e)
  case (Permission p)
  then show ?case by (auto split: sum.splits)
next
  case (All es)
  then have "\<forall>e \<in> set es. evaluate_expression e allowed = Inr (holds (\<lambda>r a. (r, a) \<in> set allowed) e)"
    by (simp add: list_all_iff)
  then have "all_children (\<lambda>e. evaluate_expression e allowed) es = Inr (list_all (holds (\<lambda>r a. (r, a) \<in> set allowed)) es)"
    by (induction es) auto
  then show ?case by simp
next
  case (Any es)
  then have "\<forall>e \<in> set es. evaluate_expression e allowed = Inr (holds (\<lambda>r a. (r, a) \<in> set allowed) e)"
    by (simp add: list_all_iff)
  then have "any_child (\<lambda>e. evaluate_expression e allowed) es = Inr (list_ex (holds (\<lambda>r a. (r, a) \<in> set allowed)) es)"
    by (induction es) auto
  then show ?case by simp
qed

lemma rmap_all: "rmap f vs = Inr es \<Longrightarrow> \<forall>v \<in> set vs. \<forall>e. f v = Inr e \<longrightarrow> P e \<Longrightarrow> list_all P es"
  by (induction vs arbitrary: es) (auto simp: rbind_Inr_iff)

lemma rmap_map_inverse: "\<forall>e \<in> set es. f (g e) = Inr e \<Longrightarrow> rmap f (map g es) = Inr es"
  by (induction es) auto

lemma rmap_nonempty: "rmap f vs = Inr es \<Longrightarrow> vs \<noteq> [] \<Longrightarrow> es \<noteq> []"
  by (cases vs) (auto simp: rbind_Inr_iff)

lemma normalize_wf: "normalize_expression str_of v = Inr e \<Longrightarrow> wf_expression e"
proof (induction str_of v arbitrary: e rule: normalize_expression.induct)
  case (1 str_of v)
  note eq = "1.prems" [unfolded normalize_expression.simps [of str_of v]]
  obtain d where v: "v = PDict d" using eq by (cases v) auto
  have keys: "\<not> (length (filter (\<lambda>k. k \<in> set expression_keys) (remdups (map fst d))) \<noteq> 1
            \<or> filter (\<lambda>k. k \<notin> set expression_keys) (map fst d) \<noteq> [])"
    using eq unfolding v pyval.case by (metis Inl_Inr_False)
  note eq = eq [unfolded v pyval.case if_not_P [OF keys]]
  show ?case
  proof (cases "dget d ''permission''")
    case (Some p)
    with eq obtain r a where "parse_access_permission (text_value str_of p) = Inr (r, a)" and e: "e = Permission (format_permission r a)"
      by (auto simp: rbind_Inr_iff)
    then show ?thesis using parse_formatted(1) by (simp add: e)
  next
    case none: None
    show ?thesis
    proof (cases "dget d ''all''")
      case (Some w)
      then obtain vs where w: "w = PList vs" using eq none by (cases w) auto
      then have ne: "vs \<noteq> []" using eq none Some by auto
      with eq none Some w obtain es where es: "rmap (normalize_expression str_of) vs = Inr es" and e: "e = All es"
        by (auto simp: rbind_Inr_iff)
      have "list_all wf_expression es"
        by (rule rmap_all [OF es], intro ballI allI impI, erule "1.IH"(2) [OF v keys none Some w ne])
      then show ?thesis using rmap_nonempty [OF es ne] by (simp add: e)
    next
      case noall: None
      obtain w where any: "dget d ''any'' = Some w" using eq none noall by (cases "dget d ''any''") auto
      then obtain vs where w: "w = PList vs" using eq none noall by (cases w) auto
      then have ne: "vs \<noteq> []" using eq none noall any by auto
      with eq none noall any w obtain es where es: "rmap (normalize_expression str_of) vs = Inr es" and e: "e = Any es"
        by (auto simp: rbind_Inr_iff)
      have "list_all wf_expression es"
        by (rule rmap_all [OF es], intro ballI allI impI, erule "1.IH"(1) [OF v keys none noall any w ne])
      then show ?thesis using rmap_nonempty [OF es ne] by (simp add: e)
    qed
  qed
qed

lemma normalize_json: "wf_expression e \<Longrightarrow> normalize_expression str_of (expression_json e) = Inr e"
proof (induction e)
  case (Permission p)
  then show ?case
    by (auto simp: normalize_expression.simps [of str_of "PDict d" for d] expression_keys_def dget_def text_value_def split: sum.splits)
next
  case (All es)
  then have "rmap (normalize_expression str_of) (map expression_json es) = Inr es"
    by (intro rmap_map_inverse) (simp add: list_all_iff)
  with All.prems show ?case
    by (simp add: normalize_expression.simps [of str_of "PDict d" for d] expression_keys_def dget_def)
next
  case (Any es)
  then have "rmap (normalize_expression str_of) (map expression_json es) = Inr es"
    by (intro rmap_map_inverse) (simp add: list_all_iff)
  with Any.prems show ?case
    by (simp add: normalize_expression.simps [of str_of "PDict d" for d] expression_keys_def dget_def)
qed

text \<open>Whatever JSON value a client sends, an expression that passes validation is well formed, it is a
  fixed point (its JSON form normalizes to itself, under any registry), each of its permissions is
  registered for the scope, and its evaluation never raises: it is the Boolean combination that the
  expression spells, for any set of permissions.
\<close>

theorem validated_expressions_are_typed:
  assumes "validate_expression str_of reg scope v = Inr e"
  shows "wf_expression e \<and> normalize_expression str_of' (expression_json e) = Inr e \<and>
    (\<exists>pairs. expression_pairs e = Inr pairs \<and> list_all (\<lambda>(r, a). registered_for_scope reg (strip scope) r a) pairs) \<and>
    evaluate_expression e allowed = Inr (holds (\<lambda>r a. (r, a) \<in> set allowed) e)"
proof -
  from assms obtain pairs where n: "normalize_expression str_of v = Inr e" and p: "expression_pairs e = Inr pairs"
    and c: "check_all (check_registered reg (strip scope)) pairs = Inr ()"
    by (auto simp: validate_expression_def rbind_Inr_iff normalize_evaluation_scope_def split: if_splits)
  have "list_all (\<lambda>(r, a). registered_for_scope reg (strip scope) r a) pairs"
    using c by (auto simp: check_all_ok check_registered_def list_all_iff split: if_splits prod.splits)
  with normalize_wf [OF n] p show ?thesis using normalize_json evaluate_holds by blast
qed

section \<open>Evaluation against the backend\<close>

definition mapping_ok :: "access_mapping \<Rightarrow> bool" where
  "mapping_ok m \<longleftrightarrow> wf_expression (fm_expression m) \<and> fm_evaluation_scope m \<in> {''tenant'', ''platform''} \<and>
     fm_status m \<in> {''active'', ''disabled'', ''deprecated''}"

text \<open>The tenant in which a scope is evaluated.\<close>

definition scope_tenant :: "string \<Rightarrow> string option \<Rightarrow> string" where
  "scope_tenant scope tenant_id = (if scope = ''platform'' then platform_tenant_id else the tenant_id)"

lemma permission_sets_backend:
  assumes "permission_sets tenant_id user_id tab = Inr ps" and "tenant_id \<noteq> Some platform_tenant_id"
    and "scope \<in> {''tenant'', ''platform''}" and "scope = ''tenant'' \<Longrightarrow> tenant_id \<noteq> None"
  shows "(r, a) \<in> set (set_for_scope ps scope) \<longleftrightarrow>
    projected_backend tab (scope_tenant scope tenant_id) (''user:'' @ strip user_id) r a \<noteq> None"
proof -
  let ?s = "''user:'' @ strip user_id"
  have ps: "ps_tenant ps = remdups (map (\<lambda>r. (pr_resource r, pr_action r))
      (filter (\<lambda>r. pr_tenant_id r \<noteq> platform_tenant_id) (subject_policies tenant_id ?s tab)))"
    "ps_platform ps = remdups (map (\<lambda>r. (pr_resource r, pr_action r))
      (filter (\<lambda>r. pr_tenant_id r = platform_tenant_id) (subject_policies tenant_id ?s tab)))"
    using assms(1) by (auto simp: permission_sets_def normalize_subject_id_def Let_def rbind_Inr_iff split: if_splits)
  show ?thesis
  proof (cases "scope = ''platform''")
    case True
    then show ?thesis
      unfolding projected_backend_some by (auto simp: set_for_scope_def scope_tenant_def ps subject_policies_def allows_def)
  next
    case False
    with assms obtain t where t: "tenant_id = Some t" "t \<noteq> platform_tenant_id" "scope = ''tenant''" by auto
    then show ?thesis
      unfolding projected_backend_some by (auto simp: set_for_scope_def scope_tenant_def ps subject_policies_def allows_def)
  qed
qed

lemma holds_cong: "(\<And>r a. P r a = Q r a) \<Longrightarrow> holds P e = holds Q e"
proof -
  assume "\<And>r a. P r a = Q r a"
  then have "P = Q" by (intro ext)
  then show ?thesis by simp
qed

text \<open>C21: What a client is told is what the backend would decide. For a mapping as the service stores it, the
  answer is \<open>allowed\<close> exactly when the mapping is active, a tenant is given if it is evaluated in one,
  and the expression holds with each permission read as the decision of the policy backend for that
  user in the tenant of the mapping's scope. The tenant is not the platform pseudo tenant.
\<close>

theorem client_sees_what_backend_permits:
  assumes "mapping_ok m" and "permission_sets tenant_id user_id tab = Inr ps" and "tenant_id \<noteq> Some platform_tenant_id"
  shows "\<exists>reason. evaluate_mapping m ps tenant_id = Inr (fm_status m = ''active'' \<and>
      (fm_evaluation_scope m \<noteq> ''tenant'' \<or> tenant_id \<noteq> None) \<and>
      holds (\<lambda>r a. projected_backend tab (scope_tenant (fm_evaluation_scope m) tenant_id) (''user:'' @ strip user_id) r a \<noteq> None)
        (fm_expression m), reason)"
proof (cases "fm_status m = ''active'' \<and> (fm_evaluation_scope m \<noteq> ''tenant'' \<or> tenant_id \<noteq> None)")
  case False
  then show ?thesis by (auto simp: evaluate_mapping_def)
next
  case True
  let ?allowed = "set_for_scope ps (fm_evaluation_scope m)"
  have "evaluate_expression (fm_expression m) ?allowed = Inr (holds (\<lambda>r a. (r, a) \<in> set ?allowed) (fm_expression m))"
    using assms(1) evaluate_holds by (simp add: mapping_ok_def)
  also have "holds (\<lambda>r a. (r, a) \<in> set ?allowed) (fm_expression m) =
      holds (\<lambda>r a. projected_backend tab (scope_tenant (fm_evaluation_scope m) tenant_id) (''user:'' @ strip user_id) r a \<noteq> None)
        (fm_expression m)"
    by (rule holds_cong, rule permission_sets_backend [OF assms(2,3)]) (use assms(1) True in \<open>auto simp: mapping_ok_def\<close>)
  finally show ?thesis using True unfolding evaluate_mapping_def by auto
qed

section \<open>Revisions\<close>

text \<open>Each revision starts where the one before it ended, and the last ends at the mapping.\<close>

fun tells_history ::
  "access_expression option \<times> string option \<Rightarrow> int \<Rightarrow> mapping_revision list \<Rightarrow> access_mapping \<Rightarrow> bool" where
  "tells_history from n [] m \<longleftrightarrow> from = (Some (fm_expression m), Some (fm_status m)) \<and> n = fm_version m"
| "tells_history from n (r # rs) m \<longleftrightarrow> (fr_old_expression r, fr_old_status r) = from \<and> fr_version r = n + 1 \<and>
     tells_history (fr_new_expression r, fr_new_status r) (n + 1) rs m"

definition revisions_of :: "mapping_revision list \<Rightarrow> access_mapping \<Rightarrow> mapping_revision list" where
  "revisions_of revisions m = filter (\<lambda>r. fr_mapping_id r = fm_id m) revisions"

definition mappings_inv :: "access_mapping list \<times> mapping_revision list \<Rightarrow> bool" where
  "mappings_inv = (\<lambda>(ms, rs). distinct (map fm_id ms) \<and> (\<forall>m \<in> set ms. mapping_ok m \<and> tells_history (None, None) 0 (revisions_of rs m) m) \<and>
     fr_mapping_id ` set rs \<subseteq> fm_id ` set ms)"

lemma history_grows:
  assumes "tells_history from n rs m" and "fm_version m' = fm_version m + 1"
    and "r = revision_of i m' (Some (fm_expression m)) (Some (fm_status m))"
  shows "tells_history from n (rs @ [r]) m'"
  using assms by (induction "from" n rs m rule: tells_history.induct) (auto simp: revision_of_def)

inductive mapping_step :: "'w mapping_state \<Rightarrow> 'w mapping_state \<Rightarrow> bool" where
  created: "create_mapping svc new_id revision_id client_id access_key owner_module scope v description c x = (x', Inr m)
     \<Longrightarrow> mapping_step x x'"
| updated: "update_mapping svc revision_id client_id access_key ch c x = (x', Inr m) \<Longrightarrow> mapping_step x x'"
| disabled: "disable_mapping svc revision_id client_id access_key c x = (x', Inr m) \<Longrightarrow> mapping_step x x'"

lemma audit_mapping_same: "audit_mapping svc a om i q r p x = (x', y) \<Longrightarrow> fst x' = fst x"
  by (auto simp: audit_mapping_def on_world_of_def split: option.splits prod.splits)

lemma create_returns:
  assumes "create_mapping svc new_id revision_id client_id access_key owner_module scope v description c x = (x', Inr m)"
  shows "mapping_ok m" "fm_version m = 1" "distinct (map fm_id (fst (fst x) @ [m]))"
    "fst x' = (fst (fst x) @ [m], snd (fst x) @ [revision_of revision_id m None None])"
proof -
  let ?new = "new_mapping svc new_id client_id access_key owner_module scope v description c (fst (fst x))"
  obtain m0 where new: "?new = Inr m0" using assms by (cases ?new) (auto simp: create_mapping_def)
  note r = assms [unfolded create_mapping_def new sum.case]
  from r have "m0 = m" and x': "fst x' = (fst (fst x) @ [m], snd (fst x) @ [revision_of revision_id m None None])"
    and d: "distinct (map fm_id (fst (fst x) @ [m]))"
    by (auto simp: returns add_mapping_def flush_mappings_def add_revision_def dest!: audit_mapping_same split: if_splits)
  from new obtain e where "validate_expression (ms_str_of svc) (ms_registry svc) (strip scope) v = Inr e"
    and m: "fm_expression m0 = e" "fm_evaluation_scope m0 = strip scope" "fm_status m0 = ''active''" "fm_version m0 = 1"
    and "strip scope \<in> {''tenant'', ''platform''}"
    by (auto simp: new_mapping_def rbind_Inr_iff normalize_evaluation_scope_def split: if_splits)
  moreover from this have "wf_expression e"
    by (auto simp: validate_expression_def rbind_Inr_iff dest: normalize_wf)
  ultimately show "mapping_ok m" "fm_version m = 1" using \<open>m0 = m\<close> by (auto simp: mapping_ok_def)
  show "distinct (map fm_id (fst (fst x) @ [m]))" by (rule d)
  show "fst x' = (fst (fst x) @ [m], snd (fst x) @ [revision_of revision_id m None None])" by (rule x')
qed

lemma changed_mapping_ok:
  assumes "changed_mapping svc ch m = Inr m'" and "mapping_ok m"
  shows "mapping_ok m'" "fm_id m' = fm_id m" "fm_version m' = fm_version m" "fm_status m' = fm_status m"
proof -
  from assms(1) obtain new_scope e owner where sc: "map_optional normalize_evaluation_scope (mu_evaluation_scope ch) = Inr new_scope"
    and e: "(if mu_expression ch = None \<and> mu_evaluation_scope ch = None then Inr (fm_expression m)
           else validate_expression (ms_str_of svc) (ms_registry svc) (keep (fm_evaluation_scope m) new_scope)
             (keep (expression_json (fm_expression m)) (mu_expression ch))) = Inr e"
    and m': "m' = m\<lparr>fm_owner_module := keep (fm_owner_module m) owner, fm_evaluation_scope := keep (fm_evaluation_scope m) new_scope,
        fm_expression := e, fm_description := (if mu_description ch = None then fm_description m else optional_text (mu_description ch))\<rparr>"
    unfolding changed_mapping_def rbind_Inr_iff by blast
  have "keep (fm_evaluation_scope m) new_scope \<in> {''tenant'', ''platform''}"
    using sc assms(2) by (auto simp: map_optional_def keep_def normalize_evaluation_scope_def mapping_ok_def rbind_Inr_iff
        split: option.splits if_splits)
  moreover have "wf_expression e"
    using e assms(2) by (auto simp: mapping_ok_def validate_expression_def rbind_Inr_iff dest: normalize_wf split: if_splits)
  ultimately show "mapping_ok m'" "fm_id m' = fm_id m" "fm_version m' = fm_version m" "fm_status m' = fm_status m"
    using assms(2) by (simp_all add: m' mapping_ok_def)
qed

lemma update_returns:
  assumes "update_mapping svc revision_id client_id access_key ch c x = (x', Inr m'')"
    and "\<forall>m \<in> set (fst (fst x)). mapping_ok m"
  obtains m where "m \<in> set (fst (fst x))" and "mapping_ok m''" and "fm_id m'' = fm_id m" and "fm_version m'' = fm_version m + 1"
    and "fst x' = (map (\<lambda>n. if fm_id n = fm_id m then m'' else n) (fst (fst x)),
      snd (fst x) @ [revision_of revision_id m'' (Some (fm_expression m)) (Some (fm_status m))])"
proof -
  let ?pre = "rbind (require_reason (mc_reason c) ''Frontend access mapping'') (\<lambda>reason.
            rbind (get_mapping client_id access_key (fst (fst x))) (\<lambda>m.
            rbind (changed_mapping svc ch m) (\<lambda>m'. Inr (reason, m, m'))))"
  obtain reason m m' where pre: "?pre = Inr (reason, m, m')"
    using assms(1) by (cases ?pre) (auto simp: update_mapping_def)
  then have ch: "changed_mapping svc ch m = Inr m'" and mem: "m \<in> set (fst (fst x))"
    by (auto simp: rbind_Inr_iff get_mapping_def find_mapping_def find_Some_iff split: option.splits)
  note m' = changed_mapping_ok [OF ch] assms(2) [rule_format, OF mem]
  note r = assms(1) [unfolded update_mapping_def pre sum.case prod.case]
  from r obtain status where st: "map_optional normalize_access_status (mu_status ch) = Inr status"
    and m'': "m'' = finished_mapping (mc_actor_id c) reason status m'"
    and x': "fst x' = (map ((\<lambda>n. if fm_id n = fm_id m'' then m'' else n) \<circ> (\<lambda>n. if fm_id n = fm_id m' then m' else n)) (fst (fst x)),
      snd (fst x) @ [revision_of revision_id m'' (Some (fm_expression m)) (Some (fm_status m))])"
    by (auto simp: returns Let_def put_mapping_def flush_mappings_def add_revision_def dest!: audit_mapping_same split: if_splits)
  have id: "fm_id m'' = fm_id m" "fm_id m' = fm_id m" using m' by (simp_all add: m'' finished_mapping_def)
  have "mapping_ok m''"
    using m' st by (auto simp: m'' finished_mapping_def mapping_ok_def keep_def map_optional_def normalize_access_status_def
        rbind_Inr_iff split: option.splits if_splits)
  moreover have "fm_version m'' = fm_version m + 1" using m' by (simp add: m'' finished_mapping_def)
  moreover have "fst x' = (map (\<lambda>n. if fm_id n = fm_id m then m'' else n) (fst (fst x)),
      snd (fst x) @ [revision_of revision_id m'' (Some (fm_expression m)) (Some (fm_status m))])"
    unfolding x' by (simp add: id)
  ultimately show thesis using mem id by (intro that)
qed

lemma create_keeps_inv:
  assumes "create_mapping svc new_id revision_id client_id access_key owner_module scope v description c x = (x', Inr m)"
    and "mappings_inv (fst x)"
  shows "mappings_inv (fst x')"
proof -
  note r = create_returns [OF assms(1)]
  obtain ms rs where x: "fst x = (ms, rs)" by fastforce
  have inv: "\<forall>n \<in> set ms. mapping_ok n \<and> tells_history (None, None) 0 (revisions_of rs n) n" "fr_mapping_id ` set rs \<subseteq> fm_id ` set ms"
    using assms(2) by (simp_all add: mappings_inv_def x)
  have new: "fm_id m \<notin> fm_id ` set ms" using r(3) by (simp add: x)
  then have "revisions_of rs m = []"
    unfolding revisions_of_def filter_empty_conv using inv(2) by (metis imageI subsetD)
  then have "tells_history (None, None) 0 (revisions_of (rs @ [revision_of revision_id m None None]) m) m"
    using r(2) by (simp add: revisions_of_def revision_of_def)
  moreover have "revisions_of (rs @ [revision_of revision_id m None None]) n = revisions_of rs n" if "n \<in> set ms" for n
    using that new by (auto simp: revisions_of_def revision_of_def)
  ultimately show ?thesis
    using r(1,3) inv by (auto simp: r(4) x mappings_inv_def) (auto simp: revision_of_def)
qed

lemma update_keeps_inv:
  assumes "update_mapping svc revision_id client_id access_key ch c x = (x', Inr m'')"
    and "mappings_inv (fst x)"
  shows "mappings_inv (fst x')"
proof -
  obtain ms rs where x: "fst x = (ms, rs)" by fastforce
  have inv: "\<forall>n \<in> set ms. mapping_ok n \<and> tells_history (None, None) 0 (revisions_of rs n) n" "fr_mapping_id ` set rs \<subseteq> fm_id ` set ms"
    "distinct (map fm_id ms)"
    using assms(2) by (simp_all add: mappings_inv_def x)
  have ok: "\<forall>m \<in> set (fst (fst x)). mapping_ok m" using inv(1) by (simp add: x)
  obtain m where m: "m \<in> set (fst (fst x))" "mapping_ok m''" "fm_id m'' = fm_id m" "fm_version m'' = fm_version m + 1"
    and x': "fst x' = (map (\<lambda>n. if fm_id n = fm_id m then m'' else n) (fst (fst x)),
      snd (fst x) @ [revision_of revision_id m'' (Some (fm_expression m)) (Some (fm_status m))])"
    by (rule update_returns [OF assms(1) ok])
  note m = m [unfolded x fst_conv] and x' = x' [unfolded x fst_conv snd_conv]
  let ?r = "revision_of revision_id m'' (Some (fm_expression m)) (Some (fm_status m))"
  let ?ms = "map (\<lambda>n. if fm_id n = fm_id m then m'' else n) ms"
  have ids: "map fm_id ?ms = map fm_id ms" using m(3) by simp
  have rid: "fr_mapping_id ?r = fm_id m" using m(3) by (simp add: revision_of_def)
  have "revisions_of (rs @ [?r]) m'' = revisions_of rs m @ [?r]" using m(3) rid by (simp add: revisions_of_def)
  then have "tells_history (None, None) 0 (revisions_of (rs @ [?r]) m'') m''"
    using history_grows [OF _ m(4) refl] inv(1) m(1) by simp
  moreover have "revisions_of (rs @ [?r]) n = revisions_of rs n" if "fm_id n \<noteq> fm_id m" for n
    using that rid by (simp add: revisions_of_def)
  ultimately have "\<forall>n \<in> set ?ms. mapping_ok n \<and> tells_history (None, None) 0 (revisions_of (rs @ [?r]) n) n"
    using inv(1) m(2) by auto
  moreover have "fr_mapping_id ` set (rs @ [?r]) \<subseteq> fm_id ` set ?ms"
    using inv(2) m(1) rid unfolding set_map [symmetric] ids by auto
  moreover have "distinct (map fm_id ?ms)" unfolding ids by (rule inv(3))
  ultimately show ?thesis unfolding mappings_inv_def x' prod.case by blast
qed

lemma mapping_step_inv: "mapping_step x x' \<Longrightarrow> mappings_inv (fst x) \<Longrightarrow> mappings_inv (fst x')"
  by (induction rule: mapping_step.induct) (auto simp: disable_mapping_def intro: create_keeps_inv update_keeps_inv)

text \<open>The revisions tell the history. After any sequence of creations, updates and disablings that
  returned, by any callers and under any registries, every stored mapping is well formed, its
  revisions are numbered from one to its version without a gap, each starts with the expression and
  the status the one before it ended with, the first starts with nothing and the last ends with the
  mapping as it is.
\<close>

theorem revisions_tell_the_history:
  assumes "mapping_step\<^sup>*\<^sup>* (([], []), w) x"
  shows "mappings_inv (fst x)"
  using assms
proof (induction rule: rtranclp_induct)
  case base
  show ?case by (simp add: mappings_inv_def)
next
  case (step y z)
  then show ?case using mapping_step_inv by blast
qed

section \<open>Witnesses\<close>

definition note_access :: pyval where
  "note_access = PDict [(''any'', PList [PDict [(''permission'', PStr '' note : write'')],
     PDict [(''all'', PList [PDict [(''permission'', PStr ''note:read'')], PDict [(''permission'', PStr ''note:share'')]])]])]"

definition note_permissions :: permission_registry where
  "note_permissions = \<lparr>pg_permissions = map (\<lambda>a. \<lparr>rp_app_label = ''notes'', rp_scope = ''tenant'', rp_resource = ''note'', rp_action = a\<rparr>)
     [''read'', ''write'', ''share''], pg_errors = []\<rparr>"

definition note_expression :: access_expression where
  "note_expression = Any [Permission ''note:write'', All [Permission ''note:read'', Permission ''note:share'']]"

lemma note_validated: "validate_expression (\<lambda>v. ''None'') note_permissions ''tenant'' note_access = Inr note_expression"
  by code_simp

theorem validated_expressions_are_typed_witness:
  "wf_expression note_expression \<and>
   evaluate_expression note_expression [(''note'', ''share''), (''note'', ''read'')] = Inr True \<and>
   evaluate_expression note_expression [(''note'', ''share'')] = Inr False"
proof -
  have h: "holds (\<lambda>r a. (r, a) \<in> set [(''note'', ''share''), (''note'', ''read'')]) note_expression"
    "\<not> holds (\<lambda>r a. (r, a) \<in> set [(''note'', ''share'')]) note_expression" by code_simp+
  show ?thesis
    using validated_expressions_are_typed [OF note_validated, of undefined "[(''note'', ''share''), (''note'', ''read'')]"]
      validated_expressions_are_typed [OF note_validated, of undefined "[(''note'', ''share'')]"] h by simp
qed

definition note_mapping :: access_mapping where
  "note_mapping = \<lparr>fm_id = ''m'', fm_client_id = ''web'', fm_access_key = ''notes'', fm_owner_module = ''notes'',
     fm_evaluation_scope = ''tenant'', fm_expression = note_expression, fm_description = None, fm_status = ''active'',
     fm_version = 1, fm_updated_by = ''root'', fm_reason = ''new''\<rparr>"

definition note_policies :: policy_table where
  "note_policies = [(''i'', \<lparr>pr_tenant_id = ''t'', pr_subject = ''user:ann'', pr_resource = ''note'', pr_action = ''write'',
     pr_role_grant_id = ''g'', pr_policy_version = 1, pr_effect = ''allow''\<rparr>)]"

theorem client_sees_what_backend_permits_witness:
  "\<exists>ps. permission_sets (Some ''t'') '' ann'' note_policies = Inr ps \<and> evaluate_mapping note_mapping ps (Some ''t'') = Inr (True, ''matched_expression'') \<and>
     projected_backend note_policies ''t'' ''user:ann'' ''note'' ''write'' \<noteq> None"
proof -
  obtain ps where ps: "permission_sets (Some ''t'') '' ann'' note_policies = Inr ps"
    by (simp add: permission_sets_def normalize_subject_id_def is_space_def Let_def)
  have "wf_expression note_expression" by code_simp
  then have "mapping_ok note_mapping" by (simp add: mapping_ok_def note_mapping_def)
  moreover have "Some ''t'' \<noteq> Some platform_tenant_id" by (simp add: platform_tenant_id_def)
  ultimately obtain reason where e: "evaluate_mapping note_mapping ps (Some ''t'') = Inr (fm_status note_mapping = ''active'' \<and>
      (fm_evaluation_scope note_mapping \<noteq> ''tenant'' \<or> Some ''t'' \<noteq> None) \<and>
      holds (\<lambda>r a. projected_backend note_policies (scope_tenant (fm_evaluation_scope note_mapping) (Some ''t'')) (''user:'' @ strip '' ann'') r a \<noteq> None)
        (fm_expression note_mapping), reason)"
    using client_sees_what_backend_permits [OF _ ps] by blast
  have b: "projected_backend note_policies ''t'' ''user:ann'' ''note'' ''write'' \<noteq> None" by code_simp
  have "holds (\<lambda>r a. projected_backend note_policies (scope_tenant (fm_evaluation_scope note_mapping) (Some ''t'')) (''user:'' @ strip '' ann'') r a \<noteq> None)
        (fm_expression note_mapping)" by code_simp
  then have "evaluate_mapping note_mapping ps (Some ''t'') = Inr (True, reason)"
    using e by (simp add: note_mapping_def)
  moreover from this have "reason = ''matched_expression''"
    by (auto simp: evaluate_mapping_def note_mapping_def split: sum.splits if_splits exn.splits)
  ultimately show ?thesis using ps b by blast
qed

definition note_service :: "unit mapping_service" where
  "note_service = \<lparr>ms_registry = note_permissions, ms_audit = None, ms_str_of = (\<lambda>v. ''None'')\<rparr>"

definition note_caller :: mapping_caller where
  "note_caller = \<lparr>mc_actor_id = ''root'', mc_request_id = ''q'', mc_reason = Some ''new''\<rparr>"

definition disabled_note :: access_mapping where
  "disabled_note = note_mapping\<lparr>fm_status := ''disabled'', fm_version := 2\<rparr>"

lemma note_created:
  "create_mapping note_service ''m'' ''r1'' ''web'' ''notes'' ''notes'' ''tenant'' note_access None note_caller (([], []), ()) =
     ((([note_mapping], [revision_of ''r1'' note_mapping None None]), ()), Inr note_mapping)"
  by code_simp

lemma note_disabled:
  "disable_mapping note_service ''r2'' ''web'' ''notes'' note_caller (([note_mapping], [revision_of ''r1'' note_mapping None None]), ()) =
     ((([disabled_note], [revision_of ''r1'' note_mapping None None,
        revision_of ''r2'' disabled_note (Some note_expression) (Some ''active'')]), ()), Inr disabled_note)"
  by code_simp

theorem revisions_tell_the_history_witness:
  "mappings_inv ([disabled_note], [revision_of ''r1'' note_mapping None None,
     revision_of ''r2'' disabled_note (Some note_expression) (Some ''active'')])"
proof -
  have "mapping_step\<^sup>*\<^sup>* (([], []), ()) (([disabled_note], [revision_of ''r1'' note_mapping None None,
     revision_of ''r2'' disabled_note (Some note_expression) (Some ''active'')]), ())"
    using mapping_step.created [OF note_created] mapping_step.disabled [OF note_disabled]
    by (meson rtranclp.rtrancl_into_rtrancl rtranclp.rtrancl_refl)
  from revisions_tell_the_history [OF this] show ?thesis by simp
qed

end
