(* ===== verification/Unit_Of_Work.thy ===== *)
theory Unit_Of_Work
  imports Errors
begin

text \<open>
  Transactions (\<open>core/db/transactions.py\<close>) and the tenant a session is bound to
  (\<open>DatabaseTenantFallback\<close> in \<open>core/db/runtime.py\<close>).

  A world holds the committed data, the data as the open session sees it, the stack of the units of
  work that are entered (the context variable is its top, the chain of parents the rest), the tenant
  bound to the session, and the number of sessions not yet closed. \<open>unit_of_work\<close> is \<open>async with\<close>. A
  program is what an application runs inside: statements, raises, handlers and nested units.
  What PostgreSQL does with \<open>set_config\<close>, and a commit that fails, are parameters.
\<close>

section \<open>The tenant of a session\<close>

record tenant_fallback =
  tf_mode :: string
  tf_setting_name :: string

definition check_tenant_fallback :: "tenant_fallback \<Rightarrow> unit result" where
  "check_tenant_fallback tf =
    (if tf_mode tf \<notin> {''disabled'', ''session_variable''} then Inl (validation_error ''Database tenant fallback mode is invalid'')
     else if blank (tf_setting_name tf) then Inl (validation_error ''Database tenant fallback setting name is required'')
     else Inr ())"

text \<open>\<open>set_config\<close> is the statement on a PostgreSQL session; it binds the tenant or raises.\<close>

record session_settings =
  ss_fallback :: "tenant_fallback option"
  ss_dialect :: string
  ss_set_config :: "string \<Rightarrow> string \<Rightarrow> unit result"

definition apply_fallback :: "session_settings \<Rightarrow> tenant_fallback \<Rightarrow> string \<Rightarrow> string option result" where
  "apply_fallback st tf tenant_id =
    (if blank tenant_id then Inl (validation_error ''Database tenant fallback requires tenant_id'')
     else if tf_mode tf = ''disabled'' then Inr None
     else if ss_dialect st \<noteq> ''postgresql'' then Inr None
     else rbind (ss_set_config st (tf_setting_name tf) tenant_id) (\<lambda>_. Inr (Some tenant_id)))"

section \<open>Units of work\<close>

datatype uow_state = New | Active | Committed | Rolled_Back | Joined

record uow =
  uw_tenant_id :: string  \<comment> \<open>empty when the unit has none\<close>
  uw_state :: uow_state
  uw_rollback_only :: bool

record 'd uow_world =
  ww_data :: 'd
  ww_working :: 'd
  ww_stack :: "uow list"
  ww_tenant :: "string option"
  ww_open :: nat

definition enter_nested :: "string \<Rightarrow> uow \<Rightarrow> 'd uow_world \<Rightarrow> 'd uow_world \<times> unit result" where
  "enter_nested tenant_id active w =
    (if tenant_id \<noteq> [] \<and> uw_tenant_id active \<noteq> [] \<and> tenant_id \<noteq> uw_tenant_id active
     then (w, Inl (app_error ''TENANT_CONTEXT_CONFLICT''
       ''Nested unit of work tenant_id conflicts with active transaction'' (Some 403) []))
     else (w\<lparr>ww_stack := \<lparr>uw_tenant_id = (if tenant_id \<noteq> [] then tenant_id else uw_tenant_id active),
         uw_state = Active, uw_rollback_only = False\<rparr> # ww_stack w\<rparr>, Inr ()))"

definition bound_tenant :: "session_settings \<Rightarrow> string \<Rightarrow> string option result" where
  "bound_tenant st tenant_id =
    (case ss_fallback st of
       Some tf \<Rightarrow> if tenant_id \<noteq> [] then apply_fallback st tf tenant_id else Inr None
     | None \<Rightarrow> Inr None)"

definition enter_outer :: "session_settings \<Rightarrow> string \<Rightarrow> 'd uow_world \<Rightarrow> 'd uow_world \<times> unit result" where
  "enter_outer st tenant_id w =
    (let opened = w\<lparr>ww_working := ww_data w, ww_tenant := None, ww_open := Suc (ww_open w)\<rparr>;
         frame = \<lparr>uw_tenant_id = tenant_id, uw_state = Active, uw_rollback_only = False\<rparr> in
     case bound_tenant st tenant_id of
       Inl e \<Rightarrow> (opened, Inl e)
     | Inr t \<Rightarrow> (opened\<lparr>ww_tenant := t, ww_stack := frame # ww_stack w\<rparr>, Inr ()))"

definition enter_unit :: "session_settings \<Rightarrow> string \<Rightarrow> 'd uow_world \<Rightarrow> 'd uow_world \<times> unit result" where
  "enter_unit st tenant_id w =
    (case ww_stack w of
       active # _ \<Rightarrow> if uw_state active = Active then enter_nested tenant_id active w else enter_outer st tenant_id w
     | [] \<Rightarrow> enter_outer st tenant_id w)"

definition mark_rollback_only :: "uow list \<Rightarrow> uow list" where
  "mark_rollback_only us = map (\<lambda>u. u\<lparr>uw_rollback_only := True\<rparr>) us"

text \<open>\<open>commit\<close> tells whether the database accepts the changes of the session.\<close>

definition exit_outer :: "('d \<Rightarrow> unit result) \<Rightarrow> bool \<Rightarrow> uow \<Rightarrow> 'd uow_world \<Rightarrow> 'd uow_world \<times> unit result" where
  "exit_outer commit raised u w =
    (let closed = w\<lparr>ww_stack := tl (ww_stack w), ww_tenant := None, ww_open := ww_open w - 1\<rparr> in
     if \<not> raised \<and> \<not> uw_rollback_only u
     then (case commit (ww_working w) of
         Inl e \<Rightarrow> (closed\<lparr>ww_working := ww_data w\<rparr>, Inl e)
       | Inr _ \<Rightarrow> (closed\<lparr>ww_data := ww_working w\<rparr>, Inr ()))
     else (closed\<lparr>ww_working := ww_data w\<rparr>, Inr ()))"

definition exit_unit :: "('d \<Rightarrow> unit result) \<Rightarrow> bool \<Rightarrow> 'd uow_world \<Rightarrow> 'd uow_world \<times> unit result" where
  "exit_unit commit raised w =
    (case ww_stack w of
       [] \<Rightarrow> (w, Inr ())
     | [u] \<Rightarrow> exit_outer commit raised u w
     | _ # parents \<Rightarrow> (w\<lparr>ww_stack := (if raised then mark_rollback_only parents else parents)\<rparr>, Inr ()))"

definition unit_of_work ::
  "session_settings \<Rightarrow> ('d \<Rightarrow> unit result) \<Rightarrow> string \<Rightarrow> ('d uow_world, 'a) state_op \<Rightarrow> ('d uow_world, 'a) state_op" where
  "unit_of_work st commit tenant_id body w =
    (case enter_unit st tenant_id w of
       (w, Inl e) \<Rightarrow> (w, Inl e)
     | (w, Inr _) \<Rightarrow>
        (case body w of
           (w, Inl e) \<Rightarrow> (case exit_unit commit True w of (w, Inl e') \<Rightarrow> (w, Inl e') | (w, Inr _) \<Rightarrow> (w, Inl e))
         | (w, Inr v) \<Rightarrow> (case exit_unit commit False w of (w, Inl e) \<Rightarrow> (w, Inl e) | (w, Inr _) \<Rightarrow> (w, Inr v))))"

section \<open>What an application runs\<close>

text \<open>A statement sees the tenant its session is bound to. \<open>Attempt\<close> is \<open>try\<close> with a handler that goes on.\<close>

datatype 'd program =
    Statement "string option \<Rightarrow> 'd \<Rightarrow> 'd"
  | Raise exn
  | Sequence "'d program" "'d program"
  | Attempt "'d program" "'d program"
  | Unit string "'d program"

fun run_program :: "session_settings \<Rightarrow> ('d \<Rightarrow> unit result) \<Rightarrow> 'd program \<Rightarrow> ('d uow_world, unit) state_op" where
  "run_program st commit (Statement f) w = (w\<lparr>ww_working := f (ww_tenant w) (ww_working w)\<rparr>, Inr ())"
| "run_program st commit (Raise e) w = (w, Inl e)"
| "run_program st commit (Sequence p q) w = sbind (run_program st commit p) (\<lambda>_. run_program st commit q) w"
| "run_program st commit (Attempt p q) w =
     (case run_program st commit p w of (w', Inl _) \<Rightarrow> run_program st commit q w' | (w', Inr v) \<Rightarrow> (w', Inr v))"
| "run_program st commit (Unit tenant_id p) w = unit_of_work st commit tenant_id (run_program st commit p) w"

section \<open>The transaction a program stands for\<close>

text \<open>
  The reference: the program runs on the data, bound to one tenant throughout; a nested unit raises when
  its tenant is another one, and dooms the transaction when its body raises. The result is the data, the
  outcome and whether the transaction is doomed.
\<close>

fun meaning :: "string option \<Rightarrow> 'd program \<Rightarrow> string \<Rightarrow> 'd \<times> bool \<Rightarrow> ('d \<times> bool) \<times> unit result" where
  "meaning t (Statement f) tenant_id x = ((f t (fst x), snd x), Inr ())"
| "meaning t (Raise e) tenant_id x = (x, Inl e)"
| "meaning t (Sequence p q) tenant_id x = sbind (meaning t p tenant_id) (\<lambda>_. meaning t q tenant_id) x"
| "meaning t (Attempt p q) tenant_id x =
     (case meaning t p tenant_id x of (x', Inl _) \<Rightarrow> meaning t q tenant_id x' | (x', Inr v) \<Rightarrow> (x', Inr v))"
| "meaning t (Unit inner p) tenant_id x =
     (if inner \<noteq> [] \<and> tenant_id \<noteq> [] \<and> inner \<noteq> tenant_id
      then (x, Inl (app_error ''TENANT_CONTEXT_CONFLICT''
        ''Nested unit of work tenant_id conflicts with active transaction'' (Some 403) []))
      else (case meaning t p (if inner \<noteq> [] then inner else tenant_id) x of
         ((d, doomed), Inl e) \<Rightarrow> ((d, True), Inl e)
       | (x', Inr v) \<Rightarrow> (x', Inr v)))"

end
