(* ===== verification/Tenant_Data.thy ===== *)
theory Tenant_Data
  imports Permission_Decisions Python_Text
begin

text \<open>
  Access to rows: the query of a list (\<open>ListQuerySchema\<close> in \<open>core/base/schemas.py\<close>), the repositories
  (\<open>core/base/repositories.py\<close>) and the pagination of a response.

  A row of a tenant-scoped model is its columns, an association list; a table is its rows in the order
  the database returns them when no order is asked for. \<open>hasattr(model, "deleted_at")\<close> is a property of
  the model. Sort columns map a row to a key of any linear order, filter columns a value to a condition.
\<close>

section \<open>List queries\<close>

record query_class =
  qc_sortable :: "string list option"
  qc_default_sort :: "string list"
  qc_filterable :: "string list option"

record list_query =
  lq_page :: int
  lq_page_size :: int
  lq_sort :: "string option"
  lq_fields :: "(string \<times> pyval) list"  \<comment> \<open>keyword and the fields of the subclass, in order\<close>

datatype direction = Asc | Desc

definition name_start :: "char \<Rightarrow> bool" where
  "name_start c \<longleftrightarrow> upper c \<or> (let n = of_char c :: nat in 97 \<le> n \<and> n \<le> 122) \<or> c = CHR ''_''"

definition field_name_pattern :: "string \<Rightarrow> bool" where
  "field_name_pattern s \<longleftrightarrow>
     (case s of [] \<Rightarrow> False | c # cs \<Rightarrow> name_start c \<and> list_all (\<lambda>d. name_start d \<or> digit_char d) cs)"

definition parse_sort_token :: "string \<Rightarrow> direction \<times> string" where
  "parse_sort_token token =
    (case token of
       [] \<Rightarrow> (Asc, [])
     | c # cs \<Rightarrow> if c \<in> {CHR ''+'', CHR ''-''} then (if c = CHR ''-'' then Desc else Asc, cs) else (Asc, token))"

fun parse_sort_tokens :: "query_class \<Rightarrow> string list \<Rightarrow> string list \<Rightarrow> (string \<times> direction) list result" where
  "parse_sort_tokens qc seen [] = Inr []"
| "parse_sort_tokens qc seen (raw # raws) =
    (let token = strip raw; (dir, f) = parse_sort_token token in
     if token = [] then Inl (value_error ''sort token cannot be empty'')
     else if \<not> field_name_pattern f then Inl (value_error (''invalid sort field: '' @ repr_str f))
     else if f \<in> set seen then Inl (value_error (''duplicate sort field: '' @ repr_str f))
     else if when_some (qc_sortable qc) (\<lambda>fs. f \<notin> set fs) then Inl (value_error (''sort field is not allowed: '' @ repr_str f))
     else rbind (parse_sort_tokens qc (f # seen) raws) (\<lambda>terms. Inr ((f, dir) # terms)))"

definition sort_terms :: "query_class \<Rightarrow> list_query \<Rightarrow> (string \<times> direction) list result" where
  "sort_terms qc q =
    (let value = (case lq_sort q of Some s \<Rightarrow> Some s
       | None \<Rightarrow> if qc_default_sort qc \<noteq> [] then Some (join '','' (qc_default_sort qc)) else None) in
     case value of
       None \<Rightarrow> Inr []
     | Some s \<Rightarrow> if blank s then Inr [] else parse_sort_tokens qc [] (split_on CHR '','' s))"

definition filter_text :: "pyval \<Rightarrow> pyval option" where
  "filter_text v = (case v of PNone \<Rightarrow> None | PStr s \<Rightarrow> if blank s then None else Some (PStr (strip s)) | _ \<Rightarrow> Some v)"

fun collect_filters :: "query_class \<Rightarrow> (string \<times> pyval) list \<Rightarrow> (string \<times> pyval) list result" where
  "collect_filters qc [] = Inr []"
| "collect_filters qc ((f, v) # fvs) =
    (case filter_text v of
       None \<Rightarrow> collect_filters qc fvs
     | Some w \<Rightarrow>
        if when_some (qc_filterable qc) (\<lambda>fs. f \<notin> set fs) then Inl (value_error (''filter field is not allowed: '' @ repr_str f))
        else rbind (collect_filters qc fvs) (\<lambda>rest. Inr ((f, w) # rest)))"

definition filter_values :: "query_class \<Rightarrow> list_query \<Rightarrow> (string \<times> pyval) list result" where
  "filter_values qc q = collect_filters qc (lq_fields q)"

text \<open>Construction: the bounds of the fields and the contract, a failure of which is a validation error.\<close>

definition new_list_query :: "query_class \<Rightarrow> list_query \<Rightarrow> list_query result" where
  "new_list_query qc q =
    (if lq_page q < 1 \<or> lq_page_size q < 1 \<or> 200 < lq_page_size q then Inl (PyError ''ValidationError'' ''out of bounds'')
     else (case rbind (sort_terms qc q) (\<lambda>_. filter_values qc q) of
         Inl (PyError _ m) \<Rightarrow> Inl (PyError ''ValidationError'' m)
       | Inl e \<Rightarrow> Inl e
       | Inr _ \<Rightarrow> Inr q))"

definition query_offset :: "list_query \<Rightarrow> int" where
  "query_offset q = (lq_page q - 1) * lq_page_size q"

record pagination =
  pa_total :: int
  pa_page :: int
  pa_page_size :: int
  pa_has_next :: bool

definition to_pagination :: "list_query \<Rightarrow> int \<Rightarrow> pagination" where
  "to_pagination q n =
     \<lparr>pa_total = n, pa_page = lq_page q, pa_page_size = lq_page_size q,
      pa_has_next = (query_offset q + lq_page_size q < n)\<rparr>"

section \<open>Selecting\<close>

definition apply_list_filters ::
  "query_class \<Rightarrow> (string \<Rightarrow> (pyval \<Rightarrow> 'r \<Rightarrow> bool) option) \<Rightarrow> list_query \<Rightarrow> 'r list \<Rightarrow> 'r list result" where
  "apply_list_filters qc columns q rows =
    rbind (filter_values qc q) (\<lambda>fvs.
      fold_result (\<lambda>(f, v) rows. case columns f of
          None \<Rightarrow> Inl (value_error (''missing filter column for '' @ repr_str f))
        | Some cond \<Rightarrow> Inr (filter (cond v) rows)) fvs rows)"

text \<open>\<open>order_by\<close> in sequence: the first term decides, a later term orders what is equal so far. Sorting by
  the terms from the last to the first, keeping the order of what is equal, gives this. A descending
  order keeps what is equal in place too.\<close>

definition sort_desc :: "('r \<Rightarrow> 'k::linorder) \<Rightarrow> 'r list \<Rightarrow> 'r list" where
  "sort_desc k rows = rev (sort_key k (rev rows))"

definition sort_by :: "('r \<Rightarrow> 'k::linorder) \<Rightarrow> direction \<Rightarrow> 'r list \<Rightarrow> 'r list" where
  "sort_by k dir rows = (case dir of Asc \<Rightarrow> sort_key k rows | Desc \<Rightarrow> sort_desc k rows)"

definition apply_list_sort ::
  "query_class \<Rightarrow> (string \<Rightarrow> ('r \<Rightarrow> 'k::linorder) option) \<Rightarrow> list_query \<Rightarrow> 'r list \<Rightarrow> 'r list result" where
  "apply_list_sort qc columns q rows =
    rbind (sort_terms qc q) (\<lambda>terms.
    rbind (rmap (\<lambda>(f, dir). case columns f of
        None \<Rightarrow> Inl (value_error (''missing sort column for '' @ repr_str f))
      | Some k \<Rightarrow> Inr (k, dir)) terms) (\<lambda>keys.
      Inr (foldr (\<lambda>(k, dir). sort_by k dir) keys rows)))"

definition apply_list_query ::
  "query_class \<Rightarrow> (string \<Rightarrow> (pyval \<Rightarrow> 'r \<Rightarrow> bool) option) \<Rightarrow> (string \<Rightarrow> ('r \<Rightarrow> 'k::linorder) option)
    \<Rightarrow> list_query \<Rightarrow> 'r list \<Rightarrow> 'r list result" where
  "apply_list_query qc filter_columns sort_columns q rows =
    rbind (apply_list_filters qc filter_columns q rows) (\<lambda>rows.
    rbind (apply_list_sort qc sort_columns q rows) (\<lambda>rows.
      Inr (take (nat (lq_page_size q)) (drop (nat (query_offset q)) rows))))"

section \<open>The tenant-scoped repository\<close>

type_synonym data_row = "(string \<times> pyval) list"

record data_model =
  dm_columns :: "string list"
  dm_soft_delete :: bool

definition current_tenant_id :: "string option \<Rightarrow> string result" where
  "current_tenant_id ctx =
    (case ctx of
       Some t \<Rightarrow> if t = [] then Inl (app_error ''TENANT_ACCESS_DENIED'' ''TenantScopedRepository requires tenant context'' (Some 403) [])
                 else Inr t
     | None \<Rightarrow> Inl (app_error ''TENANT_ACCESS_DENIED'' ''TenantScopedRepository requires tenant context'' (Some 403) []))"

definition row_of_tenant :: "string \<Rightarrow> data_row \<Rightarrow> bool" where
  "row_of_tenant t r \<longleftrightarrow> dget r ''tenant_id'' = Some (PStr t)"

definition is_null :: "data_row \<Rightarrow> string \<Rightarrow> bool" where
  "is_null r c \<longleftrightarrow> (case dget r c of None \<Rightarrow> True | Some v \<Rightarrow> v = PNone)"

definition in_scope :: "data_model \<Rightarrow> string \<Rightarrow> data_row \<Rightarrow> bool" where
  "in_scope m t r \<longleftrightarrow> row_of_tenant t r \<and> (dm_soft_delete m \<longrightarrow> is_null r ''deleted_at'')"

definition has_id :: "pyval \<Rightarrow> data_row \<Rightarrow> bool" where
  "has_id i r \<longleftrightarrow> i \<noteq> PNone \<and> dget r ''id'' = Some i"

definition repo_list :: "data_model \<Rightarrow> string option \<Rightarrow> data_row list \<Rightarrow> data_row list result" where
  "repo_list m ctx rows = rbind (current_tenant_id ctx) (\<lambda>t. Inr (filter (in_scope m t) rows))"

definition repo_get :: "data_model \<Rightarrow> string option \<Rightarrow> pyval \<Rightarrow> data_row list \<Rightarrow> data_row option result" where
  "repo_get m ctx i rows =
     rbind (current_tenant_id ctx) (\<lambda>t. Inr (find (\<lambda>r. in_scope m t r \<and> has_id i r) rows))"

definition tenant_conflict :: "string \<Rightarrow> exn" where
  "tenant_conflict msg = app_error ''TENANT_CONTEXT_CONFLICT'' msg (Some 403) []"

text \<open>The constructor of a model refuses a name that is not a column. A missing column is \<open>NULL\<close>.\<close>

definition new_row :: "data_model \<Rightarrow> data_row \<Rightarrow> data_row result" where
  "new_row m values =
    (case filter (\<lambda>k. k \<notin> set (dm_columns m)) (map fst values) of
       k # _ \<Rightarrow> Inl (PyError ''TypeError'' (repr_str k @ '' is an invalid keyword argument''))
     | [] \<Rightarrow> Inr (map (\<lambda>c. (c, case dget values c of None \<Rightarrow> PNone | Some v \<Rightarrow> v)) (dm_columns m)))"

definition repo_create ::
  "data_model \<Rightarrow> string option \<Rightarrow> data_row \<Rightarrow> data_row list \<Rightarrow> data_row list \<times> data_row result" where
  "repo_create m ctx values rows =
    (case rbind (current_tenant_id ctx) (\<lambda>t.
         if \<not> is_null values ''tenant_id'' \<and> dget values ''tenant_id'' \<noteq> Some (PStr t)
         then Inl (tenant_conflict ''Cannot create tenant-scoped data for another tenant'')
         else new_row m (dput ''tenant_id'' (PStr t) values)) of
       Inl e \<Rightarrow> (rows, Inl e)
     | Inr r \<Rightarrow> (rows @ [r], Inr r))"

text \<open>\<open>create\<close> of a model instance, whose columns are there already.\<close>

definition repo_add ::
  "data_model \<Rightarrow> string option \<Rightarrow> data_row \<Rightarrow> data_row list \<Rightarrow> data_row list \<times> data_row result" where
  "repo_add m ctx record rows =
    (case rbind (current_tenant_id ctx) (\<lambda>t.
         if \<not> is_null record ''tenant_id'' \<and> dget record ''tenant_id'' \<noteq> Some (PStr t)
         then Inl (tenant_conflict ''Cannot create tenant-scoped data for another tenant'')
         else Inr (dput ''tenant_id'' (PStr t) record)) of
       Inl e \<Rightarrow> (rows, Inl e)
     | Inr r \<Rightarrow> (rows @ [r], Inr r))"

text \<open>\<open>setattr\<close> for each value but the tenant; an attribute that is no column does not reach the table.\<close>

definition set_attributes :: "data_model \<Rightarrow> data_row \<Rightarrow> data_row \<Rightarrow> data_row" where
  "set_attributes m values r =
     fold (\<lambda>(k, v) r. if k \<noteq> ''tenant_id'' \<and> k \<in> set (dm_columns m) then dput k v r else r) values r"

fun update_first :: "('r \<Rightarrow> bool) \<Rightarrow> ('r \<Rightarrow> 'r) \<Rightarrow> 'r list \<Rightarrow> 'r list" where
  "update_first P f [] = []"
| "update_first P f (x # xs) = (if P x then f x # xs else x # update_first P f xs)"

definition repo_update ::
  "data_model \<Rightarrow> string option \<Rightarrow> pyval \<Rightarrow> data_row \<Rightarrow> data_row list \<Rightarrow> data_row list \<times> data_row option result" where
  "repo_update m ctx i values rows =
    (case rbind (current_tenant_id ctx) (\<lambda>t.
         if dget values ''tenant_id'' \<noteq> None \<and> dget values ''tenant_id'' \<noteq> Some (PStr t)
         then Inl (tenant_conflict ''Cannot move tenant-scoped data across tenants'')
         else rbind (repo_get m ctx i rows) (\<lambda>found. Inr (t, found))) of
       Inl e \<Rightarrow> (rows, Inl e)
     | Inr (t, None) \<Rightarrow> (rows, Inr None)
     | Inr (t, Some r) \<Rightarrow>
         (update_first (\<lambda>r. in_scope m t r \<and> has_id i r) (set_attributes m values) rows, Inr (Some (set_attributes m values r))))"

section \<open>The cross-tenant repository\<close>

text \<open>Its constructor: the resources and actions are the defaults of the gate.\<close>

definition new_cross_tenant_repository ::
  "string option \<Rightarrow> decision option \<Rightarrow> cross_tenant_permission option \<Rightarrow> (string \<times> decision) result" where
  "new_cross_tenant_repository reason platform_decision platform_access =
    rbind (cross_tenant_reason_and_decision reason platform_decision platform_access ''cross_tenant'' [''read''] None) (\<lambda>(r, d).
    rbind (assert_platform_decision d) (\<lambda>_. Inr (r, d)))"

definition cross_get :: "pyval \<Rightarrow> data_row list \<Rightarrow> data_row option" where
  "cross_get i rows = find (has_id i) rows"

section \<open>Calls\<close>

datatype repo_call =
    List_Rows
  | Get_Row pyval
  | Create_Row data_row
  | Add_Row data_row
  | Update_Row pyval data_row

text \<open>What one call of the repository returns, as a list of rows, and the rows after it.\<close>

fun repo_step :: "data_model \<Rightarrow> string option \<Rightarrow> repo_call \<Rightarrow> data_row list \<Rightarrow> data_row list \<times> data_row list result" where
  "repo_step m ctx List_Rows rows = (rows, repo_list m ctx rows)"
| "repo_step m ctx (Get_Row i) rows =
     (rows, rbind (repo_get m ctx i rows) (\<lambda>x. Inr (case x of None \<Rightarrow> [] | Some r \<Rightarrow> [r])))"
| "repo_step m ctx (Create_Row v) rows =
     (case repo_create m ctx v rows of (rows', x) \<Rightarrow> (rows', rbind x (\<lambda>r. Inr [r])))"
| "repo_step m ctx (Add_Row v) rows =
     (case repo_add m ctx v rows of (rows', x) \<Rightarrow> (rows', rbind x (\<lambda>r. Inr [r])))"
| "repo_step m ctx (Update_Row i v) rows =
     (case repo_update m ctx i v rows of (rows', x) \<Rightarrow>
        (rows', rbind x (\<lambda>x. Inr (case x of None \<Rightarrow> [] | Some r \<Rightarrow> [r]))))"

fun repo_run :: "data_model \<Rightarrow> string option \<Rightarrow> repo_call list \<Rightarrow> data_row list \<Rightarrow> data_row list \<times> data_row list" where
  "repo_run m ctx [] rows = (rows, [])"
| "repo_run m ctx (c # cs) rows =
     (case repo_step m ctx c rows of (rows', x) \<Rightarrow>
        (case repo_run m ctx cs rows' of (rows'', seen) \<Rightarrow>
           (rows'', (case x of Inl _ \<Rightarrow> [] | Inr rs \<Rightarrow> rs) @ seen)))"

end
