(* ===== verification/Sql_Guard.thy ===== *)
theory Sql_Guard
  imports Permission_Decisions Python_Text
begin

text \<open>
  Raw SQL (\<open>core/db/sql.py\<close>): a tenant-scoped statement must hold the predicate \<open>tenant_id = :tenant_id\<close>
  outside comments and literals, and runs with the tenant of the caller as that parameter. The three
  regular expressions are written out as functions on texts. Also the tenant scope of a model
  (\<open>core/db/constraints.py\<close>).

  A pattern that ignores case is matched on the text in lower case; in the range of the texts no
  character outside ASCII matches an ASCII letter. The session is a parameter.
\<close>

section \<open>Comments and literals\<close>

text \<open>What follows a line comment: \<open>[^\r\n]*(?:\r?\n|$)\<close>. A carriage return alone ends no comment.\<close>

fun after_line_comment :: "string \<Rightarrow> string option" where
  "after_line_comment [] = Some []"
| "after_line_comment (c # s) =
     (if c = CHR 0x0A then Some s
      else if c = CHR 0x0D then (case s of d # t \<Rightarrow> if d = CHR 0x0A then Some t else None | [] \<Rightarrow> None)
      else after_line_comment s)"

fun after_block_comment :: "string \<Rightarrow> string option" where
  "after_block_comment [] = None"
| "after_block_comment (c # s) =
     (if c = CHR ''*'' \<and> s \<noteq> [] \<and> hd s = CHR ''/'' then Some (tl s) else after_block_comment s)"

lemma after_line_comment_shorter: "after_line_comment s = Some t \<Longrightarrow> length t \<le> length s"
  by (induction s rule: after_line_comment.induct) (force split: if_splits list.splits)+

lemma after_block_comment_shorter: "after_block_comment s = Some t \<Longrightarrow> length t \<le> length s"
  by (induction s) (force split: if_splits)+

definition after_comment :: "string \<Rightarrow> string option" where
  "after_comment s =
    (if starts_with s ''--'' then after_line_comment (drop 2 s)
     else if starts_with s ''/*'' then after_block_comment (drop 2 s) else None)"

lemma after_comment_shorter: "after_comment (c # s) = Some t \<Longrightarrow> length t < Suc (length s)"
  by (cases s) (auto simp: after_comment_def split: if_splits dest: after_line_comment_shorter after_block_comment_shorter)

function strip_comments :: "string \<Rightarrow> string" where
  "strip_comments [] = []"
| "strip_comments (c # s) =
     (case after_comment (c # s) of Some t \<Rightarrow> CHR '' '' # strip_comments t | None \<Rightarrow> c # strip_comments s)"
  by pat_completeness auto

termination
  by (relation "measure length") (auto dest: after_comment_shorter)

text \<open>What follows a literal whose opening quote has been read, \<open>(?:''|[^'])*'\<close>: two quotes are an escaped
  one, unless no closing quote follows them.\<close>

fun after_literal :: "string \<Rightarrow> string option" where
  "after_literal [] = None"
| "after_literal [c] = (if c = CHR 0x27 then Some [] else None)"
| "after_literal (c # d # s) =
     (if c \<noteq> CHR 0x27 then after_literal (d # s)
      else if d \<noteq> CHR 0x27 then Some (d # s)
      else (case after_literal s of Some t \<Rightarrow> Some t | None \<Rightarrow> Some (d # s)))"

lemma after_literal_shorter: "after_literal s = Some t \<Longrightarrow> length t < length s"
  by (induction s arbitrary: t rule: after_literal.induct) (force split: if_splits option.splits)+

function strip_literals :: "string \<Rightarrow> string" where
  "strip_literals [] = []"
| "strip_literals (c # s) =
     (if c = CHR 0x27
      then (case after_literal s of Some t \<Rightarrow> CHR '' '' # strip_literals t | None \<Rightarrow> c # strip_literals s)
      else c # strip_literals s)"
  by pat_completeness auto

termination
  by (relation "measure length") (auto dest: after_literal_shorter)

definition strip_comments_and_literals :: "string \<Rightarrow> string" where
  "strip_comments_and_literals statement = strip_literals (strip_comments statement)"

section \<open>The predicate\<close>

definition ident_char :: "char \<Rightarrow> bool" where
  "ident_char c \<longleftrightarrow> (let n = of_char c :: nat in 97 \<le> n \<and> n \<le> 122) \<or> digit_char c \<or> c = CHR ''_''"

text \<open>\<open>\w\<close> of a text: letters, digits, numbers and the underscore.\<close>

definition word_char :: "char \<Rightarrow> bool" where
  "word_char c \<longleftrightarrow> ident_char c \<or> upper c \<or>
     (let n = of_char c :: nat in n \<in> {170, 178, 179, 181, 185, 186, 188, 189, 190} \<or> 192 \<le> n \<and> n \<noteq> 215 \<and> n \<noteq> 247)"

definition spaces_off :: "string \<Rightarrow> string" where
  "spaces_off s = dropWhile is_space s"

definition eat :: "string \<Rightarrow> string \<Rightarrow> string option" where
  "eat p s = (if starts_with s p then Some (drop (length p) s) else None)"

text \<open>An optional qualifier, then the column, quoted or not. A list of what may follow: the qualifier may be
  read or not.\<close>

definition after_qualifier :: "string \<Rightarrow> string option" where
  "after_qualifier s =
    (case (case s of
        [] \<Rightarrow> None
      | c # t \<Rightarrow>
         if ident_char c \<and> \<not> digit_char c then Some (dropWhile ident_char t)
         else if c = CHR 0x22 then
           (case dropWhile (\<lambda>d. d \<noteq> CHR 0x22) t of [] \<Rightarrow> None
            | _ # u \<Rightarrow> if takeWhile (\<lambda>d. d \<noteq> CHR 0x22) t = [] then None else Some u)
         else None) of
       None \<Rightarrow> None
     | Some t \<Rightarrow> map_option spaces_off (eat ''.'' (spaces_off t)))"

definition column_name :: "string \<Rightarrow> string list" where
  "column_name s =
     (case eat [CHR 0x22, CHR ''t'', CHR ''e'', CHR ''n'', CHR ''a'', CHR ''n'', CHR ''t'', CHR ''_'', CHR ''i'', CHR ''d'', CHR 0x22] s of
        Some t \<Rightarrow> [t]
      | None \<Rightarrow> (case eat ''tenant_id'' s of Some t \<Rightarrow> [t] | None \<Rightarrow> []))"

definition tenant_column :: "string \<Rightarrow> string list" where
  "tenant_column s = (case after_qualifier s of Some t \<Rightarrow> column_name t | None \<Rightarrow> []) @ column_name s"

definition tenant_bind :: "string \<Rightarrow> string list" where
  "tenant_bind s = (case eat '':tenant_id'' s of
     Some t \<Rightarrow> if t \<noteq> [] \<and> word_char (hd t) then [] else [t] | None \<Rightarrow> [])"

definition equals_sign :: "string \<Rightarrow> string list" where
  "equals_sign s = (case eat ''='' (spaces_off s) of Some t \<Rightarrow> [spaces_off t] | None \<Rightarrow> [])"

definition predicate_at :: "string \<Rightarrow> bool" where
  "predicate_at s \<longleftrightarrow>
     concat (map tenant_bind (concat (map equals_sign (tenant_column s)))) \<noteq> [] \<or>
     concat (map tenant_column (concat (map equals_sign (tenant_bind s)))) \<noteq> []"

fun search_predicate :: "bool \<Rightarrow> string \<Rightarrow> bool" where
  "search_predicate inside [] = False"
| "search_predicate inside (c # s) = ((\<not> inside \<and> predicate_at (c # s)) \<or> search_predicate (ident_char c) s)"

definition has_tenant_predicate :: "string \<Rightarrow> bool" where
  "has_tenant_predicate statement = search_predicate False (lower (strip_comments_and_literals statement))"

definition validate_tenant_predicate :: "string \<Rightarrow> unit result" where
  "validate_tenant_predicate statement =
    (if has_tenant_predicate statement then Inr ()
     else Inl (app_error ''TENANT_ACCESS_DENIED'' ''Tenant-scoped SQL must include an explicit tenant_id predicate'' (Some 403) []))"

section \<open>Execution\<close>

definition sql_tenant :: "string option \<Rightarrow> string option \<Rightarrow> string result" where
  "sql_tenant tenant_id ctx =
    (case tenant_id of
       Some (c # t) \<Rightarrow> Inr (c # t)
     | _ \<Rightarrow> (case ctx of
         Some (c # t) \<Rightarrow> Inr (c # t)
       | _ \<Rightarrow> Inl (app_error ''TENANT_ACCESS_DENIED'' ''Tenant-scoped SQL requires tenant context'' (Some 403) [])))"

definition tenant_parameters :: "string \<Rightarrow> (string \<times> pyval) list \<Rightarrow> (string \<times> pyval) list result" where
  "tenant_parameters tenant params =
    (if dget params ''tenant_id'' \<notin> {None, Some PNone, Some (PStr tenant)}
     then Inl (app_error ''TENANT_CONTEXT_CONFLICT'' ''Raw SQL tenant parameter conflicts with current tenant'' (Some 403) [])
     else Inr (dput ''tenant_id'' (PStr tenant) params))"

definition execute_tenant_scoped ::
  "(string \<Rightarrow> (string \<times> pyval) list \<Rightarrow> ('w, 'a) state_op) \<Rightarrow> string \<Rightarrow> (string \<times> pyval) list \<Rightarrow> string option
    \<Rightarrow> string option \<Rightarrow> ('w, 'a) state_op" where
  "execute_tenant_scoped execute statement params tenant_id ctx =
    sbind (sret (sql_tenant tenant_id ctx)) (\<lambda>tenant.
    sbind (sret (validate_tenant_predicate statement)) (\<lambda>_.
    sbind (sret (tenant_parameters tenant params)) (\<lambda>params. execute statement params)))"

definition execute_cross_tenant ::
  "(string \<Rightarrow> (string \<times> pyval) list \<Rightarrow> ('w, 'a) state_op) \<Rightarrow> string \<Rightarrow> (string \<times> pyval) list \<Rightarrow> string option
    \<Rightarrow> decision option \<Rightarrow> cross_tenant_permission option \<Rightarrow> ('w, 'a) state_op" where
  "execute_cross_tenant execute statement params reason platform_decision platform_access =
    sbind (sret (cross_tenant_reason_and_decision reason platform_decision platform_access ''cross_tenant'' [''read''] None)) (\<lambda>_.
      execute statement params)"

section \<open>The tenant scope of a model\<close>

record table_constraint =
  tc_name :: "string option"
  tc_unique :: bool
  tc_columns :: "string list"

record table_spec =
  tb_columns :: "(string \<times> bool) list"  \<comment> \<open>name and whether it is nullable\<close>
  tb_indexes :: "string list list"
  tb_constraints :: "table_constraint list"

definition has_tenant_index_or_constraint :: "table_spec \<Rightarrow> bool" where
  "has_tenant_index_or_constraint t \<longleftrightarrow>
     list_ex (\<lambda>cs. ''tenant_id'' \<in> set cs) (tb_indexes t) \<or> list_ex (\<lambda>c. ''tenant_id'' \<in> set (tc_columns c)) (tb_constraints t)"

definition unique_violation :: "table_constraint \<Rightarrow> string list" where
  "unique_violation c =
    (if tc_unique c \<and> tc_columns c \<noteq> [] \<and> set (tc_columns c) \<noteq> {''id''} \<and> ''tenant_id'' \<notin> set (tc_columns c)
     then [''unique constraint '' @ (case tc_name c of Some (a # n) \<Rightarrow> a # n | _ \<Rightarrow> ''<unnamed>'') @ '' must include tenant_id'']
     else [])"

definition check_tenant_scoped_model :: "table_spec \<Rightarrow> string list" where
  "check_tenant_scoped_model t =
    (case dget (tb_columns t) ''tenant_id'' of
       None \<Rightarrow> [''missing tenant_id column'']
     | Some nullable \<Rightarrow>
        (if nullable then [''tenant_id must be non-nullable''] else []) @
        (if has_tenant_index_or_constraint t then [] else [''tenant_id must be covered by an index or constraint'']) @
        concat (map unique_violation (tb_constraints t)))"

end
