(* ===== verification/Data_Properties.thy ===== *)
theory Data_Properties
  imports Unit_Of_Work Tenant_Data Sql_Guard "HOL-Library.Multiset"
begin

text \<open>
  The properties of the data layer: a unit of work is atomic whatever is nested in it and caught inside,
  what a swallowed failure does to it, and which tenant a session is bound to.
\<close>

section \<open>Units of work\<close>

definition in_unit :: "'d uow_world \<Rightarrow> bool" where
  "in_unit w \<longleftrightarrow> ww_stack w \<noteq> [] \<and> list_all (\<lambda>u. uw_state u = Active) (ww_stack w)"

definition unmarked :: "uow list \<Rightarrow> uow list" where
  "unmarked us = map (\<lambda>u. u\<lparr>uw_rollback_only := False\<rparr>) us"

definition doomed :: "'d uow_world \<Rightarrow> bool" where
  "doomed w = uw_rollback_only (last (ww_stack w))"

text \<open>What stays the same while a program runs inside a unit.\<close>

definition same_units :: "'d uow_world \<Rightarrow> 'd uow_world \<Rightarrow> bool" where
  "same_units w w' \<longleftrightarrow> ww_data w' = ww_data w \<and> ww_tenant w' = ww_tenant w \<and> ww_open w' = ww_open w \<and>
     unmarked (ww_stack w') = unmarked (ww_stack w)"

lemma same_units_refl [simp]: "same_units w w"
  by (simp add: same_units_def)

lemma same_units_trans: "same_units w w' \<Longrightarrow> same_units w' w'' \<Longrightarrow> same_units w w''"
  by (simp add: same_units_def)

lemma unmarked_Nil [simp]: "unmarked us = [] \<longleftrightarrow> us = []"
  by (simp add: unmarked_def)

lemma unmarked_states: "unmarked us' = unmarked us \<Longrightarrow> map uw_state us' = map uw_state us"
proof -
  assume "unmarked us' = unmarked us"
  then have "map uw_state (unmarked us') = map uw_state (unmarked us)" by simp
  then show ?thesis by (simp add: unmarked_def comp_def)
qed

lemma unmarked_hd: "unmarked us' = unmarked us \<Longrightarrow> us \<noteq> [] \<Longrightarrow> uw_tenant_id (hd us') = uw_tenant_id (hd us)"
proof -
  assume e: "unmarked us' = unmarked us" and "us \<noteq> []"
  then have "us' \<noteq> []" by (metis unmarked_Nil)
  then have "(hd us')\<lparr>uw_rollback_only := False\<rparr> = (hd us)\<lparr>uw_rollback_only := False\<rparr>"
    using e \<open>us \<noteq> []\<close> by (metis hd_map unmarked_def)
  then have "uw_tenant_id ((hd us')\<lparr>uw_rollback_only := False\<rparr>) = uw_tenant_id ((hd us)\<lparr>uw_rollback_only := False\<rparr>)"
    by simp
  then show ?thesis by simp
qed

lemma same_units_in_unit: "same_units (w :: 'b uow_world) w' \<Longrightarrow> in_unit w \<Longrightarrow> in_unit w'"
proof -
  assume s: "same_units w w'" and i: "in_unit w"
  from s have "unmarked (ww_stack w') = unmarked (ww_stack w)" by (simp add: same_units_def)
  then have e: "map uw_state (ww_stack w') = map uw_state (ww_stack w)" by (rule unmarked_states)
  have "length (ww_stack w') = length (ww_stack w)" "set (map uw_state (ww_stack w')) = set (map uw_state (ww_stack w))"
    using arg_cong [OF e, of length] arg_cong [OF e, of set] by simp_all
  moreover have "in_unit x \<longleftrightarrow> length (ww_stack x) \<noteq> 0 \<and> set (map uw_state (ww_stack x)) \<subseteq> {Active}" for x :: "'b uow_world"
    by (auto simp: in_unit_def list_all_iff)
  ultimately have "in_unit w' \<longleftrightarrow> in_unit w" by (simp only:)
  with i show ?thesis by simp
qed

lemma same_units_tenants:
  assumes "same_units w w'" and "in_unit w"
  shows "ww_tenant w' = ww_tenant w" "uw_tenant_id (hd (ww_stack w')) = uw_tenant_id (hd (ww_stack w))"
proof -
  from assms(1) show "ww_tenant w' = ww_tenant w" by (simp add: same_units_def)
  from assms have "unmarked (ww_stack w') = unmarked (ww_stack w)" "ww_stack w \<noteq> []"
    by (simp_all add: same_units_def in_unit_def)
  then show "uw_tenant_id (hd (ww_stack w')) = uw_tenant_id (hd (ww_stack w))" by (rule unmarked_hd)
qed

lemma unmarked_mark [simp]: "unmarked (mark_rollback_only us) = unmarked us"
  by (simp add: unmarked_def mark_rollback_only_def)

lemma last_mark: "us \<noteq> [] \<Longrightarrow> uw_rollback_only (last (mark_rollback_only us))"
  by (simp add: mark_rollback_only_def last_map)

text \<open>A nested unit: it is entered on the stack, and left from it.\<close>

lemma enter_nested_unit:
  assumes "in_unit w" and "inner = [] \<or> uw_tenant_id (hd (ww_stack w)) = [] \<or> inner = uw_tenant_id (hd (ww_stack w))"
  shows "enter_unit st inner w = (w\<lparr>ww_stack := \<lparr>uw_tenant_id = (if inner \<noteq> [] then inner else uw_tenant_id (hd (ww_stack w))),
      uw_state = Active, uw_rollback_only = False\<rparr> # ww_stack w\<rparr>, Inr ())"
  using assms by (cases "ww_stack w") (auto simp: in_unit_def enter_unit_def enter_nested_def)

lemma enter_conflicting_unit:
  assumes "in_unit w" and "inner \<noteq> []" and "uw_tenant_id (hd (ww_stack w)) \<noteq> []" and "inner \<noteq> uw_tenant_id (hd (ww_stack w))"
  shows "enter_unit st inner w = (w, Inl (app_error ''TENANT_CONTEXT_CONFLICT''
    ''Nested unit of work tenant_id conflicts with active transaction'' (Some 403) []))"
  using assms by (cases "ww_stack w") (auto simp: in_unit_def enter_unit_def enter_nested_def)

lemma exit_nested_unit:
  assumes "unmarked (ww_stack w') = unmarked (u # ww_stack w)" and "ww_stack w \<noteq> []"
  shows "exit_unit commit raised w' =
    (w'\<lparr>ww_stack := (if raised then mark_rollback_only (tl (ww_stack w')) else tl (ww_stack w'))\<rparr>, Inr ())"
    and "unmarked (tl (ww_stack w')) = unmarked (ww_stack w)" and "tl (ww_stack w') \<noteq> []"
proof -
  from assms(1) obtain u' us where w': "ww_stack w' = u' # us" and us: "unmarked us = unmarked (ww_stack w)"
    by (cases "ww_stack w'") (simp_all add: unmarked_def)
  moreover have "us \<noteq> []" using us assms(2) by (metis unmarked_Nil)
  then obtain v vs where "us = v # vs" by (cases us) simp_all
  ultimately show "exit_unit commit raised w' =
      (w'\<lparr>ww_stack := (if raised then mark_rollback_only (tl (ww_stack w')) else tl (ww_stack w'))\<rparr>, Inr ())"
    and "unmarked (tl (ww_stack w')) = unmarked (ww_stack w)" and "tl (ww_stack w') \<noteq> []"
    by (simp_all add: exit_unit_def)
qed

text \<open>The simulation: inside a unit a program does what it means, and leaves the units as they are.\<close>

lemma program_means:
  assumes "in_unit w" and "run_program st commit p w = (w', r)"
  shows "same_units w w' \<and> meaning (ww_tenant w) p (uw_tenant_id (hd (ww_stack w))) (ww_working w, doomed w)
    = ((ww_working w', doomed w'), r)"
  using assms
proof (induction p arbitrary: w w' r)
  case (Statement f)
  then show ?case by (auto simp: same_units_def doomed_def)
next
  case (Raise e)
  then show ?case by auto
next
  case (Sequence p q)
  obtain w1 r1 where p: "run_program st commit p w = (w1, r1)" by fastforce
  note m1 = Sequence.IH(1) [OF Sequence.prems(1) p]
  then have i1: "in_unit w1" using Sequence.prems(1) same_units_in_unit by blast
  note t = same_units_tenants [OF conjunct1 [OF m1] Sequence.prems(1)]
  show ?case
  proof (cases r1)
    case (Inl e)
    then show ?thesis using Sequence.prems(2) p m1 by (auto simp: sbind_def)
  next
    case (Inr u)
    then have "run_program st commit q w1 = (w', r)" using Sequence.prems(2) p by (simp add: sbind_def)
    note m2 = Sequence.IH(2) [OF i1 this]
    then show ?thesis using m1 t Inr same_units_trans [of w w1 w'] by (simp add: sbind_def)
  qed
next
  case (Attempt p q)
  obtain w1 r1 where p: "run_program st commit p w = (w1, r1)" by fastforce
  note m1 = Attempt.IH(1) [OF Attempt.prems(1) p]
  then have i1: "in_unit w1" using Attempt.prems(1) same_units_in_unit by blast
  note t = same_units_tenants [OF conjunct1 [OF m1] Attempt.prems(1)]
  show ?case
  proof (cases r1)
    case (Inl e)
    then have "run_program st commit q w1 = (w', r)" using Attempt.prems(2) p by simp
    note m2 = Attempt.IH(2) [OF i1 this]
    then show ?thesis using m1 t Inl same_units_trans [of w w1 w'] by simp
  next
    case (Inr u)
    then show ?thesis using Attempt.prems(2) p m1 by auto
  qed
next
  case (Unit inner p)
  let ?t = "uw_tenant_id (hd (ww_stack w))"
  show ?case
  proof (cases "inner \<noteq> [] \<and> ?t \<noteq> [] \<and> inner \<noteq> ?t")
    case True
    then show ?thesis using Unit.prems enter_conflicting_unit [OF Unit.prems(1)] by (simp add: unit_of_work_def)
  next
    case False
    let ?u = "\<lparr>uw_tenant_id = (if inner \<noteq> [] then inner else ?t), uw_state = Active, uw_rollback_only = False\<rparr>"
    let ?w1 = "w\<lparr>ww_stack := ?u # ww_stack w\<rparr>"
    have en: "enter_unit st inner w = (?w1, Inr ())"
      using enter_nested_unit [OF Unit.prems(1)] False by blast
    have i1: "in_unit ?w1" and ne: "ww_stack w \<noteq> []" using Unit.prems(1) by (auto simp: in_unit_def)
    obtain w2 r2 where p: "run_program st commit p ?w1 = (w2, r2)" by fastforce
    note m = Unit.IH [OF i1 p]
    then have um: "unmarked (ww_stack w2) = unmarked (?u # ww_stack w)" by (simp add: same_units_def)
    note ex = exit_nested_unit [OF um ne]
    have d1: "doomed ?w1 = doomed w" using ne by (simp add: doomed_def)
    have last2: "last (tl (ww_stack w2)) = last (ww_stack w2)" using ex(3) by (cases "ww_stack w2") simp_all
    show ?thesis
    proof (cases r2)
      case (Inl e)
      then have w': "w' = w2\<lparr>ww_stack := mark_rollback_only (tl (ww_stack w2))\<rparr>" "r = Inl e"
        using Unit.prems(2) en p ex(1) [of commit True] by (auto simp: unit_of_work_def)
      have "doomed w'" using w' ex(3) by (simp add: doomed_def last_mark)
      moreover have "meaning (ww_tenant w) p (if inner \<noteq> [] then inner else ?t) (ww_working w, doomed w)
          = ((ww_working w2, doomed w2), Inl e)" using m d1 Inl by simp
      moreover have "same_units w w'" using m w' ex(2) by (simp add: same_units_def)
      ultimately show ?thesis using False w' by auto
    next
      case (Inr u)
      then have w': "w' = w2\<lparr>ww_stack := tl (ww_stack w2)\<rparr>" "r = Inr u"
        using Unit.prems(2) en p ex(1) [of commit False] by (auto simp: unit_of_work_def)
      have "doomed w' = doomed w2" using w' last2 by (simp add: doomed_def)
      moreover have "meaning (ww_tenant w) p (if inner \<noteq> [] then inner else ?t) (ww_working w, doomed w)
          = ((ww_working w2, doomed w2), Inr u)" using m d1 Inr by simp
      moreover have "same_units w w'" using m w' ex(2) by (simp add: same_units_def)
      ultimately show ?thesis using False w' by auto
    qed
  qed
qed

text \<open>C11: A unit of work is a transaction: what its program means is committed as a whole, or nothing of it is,
  and the unit raises what the program raised or what the commit raised. Statements of nested units,
  handlers and raises in between do not change that.
\<close>

theorem unit_of_work_is_atomic:
  assumes "ww_stack w = []" and "run_program st commit (Unit tenant_id p) w = (w', r)"
  shows "case bound_tenant st tenant_id of
      Inl e \<Rightarrow> r = Inl e \<and> ww_data w' = ww_data w
    | Inr bound \<Rightarrow>
       (case meaning bound p tenant_id (ww_data w, False) of ((d, rollback), outcome) \<Rightarrow>
          ww_stack w' = [] \<and> ww_open w' = ww_open w \<and>
          (if outcome = Inr () \<and> \<not> rollback
           then (case commit d of
               Inr _ \<Rightarrow> r = Inr () \<and> ww_data w' = d
             | Inl e \<Rightarrow> r = Inl e \<and> ww_data w' = ww_data w)
           else r = outcome \<and> ww_data w' = ww_data w))"
proof (cases "bound_tenant st tenant_id")
  case (Inl e)
  then show ?thesis using assms by (auto simp: unit_of_work_def enter_unit_def enter_outer_def Let_def)
next
  case (Inr bound)
  let ?u = "\<lparr>uw_tenant_id = tenant_id, uw_state = Active, uw_rollback_only = False\<rparr>"
  let ?w1 = "w\<lparr>ww_working := ww_data w, ww_tenant := bound, ww_open := Suc (ww_open w), ww_stack := [?u]\<rparr>"
  have en: "enter_unit st tenant_id w = (?w1, Inr ())"
    using assms(1) Inr by (simp add: enter_unit_def enter_outer_def)
  have i1: "in_unit ?w1" by (simp add: in_unit_def)
  obtain w2 r2 where p: "run_program st commit p ?w1 = (w2, r2)" by fastforce
  note m = program_means [OF i1 p]
  then have "unmarked (ww_stack w2) = unmarked [?u]" and d2: "ww_data w2 = ww_data w" and o2: "ww_open w2 = Suc (ww_open w)"
    by (simp_all add: same_units_def)
  then obtain u2 where u2: "ww_stack w2 = [u2]" by (auto simp: unmarked_def)
  have mm: "meaning bound p tenant_id (ww_data w, False) = ((ww_working w2, uw_rollback_only u2), r2)"
    using m u2 by (simp add: doomed_def)
  show ?thesis
  proof (cases r2)
    case (Inl e)
    then show ?thesis using assms(2) en p u2 d2 o2 mm Inr
      by (auto simp: unit_of_work_def exit_unit_def exit_outer_def Let_def)
  next
    case (Inr v)
    then show ?thesis using assms(2) en p u2 d2 o2 mm \<open>bound_tenant st tenant_id = Inr bound\<close>
      by (cases "commit (ww_working w2)") (auto simp: unit_of_work_def exit_unit_def exit_outer_def Let_def split: if_splits)
  qed
qed

theorem unit_of_work_is_atomic_witness:
  "ww_data (fst (run_program \<lparr>ss_fallback = None, ss_dialect = ''sqlite'', ss_set_config = (\<lambda>_ _. Inr ())\<rparr> (\<lambda>_. Inr ())
     (Unit ''t1'' (Sequence (Statement (\<lambda>_ d. 1 # d)) (Unit ''t1'' (Statement (\<lambda>_ d. 2 # d)))))
     \<lparr>ww_data = [0 :: int], ww_working = [], ww_stack = [], ww_tenant = None, ww_open = 0\<rparr>)) = [2, 1, 0]"
proof -
  let ?st = "\<lparr>ss_fallback = None, ss_dialect = ''sqlite'', ss_set_config = (\<lambda>_ _. Inr ())\<rparr> :: session_settings"
  let ?p = "Sequence (Statement (\<lambda>_ d. 1 # d)) (Unit ''t1'' (Statement (\<lambda>_ d. 2 # d))) :: int list program"
  let ?w = "\<lparr>ww_data = [0 :: int], ww_working = [], ww_stack = [], ww_tenant = None, ww_open = 0\<rparr>"
  obtain w' r where e: "run_program ?st (\<lambda>_. Inr ()) (Unit ''t1'' ?p) ?w = (w', r)" by fastforce
  have "bound_tenant ?st ''t1'' = Inr None" by (simp add: bound_tenant_def)
  then show ?thesis using unit_of_work_is_atomic [OF _ e] e by (simp add: sbind_def)
qed

text \<open>
  A failure that a handler swallows inside the unit is not forgotten: the nested unit has doomed the
  transaction. The outer unit then returns as if it had succeeded, and has stored nothing.
\<close>

theorem doomed_unit_returns_silently:
  assumes "ww_stack w = []" and "bound_tenant st tenant_id = Inr bound"
  shows "\<exists>w'. run_program st commit
      (Unit tenant_id (Sequence (Statement f) (Attempt (Unit [] (Raise e)) (Statement g)))) w = (w', Inr ()) \<and>
    ww_data w' = ww_data w \<and> ww_stack w' = []"
proof -
  let ?p = "Sequence (Statement f) (Attempt (Unit [] (Raise e)) (Statement g))"
  obtain w' r where run: "run_program st commit (Unit tenant_id ?p) w = (w', r)" by fastforce
  show ?thesis using unit_of_work_is_atomic [OF assms(1) run] assms(2) run
    by (intro exI [of _ w']) (simp add: sbind_def)
qed

text \<open>A nested unit that names a tenant inside a unit that names none joins the session as it is: its
  statements run on a session no tenant is bound to.\<close>

theorem nested_tenant_is_not_bound:
  assumes "ww_stack w = []" and "commit (f None (ww_data w)) = Inr ()"
  shows "\<exists>w'. run_program st commit (Unit [] (Unit tenant_id (Statement f))) w = (w', Inr ()) \<and>
    ww_data w' = f None (ww_data w)"
proof -
  obtain w' r where run: "run_program st commit (Unit [] (Unit tenant_id (Statement f))) w = (w', r)" by fastforce
  have "bound_tenant st [] = Inr None" by (simp add: bound_tenant_def split: option.split)
  then show ?thesis using unit_of_work_is_atomic [OF assms(1) run] assms(2) run
    by (intro exI [of _ w']) simp
qed

text \<open>A session whose tenant cannot be bound is opened and never closed.\<close>

theorem failed_binding_leaks_session:
  assumes "ww_stack w = []" and "bound_tenant st tenant_id = Inl e"
  shows "\<exists>w'. run_program st commit (Unit tenant_id p) w = (w', Inl e) \<and> ww_open w' = Suc (ww_open w)"
  using assms by (simp add: unit_of_work_def enter_unit_def enter_outer_def Let_def)

section \<open>Tenant isolation\<close>

lemma set_attributes_tenant: "row_of_tenant t (set_attributes m vs r) = row_of_tenant t r"
proof -
  have "dget (set_attributes m vs r) ''tenant_id'' = dget r ''tenant_id''"
    unfolding set_attributes_def by (induction vs arbitrary: r) auto
  then show ?thesis by (simp add: row_of_tenant_def)
qed

lemma new_row_tenant:
  assumes "new_row m (dput ''tenant_id'' (PStr t) values) = Inr r"
  shows "row_of_tenant t r"
proof -
  let ?v = "dput ''tenant_id'' (PStr t) values"
  have r: "r = map (\<lambda>c. (c, case dget ?v c of None \<Rightarrow> PNone | Some v \<Rightarrow> v)) (dm_columns m)"
    and cols: "set (map fst ?v) \<subseteq> set (dm_columns m)"
    using assms by (auto simp: new_row_def filter_empty_conv split: list.splits)
  have "''tenant_id'' \<in> set (map fst ?v)" by (simp add: keys_dput)
  with cols have "''tenant_id'' \<in> set (dm_columns m)" by blast
  then have "dget r ''tenant_id'' = Some (case dget ?v ''tenant_id'' of None \<Rightarrow> PNone | Some v \<Rightarrow> v)"
    by (simp add: r dget_def map_of_map_restrict)
  then show ?thesis by (simp add: row_of_tenant_def)
qed

lemma update_first_others:
  assumes "\<And>x. P x \<Longrightarrow> Q x" and "\<And>x. P x \<Longrightarrow> Q (f x)"
  shows "filter (\<lambda>x. \<not> Q x) (update_first P f xs) = filter (\<lambda>x. \<not> Q x) xs"
  using assms by (induction xs) auto

lemma find_property: "find P xs = Some x \<Longrightarrow> P x"
  by (induction xs) (auto split: if_splits)

lemma repo_step_isolated:
  assumes "repo_step m ctx c rows = (rows', x)" and "ctx = Some t"
  shows "filter (\<lambda>r. \<not> row_of_tenant t r) rows' = filter (\<lambda>r. \<not> row_of_tenant t r) rows \<and>
    (\<forall>rs. x = Inr rs \<longrightarrow> (\<forall>r \<in> set rs. row_of_tenant t r))"
proof (cases c)
  case List_Rows
  then show ?thesis using assms by (auto simp: repo_list_def rbind_Inr_iff current_tenant_id_def in_scope_def split: if_splits)
next
  case (Get_Row i)
  then show ?thesis using assms
    by (auto simp: repo_get_def rbind_Inr_iff current_tenant_id_def in_scope_def dest!: find_property split: if_splits option.splits)
next
  case (Create_Row v)
  then show ?thesis using assms
    by (auto simp: repo_create_def rbind_Inr_iff current_tenant_id_def new_row_tenant split: if_splits sum.splits)
next
  case (Add_Row v)
  then show ?thesis using assms
    by (auto simp: repo_add_def rbind_Inr_iff current_tenant_id_def row_of_tenant_def split: if_splits sum.splits)
next
  case (Update_Row i v)
  let ?P = "\<lambda>r. in_scope m t r \<and> has_id i r"
  have "filter (\<lambda>r. \<not> row_of_tenant t r) (update_first ?P (set_attributes m v) rows) = filter (\<lambda>r. \<not> row_of_tenant t r) rows"
    by (rule update_first_others) (auto simp: in_scope_def set_attributes_tenant)
  then show ?thesis using assms Update_Row
    by (auto simp: repo_update_def repo_get_def rbind_Inr_iff current_tenant_id_def set_attributes_tenant in_scope_def
      dest!: find_property split: if_splits sum.splits option.splits)
qed

lemma repo_step_without_tenant:
  assumes "repo_step m None c rows = (rows', x)"
  shows "rows' = rows \<and> (\<exists>e. x = Inl e)"
  using assms by (cases c) (auto simp: repo_list_def repo_get_def repo_create_def repo_add_def repo_update_def current_tenant_id_def)

text \<open>C12: Whatever an app does with a tenant-scoped repository, it sees rows of the tenant of its context alone and
  leaves the rows of all other tenants as they are. Without a tenant it sees and changes nothing.
\<close>

theorem repository_stays_in_tenant:
  "case repo_run m ctx calls rows of (rows', seen) \<Rightarrow>
     (case ctx of
        None \<Rightarrow> rows' = rows \<and> seen = []
      | Some t \<Rightarrow> filter (\<lambda>r. \<not> row_of_tenant t r) rows' = filter (\<lambda>r. \<not> row_of_tenant t r) rows \<and>
          filter (row_of_tenant t) seen = seen)"
proof (induction calls arbitrary: rows)
  case Nil
  then show ?case by (simp split: option.split)
next
  case (Cons c calls)
  obtain rows1 x where st: "repo_step m ctx c rows = (rows1, x)" by fastforce
  obtain rows2 seen where run: "repo_run m ctx calls rows1 = (rows2, seen)" by fastforce
  show ?case
  proof (cases ctx)
    case None
    then show ?thesis using repo_step_without_tenant [of m c rows rows1 x] st run Cons [of rows1] by auto
  next
    case (Some t)
    then show ?thesis using repo_step_isolated [OF st Some] st run Cons [of rows1]
      by (auto split: sum.splits)
  qed
qed

section \<open>Pages\<close>

lemma pages_concat:
  "concat (map (\<lambda>p. take s (drop ((p - 1) * s) xs)) [1..<Suc n]) = take (n * s) xs"
proof (induction n)
  case (Suc n)
  have "take (n * s) xs @ take s (drop (n * s) xs) = take (n * s + s) xs" by (rule take_add [symmetric])
  with Suc show ?case by (simp add: add.commute)
qed simp

lemma mset_foldr_sort: "mset (foldr (\<lambda>(k, dir). sort_by k dir) keys rows) = mset rows"
  by (induction keys) (auto simp: sort_by_def sort_desc_def split: direction.split)

lemma query_without_page [simp]:
  "sort_terms qc (q\<lparr>lq_page := p\<rparr>) = sort_terms qc q" "filter_values qc (q\<lparr>lq_page := p\<rparr>) = filter_values qc q"
  by (simp_all add: sort_terms_def filter_values_def)



text \<open>The sort text of a list of terms, as a client writes it.\<close>

definition sort_token :: "string \<times> direction \<Rightarrow> string" where
  "sort_token = (\<lambda>(f, dir). case dir of Asc \<Rightarrow> f | Desc \<Rightarrow> CHR ''-'' # f)"

lemma name_char_plain: "name_start d \<or> digit_char d \<Longrightarrow> \<not> is_space d \<and> d \<notin> {CHR '','', CHR ''+'', CHR ''-''}"
  by (auto simp: name_start_def digit_char_def upper_def is_space_def Let_def)

lemma field_name_plain:
  assumes "field_name_pattern f"
  shows "f \<noteq> []" "\<forall>d \<in> set f. \<not> is_space d \<and> d \<notin> {CHR '','', CHR ''+'', CHR ''-''}"
proof -
  from assms show "f \<noteq> []" by (auto simp: field_name_pattern_def)
  from assms have "\<forall>d \<in> set f. name_start d \<or> digit_char d"
    by (auto simp: field_name_pattern_def list_all_iff split: list.splits)
  then show "\<forall>d \<in> set f. \<not> is_space d \<and> d \<notin> {CHR '','', CHR ''+'', CHR ''-''}" using name_char_plain by blast
qed

lemma sort_token_plain:
  assumes "field_name_pattern (fst x)"
  shows "parse_sort_token (sort_token x) = (snd x, fst x)" "strip (sort_token x) = sort_token x"
    "sort_token x \<noteq> []" "CHR '','' \<notin> set (sort_token x)"
proof -
  obtain f dir where x: "x = (f, dir)" by (cases x)
  note pl = field_name_plain [of f]
  have f: "field_name_pattern f" using assms x by simp
  obtain c cs where fc: "f = c # cs" using pl(1) f by (cases f) auto
  show "parse_sort_token (sort_token x) = (snd x, fst x)" "sort_token x \<noteq> []" "CHR '','' \<notin> set (sort_token x)"
    using pl f fc by (auto simp: sort_token_def parse_sort_token_def x split: direction.splits)
  have "\<forall>c \<in> set (sort_token x). \<not> is_space c"
    using pl f by (auto simp: sort_token_def x is_space_def split: direction.splits)
  then show "strip (sort_token x) = sort_token x" by (intro strip_no_space) (simp add: list_all_iff)
qed

lemma split_on_join: "ps \<noteq> [] \<Longrightarrow> \<forall>p \<in> set ps. c \<notin> set p \<Longrightarrow> split_on c (join [c] ps) = ps"
proof (induction ps)
  case (Cons p ps)
  have cons: "c \<notin> set q \<Longrightarrow> split_on c (q @ c # t) = q # split_on c t" for q t
    by (induction q) auto
  show ?case using Cons by (cases ps) (simp_all add: split_on_free cons)
qed simp

lemma parse_sort_tokens_back:
  assumes "\<forall>x \<in> set terms. field_name_pattern (fst x) \<and> \<not> when_some (qc_sortable qc) (\<lambda>fs. fst x \<notin> set fs)"
    and "distinct (map fst terms)" and "set (map fst terms) \<inter> set seen = {}"
  shows "parse_sort_tokens qc seen (map sort_token terms) = Inr terms"
  using assms
proof (induction terms arbitrary: seen)
  case (Cons x terms)
  then have "field_name_pattern (fst x)" by simp
  note tok = sort_token_plain [OF this]
  have "parse_sort_tokens qc (fst x # seen) (map sort_token terms) = Inr terms"
    using Cons.prems by (intro Cons.IH) auto
  then show ?case using Cons.prems tok by (auto simp: Let_def case_prod_unfold)
qed simp

text \<open>The sort order a client asks for is the one it gets: written as text and read back, any list of distinct
  allowed fields, each ascending or descending, is the same list.
\<close>

theorem sort_order_reads_back:
  assumes "terms \<noteq> []" and "distinct (map fst terms)" and "list_all (field_name_pattern \<circ> fst) terms"
    and "case qc_sortable qc of None \<Rightarrow> True | Some fs \<Rightarrow> set (map fst terms) \<subseteq> set fs"
  shows "sort_terms qc (q\<lparr>lq_sort := Some (join '','' (map sort_token terms))\<rparr>) = Inr terms"
proof -
  let ?s = "join '','' (map sort_token terms)"
  have free: "\<forall>p \<in> set (map sort_token terms). CHR '','' \<notin> set p"
    using assms(3) sort_token_plain(4) by (auto simp: list_all_iff)
  have split: "split_on CHR '','' ?s = map sort_token terms" using split_on_join [OF _ free] assms(1) by simp
  have "parse_sort_tokens qc [] (map sort_token terms) = Inr terms"
    using assms by (intro parse_sort_tokens_back) (auto simp: list_all_iff split: option.splits)
  moreover have "\<not> blank ?s"
  proof
    assume "blank ?s"
    then have b: "\<forall>c \<in> set ?s. is_space c" by (simp add: blank_iff list_all_iff)
    obtain x xs where t: "terms = x # xs" using assms(1) by (cases terms) auto
    then have "set (sort_token x) \<subseteq> set ?s" by (cases xs) auto
    moreover have f: "field_name_pattern (fst x)" using assms(3) t by simp
    have "fst x \<noteq> []" "set (fst x) \<subseteq> set (sort_token x)"
      using field_name_plain(1) [OF f] by (auto simp: sort_token_def case_prod_unfold split: direction.split)
    ultimately have "\<exists>c \<in> set (fst x). is_space c" using b by (cases "fst x") auto
    then show False using field_name_plain(2) [OF f] by blast
  qed
  ultimately show ?thesis using split by (simp add: sort_terms_def)
qed

theorem sort_order_reads_back_witness:
  "sort_terms \<lparr>qc_sortable = Some [''name'', ''created_at''], qc_default_sort = [], qc_filterable = None\<rparr>
     \<lparr>lq_page = 1, lq_page_size = 20, lq_sort = Some ''-created_at,name'', lq_fields = []\<rparr>
   = Inr [(''created_at'', Desc), (''name'', Asc)]"
proof -
  let ?qc = "\<lparr>qc_sortable = Some [''name'', ''created_at''], qc_default_sort = [], qc_filterable = None\<rparr>"
  let ?q = "\<lparr>lq_page = 1, lq_page_size = 20, lq_sort = None, lq_fields = []\<rparr>"
  let ?ts = "[(''created_at'', Desc), (''name'', Asc)]"
  have "list_all (field_name_pattern \<circ> fst) ?ts" by code_simp
  then show ?thesis using sort_order_reads_back [of ?ts ?qc ?q] by (simp add: sort_token_def)
qed

section \<open>Raw SQL\<close>


text \<open>A statement without quotes and comment signs that compares the column is let through.\<close>

lemma plain_strip:
  assumes "CHR ''-'' \<notin> set s" and "CHR ''/'' \<notin> set s" and "CHR 0x27 \<notin> set s"
  shows "strip_comments_and_literals s = s"
proof -
  have "strip_comments s = s" using assms(1,2)
    by (induction s) (auto simp: after_comment_def)
  moreover have "strip_literals s = s" using assms(3) by (induction s) auto
  ultimately show ?thesis by (simp add: strip_comments_and_literals_def)
qed

lemma search_finds: "predicate_at s \<Longrightarrow> s \<noteq> [] \<Longrightarrow> search_predicate inside (pre @ CHR '' '' # s)"
proof (induction pre arbitrary: inside)
  case Nil
  have "\<not> ident_char CHR '' ''" by (simp add: ident_char_def digit_char_def Let_def)
  with Nil show ?case by (cases s) auto
qed simp

theorem plain_predicate_passes:
  assumes "list_all (\<lambda>c. c \<notin> {CHR ''-'', CHR ''/'', CHR 0x27}) (pre @ post)"
  shows "has_tenant_predicate (pre @ '' tenant_id = :tenant_id '' @ post)"
proof -
  have strip: "strip_comments_and_literals (pre @ '' tenant_id = :tenant_id '' @ post) = pre @ '' tenant_id = :tenant_id '' @ post"
    using assms by (intro plain_strip) (auto simp: list_all_iff)
  have "predicate_at (''tenant_id = :tenant_id '' @ t)" for t
    by (simp add: predicate_at_def tenant_column_def column_name_def eat_def equals_sign_def spaces_off_def tenant_bind_def
      is_space_def word_char_def ident_char_def digit_char_def upper_def)
  then have "search_predicate False (lower pre @ CHR '' '' # ''tenant_id = :tenant_id '' @ lower post)"
    by (intro search_finds) simp_all
  moreover have "lower (pre @ '' tenant_id = :tenant_id '' @ post) = lower pre @ '' tenant_id = :tenant_id '' @ lower post"
    by (simp add: lower_def lower_char_def)
  ultimately show ?thesis by (simp only: has_tenant_predicate_def strip) simp
qed

text \<open>
  The guard reads text, not SQL, so it lets through statements that no tenant restricts: the predicate
  stands in a literal that holds a comment sign, in a comment that a carriage return ends, in a nested
  comment, beside an alternative, or compares a column whose name only begins like the tenant's.
\<close>

theorem sql_guard_lets_through:
  "list_all has_tenant_predicate
    [''select * from t where note = '' @ [CHR 0x27] @ ''--'' @ [CHR 0x27, CHR 0x0A, CHR 0x27] @ ''tenant_id = :tenant_id'' @ [CHR 0x27],
     ''select * from t -- tenant_id = :tenant_id'' @ [CHR 0x0D],
     ''select * from t /* /* */ tenant_id = :tenant_id */'',
     ''select * from t where tenant_id = :tenant_id or 1 = 1'',
     ''select * from t where :tenant_id = tenant_id_of_parent'']"
  by code_simp

end
