(* ===== verification/Setting_Specs.thy ===== *)
theory Setting_Specs
  imports Effects Python_Text
begin

text \<open>
  Setting definitions: \<open>SettingSpec\<close> and its validation (\<open>core/apps/module.py\<close>) and the registry built
  from the apps (\<open>core/settings/registry.py\<close>).

  A bound of a number is a finite float, as mantissa and binary exponent; \<open>float_of_int\<close> is Python's
  \<open>float\<close> of an integer, which rounds to 53 bits, half to even, and overflows from \<open>2 ^ 1024\<close> on.
\<close>

section \<open>Floats\<close>

fun bit_length :: "nat \<Rightarrow> nat" where
  "bit_length n = (if n = 0 then 0 else Suc (bit_length (n div 2)))"

declare bit_length.simps [simp del]

definition round_half_even :: "int \<Rightarrow> nat \<Rightarrow> int" where
  "round_half_even a k =
    (let q = a div 2 ^ k; r = a mod 2 ^ k in
     if 2 ^ k < 2 * r \<or> (2 ^ k = 2 * r \<and> odd q) then q + 1 else q)"

definition float_of_int :: "int \<Rightarrow> (int \<times> int) result" where
  "float_of_int n =
    (let a = abs n in
     if a < 2 ^ 53 then Inr (n, 0)
     else let k = bit_length (nat a) - 53; m = round_half_even a k in
       if 2 ^ 1024 \<le> m * 2 ^ k then Inl (PyError ''OverflowError'' ''int too large to convert to float'')
       else Inr (sgn n * m, int k))"

fun float_less :: "int \<times> int \<Rightarrow> int \<times> int \<Rightarrow> bool" where
  "float_less (m, e) (m', e') \<longleftrightarrow>
     (if e \<le> e' then m < m' * 2 ^ nat (e' - e) else m * 2 ^ nat (e - e') < m')"

section \<open>Definitions of settings\<close>

record setting_spec =
  sp_module :: string
  sp_key :: string
  sp_value_type :: string
  sp_default :: pyval
  sp_scopes :: "string list"
  sp_category :: string
  sp_description :: string
  sp_required :: bool
  sp_runtime_mutable :: bool
  sp_sensitive :: bool
  sp_secret_ref_only :: bool
  sp_risk_level :: string
  sp_cache_ttl :: "int option"
  sp_allowed :: "string list"
  sp_min :: "(int \<times> int) option"
  sp_max :: "(int \<times> int) option"
  sp_kind :: string
  sp_deprecated :: bool

definition full_key :: "setting_spec \<Rightarrow> string" where
  "full_key sp = sp_module sp @ ''.'' @ sp_key sp"

text \<open>\<open>_LABEL_PATTERN\<close> and \<open>_SETTING_KEY_PATTERN\<close>, matched in full.\<close>

definition lower_letter :: "char \<Rightarrow> bool" where
  "lower_letter c \<longleftrightarrow> (let n = of_char c :: nat in 97 \<le> n \<and> n \<le> 122)"

definition label_char :: "char \<Rightarrow> bool" where
  "label_char c \<longleftrightarrow> lower_letter c \<or> digit_char c \<or> c = CHR ''_''"

definition label_pattern :: "string \<Rightarrow> bool" where
  "label_pattern s \<longleftrightarrow> (case s of [] \<Rightarrow> False | c # cs \<Rightarrow> lower_letter c \<and> list_all label_char cs)"

definition setting_key_pattern :: "string \<Rightarrow> bool" where
  "setting_key_pattern s \<longleftrightarrow> list_all label_pattern (split_on CHR ''.'' s)"

definition setting_value_types :: "string list" where
  "setting_value_types = [''string'', ''int'', ''float'', ''bool'', ''json'', ''enum'', ''string_list'']"

definition setting_error :: "string \<Rightarrow> string \<Rightarrow> exn" where
  "setting_error field_name m = value_error (''setting '' @ field_name @ '' '' @ m)"

definition validate_numeric_bounds :: "setting_spec \<Rightarrow> int \<times> int \<Rightarrow> string \<Rightarrow> unit result" where
  "validate_numeric_bounds sp v field_name =
    (if when_some (sp_min sp) (float_less v) then Inl (setting_error field_name ''is below min_value'')
     else if when_some (sp_max sp) (\<lambda>b. float_less b v) then Inl (setting_error field_name ''is above max_value'')
     else Inr ())"

text \<open>\<open>float(value)\<close> of a number that is not a boolean.\<close>

fun as_float :: "pyval \<Rightarrow> (int \<times> int) result option" where
  "as_float (PInt n) = Some (float_of_int n)"
| "as_float (PFloat m e) = Some (Inr (m, e))"
| "as_float _ = None"

fun is_int :: "pyval \<Rightarrow> bool" where
  "is_int (PInt n) = True"
| "is_int _ = False"

fun is_bool :: "pyval \<Rightarrow> bool" where
  "is_bool (PBool b) = True"
| "is_bool _ = False"

fun is_string_list :: "pyval \<Rightarrow> bool" where
  "is_string_list (PList vs) = list_all (\<lambda>v. as_str v \<noteq> None) vs"
| "is_string_list _ = False"

definition validate_number :: "setting_spec \<Rightarrow> pyval \<Rightarrow> string \<Rightarrow> string \<Rightarrow> pyval result" where
  "validate_number sp v field_name expected =
    (case as_float v of
       None \<Rightarrow> Inl (setting_error field_name expected)
     | Some r \<Rightarrow> rbind r (\<lambda>x. rbind (validate_numeric_bounds sp x field_name) (\<lambda>_. Inr v)))"

definition validate_enum :: "setting_spec \<Rightarrow> pyval \<Rightarrow> string \<Rightarrow> pyval result" where
  "validate_enum sp v field_name =
    (case as_str v of
       None \<Rightarrow> Inl (setting_error field_name ''must be an enum string'')
     | Some s \<Rightarrow> if sp_allowed sp \<noteq> [] \<and> s \<notin> set (sp_allowed sp)
         then Inl (setting_error field_name ''is not an allowed enum value'') else Inr v)"

definition validate_setting_value :: "setting_spec \<Rightarrow> pyval \<Rightarrow> string \<Rightarrow> pyval result" where
  "validate_setting_value sp v field_name =
    (let ty = sp_value_type sp; need = (\<lambda>ok m. if ok then Inr v else Inl (setting_error field_name m)) in
     if sp_secret_ref_only sp then need (when_some (as_str v) (\<lambda>s. \<not> blank s)) ''must be a non-empty secret reference''
     else if ty = ''string'' then need (as_str v \<noteq> None) ''must be a string''
     else if ty = ''int'' then
       if is_int v then validate_number sp v field_name ''must be an int'' else Inl (setting_error field_name ''must be an int'')
     else if ty = ''float'' then validate_number sp v field_name ''must be a number''
     else if ty = ''bool'' then need (is_bool v) ''must be a bool''
     else if ty = ''enum'' then validate_enum sp v field_name
     else if ty = ''string_list'' then need (is_string_list v) ''must be a string list''
     else if ty = ''json'' then Inr v
     else Inl (value_error (''setting value_type is invalid: '' @ repr_str ty)))"

definition check_member :: "string \<Rightarrow> string \<Rightarrow> string list \<Rightarrow> unit result" where
  "check_member field_name v allowed =
    (if v \<in> set allowed then Inr () else Inl (setting_error field_name (''is invalid: '' @ repr_str v)))"

definition validate_setting_spec :: "setting_spec \<Rightarrow> unit result" where
  "validate_setting_spec sp =
    (if \<not> label_pattern (sp_module sp) then Inl (setting_error ''module'' (''is invalid: '' @ repr_str (sp_module sp)))
     else if \<not> setting_key_pattern (sp_key sp) then Inl (setting_error ''key'' (''is invalid: '' @ repr_str (sp_key sp)))
     else rbind (check_member ''value_type'' (sp_value_type sp) setting_value_types) (\<lambda>_.
       if sp_scopes sp = [] then Inl (setting_error ''scopes'' ''cannot be empty'')
       else rbind (check_all (\<lambda>s. check_member ''scope'' s [''platform'', ''tenant'']) (sp_scopes sp)) (\<lambda>_.
       if blank (sp_category sp) then Inl (setting_error ''category'' ''is required'')
       else if blank (sp_description sp) then Inl (setting_error ''description'' ''is required'')
       else rbind (check_member ''risk_level'' (sp_risk_level sp) [''low'', ''normal'', ''high'', ''critical'']) (\<lambda>_.
       rbind (check_member ''kind'' (sp_kind sp) [''config'', ''flag'']) (\<lambda>_.
       if when_some (sp_cache_ttl sp) (\<lambda>n. n < 0) then Inl (setting_error ''cache_ttl_seconds'' ''must be non-negative'')
       else rbind (validate_setting_value sp (sp_default sp) ''default'') (\<lambda>_. Inr ()))))))"

section \<open>The registry\<close>

record registered_setting =
  rs_app_label :: string
  rs_spec :: setting_spec

definition registered_key :: "registered_setting \<Rightarrow> string \<times> string" where
  "registered_key r = (sp_module (rs_spec r), sp_key (rs_spec r))"

definition opt_int :: "int option \<Rightarrow> pyval" where
  "opt_int x = (case x of None \<Rightarrow> PNone | Some n \<Rightarrow> PInt n)"

definition opt_float :: "(int \<times> int) option \<Rightarrow> pyval" where
  "opt_float x = (case x of None \<Rightarrow> PNone | Some (m, e) \<Rightarrow> PFloat m e)"

definition registered_to_dict :: "registered_setting \<Rightarrow> (string \<times> pyval) list" where
  "registered_to_dict r = (let sp = rs_spec r in
    [(''app_label'', PStr (rs_app_label r)), (''module'', PStr (sp_module sp)), (''key'', PStr (sp_key sp)),
     (''value_type'', PStr (sp_value_type sp)), (''default'', sp_default sp),
     (''scopes'', PList (map PStr (sp_scopes sp))), (''category'', PStr (sp_category sp)),
     (''description'', PStr (sp_description sp)), (''required'', PBool (sp_required sp)),
     (''runtime_mutable'', PBool (sp_runtime_mutable sp)), (''sensitive'', PBool (sp_sensitive sp)),
     (''secret_ref_only'', PBool (sp_secret_ref_only sp)), (''risk_level'', PStr (sp_risk_level sp)),
     (''cache_ttl_seconds'', opt_int (sp_cache_ttl sp)), (''allowed_values'', PList (map PStr (sp_allowed sp))),
     (''min_value'', opt_float (sp_min sp)), (''max_value'', opt_float (sp_max sp)), (''kind'', PStr (sp_kind sp)),
     (''deprecated'', PBool (sp_deprecated sp))])"

record setting_registry =
  sr_settings :: "registered_setting list"
  sr_errors :: "string list"

definition duplicate_setting :: "registered_setting \<Rightarrow> string \<Rightarrow> string" where
  "duplicate_setting r by_label =
     ''Duplicate setting ('' @ repr_str (sp_module (rs_spec r)) @ '', '' @ repr_str (sp_key (rs_spec r)) @ '') declared by ''
       @ repr_str by_label @ '' and '' @ repr_str (rs_app_label r)"

definition register_setting ::
  "registered_setting \<Rightarrow> setting_registry \<times> (string \<times> string \<Rightarrow> string option)
    \<Rightarrow> setting_registry \<times> (string \<times> string \<Rightarrow> string option)" where
  "register_setting r = (\<lambda>(reg, seen).
    (\<lparr>sr_settings = sr_settings reg @ [r],
      sr_errors = sr_errors reg @ (case seen (registered_key r) of None \<Rightarrow> [] | Some l \<Rightarrow> [duplicate_setting r l])\<rparr>,
     seen(registered_key r \<mapsto> rs_app_label r)))"

text \<open>The argument is the label of each app with its settings, in the order of the app registry.\<close>

definition registry_of_apps :: "(string \<times> setting_spec list) list \<Rightarrow> setting_registry" where
  "registry_of_apps apps =
     fst (fold register_setting
       (concat (map (\<lambda>(label, sps). map (\<lambda>sp. \<lparr>rs_app_label = label, rs_spec = sp\<rparr>) sps) apps))
       (\<lparr>sr_settings = [], sr_errors = []\<rparr>, Map.empty))"

definition has_setting :: "setting_registry \<Rightarrow> string \<Rightarrow> string \<Rightarrow> bool" where
  "has_setting reg module key \<longleftrightarrow>
     list_ex (\<lambda>r. sp_module (rs_spec r) = module \<and> sp_key (rs_spec r) = key) (sr_settings reg)"

definition get_setting :: "setting_registry \<Rightarrow> string \<Rightarrow> string \<Rightarrow> setting_spec result" where
  "get_setting reg module key =
    (case find (\<lambda>r. sp_module (rs_spec r) = module \<and> sp_key (rs_spec r) = key) (sr_settings reg) of
       None \<Rightarrow> Inl (PyError ''KeyError'' (repr_str (''Unknown setting: '' @ module @ ''.'' @ key)))
     | Some r \<Rightarrow> Inr (rs_spec r))"

definition registry_to_dict :: "setting_registry \<Rightarrow> (string \<times> pyval) list" where
  "registry_to_dict reg =
     [(''ok'', PBool (sr_errors reg = [])), (''errors'', PList (map PStr (sr_errors reg))),
      (''settings'', PList (map (PDict \<circ> registered_to_dict) (sr_settings reg)))]"

section \<open>Lemmas\<close>

lemma get_setting_key: "get_setting reg module key = Inr sp \<Longrightarrow> sp_module sp = module \<and> sp_key sp = key"
  by (auto simp: get_setting_def find_Some_iff split: option.splits)

lemma get_setting_iff_has: "(\<exists>sp. get_setting reg module key = Inr sp) \<longleftrightarrow> has_setting reg module key"
proof -
  let ?P = "\<lambda>r. sp_module (rs_spec r) = module \<and> sp_key (rs_spec r) = key"
  have "has_setting reg module key \<longleftrightarrow> find ?P (sr_settings reg) \<noteq> None"
    by (auto simp: has_setting_def list_ex_iff find_None_iff)
  then show ?thesis by (auto simp: get_setting_def split: option.splits)
qed

end
