(* ===== verification/Settings.thy ===== *)
theory Settings
  imports Setting_Specs Permission_Decisions "HOL-Library.Product_Lexorder" "HOL-Library.List_Lexorder"
begin

text \<open>
  The settings app (\<open>platform_apps/settings/services.py\<close>): the value of a setting at a scope, its
  versions and revisions, the resolution of a setting for a tenant, and what a client is shown of a
  secret.

  The state is the two tables and the rest of the world, \<open>'w\<close>, on which the event publisher and the
  audit recorder operate. A value row is read and written back in two statements; the argument
  \<open>others\<close> is what other sessions committed to the tables in between. The flush updates the columns
  the operation changed. A JSON value \<open>null\<close> and an absent value are both \<open>PNone\<close>.
\<close>

section \<open>Tables\<close>

record setting_value =
  sv_id :: string
  sv_module :: string
  sv_key :: string
  sv_scope :: string
  sv_scope_id :: string
  sv_value :: pyval
  sv_secret_ref :: "string option"
  sv_value_type :: string
  sv_version :: int
  sv_status :: string
  sv_updated_by :: string
  sv_reason :: "string option"

record setting_revision =
  se_id :: string
  se_value_id :: string
  se_module :: string
  se_key :: string
  se_scope :: string
  se_scope_id :: string
  se_old_value :: pyval
  se_new_value :: pyval
  se_old_secret_ref :: "string option"
  se_new_secret_ref :: "string option"
  se_version :: int
  se_changed_by :: string
  se_reason :: "string option"

record setting_tables =
  st_values :: "setting_value list"
  st_revisions :: "setting_revision list"

type_synonym 'w setting_state = "setting_tables \<times> 'w"

record 'w setting_env =
  sx_registry :: setting_registry
  sx_publish :: "string \<Rightarrow> string \<Rightarrow> string \<Rightarrow> string \<Rightarrow> (string \<times> pyval) list \<Rightarrow> ('w, unit) state_op"
  sx_audit :: "(audit_event \<Rightarrow> ('w, unit) state_op) option"

record setting_slot =
  sl_module :: string
  sl_key :: string
  sl_scope :: string
  sl_scope_id :: string

record setting_caller =
  sc_actor_id :: string
  sc_request_id :: string
  sc_reason :: "string option"

definition slot_of :: "setting_value \<Rightarrow> setting_slot" where
  "slot_of v = \<lparr>sl_module = sv_module v, sl_key = sv_key v, sl_scope = sv_scope v, sl_scope_id = sv_scope_id v\<rparr>"

definition value_changed_event :: string where
  "value_changed_event = ''platform_settings.value_changed''"

section \<open>Reading\<close>

definition current_value :: "setting_slot \<Rightarrow> setting_tables \<Rightarrow> setting_value option" where
  "current_value sl tabs = find (\<lambda>v. slot_of v = sl) (st_values tabs)"

definition active_value :: "setting_slot \<Rightarrow> setting_tables \<Rightarrow> setting_value option" where
  "active_value sl tabs = find (\<lambda>v. slot_of v = sl \<and> sv_status v = ''active'') (st_values tabs)"

definition registered_setting_spec :: "setting_registry \<Rightarrow> string \<Rightarrow> string \<Rightarrow> setting_spec result" where
  "registered_setting_spec reg module key =
    (case get_setting reg module key of
       Inl _ \<Rightarrow> Inl (validation_error (''Unknown setting: '' @ module @ ''.'' @ key))
     | Inr sp \<Rightarrow> Inr sp)"

definition assert_setting_mutable :: "setting_spec \<Rightarrow> unit result" where
  "assert_setting_mutable sp = (if sp_runtime_mutable sp then Inr ()
     else Inl (validation_error (''Setting '' @ full_key sp @ '' is not runtime mutable'')))"

definition assert_scope_allowed :: "setting_spec \<Rightarrow> string \<Rightarrow> unit result" where
  "assert_scope_allowed sp scope = (if scope \<in> set (sp_scopes sp) then Inr ()
     else Inl (validation_error (''Setting '' @ full_key sp @ '' does not support '' @ scope @ '' scope'')))"

text \<open>The two secrets of a row and how a client sees them.\<close>

definition secret_redaction :: string where
  "secret_redaction = ''***''"

definition hides :: "setting_spec \<Rightarrow> bool" where
  "hides sp \<longleftrightarrow> sp_sensitive sp \<or> sp_secret_ref_only sp"

definition serialize_value :: "setting_spec \<Rightarrow> pyval \<Rightarrow> string option \<Rightarrow> pyval" where
  "serialize_value sp v secret_ref =
     (if hides sp then if v \<noteq> PNone \<or> secret_ref \<noteq> None then PStr secret_redaction else PNone else v)"

definition serialize_secret_ref :: "setting_spec \<Rightarrow> string option \<Rightarrow> pyval" where
  "serialize_secret_ref sp secret_ref =
     (case secret_ref of None \<Rightarrow> PNone | Some s \<Rightarrow> PStr (if hides sp then secret_redaction else s))"

record resolved_setting =
  rv_module :: string
  rv_key :: string
  rv_scope :: string
  rv_scope_id :: string
  rv_source :: string
  rv_value :: pyval
  rv_version :: int

definition resolved_to_dict :: "resolved_setting \<Rightarrow> (string \<times> pyval) list" where
  "resolved_to_dict r =
     [(''module'', PStr (rv_module r)), (''key'', PStr (rv_key r)), (''scope'', PStr (rv_scope r)),
      (''scope_id'', PStr (rv_scope_id r)), (''source'', PStr (rv_source r)), (''value'', rv_value r),
      (''version'', PInt (rv_version r))]"

definition resolved_from_row :: "setting_value \<Rightarrow> string \<Rightarrow> setting_spec \<Rightarrow> resolved_setting" where
  "resolved_from_row v source sp =
     \<lparr>rv_module = sv_module v, rv_key = sv_key v, rv_scope = sv_scope v, rv_scope_id = sv_scope_id v,
      rv_source = source, rv_value = serialize_value sp (sv_value v) (sv_secret_ref v), rv_version = sv_version v\<rparr>"

definition platform_slot :: "string \<Rightarrow> string \<Rightarrow> setting_slot" where
  "platform_slot module key =
     \<lparr>sl_module = module, sl_key = key, sl_scope = ''platform'', sl_scope_id = platform_tenant_id\<rparr>"

definition tenant_slot :: "string \<Rightarrow> string \<Rightarrow> string \<Rightarrow> setting_slot" where
  "tenant_slot module key tenant_id =
     \<lparr>sl_module = module, sl_key = key, sl_scope = ''tenant'', sl_scope_id = tenant_id\<rparr>"

text \<open>The tenant whose own value counts: the tenant, when the setting has tenant scope.\<close>

definition resolving_tenant :: "setting_spec \<Rightarrow> string option \<Rightarrow> string option" where
  "resolving_tenant sp tenant_id = (if ''tenant'' \<in> set (sp_scopes sp) then tenant_id else None)"

definition default_resolved :: "setting_spec \<Rightarrow> string \<Rightarrow> string \<Rightarrow> string option \<Rightarrow> resolved_setting" where
  "default_resolved sp module key tenant_id =
     \<lparr>rv_module = module, rv_key = key,
      rv_scope = (if resolving_tenant sp tenant_id \<noteq> None then ''tenant'' else ''platform''),
      rv_scope_id = (case resolving_tenant sp tenant_id of Some t \<Rightarrow> t | None \<Rightarrow> platform_tenant_id),
      rv_source = ''default'', rv_value = serialize_value sp (sp_default sp) None, rv_version = 0\<rparr>"

definition resolve_setting ::
  "setting_registry \<Rightarrow> string \<Rightarrow> string \<Rightarrow> string option \<Rightarrow> setting_tables \<Rightarrow> resolved_setting result" where
  "resolve_setting reg module key tenant_id tabs =
    rbind (registered_setting_spec reg module key) (\<lambda>sp.
      Inr (case (case resolving_tenant sp tenant_id of None \<Rightarrow> None
                 | Some t \<Rightarrow> active_value (tenant_slot module key t) tabs) of
             Some v \<Rightarrow> resolved_from_row v ''tenant'' sp
           | None \<Rightarrow>
             (case active_value (platform_slot module key) tabs of
                Some v \<Rightarrow> resolved_from_row v ''platform'' sp
              | None \<Rightarrow> default_resolved sp module key tenant_id)))"

definition list_values :: "string \<Rightarrow> string \<Rightarrow> setting_tables \<Rightarrow> setting_value list" where
  "list_values scope scope_id tabs = sort_key (\<lambda>v. (sv_module v, sv_key v))
     (filter (\<lambda>v. sv_scope v = scope \<and> sv_scope_id v = scope_id \<and> sv_status v = ''active'') (st_values tabs))"

definition value_not_found :: "setting_slot \<Rightarrow> exn" where
  "value_not_found sl = app_error ''NOT_FOUND''
     (''Setting value '' @ sl_module sl @ ''.'' @ sl_key sl @ '' was not found'') (Some 404) []"

definition readable_spec :: "setting_registry \<Rightarrow> setting_slot \<Rightarrow> setting_spec result" where
  "readable_spec reg sl =
    rbind (registered_setting_spec reg (sl_module sl) (sl_key sl)) (\<lambda>sp.
    rbind (assert_scope_allowed sp (sl_scope sl)) (\<lambda>_. Inr sp))"

definition get_value :: "setting_registry \<Rightarrow> setting_slot \<Rightarrow> setting_tables \<Rightarrow> setting_value result" where
  "get_value reg sl tabs =
    rbind (readable_spec reg sl) (\<lambda>sp.
      case active_value sl tabs of None \<Rightarrow> Inl (value_not_found sl) | Some v \<Rightarrow> Inr v)"

definition revision_slot :: "setting_revision \<Rightarrow> setting_slot" where
  "revision_slot r = \<lparr>sl_module = se_module r, sl_key = se_key r, sl_scope = se_scope r, sl_scope_id = se_scope_id r\<rparr>"

definition history :: "setting_registry \<Rightarrow> setting_slot \<Rightarrow> setting_tables \<Rightarrow> setting_revision list result" where
  "history reg sl tabs =
    rbind (readable_spec reg sl) (\<lambda>sp.
      Inr (sort_key (\<lambda>r. (se_version r, se_id r)) (filter (\<lambda>r. revision_slot r = sl) (st_revisions tabs))))"

section \<open>Writing\<close>

definition writable_spec :: "setting_registry \<Rightarrow> setting_slot \<Rightarrow> setting_spec result" where
  "writable_spec reg sl =
    rbind (registered_setting_spec reg (sl_module sl) (sl_key sl)) (\<lambda>sp.
    rbind (assert_setting_mutable sp) (\<lambda>_. rbind (assert_scope_allowed sp (sl_scope sl)) (\<lambda>_. Inr sp)))"

text \<open>Only a \<open>ValueError\<close> becomes a validation error; an overflow goes through.\<close>

definition validated_setting_value ::
  "setting_spec \<Rightarrow> pyval \<Rightarrow> string option \<Rightarrow> (pyval \<times> string option) result" where
  "validated_setting_value sp v secret_ref =
    (if sp_secret_ref_only sp then
       (case secret_ref of
          None \<Rightarrow> Inl (validation_error (''Setting '' @ full_key sp @ '' requires secret_ref''))
        | Some s \<Rightarrow> if blank s then Inl (validation_error (''Setting '' @ full_key sp @ '' requires secret_ref''))
                    else Inr (PNone, Some (strip s)))
     else if v = PNone then Inl (validation_error (''Setting '' @ full_key sp @ '' requires value''))
     else (case validate_setting_value sp v ''value'' of
       Inr w \<Rightarrow> Inr (w, case secret_ref of None \<Rightarrow> None | Some s \<Rightarrow> if s = [] then None else Some (strip s))
     | Inl (PyError c m) \<Rightarrow> Inl (if c = ''ValueError'' then validation_error m else PyError c m)
     | Inl e \<Rightarrow> Inl e))"

definition validate_value ::
  "setting_registry \<Rightarrow> setting_slot \<Rightarrow> pyval \<Rightarrow> string option \<Rightarrow> (string \<times> pyval) list result" where
  "validate_value reg sl v secret_ref =
    rbind (writable_spec reg sl) (\<lambda>sp.
    rbind (validated_setting_value sp v secret_ref) (\<lambda>(w, sr).
      Inr [(''module'', PStr (sl_module sl)), (''key'', PStr (sl_key sl)), (''scope'', PStr (sl_scope sl)),
           (''scope_id'', PStr (sl_scope_id sl)), (''value'', serialize_value sp w sr),
           (''secret_ref'', serialize_secret_ref sp sr), (''value_type'', PStr (sp_value_type sp)),
           (''valid'', PBool True), (''dry_run'', PBool True)]))"

definition assert_expected_version :: "setting_value option \<Rightarrow> int option \<Rightarrow> unit result" where
  "assert_expected_version current expected =
    (case expected of
       None \<Rightarrow> Inr ()
     | Some n \<Rightarrow>
        let have = (case current of None \<Rightarrow> 0 | Some v \<Rightarrow> sv_version v) in
        if n < 0 then Inl (validation_error ''expected_version must not be negative'')
        else if have \<noteq> n then Inl (app_error ''CONFLICT'' ''Setting value version conflict'' (Some 409)
          [(''expected_version'', PInt n), (''current_version'', PInt have)])
        else Inr ())"

text \<open>The flush of a changed row: the columns that differ from what was read are written. The new row
  of an insert is added as it is.\<close>

definition write_column :: "'a \<Rightarrow> 'a \<Rightarrow> 'a \<Rightarrow> 'a" where
  "write_column old new stored = (if new = old then stored else new)"

definition write_row :: "setting_value \<Rightarrow> setting_value \<Rightarrow> setting_value \<Rightarrow> setting_value" where
  "write_row old new s =
     s\<lparr>sv_value := write_column (sv_value old) (sv_value new) (sv_value s),
       sv_secret_ref := write_column (sv_secret_ref old) (sv_secret_ref new) (sv_secret_ref s),
       sv_value_type := write_column (sv_value_type old) (sv_value_type new) (sv_value_type s),
       sv_version := write_column (sv_version old) (sv_version new) (sv_version s),
       sv_status := write_column (sv_status old) (sv_status new) (sv_status s),
       sv_updated_by := write_column (sv_updated_by old) (sv_updated_by new) (sv_updated_by s),
       sv_reason := write_column (sv_reason old) (sv_reason new) (sv_reason s)\<rparr>"

definition write_value :: "setting_value option \<Rightarrow> setting_value \<Rightarrow> setting_tables \<Rightarrow> setting_tables" where
  "write_value current new tabs =
    (case current of
       None \<Rightarrow> tabs\<lparr>st_values := st_values tabs @ [new]\<rparr>
     | Some old \<Rightarrow> tabs\<lparr>st_values := map (\<lambda>s. if sv_id s = sv_id old then write_row old new s else s) (st_values tabs)\<rparr>)"

definition setting_revision_of ::
  "string \<Rightarrow> setting_value option \<Rightarrow> setting_value \<Rightarrow> setting_caller \<Rightarrow> setting_revision" where
  "setting_revision_of rid current new c =
     \<lparr>se_id = rid, se_value_id = sv_id new, se_module = sv_module new, se_key = sv_key new, se_scope = sv_scope new,
      se_scope_id = sv_scope_id new,
      se_old_value = (case current of None \<Rightarrow> PNone | Some v \<Rightarrow> sv_value v), se_new_value = sv_value new,
      se_old_secret_ref = (case current of None \<Rightarrow> None | Some v \<Rightarrow> sv_secret_ref v), se_new_secret_ref = sv_secret_ref new,
      se_version = sv_version new, se_changed_by = sc_actor_id c, se_reason = sc_reason c\<rparr>"

definition setting_integrity_error :: exn where
  "setting_integrity_error = PyError ''IntegrityError'' ''UNIQUE constraint failed''"

definition flush_setting ::
  "setting_value option \<Rightarrow> setting_value \<Rightarrow> setting_revision \<Rightarrow> ('w setting_state, unit) state_op" where
  "flush_setting current new r x =
    (let tabs = write_value current new (fst x); tabs' = tabs\<lparr>st_revisions := st_revisions tabs @ [r]\<rparr> in
     if distinct (map sv_id (st_values tabs')) \<and> distinct (map slot_of (st_values tabs')) \<and>
        distinct (map se_id (st_revisions tabs'))
     then ((tabs', snd x), Inr ()) else (x, Inl setting_integrity_error))"

definition changed_payload :: "setting_value \<Rightarrow> setting_slot \<Rightarrow> setting_caller \<Rightarrow> (string \<times> pyval) list" where
  "changed_payload v sl c =
     [(''tenant_id'', PStr (sl_scope_id sl)), (''actor_id'', PStr (sc_actor_id c)), (''request_id'', PStr (sc_request_id c)),
      (''setting_value_id'', PStr (sv_id v)), (''module'', PStr (sl_module sl)), (''key'', PStr (sl_key sl)),
      (''scope'', PStr (sl_scope sl)), (''scope_id'', PStr (sl_scope_id sl)), (''version'', PInt (sv_version v))]"

definition publish_changed ::
  "'w setting_env \<Rightarrow> setting_value \<Rightarrow> setting_slot \<Rightarrow> (string \<times> pyval) list \<Rightarrow> ('w setting_state, unit) state_op" where
  "publish_changed env v sl payload =
     on_world_of (sx_publish env value_changed_event ''setting_value'' (sv_id v) (sl_scope_id sl) payload)"

definition record_setting_audit ::
  "'w setting_env \<Rightarrow> setting_value \<Rightarrow> setting_slot \<Rightarrow> setting_caller \<Rightarrow> ('w setting_state, unit) state_op" where
  "record_setting_audit env v sl c =
    (case sx_audit env of
       None \<Rightarrow> sret (Inr ())
     | Some record \<Rightarrow> on_world_of (record \<lparr>au_action = value_changed_event, au_resource_type = ''setting_value'',
         au_resource_id = Some (sv_id v), au_result = ''success'',
         au_tenant = (if sv_scope v = ''platform'' then None else Some (sv_scope_id v)),
         au_actor = Some (sc_actor_id c), au_reason = sc_reason c, au_policy_version = Some (sv_version v),
         au_request_id = Some (sc_request_id c),
         au_payload = [(''module'', PStr (sl_module sl)), (''key'', PStr (sl_key sl)), (''scope'', PStr (sl_scope sl)),
           (''scope_id'', PStr (sl_scope_id sl)), (''version'', PInt (sv_version v)), (''status'', PStr (sv_status v))]\<rparr>))"

definition others_write :: "(setting_tables \<Rightarrow> setting_tables) \<Rightarrow> ('w setting_state, unit) state_op" where
  "others_write others x = ((others (fst x), snd x), Inr ())"

definition upserted ::
  "setting_spec \<Rightarrow> string \<Rightarrow> setting_slot \<Rightarrow> pyval \<Rightarrow> string option \<Rightarrow> setting_caller \<Rightarrow> setting_value option \<Rightarrow> setting_value" where
  "upserted sp new_id sl w sr c current =
    (case current of
       None \<Rightarrow> \<lparr>sv_id = new_id, sv_module = sl_module sl, sv_key = sl_key sl, sv_scope = sl_scope sl,
         sv_scope_id = sl_scope_id sl, sv_value = w, sv_secret_ref = sr, sv_value_type = sp_value_type sp, sv_version = 1,
         sv_status = ''active'', sv_updated_by = sc_actor_id c, sv_reason = sc_reason c\<rparr>
     | Some v \<Rightarrow> v\<lparr>sv_value := w, sv_secret_ref := sr, sv_value_type := sp_value_type sp, sv_version := sv_version v + 1,
         sv_status := ''active'', sv_updated_by := sc_actor_id c, sv_reason := sc_reason c\<rparr>)"

definition upsert_checks ::
  "setting_registry \<Rightarrow> setting_slot \<Rightarrow> pyval \<Rightarrow> string option \<Rightarrow> int option \<Rightarrow> setting_tables
    \<Rightarrow> (setting_spec \<times> pyval \<times> string option) result" where
  "upsert_checks reg sl v secret_ref expected tabs =
    rbind (writable_spec reg sl) (\<lambda>sp.
    rbind (validated_setting_value sp v secret_ref) (\<lambda>(w, sr).
    rbind (assert_expected_version (current_value sl tabs) expected) (\<lambda>_. Inr (sp, w, sr))))"

definition upsert ::
  "'w setting_env \<Rightarrow> (setting_tables \<Rightarrow> setting_tables) \<Rightarrow> string \<Rightarrow> string \<Rightarrow> setting_slot \<Rightarrow> pyval \<Rightarrow> string option
    \<Rightarrow> setting_caller \<Rightarrow> int option \<Rightarrow> ('w setting_state, setting_value) state_op" where
  "upsert env others new_id rid sl v secret_ref c expected x =
    (case upsert_checks (sx_registry env) sl v secret_ref expected (fst x) of
       Inl e \<Rightarrow> (x, Inl e)
     | Inr (sp, w, sr) \<Rightarrow>
        (let current = current_value sl (fst x); new = upserted sp new_id sl w sr c current in
         sbind (others_write others) (\<lambda>_.
         sbind (flush_setting current new (setting_revision_of rid current new c)) (\<lambda>_.
         sbind (publish_changed env new sl (changed_payload new sl c)) (\<lambda>_.
         sbind (record_setting_audit env new sl c) (\<lambda>_. sret (Inr new))))) x))"

definition reset_row :: "setting_caller \<Rightarrow> setting_value \<Rightarrow> setting_value" where
  "reset_row c v = v\<lparr>sv_value := PNone, sv_secret_ref := None, sv_version := sv_version v + 1, sv_status := ''deleted'',
     sv_updated_by := sc_actor_id c, sv_reason := sc_reason c\<rparr>"

definition reset_checks ::
  "setting_registry \<Rightarrow> setting_slot \<Rightarrow> int option \<Rightarrow> setting_tables \<Rightarrow> setting_value result" where
  "reset_checks reg sl expected tabs =
    rbind (writable_spec reg sl) (\<lambda>sp.
      case active_value sl tabs of
        None \<Rightarrow> Inl (value_not_found sl)
      | Some v \<Rightarrow> rbind (assert_expected_version (Some v) expected) (\<lambda>_. Inr v))"

definition reset ::
  "'w setting_env \<Rightarrow> (setting_tables \<Rightarrow> setting_tables) \<Rightarrow> string \<Rightarrow> setting_slot \<Rightarrow> setting_caller \<Rightarrow> int option
    \<Rightarrow> ('w setting_state, setting_value) state_op" where
  "reset env others rid sl c expected x =
    (case reset_checks (sx_registry env) sl expected (fst x) of
       Inl e \<Rightarrow> (x, Inl e)
     | Inr v \<Rightarrow>
        (let new = reset_row c v in
         sbind (others_write others) (\<lambda>_.
         sbind (flush_setting (Some v) new (setting_revision_of rid (Some v) new c)) (\<lambda>_.
         sbind (publish_changed env new sl (changed_payload new sl c @ [(''status'', PStr (sv_status new))])) (\<lambda>_.
         sbind (record_setting_audit env new sl c) (\<lambda>_. sret (Inr new))))) x))"

section \<open>What a client is shown\<close>

definition value_to_dict :: "setting_value \<Rightarrow> setting_spec \<Rightarrow> (string \<times> pyval) list" where
  "value_to_dict v sp =
     [(''id'', PStr (sv_id v)), (''module'', PStr (sv_module v)), (''key'', PStr (sv_key v)), (''scope'', PStr (sv_scope v)),
      (''scope_id'', PStr (sv_scope_id v)), (''value'', serialize_value sp (sv_value v) (sv_secret_ref v)),
      (''secret_ref'', serialize_secret_ref sp (sv_secret_ref v)), (''value_type'', PStr (sv_value_type v)),
      (''version'', PInt (sv_version v)), (''status'', PStr (sv_status v)), (''updated_by'', PStr (sv_updated_by v)),
      (''reason'', opt_str (sv_reason v))]"

definition revision_to_dict :: "setting_revision \<Rightarrow> setting_spec \<Rightarrow> (string \<times> pyval) list" where
  "revision_to_dict r sp =
     [(''id'', PStr (se_id r)), (''setting_value_id'', PStr (se_value_id r)), (''module'', PStr (se_module r)),
      (''key'', PStr (se_key r)), (''scope'', PStr (se_scope r)), (''scope_id'', PStr (se_scope_id r)),
      (''old_value'', serialize_value sp (se_old_value r) (se_old_secret_ref r)),
      (''new_value'', serialize_value sp (se_new_value r) (se_new_secret_ref r)),
      (''old_secret_ref'', serialize_secret_ref sp (se_old_secret_ref r)),
      (''new_secret_ref'', serialize_secret_ref sp (se_new_secret_ref r)), (''version'', PInt (se_version r)),
      (''changed_by'', PStr (se_changed_by r)), (''reason'', opt_str (se_reason r))]"

end
