(* ===== verification/Settings_Properties.thy ===== *)
theory Settings_Properties
  imports Settings "HOL-Library.Multiset"
begin

text \<open>
  The properties of the settings app: what is resolved is what was last stored in the most specific scope,
  the history of a setting is complete, values have their declared type, secrets are not shown, and what
  happens when two sessions change one setting.
\<close>

section \<open>Calls and their effect\<close>

datatype setting_call =
    Upsert string string setting_slot pyval "string option" setting_caller "int option"
  | Reset string setting_slot setting_caller "int option"

fun call_slot :: "setting_call \<Rightarrow> setting_slot" where
  "call_slot (Upsert i r sl v s c e) = sl"
| "call_slot (Reset r sl c e) = sl"

text \<open>One call in a transaction of its own: what raised leaves nothing behind.\<close>

fun setting_step :: "'w setting_env \<Rightarrow> setting_call \<Rightarrow> ('w setting_state, setting_value) state_op" where
  "setting_step env (Upsert i r sl v s c e) x =
     (case upsert env (\<lambda>t. t) i r sl v s c e x of (x', Inr w) \<Rightarrow> (x', Inr w) | (_, Inl er) \<Rightarrow> (x, Inl er))"
| "setting_step env (Reset r sl c e) x =
     (case reset env (\<lambda>t. t) r sl c e x of (x', Inr w) \<Rightarrow> (x', Inr w) | (_, Inl er) \<Rightarrow> (x, Inl er))"

text \<open>The calls that succeeded, in order, and the state after all.\<close>

fun setting_run :: "'w setting_env \<Rightarrow> setting_call list \<Rightarrow> 'w setting_state \<Rightarrow> 'w setting_state \<times> setting_call list" where
  "setting_run env [] x = (x, [])"
| "setting_run env (c # cs) x =
     (case setting_step env c x of
        (x', Inr _) \<Rightarrow> (case setting_run env cs x' of (x'', log) \<Rightarrow> (x'', c # log))
      | (x', Inl _) \<Rightarrow> setting_run env cs x')"

definition no_settings :: setting_tables where
  "no_settings = \<lparr>st_values = [], st_revisions = []\<rparr>"

text \<open>The abstract settings: what each slot holds, a value with its secret reference.\<close>

type_synonym slot_map = "setting_slot \<rightharpoonup> pyval \<times> string option"

definition contents :: "setting_tables \<Rightarrow> slot_map" where
  "contents tabs sl = map_option (\<lambda>v. (sv_value v, sv_secret_ref v)) (active_value sl tabs)"

definition stored :: "setting_registry \<Rightarrow> setting_slot \<Rightarrow> pyval \<Rightarrow> string option \<Rightarrow> (pyval \<times> string option) option" where
  "stored reg sl v s =
    (case get_setting reg (sl_module sl) (sl_key sl) of
       Inl _ \<Rightarrow> None
     | Inr sp \<Rightarrow> (case validated_setting_value sp v s of Inl _ \<Rightarrow> None | Inr p \<Rightarrow> Some p))"

fun call_effect :: "setting_registry \<Rightarrow> setting_call \<Rightarrow> slot_map \<Rightarrow> slot_map" where
  "call_effect reg (Upsert i r sl v s c e) m = m(sl := stored reg sl v s)"
| "call_effect reg (Reset r sl c e) m = m(sl := None)"

text \<open>The reference of resolution: the tenant's slot, then the platform's, then the default.\<close>

definition effective :: "setting_registry \<Rightarrow> string \<Rightarrow> string \<Rightarrow> string option \<Rightarrow> slot_map \<Rightarrow> (string \<times> pyval) result" where
  "effective reg module key tenant_id m =
    rbind (registered_setting_spec reg module key) (\<lambda>sp.
      let own = (case resolving_tenant sp tenant_id of None \<Rightarrow> None | Some t \<Rightarrow> m (tenant_slot module key t)) in
      Inr (case own of Some (v, s) \<Rightarrow> (''tenant'', serialize_value sp v s)
         | None \<Rightarrow> (case m (platform_slot module key) of Some (v, s) \<Rightarrow> (''platform'', serialize_value sp v s)
           | None \<Rightarrow> (''default'', serialize_value sp (sp_default sp) None))))"

lemma resolve_effective:
  "rbind (resolve_setting reg module key tenant_id tabs) (\<lambda>r. Inr (rv_source r, rv_value r))
    = effective reg module key tenant_id (contents tabs)"
  by (cases "registered_setting_spec reg module key")
    (auto simp: resolve_setting_def effective_def contents_def resolved_from_row_def default_resolved_def Let_def
      split: option.splits)

section \<open>The tables\<close>

definition settings_wf :: "setting_tables \<Rightarrow> bool" where
  "settings_wf tabs \<longleftrightarrow> distinct (map sv_id (st_values tabs)) \<and> distinct (map slot_of (st_values tabs)) \<and>
     distinct (map se_id (st_revisions tabs))"

lemma find_unique:
  assumes "distinct (map k xs)" and "\<And>x. P x \<Longrightarrow> k x = c"
  shows "find P xs = Some x \<longleftrightarrow> x \<in> set xs \<and> P x"
proof
  assume "find P xs = Some x"
  then show "x \<in> set xs \<and> P x" by (auto simp: find_Some_iff)
next
  assume x: "x \<in> set xs \<and> P x"
  then obtain y where y: "find P xs = Some y" using find_None_iff [of P xs] by (cases "find P xs") auto
  then have "y \<in> set xs" "P y" by (auto simp: find_Some_iff)
  then have "k x = k y" using x assms(2) by metis
  then have "x = y" using assms(1) x \<open>y \<in> set xs\<close> by (meson distinct_map inj_onD)
  then show "find P xs = Some x" using y by simp
qed

lemma current_value_iff:
  "settings_wf tabs \<Longrightarrow> current_value sl tabs = Some v \<longleftrightarrow> v \<in> set (st_values tabs) \<and> slot_of v = sl"
  unfolding current_value_def settings_wf_def using find_unique [of slot_of "st_values tabs" "\<lambda>v. slot_of v = sl" sl] by simp

lemma active_value_iff:
  "settings_wf tabs \<Longrightarrow> active_value sl tabs = Some v \<longleftrightarrow> v \<in> set (st_values tabs) \<and> slot_of v = sl \<and> sv_status v = ''active''"
  unfolding active_value_def settings_wf_def
  using find_unique [of slot_of "st_values tabs" "\<lambda>v. slot_of v = sl \<and> sv_status v = ''active''" sl] by simp

lemma current_value_None: "current_value sl tabs = None \<longleftrightarrow> sl \<notin> slot_of ` set (st_values tabs)"
  by (auto simp: current_value_def find_None_iff)

text \<open>A changed row: the same identity, everything else as the operation left it.\<close>

definition same_row :: "setting_value \<Rightarrow> setting_value \<Rightarrow> bool" where
  "same_row v new \<longleftrightarrow> sv_id new = sv_id v \<and> slot_of new = slot_of v"

lemma write_row_same: "same_row v new \<Longrightarrow> write_row v new v = new"
  by (cases v; cases new) (auto simp: same_row_def slot_of_def write_row_def write_column_def)

lemma write_value_replaces:
  assumes "settings_wf tabs" and "v \<in> set (st_values tabs)" and "same_row v new"
  shows "write_value (Some v) new tabs = tabs\<lparr>st_values := map (\<lambda>s. if s = v then new else s) (st_values tabs)\<rparr>"
proof -
  have "(if sv_id s = sv_id v then write_row v new s else s) = (if s = v then new else s)" if "s \<in> set (st_values tabs)" for s
    using assms that write_row_same [OF assms(3)] by (auto simp: settings_wf_def distinct_map dest: inj_onD)
  then show ?thesis by (simp add: write_value_def cong: map_cong)
qed

text \<open>Both writing operations, taken together: the row that was current, the new row and its revision.\<close>

definition written :: "setting_value option \<Rightarrow> setting_value \<Rightarrow> setting_revision \<Rightarrow> setting_tables \<Rightarrow> setting_tables" where
  "written current new r tabs =
     (let t = write_value current new tabs in t\<lparr>st_revisions := st_revisions t @ [r]\<rparr>)"

lemma flush_setting_returns [returns]:
  "flush_setting current new r x = (x', Inr ()) \<longleftrightarrow>
     x' = (written current new r (fst x), snd x) \<and> settings_wf (written current new r (fst x))"
  by (auto simp: flush_setting_def written_def settings_wf_def Let_def)

lemma publish_changed_fst: "publish_changed env v sl p x = (x', r) \<Longrightarrow> fst x' = fst x"
  using on_world_of_fst by (metis fst_conv publish_changed_def)

lemma record_setting_audit_fst: "record_setting_audit env v sl c x = (x', r) \<Longrightarrow> fst x' = fst x"
  by (auto simp: record_setting_audit_def on_world_of_def split: option.splits prod.splits)

lemma others_write_id [simp]: "others_write (\<lambda>t. t) x = (x, Inr ())"
  by (simp add: others_write_def)

text \<open>What a call that succeeded did.\<close>

lemma upsert_returns:
  assumes "upsert env (\<lambda>t. t) i rid sl v s c e x = (x', Inr row)"
  obtains sp w sr where "get_setting (sx_registry env) (sl_module sl) (sl_key sl) = Inr sp"
    and "validated_setting_value sp v s = Inr (w, sr)"
    and "sl_scope sl \<in> set (sp_scopes sp)" and "sp_runtime_mutable sp"
    and "assert_expected_version (current_value sl (fst x)) e = Inr ()"
    and "row = upserted sp i sl w sr c (current_value sl (fst x))"
    and "fst x' = written (current_value sl (fst x)) row (setting_revision_of rid (current_value sl (fst x)) row c) (fst x)"
    and "settings_wf (fst x')"
proof -
  obtain sp w sr where ch: "upsert_checks (sx_registry env) sl v s e (fst x) = Inr (sp, w, sr)"
    using assms by (auto simp: upsert_def split: sum.splits)
  let ?new = "upserted sp i sl w sr c (current_value sl (fst x))"
  let ?r = "setting_revision_of rid (current_value sl (fst x)) ?new c"
  obtain x1 x2 x3 u where f: "flush_setting (current_value sl (fst x)) ?new ?r x = (x1, Inr ())"
    and p: "publish_changed env ?new sl (changed_payload ?new sl c) x1 = (x2, Inr u)"
    and a: "record_setting_audit env ?new sl c x2 = (x3, Inr ())" and x': "x' = x3" and row: "row = ?new"
    using assms ch by (auto simp: upsert_def Let_def sbind_returns sbind_Inr)
  have "fst x' = fst x1" using publish_changed_fst [OF p] record_setting_audit_fst [OF a] x' by simp
  with f have fx: "fst x' = written (current_value sl (fst x)) ?new ?r (fst x)" "settings_wf (fst x')"
    by (auto simp: flush_setting_returns)
  from ch have g: "get_setting (sx_registry env) (sl_module sl) (sl_key sl) = Inr sp"
    and v: "validated_setting_value sp v s = Inr (w, sr)"
    and sc: "sl_scope sl \<in> set (sp_scopes sp)" "sp_runtime_mutable sp"
    and e: "assert_expected_version (current_value sl (fst x)) e = Inr ()"
    by (auto simp: upsert_checks_def writable_spec_def registered_setting_spec_def assert_setting_mutable_def
      assert_scope_allowed_def rbind_Inr_iff split: sum.splits if_splits)
  show thesis using that [OF g v sc e] fx row by simp
qed

lemma reset_returns:
  assumes "reset env (\<lambda>t. t) rid sl c e x = (x', Inr row)"
  obtains v where "active_value sl (fst x) = Some v" and "row = reset_row c v"
    and "assert_expected_version (Some v) e = Inr ()"
    and "fst x' = written (Some v) row (setting_revision_of rid (Some v) row c) (fst x)" and "settings_wf (fst x')"
proof -
  obtain v where ch: "reset_checks (sx_registry env) sl e (fst x) = Inr v"
    using assms by (auto simp: reset_def split: sum.splits)
  let ?new = "reset_row c v"
  let ?r = "setting_revision_of rid (Some v) ?new c"
  obtain x1 x2 x3 u where f: "flush_setting (Some v) ?new ?r x = (x1, Inr ())"
    and p: "publish_changed env ?new sl (changed_payload ?new sl c @ [(''status'', PStr (sv_status ?new))]) x1 = (x2, Inr u)"
    and a: "record_setting_audit env ?new sl c x2 = (x3, Inr ())" and x': "x' = x3" and row: "row = ?new"
    using assms ch by (auto simp: reset_def Let_def sbind_returns sbind_Inr)
  have "fst x' = fst x1" using publish_changed_fst [OF p] record_setting_audit_fst [OF a] x' by simp
  with f have fx: "fst x' = written (Some v) ?new ?r (fst x)" "settings_wf (fst x')"
    by (auto simp: flush_setting_returns)
  from ch have g: "active_value sl (fst x) = Some v" and e: "assert_expected_version (Some v) e = Inr ()"
    by (auto simp: reset_checks_def rbind_Inr_iff split: option.splits)
  show thesis using that [OF g _ e] fx row by simp
qed

section \<open>One call\<close>

text \<open>Which row the new one replaces: none of its slot, or the current one of its slot.\<close>

definition replaces :: "setting_value option \<Rightarrow> setting_value \<Rightarrow> setting_tables \<Rightarrow> bool" where
  "replaces current new tabs \<longleftrightarrow> current = current_value (slot_of new) tabs \<and>
     (case current of None \<Rightarrow> True | Some v \<Rightarrow> same_row v new)"

lemma written_values:
  assumes "settings_wf tabs" and "replaces current new tabs"
  shows "set (st_values (written current new r tabs)) = insert new {v \<in> set (st_values tabs). slot_of v \<noteq> slot_of new}"
proof (cases current)
  case None
  with assms(2) have "slot_of new \<notin> slot_of ` set (st_values tabs)" by (metis current_value_None replaces_def)
  then have "\<forall>v \<in> set (st_values tabs). slot_of v \<noteq> slot_of new" by (metis imageI)
  then show ?thesis using None by (auto simp: written_def write_value_def Let_def)
next
  case (Some v)
  with assms have v: "v \<in> set (st_values tabs)" "slot_of v = slot_of new" and s: "same_row v new"
    by (auto simp: replaces_def current_value_iff dest: sym)
  have "(w = v) = (slot_of w = slot_of new)" if "w \<in> set (st_values tabs)" for w
    using assms(1) v that inj_onD [of slot_of "set (st_values tabs)" w v] by (auto simp: settings_wf_def distinct_map)
  then show ?thesis using v Some write_value_replaces [OF assms(1) v(1) s] by (auto simp: written_def Let_def)
qed

lemma written_revisions: "st_revisions (written current new r tabs) = st_revisions tabs @ [r]"
  by (simp add: written_def write_value_def Let_def split: option.split)

lemma current_value_written:
  assumes "settings_wf tabs" and "replaces current new tabs" and "settings_wf (written current new r tabs)"
  shows "current_value sl (written current new r tabs) = (if sl = slot_of new then Some new else current_value sl tabs)"
proof (cases "sl = slot_of new")
  case True
  then show ?thesis using assms by (simp add: current_value_iff written_values)
next
  case False
  have "current_value sl (written current new r tabs) = Some v \<longleftrightarrow> current_value sl tabs = Some v" for v
    using assms False by (auto simp: current_value_iff written_values)
  then show ?thesis using False by (metis option.exhaust)
qed

lemma active_value_current:
  "settings_wf tabs \<Longrightarrow> active_value sl tabs =
     (case current_value sl tabs of None \<Rightarrow> None | Some v \<Rightarrow> if sv_status v = ''active'' then Some v else None)"
proof -
  assume wf: "settings_wf tabs"
  have "active_value sl tabs = Some v \<longleftrightarrow> current_value sl tabs = Some v \<and> sv_status v = ''active''" for v
    using wf by (auto simp: current_value_iff active_value_iff)
  then have iff: "active_value sl tabs = Some v \<longleftrightarrow> current_value sl tabs = Some v \<and> sv_status v = ''active''" for v .
  show ?thesis
  proof (cases "active_value sl tabs")
    case None
    show ?thesis
    proof (cases "current_value sl tabs")
      case (Some w)
      with iff [of w] None have "sv_status w \<noteq> ''active''" by simp
      then show ?thesis using None Some by simp
    qed (simp add: None)
  next
    case (Some v)
    then show ?thesis using iff [of v] by simp
  qed
qed

lemma contents_current:
  "settings_wf tabs \<Longrightarrow> contents tabs sl =
     (case current_value sl tabs of None \<Rightarrow> None
      | Some v \<Rightarrow> if sv_status v = ''active'' then Some (sv_value v, sv_secret_ref v) else None)"
  by (simp add: contents_def active_value_current split: option.split)

lemma contents_written:
  assumes "settings_wf tabs" and "replaces current new tabs" and "settings_wf (written current new r tabs)"
  shows "contents (written current new r tabs) = (contents tabs)(slot_of new :=
    (if sv_status new = ''active'' then Some (sv_value new, sv_secret_ref new) else None))"
proof
  fix sl
  show "contents (written current new r tabs) sl = ((contents tabs)(slot_of new :=
    (if sv_status new = ''active'' then Some (sv_value new, sv_secret_ref new) else None))) sl"
    unfolding contents_current [OF assms(3)] current_value_written [OF assms]
    by (cases "sl = slot_of new") (simp_all add: contents_current [OF assms(1)])
qed

text \<open>The revisions of a slot, in the order they were added, with what each says of old and new.\<close>

definition slot_revisions :: "setting_slot \<Rightarrow> setting_tables \<Rightarrow> setting_revision list" where
  "slot_revisions sl tabs = filter (\<lambda>r. revision_slot r = sl) (st_revisions tabs)"

definition old_of :: "setting_revision \<Rightarrow> pyval \<times> string option" where
  "old_of r = (se_old_value r, se_old_secret_ref r)"

definition new_of :: "setting_revision \<Rightarrow> pyval \<times> string option" where
  "new_of r = (se_new_value r, se_new_secret_ref r)"

definition history_complete :: "setting_value \<Rightarrow> setting_revision list \<Rightarrow> bool" where
  "history_complete v rs \<longleftrightarrow> rs \<noteq> [] \<and> sv_version v = int (length rs) \<and> map se_version rs = map int [1..<Suc (length rs)] \<and>
     map old_of rs @ [(sv_value v, sv_secret_ref v)] = (PNone, None) # map new_of rs"

definition history_told :: "setting_tables \<Rightarrow> bool" where
  "history_told tabs \<longleftrightarrow> (\<forall>sl. case current_value sl tabs of
     None \<Rightarrow> slot_revisions sl tabs = [] | Some v \<Rightarrow> history_complete v (slot_revisions sl tabs))"

text \<open>What both operations make of the current row.\<close>

definition next_row :: "setting_value option \<Rightarrow> setting_value \<Rightarrow> bool" where
  "next_row current new \<longleftrightarrow> sv_version new = (case current of None \<Rightarrow> 1 | Some v \<Rightarrow> sv_version v + 1)"

lemma versions_append:
  "map int [Suc 0..<Suc (Suc n)] = map int [Suc 0..<Suc n] @ [int n + 1]" "map int [Suc 0..<Suc 0] = []"
  by simp_all

lemma history_told_written:
  assumes "settings_wf tabs" and "history_told tabs" and "replaces current new tabs" and "next_row current new"
    and "settings_wf (written current new (setting_revision_of rid current new c) tabs)"
  shows "history_told (written current new (setting_revision_of rid current new c) tabs)"
proof -
  let ?r = "setting_revision_of rid current new c" and ?sl = "slot_of new"
  have rs: "revision_slot ?r = ?sl" by (simp add: setting_revision_of_def revision_slot_def slot_of_def)
  have cur: "current = current_value ?sl tabs" using assms(3) by (simp add: replaces_def)
  have "case current_value ?sl tabs of None \<Rightarrow> slot_revisions ?sl tabs = []
      | Some v \<Rightarrow> history_complete v (slot_revisions ?sl tabs)"
    using assms(2) unfolding history_told_def by blast
  then have "history_complete new (slot_revisions ?sl tabs @ [?r])"
    unfolding cur [symmetric] using assms(4)
    by (cases current) (simp_all add: history_complete_def next_row_def setting_revision_of_def old_of_def new_of_def
      versions_append del: upt_Suc)
  then have at: "history_complete new (slot_revisions ?sl (written current new ?r tabs))"
    using rs by (simp add: slot_revisions_def written_revisions)
  have "case current_value sl (written current new ?r tabs) of None \<Rightarrow> slot_revisions sl (written current new ?r tabs) = []
      | Some v \<Rightarrow> history_complete v (slot_revisions sl (written current new ?r tabs))" for sl
  proof (cases "sl = ?sl")
    case True
    then show ?thesis using at by (simp add: current_value_written [OF assms(1,3,5)])
  next
    case False
    then have e: "slot_revisions sl (written current new ?r tabs) = slot_revisions sl tabs"
      using rs by (simp add: slot_revisions_def written_revisions)
    have "current_value sl (written current new ?r tabs) = current_value sl tabs"
      using False by (simp add: current_value_written [OF assms(1,3,5)])
    then show ?thesis using assms(2) unfolding e history_told_def by simp
  qed
  then show ?thesis by (simp add: history_told_def)
qed

section \<open>All calls\<close>

text \<open>What the tables tell of the calls that succeeded.\<close>

definition tells :: "setting_registry \<Rightarrow> setting_tables \<Rightarrow> setting_call list \<Rightarrow> bool" where
  "tells reg tabs log \<longleftrightarrow> settings_wf tabs \<and> history_told tabs \<and> contents tabs = fold (call_effect reg) log Map.empty \<and>
     (\<forall>sl. length (slot_revisions sl tabs) = length (filter (\<lambda>c. call_slot c = sl) log))"

lemma tells_nothing: "tells reg no_settings []"
  by (auto simp: tells_def no_settings_def settings_wf_def history_told_def current_value_def slot_revisions_def contents_def
    active_value_def)

lemma tells_written:
  assumes "tells reg tabs log" and "replaces current new tabs" and "next_row current new"
    and "tabs' = written current new (setting_revision_of rid current new c) tabs" and "settings_wf tabs'"
    and "call_slot call = slot_of new"
    and "call_effect reg call (contents tabs) = (contents tabs)(slot_of new :=
      (if sv_status new = ''active'' then Some (sv_value new, sv_secret_ref new) else None))"
  shows "tells reg tabs' (log @ [call])"
proof -
  let ?r = "setting_revision_of rid current new c"
  from assms(1) have wf: "settings_wf tabs" and h: "history_told tabs"
    and ct: "contents tabs = fold (call_effect reg) log Map.empty"
    and n: "\<forall>sl. length (slot_revisions sl tabs) = length (filter (\<lambda>c. call_slot c = sl) log)"
    by (auto simp: tells_def)
  have "history_told tabs'" using history_told_written [OF wf h assms(2,3)] assms(4,5) by blast
  moreover have "contents tabs' = fold (call_effect reg) (log @ [call]) Map.empty"
    using contents_written [OF wf assms(2)] assms(4,5,7) ct by simp
  moreover have "revision_slot ?r = slot_of new" by (simp add: setting_revision_of_def revision_slot_def slot_of_def)
  then have "\<forall>sl. length (slot_revisions sl tabs') = length (filter (\<lambda>c. call_slot c = sl) (log @ [call]))"
    using n assms(4,6) by (simp add: slot_revisions_def written_revisions)
  ultimately show ?thesis using assms(5) by (simp add: tells_def)
qed

lemma setting_step_tells:
  assumes "tells (sx_registry env) (fst x) log" and "setting_step env call x = (x', Inr row)"
  shows "tells (sx_registry env) (fst x') (log @ [call])"
proof (cases call)
  case (Upsert i rid sl v s c e)
  then have "upsert env (\<lambda>t. t) i rid sl v s c e x = (x', Inr row)"
    using assms(2) by (auto split: prod.splits sum.splits)
  then obtain sp w sr where g: "get_setting (sx_registry env) (sl_module sl) (sl_key sl) = Inr sp"
    and vd: "validated_setting_value sp v s = Inr (w, sr)"
    and row: "row = upserted sp i sl w sr c (current_value sl (fst x))"
    and fx: "fst x' = written (current_value sl (fst x)) row (setting_revision_of rid (current_value sl (fst x)) row c) (fst x)"
      "settings_wf (fst x')"
    by (rule upsert_returns)
  have wf: "settings_wf (fst x)" using assms(1) by (simp add: tells_def)
  have "slot_of v = sl" if "current_value sl (fst x) = Some v" for v using that wf by (simp add: current_value_iff)
  then have sl: "slot_of row = sl" and rep: "case current_value sl (fst x) of None \<Rightarrow> True | Some v \<Rightarrow> same_row v row"
    and nx: "next_row (current_value sl (fst x)) row" and st: "sv_status row = ''active''" "sv_value row = w" "sv_secret_ref row = sr"
    unfolding row by (auto simp: upserted_def slot_of_def same_row_def next_row_def split: option.split)
  show ?thesis
  proof (rule tells_written [OF assms(1) _ nx fx])
    show "replaces (current_value sl (fst x)) row (fst x)" using sl rep by (simp add: replaces_def)
    show "call_slot call = slot_of row" using sl Upsert by simp
    show "call_effect (sx_registry env) call (contents (fst x)) = (contents (fst x))(slot_of row :=
        (if sv_status row = ''active'' then Some (sv_value row, sv_secret_ref row) else None))"
      using sl st g vd Upsert by (simp add: stored_def)
  qed
next
  case (Reset rid sl c e)
  then have "reset env (\<lambda>t. t) rid sl c e x = (x', Inr row)"
    using assms(2) by (auto split: prod.splits sum.splits)
  then obtain v where a: "active_value sl (fst x) = Some v" and row: "row = reset_row c v"
    and fx: "fst x' = written (Some v) row (setting_revision_of rid (Some v) row c) (fst x)" "settings_wf (fst x')"
    by (rule reset_returns)
  have wf: "settings_wf (fst x)" using assms(1) by (simp add: tells_def)
  with a have v: "slot_of v = sl" "current_value sl (fst x) = Some v"
    by (simp_all add: active_value_iff current_value_iff)
  have sl: "slot_of row = sl" and sr: "same_row v row" and nx: "next_row (Some v) row" and st: "sv_status row = ''deleted''"
    using v unfolding row by (simp_all add: reset_row_def slot_of_def same_row_def next_row_def)
  show ?thesis
  proof (rule tells_written [OF assms(1) _ nx fx])
    show "replaces (Some v) row (fst x)" using sl sr v by (simp add: replaces_def)
    show "call_slot call = slot_of row" using sl Reset by simp
    show "call_effect (sx_registry env) call (contents (fst x)) = (contents (fst x))(slot_of row :=
        (if sv_status row = ''active'' then Some (sv_value row, sv_secret_ref row) else None))"
      using sl st Reset by simp
  qed
qed

lemma setting_step_raises: "setting_step env call x = (x', Inl e) \<Longrightarrow> x' = x"
  by (cases call) (auto split: prod.splits sum.splits)

lemma setting_run_tells:
  assumes "tells (sx_registry env) (fst x) log" and "setting_run env calls x = (x', log1)"
  shows "tells (sx_registry env) (fst x') (log @ log1)"
  using assms
proof (induction calls arbitrary: x log log1)
  case (Cons c calls)
  obtain x1 r where st: "setting_step env c x = (x1, r)" by fastforce
  show ?case
  proof (cases r)
    case (Inl e)
    then have "x1 = x" using st setting_step_raises by metis
    then show ?thesis using Cons.IH [OF Cons.prems(1)] Cons.prems(2) st Inl by simp
  next
    case (Inr row)
    obtain log2 where "setting_run env calls x1 = (x', log2)" "log1 = c # log2"
      using Cons.prems(2) st Inr by (auto split: prod.splits)
    then show ?thesis
      using Cons.IH [OF setting_step_tells [OF Cons.prems(1)], of c x1 row log2] st Inr by simp
  qed
qed simp

section \<open>What is resolved\<close>

text \<open>C13: Resolution tells what was stored last, in the most specific scope: after any calls, in any order and some
  of them refused, a setting is the value of the tenant's last upsert that was not reset, else the
  platform's, else the default, redacted when it is secret.
\<close>

theorem resolution_is_most_specific:
  assumes "setting_run env calls (no_settings, w) = (x, log)"
  shows "rbind (resolve_setting (sx_registry env) module key tenant_id (fst x)) (\<lambda>r. Inr (rv_source r, rv_value r))
    = effective (sx_registry env) module key tenant_id (fold (call_effect (sx_registry env)) log Map.empty)"
proof -
  have "tells (sx_registry env) (fst x) ([] @ log)"
    using setting_run_tells [of env "(no_settings, w)" "[]" calls x log] assms tells_nothing by simp
  then show ?thesis by (simp add: resolve_effective tells_def)
qed

definition theme_spec :: setting_spec where
  "theme_spec = \<lparr>sp_module = ''ui'', sp_key = ''theme'', sp_value_type = ''enum'', sp_default = PStr ''light'',
     sp_scopes = [''platform'', ''tenant''], sp_category = ''ui'', sp_description = ''Theme'', sp_required = False,
     sp_runtime_mutable = True, sp_sensitive = False, sp_secret_ref_only = False, sp_risk_level = ''low'',
     sp_cache_ttl = None, sp_allowed = [''light'', ''dark''], sp_min = None, sp_max = None, sp_kind = ''config'',
     sp_deprecated = False\<rparr>"

definition theme_env :: "nat setting_env" where
  "theme_env = \<lparr>sx_registry = registry_of_apps [(''ui'', [theme_spec])], sx_publish = (\<lambda>_ _ _ _ _ n. (Suc n, Inr ())),
     sx_audit = Some (\<lambda>_ n. (Suc n, Inr ()))\<rparr>"

definition operator :: setting_caller where
  "operator = \<lparr>sc_actor_id = ''op'', sc_request_id = ''r'', sc_reason = None\<rparr>"

definition theme_calls :: "setting_call list" where
  "theme_calls =
    [Upsert ''v1'' ''h1'' (platform_slot ''ui'' ''theme'') (PStr ''dark'') None operator None,
     Upsert ''v2'' ''h2'' (tenant_slot ''ui'' ''theme'' ''t1'') (PStr ''light'') None operator (Some 0),
     Upsert ''v3'' ''h3'' (tenant_slot ''ui'' ''theme'' ''t1'') (PStr ''dark'') None operator (Some 0),
     Reset ''h4'' (tenant_slot ''ui'' ''theme'' ''t1'') operator (Some 1)]"

theorem resolution_is_most_specific_witness:
  "(case setting_run theme_env theme_calls (no_settings, 0) of (x, log) \<Rightarrow>
     rbind (resolve_setting (sx_registry theme_env) ''ui'' ''theme'' (Some ''t1'') (fst x)) (\<lambda>r. Inr (rv_source r, rv_value r)))
   = Inr (''platform'', PStr ''dark'')"
proof -
  obtain x log where run: "setting_run theme_env theme_calls (no_settings, 0) = (x, log)" by fastforce
  have "snd (setting_run theme_env theme_calls (no_settings, 0)) = [theme_calls ! 0, theme_calls ! 1, theme_calls ! 3]"
    by code_simp
  then have "log = [theme_calls ! 0, theme_calls ! 1, theme_calls ! 3]" using run by simp
  moreover have "effective (sx_registry theme_env) ''ui'' ''theme'' (Some ''t1'')
      (fold (call_effect (sx_registry theme_env)) [theme_calls ! 0, theme_calls ! 1, theme_calls ! 3] Map.empty)
    = Inr (''platform'', PStr ''dark'')" by code_simp
  ultimately show ?thesis
    using resolution_is_most_specific [OF run, of "''ui''" "''theme''" "Some ''t1''"] run by simp
qed

lemma history_in_order:
  assumes "map se_version rs = map int [1..<Suc (length rs)]"
  shows "sort_key (\<lambda>r. (se_version r, se_id r)) rs = rs"
proof (rule sort_key_id_if_sorted)
  have "sorted_wrt (<) (map se_version rs)" unfolding assms by (simp add: sorted_wrt_map del: upt_Suc)
  then have "sorted_wrt (\<lambda>r r'. se_version r < se_version r') rs" by (simp add: sorted_wrt_map)
  then have "sorted_wrt (\<lambda>r r'. (se_version r, se_id r) \<le> (se_version r', se_id r')) rs"
    by (rule sorted_wrt_mono_rel [rotated]) (simp add: less_eq_prod_def)
  then show "sorted (map (\<lambda>r. (se_version r, se_id r)) rs)" by (simp add: sorted_map)
qed

text \<open>C27: The history of a setting is complete: its revisions carry the versions 1, 2, 3 and so on up to the version
  of the row, one for each call that succeeded, each starts from what the one before left, the first from
  nothing, and the last leaves what the row holds.
\<close>

theorem setting_history_is_complete:
  assumes "setting_run env calls (no_settings, w) = (x, log)" and "current_value sl (fst x) = Some v"
    and "history (sx_registry env) sl (fst x) = Inr rs"
  shows "length rs = length (filter (\<lambda>c. call_slot c = sl) log) \<and> sv_version v = int (length rs) \<and>
    map se_version rs = map int [1..<Suc (length rs)] \<and>
    map old_of rs @ [(sv_value v, sv_secret_ref v)] = (PNone, None) # map new_of rs"
proof -
  have t: "tells (sx_registry env) (fst x) ([] @ log)"
    using setting_run_tells [of env "(no_settings, w)" "[]" calls x log] assms(1) tells_nothing by simp
  then have h: "history_complete v (slot_revisions sl (fst x))" using assms(2) by (auto simp: tells_def history_told_def split: option.splits)
  have "rs = sort_key (\<lambda>r. (se_version r, se_id r)) (slot_revisions sl (fst x))"
    using assms(3) by (auto simp: history_def slot_revisions_def rbind_Inr_iff)
  then have "rs = slot_revisions sl (fst x)"
    using history_in_order h unfolding history_complete_def by metis
  then show ?thesis using h t by (simp add: history_complete_def tells_def del: upt_Suc)
qed

theorem setting_history_is_complete_witness:
  "(case setting_run theme_env theme_calls (no_settings, 0) of (x, log) \<Rightarrow>
     rbind (history (sx_registry theme_env) (tenant_slot ''ui'' ''theme'' ''t1'') (fst x)) (\<lambda>rs. Inr (map se_version rs)))
   = Inr [1, 2]"
proof -
  obtain x log where run: "setting_run theme_env theme_calls (no_settings, 0) = (x, log)" by fastforce
  let ?sl = "tenant_slot ''ui'' ''theme'' ''t1''"
  have "map_option sv_id (current_value ?sl (fst (fst (setting_run theme_env theme_calls (no_settings, 0))))) = Some ''v2''"
    by code_simp
  then obtain v where v: "current_value ?sl (fst x) = Some v" using run by auto
  have "is_ok (history (sx_registry theme_env) ?sl (fst (fst (setting_run theme_env theme_calls (no_settings, 0)))))"
    by code_simp
  then obtain rs where rs: "history (sx_registry theme_env) ?sl (fst x) = Inr rs"
    using run by (auto simp: is_ok_def split: sum.splits)
  have "length (filter (\<lambda>c. call_slot c = ?sl) (snd (setting_run theme_env theme_calls (no_settings, 0)))) = 2" by code_simp
  then have "length rs = 2" "map se_version rs = map int [1..<Suc (length rs)]"
    using setting_history_is_complete [OF run v rs] run by (simp_all del: upt_Suc)
  moreover have "map int [1..<Suc 2] = [1, 2]" by (simp add: upt_rec)
  ultimately have "map se_version rs = [1, 2]" by (simp del: upt_Suc)
  then show ?thesis using run rs by simp
qed

section \<open>Values have their type\<close>

lemma bounds_ok: "validate_numeric_bounds sp x f = Inr () \<longleftrightarrow>
    \<not> when_some (sp_min sp) (float_less x) \<and> \<not> when_some (sp_max sp) (\<lambda>b. float_less b x)"
  by (simp only: validate_numeric_bounds_def split: if_splits) simp

lemma number_ok:
  "validate_number sp v f m = Inr w \<longleftrightarrow> w = v \<and>
    (\<exists>x. as_float v = Some (Inr x) \<and> \<not> when_some (sp_min sp) (float_less x) \<and> \<not> when_some (sp_max sp) (\<lambda>b. float_less b x))"
proof (cases "as_float v")
  case None
  then show ?thesis by (simp add: validate_number_def)
next
  case (Some r)
  then show ?thesis using bounds_ok [of sp _ f]
    by (cases r) (auto simp add: validate_number_def rbind_Inr_iff simp del: when_some_iff)
qed

lemma enum_ok: "validate_enum sp v f = Inr w \<longleftrightarrow> w = v \<and>
    (\<exists>s. as_str v = Some s \<and> (sp_allowed sp = [] \<or> s \<in> set (sp_allowed sp)))"
  by (auto simp: validate_enum_def split: option.splits)

lemma validate_returns_value:
  assumes "validate_setting_value sp v f = Inr w"
  shows "w = v" "validate_setting_value sp v g = Inr v"
  using assms unfolding validate_setting_value_def Let_def
  by (auto simp: number_ok enum_ok simp del: when_some_iff split: if_splits)

lemma stored_is_valid:
  assumes "stored reg sl v s = Some (w, sr)" and "get_setting reg (sl_module sl) (sl_key sl) = Inr sp" and "\<not> sp_secret_ref_only sp"
  shows "validate_setting_value sp w f = Inr w"
proof -
  have "validated_setting_value sp v s = Inr (w, sr)" using assms(1,2) by (simp add: stored_def split: sum.splits)
  then have "validate_setting_value sp v ''value'' = Inr w"
    using assms(3) by (auto simp: validated_setting_value_def split: sum.splits if_splits exn.splits)
  then show ?thesis using validate_returns_value by blast
qed

lemma effects_are_valid:
  assumes "fold (call_effect reg) log Map.empty sl = Some (w, sr)"
    and "get_setting reg (sl_module sl) (sl_key sl) = Inr sp" and "\<not> sp_secret_ref_only sp"
  shows "validate_setting_value sp w f = Inr w"
  using assms(1)
proof (induction log rule: rev_induct)
  case (snoc c log)
  then show ?case using stored_is_valid [OF _ assms(2,3)] by (cases c) (auto split: if_splits)
qed simp



section \<open>Secrets\<close>

text \<open>What is left of a row and of a revision when the secrets are gone: that there are some.\<close>

definition erase_value :: "pyval \<Rightarrow> pyval" where
  "erase_value v = (if v = PNone then PNone else PStr ''erased'')"

definition erase_ref :: "string option \<Rightarrow> string option" where
  "erase_ref s = map_option (\<lambda>_. ''erased'') s"

definition hidden_setting :: "setting_registry \<Rightarrow> string \<Rightarrow> string \<Rightarrow> bool" where
  "hidden_setting reg module key \<longleftrightarrow> (case get_setting reg module key of Inl _ \<Rightarrow> False | Inr sp \<Rightarrow> hides sp)"

definition erase_row :: "setting_registry \<Rightarrow> setting_value \<Rightarrow> setting_value" where
  "erase_row reg v = (if hidden_setting reg (sv_module v) (sv_key v)
     then v\<lparr>sv_value := erase_value (sv_value v), sv_secret_ref := erase_ref (sv_secret_ref v)\<rparr> else v)"

definition erase_revision :: "setting_registry \<Rightarrow> setting_revision \<Rightarrow> setting_revision" where
  "erase_revision reg r = (if hidden_setting reg (se_module r) (se_key r)
     then r\<lparr>se_old_value := erase_value (se_old_value r), se_new_value := erase_value (se_new_value r),
       se_old_secret_ref := erase_ref (se_old_secret_ref r), se_new_secret_ref := erase_ref (se_new_secret_ref r)\<rparr> else r)"

definition erase :: "setting_registry \<Rightarrow> setting_tables \<Rightarrow> setting_tables" where
  "erase reg tabs = \<lparr>st_values = map (erase_row reg) (st_values tabs), st_revisions = map (erase_revision reg) (st_revisions tabs)\<rparr>"

lemma erase_row_fields [simp]:
  "sv_id (erase_row reg v) = sv_id v" "sv_module (erase_row reg v) = sv_module v" "sv_key (erase_row reg v) = sv_key v"
  "sv_scope (erase_row reg v) = sv_scope v" "sv_scope_id (erase_row reg v) = sv_scope_id v"
  "sv_value_type (erase_row reg v) = sv_value_type v" "sv_version (erase_row reg v) = sv_version v"
  "sv_status (erase_row reg v) = sv_status v" "sv_updated_by (erase_row reg v) = sv_updated_by v"
  "sv_reason (erase_row reg v) = sv_reason v" "slot_of (erase_row reg v) = slot_of v"
  by (simp_all add: erase_row_def slot_of_def)

lemma erase_revision_fields [simp]:
  "se_id (erase_revision reg r) = se_id r" "se_value_id (erase_revision reg r) = se_value_id r"
  "se_module (erase_revision reg r) = se_module r" "se_key (erase_revision reg r) = se_key r"
  "se_scope (erase_revision reg r) = se_scope r" "se_scope_id (erase_revision reg r) = se_scope_id r"
  "se_version (erase_revision reg r) = se_version r" "se_changed_by (erase_revision reg r) = se_changed_by r"
  "se_reason (erase_revision reg r) = se_reason r" "revision_slot (erase_revision reg r) = revision_slot r"
  by (simp_all add: erase_revision_def revision_slot_def)

lemma serialize_erased:
  "hides sp \<Longrightarrow> serialize_value sp (erase_value v) (erase_ref s) = serialize_value sp v s"
  "hides sp \<Longrightarrow> serialize_secret_ref sp (erase_ref s) = serialize_secret_ref sp s"
  by (auto simp: serialize_value_def serialize_secret_ref_def erase_value_def erase_ref_def split: option.split)

lemma shown_row:
  assumes "get_setting reg (sv_module v) (sv_key v) = Inr sp"
  shows "serialize_value sp (sv_value (erase_row reg v)) (sv_secret_ref (erase_row reg v))
      = serialize_value sp (sv_value v) (sv_secret_ref v)"
    and "serialize_secret_ref sp (sv_secret_ref (erase_row reg v)) = serialize_secret_ref sp (sv_secret_ref v)"
  using assms by (cases "hides sp"; simp add: erase_row_def hidden_setting_def serialize_erased)+

lemma shown_revision:
  assumes "get_setting reg (se_module r) (se_key r) = Inr sp"
  shows "revision_to_dict (erase_revision reg r) sp = revision_to_dict r sp"
  using assms by (cases "hides sp") (simp_all add: revision_to_dict_def erase_revision_def hidden_setting_def serialize_erased)

lemma find_erase: "(\<And>v. P (erase_row reg v) = P v) \<Longrightarrow>
    find P (st_values (erase reg tabs)) = map_option (erase_row reg) (find P (st_values tabs))"
proof -
  assume p: "\<And>v. P (erase_row reg v) = P v"
  have "find P (map (erase_row reg) vs) = map_option (erase_row reg) (find P vs)" for vs
    using p by (induction vs) auto
  then show ?thesis by (simp add: erase_def)
qed

lemma active_value_erase: "active_value sl (erase reg tabs) = map_option (erase_row reg) (active_value sl tabs)"
  unfolding active_value_def by (rule find_erase) simp

text \<open>What the routes show: a row and the revisions of a slot, with the definition of the setting.\<close>

definition shown_value :: "setting_registry \<Rightarrow> setting_slot \<Rightarrow> setting_tables \<Rightarrow> (string \<times> pyval) list result" where
  "shown_value reg sl tabs =
    rbind (get_value reg sl tabs) (\<lambda>v. rbind (get_setting reg (sv_module v) (sv_key v)) (\<lambda>sp. Inr (value_to_dict v sp)))"

definition shown_history :: "setting_registry \<Rightarrow> setting_slot \<Rightarrow> setting_tables \<Rightarrow> (string \<times> pyval) list list result" where
  "shown_history reg sl tabs =
    rbind (history reg sl tabs) (\<lambda>rs. rbind (get_setting reg (sl_module sl) (sl_key sl)) (\<lambda>sp.
      Inr (map (\<lambda>r. revision_to_dict r sp) rs)))"

lemma active_value_key: "active_value sl tabs = Some v \<Longrightarrow> sv_module v = sl_module sl \<and> sv_key v = sl_key sl"
  by (auto simp: active_value_def find_Some_iff slot_of_def)

lemma resolved_erased:
  assumes "active_value sl tabs = Some v" and "get_setting reg (sl_module sl) (sl_key sl) = Inr sp"
  shows "resolved_from_row (erase_row reg v) source sp = resolved_from_row v source sp"
  using shown_row [of reg v sp] active_value_key [OF assms(1)] assms(2) by (simp add: resolved_from_row_def)

lemma resolve_erased: "resolve_setting reg module key t (erase reg tabs) = resolve_setting reg module key t tabs"
proof (cases "get_setting reg module key")
  case (Inl e)
  then show ?thesis by (simp add: resolve_setting_def registered_setting_spec_def)
next
  case (Inr sp)
  have eq: "resolved_from_row (erase_row reg v) src sp = resolved_from_row v src sp"
    if "active_value sl tabs = Some v" "sl_module sl = module" "sl_key sl = key" for sl v src
    using resolved_erased [OF that(1)] that(2,3) Inr by simp
  have p: "active_value (platform_slot module key) tabs = Some v \<Longrightarrow>
      resolved_from_row (erase_row reg v) src sp = resolved_from_row v src sp" for v src
    using eq by (simp add: platform_slot_def)
  have u: "active_value (tenant_slot module key u) tabs = Some v \<Longrightarrow>
      resolved_from_row (erase_row reg v) src sp = resolved_from_row v src sp" for u v src
    using eq by (simp add: tenant_slot_def)
  show ?thesis using Inr p u
    by (simp add: resolve_setting_def registered_setting_spec_def active_value_erase split: option.split)
qed

lemma shown_value_erased: "shown_value reg sl (erase reg tabs) = shown_value reg sl tabs"
proof (cases "active_value sl tabs")
  case None
  then show ?thesis by (simp add: shown_value_def get_value_def active_value_erase rbind_assoc)
next
  case (Some v)
  have "rbind (get_setting reg (sv_module v) (sv_key v)) (\<lambda>sp. Inr (value_to_dict (erase_row reg v) sp))
      = rbind (get_setting reg (sv_module v) (sv_key v)) (\<lambda>sp. Inr (value_to_dict v sp))"
    using shown_row [of reg v] by (cases "get_setting reg (sv_module v) (sv_key v)") (simp_all add: value_to_dict_def)
  then show ?thesis using Some by (simp add: shown_value_def get_value_def active_value_erase rbind_assoc)
qed

lemma insort_key_map: "(\<And>x. k (f x) = k x) \<Longrightarrow> insort_key k (f x) (map f xs) = map f (insort_key k x xs)"
  by (induction xs) auto

lemma sort_key_map: "(\<And>x. k (f x) = k x) \<Longrightarrow> sort_key k (map f xs) = map f (sort_key k xs)"
  by (induction xs) (auto simp: insort_key_map)

lemma shown_history_erased: "shown_history reg sl (erase reg tabs) = shown_history reg sl tabs"
proof (cases "get_setting reg (sl_module sl) (sl_key sl)")
  case (Inl e)
  then show ?thesis by (simp add: shown_history_def history_def readable_spec_def registered_setting_spec_def)
next
  case (Inr sp)
  let ?k = "\<lambda>r. (se_version r, se_id r)" and ?rs = "filter (\<lambda>r. revision_slot r = sl) (st_revisions tabs)"
  have f: "filter (\<lambda>r. revision_slot r = sl) (st_revisions (erase reg tabs)) = map (erase_revision reg) ?rs"
    by (simp add: erase_def filter_map comp_def)
  have s: "sort_key ?k (map (erase_revision reg) ?rs) = map (erase_revision reg) (sort_key ?k ?rs)"
    by (rule sort_key_map) simp
  have "revision_to_dict (erase_revision reg r) sp = revision_to_dict r sp" if "r \<in> set ?rs" for r
    using that Inr by (intro shown_revision) (auto simp: revision_slot_def)
  then have m: "map (\<lambda>r. revision_to_dict (erase_revision reg r) sp) (sort_key ?k ?rs)
      = map (\<lambda>r. revision_to_dict r sp) (sort_key ?k ?rs)"
    by (intro map_cong refl) (simp only: set_sort)
  show ?thesis using Inr unfolding shown_history_def history_def f s
    by (simp add: rbind_assoc comp_def m)
qed

text \<open>C26: Secrets do not leave the app through resolution, the value of a slot or its history: these are the same
  when the value and the secret reference of every hidden setting are erased from the tables.
\<close>

theorem secrets_are_not_shown:
  "resolve_setting reg module key tenant_id (erase reg tabs) = resolve_setting reg module key tenant_id tabs \<and>
   shown_value reg sl (erase reg tabs) = shown_value reg sl tabs \<and>
   shown_history reg sl (erase reg tabs) = shown_history reg sl tabs"
  by (simp add: resolve_erased shown_value_erased shown_history_erased)

text \<open>Nor do they leave through events and audit records: what an upsert publishes and records does not
  depend on the value it stores.\<close>

lemma upserted_published:
  "slot_of (upserted sp i sl w s c cur) = slot_of (upserted sp i sl w' s' c cur)"
  "sv_id (upserted sp i sl w s c cur) = sv_id (upserted sp i sl w' s' c cur)"
  "sv_version (upserted sp i sl w s c cur) = sv_version (upserted sp i sl w' s' c cur)"
  "sv_status (upserted sp i sl w s c cur) = sv_status (upserted sp i sl w' s' c cur)"
  "sv_scope (upserted sp i sl w s c cur) = sv_scope (upserted sp i sl w' s' c cur)"
  "sv_scope_id (upserted sp i sl w s c cur) = sv_scope_id (upserted sp i sl w' s' c cur)"
  by (simp_all add: upserted_def slot_of_def split: option.split)

lemma on_world_of_world: "snd (fst (on_world_of f (t, u))) = fst (f u)"
  by (simp add: on_world_of_def split: prod.split)

lemma publish_world:
  assumes "sv_id v = sv_id v'"
  shows "snd (fst (publish_changed env v sl p (t, u))) = snd (fst (publish_changed env v' sl p (t', u)))"
    and "snd (publish_changed env v sl p (t, u)) = snd (publish_changed env v' sl p (t', u))"
  using assms by (simp_all add: publish_changed_def on_world_of_def split: prod.split)

lemma audit_world:
  assumes "slot_of v = slot_of v'" and "sv_id v = sv_id v'" and "sv_version v = sv_version v'" and "sv_status v = sv_status v'"
  shows "snd (fst (record_setting_audit env v sl c (t, u))) = snd (fst (record_setting_audit env v' sl c (t', u)))"
    and "snd (record_setting_audit env v sl c (t, u)) = snd (record_setting_audit env v' sl c (t', u))"
proof -
  have "sv_scope v = sv_scope v'" "sv_scope_id v = sv_scope_id v'" using assms(1) by (simp_all add: slot_of_def)
  then show "snd (fst (record_setting_audit env v sl c (t, u))) = snd (fst (record_setting_audit env v' sl c (t', u)))"
    "snd (record_setting_audit env v sl c (t, u)) = snd (record_setting_audit env v' sl c (t', u))"
    using assms(2-4) by (simp_all add: record_setting_audit_def on_world_of_def split: option.split prod.split)
qed

lemma sbind_world:
  assumes "snd (fst (f x)) = snd (fst (f' x'))" and "snd (f x) = snd (f' x')"
    and "\<And>t t' u v. snd (fst (g v (t, u))) = snd (fst (g' v (t', u)))"
  shows "snd (fst (sbind f g x)) = snd (fst (sbind f' g' x'))"
proof -
  obtain t u r where f: "f x = ((t, u), r)" by (metis prod.collapse)
  obtain t' where f': "f' x' = ((t', u), r)" using assms(1,2) f by (metis fst_conv prod.collapse snd_conv)
  show ?thesis using assms(3) f f' by (cases r) (simp_all add: sbind_def)
qed

lemma written_keys:
  assumes "sv_id new = sv_id new'" and "slot_of new = slot_of new'"
  shows "map sv_id (st_values (write_value cur new tabs)) = map sv_id (st_values (write_value cur new' tabs))"
    and "map slot_of (st_values (write_value cur new tabs)) = map slot_of (st_values (write_value cur new' tabs))"
    and "st_revisions (write_value cur new tabs) = st_revisions (write_value cur new' tabs)"
  using assms by (auto simp: write_value_def write_row_def slot_of_def split: option.split)

lemma flush_world:
  assumes "sv_id new = sv_id new'" and "slot_of new = slot_of new'" and "se_id r = se_id r'"
  shows "snd (fst (flush_setting cur new r (t, u))) = snd (fst (flush_setting cur new' r' (t, u)))"
    and "snd (flush_setting cur new r (t, u)) = snd (flush_setting cur new' r' (t, u))"
  using assms by (simp_all add: flush_setting_def Let_def written_keys [OF assms(1,2)])

theorem events_do_not_carry_values:
  assumes "upsert_checks (sx_registry env) sl v s e (fst x) = Inr (sp, w, sr)"
    and "upsert_checks (sx_registry env) sl v' s' e (fst x) = Inr (sp, w', sr')"
  shows "snd (fst (upsert env others i rid sl v s c e x)) = snd (fst (upsert env others i rid sl v' s' c e x))"
proof -
  let ?cur = "current_value sl (fst x)"
  let ?new = "upserted sp i sl w sr c ?cur" and ?new' = "upserted sp i sl w' sr' c ?cur"
  note same = upserted_published [of sp i sl w sr c ?cur w' sr']
  have p: "changed_payload ?new sl c = changed_payload ?new' sl c" using same by (simp add: changed_payload_def)
  have r: "se_id (setting_revision_of rid ?cur ?new c) = se_id (setting_revision_of rid ?cur ?new' c)"
    by (simp add: setting_revision_of_def)
  have o: "sbind (others_write others) g x = g () (others (fst x), snd x)" for g
    by (simp add: sbind_def others_write_def)
  show ?thesis unfolding upsert_def assms sum.case prod.case Let_def p o
    by (intro sbind_world flush_world publish_world audit_world same r) simp
qed

theorem sensitive_default_is_listed:
  "dget (registered_to_dict r) ''default'' = Some (sp_default (rs_spec r)) \<and>
   (case (hides (rs_spec r), sp_default (rs_spec r)) of
      (True, PStr s) \<Rightarrow> rv_value (default_resolved (rs_spec r) module key tenant_id) = PStr ''***''
    | _ \<Rightarrow> True)"
  by (auto simp: registered_to_dict_def default_resolved_def serialize_value_def secret_redaction_def dget_def Let_def
    split: bool.split pyval.split)

section \<open>Two sessions\<close>

text \<open>
  The expected version is compared with what was read, and nothing compares it again when the row is
  written. When a second session commits its own change in between, both calls succeed, both under
  the same expected version, both rows carry the same next version, the history has two revisions
  of it, and the value of the first is gone.
\<close>

definition theme_race :: "nat setting_state \<times> setting_value result \<times> setting_value result" where
  "theme_race =
    (let sl = platform_slot ''ui'' ''theme'';
         (x, _) = upsert theme_env (\<lambda>t. t) ''v1'' ''h1'' sl (PStr ''light'') None operator (Some 0) (no_settings, 0);
         (y, first) = upsert theme_env (\<lambda>t. t) ''v2'' ''h2'' sl (PStr ''dark'') None operator (Some 1) x;
         (z, second) = reset theme_env (\<lambda>_. fst y) ''h3'' sl operator (Some 1) x
     in (z, first, second))"

theorem expected_version_is_not_atomic:
  "case theme_race of (z, first, second) \<Rightarrow>
     rbind first (\<lambda>v. Inr (sv_version v, sv_value v)) = Inr (2, PStr ''dark'') \<and>
     rbind second (\<lambda>v. Inr (sv_version v)) = Inr 2 \<and>
     active_value (platform_slot ''ui'' ''theme'') (fst z) = None \<and>
     rbind (history (sx_registry theme_env) (platform_slot ''ui'' ''theme'') (fst z)) (\<lambda>rs. Inr (map se_version rs)) = Inr [1, 2, 2]"
  by code_simp

text \<open>The numbers a definition bounds are bounded: exactly, as long as a float can tell them apart.\<close>

theorem accepted_numbers_are_in_range:
  assumes "validate_setting_value sp (PInt n) f = Inr w" and "sp_value_type sp \<in> {''int'', ''float''}"
    and "\<not> sp_secret_ref_only sp" and "\<bar>n\<bar> < 2 ^ 53"
  shows "w = PInt n \<and> \<not> when_some (sp_min sp) (float_less (n, 0)) \<and> \<not> when_some (sp_max sp) (\<lambda>b. float_less b (n, 0))"
proof -
  have "as_float (PInt n) = Some (Inr (n, 0))" using assms(4) by (simp add: float_of_int_def Let_def)
  then show ?thesis using assms(1-3) unfolding validate_setting_value_def Let_def
    by (auto simp: number_ok simp del: when_some_iff split: if_splits)
qed

end
