(* ===== verification/Auth_Tokens.thy ===== *)
theory Auth_Tokens
  imports Errors Python_Text
begin

text \<open>
  Tokens and passwords: local JWTs (\<open>core/auth/jwt_provider.py\<close>), the OIDC adapter with its states and
  identity tokens (\<open>core/auth/oidc_provider.py\<close>), the validation of a session against its token
  (\<open>core/auth/session.py\<close>) and password hashes (\<open>core/security/password.py\<close>).

  Parameters: the URL-safe base64 text of canonical JSON (\<open>codec\<close>), HMAC-SHA-256 of a secret and a
  text, PBKDF2, random identifiers, the OIDC client. A reading of the clock is an argument, in
  microseconds. \<open>hmac.compare_digest\<close> refuses texts that are not ASCII, by a \<open>TypeError\<close>.
\<close>

section \<open>Errors\<close>

definition invalid_auth_token :: "string \<Rightarrow> exn" where
  "invalid_auth_token reason = app_error ''AUTH_INVALID_TOKEN'' ''Invalid authentication token'' (Some 401)
     [(''reason'', PStr reason)]"

definition compare_digest :: "string \<Rightarrow> string \<Rightarrow> bool result" where
  "compare_digest a b =
    (if list_all (\<lambda>c. (of_char c :: nat) < 128) (a @ b) then Inr (a = b)
     else Inl (PyError ''TypeError'' ''comparing strings with non-ASCII characters is not supported''))"

section \<open>Claims\<close>

record token_claims =
  tk_user_id :: string
  tk_session_id :: string
  tk_provider :: string
  tk_token_version :: int
  tk_tenant_id :: "string option"

type_synonym payload = "(string \<times> pyval) list"

definition payload_value :: "payload \<Rightarrow> string \<Rightarrow> pyval" where
  "payload_value p k = (case dget p k of None \<Rightarrow> PNone | Some v \<Rightarrow> v)"

definition str_claim :: "payload \<Rightarrow> string \<Rightarrow> string result" where
  "str_claim p k = (case payload_value p k of PStr (c # s) \<Rightarrow> Inr (c # s) | _ \<Rightarrow> Inl (invalid_auth_token (''missing_'' @ k)))"

definition optional_str_claim :: "payload \<Rightarrow> string \<Rightarrow> string option result" where
  "optional_str_claim p k = (case payload_value p k of
     PNone \<Rightarrow> Inr None | PStr (c # s) \<Rightarrow> Inr (Some (c # s)) | _ \<Rightarrow> Inl (invalid_auth_token (''invalid_'' @ k)))"

definition int_claim :: "payload \<Rightarrow> string \<Rightarrow> int result" where
  "int_claim p k = (case as_int (payload_value p k) of
     Some n \<Rightarrow> Inr n | None \<Rightarrow> Inl (invalid_auth_token (''missing_'' @ k)))"

text \<open>The encoder of a dictionary and the decoder of a segment, which may raise: a \<open>ValueError\<close> means a
  malformed token.\<close>

record codec =
  cd_encode :: "payload \<Rightarrow> string"
  cd_decode :: "string \<Rightarrow> pyval result"
  cd_hmac :: "string \<Rightarrow> string \<Rightarrow> string"

definition decode_segment :: "codec \<Rightarrow> string \<Rightarrow> pyval result" where
  "decode_segment cd s = (case cd_decode cd s of
     Inl (PyError c m) \<Rightarrow> Inl (if c = ''ValueError'' then invalid_auth_token ''malformed_token'' else PyError c m)
   | r \<Rightarrow> r)"

definition decode_token :: "codec \<Rightarrow> string \<Rightarrow> (payload \<times> payload \<times> string \<times> string) result" where
  "decode_token cd token =
    (case split_on CHR ''.'' token of
       [h, p, sig] \<Rightarrow>
         rbind (decode_segment cd h) (\<lambda>header. rbind (decode_segment cd p) (\<lambda>payload.
           case (header, payload) of
             (PDict hp, PDict pp) \<Rightarrow> Inr (hp, pp, h @ ''.'' @ p, sig)
           | _ \<Rightarrow> Inl (invalid_auth_token ''malformed_token'')))
     | _ \<Rightarrow> Inl (invalid_auth_token ''malformed_token''))"

text \<open>\<open>int(now.timestamp())\<close>: seconds, rounded towards zero.\<close>

definition timestamp :: "instant \<Rightarrow> int" where
  "timestamp t = (if 0 \<le> t then t div 1000000 else - ((- t) div 1000000))"

section \<open>Local tokens\<close>

record jwt_config =
  jw_secret :: string
  jw_issuer :: string
  jw_audience :: string
  jw_ttl :: int

definition new_jwt_config :: "jwt_config \<Rightarrow> jwt_config result" where
  "new_jwt_config c =
    (if jw_secret c = [] then Inl (invalid_auth_token ''missing_jwt_secret'')
     else if jw_ttl c \<le> 0 then Inl (invalid_auth_token ''invalid_token_ttl'') else Inr c)"

definition jwt_header :: payload where
  "jwt_header = [(''alg'', PStr ''HS256''), (''typ'', PStr ''JWT'')]"

definition jwt_payload :: "jwt_config \<Rightarrow> token_claims \<Rightarrow> instant \<Rightarrow> payload" where
  "jwt_payload c k now =
     [(''iss'', PStr (jw_issuer c)), (''aud'', PStr (jw_audience c)), (''iat'', PInt (timestamp now)),
      (''exp'', PInt (timestamp now + jw_ttl c)), (''sub'', PStr (tk_user_id k)), (''sid'', PStr (tk_session_id k)),
      (''provider'', PStr (tk_provider k)), (''ver'', PInt (tk_token_version k)), (''tid'', opt_str (tk_tenant_id k))]"

definition issue_token :: "codec \<Rightarrow> jwt_config \<Rightarrow> token_claims \<Rightarrow> instant \<Rightarrow> string" where
  "issue_token cd c k now =
    (let input = cd_encode cd jwt_header @ ''.'' @ cd_encode cd (jwt_payload c k now) in
     input @ ''.'' @ cd_hmac cd (jw_secret c) input)"

definition claims_of :: "payload \<Rightarrow> token_claims result" where
  "claims_of p =
    rbind (str_claim p ''sub'') (\<lambda>user. rbind (str_claim p ''sid'') (\<lambda>session.
    rbind (str_claim p ''provider'') (\<lambda>provider. rbind (int_claim p ''ver'') (\<lambda>version.
    rbind (optional_str_claim p ''tid'') (\<lambda>tenant.
      Inr \<lparr>tk_user_id = user, tk_session_id = session, tk_provider = provider, tk_token_version = version,
           tk_tenant_id = tenant\<rparr>)))))"

definition verify_token :: "codec \<Rightarrow> jwt_config \<Rightarrow> string \<Rightarrow> instant \<Rightarrow> token_claims result" where
  "verify_token cd c token now =
    rbind (decode_token cd token) (\<lambda>(header, p, input, sig).
    if payload_value header ''alg'' \<noteq> PStr ''HS256'' then Inl (invalid_auth_token ''unsupported_alg'')
    else rbind (compare_digest (cd_hmac cd (jw_secret c) input) sig) (\<lambda>same.
    if \<not> same then Inl (invalid_auth_token ''invalid_signature'')
    else if payload_value p ''iss'' \<noteq> PStr (jw_issuer c) then Inl (invalid_auth_token ''issuer_mismatch'')
    else if payload_value p ''aud'' \<noteq> PStr (jw_audience c) then Inl (invalid_auth_token ''audience_mismatch'')
    else rbind (int_claim p ''exp'') (\<lambda>expires_at.
    if expires_at \<le> timestamp now then Inl (invalid_auth_token ''token_expired'')
    else claims_of p)))"

section \<open>External logins\<close>

record oidc_config =
  oc_provider :: string
  oc_issuer :: string
  oc_client_id :: string
  oc_client_secret :: string
  oc_redirect_uri :: string
  oc_authorization_endpoint :: string
  oc_token_endpoint :: string
  oc_scopes :: "string list"
  oc_tenant_claim :: string
  oc_extra_params :: "(string \<times> string) list"

definition new_oidc_config :: "oidc_config \<Rightarrow> oidc_config result" where
  "new_oidc_config c =
    (let required = [(''provider'', oc_provider c), (''issuer'', oc_issuer c), (''client_id'', oc_client_id c),
         (''client_secret'', oc_client_secret c), (''redirect_uri'', oc_redirect_uri c),
         (''authorization_endpoint'', oc_authorization_endpoint c), (''token_endpoint'', oc_token_endpoint c)] in
     case filter (\<lambda>(n, v). blank v) required of
       (n, _) # _ \<Rightarrow> Inl (validation_error (''OIDC '' @ n @ '' is required''))
     | [] \<Rightarrow> if ''openid'' \<notin> set (oc_scopes c) then Inl (validation_error ''OIDC scopes must include openid'') else Inr c)"

definition rstrip_slash :: "string \<Rightarrow> string" where
  "rstrip_slash s = rev (dropWhile (\<lambda>c. c = CHR ''/'') (rev s))"

definition logto_config :: "string \<Rightarrow> string \<Rightarrow> string \<Rightarrow> string \<Rightarrow> oidc_config result" where
  "logto_config issuer client_id client_secret redirect_uri =
    (let i = rstrip_slash issuer in
     new_oidc_config \<lparr>oc_provider = ''logto'', oc_issuer = i, oc_client_id = client_id, oc_client_secret = client_secret,
       oc_redirect_uri = redirect_uri, oc_authorization_endpoint = i @ ''/auth'', oc_token_endpoint = i @ ''/token'',
       oc_scopes = [''openid'', ''profile'', ''email'', ''urn:logto:scope:organizations''],
       oc_tenant_claim = ''organization_id'', oc_extra_params = []\<rparr>)"

definition keycloak_config :: "string \<Rightarrow> string \<Rightarrow> string \<Rightarrow> string \<Rightarrow> oidc_config result" where
  "keycloak_config realm_url client_id client_secret redirect_uri =
    (let r = rstrip_slash realm_url; base = r @ ''/protocol/openid-connect'' in
     new_oidc_config \<lparr>oc_provider = ''keycloak'', oc_issuer = r, oc_client_id = client_id, oc_client_secret = client_secret,
       oc_redirect_uri = redirect_uri, oc_authorization_endpoint = base @ ''/auth'', oc_token_endpoint = base @ ''/token'',
       oc_scopes = [''openid'', ''profile'', ''email''], oc_tenant_claim = ''tenant_id'', oc_extra_params = []\<rparr>)"

text \<open>States: issued once, popped by the first callback that names them.\<close>

record auth_state =
  es_provider :: string
  es_state :: string
  es_nonce :: string
  es_tenant_id :: "string option"
  es_redirect_after :: "string option"
  es_expires_at :: instant

record state_store =
  so_ttl :: int
  so_states :: "string \<rightharpoonup> auth_state"

definition new_state_store :: "int \<Rightarrow> state_store result" where
  "new_state_store ttl =
    (if ttl \<le> 0 then Inl (app_error ''VALIDATION_ERROR'' ''external auth state ttl must be positive'' None [])
     else Inr \<lparr>so_ttl = ttl, so_states = Map.empty\<rparr>)"

definition issue_state ::
  "string \<Rightarrow> string \<Rightarrow> string \<Rightarrow> string option \<Rightarrow> string option \<Rightarrow> instant \<Rightarrow> (state_store, auth_state) state_op" where
  "issue_state fresh nonce provider tenant_id redirect_after now st =
    (if blank provider then (st, Inl (app_error ''VALIDATION_ERROR'' ''external auth provider is required'' None []))
     else let s = \<lparr>es_provider = strip provider, es_state = fresh, es_nonce = nonce, es_tenant_id = tenant_id,
            es_redirect_after = redirect_after, es_expires_at = now + secs (so_ttl st)\<rparr> in
       (st\<lparr>so_states := (so_states st)(fresh \<mapsto> s)\<rparr>, Inr s))"

definition consume_state :: "string \<Rightarrow> string \<Rightarrow> instant \<Rightarrow> (state_store, auth_state) state_op" where
  "consume_state provider state now st =
    (st\<lparr>so_states := (so_states st)(state := None)\<rparr>,
     case so_states st state of
       None \<Rightarrow> Inl (invalid_auth_token ''external_auth_state_not_found'')
     | Some s \<Rightarrow>
         if es_provider s \<noteq> provider then Inl (invalid_auth_token ''provider_mismatch'')
         else if es_expires_at s \<le> now then Inl (invalid_auth_token ''external_auth_state_expired'')
         else Inr s)"

record oidc_claims =
  ok_subject :: string
  ok_email :: string
  ok_display_name :: string
  ok_email_verified :: "bool option"
  ok_tenant_id :: "string option"
  ok_raw :: payload

record external_identity_claims =
  ei_provider :: string
  ei_subject :: string
  ei_email :: string
  ei_display_name :: string
  ei_tenant_id :: "string option"
  ei_raw :: payload

text \<open>The URL a client is sent to; \<open>urlencode\<close> quotes the query, in which an extra parameter replaces one
  of the standard ones.\<close>

definition authorization_url ::
  "((string \<times> string) list \<Rightarrow> string) \<Rightarrow> oidc_config \<Rightarrow> auth_state \<Rightarrow> string result" where
  "authorization_url urlencode c s =
    (if es_provider s \<noteq> oc_provider c then Inl (invalid_auth_token ''provider_mismatch'')
     else Inr (oc_authorization_endpoint c @ ''?'' @ urlencode (fold (\<lambda>(k, v). dput k v) (oc_extra_params c)
       [(''response_type'', ''code''), (''client_id'', oc_client_id c), (''redirect_uri'', oc_redirect_uri c),
        (''scope'', join '' '' (oc_scopes c)), (''state'', es_state s), (''nonce'', es_nonce s)])))"

definition audience_matches :: "pyval \<Rightarrow> string \<Rightarrow> bool" where
  "audience_matches v expected = (case v of PStr s \<Rightarrow> s = expected | PList vs \<Rightarrow> PStr expected \<in> set vs | _ \<Rightarrow> False)"

definition email_verified :: "payload \<Rightarrow> bool option result" where
  "email_verified p = (case payload_value p ''email_verified'' of
     PNone \<Rightarrow> Inr None | PBool b \<Rightarrow> Inr (Some b) | _ \<Rightarrow> Inl (invalid_auth_token ''invalid_email_verified''))"

definition oidc_claims_of :: "oidc_config \<Rightarrow> payload \<Rightarrow> oidc_claims result" where
  "oidc_claims_of c p =
    rbind (str_claim p ''sub'') (\<lambda>subject. rbind (str_claim p ''email'') (\<lambda>raw_email.
    let email = lower (strip raw_email) in
    rbind (optional_str_claim p ''name'') (\<lambda>name. rbind (optional_str_claim p (oc_tenant_claim c)) (\<lambda>tenant.
    rbind (email_verified p) (\<lambda>verified.
      Inr \<lparr>ok_subject = subject, ok_email = email,
        ok_display_name = (case name of Some n \<Rightarrow> n | None \<Rightarrow> if email \<noteq> [] then email else subject),
        ok_email_verified = verified, ok_tenant_id = tenant, ok_raw = p\<rparr>)))))"

definition verify_id_token :: "codec \<Rightarrow> string \<Rightarrow> oidc_config \<Rightarrow> string \<Rightarrow> string \<Rightarrow> instant \<Rightarrow> oidc_claims result" where
  "verify_id_token cd secret c id_token expected_nonce now =
    rbind (decode_token cd id_token) (\<lambda>(header, p, input, sig).
    if payload_value header ''alg'' \<noteq> PStr ''HS256'' then Inl (invalid_auth_token ''unsupported_alg'')
    else rbind (compare_digest (cd_hmac cd secret input) sig) (\<lambda>same.
    if \<not> same then Inl (invalid_auth_token ''invalid_signature'')
    else if payload_value p ''iss'' \<noteq> PStr (oc_issuer c) then Inl (invalid_auth_token ''issuer_mismatch'')
    else if \<not> audience_matches (payload_value p ''aud'') (oc_client_id c) then Inl (invalid_auth_token ''audience_mismatch'')
    else rbind (int_claim p ''exp'') (\<lambda>expires_at.
    if expires_at \<le> timestamp now then Inl (invalid_auth_token ''token_expired'')
    else rbind (str_claim p ''nonce'') (\<lambda>nonce.
    if nonce \<noteq> expected_nonce then Inl (invalid_auth_token ''nonce_mismatch'')
    else oidc_claims_of c p))))"

text \<open>The client exchanges the code for the identity token; the verifier is any.\<close>

definition handle_callback ::
  "(oidc_config \<Rightarrow> string \<Rightarrow> ('w, string) state_op) \<Rightarrow> (oidc_config \<Rightarrow> string \<Rightarrow> string \<Rightarrow> oidc_claims result)
    \<Rightarrow> oidc_config \<Rightarrow> string \<Rightarrow> string \<Rightarrow> auth_state \<Rightarrow> ('w, external_identity_claims) state_op" where
  "handle_callback exchange verify c code cb_state s =
    (if cb_state \<noteq> es_state s then sret (Inl (invalid_auth_token ''state_mismatch''))
     else if blank code then sret (Inl (invalid_auth_token ''missing_authorization_code''))
     else sbind (exchange c (strip code)) (\<lambda>id_token.
       sret (rbind (verify c id_token (es_nonce s)) (\<lambda>k.
         Inr \<lparr>ei_provider = oc_provider c, ei_subject = ok_subject k, ei_email = lower (strip (ok_email k)),
           ei_display_name = ok_display_name k,
           ei_tenant_id = (case ok_tenant_id k of Some (a # t) \<Rightarrow> Some (a # t) | _ \<Rightarrow> es_tenant_id s), ei_raw = ok_raw k\<rparr>))))"

section \<open>Sessions\<close>

record session_principal =
  pn_user_id :: string
  pn_email :: string
  pn_display_name :: string
  pn_provider :: string
  pn_session_id :: string
  pn_session_status :: string
  pn_user_status :: string
  pn_session_token_version :: int
  pn_user_token_version :: int
  pn_tenant_id :: "string option"

record current_user =
  cu_id :: string
  cu_email :: string
  cu_display_name :: string
  cu_provider :: string
  cu_session_id :: string
  cu_token_version :: int
  cu_tenant_id :: "string option"

definition validate_claims :: "token_claims \<Rightarrow> unit result" where
  "validate_claims k =
    (case filter (\<lambda>(n, v). blank v)
        [(''user_id'', tk_user_id k), (''session_id'', tk_session_id k), (''auth_provider'', tk_provider k)] of
       (n, _) # _ \<Rightarrow> Inl (invalid_auth_token (''missing_'' @ n))
     | [] \<Rightarrow> if tk_token_version k < 1 then Inl (invalid_auth_token ''invalid_token_version'') else Inr ())"

text \<open>A chain of checks, the first that fails naming the reason.\<close>

fun refuse_first :: "(bool \<times> string) list \<Rightarrow> unit result" where
  "refuse_first [] = Inr ()"
| "refuse_first ((bad, reason) # cs) = (if bad then Inl (invalid_auth_token reason) else refuse_first cs)"

definition authenticate :: "(string \<Rightarrow> session_principal option) \<Rightarrow> token_claims \<Rightarrow> current_user result" where
  "authenticate load k =
    rbind (validate_claims k) (\<lambda>_.
    case load (tk_session_id k) of
      None \<Rightarrow> Inl (invalid_auth_token ''session_not_found'')
    | Some p \<Rightarrow>
        rbind (refuse_first
          [(pn_user_id p \<noteq> tk_user_id k, ''user_mismatch''), (pn_provider p \<noteq> tk_provider k, ''provider_mismatch''),
           (pn_session_status p \<noteq> ''active'', ''session_not_active''), (pn_user_status p \<noteq> ''active'', ''user_not_active''),
           (pn_user_token_version p \<noteq> tk_token_version k, ''token_version_mismatch''),
           (pn_session_token_version p \<noteq> tk_token_version k, ''session_token_version_mismatch''),
           (pn_tenant_id p \<noteq> tk_tenant_id k, ''tenant_mismatch'')]) (\<lambda>_.
        Inr \<lparr>cu_id = pn_user_id p, cu_email = pn_email p, cu_display_name = pn_display_name p, cu_provider = pn_provider p,
          cu_session_id = pn_session_id p, cu_token_version = pn_user_token_version p, cu_tenant_id = pn_tenant_id p\<rparr>))"

section \<open>Passwords\<close>

text \<open>PBKDF2 in hexadecimal, of password, salt and iterations; it raises when there are no iterations.\<close>

record hasher =
  ph_iterations :: int
  ph_salt_bytes :: int
  ph_min_length :: int
  ph_digest :: "string \<Rightarrow> string \<Rightarrow> int \<Rightarrow> string result"

definition new_hasher :: "hasher \<Rightarrow> hasher result" where
  "new_hasher h =
    (if ph_iterations h < 1000 then Inl (validation_error ''Password hash iterations must be at least 1000'')
     else if ph_salt_bytes h < 8 then Inl (validation_error ''Password salt_bytes must be at least 8'')
     else if ph_min_length h < 8 then Inl (validation_error ''Password min_length must be at least 8'')
     else Inr h)"

definition hash_password :: "hasher \<Rightarrow> string \<Rightarrow> string \<Rightarrow> string result" where
  "hash_password h salt password =
    (if int (length password) < ph_min_length h
     then Inl (validation_error (''Password must be at least '' @ int_str (ph_min_length h) @ '' characters''))
     else rbind (ph_digest h password salt (ph_iterations h)) (\<lambda>digest.
       Inr (''pbkdf2_sha256$'' @ int_str (ph_iterations h) @ ''$'' @ salt @ ''$'' @ digest)))"

text \<open>\<open>split("$", 3)\<close>: four parts, the last with what is left. A \<open>TypeError\<close> and a \<open>ValueError\<close> mean no.\<close>

fun split_max :: "char \<Rightarrow> nat \<Rightarrow> string \<Rightarrow> string list" where
  "split_max c 0 s = [s]"
| "split_max c (Suc n) s =
     (case dropWhile (\<lambda>d. d \<noteq> c) s of
        [] \<Rightarrow> [s]
      | _ # rest \<Rightarrow> takeWhile (\<lambda>d. d \<noteq> c) s # split_max c n rest)"

definition refuse_value_error :: "bool result \<Rightarrow> bool result" where
  "refuse_value_error r = (case r of
     Inl (PyError c m) \<Rightarrow> if c = ''ValueError'' \<or> c = ''TypeError'' then Inr False else Inl (PyError c m) | _ \<Rightarrow> r)"

definition verify_password :: "hasher \<Rightarrow> string \<Rightarrow> string \<Rightarrow> bool result" where
  "verify_password h password password_hash =
    (case split_max CHR ''$'' 3 password_hash of
       [algorithm, iterations_text, salt, expected] \<Rightarrow>
         if algorithm \<noteq> ''pbkdf2_sha256'' then Inr False
         else refuse_value_error (rbind (py_int iterations_text) (\<lambda>iterations.
           if password = [] then Inr False
           else rbind (ph_digest h password salt iterations) (\<lambda>digest. compare_digest digest expected)))
     | _ \<Rightarrow> Inr False)"

end
