(* ===== verification/Accounts.thy ===== *)
theory Accounts
  imports Auth_Tokens Tenant_Lifecycle
begin

text \<open>
  The accounts app (\<open>platform_apps/accounts\<close>): users with their credentials, external identities and
  sessions (\<open>models.py\<close>), every operation of the service (\<open>services.py\<close>) and the session store that
  authentication reads (\<open>auth.py\<close>).

  The state is the tables and the rest of the world, \<open>'w\<close>, on which the audit recorder and the event
  publisher operate; an operation that raises leaves what it had changed before, and the unit of work
  around it rolls that back. A fresh identifier, a salt and a reading of the clock are arguments. The
  widths of the columns are not enforced.
\<close>

section \<open>Tables\<close>

record user_row =
  us_id :: string
  us_email :: string
  us_display_name :: string
  us_status :: string
  us_token_version :: int

record credential =
  uc_user_id :: string
  uc_password_hash :: string
  uc_updated_at :: instant

record external_identity =
  xi_id :: string
  xi_user_id :: string
  xi_provider :: string
  xi_subject :: string
  xi_created_at :: instant

record user_session =
  ss_id :: string
  ss_user_id :: string
  ss_tenant_id :: "string option"
  ss_auth_provider :: string
  ss_status :: string
  ss_token_version :: int
  ss_revoke_reason :: "string option"
  ss_revoked_at :: "instant option"
  ss_created_at :: instant

text \<open>The service reads tenants and members and does not write them.\<close>

record account_tables =
  ac_users :: "user_row list"
  ac_credentials :: "credential list"
  ac_identities :: "external_identity list"
  ac_sessions :: "user_session list"
  ac_tenants :: "tenant list"
  ac_members :: "tenant_member list"

type_synonym 'w account_state = "account_tables \<times> 'w"

text \<open>Audit entries of this app also name the authentication provider and the session.\<close>

record account_audit = audit_event +
  au_auth_provider :: "string option"
  au_session_id :: "string option"

record 'w account_env =
  ax_hasher :: hasher
  ax_publish :: "(string \<Rightarrow> string \<Rightarrow> string \<Rightarrow> string \<Rightarrow> (string \<times> pyval) list \<Rightarrow> ('w, unit) state_op) option"
  ax_audit :: "(account_audit \<Rightarrow> ('w, unit) state_op) option"

definition or_text :: "string option \<Rightarrow> string \<Rightarrow> string" where
  "or_text x d = (case x of Some (c # s) \<Rightarrow> c # s | _ \<Rightarrow> d)"

section \<open>Rows\<close>

definition user_of :: "account_tables \<Rightarrow> string \<Rightarrow> user_row option" where
  "user_of t i = find (\<lambda>u. us_id u = i) (ac_users t)"

definition user_by_email :: "account_tables \<Rightarrow> string \<Rightarrow> user_row option" where
  "user_by_email t e = find (\<lambda>u. us_email u = e) (ac_users t)"

definition credential_of :: "account_tables \<Rightarrow> string \<Rightarrow> credential option" where
  "credential_of t i = find (\<lambda>c. uc_user_id c = i) (ac_credentials t)"

definition session_of :: "account_tables \<Rightarrow> string \<Rightarrow> user_session option" where
  "session_of t i = find (\<lambda>s. ss_id s = i) (ac_sessions t)"

definition bound_identity :: "account_tables \<Rightarrow> string \<Rightarrow> string \<Rightarrow> external_identity option" where
  "bound_identity t provider subject = find (\<lambda>x. xi_provider x = provider \<and> xi_subject x = subject) (ac_identities t)"

definition get_user :: "string \<Rightarrow> account_tables \<Rightarrow> user_row result" where
  "get_user i t = (case user_of t i of
     None \<Rightarrow> Inl (app_error ''NOT_FOUND'' (''User '' @ repr_str i @ '' not found'') (Some 404) []) | Some u \<Rightarrow> Inr u)"

text \<open>Inserts that a flush sends; a broken constraint raises.\<close>

definition account_integrity_error :: exn where
  "account_integrity_error = PyError ''IntegrityError'' ''UNIQUE constraint failed''"

definition add_user :: "user_row \<Rightarrow> account_tables \<Rightarrow> account_tables \<times> unit result" where
  "add_user u t =
    (if \<exists>v \<in> set (ac_users t). us_id v = us_id u \<or> us_email v = us_email u then (t, Inl account_integrity_error)
     else (t\<lparr>ac_users := ac_users t @ [u]\<rparr>, Inr ()))"

definition add_credential :: "credential \<Rightarrow> account_tables \<Rightarrow> account_tables \<times> unit result" where
  "add_credential c t =
    (if credential_of t (uc_user_id c) \<noteq> None then (t, Inl account_integrity_error)
     else (t\<lparr>ac_credentials := ac_credentials t @ [c]\<rparr>, Inr ()))"

definition add_identity :: "external_identity \<Rightarrow> account_tables \<Rightarrow> account_tables \<times> unit result" where
  "add_identity i t =
    (if \<exists>j \<in> set (ac_identities t). xi_id j = xi_id i \<or> xi_provider j = xi_provider i \<and> xi_subject j = xi_subject i
     then (t, Inl account_integrity_error)
     else (t\<lparr>ac_identities := ac_identities t @ [i]\<rparr>, Inr ()))"

definition add_session :: "user_session \<Rightarrow> account_tables \<Rightarrow> account_tables \<times> unit result" where
  "add_session s t =
    (if session_of t (ss_id s) \<noteq> None then (t, Inl account_integrity_error)
     else (t\<lparr>ac_sessions := ac_sessions t @ [s]\<rparr>, Inr ()))"

definition change_user :: "string \<Rightarrow> (user_row \<Rightarrow> user_row) \<Rightarrow> account_tables \<Rightarrow> account_tables \<times> unit result" where
  "change_user i f t = (t\<lparr>ac_users := map (\<lambda>u. if us_id u = i then f u else u) (ac_users t)\<rparr>, Inr ())"

definition change_credential ::
  "string \<Rightarrow> (credential \<Rightarrow> credential) \<Rightarrow> account_tables \<Rightarrow> account_tables \<times> unit result" where
  "change_credential i f t =
     (t\<lparr>ac_credentials := map (\<lambda>c. if uc_user_id c = i then f c else c) (ac_credentials t)\<rparr>, Inr ())"

section \<open>Events and audit\<close>

definition publish_security_event ::
  "'w account_env \<Rightarrow> string \<Rightarrow> string \<Rightarrow> string \<Rightarrow> string option \<Rightarrow> string option \<Rightarrow> string option
    \<Rightarrow> (string \<times> pyval) list \<Rightarrow> ('w account_state, unit) state_op" where
  "publish_security_event env event_type aggregate_type aggregate_id tenant_id actor_id request_id payload =
    (case ax_publish env of
       None \<Rightarrow> sret (Inr ())
     | Some publish \<Rightarrow>
         let tenant = or_text tenant_id platform_tenant_id in
         on_world_of (publish event_type aggregate_type aggregate_id tenant
           ([(''tenant_id'', PStr tenant), (''actor_id'', PStr (or_text actor_id ''__anonymous__'')),
             (''request_id'', PStr (or_text request_id ''__none__''))] @ payload)))"

definition record_account_audit :: "'w account_env \<Rightarrow> account_audit \<Rightarrow> ('w account_state, unit) state_op" where
  "record_account_audit env e = (case ax_audit env of None \<Rightarrow> sret (Inr ()) | Some audit \<Rightarrow> on_world_of (audit e))"

definition auth_failure_reason :: "exn \<Rightarrow> string" where
  "auth_failure_reason e =
    (case e of AppError _ _ _ details \<Rightarrow> (case payload_value details ''reason'' of PStr (c # s) \<Rightarrow> c # s | _ \<Rightarrow> ''invalid_credentials'')
     | PyError _ _ \<Rightarrow> ''invalid_credentials'')"

definition record_failed_login ::
  "'w account_env \<Rightarrow> string \<Rightarrow> string option \<Rightarrow> string option \<Rightarrow> string \<Rightarrow> ('w account_state, unit) state_op" where
  "record_failed_login env email tenant_id request_id reason =
    sbind (record_account_audit env
      \<lparr>au_action = ''account.login_failed'', au_resource_type = ''account_login'', au_resource_id = Some email,
       au_result = ''denied'', au_tenant = tenant_id, au_actor = None, au_reason = Some reason, au_policy_version = None,
       au_request_id = request_id, au_payload = [(''email'', PStr email), (''reason'', PStr reason)],
       au_auth_provider = Some ''local'', au_session_id = None\<rparr>) (\<lambda>_.
    publish_security_event env ''account.login_failed'' ''account_login'' email tenant_id (Some ''__anonymous__'') request_id
      [(''email'', PStr email), (''auth_provider'', PStr ''local''), (''reason'', PStr reason)])"

definition session_event_payload :: "user_session \<Rightarrow> (string \<times> pyval) list" where
  "session_event_payload s =
    [(''session_id'', PStr (ss_id s)), (''user_id'', PStr (ss_user_id s)), (''auth_provider'', PStr (ss_auth_provider s)),
     (''token_version'', PInt (ss_token_version s))]"

definition record_session ::
  "'w account_env \<Rightarrow> string \<Rightarrow> string \<Rightarrow> user_session \<Rightarrow> string option \<Rightarrow> ('w account_state, unit) state_op" where
  "record_session env action event_type s request_id =
    sbind (record_account_audit env
      \<lparr>au_action = action, au_resource_type = ''user_session'', au_resource_id = Some (ss_id s), au_result = ''success'',
       au_tenant = ss_tenant_id s, au_actor = Some (ss_user_id s), au_reason = None, au_policy_version = None,
       au_request_id = request_id, au_payload = [(''token_version'', PInt (ss_token_version s))],
       au_auth_provider = Some (ss_auth_provider s), au_session_id = Some (ss_id s)\<rparr>) (\<lambda>_.
    publish_security_event env event_type ''user_session'' (ss_id s) (ss_tenant_id s) (Some (ss_user_id s)) request_id
      (session_event_payload s))"

section \<open>Users\<close>

definition validate_user_input :: "string \<Rightarrow> string \<Rightarrow> unit result" where
  "validate_user_input email display_name =
    (if email = [] \<or> CHR ''@'' \<notin> set email then Inl (validation_error ''valid email is required'')
     else if blank display_name then Inl (validation_error ''display_name is required'') else Inr ())"

definition create_user :: "string \<Rightarrow> string \<Rightarrow> string \<Rightarrow> ('w account_state, user_row) state_op" where
  "create_user i email display_name =
    (let e = lower (strip email);
         u = \<lparr>us_id = i, us_email = e, us_display_name = display_name, us_status = ''active'', us_token_version = 1\<rparr> in
     sbind (sret (validate_user_input e display_name)) (\<lambda>_. sbind (on_tables (add_user u)) (\<lambda>_. sret (Inr u))))"

definition create_local_user ::
  "'w account_env \<Rightarrow> string \<Rightarrow> string \<Rightarrow> instant \<Rightarrow> string \<Rightarrow> string \<Rightarrow> string \<Rightarrow> ('w account_state, user_row) state_op" where
  "create_local_user env i salt now email display_name password =
    sbind (create_user i (lower (strip email)) display_name) (\<lambda>u.
    sbind (sret (hash_password (ax_hasher env) salt password)) (\<lambda>h.
    sbind (on_tables (add_credential \<lparr>uc_user_id = us_id u, uc_password_hash = h, uc_updated_at = now\<rparr>)) (\<lambda>_.
    sret (Inr u))))"

definition verify_local_password :: "'w account_env \<Rightarrow> string \<Rightarrow> string \<Rightarrow> account_tables \<Rightarrow> user_row result" where
  "verify_local_password env email password t =
    (case user_by_email t (lower (strip email)) of
       None \<Rightarrow> Inl (invalid_auth_token ''invalid_credentials'')
     | Some u \<Rightarrow>
         if us_status u \<noteq> ''active'' then Inl (invalid_auth_token ''user_not_active'')
         else (case credential_of t (us_id u) of
             None \<Rightarrow> Inl (invalid_auth_token ''missing_credentials'')
           | Some c \<Rightarrow> rbind (verify_password (ax_hasher env) password (uc_password_hash c)) (\<lambda>same.
               if same then Inr u else Inl (invalid_auth_token ''invalid_credentials''))))"

definition update_profile :: "string \<Rightarrow> string \<Rightarrow> ('w account_state, user_row) state_op" where
  "update_profile i display_name =
    sbind (reads (get_user i)) (\<lambda>u.
    if blank display_name then sret (Inl (validation_error ''display_name is required''))
    else sbind (on_tables (change_user i (\<lambda>v. v\<lparr>us_display_name := strip display_name\<rparr>))) (\<lambda>_.
      sret (Inr (u\<lparr>us_display_name := strip display_name\<rparr>))))"

definition reset_local_password ::
  "'w account_env \<Rightarrow> string \<Rightarrow> instant \<Rightarrow> string \<Rightarrow> string \<Rightarrow> string \<Rightarrow> ('w account_state, unit) state_op" where
  "reset_local_password env salt now i current_password new_password =
    sbind (reads (get_user i)) (\<lambda>u.
    sbind (reads (\<lambda>t. Inr (credential_of t (us_id u)))) (\<lambda>oc.
    case oc of
      None \<Rightarrow> sret (Inl (invalid_auth_token ''missing_credentials''))
    | Some c \<Rightarrow>
        sbind (sret (verify_password (ax_hasher env) current_password (uc_password_hash c))) (\<lambda>same.
        if \<not> same then sret (Inl (invalid_auth_token ''invalid_credentials''))
        else sbind (sret (hash_password (ax_hasher env) salt new_password)) (\<lambda>h.
          on_tables (change_credential (us_id u) (\<lambda>d. d\<lparr>uc_password_hash := h, uc_updated_at := now\<rparr>))))))"

section \<open>External identities\<close>

definition bind_external_identity ::
  "string \<Rightarrow> instant \<Rightarrow> string \<Rightarrow> string \<Rightarrow> string \<Rightarrow> ('w account_state, external_identity) state_op" where
  "bind_external_identity fresh now i provider subject =
    sbind (reads (get_user i)) (\<lambda>u.
    let p = strip provider; s = strip subject in
    if p = [] \<or> s = [] then sret (Inl (validation_error ''external identity provider and subject are required''))
    else sbind (reads (\<lambda>t. Inr (bound_identity t p s))) (\<lambda>existing.
      case existing of
        Some x \<Rightarrow> if xi_user_id x = us_id u then sret (Inr x)
                  else sret (Inl (app_error ''CONFLICT'' ''External identity is already bound to another user'' (Some 409) []))
      | None \<Rightarrow>
          let x = \<lparr>xi_id = fresh, xi_user_id = us_id u, xi_provider = p, xi_subject = s, xi_created_at = now\<rparr> in
          sbind (on_tables (add_identity x)) (\<lambda>_. sret (Inr x))))"

definition user_for_external_identity :: "string \<Rightarrow> string \<Rightarrow> account_tables \<Rightarrow> user_row result" where
  "user_for_external_identity provider subject t =
    (if blank provider \<or> blank subject then Inl (invalid_auth_token ''missing_external_identity'')
     else case bound_identity t (strip provider) (strip subject) of
         None \<Rightarrow> Inl (invalid_auth_token ''external_identity_not_bound'')
       | Some x \<Rightarrow> get_user (xi_user_id x) t)"

definition list_external_identities :: "string \<Rightarrow> account_tables \<Rightarrow> external_identity list result" where
  "list_external_identities i t =
    rbind (get_user i t) (\<lambda>_. Inr (sort_key xi_created_at (filter (\<lambda>x. xi_user_id x = i) (ac_identities t))))"

section \<open>Sessions\<close>

definition tenant_access_denied :: "string \<Rightarrow> (string \<times> pyval) list \<Rightarrow> exn" where
  "tenant_access_denied m details = app_error ''TENANT_ACCESS_DENIED'' m (Some 403) details"

definition active_membership :: "account_tables \<Rightarrow> string \<Rightarrow> string \<Rightarrow> tenant_member option" where
  "active_membership t tenant_id i =
     find (\<lambda>m. tm_tenant_id m = tenant_id \<and> tm_user_id m = i \<and> tm_status m = ''active'') (ac_members t)"

definition assert_tenant_login_allowed :: "string \<Rightarrow> string \<Rightarrow> account_tables \<Rightarrow> unit result" where
  "assert_tenant_login_allowed i tenant_id t =
    (case find (\<lambda>n. tn_id n = tenant_id) (ac_tenants t) of
       None \<Rightarrow> Inl (tenant_access_denied ''tenant membership is required to create a session'' [(''tenant_id'', PStr tenant_id)])
     | Some n \<Rightarrow>
         if active_membership t tenant_id i = None
         then Inl (tenant_access_denied ''active tenant membership is required to create a session''
           [(''tenant_id'', PStr tenant_id), (''user_id'', PStr i)])
         else assert_tenant_operation_allowed tenant_id (tn_status n) Login None)"

definition create_session ::
  "'w account_env \<Rightarrow> string \<Rightarrow> instant \<Rightarrow> string \<Rightarrow> string option \<Rightarrow> string \<Rightarrow> string option
    \<Rightarrow> ('w account_state, user_session) state_op" where
  "create_session env fresh now i tenant_id auth_provider request_id =
    sbind (reads (get_user i)) (\<lambda>u.
    if us_status u \<noteq> ''active'' then sret (Inl (app_error ''USER_DISABLED'' ''disabled users cannot create sessions'' (Some 403) []))
    else sbind (reads (\<lambda>t. case tenant_id of None \<Rightarrow> Inr () | Some n \<Rightarrow> assert_tenant_login_allowed (us_id u) n t)) (\<lambda>_.
    let s = \<lparr>ss_id = fresh, ss_user_id = us_id u, ss_tenant_id = tenant_id, ss_auth_provider = auth_provider,
          ss_status = ''active'', ss_token_version = us_token_version u, ss_revoke_reason = None, ss_revoked_at = None,
          ss_created_at = now\<rparr> in
    sbind (on_tables (add_session s)) (\<lambda>_.
    sbind (record_session env ''session.created'' ''account.session_created'' s request_id) (\<lambda>_. sret (Inr s)))))"

text \<open>A failed login is recorded and the error goes on; when recording raises, that error does.\<close>

definition authenticate_local_login ::
  "'w account_env \<Rightarrow> string \<Rightarrow> instant \<Rightarrow> string \<Rightarrow> string \<Rightarrow> string option \<Rightarrow> string option
    \<Rightarrow> ('w account_state, user_session) state_op" where
  "authenticate_local_login env fresh now email password tenant_id request_id x =
    (let e = lower (strip email) in
     case sbind (reads (verify_local_password env e password)) (\<lambda>u.
            create_session env fresh now (us_id u) tenant_id ''local'' request_id) x of
       (y, Inr s) \<Rightarrow> (y, Inr s)
     | (y, Inl er) \<Rightarrow>
         if exn_code er = Some ''AUTH_INVALID_TOKEN''
         then sbind (record_failed_login env e tenant_id request_id (auth_failure_reason er)) (\<lambda>_. sret (Inl er)) y
         else (y, Inl er))"

definition authenticate_external_login ::
  "'w account_env \<Rightarrow> string \<Rightarrow> instant \<Rightarrow> string \<Rightarrow> string \<Rightarrow> string option \<Rightarrow> string option
    \<Rightarrow> ('w account_state, user_session) state_op" where
  "authenticate_external_login env fresh now provider subject tenant_id request_id =
    sbind (reads (user_for_external_identity provider subject)) (\<lambda>u.
      create_session env fresh now (us_id u) tenant_id (strip provider) request_id)"

text \<open>The claims a session stands for, and the check of a token that is refreshed.\<close>

definition refreshed_claims :: "token_claims \<Rightarrow> account_tables \<Rightarrow> token_claims result" where
  "refreshed_claims k t =
    (case session_of t (tk_session_id k) of
       None \<Rightarrow> Inl (invalid_auth_token ''session_not_found'')
     | Some s \<Rightarrow> rbind (get_user (ss_user_id s) t) (\<lambda>u.
         rbind (refuse_first
           [(ss_user_id s \<noteq> tk_user_id k, ''user_mismatch''), (ss_auth_provider s \<noteq> tk_provider k, ''provider_mismatch''),
            (ss_status s \<noteq> ''active'', ''session_not_active''), (us_status u \<noteq> ''active'', ''user_not_active''),
            (us_token_version u \<noteq> tk_token_version k, ''token_version_mismatch''),
            (ss_token_version s \<noteq> tk_token_version k, ''session_token_version_mismatch''),
            (ss_tenant_id s \<noteq> tk_tenant_id k, ''tenant_mismatch'')]) (\<lambda>_.
         Inr \<lparr>tk_user_id = us_id u, tk_session_id = ss_id s, tk_provider = ss_auth_provider s,
              tk_token_version = us_token_version u, tk_tenant_id = ss_tenant_id s\<rparr>)))"

definition refresh_session_token ::
  "'w account_env \<Rightarrow> token_claims \<Rightarrow> string option \<Rightarrow> ('w account_state, token_claims) state_op" where
  "refresh_session_token env k request_id =
    sbind (reads (refreshed_claims k)) (\<lambda>r.
    sbind (reads (\<lambda>t. case session_of t (tk_session_id r) of
        None \<Rightarrow> Inl (invalid_auth_token ''session_not_found'') | Some s \<Rightarrow> Inr s)) (\<lambda>s.
    sbind (record_session env ''session.refreshed'' ''account.session_refreshed''
      (s\<lparr>ss_token_version := tk_token_version r\<rparr>) request_id) (\<lambda>_. sret (Inr r))))"

definition list_user_sessions :: "string \<Rightarrow> account_tables \<Rightarrow> user_session list result" where
  "list_user_sessions i t =
    rbind (get_user i t) (\<lambda>_. Inr (sort_key ss_created_at (filter (\<lambda>s. ss_user_id s = i) (ac_sessions t))))"

section \<open>Revocation\<close>

definition active_sessions :: "string option \<Rightarrow> string option \<Rightarrow> account_tables \<Rightarrow> user_session list" where
  "active_sessions user_id tenant_id t =
     filter (\<lambda>s. ss_status s = ''active'' \<and> (case user_id of None \<Rightarrow> True | Some i \<Rightarrow> ss_user_id s = i) \<and>
       (case tenant_id of None \<Rightarrow> True | Some n \<Rightarrow> ss_tenant_id s = Some n)) (ac_sessions t)"

definition revoked :: "string \<Rightarrow> instant \<Rightarrow> user_session \<Rightarrow> user_session" where
  "revoked reason now s = s\<lparr>ss_status := ''revoked'', ss_revoke_reason := Some reason, ss_revoked_at := Some now\<rparr>"

definition mark_revoked ::
  "user_session list \<Rightarrow> string \<Rightarrow> instant \<Rightarrow> account_tables \<Rightarrow> account_tables \<times> unit result" where
  "mark_revoked ss reason now t =
     (t\<lparr>ac_sessions := map (\<lambda>s. if s \<in> set ss then revoked reason now s else s) (ac_sessions t)\<rparr>, Inr ())"

definition revoke_active ::
  "string option \<Rightarrow> string option \<Rightarrow> string \<Rightarrow> instant \<Rightarrow> ('w account_state, int) state_op" where
  "revoke_active user_id tenant_id reason now =
    sbind (reads (\<lambda>t. Inr (active_sessions user_id tenant_id t))) (\<lambda>ss.
    sbind (on_tables (mark_revoked ss reason now)) (\<lambda>_. sret (Inr (int (length ss)))))"

definition revoke_own_session :: "string \<Rightarrow> string \<Rightarrow> string \<Rightarrow> instant \<Rightarrow> ('w account_state, int) state_op" where
  "revoke_own_session i session_id reason now =
    sbind (reads (\<lambda>t. Inr (session_of t session_id))) (\<lambda>os.
    let not_found = sret (Inl (app_error ''NOT_FOUND'' ''User session not found'' (Some 404) [])) in
    case os of
      None \<Rightarrow> not_found
    | Some s \<Rightarrow>
        if ss_user_id s \<noteq> i then not_found
        else if ss_status s \<noteq> ''active'' then sret (Inr 0)
        else sbind (on_tables (mark_revoked [s] reason now)) (\<lambda>_. sret (Inr 1)))"

record account_caller =
  ak_actor_id :: "string option"
  ak_request_id :: "string option"
  ak_decision :: "decision option"

definition assert_accounts_mutation ::
  "account_caller \<Rightarrow> string \<Rightarrow> string \<Rightarrow> string \<Rightarrow> unit result" where
  "assert_accounts_mutation c resource mutation operation =
     assert_authorization_decision (ak_decision c) platform_tenant_id (or_text (ak_actor_id c) [])
       resource [''manage'', mutation] operation False"

definition admin_audit ::
  "string \<Rightarrow> string \<Rightarrow> string \<Rightarrow> account_caller \<Rightarrow> string \<Rightarrow> (string \<times> pyval) list \<Rightarrow> account_audit" where
  "admin_audit action resource_type resource_id c reason payload =
     \<lparr>au_action = action, au_resource_type = resource_type, au_resource_id = Some resource_id, au_result = ''success'',
      au_tenant = None, au_actor = ak_actor_id c, au_reason = Some reason, au_policy_version = None,
      au_request_id = ak_request_id c, au_payload = payload, au_auth_provider = None, au_session_id = None\<rparr>"

definition disabled :: "user_row \<Rightarrow> user_row" where
  "disabled u = (if us_status u = ''disabled'' then u
     else u\<lparr>us_status := ''disabled'', us_token_version := us_token_version u + 1\<rparr>)"

definition disable_user ::
  "'w account_env \<Rightarrow> instant \<Rightarrow> string \<Rightarrow> string \<Rightarrow> account_caller \<Rightarrow> ('w account_state, user_row) state_op" where
  "disable_user env now i reason c =
    sbind (sret (assert_accounts_mutation c ''user'' ''disable'' ''User disable'')) (\<lambda>_.
    sbind (reads (get_user i)) (\<lambda>u.
    sbind (on_tables (change_user i disabled)) (\<lambda>_.
    sbind (revoke_active (Some i) None reason now) (\<lambda>n.
    let v = us_token_version (disabled u) in
    sbind (record_account_audit env (admin_audit ''user.disabled'' ''user'' (us_id u) c reason
      [(''revoked_sessions'', PInt n), (''token_version'', PInt v)])) (\<lambda>_.
    sbind (publish_security_event env ''account.user_disabled'' ''user'' (us_id u) None (ak_actor_id c) (ak_request_id c)
      [(''user_id'', PStr (us_id u)), (''reason'', PStr reason), (''revoked_sessions'', PInt n), (''token_version'', PInt v)]) (\<lambda>_.
    sret (Inr (disabled u))))))))"

definition revoke_user_sessions ::
  "'w account_env \<Rightarrow> instant \<Rightarrow> string \<Rightarrow> string \<Rightarrow> account_caller \<Rightarrow> ('w account_state, int) state_op" where
  "revoke_user_sessions env now i reason c =
    sbind (sret (assert_accounts_mutation c ''session'' ''revoke'' ''Session revoke'')) (\<lambda>_.
    sbind (revoke_active (Some i) None reason now) (\<lambda>n.
    sbind (record_account_audit env (admin_audit ''session.revoked'' ''user_session'' i c reason
      [(''scope'', PStr ''user''), (''revoked_sessions'', PInt n)])) (\<lambda>_.
    sbind (publish_security_event env ''account.session_revoked'' ''user_session'' i None (ak_actor_id c) (ak_request_id c)
      [(''scope'', PStr ''user''), (''user_id'', PStr i), (''reason'', PStr reason), (''revoked_sessions'', PInt n)]) (\<lambda>_.
    sret (Inr n)))))"

definition revoke_tenant_sessions ::
  "'w account_env \<Rightarrow> instant \<Rightarrow> string \<Rightarrow> string \<Rightarrow> account_caller \<Rightarrow> ('w account_state, int) state_op" where
  "revoke_tenant_sessions env now tenant_id reason c =
    sbind (sret (assert_accounts_mutation c ''session'' ''revoke'' ''Session revoke'')) (\<lambda>_.
    sbind (revoke_active None (Some tenant_id) reason now) (\<lambda>n.
    sbind (record_account_audit env (admin_audit ''session.revoked'' ''tenant_session'' tenant_id c reason
      [(''scope'', PStr ''tenant''), (''revoked_sessions'', PInt n)])) (\<lambda>_.
    sbind (publish_security_event env ''account.session_revoked'' ''tenant_session'' tenant_id (Some tenant_id)
      (ak_actor_id c) (ak_request_id c)
      [(''scope'', PStr ''tenant''), (''reason'', PStr reason), (''revoked_sessions'', PInt n)]) (\<lambda>_.
    sret (Inr n)))))"

definition revoke_for_lifecycle :: "instant \<Rightarrow> string \<Rightarrow> string \<Rightarrow> ('w account_state, int) state_op" where
  "revoke_for_lifecycle now tenant_id reason = revoke_active None (Some tenant_id) reason now"

section \<open>The session store\<close>

definition load_principal :: "account_tables \<Rightarrow> string \<Rightarrow> session_principal option" where
  "load_principal t session_id =
    (case session_of t session_id of
       None \<Rightarrow> None
     | Some s \<Rightarrow> (case user_of t (ss_user_id s) of
         None \<Rightarrow> None
       | Some u \<Rightarrow> Some \<lparr>pn_user_id = us_id u, pn_email = us_email u, pn_display_name = us_display_name u,
           pn_provider = ss_auth_provider s, pn_session_id = ss_id s, pn_session_status = ss_status s,
           pn_user_status = us_status u, pn_session_token_version = ss_token_version s,
           pn_user_token_version = us_token_version u, pn_tenant_id = ss_tenant_id s\<rparr>))"

end
