(* ===== verification/Route_Security.thy ===== *)
theory Route_Security
  imports Accounts Tenant_Resolver
begin

text \<open>
  What stands before a route: the security policy a router declares and the dependency that enforces it
  (\<open>core/base/routers.py\<close>), the pipeline that authenticates a request, selects its tenant and authorizes
  its permissions (\<open>core/auth/request_security.py\<close>), and the access context the decisions are appended to
  (\<open>core/permissions/context.py\<close>).

  The state of a request is its two context variables. The policy backend is an argument; the audit of
  denials is committed only when the error that ends authorization is a denial.
\<close>

section \<open>Policies\<close>

record route_policy =
  rp_public :: bool
  rp_auth_required :: bool
  rp_tenant_required :: bool
  rp_permissions :: "string list"
  rp_scope :: "string option"
  rp_operation :: tenant_operation

definition build_route_policy ::
  "bool \<Rightarrow> bool \<Rightarrow> bool \<Rightarrow> string list \<Rightarrow> string option \<Rightarrow> tenant_operation \<Rightarrow> route_policy result" where
  "build_route_policy public auth_required tenant_required permissions scope oper =
    (if scope \<noteq> None \<and> scope \<notin> {Some ''tenant'', Some ''platform''}
     then Inl (value_error ''permission_scope must be tenant or platform'')
     else if public then
       (if permissions \<noteq> [] then Inl (value_error ''public routers cannot declare permissions'')
        else if scope \<noteq> None then Inl (value_error ''public routers cannot declare permission_scope'')
        else Inr \<lparr>rp_public = True, rp_auth_required = False, rp_tenant_required = False, rp_permissions = [],
               rp_scope = None, rp_operation = oper\<rparr>)
     else Inr \<lparr>rp_public = False, rp_auth_required = auth_required, rp_tenant_required = tenant_required,
            rp_permissions = permissions,
            rp_scope = (if permissions = [] then None else case scope of None \<Rightarrow> Some ''tenant'' | Some s \<Rightarrow> Some s),
            rp_operation = oper\<rparr>)"

definition parse_route_permission :: "string \<Rightarrow> (string \<times> string) result" where
  "parse_route_permission permission =
    (case rpartition_colon permission of
       Some (resource, action) \<Rightarrow>
         if blank resource \<or> blank action
         then Inl (app_error ''VALIDATION_ERROR'' ''Route permission must use resource:action format'' (Some 400)
           [(''permission'', PStr permission)])
         else Inr (resource, action)
     | None \<Rightarrow> Inl (app_error ''VALIDATION_ERROR'' ''Route permission must use resource:action format'' (Some 400)
         [(''permission'', PStr permission)]))"

section \<open>The request\<close>

record access_context =
  xa_request_id :: string
  xa_user_id :: string
  xa_tenant_id :: "string option"
  xa_decisions :: "decision list"

record request_state =
  rq_context :: "request_context option"
  rq_access :: "access_context option"

definition append_access_decisions :: "decision list \<Rightarrow> request_state \<Rightarrow> request_state" where
  "append_access_decisions ds q =
    (case rq_access q of None \<Rightarrow> q | Some a \<Rightarrow> q\<lparr>rq_access := Some (a\<lparr>xa_decisions := xa_decisions a @ ds\<rparr>)\<rparr>)"

definition current_access :: "request_state \<Rightarrow> access_context result" where
  "current_access q = (case rq_access q of
     None \<Rightarrow> Inl (app_error ''AUTH_INVALID_TOKEN'' ''Access context is required'' (Some 401) []) | Some a \<Rightarrow> Inr a)"

definition bearer_token :: "string option \<Rightarrow> string result" where
  "bearer_token authorization =
    (case authorization of
       None \<Rightarrow> Inl (invalid_auth_token ''missing_bearer_token'')
     | Some h \<Rightarrow>
         (case dropWhile (\<lambda>c. c \<noteq> CHR '' '') h of
            [] \<Rightarrow> Inl (invalid_auth_token ''invalid_authorization_header'')
          | _ # token \<Rightarrow>
              if lower (takeWhile (\<lambda>c. c \<noteq> CHR '' '') h) \<noteq> ''bearer'' \<or> blank token
              then Inl (invalid_auth_token ''invalid_authorization_header'') else Inr (strip token)))"

definition requires_tenant_resolution :: "route_policy \<Rightarrow> bool" where
  "requires_tenant_resolution p \<longleftrightarrow> rp_tenant_required p \<or> rp_permissions p \<noteq> [] \<and> rp_scope p \<noteq> Some ''platform''"

definition bind_authenticated_user :: "string \<Rightarrow> string option \<Rightarrow> request_state \<Rightarrow> request_state \<times> unit result" where
  "bind_authenticated_user user_id tenant_id q =
    (case rq_context q of
       None \<Rightarrow> (q, Inr ())
     | Some c \<Rightarrow>
         (case rbind (with_user c user_id) (\<lambda>d. case tenant_id of None \<Rightarrow> Inr d | Some t \<Rightarrow> with_tenant d t) of
            Inl e \<Rightarrow> (q, Inl e)
          | Inr d \<Rightarrow> (q\<lparr>rq_context := Some (freeze d)\<rparr>, Inr ())))"

definition bind_access_context :: "request_state \<Rightarrow> request_state" where
  "bind_access_context q =
    (case rq_context q of
       None \<Rightarrow> q
     | Some c \<Rightarrow>
         if present (rx_user_id c)
         then q\<lparr>rq_access := Some \<lparr>xa_request_id = rx_request_id c, xa_user_id = the (rx_user_id c),
             xa_tenant_id = rx_tenant_id c, xa_decisions = []\<rparr>\<rparr>
         else q)"

section \<open>The pipeline\<close>

record pipeline =
  pl_codec :: codec
  pl_jwt :: jwt_config
  pl_lifecycle_policy :: "lifecycle_policy option"
  pl_sinks :: sinks

record request_headers =
  hd_authorization :: "string option"
  hd_tenant :: "string option"

definition pipeline_resolve ::
  "pipeline \<Rightarrow> account_tables \<Rightarrow> instant \<Rightarrow> request_headers \<Rightarrow> route_policy \<Rightarrow> (request_state, unit) state_op" where
  "pipeline_resolve pl t now h p q =
    (if \<not> (rp_auth_required p \<or> rp_tenant_required p \<or> rp_permissions p \<noteq> []) then (q, Inr ())
     else case rbind (bearer_token (hd_authorization h)) (\<lambda>token.
            rbind (verify_token (pl_codec pl) (pl_jwt pl) token now) (\<lambda>k.
            rbind (authenticate (load_principal t) k) (\<lambda>u. Inr (k, u)))) of
         Inl e \<Rightarrow> (q, Inl e)
       | Inr (k, u) \<Rightarrow>
           if requires_tenant_resolution p
           then (case resolve_database_tenant (ac_tenants t) (ac_members t) (pl_lifecycle_policy pl) (cu_id u)
                     (cu_tenant_id u) (tk_tenant_id k) (hd_tenant h) (rp_operation p) False (rq_context q) of
                   (c, Inl e) \<Rightarrow> (q\<lparr>rq_context := c\<rparr>, Inl e)
                 | (c, Inr _) \<Rightarrow> (bind_access_context (q\<lparr>rq_context := c\<rparr>), Inr ()))
           else (case bind_authenticated_user (cu_id u) (cu_tenant_id u) q of
                   (q', Inl e) \<Rightarrow> (q', Inl e)
                 | (q', Inr _) \<Rightarrow> (bind_access_context q', Inr ())))"

fun authorize_permissions ::
  "'s policy_backend \<Rightarrow> sinks \<Rightarrow> request_context \<Rightarrow> string option \<Rightarrow> string list \<Rightarrow> 's
    \<Rightarrow> 's \<times> effect list \<times> decision list result" where
  "authorize_permissions backend k c scope [] s = (s, [], Inr [])"
| "authorize_permissions backend k c scope (p # ps) s =
    (case parse_route_permission p of
       Inl e \<Rightarrow> (s, [], Inl e)
     | Inr (resource, action) \<Rightarrow>
         let user = the (rx_user_id c); req = Some (rx_request_id c) in
         if scope \<noteq> Some ''platform'' \<and> \<not> present (rx_tenant_id c)
         then (s, [], Inl (app_error ''TENANT_ACCESS_DENIED'' ''Tenant context is required before permission authorization'' (Some 403) []))
         else (case (if scope = Some ''platform'' then require_platform backend k user resource action None req s
                     else require_authorization backend k user (the (rx_tenant_id c)) resource action None req s) of
            (s1, e1, Inl e) \<Rightarrow> (s1, e1, Inl e)
          | (s1, e1, Inr d) \<Rightarrow>
              (case authorize_permissions backend k c scope ps s1 of
                 (s2, e2, Inl e) \<Rightarrow> (s2, e1 @ e2, Inl e)
               | (s2, e2, Inr ds) \<Rightarrow> (s2, e1 @ e2, Inr (d # ds)))))"

text \<open>The session closes without a commit, except after a denial.\<close>

definition pipeline_authorize ::
  "'s policy_backend \<Rightarrow> sinks \<Rightarrow> route_policy \<Rightarrow> request_state \<Rightarrow> 's
    \<Rightarrow> request_state \<times> 's \<times> effect list \<times> decision list result" where
  "pipeline_authorize backend k p q s =
    (if rp_permissions p = [] then (q, s, [], Inr [])
     else let no_user = (q, s, [], Inl (app_error ''AUTH_INVALID_TOKEN''
            ''Authenticated user is required before permission authorization'' (Some 401) [])) in
     case rq_context q of
       None \<Rightarrow> no_user
     | Some c \<Rightarrow>
         if \<not> present (rx_user_id c) then no_user
         else (case authorize_permissions backend k c (rp_scope p) (rp_permissions p) s of
            (s', eff, Inl e) \<Rightarrow> (q, s', if exn_code e = Some ''PERMISSION_DENIED'' then eff else [], Inl e)
          | (s', eff, Inr ds) \<Rightarrow> (append_access_decisions ds q, s', [], Inr ds)))"

section \<open>The dependency of a router\<close>

definition enforce_route_security ::
  "route_policy \<Rightarrow> (route_policy \<Rightarrow> request_state \<Rightarrow> 's \<Rightarrow> request_state \<times> 's \<times> effect list \<times> decision list result) option
    \<Rightarrow> request_state \<Rightarrow> 's \<Rightarrow> request_state \<times> 's \<times> effect list \<times> decision list option result" where
  "enforce_route_security p authorizer q s =
    (let user = (case rq_context q of None \<Rightarrow> None | Some c \<Rightarrow> rx_user_id c);
         tenant = (case rq_context q of None \<Rightarrow> None | Some c \<Rightarrow> rx_tenant_id c) in
     if rp_public p then (q, s, [], Inr None)
     else if rp_auth_required p \<and> \<not> present user
     then (q, s, [], Inl (app_error ''AUTH_INVALID_TOKEN'' ''Authentication is required'' (Some 401) []))
     else if rp_tenant_required p \<and> \<not> present tenant
     then (q, s, [], Inl (app_error ''TENANT_ACCESS_DENIED'' ''Tenant context is required'' (Some 403) []))
     else if rp_permissions p = [] then (q, s, [], Inr None)
     else case authorizer of
       None \<Rightarrow> (q, s, [], Inl (app_error ''PERMISSION_DENIED'' ''Route permissions require an authorizer'' (Some 403)
         [(''permissions'', PList (map PStr (rp_permissions p)))]))
     | Some a \<Rightarrow> (case a p q s of (q', s', eff, r) \<Rightarrow> (q', s', eff, rbind r (\<lambda>ds. Inr (Some ds)))))"

definition route_dependency ::
  "(route_policy \<Rightarrow> (request_state, unit) state_op) option
    \<Rightarrow> (route_policy \<Rightarrow> request_state \<Rightarrow> 's \<Rightarrow> request_state \<times> 's \<times> effect list \<times> decision list result) option
    \<Rightarrow> route_policy \<Rightarrow> request_state \<Rightarrow> 's \<Rightarrow> request_state \<times> 's \<times> effect list \<times> decision list option result" where
  "route_dependency resolver authorizer p q s =
    (case (case resolver of None \<Rightarrow> (q, Inr ()) | Some r \<Rightarrow> if rp_public p then (q, Inr ()) else r p q) of
       (q', Inl e) \<Rightarrow> (q', s, [], Inl e)
     | (q', Inr _) \<Rightarrow> enforce_route_security p authorizer q' s)"

text \<open>An application with the pipeline: \<open>app.state\<close> holds its two methods.\<close>

definition secured_route ::
  "pipeline \<Rightarrow> 's policy_backend \<Rightarrow> account_tables \<Rightarrow> instant \<Rightarrow> request_headers \<Rightarrow> route_policy \<Rightarrow> request_state \<Rightarrow> 's
    \<Rightarrow> request_state \<times> 's \<times> effect list \<times> decision list option result" where
  "secured_route pl backend t now h =
     route_dependency (Some (pipeline_resolve pl t now h)) (Some (pipeline_authorize backend (pl_sinks pl)))"

end
