(* ===== verification/Account_Routes.thy ===== *)
theory Account_Routes
  imports Route_Security Settings
begin

text \<open>
  The routes of the accounts app (\<open>platform_apps/accounts/router.py\<close>): each opens a unit of work, calls
  the service and reads its result; login, refresh and the callback of an external provider issue a token.

  A unit of work commits what returned and rolls back what raised (\<open>Unit_Of_Work\<close>), so a route
  is the operation with its state restored on an error. The service of a route has a publisher and no
  audit recorder. \<open>app\<close> is what the routes read of \<open>app.state\<close>; the states of external logins are kept
  there, outside the unit.
\<close>

section \<open>The application\<close>

record 'w oidc_adapter =
  oa_config :: oidc_config
  oa_client :: "(oidc_config \<Rightarrow> string \<Rightarrow> ('w, string) state_op) option"
  oa_verifier :: "(oidc_config \<Rightarrow> string \<Rightarrow> string \<Rightarrow> oidc_claims result) option"

record 'w account_app =
  ap_codec :: codec
  ap_jwt_secret :: string
  ap_digest :: "string \<Rightarrow> string \<Rightarrow> int \<Rightarrow> string result"
  ap_publish :: "string \<Rightarrow> string \<Rightarrow> string \<Rightarrow> string \<Rightarrow> (string \<times> pyval) list \<Rightarrow> ('w, unit) state_op"
  ap_settings :: "setting_registry option"
  ap_providers :: "string \<rightharpoonup> 'w oidc_adapter"

definition password_hasher :: "'w account_app \<Rightarrow> int \<Rightarrow> hasher result" where
  "password_hasher app min_length =
     new_hasher \<lparr>ph_iterations = 260000, ph_salt_bytes = 16, ph_min_length = min_length, ph_digest = ap_digest app\<rparr>"

definition accounts :: "'w account_app \<Rightarrow> hasher \<Rightarrow> 'w account_env" where
  "accounts app h = \<lparr>ax_hasher = h, ax_publish = Some (ap_publish app), ax_audit = None\<rparr>"

definition default_accounts :: "'w account_app \<Rightarrow> 'w account_env result" where
  "default_accounts app = rbind (password_hasher app 8) (\<lambda>h. Inr (accounts app h))"

text \<open>\<open>int(value)\<close> of a resolved setting: a float is cut off towards zero.\<close>

fun int_of_value :: "pyval \<Rightarrow> int result" where
  "int_of_value (PInt n) = Inr n"
| "int_of_value (PBool b) = Inr (if b then 1 else 0)"
| "int_of_value (PFloat m e) =
     Inr (if 0 \<le> e then m * 2 ^ nat e else if 0 \<le> m then m div 2 ^ nat (- e) else - ((- m) div 2 ^ nat (- e)))"
| "int_of_value (PStr s) = py_int s"
| "int_of_value v = Inl (PyError ''TypeError''
     (''int() argument must be a string, a bytes-like object or a real number, not '' @
       (case v of PNone \<Rightarrow> repr_str ''NoneType'' | PList _ \<Rightarrow> repr_str ''list'' | _ \<Rightarrow> repr_str ''dict'')))"

text \<open>The policy of the platform for new passwords, from its settings.\<close>

definition runtime_accounts :: "'w account_app \<Rightarrow> setting_tables \<Rightarrow> 'w account_env result" where
  "runtime_accounts app tabs =
    (case ap_settings app of
       None \<Rightarrow> default_accounts app
     | Some reg \<Rightarrow>
         if \<not> has_setting reg ''auth'' ''password_min_length'' then default_accounts app
         else rbind (resolve_setting reg ''auth'' ''password_min_length'' None tabs) (\<lambda>r.
           rbind (int_of_value (rv_value r)) (\<lambda>n. rbind (password_hasher app n) (\<lambda>h. Inr (accounts app h)))))"

section \<open>Requests\<close>

record route_request =
  rr_authorization :: "string option"
  rr_context :: "request_context option"
  rr_decision :: "decision option"

definition request_user :: "route_request \<Rightarrow> string result" where
  "request_user rq =
    (case rr_context rq of
       Some c \<Rightarrow> (case rx_user_id c of
           Some (a # u) \<Rightarrow> Inr (a # u)
         | _ \<Rightarrow> Inl (app_error ''AUTH_INVALID_TOKEN'' ''Authenticated user is required'' (Some 401) []))
     | None \<Rightarrow> Inl (app_error ''AUTH_INVALID_TOKEN'' ''Authenticated user is required'' (Some 401) []))"

definition route_request_id :: "route_request \<Rightarrow> string option" where
  "route_request_id rq = map_option rx_request_id (rr_context rq)"

definition route_jwt :: "'w account_app \<Rightarrow> jwt_config result" where
  "route_jwt app = new_jwt_config
     \<lparr>jw_secret = ap_jwt_secret app, jw_issuer = ''service-core'', jw_audience = ''service-api'', jw_ttl = 3600\<rparr>"

definition request_claims :: "'w account_app \<Rightarrow> instant \<Rightarrow> route_request \<Rightarrow> token_claims result" where
  "request_claims app now rq =
    (let h = or_text (rr_authorization rq) [];
         scheme = takeWhile (\<lambda>c. c \<noteq> CHR '' '') h; token = drop 1 (dropWhile (\<lambda>c. c \<noteq> CHR '' '') h) in
     if lower scheme \<noteq> ''bearer'' \<or> blank token then Inl (invalid_auth_token ''invalid_authorization_header'')
     else rbind (route_jwt app) (\<lambda>c. verify_token (ap_codec app) c (strip token) now))"

section \<open>Answers\<close>

definition session_claims :: "user_session \<Rightarrow> token_claims" where
  "session_claims s = \<lparr>tk_user_id = ss_user_id s, tk_session_id = ss_id s, tk_provider = ss_auth_provider s,
     tk_token_version = ss_token_version s, tk_tenant_id = ss_tenant_id s\<rparr>"

definition session_read :: "user_session \<Rightarrow> (string \<times> pyval) list" where
  "session_read s = [(''id'', PStr (ss_id s)), (''user_id'', PStr (ss_user_id s)), (''tenant_id'', opt_str (ss_tenant_id s)),
     (''status'', PStr (ss_status s)), (''auth_provider'', PStr (ss_auth_provider s))]"

text \<open>A time of a row is read as its instant.\<close>

definition session_detail_read :: "user_session \<Rightarrow> (string \<times> pyval) list" where
  "session_detail_read s = session_read s @ [(''revoke_reason'', opt_str (ss_revoke_reason s)),
     (''revoked_at'', case ss_revoked_at s of None \<Rightarrow> PNone | Some at \<Rightarrow> PInt at)]"

definition user_read :: "user_row \<Rightarrow> (string \<times> pyval) list" where
  "user_read u = [(''id'', PStr (us_id u)), (''email'', PStr (us_email u)), (''display_name'', PStr (us_display_name u)),
     (''status'', PStr (us_status u))]"

definition identity_read :: "external_identity \<Rightarrow> (string \<times> pyval) list" where
  "identity_read x = [(''id'', PStr (xi_id x)), (''user_id'', PStr (xi_user_id x)), (''provider'', PStr (xi_provider x)),
     (''subject'', PStr (xi_subject x))]"

definition login_read :: "'w account_app \<Rightarrow> instant \<Rightarrow> user_session \<Rightarrow> (string \<times> pyval) list result" where
  "login_read app now s =
    rbind (route_jwt app) (\<lambda>c.
      Inr [(''access_token'', PStr (issue_token (ap_codec app) c (session_claims s) now)), (''token_type'', PStr ''bearer''),
           (''expires_in'', PInt (jw_ttl c)), (''session'', PDict (session_read s))])"

section \<open>Public routes and tokens\<close>

definition login_route ::
  "'w account_app \<Rightarrow> string \<Rightarrow> instant \<Rightarrow> string \<Rightarrow> string \<Rightarrow> string option \<Rightarrow> route_request
    \<Rightarrow> ('w account_state, payload) state_op" where
  "login_route app fresh now email password tenant_id rq =
    unit_op (sbind (sret (default_accounts app)) (\<lambda>env.
      sbind (authenticate_local_login env fresh now email password tenant_id (route_request_id rq)) (\<lambda>s.
      sret (login_read app now s))))"

definition refresh_route :: "'w account_app \<Rightarrow> instant \<Rightarrow> route_request \<Rightarrow> ('w account_state, payload) state_op" where
  "refresh_route app now rq =
    sbind (sret (request_claims app now rq)) (\<lambda>k.
    unit_op (sbind (sret (default_accounts app)) (\<lambda>env.
      sbind (refresh_session_token env k (route_request_id rq)) (\<lambda>r.
      sbind (reads (\<lambda>t. case session_of t (tk_session_id r) of
          None \<Rightarrow> Inl (invalid_auth_token ''session_not_found'') | Some s \<Rightarrow> Inr s)) (\<lambda>s.
      sret (login_read app now s))))))"

definition logout_route :: "'w account_app \<Rightarrow> instant \<Rightarrow> route_request \<Rightarrow> ('w account_state, int) state_op" where
  "logout_route app now rq =
    sbind (sret (request_claims app now rq)) (\<lambda>k.
    unit_op (sbind (sret (default_accounts app)) (\<lambda>_.
      revoke_own_session (tk_user_id k) (tk_session_id k) ''logout'' now)))"

text \<open>A provider that is not configured, and the store of states, made when it is first needed.\<close>

definition external_auth_provider :: "'w account_app \<Rightarrow> string \<Rightarrow> 'w oidc_adapter result" where
  "external_auth_provider app provider =
    (case ap_providers app provider of
       None \<Rightarrow> Inl (app_error ''NOT_FOUND'' ''External auth provider is not configured'' (Some 404) [(''provider'', PStr provider)])
     | Some a \<Rightarrow> Inr a)"

definition not_configured :: "string \<Rightarrow> string \<Rightarrow> exn" where
  "not_configured what provider = app_error ''SYSTEM_ERROR'' (''External auth '' @ what @ '' is not configured'') (Some 500)
     [(''provider'', PStr provider)]"

definition state_store_of :: "state_store option \<Rightarrow> state_store" where
  "state_store_of so = (case so of Some st \<Rightarrow> st | None \<Rightarrow> \<lparr>so_ttl = 300, so_states = Map.empty\<rparr>)"

definition external_authorize_route ::
  "((string \<times> string) list \<Rightarrow> string) \<Rightarrow> 'w account_app \<Rightarrow> string \<Rightarrow> string \<Rightarrow> instant \<Rightarrow> string \<Rightarrow> string option \<Rightarrow> string option
    \<Rightarrow> (state_store option, auth_state \<times> string) state_op" where
  "external_authorize_route urlencode app fresh nonce now provider tenant_id redirect_after so =
    (case external_auth_provider app provider of
       Inl e \<Rightarrow> (so, Inl e)
     | Inr a \<Rightarrow>
         (case issue_state fresh nonce provider tenant_id redirect_after now (state_store_of so) of
            (st, Inl e) \<Rightarrow> (Some st, Inl e)
          | (st, Inr s) \<Rightarrow> (Some st, rbind (authorization_url urlencode (oa_config a) s) (\<lambda>url. Inr (s, url)))))"

definition external_callback_route ::
  "'w account_app \<Rightarrow> string \<Rightarrow> instant \<Rightarrow> string \<Rightarrow> string \<Rightarrow> string \<Rightarrow> route_request
    \<Rightarrow> (state_store option \<times> 'w account_state, payload) state_op" where
  "external_callback_route app fresh now provider code cb_state rq = (\<lambda>(so, x).
    case external_auth_provider app provider of
      Inl e \<Rightarrow> ((so, x), Inl e)
    | Inr a \<Rightarrow>
       (case consume_state provider cb_state now (state_store_of so) of
          (st, Inl e) \<Rightarrow> ((Some st, x), Inl e)
        | (st, Inr s) \<Rightarrow>
           (case oa_client a of
              None \<Rightarrow> ((Some st, x), Inl (not_configured ''client'' provider))
            | Some client \<Rightarrow>
               (case oa_verifier a of
                  None \<Rightarrow> ((Some st, x), Inl (not_configured ''id token verifier'' provider))
                | Some verifier \<Rightarrow>
                   (case sbind (on_world_of (handle_callback client verifier (oa_config a) code cb_state s)) (\<lambda>i.
                      unit_op (sbind (sret (default_accounts app)) (\<lambda>env.
                        sbind (authenticate_external_login env fresh now (ei_provider i) (ei_subject i) (ei_tenant_id i)
                          (route_request_id rq)) (\<lambda>us. sret (login_read app now us))))) x of
                      (y, r) \<Rightarrow> ((Some st, y), r))))))"

section \<open>Routes of the user\<close>

text \<open>What most routes are: the user of the request, a unit of work, one call.\<close>

definition for_user ::
  "'w account_app \<Rightarrow> route_request \<Rightarrow> ('w account_env \<Rightarrow> string \<Rightarrow> ('w account_state, 'a) state_op) \<Rightarrow> ('w account_state, 'a) state_op" where
  "for_user app rq f =
    sbind (sret (request_user rq)) (\<lambda>i. unit_op (sbind (sret (default_accounts app)) (\<lambda>env. f env i)))"

definition get_me :: "route_request \<Rightarrow> ('w account_state, payload) state_op" where
  "get_me rq = sbind (sret (request_user rq)) (\<lambda>i.
     unit_op (reads (\<lambda>t. case user_of t i of None \<Rightarrow> Inl (invalid_auth_token ''user_not_found'') | Some u \<Rightarrow> Inr (user_read u))))"

definition update_me :: "'w account_app \<Rightarrow> string \<Rightarrow> route_request \<Rightarrow> ('w account_state, payload) state_op" where
  "update_me app display_name rq = for_user app rq (\<lambda>env i.
     sbind (update_profile i display_name) (\<lambda>u. sret (Inr (user_read u))))"

definition reset_my_password ::
  "'w account_app \<Rightarrow> setting_tables \<Rightarrow> string \<Rightarrow> instant \<Rightarrow> string \<Rightarrow> string \<Rightarrow> route_request \<Rightarrow> ('w account_state, unit) state_op" where
  "reset_my_password app tabs salt now current_password new_password rq =
    sbind (sret (request_user rq)) (\<lambda>i. unit_op (sbind (sret (runtime_accounts app tabs)) (\<lambda>env.
      reset_local_password env salt now i current_password new_password)))"

definition bind_my_external_identity ::
  "'w account_app \<Rightarrow> string \<Rightarrow> instant \<Rightarrow> string \<Rightarrow> string \<Rightarrow> route_request \<Rightarrow> ('w account_state, payload) state_op" where
  "bind_my_external_identity app fresh now provider subject rq = for_user app rq (\<lambda>env i.
     sbind (bind_external_identity fresh now i provider subject) (\<lambda>x. sret (Inr (identity_read x))))"

definition one_page :: "'a list \<Rightarrow> (string \<times> pyval) list" where
  "one_page xs = [(''total'', PInt (int (length xs))), (''page'', PInt 1),
     (''page_size'', PInt (if xs = [] then 1 else int (length xs))), (''has_next'', PBool False)]"

definition list_my_external_identities ::
  "'w account_app \<Rightarrow> route_request \<Rightarrow> ('w account_state, payload list \<times> payload) state_op" where
  "list_my_external_identities app rq = for_user app rq (\<lambda>env i.
     sbind (reads (list_external_identities i)) (\<lambda>xs. sret (Inr (map identity_read xs, one_page xs))))"

definition list_my_sessions :: "'w account_app \<Rightarrow> route_request \<Rightarrow> ('w account_state, payload list \<times> payload) state_op" where
  "list_my_sessions app rq = for_user app rq (\<lambda>env i.
     sbind (reads (list_user_sessions i)) (\<lambda>ss. sret (Inr (map session_detail_read ss, one_page ss))))"

definition revoke_my_session :: "'w account_app \<Rightarrow> instant \<Rightarrow> string \<Rightarrow> route_request \<Rightarrow> ('w account_state, int) state_op" where
  "revoke_my_session app now session_id rq = for_user app rq (\<lambda>env i. revoke_own_session i session_id ''user requested'' now)"

section \<open>Routes of the platform\<close>

definition create_platform_user ::
  "'w account_app \<Rightarrow> setting_tables \<Rightarrow> string \<Rightarrow> string \<Rightarrow> instant \<Rightarrow> string \<Rightarrow> string \<Rightarrow> string \<Rightarrow> ('w account_state, payload) state_op" where
  "create_platform_user app tabs fresh salt now email display_name password =
    unit_op (sbind (sret (runtime_accounts app tabs)) (\<lambda>env.
      sbind (create_local_user env fresh salt now email display_name password) (\<lambda>u. sret (Inr (user_read u)))))"

definition route_caller :: "route_request \<Rightarrow> string \<Rightarrow> account_caller" where
  "route_caller rq i = \<lparr>ak_actor_id = Some i, ak_request_id = route_request_id rq, ak_decision = rr_decision rq\<rparr>"

definition disable_platform_user ::
  "'w account_app \<Rightarrow> instant \<Rightarrow> string \<Rightarrow> string \<Rightarrow> route_request \<Rightarrow> ('w account_state, payload) state_op" where
  "disable_platform_user app now user_id reason rq = for_user app rq (\<lambda>env i.
     sbind (disable_user env now user_id reason (route_caller rq i)) (\<lambda>u. sret (Inr (user_read u))))"

definition revoke_platform_user_sessions ::
  "'w account_app \<Rightarrow> instant \<Rightarrow> string \<Rightarrow> string \<Rightarrow> route_request \<Rightarrow> ('w account_state, int) state_op" where
  "revoke_platform_user_sessions app now user_id reason rq = for_user app rq (\<lambda>env i.
     revoke_user_sessions env now user_id reason (route_caller rq i))"

end
