(* ===== verification/Accounts_Properties.thy ===== *)
theory Accounts_Properties
  imports Account_Routes
begin

text \<open>
  The properties of accounts: the invariant of the tables, which tokens open a session, that revocation is
  final, what a login needs and gives, and that a stored password is the only one that verifies.
\<close>

section \<open>Calls\<close>

datatype account_call =
    Create_User string string string
  | Create_Local_User string string instant string string string
  | Local_Login string instant string string "string option" "string option"
  | External_Login string instant string string "string option" "string option"
  | Refresh token_claims "string option"
  | Update_Profile string string
  | Reset_Password string instant string string string
  | Bind_Identity string instant string string string
  | Revoke_Own string string string instant
  | Disable_User instant string string account_caller
  | Revoke_User instant string string account_caller
  | Revoke_Tenant instant string string account_caller
  | Revoke_Lifecycle instant string string

definition drop_value :: "('s, 'a) state_op \<Rightarrow> ('s, unit) state_op" where
  "drop_value f = sbind f (\<lambda>_. sret (Inr ()))"

fun account_call_op :: "'w account_env \<Rightarrow> account_call \<Rightarrow> ('w account_state, unit) state_op" where
  "account_call_op env (Create_User i e n) = drop_value (create_user i e n)"
| "account_call_op env (Create_Local_User i salt now e n p) = drop_value (create_local_user env i salt now e n p)"
| "account_call_op env (Local_Login f now e p n r) = drop_value (authenticate_local_login env f now e p n r)"
| "account_call_op env (External_Login f now p s n r) = drop_value (authenticate_external_login env f now p s n r)"
| "account_call_op env (Refresh k r) = drop_value (refresh_session_token env k r)"
| "account_call_op env (Update_Profile i n) = drop_value (update_profile i n)"
| "account_call_op env (Reset_Password salt now i p q) = reset_local_password env salt now i p q"
| "account_call_op env (Bind_Identity f now i p s) = drop_value (bind_external_identity f now i p s)"
| "account_call_op env (Revoke_Own i s r now) = drop_value (revoke_own_session i s r now)"
| "account_call_op env (Disable_User now i r c) = drop_value (disable_user env now i r c)"
| "account_call_op env (Revoke_User now i r c) = drop_value (revoke_user_sessions env now i r c)"
| "account_call_op env (Revoke_Tenant now n r c) = drop_value (revoke_tenant_sessions env now n r c)"
| "account_call_op env (Revoke_Lifecycle now n r) = drop_value (revoke_for_lifecycle now n r)"

text \<open>Every call in a unit of work of its own, and any sequence of them.\<close>

definition account_step :: "'w account_env \<Rightarrow> account_call \<Rightarrow> ('w account_state, unit) state_op" where
  "account_step env c = unit_op (account_call_op env c)"

definition account_run :: "'w account_env \<Rightarrow> account_call list \<Rightarrow> 'w account_state \<Rightarrow> 'w account_state" where
  "account_run env cs x = fold (\<lambda>c x. fst (account_step env c x)) cs x"

definition no_accounts :: "tenant list \<Rightarrow> tenant_member list \<Rightarrow> account_tables" where
  "no_accounts ts ms = \<lparr>ac_users = [], ac_credentials = [], ac_identities = [], ac_sessions = [], ac_tenants = ts, ac_members = ms\<rparr>"

section \<open>The tables a call leaves\<close>

lemma drop_value_returns [returns]: "drop_value f x = (y, Inr v) \<longleftrightarrow> (\<exists>a. f x = (y, Inr a))"
  by (auto simp: drop_value_def returns)

lemma record_account_audit_tables: "record_account_audit env e x = (y, r) \<Longrightarrow> fst y = fst x"
  by (auto simp: record_account_audit_def on_world_of_def split: option.splits prod.splits)

lemma publish_security_event_tables: "publish_security_event env a b c d e f g x = (y, r) \<Longrightarrow> fst y = fst x"
  by (auto simp: publish_security_event_def on_world_of_def Let_def split: option.splits prod.splits)

lemma sbind_tables:
  assumes "\<And>x y r. f x = (y, r) \<Longrightarrow> fst y = fst x" and "\<And>v x y r. g v x = (y, r) \<Longrightarrow> fst y = fst x"
    and "sbind f g x = (y, r)"
  shows "fst y = fst x"
  using assms(3) by (rule sbindE) (auto dest: assms(1) assms(2), metis assms(1,2) fst_conv)

lemma record_session_tables: "record_session env a e s q x = (y, r) \<Longrightarrow> fst y = fst x"
  unfolding record_session_def
  by (erule sbind_tables [rotated 2]) (blast dest: record_account_audit_tables publish_security_event_tables)+

lemma record_failed_login_tables: "record_failed_login env e n q reason x = (y, r) \<Longrightarrow> fst y = fst x"
  unfolding record_failed_login_def
  by (erule sbind_tables [rotated 2]) (blast dest: record_account_audit_tables publish_security_event_tables)+

lemmas effects_tables = record_account_audit_tables publish_security_event_tables record_session_tables
  record_failed_login_tables

section \<open>The tables as a state machine\<close>

text \<open>The changes the service makes: a step of the tables is one of these.\<close>

definition opened_session :: "string \<Rightarrow> user_row \<Rightarrow> string option \<Rightarrow> string \<Rightarrow> instant \<Rightarrow> user_session" where
  "opened_session i u tenant_id provider now =
     \<lparr>ss_id = i, ss_user_id = us_id u, ss_tenant_id = tenant_id, ss_auth_provider = provider, ss_status = ''active'',
      ss_token_version = us_token_version u, ss_revoke_reason = None, ss_revoked_at = None, ss_created_at = now\<rparr>"

definition may_log_in :: "account_tables \<Rightarrow> user_row \<Rightarrow> string option \<Rightarrow> bool" where
  "may_log_in t u tenant_id \<longleftrightarrow> us_status u = ''active'' \<and>
     (case tenant_id of None \<Rightarrow> True | Some n \<Rightarrow> assert_tenant_login_allowed (us_id u) n t = Inr ())"

definition revoke_in :: "(user_session \<Rightarrow> bool) \<Rightarrow> string \<Rightarrow> instant \<Rightarrow> account_tables \<Rightarrow> account_tables" where
  "revoke_in P reason now t =
     t\<lparr>ac_sessions := map (\<lambda>s. if ss_status s = ''active'' \<and> P s then revoked reason now s else s) (ac_sessions t)\<rparr>"

definition with_user_row :: "string \<Rightarrow> (user_row \<Rightarrow> user_row) \<Rightarrow> account_tables \<Rightarrow> account_tables" where
  "with_user_row i f t = t\<lparr>ac_users := map (\<lambda>u. if us_id u = i then f u else u) (ac_users t)\<rparr>"

inductive table_step :: "account_tables \<Rightarrow> account_tables \<Rightarrow> bool" where
  nothing: "table_step t t"
| user_added: "us_status u = ''active'' \<Longrightarrow> us_token_version u = 1 \<Longrightarrow>
    \<forall>v \<in> set (ac_users t). us_id v \<noteq> us_id u \<and> us_email v \<noteq> us_email u \<Longrightarrow>
    table_step t (t\<lparr>ac_users := ac_users t @ [u]\<rparr>)"
| credential_added: "user_of t (uc_user_id c) \<noteq> None \<Longrightarrow> credential_of t (uc_user_id c) = None \<Longrightarrow>
    table_step t (t\<lparr>ac_credentials := ac_credentials t @ [c]\<rparr>)"
| profile_changed: "table_step t (with_user_row i (\<lambda>u. u\<lparr>us_display_name := n\<rparr>) t)"
| password_changed: "table_step t (t\<lparr>ac_credentials :=
    map (\<lambda>c. if uc_user_id c = i then c\<lparr>uc_password_hash := h, uc_updated_at := now\<rparr> else c) (ac_credentials t)\<rparr>)"
| identity_bound: "user_of t (xi_user_id x) \<noteq> None \<Longrightarrow> bound_identity t (xi_provider x) (xi_subject x) = None \<Longrightarrow>
    \<forall>j \<in> set (ac_identities t). xi_id j \<noteq> xi_id x \<Longrightarrow> table_step t (t\<lparr>ac_identities := ac_identities t @ [x]\<rparr>)"
| session_opened: "user_of t (us_id u) = Some u \<Longrightarrow> may_log_in t u n \<Longrightarrow> session_of t i = None \<Longrightarrow>
    table_step t (t\<lparr>ac_sessions := ac_sessions t @ [opened_session i u n p now]\<rparr>)"
| sessions_revoked: "table_step t (revoke_in P reason now t)"
| user_disabled: "table_step t (revoke_in (\<lambda>s. ss_user_id s = i) reason now (with_user_row i disabled t))"

inductive_cases table_stepE: "table_step t t'"

section \<open>Looking up a changed table\<close>

lemma user_of_with_user_row:
  assumes "\<And>u. us_id (f u) = us_id u"
  shows "user_of (with_user_row i f t) j = map_option (\<lambda>u. if us_id u = i then f u else u) (user_of t j)"
  unfolding user_of_def with_user_row_def by (simp add: assms find_map_same)

lemma disabled_row [simp]: "us_id (disabled u) = us_id u" "us_email (disabled u) = us_email u"
    "us_status (disabled u) = ''disabled''" "us_token_version u \<le> us_token_version (disabled u)"
  by (simp_all add: disabled_def)

lemma revoked_row [simp]: "ss_id (revoked r now s) = ss_id s" "ss_user_id (revoked r now s) = ss_user_id s"
    "ss_tenant_id (revoked r now s) = ss_tenant_id s" "ss_auth_provider (revoked r now s) = ss_auth_provider s"
    "ss_status (revoked r now s) = ''revoked''" "ss_token_version (revoked r now s) = ss_token_version s"
  by (simp_all add: revoked_def)

lemma session_of_revoke_in:
  "session_of (revoke_in P r now t) j =
     map_option (\<lambda>s. if ss_status s = ''active'' \<and> P s then revoked r now s else s) (session_of t j)"
  unfolding session_of_def revoke_in_def by (simp add: find_map_same)

lemma user_of_revoke_in [simp]: "user_of (revoke_in P r now t) j = user_of t j"
  by (simp add: user_of_def revoke_in_def)

lemma session_of_with_user_row [simp]: "session_of (with_user_row i f t) j = session_of t j"
  by (simp add: session_of_def with_user_row_def)

lemma lookups_of_other_tables [simp]:
  "user_of (t\<lparr>ac_sessions := ss\<rparr>) j = user_of t j" "user_of (t\<lparr>ac_credentials := cs\<rparr>) j = user_of t j"
  "user_of (t\<lparr>ac_identities := xs\<rparr>) j = user_of t j" "session_of (t\<lparr>ac_users := us\<rparr>) j = session_of t j"
  "session_of (t\<lparr>ac_credentials := cs\<rparr>) j = session_of t j" "session_of (t\<lparr>ac_identities := xs\<rparr>) j = session_of t j"
  by (simp_all add: user_of_def session_of_def)

lemma user_of_id: "user_of t i = Some u \<Longrightarrow> us_id u = i \<and> u \<in> set (ac_users t)"
  by (auto simp: user_of_def find_Some_iff)

lemma session_of_id: "session_of t i = Some s \<Longrightarrow> ss_id s = i \<and> s \<in> set (ac_sessions t)"
  by (auto simp: session_of_def find_Some_iff)

lemma user_of_None: "user_of t i = None \<longleftrightarrow> i \<notin> us_id ` set (ac_users t)"
  by (auto simp: user_of_def find_None_iff)

lemma session_of_None: "session_of t i = None \<longleftrightarrow> i \<notin> ss_id ` set (ac_sessions t)"
  by (auto simp: session_of_def find_None_iff)

section \<open>What stays as it is\<close>

text \<open>A user keeps identifier and address, and stays out once out; a session keeps whose it is, and stays
  ended once ended.\<close>

definition user_keeps :: "user_row \<Rightarrow> user_row \<Rightarrow> bool" where
  "user_keeps u v \<longleftrightarrow> us_id v = us_id u \<and> us_email v = us_email u \<and> us_token_version u \<le> us_token_version v \<and>
     (us_status u \<noteq> ''active'' \<longrightarrow> us_status v \<noteq> ''active'')"

definition session_keeps :: "user_session \<Rightarrow> user_session \<Rightarrow> bool" where
  "session_keeps s r \<longleftrightarrow> ss_id r = ss_id s \<and> session_claims r = session_claims s \<and> (ss_status s \<noteq> ''active'' \<longrightarrow> r = s)"

definition accounts_evolve :: "account_tables \<Rightarrow> account_tables \<Rightarrow> bool" where
  "accounts_evolve t t' \<longleftrightarrow> (\<forall>i u. user_of t i = Some u \<longrightarrow> (\<exists>v. user_of t' i = Some v \<and> user_keeps u v)) \<and>
     (\<forall>i s. session_of t i = Some s \<longrightarrow> (\<exists>r. session_of t' i = Some r \<and> session_keeps s r))"

lemma accounts_evolve_user: "accounts_evolve t t' \<Longrightarrow> user_of t i = Some u \<Longrightarrow> \<exists>v. user_of t' i = Some v \<and> user_keeps u v"
  unfolding accounts_evolve_def by blast

lemma accounts_evolve_session: "accounts_evolve t t' \<Longrightarrow> session_of t i = Some s \<Longrightarrow> \<exists>r. session_of t' i = Some r \<and> session_keeps s r"
  unfolding accounts_evolve_def by blast

lemma accounts_evolve_refl: "accounts_evolve t t"
  by (auto simp: accounts_evolve_def user_keeps_def session_keeps_def)

lemma accounts_evolve_trans: "accounts_evolve t t' \<Longrightarrow> accounts_evolve t' t'' \<Longrightarrow> accounts_evolve t t''"
proof -
  assume a: "accounts_evolve t t'" and b: "accounts_evolve t' t''"
  have users: "user_keeps u v \<Longrightarrow> user_keeps v w \<Longrightarrow> user_keeps u w" for u v w by (auto simp: user_keeps_def)
  have sessions: "session_keeps s r \<Longrightarrow> session_keeps r q \<Longrightarrow> session_keeps s q" for s r q by (auto simp: session_keeps_def)
  show ?thesis
    unfolding accounts_evolve_def
  proof (intro conjI allI impI)
    fix i u assume "user_of t i = Some u"
    from accounts_evolve_user [OF a this] obtain v where v: "user_of t' i = Some v" "user_keeps u v" by blast
    from accounts_evolve_user [OF b v(1)] show "\<exists>w. user_of t'' i = Some w \<and> user_keeps u w" using users [OF v(2)] by blast
  next
    fix i s assume "session_of t i = Some s"
    from accounts_evolve_session [OF a this] obtain r where r: "session_of t' i = Some r" "session_keeps s r" by blast
    from accounts_evolve_session [OF b r(1)] show "\<exists>q. session_of t'' i = Some q \<and> session_keeps s q" using sessions [OF r(2)] by blast
  qed
qed

lemma accounts_evolve_added:
  "accounts_evolve t (t\<lparr>ac_users := ac_users t @ us\<rparr>)" "accounts_evolve t (t\<lparr>ac_sessions := ac_sessions t @ ss\<rparr>)"
  by (auto simp: accounts_evolve_def user_of_def session_of_def find_append user_keeps_def session_keeps_def)

lemma accounts_evolve_other: "accounts_evolve t (t\<lparr>ac_credentials := cs\<rparr>)" "accounts_evolve t (t\<lparr>ac_identities := xs\<rparr>)"
  by (auto simp: accounts_evolve_def user_keeps_def session_keeps_def)

lemma accounts_evolve_with_user_row: "(\<And>u. user_keeps u (f u)) \<Longrightarrow> accounts_evolve t (with_user_row i f t)"
proof -
  assume f: "\<And>u. user_keeps u (f u)"
  then have "\<And>u. us_id (f u) = us_id u" by (simp add: user_keeps_def)
  note look = user_of_with_user_row [OF this]
  show ?thesis unfolding accounts_evolve_def using f by (auto simp: look user_keeps_def session_keeps_def)
qed

lemma accounts_evolve_revoke_in: "accounts_evolve t (revoke_in P r now t)"
  by (auto simp: accounts_evolve_def session_of_revoke_in user_keeps_def session_keeps_def session_claims_def)

lemma table_step_evolves: "table_step t t' \<Longrightarrow> accounts_evolve t t'"
proof (induction rule: table_step.induct)
  case (user_disabled t i reason now)
  have "accounts_evolve t (with_user_row i disabled t)" by (rule accounts_evolve_with_user_row) (simp add: user_keeps_def)
  then show ?case using accounts_evolve_revoke_in accounts_evolve_trans by blast
next
  case (profile_changed t i n)
  show ?case by (rule accounts_evolve_with_user_row) (simp add: user_keeps_def)
qed (rule accounts_evolve_refl accounts_evolve_added accounts_evolve_other accounts_evolve_revoke_in)+

lemma table_steps_evolve: "table_step\<^sup>*\<^sup>* t t' \<Longrightarrow> accounts_evolve t t'"
  by (induction rule: rtranclp_induct) (auto intro: accounts_evolve_refl accounts_evolve_trans table_step_evolves)

section \<open>Every call is a sequence of steps\<close>

lemma add_user_returns:
  "add_user u t = (t', Inr v) \<longleftrightarrow> (\<forall>v \<in> set (ac_users t). us_id v \<noteq> us_id u \<and> us_email v \<noteq> us_email u) \<and>
     t' = t\<lparr>ac_users := ac_users t @ [u]\<rparr>"
  by (auto simp: add_user_def)

lemma add_session_returns:
  "add_session s t = (t', Inr v) \<longleftrightarrow> session_of t (ss_id s) = None \<and> t' = t\<lparr>ac_sessions := ac_sessions t @ [s]\<rparr>"
  by (auto simp: add_session_def)

lemma add_credential_returns:
  "add_credential c t = (t', Inr v) \<longleftrightarrow> credential_of t (uc_user_id c) = None \<and>
     t' = t\<lparr>ac_credentials := ac_credentials t @ [c]\<rparr>"
  by (auto simp: add_credential_def)

lemma add_identity_returns:
  "add_identity x t = (t', Inr v) \<longleftrightarrow>
     (\<forall>j \<in> set (ac_identities t). xi_id j \<noteq> xi_id x) \<and> bound_identity t (xi_provider x) (xi_subject x) = None \<and>
     t' = t\<lparr>ac_identities := ac_identities t @ [x]\<rparr>"
  by (auto simp: add_identity_def bound_identity_def find_None_iff)

lemma get_user_returns: "get_user i t = Inr u \<longleftrightarrow> user_of t i = Some u"
  by (auto simp: get_user_def split: option.splits)

lemma mark_revoked_active:
  "mark_revoked (active_sessions u n t) r now t = (t', Inr v) \<longleftrightarrow>
     t' = revoke_in (\<lambda>s. (case u of None \<Rightarrow> True | Some i \<Rightarrow> ss_user_id s = i) \<and>
       (case n of None \<Rightarrow> True | Some k \<Rightarrow> ss_tenant_id s = Some k)) r now t"
proof -
  have "map (\<lambda>s. if s \<in> set (active_sessions u n t) then revoked r now s else s) (ac_sessions t) =
      map (\<lambda>s. if ss_status s = ''active'' \<and> ((case u of None \<Rightarrow> True | Some i \<Rightarrow> ss_user_id s = i) \<and>
        (case n of None \<Rightarrow> True | Some k \<Rightarrow> ss_tenant_id s = Some k)) then revoked r now s else s) (ac_sessions t)"
    by (rule map_cong) (auto simp: active_sessions_def)
  then show ?thesis by (auto simp: mark_revoked_def revoke_in_def)
qed

lemmas row_returns = add_user_returns add_session_returns add_credential_returns add_identity_returns get_user_returns

lemma sret_returns [returns]: "sret r x = (y, Inr v) \<longleftrightarrow> y = x \<and> r = Inr v"
  by auto

lemma revoke_active_returns:
  "revoke_active u n r now x = (y, Inr k) \<longleftrightarrow>
     fst y = revoke_in (\<lambda>s. (case u of None \<Rightarrow> True | Some i \<Rightarrow> ss_user_id s = i) \<and>
       (case n of None \<Rightarrow> True | Some m \<Rightarrow> ss_tenant_id s = Some m)) r now (fst x) \<and> snd y = snd x \<and>
     k = int (length (active_sessions u n (fst x)))"
  unfolding revoke_active_def by (cases y) (auto simp: returns mark_revoked_active)

lemma create_user_returns:
  assumes "create_user i e n x = (y, Inr u)"
  shows "table_step (fst x) (fst y)" and "user_of (fst y) i = Some u" and "us_id u = i"
    and "us_status u = ''active''" and "us_email u = lower (strip e)" and "snd y = snd x"
    and "ac_sessions (fst y) = ac_sessions (fst x)" and "ac_credentials (fst y) = ac_credentials (fst x)"
proof -
  let ?u = "\<lparr>us_id = i, us_email = lower (strip e), us_display_name = n, us_status = ''active'', us_token_version = 1\<rparr>"
  have u: "u = ?u" and y: "fst y = (fst x)\<lparr>ac_users := ac_users (fst x) @ [?u]\<rparr>" "snd y = snd x"
    and new: "\<forall>v \<in> set (ac_users (fst x)). us_id v \<noteq> i \<and> us_email v \<noteq> lower (strip e)"
    using assms by (auto simp: create_user_def returns add_user_returns Let_def)
  show "table_step (fst x) (fst y)" unfolding y(1) by (rule user_added) (use new in auto)
  have "find (\<lambda>u. us_id u = i) (ac_users (fst x)) = None" using new by (auto simp: find_None_iff)
  then show "user_of (fst y) i = Some u" by (simp add: user_of_def y(1) find_append u)
  show "us_id u = i" "us_status u = ''active''" "us_email u = lower (strip e)" by (simp_all add: u)
  show "snd y = snd x" "ac_sessions (fst y) = ac_sessions (fst x)" "ac_credentials (fst y) = ac_credentials (fst x)"
    by (simp_all add: y)
qed

lemma create_local_user_returns:
  assumes "create_local_user env i salt now e n p x = (y, Inr u)"
  obtains h z where "create_user i (lower (strip e)) n x = (z, Inr u)" and "hash_password (ax_hasher env) salt p = Inr h"
    and "credential_of (fst z) i = None"
    and "fst y = (fst z)\<lparr>ac_credentials := ac_credentials (fst z) @ [\<lparr>uc_user_id = i, uc_password_hash = h, uc_updated_at = now\<rparr>]\<rparr>"
    and "snd y = snd z" and "us_id u = i"
proof -
  obtain z h where z: "create_user i (lower (strip e)) n x = (z, Inr u)" and h: "hash_password (ax_hasher env) salt p = Inr h"
    and rest: "add_credential \<lparr>uc_user_id = us_id u, uc_password_hash = h, uc_updated_at = now\<rparr> (fst z) = (fst y, Inr ())" "snd y = snd z"
    using assms by (auto simp: create_local_user_def returns)
  have i: "us_id u = i" by (rule create_user_returns(3) [OF z])
  show thesis by (rule that [OF z h _ _ rest(2) i]) (use rest(1) i in \<open>auto simp: add_credential_returns\<close>)
qed

lemma create_session_returns:
  assumes "create_session env f now i n p q x = (y, Inr s)"
  obtains u where "user_of (fst x) i = Some u" and "may_log_in (fst x) u n" and "session_of (fst x) f = None"
    and "s = opened_session f u n p now" and "fst y = (fst x)\<lparr>ac_sessions := ac_sessions (fst x) @ [s]\<rparr>" and "us_id u = i"
proof -
  obtain u z where u: "user_of (fst x) i = Some u" and log: "may_log_in (fst x) u n"
    and s: "s = opened_session f u n p now" and add: "add_session s (fst x) = (fst z, Inr ())"
    and rec: "record_session env ''session.created'' ''account.session_created'' s q z = (y, Inr ())"
    using assms
    by (auto simp: create_session_def returns get_user_returns Let_def may_log_in_def opened_session_def split: if_splits option.splits)
  have "fst y = fst z" by (rule record_session_tables [OF rec])
  then show thesis using that [OF u log _ s] add user_of_id [OF u] by (auto simp: add_session_returns s opened_session_def)
qed

lemma local_login_returns:
  assumes "authenticate_local_login env f now e p n q x = (y, Inr s)"
  obtains u where "verify_local_password env (lower (strip e)) p (fst x) = Inr u"
    and "create_session env f now (us_id u) n ''local'' q x = (y, Inr s)"
proof -
  let ?op = "sbind (reads (verify_local_password env (lower (strip e)) p)) (\<lambda>u. create_session env f now (us_id u) n ''local'' q)"
  have "?op x = (y, Inr s)"
  proof (cases "?op x")
    case (Pair z r)
    then show ?thesis
    proof (cases r)
      case (Inl er)
      then show ?thesis using assms Pair
        by (auto simp: authenticate_local_login_def returns split: if_splits)
    next
      case (Inr v)
      then show ?thesis using assms Pair by (simp add: authenticate_local_login_def)
    qed
  qed
  then show thesis using that by (auto simp: returns)
qed

lemma bind_identity_returns:
  assumes "bind_external_identity f now i p s x = (y, Inr a)"
  shows "table_step (fst x) (fst y)"
proof -
  obtain u where u: "user_of (fst x) i = Some u"
    and c: "y = x \<or> bound_identity (fst x) (strip p) (strip s) = None \<and>
      add_identity \<lparr>xi_id = f, xi_user_id = us_id u, xi_provider = strip p, xi_subject = strip s, xi_created_at = now\<rparr> (fst x) = (fst y, Inr ())"
    using assms by (auto simp: bind_external_identity_def returns get_user_returns Let_def split: if_splits option.splits)
  show ?thesis
    using c
  proof (elim disjE conjE)
    assume n: "bound_identity (fst x) (strip p) (strip s) = None"
      and a: "add_identity \<lparr>xi_id = f, xi_user_id = us_id u, xi_provider = strip p, xi_subject = strip s, xi_created_at = now\<rparr> (fst x) = (fst y, Inr ())"
    have "us_id u = i" using user_of_id [OF u] by simp
    then show ?thesis
      using a u identity_bound [of "fst x" "\<lparr>xi_id = f, xi_user_id = us_id u, xi_provider = strip p, xi_subject = strip s, xi_created_at = now\<rparr>"] n
      by (auto simp: add_identity_returns)
  qed (simp add: table_step.nothing)
qed

lemma revoke_own_returns:
  assumes "revoke_own_session i sid r now x = (y, Inr k)"
  obtains s where "session_of (fst x) sid = Some s" and "ss_user_id s = i"
    and "fst y = revoke_in (\<lambda>v. v = s) r now (fst x)"
proof -
  obtain s where s: "session_of (fst x) sid = Some s" "ss_user_id s = i"
    and c: "ss_status s \<noteq> ''active'' \<and> y = x \<or> ss_status s = ''active'' \<and> mark_revoked [s] r now (fst x) = (fst y, Inr ())"
    using assms by (auto simp: revoke_own_session_def returns Let_def split: if_splits option.splits)
  have "fst y = revoke_in (\<lambda>v. v = s) r now (fst x)"
    using c
  proof (elim disjE conjE)
    assume "ss_status s \<noteq> ''active''" and "y = x"
    then have "map (\<lambda>v. if ss_status v = ''active'' \<and> v = s then revoked r now v else v) (ac_sessions (fst y)) = ac_sessions (fst y)"
      by (intro map_idI) auto
    then show ?thesis using \<open>y = x\<close> by (simp add: revoke_in_def)
  next
    assume "ss_status s = ''active''" and "mark_revoked [s] r now (fst x) = (fst y, Inr ())"
    then have "fst y = (fst x)\<lparr>ac_sessions := map (\<lambda>v. if v = s then revoked r now v else v) (ac_sessions (fst x))\<rparr>"
      by (auto simp: mark_revoked_def)
    moreover have "map (\<lambda>v. if v = s then revoked r now v else v) (ac_sessions (fst x))
        = map (\<lambda>v. if ss_status v = ''active'' \<and> v = s then revoked r now v else v) (ac_sessions (fst x))"
      using \<open>ss_status s = ''active''\<close> by (intro map_cong) auto
    ultimately show ?thesis by (simp add: revoke_in_def)
  qed
  then show thesis using that s by blast
qed

lemma disable_user_returns:
  assumes "disable_user env now i r c x = (y, Inr v)"
  obtains u where "user_of (fst x) i = Some u" and "v = disabled u"
    and "fst y = revoke_in (\<lambda>s. ss_user_id s = i) r now (with_user_row i disabled (fst x))"
    and "assert_accounts_mutation c ''user'' ''disable'' ''User disable'' = Inr ()"
proof -
  obtain u z1 z2 z3 k where u: "user_of (fst x) i = Some u" "v = disabled u"
    and a: "assert_accounts_mutation c ''user'' ''disable'' ''User disable'' = Inr ()"
    and z1: "change_user i disabled (fst x) = (fst z1, Inr ())"
    and z2: "revoke_active (Some i) None r now z1 = (z2, Inr k)"
    and z3: "record_account_audit env (admin_audit ''user.disabled'' ''user'' (us_id u) c r
        [(''revoked_sessions'', PInt k), (''token_version'', PInt (us_token_version (disabled u)))]) z2 = (z3, Inr ())"
    and z4: "publish_security_event env ''account.user_disabled'' ''user'' (us_id u) None (ak_actor_id c) (ak_request_id c)
      [(''user_id'', PStr (us_id u)), (''reason'', PStr r), (''revoked_sessions'', PInt k),
       (''token_version'', PInt (us_token_version (disabled u)))] z3 = (y, Inr ())"
    using assms unfolding disable_user_def Let_def by (auto simp: returns get_user_returns)
  have "fst y = fst z2" using record_account_audit_tables [OF z3] publish_security_event_tables [OF z4] by simp
  then show thesis using that [OF u _ a] z1 z2 by (auto simp: revoke_active_returns change_user_def with_user_row_def)
qed

lemma revoke_user_returns:
  assumes "revoke_user_sessions env now i r c x = (y, Inr k)"
  shows "fst y = revoke_in (\<lambda>s. ss_user_id s = i) r now (fst x)"
proof -
  obtain z1 z2 e where z: "revoke_active (Some i) None r now x = (z1, Inr k)" "record_account_audit env e z1 = (z2, Inr ())"
    and p: "publish_security_event env ''account.session_revoked'' ''user_session'' i None (ak_actor_id c) (ak_request_id c)
      [(''scope'', PStr ''user''), (''user_id'', PStr i), (''reason'', PStr r), (''revoked_sessions'', PInt k)] z2 = (y, Inr ())"
    using assms unfolding revoke_user_sessions_def by (auto simp: returns)
  then show ?thesis using record_account_audit_tables [OF z(2)] publish_security_event_tables [OF p]
    by (auto simp: revoke_active_returns)
qed

lemma revoke_tenant_returns:
  assumes "revoke_tenant_sessions env now n r c x = (y, Inr k)"
  shows "fst y = revoke_in (\<lambda>s. ss_tenant_id s = Some n) r now (fst x)"
proof -
  obtain z1 z2 e where z: "revoke_active None (Some n) r now x = (z1, Inr k)" "record_account_audit env e z1 = (z2, Inr ())"
    and p: "publish_security_event env ''account.session_revoked'' ''tenant_session'' n (Some n) (ak_actor_id c) (ak_request_id c)
      [(''scope'', PStr ''tenant''), (''reason'', PStr r), (''revoked_sessions'', PInt k)] z2 = (y, Inr ())"
    using assms unfolding revoke_tenant_sessions_def by (auto simp: returns)
  then show ?thesis using record_account_audit_tables [OF z(2)] publish_security_event_tables [OF p]
    by (auto simp: revoke_active_returns)
qed

lemma refresh_returns:
  assumes "refresh_session_token env k q x = (y, Inr r)"
  shows "fst y = fst x" and "refreshed_claims k (fst x) = Inr r"
  using assms by (auto simp: refresh_session_token_def returns split: option.splits dest: record_session_tables)

lemma update_profile_returns:
  assumes "update_profile i n x = (y, Inr v)"
  shows "fst y = with_user_row i (\<lambda>u. u\<lparr>us_display_name := strip n\<rparr>) (fst x)"
  using assms by (auto simp: update_profile_def returns change_user_def with_user_row_def split: if_splits)

lemma reset_password_returns:
  assumes "reset_local_password env salt now i p q x = (y, Inr v)"
  obtains h where "hash_password (ax_hasher env) salt q = Inr h"
    and "fst y = (fst x)\<lparr>ac_credentials :=
      map (\<lambda>c. if uc_user_id c = i then c\<lparr>uc_password_hash := h, uc_updated_at := now\<rparr> else c) (ac_credentials (fst x))\<rparr>"
proof -
  obtain u h where u: "user_of (fst x) i = Some u" and h: "hash_password (ax_hasher env) salt q = Inr h"
    and c: "change_credential (us_id u) (\<lambda>d. d\<lparr>uc_password_hash := h, uc_updated_at := now\<rparr>) (fst x) = (fst y, Inr ())"
    using assms by (auto simp: reset_local_password_def returns get_user_returns split: if_splits option.splits)
  then show thesis using that [OF h] user_of_id [OF u] by (auto simp: change_credential_def)
qed

lemma create_session_steps: "create_session env f now i n p q x = (y, Inr s) \<Longrightarrow> table_step (fst x) (fst y)"
  by (erule create_session_returns) (use session_opened user_of_id in \<open>auto simp del: fst_conv\<close>)

lemma create_local_user_steps:
  "create_local_user env i salt now e n p x = (y, Inr u) \<Longrightarrow> table_step\<^sup>*\<^sup>* (fst x) (fst y)"
proof (erule create_local_user_returns)
  fix h z
  assume z: "create_user i (lower (strip e)) n x = (z, Inr u)" and new: "credential_of (fst z) i = None"
    and y: "fst y = (fst z)\<lparr>ac_credentials := ac_credentials (fst z) @ [\<lparr>uc_user_id = i, uc_password_hash = h, uc_updated_at = now\<rparr>]\<rparr>"
  have "table_step (fst x) (fst z)" by (rule create_user_returns(1) [OF z])
  moreover have "table_step (fst z) (fst y)"
    unfolding y by (rule credential_added) (use create_user_returns(2) [OF z] new in auto)
  ultimately show ?thesis by simp
qed

theorem calls_are_steps:
  "account_call_op env c x = (y, Inr v) \<Longrightarrow> table_step\<^sup>*\<^sup>* (fst x) (fst y)"
proof (cases c)
  case (Create_User i e n)
  assume "account_call_op env c x = (y, Inr v)"
  then show ?thesis using Create_User by (auto simp: drop_value_returns intro: create_user_returns(1))
next
  case (Create_Local_User i salt now e n p)
  assume "account_call_op env c x = (y, Inr v)"
  then show ?thesis using Create_Local_User by (auto simp: drop_value_returns intro: create_local_user_steps)
next
  case (Local_Login f now e p n q)
  assume "account_call_op env c x = (y, Inr v)"
  then show ?thesis using Local_Login
    by (auto simp: drop_value_returns elim!: local_login_returns dest: create_session_steps)
next
  case (External_Login f now p s n q)
  assume "account_call_op env c x = (y, Inr v)"
  then show ?thesis using External_Login
    by (auto simp: drop_value_returns authenticate_external_login_def returns dest: create_session_steps)
next
  case (Refresh k q)
  assume "account_call_op env c x = (y, Inr v)"
  then show ?thesis using Refresh by (auto simp: drop_value_returns dest: refresh_returns)
next
  case (Update_Profile i n)
  assume "account_call_op env c x = (y, Inr v)"
  then show ?thesis using Update_Profile by (auto simp: drop_value_returns dest!: update_profile_returns intro!: r_into_rtranclp profile_changed)
next
  case (Reset_Password salt now i p q)
  assume "account_call_op env c x = (y, Inr v)"
  then show ?thesis using Reset_Password by (auto elim!: reset_password_returns intro!: r_into_rtranclp password_changed)
next
  case (Bind_Identity f now i p s)
  assume "account_call_op env c x = (y, Inr v)"
  then show ?thesis using Bind_Identity by (auto simp: drop_value_returns dest: bind_identity_returns)
next
  case (Revoke_Own i s r now)
  assume "account_call_op env c x = (y, Inr v)"
  then show ?thesis using Revoke_Own by (auto simp: drop_value_returns elim!: revoke_own_returns intro!: r_into_rtranclp sessions_revoked)
next
  case (Disable_User now i r k)
  assume "account_call_op env c x = (y, Inr v)"
  then show ?thesis using Disable_User by (auto simp: drop_value_returns elim!: disable_user_returns intro!: r_into_rtranclp user_disabled)
next
  case (Revoke_User now i r k)
  assume "account_call_op env c x = (y, Inr v)"
  then show ?thesis using Revoke_User by (auto simp: drop_value_returns dest!: revoke_user_returns intro!: r_into_rtranclp sessions_revoked)
next
  case (Revoke_Tenant now n r k)
  assume "account_call_op env c x = (y, Inr v)"
  then show ?thesis using Revoke_Tenant by (auto simp: drop_value_returns dest!: revoke_tenant_returns intro!: r_into_rtranclp sessions_revoked)
next
  case (Revoke_Lifecycle now n r)
  assume "account_call_op env c x = (y, Inr v)"
  then show ?thesis using Revoke_Lifecycle
    by (auto simp: drop_value_returns revoke_for_lifecycle_def revoke_active_returns intro!: r_into_rtranclp sessions_revoked)
qed

lemma account_step_steps: "table_step\<^sup>*\<^sup>* (fst x) (fst (fst (account_step env c x)))"
proof -
  have "fst (account_step env c x) = x \<or> (\<exists>v. account_call_op env c x = (fst (account_step env c x), Inr v))"
    unfolding account_step_def by (rule unit_op_cases)
  then show ?thesis using calls_are_steps [of env c x] by (elim disjE exE) (simp, blast)
qed

lemma account_run_steps: "table_step\<^sup>*\<^sup>* (fst x) (fst (account_run env cs x))"
  unfolding account_run_def
proof (induction cs arbitrary: x)
  case (Cons c cs)
  show ?case using account_step_steps [of x env c] Cons.IH [of "fst (account_step env c x)"] by simp
qed simp

section \<open>The invariant\<close>

text \<open>Identifiers, addresses and identities are unique, versions start at one, every row belongs to a user, and an active session to
  an active user whose version it carries.\<close>

definition session_ok :: "account_tables \<Rightarrow> user_session \<Rightarrow> bool" where
  "session_ok t s \<longleftrightarrow> (case user_of t (ss_user_id s) of None \<Rightarrow> False
     | Some u \<Rightarrow> ss_status s = ''active'' \<longrightarrow> us_status u = ''active'' \<and> us_token_version u = ss_token_version s)"

definition accounts_wf :: "account_tables \<Rightarrow> bool" where
  "accounts_wf t \<longleftrightarrow>
     distinct (map us_id (ac_users t)) \<and> distinct (map us_email (ac_users t)) \<and>
     (\<forall>u \<in> set (ac_users t). 1 \<le> us_token_version u) \<and> distinct (map uc_user_id (ac_credentials t)) \<and> distinct (map ss_id (ac_sessions t)) \<and>
     distinct (map (\<lambda>x. (xi_provider x, xi_subject x)) (ac_identities t)) \<and>
     (\<forall>c \<in> set (ac_credentials t). user_of t (uc_user_id c) \<noteq> None) \<and>
     (\<forall>x \<in> set (ac_identities t). user_of t (xi_user_id x) \<noteq> None) \<and>
     (\<forall>s \<in> set (ac_sessions t). session_ok t s)"

lemma no_accounts_wf: "accounts_wf (no_accounts ts ms)"
  by (simp add: accounts_wf_def no_accounts_def)

lemma same_rows:
  assumes "\<And>u. us_id (f u) = us_id u" and "\<And>u. us_email (f u) = us_email u"
  shows "map us_id (ac_users (with_user_row i f t)) = map us_id (ac_users t)"
    and "map us_email (ac_users (with_user_row i f t)) = map us_email (ac_users t)"
  by (auto simp: with_user_row_def assms)

lemma same_sessions: "map ss_id (ac_sessions (revoke_in P r now t)) = map ss_id (ac_sessions t)"
  by (auto simp: revoke_in_def)

lemma other_tables [simp]:
  "ac_credentials (with_user_row i f t) = ac_credentials t" "ac_identities (with_user_row i f t) = ac_identities t"
  "ac_sessions (with_user_row i f t) = ac_sessions t" "ac_users (revoke_in P r now t) = ac_users t"
  "ac_credentials (revoke_in P r now t) = ac_credentials t" "ac_identities (revoke_in P r now t) = ac_identities t"
  by (simp_all add: with_user_row_def revoke_in_def)

lemma user_of_added:
  assumes "user_of t i = Some u"
  shows "user_of (t\<lparr>ac_users := ac_users t @ us\<rparr>) i = Some u"
  using assms by (simp add: user_of_def find_append)

lemma same_credential_keys:
  "map uc_user_id (map (\<lambda>c. if uc_user_id c = i then c\<lparr>uc_password_hash := h, uc_updated_at := now\<rparr> else c) cs)
     = map uc_user_id cs"
  by auto

text \<open>The rows of users change; the users and the sessions are looked at apart.\<close>

lemma wf_users_change:
  assumes "accounts_wf t" and "distinct (map us_id us)" and "distinct (map us_email us)"
    and "\<And>u. u \<in> set us \<Longrightarrow> 1 \<le> us_token_version u"
    and "\<And>i. user_of t i \<noteq> None \<Longrightarrow> user_of (t\<lparr>ac_users := us\<rparr>) i \<noteq> None"
    and "\<And>s. s \<in> set ss \<Longrightarrow> session_ok (t\<lparr>ac_users := us\<rparr>) s" and "map ss_id ss = map ss_id (ac_sessions t)"
  shows "accounts_wf (t\<lparr>ac_users := us, ac_sessions := ss\<rparr>)"
proof -
  have "session_ok (t\<lparr>ac_users := us, ac_sessions := ss\<rparr>) s = session_ok (t\<lparr>ac_users := us\<rparr>) s" for s
    by (simp add: session_ok_def)
  then show ?thesis using assms unfolding accounts_wf_def by (simp add: user_of_def)
qed

lemma session_ok_other [simp]:
  "session_ok (t\<lparr>ac_credentials := cs\<rparr>) s = session_ok t s" "session_ok (t\<lparr>ac_identities := xs\<rparr>) s = session_ok t s"
  "session_ok (t\<lparr>ac_sessions := ss\<rparr>) s = session_ok t s"
  by (simp_all add: session_ok_def)

lemma session_ok_added: "session_ok t s \<Longrightarrow> session_ok (t\<lparr>ac_users := ac_users t @ us\<rparr>) s"
  by (auto simp: session_ok_def user_of_added split: option.splits)

lemma session_ok_revoked: "session_ok t s \<Longrightarrow> session_ok t (revoked r now s)"
  by (auto simp: session_ok_def split: option.splits)

lemma session_ok_profile:
  "session_ok t s \<Longrightarrow> session_ok (with_user_row i (\<lambda>u. u\<lparr>us_display_name := n\<rparr>) t) s"
  by (auto simp: session_ok_def user_of_with_user_row split: option.splits)

lemma session_ok_disabled:
  assumes "session_ok t s"
  shows "session_ok (with_user_row i disabled t) (if ss_status s = ''active'' \<and> ss_user_id s = i then revoked r now s else s)"
proof -
  obtain u where u: "user_of t (ss_user_id s) = Some u" "us_id u = ss_user_id s"
    using assms user_of_id by (auto simp: session_ok_def split: option.splits)
  then show ?thesis using assms by (auto simp: session_ok_def user_of_with_user_row)
qed

lemma table_step_wf: "table_step t t' \<Longrightarrow> accounts_wf t \<Longrightarrow> accounts_wf t'"
proof (induction rule: table_step.induct)
  case (user_added u t)
  have "accounts_wf (t\<lparr>ac_users := ac_users t @ [u], ac_sessions := ac_sessions t\<rparr>)"
    by (rule wf_users_change)
      (use user_added in \<open>auto simp: accounts_wf_def user_of_def find_append intro: session_ok_added split: option.splits\<close>)
  then show ?case by simp
next
  case (credential_added t c)
  then show ?case by (auto simp: accounts_wf_def credential_of_def find_None_iff)
next
  case (profile_changed t i n)
  let ?t = "with_user_row i (\<lambda>u. u\<lparr>us_display_name := n\<rparr>) t"
  have eq: "t\<lparr>ac_users := ac_users ?t\<rparr> = ?t" by (simp add: with_user_row_def)
  have versions: "1 \<le> us_token_version u" if "u \<in> set (ac_users ?t)" for u
    using that profile_changed by (auto simp: with_user_row_def accounts_wf_def split: if_splits)
  have "accounts_wf (t\<lparr>ac_users := ac_users ?t, ac_sessions := ac_sessions t\<rparr>)"
    by (rule wf_users_change)
      (use profile_changed versions in \<open>auto simp: eq same_rows user_of_with_user_row accounts_wf_def intro: session_ok_profile\<close>)
  then show ?case by (simp add: with_user_row_def)
next
  case (password_changed t i h now)
  then show ?case unfolding accounts_wf_def by (simp add: same_credential_keys del: map_map) auto
next
  case (identity_bound t x)
  then show ?case by (auto simp: accounts_wf_def bound_identity_def find_None_iff)
next
  case (session_opened t u n i p now)
  then show ?case by (auto simp: accounts_wf_def session_of_None opened_session_def may_log_in_def session_ok_def)
next
  case (sessions_revoked t P reason now)
  have "accounts_wf (t\<lparr>ac_users := ac_users t, ac_sessions := ac_sessions (revoke_in P reason now t)\<rparr>)"
    by (rule wf_users_change)
      (use sessions_revoked in \<open>auto simp: same_sessions accounts_wf_def revoke_in_def intro!: session_ok_revoked\<close>)
  then show ?case by (simp add: revoke_in_def)
next
  case (user_disabled t i reason now)
  let ?t = "with_user_row i disabled t"
  have eq: "t\<lparr>ac_users := ac_users ?t\<rparr> = ?t" by (simp add: with_user_row_def)
  have "accounts_wf (t\<lparr>ac_users := ac_users ?t, ac_sessions := ac_sessions (revoke_in (\<lambda>s. ss_user_id s = i) reason now ?t)\<rparr>)"
  proof (rule wf_users_change)
    fix s assume "s \<in> set (ac_sessions (revoke_in (\<lambda>s. ss_user_id s = i) reason now ?t))"
    then obtain r where r: "r \<in> set (ac_sessions t)"
        "s = (if ss_status r = ''active'' \<and> ss_user_id r = i then revoked reason now r else r)"
      by (auto simp: revoke_in_def)
    then show "session_ok (t\<lparr>ac_users := ac_users ?t\<rparr>) s"
      unfolding eq r(2) using user_disabled by (intro session_ok_disabled) (simp add: accounts_wf_def)
  next
    fix u assume "u \<in> set (ac_users ?t)"
    then obtain v where "v \<in> set (ac_users t)" "us_token_version v \<le> us_token_version u"
      by (auto simp: with_user_row_def split: if_splits)
    then show "1 \<le> us_token_version u" using user_disabled by (auto simp: accounts_wf_def dest!: bspec)
  qed (use user_disabled in \<open>auto simp: eq same_rows same_sessions user_of_with_user_row accounts_wf_def\<close>)
  then show ?case by (simp add: revoke_in_def with_user_row_def)
qed simp

lemma table_steps_wf: "table_step\<^sup>*\<^sup>* t t' \<Longrightarrow> accounts_wf t \<Longrightarrow> accounts_wf t'"
  by (induction rule: rtranclp_induct) (auto intro: table_step_wf)

lemma account_run_wf: "accounts_wf (fst (account_run env cs (no_accounts ts ms, w)))"
proof -
  have "table_step\<^sup>*\<^sup>* (no_accounts ts ms) (fst (account_run env cs (no_accounts ts ms, w)))"
    using account_run_steps [of "(no_accounts ts ms, w)" env cs] by simp
  then show ?thesis by (rule table_steps_wf [OF _ no_accounts_wf])
qed

text \<open>C23: In every state the service reaches, identifiers, addresses, credentials and external identities are unique,
  every row belongs to a user, and an active session belongs to an active user whose token version it carries.
\<close>

theorem accounts_invariant:
  "accounts_wf (fst (account_run env cs (no_accounts ts ms, w)))"
  by (rule account_run_wf)

section \<open>Which tokens open a session\<close>

definition principal_user :: "user_row \<Rightarrow> user_session \<Rightarrow> current_user" where
  "principal_user u s = \<lparr>cu_id = us_id u, cu_email = us_email u, cu_display_name = us_display_name u,
     cu_provider = ss_auth_provider s, cu_session_id = ss_id s, cu_token_version = us_token_version u,
     cu_tenant_id = ss_tenant_id s\<rparr>"

text \<open>The reference: the token carries the claims of an active session.\<close>

definition token_opens :: "account_tables \<Rightarrow> token_claims \<Rightarrow> current_user option" where
  "token_opens t k =
    (case session_of t (tk_session_id k) of
       None \<Rightarrow> None
     | Some s \<Rightarrow>
         if ss_status s = ''active'' \<and> k = session_claims s
         then map_option (\<lambda>u. principal_user u s) (user_of t (ss_user_id s)) else None)"

lemma refuse_first_ok: "refuse_first cs = Inr () \<longleftrightarrow> (\<forall>(bad, reason) \<in> set cs. \<not> bad)"
  by (induction cs rule: refuse_first.induct) auto

lemma load_principal_Some:
  "load_principal t i = Some p \<longleftrightarrow> (\<exists>s u. session_of t i = Some s \<and> user_of t (ss_user_id s) = Some u \<and>
     p = \<lparr>pn_user_id = us_id u, pn_email = us_email u, pn_display_name = us_display_name u,
       pn_provider = ss_auth_provider s, pn_session_id = ss_id s, pn_session_status = ss_status s,
       pn_user_status = us_status u, pn_session_token_version = ss_token_version s,
       pn_user_token_version = us_token_version u, pn_tenant_id = ss_tenant_id s\<rparr>)"
  by (auto simp: load_principal_def split: option.splits)

lemma authenticate_loaded:
  assumes "load (tk_session_id k) = Some p"
  shows "authenticate load k = Inr c \<longleftrightarrow> validate_claims k = Inr () \<and>
     pn_user_id p = tk_user_id k \<and> pn_provider p = tk_provider k \<and> pn_session_status p = ''active'' \<and>
     pn_user_status p = ''active'' \<and> pn_user_token_version p = tk_token_version k \<and>
     pn_session_token_version p = tk_token_version k \<and> pn_tenant_id p = tk_tenant_id k \<and>
     c = \<lparr>cu_id = pn_user_id p, cu_email = pn_email p, cu_display_name = pn_display_name p, cu_provider = pn_provider p,
       cu_session_id = pn_session_id p, cu_token_version = pn_user_token_version p, cu_tenant_id = pn_tenant_id p\<rparr>"
  by (auto simp: authenticate_def assms rbind_Inr_iff refuse_first_ok)

lemma claims_eq:
  "k = session_claims s \<longleftrightarrow> tk_user_id k = ss_user_id s \<and> tk_session_id k = ss_id s \<and> tk_provider k = ss_auth_provider s \<and>
     tk_token_version k = ss_token_version s \<and> tk_tenant_id k = ss_tenant_id s"
  by (cases k) (auto simp: session_claims_def)

lemma authenticate_ok:
  "authenticate (load_principal t) k = Inr c \<longleftrightarrow> validate_claims k = Inr () \<and>
     (\<exists>s u. session_of t (tk_session_id k) = Some s \<and> user_of t (ss_user_id s) = Some u \<and>
        ss_status s = ''active'' \<and> us_status u = ''active'' \<and> us_token_version u = ss_token_version s \<and>
        k = session_claims s \<and> c = principal_user u s)"
proof (cases "load_principal t (tk_session_id k)")
  case None
  then show ?thesis by (auto simp: authenticate_def rbind_Inr_iff load_principal_def split: option.splits)
next
  case (Some p)
  then obtain s u where s: "session_of t (tk_session_id k) = Some s" "user_of t (ss_user_id s) = Some u"
    and p: "p = \<lparr>pn_user_id = us_id u, pn_email = us_email u, pn_display_name = us_display_name u,
       pn_provider = ss_auth_provider s, pn_session_id = ss_id s, pn_session_status = ss_status s,
       pn_user_status = us_status u, pn_session_token_version = ss_token_version s,
       pn_user_token_version = us_token_version u, pn_tenant_id = ss_tenant_id s\<rparr>"
    by (auto simp: load_principal_Some)
  have ids: "ss_id s = tk_session_id k" "us_id u = ss_user_id s" using session_of_id [OF s(1)] user_of_id [OF s(2)] by auto
  show ?thesis unfolding authenticate_loaded [of "load_principal t" k p, OF Some] claims_eq using s ids
    by (auto simp: p principal_user_def)
qed

lemma refreshed_claims_ok:
  "refreshed_claims k t = Inr r \<longleftrightarrow> r = k \<and>
     (\<exists>s u. session_of t (tk_session_id k) = Some s \<and> user_of t (ss_user_id s) = Some u \<and>
        ss_status s = ''active'' \<and> us_status u = ''active'' \<and> us_token_version u = ss_token_version s \<and> k = session_claims s)"
proof (cases "session_of t (tk_session_id k)")
  case None
  then show ?thesis by (simp add: refreshed_claims_def)
next
  case (Some s)
  have id: "ss_id s = tk_session_id k" using session_of_id [OF Some] by simp
  show ?thesis
  proof (cases "user_of t (ss_user_id s)")
    case None
    then show ?thesis using Some by (simp add: refreshed_claims_def get_user_def)
  next
    case (Some u)
    have "us_id u = ss_user_id s" using user_of_id [OF Some] by simp
    then show ?thesis using Some \<open>session_of t (tk_session_id k) = Some s\<close> id
      unfolding claims_eq
      by (cases r; cases k) (auto simp: refreshed_claims_def get_user_def rbind_Inr_iff refuse_first_ok)
  qed
qed

lemma wf_active_session:
  assumes "accounts_wf t" and "session_of t i = Some s" and "ss_status s = ''active''"
  obtains u where "user_of t (ss_user_id s) = Some u" and "us_status u = ''active''" and "us_token_version u = ss_token_version s"
proof -
  have "session_ok t s" using assms(1) session_of_id [OF assms(2)] by (simp add: accounts_wf_def)
  then show thesis using that assms(3) by (auto simp: session_ok_def split: option.splits)
qed

lemma token_opens_iff:
  "token_opens t k = Some c \<longleftrightarrow> (\<exists>s u. session_of t (tk_session_id k) = Some s \<and> ss_status s = ''active'' \<and>
     k = session_claims s \<and> user_of t (ss_user_id s) = Some u \<and> c = principal_user u s)"
  by (auto simp: token_opens_def split: option.splits if_splits)

lemma active_session_iff:
  assumes "accounts_wf t"
  shows "(\<exists>s u. session_of t i = Some s \<and> user_of t (ss_user_id s) = Some u \<and> ss_status s = ''active'' \<and>
      us_status u = ''active'' \<and> us_token_version u = ss_token_version s \<and> P s u) \<longleftrightarrow>
    (\<exists>s u. session_of t i = Some s \<and> ss_status s = ''active'' \<and> user_of t (ss_user_id s) = Some u \<and> P s u)"
proof -
  have "us_status u = ''active'' \<and> us_token_version u = ss_token_version s"
    if "session_of t i = Some s" "ss_status s = ''active''" "user_of t (ss_user_id s) = Some u" for s u
    using wf_active_session [OF assms that(1,2)] that(3) by auto
  then show ?thesis by blast
qed

lemma authenticate_opens:
  assumes "accounts_wf t"
  shows "authenticate (load_principal t) k = Inr c \<longleftrightarrow> validate_claims k = Inr () \<and> token_opens t k = Some c"
  unfolding authenticate_ok token_opens_iff
  using active_session_iff [OF assms, of "tk_session_id k" "\<lambda>s u. k = session_claims s \<and> c = principal_user u s"] by blast

lemma refreshed_opens:
  assumes "accounts_wf t"
  shows "refreshed_claims k t = Inr r \<longleftrightarrow> r = k \<and> (\<exists>c. token_opens t k = Some c)"
  unfolding refreshed_claims_ok token_opens_iff
  using active_session_iff [OF assms, of "tk_session_id k" "\<lambda>s u. k = session_claims s"] by blast

text \<open>C22: In every state the service reaches, authentication accepts a token exactly when its claims are well formed
  and are those of an active session, and gives the session's user; a token can be refreshed exactly when its
  claims are those of an active session, and it is given the same claims again.
\<close>

theorem tokens_open_active_sessions:
  "let t = fst (account_run env cs (no_accounts ts ms, w)) in
   (case authenticate (load_principal t) k of
      Inr c \<Rightarrow> validate_claims k = Inr () \<and> token_opens t k = Some c
    | Inl _ \<Rightarrow> \<not> (validate_claims k = Inr () \<and> token_opens t k \<noteq> None)) \<and>
   (case refreshed_claims k t of Inr r \<Rightarrow> r = k \<and> token_opens t k \<noteq> None | Inl _ \<Rightarrow> token_opens t k = None)"
proof -
  define t where "t = fst (account_run env cs (no_accounts ts ms, w))"
  have wf: "accounts_wf t" unfolding t_def by (rule account_run_wf)
  have a: "case authenticate (load_principal t) k of
      Inr c \<Rightarrow> validate_claims k = Inr () \<and> token_opens t k = Some c
    | Inl _ \<Rightarrow> \<not> (validate_claims k = Inr () \<and> token_opens t k \<noteq> None)"
  proof (cases "authenticate (load_principal t) k")
    case (Inl e)
    then have "\<not> (validate_claims k = Inr () \<and> token_opens t k = Some c)" for c
      using authenticate_opens [OF wf, of k c] by simp
    then have "\<not> (validate_claims k = Inr () \<and> token_opens t k \<noteq> None)" by (cases "token_opens t k") auto
    then show ?thesis using Inl by simp
  next
    case (Inr c)
    then show ?thesis using authenticate_opens [OF wf, of k c] by simp
  qed
  have r: "case refreshed_claims k t of Inr r \<Rightarrow> r = k \<and> token_opens t k \<noteq> None | Inl _ \<Rightarrow> token_opens t k = None"
  proof (cases "refreshed_claims k t")
    case (Inl e)
    then have "\<not> (k = k \<and> (\<exists>c. token_opens t k = Some c))" using refreshed_opens [OF wf, of k k] by simp
    then show ?thesis using Inl by simp
  next
    case (Inr r)
    then show ?thesis using refreshed_opens [OF wf, of k r] by auto
  qed
  show ?thesis using a r unfolding t_def Let_def by blast
qed

section \<open>Revocation\<close>

text \<open>The sessions a call revokes, and the user a call disables.\<close>

fun revokes :: "account_call \<Rightarrow> user_session \<Rightarrow> bool" where
  "revokes (Revoke_Own i sid r now) s \<longleftrightarrow> ss_id s = sid"
| "revokes (Disable_User now i r c) s \<longleftrightarrow> ss_user_id s = i"
| "revokes (Revoke_User now i r c) s \<longleftrightarrow> ss_user_id s = i"
| "revokes (Revoke_Tenant now n r c) s \<longleftrightarrow> ss_tenant_id s = Some n"
| "revokes (Revoke_Lifecycle now n r) s \<longleftrightarrow> ss_tenant_id s = Some n"
| "revokes c s \<longleftrightarrow> False"

lemma revoke_in_ends:
  "session_of t i = Some s \<Longrightarrow> P s \<Longrightarrow> \<exists>r. session_of (revoke_in P reason now t) i = Some r \<and> ss_status r \<noteq> ''active''"
  by (auto simp: session_of_revoke_in)

lemma step_returns: "account_step env c x = (y, Inr v) \<Longrightarrow> account_call_op env c x = (y, Inr v)"
  by (auto simp: account_step_def unit_op_def split: prod.splits sum.splits)

lemma call_ends_sessions:
  assumes "account_step env c x = (y, Inr v)" and "session_of (fst x) i = Some s" and "revokes c s"
  shows "\<exists>r. session_of (fst y) i = Some r \<and> ss_status r \<noteq> ''active''"
proof -
  have op: "account_call_op env c x = (y, Inr v)" by (rule step_returns [OF assms(1)])
  show ?thesis
  proof (cases c)
    case (Revoke_Own j sid r now)
    then obtain q k where q: "revoke_own_session j sid r now x = (y, Inr k)" using op by (auto simp: drop_value_returns)
    have "i = sid" using Revoke_Own assms(3) session_of_id [OF assms(2)] by simp
    then show ?thesis using q assms(2) by (elim revoke_own_returns) (auto intro: revoke_in_ends)
  next
    case (Disable_User now j r k)
    then obtain u where "disable_user env now j r k x = (y, Inr u)" using op by (auto simp: drop_value_returns)
    then show ?thesis using assms(2,3) Disable_User
      by (elim disable_user_returns) (auto intro!: revoke_in_ends)
  next
    case (Revoke_User now j r k)
    then obtain n where "revoke_user_sessions env now j r k x = (y, Inr n)" using op by (auto simp: drop_value_returns)
    then show ?thesis using assms(2,3) Revoke_User by (auto dest!: revoke_user_returns intro!: revoke_in_ends)
  next
    case (Revoke_Tenant now j r k)
    then obtain n where "revoke_tenant_sessions env now j r k x = (y, Inr n)" using op by (auto simp: drop_value_returns)
    then show ?thesis using assms(2,3) Revoke_Tenant by (auto dest!: revoke_tenant_returns intro!: revoke_in_ends)
  next
    case (Revoke_Lifecycle now j r)
    then obtain n where "revoke_active None (Some j) r now x = (y, Inr n)"
      using op by (auto simp: drop_value_returns revoke_for_lifecycle_def)
    then show ?thesis using assms(2,3) Revoke_Lifecycle by (auto simp: revoke_active_returns intro!: revoke_in_ends)
  qed (use assms(3) in auto)
qed

lemma account_run_evolves: "accounts_evolve (fst x) (fst (account_run env cs x))"
  by (rule table_steps_evolve [OF account_run_steps])

lemma ended_session_refused:
  assumes "session_of t (tk_session_id k) = Some s" and "ss_status s \<noteq> ''active''"
  shows "authenticate (load_principal t) k \<noteq> Inr c" and "refreshed_claims k t \<noteq> Inr r"
  using assms by (auto simp: authenticate_ok refreshed_claims_ok)

lemma refresh_refused: "refreshed_claims k (fst x) \<noteq> Inr r \<Longrightarrow> refresh_session_token env k q x \<noteq> (y, Inr r)"
  using refresh_returns(2) by blast

text \<open>C2: Revocation is final: after a call that logged a session out, revoked the sessions of its user or tenant or
  disabled its user, whatever calls follow, no token of that session authenticates and none is refreshed.
\<close>

theorem revocation_is_final:
  assumes "account_step env c x = (y, Inr v)" and "session_of (fst x) (tk_session_id k) = Some s" and "revokes c s"
  shows "case authenticate (load_principal (fst (account_run env cs y))) k of Inl _ \<Rightarrow>
      (case snd (refresh_session_token env k q (account_run env cs y)) of Inl _ \<Rightarrow> True | Inr _ \<Rightarrow> False) | Inr _ \<Rightarrow> False"
proof -
  let ?z = "account_run env cs y"
  obtain r where r: "session_of (fst y) (tk_session_id k) = Some r" "ss_status r \<noteq> ''active''"
    using call_ends_sessions [OF assms] by blast
  then have "session_of (fst ?z) (tk_session_id k) = Some r"
    using accounts_evolve_session [OF account_run_evolves r(1)] by (auto simp: session_keeps_def)
  note refused = ended_session_refused [OF this r(2)]
  have a: "\<exists>e. authenticate (load_principal (fst ?z)) k = Inl e"
    using refused(1) by (cases "authenticate (load_principal (fst ?z)) k") auto
  have b: "\<exists>e. snd (refresh_session_token env k q ?z) = Inl e"
    using refresh_refused [OF refused(2)] by (cases "refresh_session_token env k q ?z"; cases "snd (refresh_session_token env k q ?z)") auto
  show ?thesis using a b by auto
qed

lemma disabled_stays:
  assumes "disable_user env now i reason c x = (y, Inr u)"
  obtains v where "user_of (fst (account_run env cs y)) i = Some v" and "us_status v \<noteq> ''active''" and "us_email v = us_email u"
proof -
  obtain w where w: "user_of (fst x) i = Some w" "u = disabled w"
    and y: "fst y = revoke_in (\<lambda>s. ss_user_id s = i) reason now (with_user_row i disabled (fst x))"
    by (rule disable_user_returns [OF assms])
  have "user_of (fst y) i = Some u"
    unfolding y using w user_of_id [OF w(1)] by (simp add: user_of_with_user_row)
  from accounts_evolve_user [OF account_run_evolves this, of env cs] obtain v
    where "user_of (fst (account_run env cs y)) i = Some v" "user_keeps u v" by blast
  then show thesis using that w(2) by (auto simp: user_keeps_def)
qed

text \<open>A disabled user is out for good: after \<open>disable_user\<close> returned, whatever calls follow, no token naming the
  user authenticates, no session is opened for the user, and the password does not verify.
\<close>

theorem disabled_user_is_out:
  assumes "disable_user env now i reason c x = (y, Inr u)"
  shows "case authenticate (load_principal (fst (account_run env cs y))) (k\<lparr>tk_user_id := i\<rparr>) of
      Inl _ \<Rightarrow> (case snd (create_session env f later i n p q (account_run env cs y)) of
        Inl e \<Rightarrow> exn_code e = Some ''USER_DISABLED'' | Inr _ \<Rightarrow> False)
    | Inr _ \<Rightarrow> False"
proof -
  let ?z = "account_run env cs y"
  obtain v where v: "user_of (fst ?z) i = Some v" "us_status v \<noteq> ''active''" by (rule disabled_stays [OF assms])
  have "authenticate (load_principal (fst ?z)) (k\<lparr>tk_user_id := i\<rparr>) \<noteq> Inr a" for a
  proof
    assume "authenticate (load_principal (fst ?z)) (k\<lparr>tk_user_id := i\<rparr>) = Inr a"
    then obtain s w where "user_of (fst ?z) (ss_user_id s) = Some w" "us_status w = ''active''"
        "k\<lparr>tk_user_id := i\<rparr> = session_claims s"
      unfolding authenticate_ok by blast
    moreover from this(3) have "ss_user_id s = i" by (simp add: claims_eq)
    ultimately show False using v by simp
  qed
  then obtain e where e: "authenticate (load_principal (fst ?z)) (k\<lparr>tk_user_id := i\<rparr>) = Inl e"
    by (cases "authenticate (load_principal (fst ?z)) (k\<lparr>tk_user_id := i\<rparr>)") auto
  have "snd (create_session env f later i n p q ?z) = Inl (app_error ''USER_DISABLED'' ''disabled users cannot create sessions'' (Some 403) [])"
    unfolding create_session_def using v by (simp add: sbind_def reads_def get_user_def)
  then show ?thesis using e by simp
qed

section \<open>Passwords\<close>

lemma lower_char_code:
  "(of_char (lower_char c) :: nat) = (let n = of_char c in if 65 \<le> n \<and> n \<le> 90 \<or> 192 \<le> n \<and> n \<le> 222 \<and> n \<noteq> 215 then n + 32 else n)"
proof -
  have "(of_char c :: nat) < 256" by simp
  then show ?thesis by (auto simp: lower_char_def Let_def)
qed

lemma is_space_code:
  "is_space c \<longleftrightarrow> (of_char c :: nat) \<in> {9, 10, 11, 12, 13, 28, 29, 30, 31, 32, 133, 160}"
proof -
  have "c = d \<longleftrightarrow> (of_char c :: nat) = of_char d" for c d :: char by simp
  note eq = this
  show ?thesis unfolding is_space_def by (simp add: eq del: of_char_eq_iff)
qed

lemma is_space_lower [simp]: "is_space (lower_char c) = is_space c"
  by (auto simp: is_space_code lower_char_code Let_def)

lemma lower_char_idem [simp]: "lower_char (lower_char c) = lower_char c"
proof -
  have "(of_char (lower_char (lower_char c)) :: nat) = of_char (lower_char c)"
    by (auto simp: lower_char_code Let_def)
  then show ?thesis by simp
qed

lemma strip_lower: "strip (lower s) = lower (strip s)"
proof -
  have "is_space \<circ> lower_char = is_space" by (rule ext) simp
  then show ?thesis by (simp add: strip_def lower_def dropWhile_map rev_map)
qed

lemma normalized_email [simp]: "lower (strip (lower (strip e))) = lower (strip e)"
proof -
  have "lower (lower s) = lower s" for s by (simp add: lower_def)
  then show ?thesis by (simp add: strip_lower)
qed

lemma split_max_here: "c \<notin> set s \<Longrightarrow> split_max c (Suc n) (s @ c # t) = s # split_max c n t"
proof -
  assume "c \<notin> set s"
  then have "dropWhile (\<lambda>d. d \<noteq> c) (s @ c # t) = c # t" and "takeWhile (\<lambda>d. d \<noteq> c) (s @ c # t) = s"
    by (induction s) auto
  then show ?thesis by simp
qed

definition ascii :: "string \<Rightarrow> bool" where
  "ascii s \<longleftrightarrow> list_all (\<lambda>c. (of_char c :: nat) < 128) s"

lemma compare_ascii: "ascii a \<Longrightarrow> ascii b \<Longrightarrow> compare_digest a b = Inr (a = b)"
  by (simp add: compare_digest_def ascii_def)

text \<open>What PBKDF2 gives: a digest in hexadecimal, for any password.\<close>

definition hex_digest :: "hasher \<Rightarrow> string \<Rightarrow> string \<Rightarrow> bool" where
  "hex_digest h salt p \<longleftrightarrow> (case ph_digest h p salt (ph_iterations h) of Inl _ \<Rightarrow> False | Inr d \<Rightarrow> ascii d)"

lemma int_str_no_dollar: "CHR ''$'' \<notin> set (int_str i)"
proof
  assume "CHR ''$'' \<in> set (int_str i)"
  then have "CHR ''$'' \<in> set (nat_str (nat i)) \<or> CHR ''$'' \<in> set (nat_str (nat (- i)))"
    by (auto simp: int_str_def split: if_splits)
  then obtain d where "d < 10" and "CHR ''$'' = digit d" using nat_str_chars by blast
  then have "(of_char (CHR ''$'') :: nat) = 48 + d" by (metis of_char_digit)
  then show False by simp
qed

lemma stored_password_verifies:
  assumes "hash_password h salt p = Inr stored" and "CHR ''$'' \<notin> set salt" and "hex_digest h salt p" and "hex_digest h salt q"
    and "ph_digest g = ph_digest h"
  shows "verify_password g q stored = Inr (q \<noteq> [] \<and> ph_digest h q salt (ph_iterations h) = ph_digest h p salt (ph_iterations h))"
proof -
  obtain d where d: "ph_digest h p salt (ph_iterations h) = Inr d" "ascii d" using assms(3) by (auto simp: hex_digest_def split: sum.splits)
  obtain b where b: "ph_digest h q salt (ph_iterations h) = Inr b" "ascii b" using assms(4) by (auto simp: hex_digest_def split: sum.splits)
  have stored: "stored = ''pbkdf2_sha256'' @ CHR ''$'' # (int_str (ph_iterations h) @ CHR ''$'' # (salt @ CHR ''$'' # d))"
    using assms(1) d(1) by (auto simp: hash_password_def split: if_splits)
  have 3: "(3::nat) = Suc (Suc (Suc 0))" by simp
  have "split_max CHR ''$'' 3 stored = [''pbkdf2_sha256'', int_str (ph_iterations h), salt, d]"
    unfolding stored 3 using split_max_here [OF assms(2), of 0 d]
      split_max_here [OF int_str_no_dollar, of "Suc 0" "ph_iterations h" "salt @ CHR ''$'' # d"]
      split_max_here [of "CHR ''$''" "''pbkdf2_sha256''" "Suc (Suc 0)" "int_str (ph_iterations h) @ CHR ''$'' # salt @ CHR ''$'' # d"]
    by (simp del: split_max.simps(2))
  then show ?thesis
    using d b by (simp add: verify_password_def py_int_def parse_int_str assms(5) compare_ascii refuse_value_error_def)
qed

lemma create_user_by_email:
  assumes "create_user i e n x = (y, Inr u)"
  shows "user_by_email (fst y) (lower (strip e)) = Some u"
proof -
  have y: "fst y = (fst x)\<lparr>ac_users := ac_users (fst x) @ [u]\<rparr>" and e: "us_email u = lower (strip e)"
    and new: "\<forall>v \<in> set (ac_users (fst x)). us_email v \<noteq> lower (strip e)"
    using assms by (auto simp: create_user_def returns add_user_returns Let_def)
  have "find (\<lambda>u. us_email u = lower (strip e)) (ac_users (fst x)) = None" using new by (auto simp: find_None_iff)
  then show ?thesis by (simp add: user_by_email_def y find_append e)
qed

text \<open>C25: A password is stored so that exactly the passwords with its digest verify: the one that was set does, for the
  address in any case and with any space around it, and another is refused unless its PBKDF2 digest is the same.
\<close>

theorem stored_password_opens_the_account:
  assumes "create_local_user env i salt now e n p x = (y, Inr u)"
    and "CHR ''$'' \<notin> set salt" and "hex_digest (ax_hasher env) salt p" and "hex_digest (ax_hasher env) salt q"
    and "lower (strip e') = lower (strip e)"
  shows "verify_local_password env e' q (fst y) =
    (if q \<noteq> [] \<and> ph_digest (ax_hasher env) q salt (ph_iterations (ax_hasher env))
          = ph_digest (ax_hasher env) p salt (ph_iterations (ax_hasher env))
     then Inr u else Inl (invalid_auth_token ''invalid_credentials''))"
proof -
  obtain h z where z: "create_user i (lower (strip e)) n x = (z, Inr u)" and h: "hash_password (ax_hasher env) salt p = Inr h"
    and none: "credential_of (fst z) i = None"
    and y: "fst y = (fst z)\<lparr>ac_credentials := ac_credentials (fst z) @ [\<lparr>uc_user_id = i, uc_password_hash = h, uc_updated_at = now\<rparr>]\<rparr>"
    by (rule create_local_user_returns [OF assms(1)])
  have "user_by_email (fst y) (lower (strip e)) = Some u"
    using create_user_by_email [OF z] by (simp add: y user_by_email_def)
  moreover have "us_id u = i" "us_status u = ''active''" by (rule create_user_returns(3,4) [OF z])+
  moreover have "credential_of (fst y) i = Some \<lparr>uc_user_id = i, uc_password_hash = h, uc_updated_at = now\<rparr>"
    using none by (simp add: y credential_of_def find_append)
  ultimately show ?thesis
    using stored_password_verifies [OF h assms(2,3,4) refl] by (simp add: verify_local_password_def assms(5))
qed

section \<open>Logins\<close>

text \<open>What a codec must do with a dictionary: write it without dots, and read it back with the same entries.\<close>

definition plain_text :: "string \<Rightarrow> bool" where
  "plain_text s \<longleftrightarrow> list_all (\<lambda>c. c \<noteq> CHR ''.'' \<and> \<not> is_space c \<and> (of_char c :: nat) < 128) s"

definition carries :: "codec \<Rightarrow> payload \<Rightarrow> bool" where
  "carries cd d \<longleftrightarrow> plain_text (cd_encode cd d) \<and>
     (case cd_decode cd (cd_encode cd d) of
        Inr (PDict d') \<Rightarrow> list_all (\<lambda>k. dget d' k = dget d k) (map fst (d @ d'))
      | _ \<Rightarrow> False)"

lemma plain_textD: "plain_text s \<Longrightarrow> CHR ''.'' \<notin> set s" "plain_text s \<Longrightarrow> ascii s"
    "plain_text s \<Longrightarrow> list_all (\<lambda>c. \<not> is_space c) s"
  by (auto simp: plain_text_def ascii_def list_all_iff)

lemma carries_reads:
  assumes "carries cd d"
  obtains d' where "decode_segment cd (cd_encode cd d) = Inr (PDict d')" and "\<And>k. payload_value d' k = payload_value d k"
proof -
  obtain d' where d: "cd_decode cd (cd_encode cd d) = Inr (PDict d')"
    and same: "list_all (\<lambda>k. dget d' k = dget d k) (map fst (d @ d'))"
    using assms by (auto simp: carries_def split: sum.splits pyval.splits)
  have "dget d' k = dget d k" for k
  proof (cases "k \<in> fst ` set (d @ d')")
    case True
    then show ?thesis using same by (auto simp: list_all_iff)
  next
    case False
    then have "dget d' k = None" "dget d k = None" by (auto simp: dget_def map_of_eq_None_iff)
    then show ?thesis by simp
  qed
  then show thesis using that [of d'] d by (simp add: decode_segment_def payload_value_def)
qed

lemma split_on_first: "c \<notin> set s \<Longrightarrow> split_on c (s @ c # t) = s # split_on c t"
  by (induction s) auto

lemma decode_issued:
  assumes "carries cd jwt_header" and "carries cd (jwt_payload c k now)" and "\<And>t. plain_text (cd_hmac cd (jw_secret c) t)"
  obtains h p where "decode_token cd (issue_token cd c k now)
      = Inr (h, p, cd_encode cd jwt_header @ ''.'' @ cd_encode cd (jwt_payload c k now),
          cd_hmac cd (jw_secret c) (cd_encode cd jwt_header @ ''.'' @ cd_encode cd (jwt_payload c k now)))"
    and "\<And>x. payload_value h x = payload_value jwt_header x"
    and "\<And>x. payload_value p x = payload_value (jwt_payload c k now) x"
proof -
  obtain h where h: "decode_segment cd (cd_encode cd jwt_header) = Inr (PDict h)" "\<And>x. payload_value h x = payload_value jwt_header x"
    by (rule carries_reads [OF assms(1)]) blast
  obtain p where p: "decode_segment cd (cd_encode cd (jwt_payload c k now)) = Inr (PDict p)"
      "\<And>x. payload_value p x = payload_value (jwt_payload c k now) x"
    by (rule carries_reads [OF assms(2)]) blast
  let ?i = "cd_encode cd jwt_header @ ''.'' @ cd_encode cd (jwt_payload c k now)"
  have "split_on CHR ''.'' (issue_token cd c k now)
      = [cd_encode cd jwt_header, cd_encode cd (jwt_payload c k now), cd_hmac cd (jw_secret c) ?i]"
    using assms by (simp add: issue_token_def Let_def split_on_first split_on_free carries_def plain_textD)
  then show thesis using that [of h p] h p by (simp add: decode_token_def)
qed

lemma token_round_trip:
  assumes "carries cd jwt_header" and "carries cd (jwt_payload c k now)" and "\<And>t. plain_text (cd_hmac cd (jw_secret c) t)"
    and "tk_user_id k \<noteq> []" and "tk_session_id k \<noteq> []" and "tk_provider k \<noteq> []" and "tk_tenant_id k \<noteq> Some []"
  shows "verify_token cd c (issue_token cd c k now) later =
    (if timestamp now + jw_ttl c \<le> timestamp later then Inl (invalid_auth_token ''token_expired'') else Inr k)"
proof -
  obtain h p where d: "decode_token cd (issue_token cd c k now)
      = Inr (h, p, cd_encode cd jwt_header @ ''.'' @ cd_encode cd (jwt_payload c k now),
          cd_hmac cd (jw_secret c) (cd_encode cd jwt_header @ ''.'' @ cd_encode cd (jwt_payload c k now)))"
    and h: "\<And>x. payload_value h x = payload_value jwt_header x"
    and p: "\<And>x. payload_value p x = payload_value (jwt_payload c k now) x"
    by (rule decode_issued [OF assms(1-3)]) blast
  have same: "compare_digest s s = Inr True" if "plain_text s" for s
    using that by (simp add: plain_textD compare_ascii)
  have "claims_of p = Inr k"
    using assms(4-7) by (cases k; cases "tk_user_id k"; cases "tk_session_id k"; cases "tk_provider k"; cases "tk_tenant_id k"; cases "the (tk_tenant_id k)")
      (simp_all add: claims_of_def str_claim_def int_claim_def optional_str_claim_def p, simp_all add: payload_value_def jwt_payload_def dget_def opt_str_def)
  moreover have "payload_value h ''alg'' = PStr ''HS256''" "payload_value p ''iss'' = PStr (jw_issuer c)"
      "payload_value p ''aud'' = PStr (jw_audience c)" "int_claim p ''exp'' = Inr (timestamp now + jw_ttl c)"
    by (simp_all add: h p int_claim_def, simp_all add: payload_value_def jwt_header_def jwt_payload_def dget_def)
  ultimately show ?thesis by (simp add: verify_token_def d same assms(3))
qed

lemma issued_no_space:
  assumes "carries cd jwt_header" and "carries cd (jwt_payload c k now)" and "\<And>t. plain_text (cd_hmac cd (jw_secret c) t)"
  shows "list_all (\<lambda>c. \<not> is_space c) (issue_token cd c k now)"
proof -
  have "\<not> is_space (CHR ''.'')" by (simp add: is_space_def)
  then show ?thesis using assms by (simp add: issue_token_def Let_def carries_def plain_textD)
qed

lemma bearer_reads:
  assumes "list_all (\<lambda>c. \<not> is_space c) token" and "token \<noteq> []"
  shows "bearer_token (Some (''Bearer '' @ token)) = Inr token"
proof -
  have "\<not> blank token" using assms by (cases token) auto
  then show ?thesis using strip_no_space [OF assms(1)]
    by (simp add: bearer_token_def) code_simp
qed

lemma issue_token_nonempty: "issue_token cd c k now \<noteq> []"
  by (simp add: issue_token_def Let_def)

lemma verify_local_password_user:
  "verify_local_password env e p t = Inr u \<Longrightarrow> user_by_email t (lower (strip e)) = Some u \<and> us_status u = ''active''"
  by (auto simp: verify_local_password_def rbind_Inr_iff split: option.splits if_splits)

lemma user_by_email_mem: "user_by_email t e = Some u \<Longrightarrow> us_email u = e"
  by (auto simp: user_by_email_def find_Some_iff)

lemma session_of_opened:
  "session_of t f = None \<Longrightarrow> ss_id s = f \<Longrightarrow> session_of (t\<lparr>ac_sessions := ac_sessions t @ [s]\<rparr>) f = Some s"
  by (simp add: session_of_def find_append)

lemma login_route_returns:
  assumes "login_route app f now e p n rq x = (y, Inr d)" and "default_accounts app = Inr env" and "route_jwt app = Inr c"
  obtains u v where "verify_local_password env e p (fst x) = Inr v" and "user_of (fst x) (us_id v) = Some u"
    and "may_log_in (fst x) u n" and "session_of (fst x) f = None"
    and "fst y = (fst x)\<lparr>ac_sessions := ac_sessions (fst x) @ [opened_session f u n ''local'' now]\<rparr>"
    and "payload_value d ''access_token'' = PStr (issue_token (ap_codec app) c (session_claims (opened_session f u n ''local'' now)) now)"
proof -
  obtain s where l: "authenticate_local_login env f now e p n (route_request_id rq) x = (y, Inr s)"
    and d: "login_read app now s = Inr d"
    using assms by (auto simp: login_route_def returns)
  obtain v where v: "verify_local_password env (lower (strip e)) p (fst x) = Inr v"
    and cs: "create_session env f now (us_id v) n ''local'' (route_request_id rq) x = (y, Inr s)"
    by (rule local_login_returns [OF l])
  have v': "verify_local_password env e p (fst x) = Inr v" using v by (simp add: verify_local_password_def)
  obtain u where u: "user_of (fst x) (us_id v) = Some u" "may_log_in (fst x) u n" "session_of (fst x) f = None"
      "s = opened_session f u n ''local'' now" "fst y = (fst x)\<lparr>ac_sessions := ac_sessions (fst x) @ [s]\<rparr>"
    by (rule create_session_returns [OF cs])
  have "payload_value d ''access_token'' = PStr (issue_token (ap_codec app) c (session_claims s) now)"
    using d by (auto simp: login_read_def assms(3) payload_value_def dget_def)
  then show thesis using that [OF v' u(1,2,3)] u(4,5) by simp
qed

text \<open>C3: A login with a password returns only for an active user whose password verifies and who may enter the tenant;
  it opens one session, and its bearer token, until it expires, reads back as the claims of that session and
  authenticates as the user with the address of the login, in the tenant of the login.
\<close>

theorem login_token_opens_the_session:
  assumes "login_route app f now e p n rq x = (y, Inr d)" and "default_accounts app = Inr env" and "route_jwt app = Inr c"
    and "accounts_wf (fst x)" and "payload_value d ''access_token'' = PStr token"
    and "session_of (fst y) f = Some s" and "carries (ap_codec app) jwt_header"
    and "carries (ap_codec app) (jwt_payload c (session_claims s) now)"
    and "\<And>t. plain_text (cd_hmac (ap_codec app) (jw_secret c) t)"
    and "\<not> blank f" and "\<not> blank (ss_user_id s)" and "n \<noteq> Some []"
  shows "is_ok (verify_local_password env e p (fst x)) \<and>
    (case n of None \<Rightarrow> True | Some t \<Rightarrow> is_ok (assert_tenant_login_allowed (ss_user_id s) t (fst x))) \<and>
    fst y = (fst x)\<lparr>ac_sessions := ac_sessions (fst x) @ [s]\<rparr> \<and>
    rbind (bearer_token (Some (''Bearer '' @ token))) (\<lambda>t. verify_token (ap_codec app) c t later)
      = (if timestamp now + jw_ttl c \<le> timestamp later then Inl (invalid_auth_token ''token_expired'') else Inr (session_claims s)) \<and>
    (case authenticate (load_principal (fst y)) (session_claims s) of
        Inr u \<Rightarrow> cu_email u = lower (strip e) \<and> cu_tenant_id u = n \<and> cu_session_id u = f | Inl _ \<Rightarrow> False)"
proof -
  obtain u v where v: "verify_local_password env e p (fst x) = Inr v" and u: "user_of (fst x) (us_id v) = Some u"
    and log: "may_log_in (fst x) u n" and new: "session_of (fst x) f = None"
    and y: "fst y = (fst x)\<lparr>ac_sessions := ac_sessions (fst x) @ [opened_session f u n ''local'' now]\<rparr>"
    and tok: "payload_value d ''access_token'' = PStr (issue_token (ap_codec app) c (session_claims (opened_session f u n ''local'' now)) now)"
    by (rule login_route_returns [OF assms(1-3)])
  have s: "s = opened_session f u n ''local'' now"
    using session_of_opened [OF new, of "opened_session f u n ''local'' now"] assms(6) by (simp add: y opened_session_def)
  have tenant: "case n of None \<Rightarrow> True | Some t \<Rightarrow> is_ok (assert_tenant_login_allowed (ss_user_id s) t (fst x))"
    using log by (auto simp: may_log_in_def s opened_session_def split: option.splits)
  have token: "token = issue_token (ap_codec app) c (session_claims s) now" using tok assms(5) by (simp add: s)
  have nonempty: "tk_user_id (session_claims s) \<noteq> []" "tk_session_id (session_claims s) \<noteq> []" "tk_provider (session_claims s) \<noteq> []"
      "tk_tenant_id (session_claims s) \<noteq> Some []"
    using assms(10-12) by (auto simp: session_claims_def s opened_session_def)
  have "bearer_token (Some (''Bearer '' @ token)) = Inr token"
    unfolding token by (rule bearer_reads [OF issued_no_space [OF assms(7-9)] issue_token_nonempty])
  then have reads: "rbind (bearer_token (Some (''Bearer '' @ token))) (\<lambda>t. verify_token (ap_codec app) c t later)
      = (if timestamp now + jw_ttl c \<le> timestamp later then Inl (invalid_auth_token ''token_expired'') else Inr (session_claims s))"
    using token_round_trip [OF assms(7-9) nonempty, of later] by (simp add: token)
  have mem: "u \<in> set (ac_users (fst x))" "us_id u = us_id v" using user_of_id [OF u] by auto
  have vm: "v \<in> set (ac_users (fst x))" "us_email v = lower (strip e)"
    using verify_local_password_user [OF v] by (auto simp: user_by_email_def find_Some_iff)
  have "u = v" using mem vm(1) assms(4) by (auto simp: accounts_wf_def distinct_map dest: inj_onD)
  have "validate_claims (session_claims s) = Inr ()"
    using mem assms(4,10,11) by (auto simp: validate_claims_def session_claims_def s opened_session_def accounts_wf_def is_space_def)
  moreover have "user_of (fst y) (us_id u) = Some u" using u mem by (simp add: y)
  moreover have "session_of (fst y) (tk_session_id (session_claims s)) = Some s"
    using assms(6) by (simp add: session_claims_def s opened_session_def)
  ultimately have "authenticate (load_principal (fst y)) (session_claims s) = Inr (principal_user u s)"
    unfolding authenticate_ok using log by (auto simp: s opened_session_def may_log_in_def)
  then have who: "case authenticate (load_principal (fst y)) (session_claims s) of
        Inr u \<Rightarrow> cu_email u = lower (strip e) \<and> cu_tenant_id u = n \<and> cu_session_id u = f | Inl _ \<Rightarrow> False"
    using \<open>u = v\<close> vm(2) by (simp add: principal_user_def s opened_session_def)
  show ?thesis using v tenant y s reads who by (simp add: is_ok_def)
qed

section \<open>What an error and a new password leave\<close>

text \<open>The record of a failed login is written in the unit of work that the error rolls back.\<close>

theorem failed_login_leaves_no_trace:
  "case login_route app f now e p n rq x of (y, Inl er) \<Rightarrow> y = x | (y, Inr d) \<Rightarrow> True"
  by (auto simp: login_route_def unit_op_def split: prod.splits sum.splits)

text \<open>A new password ends no session: the tokens of before open what they opened.\<close>

theorem new_password_keeps_sessions:
  "case reset_local_password env salt now i p q x of (y, Inr _) \<Rightarrow> token_opens (fst y) k = token_opens (fst x) k | (y, Inl _) \<Rightarrow> True"
proof (cases "reset_local_password env salt now i p q x")
  case (Pair y r)
  show ?thesis
  proof (cases r)
    case (Inr v)
    then obtain h where "fst y = (fst x)\<lparr>ac_credentials :=
        map (\<lambda>c. if uc_user_id c = i then c\<lparr>uc_password_hash := h, uc_updated_at := now\<rparr> else c) (ac_credentials (fst x))\<rparr>"
      using Pair by (auto elim: reset_password_returns)
    then show ?thesis using Pair Inr by (simp add: token_opens_def cong: option.case_cong if_cong)
  qed (use Pair in simp)
qed

section \<open>Witnesses\<close>

definition demo_hasher :: hasher where
  "demo_hasher = \<lparr>ph_iterations = 1000, ph_salt_bytes = 16, ph_min_length = 8, ph_digest = (\<lambda>p s i. Inr (p @ s))\<rparr>"

definition demo_env :: "unit account_env" where
  "demo_env = \<lparr>ax_hasher = demo_hasher, ax_publish = None, ax_audit = None\<rparr>"

definition demo_user :: user_row where
  "demo_user = \<lparr>us_id = ''u1'', us_email = ''a@b'', us_display_name = ''A'', us_status = ''active'', us_token_version = 1\<rparr>"

definition demo_accounts :: account_tables where
  "demo_accounts = (no_accounts
       [\<lparr>tn_id = ''t1'', tn_name = ''T'', tn_code = ''t'', tn_status = Active, tn_deployment_mode = ''shared''\<rparr>]
       [\<lparr>tm_tenant_id = ''t1'', tm_user_id = ''u1'', tm_status = ''active''\<rparr>])
     \<lparr>ac_users := [demo_user],
      ac_credentials := [\<lparr>uc_user_id = ''u1'', uc_password_hash = ''pbkdf2_sha256$1000$ab$passwordab'', uc_updated_at = 0\<rparr>],
      ac_identities := [\<lparr>xi_id = ''i1'', xi_user_id = ''u1'', xi_provider = ''logto'', xi_subject = ''sub'', xi_created_at = 0\<rparr>],
      ac_sessions := [opened_session ''s1'' demo_user (Some ''t1'') ''local'' 0]\<rparr>"

definition demo_claims :: token_claims where
  "demo_claims = session_claims (opened_session ''s1'' demo_user (Some ''t1'') ''local'' 0)"

definition demo_logout :: account_call where
  "demo_logout = Revoke_Own ''u1'' ''s1'' ''logout'' 5"

definition demo_decision :: decision where
  "demo_decision = \<lparr>de_allowed = True, de_tenant_id = platform_tenant_id, de_user_id = ''admin'', de_resource = ''user'',
     de_action = ''manage'', de_reason = ''ok'', de_policy_version = None\<rparr>"

definition demo_admin :: account_caller where
  "demo_admin = \<lparr>ak_actor_id = Some ''admin'', ak_request_id = None, ak_decision = Some demo_decision\<rparr>"

lemma run_result: "snd z = Inr v \<Longrightarrow> z = (fst z, Inr v)"
  by (cases z) simp

theorem revocation_is_final_witness:
  "is_ok (authenticate (load_principal demo_accounts) demo_claims) \<and>
   (case authenticate (load_principal (fst (account_run demo_env [Local_Login ''s2'' 6 ''a@b'' ''password'' None None]
       (fst (account_step demo_env demo_logout (demo_accounts, ())))))) demo_claims of
     Inl _ \<Rightarrow> (case snd (refresh_session_token demo_env demo_claims None
        (account_run demo_env [Local_Login ''s2'' 6 ''a@b'' ''password'' None None]
          (fst (account_step demo_env demo_logout (demo_accounts, ()))))) of Inl _ \<Rightarrow> True | Inr _ \<Rightarrow> False)
   | Inr _ \<Rightarrow> False)"
proof
  show "is_ok (authenticate (load_principal demo_accounts) demo_claims)" by code_simp
  have "snd (account_step demo_env demo_logout (demo_accounts, ())) = Inr ()" by code_simp
  note step = run_result [OF this]
  have s: "session_of (fst (demo_accounts, ())) (tk_session_id demo_claims) = Some (opened_session ''s1'' demo_user (Some ''t1'') ''local'' 0)"
    by code_simp
  show "case authenticate (load_principal (fst (account_run demo_env [Local_Login ''s2'' 6 ''a@b'' ''password'' None None]
       (fst (account_step demo_env demo_logout (demo_accounts, ())))))) demo_claims of
     Inl _ \<Rightarrow> (case snd (refresh_session_token demo_env demo_claims None
        (account_run demo_env [Local_Login ''s2'' 6 ''a@b'' ''password'' None None]
          (fst (account_step demo_env demo_logout (demo_accounts, ()))))) of Inl _ \<Rightarrow> True | Inr _ \<Rightarrow> False)
   | Inr _ \<Rightarrow> False"
    by (rule revocation_is_final [OF step s]) code_simp
qed

theorem disabled_user_is_out_witness:
  "is_ok (snd (create_session demo_env ''s2'' 3 ''u1'' None ''local'' None (demo_accounts, ()))) \<and>
   (case authenticate (load_principal (fst (account_run demo_env []
       (fst (disable_user demo_env 5 ''u1'' ''left'' demo_admin (demo_accounts, ())))))) (demo_claims\<lparr>tk_user_id := ''u1''\<rparr>) of
      Inl _ \<Rightarrow> (case snd (create_session demo_env ''s2'' 6 ''u1'' None ''local'' None
          (account_run demo_env [] (fst (disable_user demo_env 5 ''u1'' ''left'' demo_admin (demo_accounts, ()))))) of
        Inl e \<Rightarrow> exn_code e = Some ''USER_DISABLED'' | Inr _ \<Rightarrow> False)
    | Inr _ \<Rightarrow> False)"
proof
  show "is_ok (snd (create_session demo_env ''s2'' 3 ''u1'' None ''local'' None (demo_accounts, ())))" by code_simp
  have "snd (disable_user demo_env 5 ''u1'' ''left'' demo_admin (demo_accounts, ())) = Inr (disabled demo_user)" by code_simp
  note step = run_result [OF this]
  show "case authenticate (load_principal (fst (account_run demo_env []
       (fst (disable_user demo_env 5 ''u1'' ''left'' demo_admin (demo_accounts, ())))))) (demo_claims\<lparr>tk_user_id := ''u1''\<rparr>) of
      Inl _ \<Rightarrow> (case snd (create_session demo_env ''s2'' 6 ''u1'' None ''local'' None
          (account_run demo_env [] (fst (disable_user demo_env 5 ''u1'' ''left'' demo_admin (demo_accounts, ()))))) of
        Inl e \<Rightarrow> exn_code e = Some ''USER_DISABLED'' | Inr _ \<Rightarrow> False)
    | Inr _ \<Rightarrow> False"
    by (rule disabled_user_is_out [OF step])
qed

definition new_user_run :: "unit account_state \<times> user_row result" where
  "new_user_run = create_local_user demo_env ''u2'' ''cd'' 7 '' C@D '' ''C'' ''longpassword'' (demo_accounts, ())"

theorem stored_password_opens_the_account_witness:
  "verify_local_password demo_env ''c@d'' ''longpassword'' (fst (fst new_user_run)) = snd new_user_run \<and>
   verify_local_password demo_env ''c@d'' ''otherpassword'' (fst (fst new_user_run)) = Inl (invalid_auth_token ''invalid_credentials'')"
proof -
  define u where "u = \<lparr>us_id = ''u2'', us_email = ''c@d'', us_display_name = ''C'', us_status = ''active'', us_token_version = 1\<rparr>"
  have r: "snd new_user_run = Inr u" unfolding u_def by code_simp
  have run: "create_local_user demo_env ''u2'' ''cd'' 7 '' C@D '' ''C'' ''longpassword'' (demo_accounts, ()) = (fst new_user_run, Inr u)"
    using r unfolding new_user_run_def by (rule run_result)
  have hex: "hex_digest (ax_hasher demo_env) ''cd'' ''longpassword''" "hex_digest (ax_hasher demo_env) ''cd'' ''otherpassword''"
    by code_simp+
  have dollar: "CHR ''$'' \<notin> set ''cd''" by simp
  have e: "lower (strip ''c@d'') = lower (strip '' C@D '')" by code_simp
  note ok = stored_password_opens_the_account [OF run dollar hex(1) hex(1) e]
    and bad = stored_password_opens_the_account [OF run dollar hex(1) hex(2) e]
  show ?thesis using ok bad r by (simp add: demo_env_def demo_hasher_def)
qed

text \<open>A codec for the two dictionaries of one token.\<close>

definition demo_jwt :: jwt_config where
  "demo_jwt = \<lparr>jw_secret = ''k'', jw_issuer = ''service-core'', jw_audience = ''service-api'', jw_ttl = 3600\<rparr>"

definition demo_session :: user_session where
  "demo_session = opened_session ''s2'' demo_user (Some ''t1'') ''local'' 9"

definition demo_codec :: codec where
  "demo_codec =
     \<lparr>cd_encode = (\<lambda>d. if d = jwt_header then ''h'' else ''p''),
      cd_decode = (\<lambda>s. Inr (PDict (if s = ''h'' then jwt_header else jwt_payload demo_jwt (session_claims demo_session) 9))),
      cd_hmac = (\<lambda>k t. ''sig'')\<rparr>"

definition demo_app :: "unit account_app" where
  "demo_app = \<lparr>ap_codec = demo_codec, ap_jwt_secret = ''k'', ap_digest = (\<lambda>p s i. Inr (p @ s)),
     ap_publish = (\<lambda>_ _ _ _ _. sret (Inr ())), ap_settings = None, ap_providers = Map.empty\<rparr>"

definition demo_route_request :: route_request where
  "demo_route_request = \<lparr>rr_authorization = None, rr_context = None, rr_decision = None\<rparr>"

definition demo_login :: "unit account_state \<times> payload result" where
  "demo_login = login_route demo_app ''s2'' 9 ''A@b'' ''password'' (Some ''t1'') demo_route_request (demo_accounts, ())"

theorem login_token_opens_the_session_witness:
  "rbind (bearer_token (Some (''Bearer '' @ ''h.p.sig''))) (\<lambda>t. verify_token demo_codec demo_jwt t 10)
     = Inr (session_claims demo_session) \<and>
   (case authenticate (load_principal (fst (fst demo_login))) (session_claims demo_session) of
      Inr u \<Rightarrow> cu_email u = ''a@b'' \<and> cu_tenant_id u = Some ''t1'' \<and> cu_session_id u = ''s2'' | Inl _ \<Rightarrow> False)"
proof -
  define d where "d = [(''access_token'', PStr ''h.p.sig''), (''token_type'', PStr ''bearer''), (''expires_in'', PInt 3600),
     (''session'', PDict (session_read demo_session))]"
  have "snd demo_login = Inr d" unfolding d_def by code_simp
  then have login: "login_route demo_app ''s2'' 9 ''A@b'' ''password'' (Some ''t1'') demo_route_request (demo_accounts, ()) = (fst demo_login, Inr d)"
    unfolding demo_login_def by (rule run_result)
  have env: "default_accounts demo_app = Inr (accounts demo_app \<lparr>ph_iterations = 260000, ph_salt_bytes = 16, ph_min_length = 8, ph_digest = ap_digest demo_app\<rparr>)"
    by (simp add: default_accounts_def password_hasher_def new_hasher_def)
  have jwt: "route_jwt demo_app = Inr demo_jwt" by (simp add: route_jwt_def demo_app_def demo_jwt_def new_jwt_config_def)
  have wf: "accounts_wf (fst (demo_accounts, ()))"
    by (simp add: accounts_wf_def demo_accounts_def no_accounts_def demo_user_def user_of_def session_ok_def opened_session_def)
  have token: "payload_value d ''access_token'' = PStr ''h.p.sig''" unfolding d_def by code_simp
  have s: "session_of (fst (fst demo_login)) ''s2'' = Some demo_session" by code_simp
  have cd: "ap_codec demo_app = demo_codec" by (simp add: demo_app_def)
  have c: "carries (ap_codec demo_app) jwt_header" "carries (ap_codec demo_app) (jwt_payload demo_jwt (session_claims demo_session) 9)"
    by code_simp+
  have hmac: "plain_text (cd_hmac (ap_codec demo_app) (jw_secret demo_jwt) t)" for t
    by (simp add: demo_app_def demo_codec_def plain_text_def is_space_def)
  have ids: "\<not> blank ''s2''" "\<not> blank (ss_user_id demo_session)" "Some ''t1'' \<noteq> Some []" by code_simp+
  have e: "lower (strip ''A@b'') = ''a@b''" by code_simp
  have live: "\<not> timestamp 9 + jw_ttl demo_jwt \<le> timestamp 10" by code_simp
  note opened = login_token_opens_the_session [OF login env jwt wf token s c hmac ids, of 10, unfolded cd e if_not_P [OF live]]
  show ?thesis using opened by blast
qed

end
