(* ===== verification/Route_Properties.thy ===== *)
theory Route_Properties
  imports Accounts_Properties
begin

text \<open>
  The properties of what stands before a route: a route runs exactly for the requests its policy admits, and
  a login by an external provider is bound to the state it started with.
\<close>

section \<open>What a policy admits\<close>

text \<open>The reference: over a fixed set of policies, the conditions of a route without their order.\<close>

type_synonym policy_lookup = "string \<Rightarrow> string \<Rightarrow> string \<Rightarrow> string \<Rightarrow> policy_match option"

definition lookup_backend :: "policy_lookup \<Rightarrow> 's policy_backend" where
  "lookup_backend pol tenant subject resource action s = (s, Inr (pol tenant subject resource action))"

definition permitted :: "policy_lookup \<Rightarrow> string \<Rightarrow> string \<Rightarrow> string \<Rightarrow> bool" where
  "permitted pol user tenant permission \<longleftrightarrow>
     (case parse_route_permission permission of
        Inl _ \<Rightarrow> False | Inr (resource, action) \<Rightarrow> \<not> blank tenant \<and> pol tenant (''user:'' @ user) resource action \<noteq> None)"

definition bearer_user :: "pipeline \<Rightarrow> account_tables \<Rightarrow> instant \<Rightarrow> request_headers \<Rightarrow> current_user result" where
  "bearer_user pl t now h =
     rbind (bearer_token (hd_authorization h)) (\<lambda>token.
     rbind (verify_token (pl_codec pl) (pl_jwt pl) token now) (\<lambda>k. authenticate (load_principal t) k))"

definition open_tenant :: "pipeline \<Rightarrow> account_tables \<Rightarrow> request_headers \<Rightarrow> route_policy \<Rightarrow> current_user \<Rightarrow> string option" where
  "open_tenant pl t h p u =
    (case cu_tenant_id u of
       None \<Rightarrow> None
     | Some n \<Rightarrow>
         if \<not> present (hd_tenant h) \<and> active_membership t n (cu_id u) \<noteq> None \<and>
            (case find (\<lambda>r. tn_id r = n) (ac_tenants t) of
               None \<Rightarrow> False | Some r \<Rightarrow> is_tenant_operation_allowed (tn_status r) (rp_operation p) (pl_lifecycle_policy pl))
         then Some n else None)"

definition admits :: "pipeline \<Rightarrow> policy_lookup \<Rightarrow> account_tables \<Rightarrow> instant \<Rightarrow> request_headers \<Rightarrow> route_policy \<Rightarrow> bool" where
  "admits pl pol t now h p \<longleftrightarrow>
    rp_public p \<or> \<not> (rp_auth_required p \<or> rp_tenant_required p \<or> rp_permissions p \<noteq> []) \<or>
    (case bearer_user pl t now h of
       Inl _ \<Rightarrow> False
     | Inr u \<Rightarrow>
         if requires_tenant_resolution p
         then (case open_tenant pl t h p u of
             None \<Rightarrow> False
           | Some n \<Rightarrow> n \<noteq> [] \<and>
               list_all (permitted pol (cu_id u) (if rp_scope p = Some ''platform'' then platform_tenant_id else n)) (rp_permissions p))
         else list_all (permitted pol (cu_id u) platform_tenant_id) (rp_permissions p))"

section \<open>Authorization\<close>

lemma parse_route_blank: "parse_route_permission p = Inr (r, a) \<Longrightarrow> \<not> blank r \<and> \<not> blank a"
  by (auto simp: parse_route_permission_def split: option.splits if_splits)

lemma require_lookup:
  assumes "\<not> blank user" and "\<not> blank r" and "\<not> blank a"
  shows "is_ok (snd (snd (require_authorization (lookup_backend pol) k user tenant r a i q s)))
      \<longleftrightarrow> \<not> blank tenant \<and> pol tenant (''user:'' @ user) r a \<noteq> None"
  using assms by (auto simp: require_authorization_def authorize_def validate_authorization_input_def lookup_backend_def Let_def
      split: option.splits)

lemma authorize_lookup:
  assumes "rx_user_id c = Some user" and "\<not> blank user" and "scope \<noteq> Some ''platform'' \<Longrightarrow> present (rx_tenant_id c)"
  shows "is_ok (snd (snd (authorize_permissions (lookup_backend pol) k c scope ps s)))
      \<longleftrightarrow> list_all (permitted pol user (if scope = Some ''platform'' then platform_tenant_id else the (rx_tenant_id c))) ps"
proof (induction ps arbitrary: s)
  case (Cons p ps)
  let ?n = "if scope = Some ''platform'' then platform_tenant_id else the (rx_tenant_id c)"
  show ?case
  proof (cases "parse_route_permission p")
    case (Inl e)
    then show ?thesis by (simp add: permitted_def)
  next
    case (Inr ra)
    obtain r a where ra: "ra = (r, a)" by fastforce
    obtain s1 e1 d where d: "require_authorization (lookup_backend pol) k user ?n r a None (Some (rx_request_id c)) s = (s1, e1, d)"
      using prod_cases3 by blast
    have ok: "is_ok d \<longleftrightarrow> permitted pol user ?n p"
      using require_lookup [OF assms(2), of r a pol k ?n None "Some (rx_request_id c)" s] parse_route_blank [of p r a] Inr ra d
      by (simp add: permitted_def)
    have step: "authorize_permissions (lookup_backend pol) k c scope (p # ps) s =
        (case d of Inl e \<Rightarrow> (s1, e1, Inl e) | Inr d \<Rightarrow>
          (case authorize_permissions (lookup_backend pol) k c scope ps s1 of
             (s2, e2, Inl e) \<Rightarrow> (s2, e1 @ e2, Inl e) | (s2, e2, Inr ds) \<Rightarrow> (s2, e1 @ e2, Inr (d # ds))))"
      using Inr ra d assms(1,3) by (auto simp: require_platform_def Let_def split: sum.splits)
    show ?thesis
      unfolding step using ok Cons.IH [of s1] by (auto split: sum.splits prod.splits)
  qed
qed simp

section \<open>The pipeline\<close>

definition bound_context :: "request_context \<Rightarrow> string \<Rightarrow> string option \<Rightarrow> request_context" where
  "bound_context c user tenant =
     c\<lparr>rx_user_id := Some user, rx_tenant_id := (case tenant of None \<Rightarrow> rx_tenant_id c | Some n \<Rightarrow> Some n), rx_frozen := True\<rparr>"

lemma membership_lookup:
  "has_active_membership \<lparr>tu_user_id = i, tu_default_tenant_id = d, tu_memberships = memberships_of (ac_members t) i\<rparr> n
     \<longleftrightarrow> active_membership t n i \<noteq> None"
  by (auto simp: has_active_membership_def memberships_of_def active_membership_def find_None_iff list_ex_iff)

lemma record_lookup:
  "tenant_record_for (ac_tenants t) (Some n) =
     map_option (\<lambda>r. \<lparr>tr_tenant_id = tn_id r, tr_status = tn_status r\<rparr>) (find (\<lambda>r. tn_id r = n) (ac_tenants t))"
  by (simp add: tenant_record_for_def)

lemma select_own:
  "select_tenant_id tok hdr tok False = (if present hdr then Inl (app_error ''TENANT_CONTEXT_CONFLICT''
       ''Header tenant is not allowed for this request'' (Some 403) [(''reason'', PStr ''header_tenant_not_allowed'')])
     else Inr tok)"
  by (auto simp: select_tenant_id_def or_else_def)

lemma resolve_open:
  assumes "\<not> rx_frozen c" and "open_tenant pl t h p u = Some n"
  shows "resolve_database_tenant (ac_tenants t) (ac_members t) (pl_lifecycle_policy pl) (cu_id u) (cu_tenant_id u) (cu_tenant_id u)
      (hd_tenant h) (rp_operation p) False (Some c) = (Some (bound_context c (cu_id u) (Some n)), Inr n)"
proof -
  obtain r where n: "cu_tenant_id u = Some n" "\<not> present (hd_tenant h)" "active_membership t n (cu_id u) \<noteq> None"
    and r: "find (\<lambda>r. tn_id r = n) (ac_tenants t) = Some r"
      "is_tenant_operation_allowed (tn_status r) (rp_operation p) (pl_lifecycle_policy pl)"
    using assms(2) by (auto simp: open_tenant_def split: option.splits if_splits)
  have id: "tn_id r = n" using r(1) by (auto simp: find_Some_iff)
  have own: "or_else (Some n) (Some n) = Some n" by (simp add: or_else_def)
  show ?thesis
    unfolding resolve_database_tenant_def resolve_current_tenant_def Let_def n(1) own select_own
    using n r id assms(1) assert_operation_ok [of n "tn_status r" "rp_operation p" "pl_lifecycle_policy pl"]
    by (simp add: membership_lookup record_lookup select_own bind_context_def with_user_def with_tenant_def
        ensure_mutable_def freeze_def bound_context_def)
qed

lemma resolve_closed:
  assumes "open_tenant pl t h p u = None"
  shows "\<exists>e. snd (resolve_database_tenant (ac_tenants t) (ac_members t) (pl_lifecycle_policy pl) (cu_id u) (cu_tenant_id u) (cu_tenant_id u)
      (hd_tenant h) (rp_operation p) False (Some c)) = Inl e"
proof (cases "present (hd_tenant h)")
  case True
  have "or_else x x = x" for x by (simp add: or_else_def)
  then show ?thesis unfolding resolve_database_tenant_def Let_def using True by (simp add: select_own)
next
  case False
  have own: "or_else x x = x" for x by (simp add: or_else_def)
  show ?thesis
  proof (cases "cu_tenant_id u")
    case None
    then show ?thesis unfolding resolve_database_tenant_def resolve_current_tenant_def Let_def own using False
      by (simp add: select_own)
  next
    case (Some n)
    then have closed: "active_membership t n (cu_id u) = None \<or>
        (case find (\<lambda>r. tn_id r = n) (ac_tenants t) of
          None \<Rightarrow> True | Some r \<Rightarrow> \<not> is_tenant_operation_allowed (tn_status r) (rp_operation p) (pl_lifecycle_policy pl))"
      using assms False by (auto simp: open_tenant_def split: option.splits if_splits)
    have refused: "\<exists>e. assert_tenant_operation_allowed n st oper pol = Inl e"
      if "\<not> is_tenant_operation_allowed st oper pol" for st oper pol
      using that by (simp add: assert_tenant_operation_allowed_def)
    have id: "tn_id r = n" if "find (\<lambda>r. tn_id r = n) (ac_tenants t) = Some r" for r
      using that by (auto simp: find_Some_iff)
    show ?thesis
    proof (cases "active_membership t n (cu_id u)")
      case None
      then show ?thesis unfolding resolve_database_tenant_def resolve_current_tenant_def Let_def own
        using False Some by (simp add: select_own membership_lookup)
    next
      case (Some m)
      show ?thesis
      proof (cases "find (\<lambda>r. tn_id r = n) (ac_tenants t)")
        case None
        then show ?thesis unfolding resolve_database_tenant_def resolve_current_tenant_def Let_def own
          using False Some \<open>cu_tenant_id u = Some n\<close> by (simp add: select_own membership_lookup record_lookup)
      next
        case (Some r)
        then obtain e where "assert_tenant_operation_allowed n (tn_status r) (rp_operation p) (pl_lifecycle_policy pl) = Inl e"
          using closed \<open>active_membership t n (cu_id u) = Some m\<close> refused by fastforce
        then show ?thesis unfolding resolve_database_tenant_def resolve_current_tenant_def Let_def own
          using False Some id [OF Some] \<open>cu_tenant_id u = Some n\<close> \<open>active_membership t n (cu_id u) = Some m\<close>
          by (simp add: select_own membership_lookup record_lookup)
      qed
    qed
  qed
qed

text \<open>The state in which the enforcement starts.\<close>

definition admitted_state :: "request_context \<Rightarrow> string \<Rightarrow> string option \<Rightarrow> request_state \<Rightarrow> request_state" where
  "admitted_state c user tenant q = bind_access_context (q\<lparr>rq_context := Some (bound_context c user tenant)\<rparr>)"

lemma rq_context_bind_access [simp]: "rq_context (bind_access_context q) = rq_context q"
  by (simp add: bind_access_context_def split: option.split)

lemma rq_context_admitted [simp]: "rq_context (admitted_state c user tenant q) = Some (bound_context c user tenant)"
  by (simp add: admitted_state_def)

lemma authenticated_tenant:
  assumes "authenticate (load_principal t) k = Inr u"
  shows "cu_tenant_id u = tk_tenant_id k" and "cu_id u = tk_user_id k" and "\<not> blank (cu_id u)"
proof -
  obtain s w where s: "user_of t (ss_user_id s) = Some w" "k = session_claims s" "u = principal_user w s"
    and v: "validate_claims k = Inr ()"
    using assms unfolding authenticate_ok by blast
  show "cu_tenant_id u = tk_tenant_id k" using s by (simp add: claims_eq principal_user_def)
  show id: "cu_id u = tk_user_id k" using s user_of_id [OF s(1)] by (simp add: claims_eq principal_user_def)
  show "\<not> blank (cu_id u)" using v unfolding id by (auto simp: validate_claims_def split: if_splits)
qed

lemma pipeline_resolve_cases:
  assumes "rq_context q = Some c" and "\<not> rx_frozen c"
    and "rp_auth_required p \<or> rp_tenant_required p \<or> rp_permissions p \<noteq> []"
  shows "case bearer_user pl t now h of
      Inl e \<Rightarrow> pipeline_resolve pl t now h p q = (q, Inl e)
    | Inr u \<Rightarrow> \<not> blank (cu_id u) \<and>
        (if requires_tenant_resolution p
         then (case open_tenant pl t h p u of
             None \<Rightarrow> \<exists>q' e. pipeline_resolve pl t now h p q = (q', Inl e)
           | Some n \<Rightarrow> pipeline_resolve pl t now h p q = (admitted_state c (cu_id u) (Some n) q, Inr ()))
         else pipeline_resolve pl t now h p q = (admitted_state c (cu_id u) (cu_tenant_id u) q, Inr ()))"
proof (cases "bearer_user pl t now h")
  case (Inl e)
  then have "rbind (bearer_token (hd_authorization h)) (\<lambda>token. rbind (verify_token (pl_codec pl) (pl_jwt pl) token now) (\<lambda>k.
      rbind (authenticate (load_principal t) k) (\<lambda>u. Inr (k, u)))) = Inl e"
    by (auto simp: bearer_user_def rbind_def split: sum.splits)
  then show ?thesis using Inl assms(3) by (auto simp: pipeline_resolve_def)
next
  case (Inr u)
  then obtain token k where b: "bearer_token (hd_authorization h) = Inr token"
      and v: "verify_token (pl_codec pl) (pl_jwt pl) token now = Inr k" and a: "authenticate (load_principal t) k = Inr u"
    by (auto simp: bearer_user_def rbind_Inr_iff)
  note k = authenticated_tenant [OF a]
  have start: "pipeline_resolve pl t now h p q =
      (if requires_tenant_resolution p
       then (case resolve_database_tenant (ac_tenants t) (ac_members t) (pl_lifecycle_policy pl) (cu_id u)
                 (cu_tenant_id u) (cu_tenant_id u) (hd_tenant h) (rp_operation p) False (Some c) of
               (c, Inl e) \<Rightarrow> (q\<lparr>rq_context := c\<rparr>, Inl e)
             | (c, Inr _) \<Rightarrow> (bind_access_context (q\<lparr>rq_context := c\<rparr>), Inr ()))
       else (case bind_authenticated_user (cu_id u) (cu_tenant_id u) q of
               (q', Inl e) \<Rightarrow> (q', Inl e) | (q', Inr _) \<Rightarrow> (bind_access_context q', Inr ())))"
    using assms(1,3) b v a k(1) by (simp add: pipeline_resolve_def)
  show ?thesis
  proof (cases "requires_tenant_resolution p")
    case True
    show ?thesis
    proof (cases "open_tenant pl t h p u")
      case None
      then obtain c' e where "resolve_database_tenant (ac_tenants t) (ac_members t) (pl_lifecycle_policy pl) (cu_id u)
                 (cu_tenant_id u) (cu_tenant_id u) (hd_tenant h) (rp_operation p) False (Some c) = (c', Inl e)"
        using resolve_closed [OF None, of c] by (metis prod.collapse)
      then have "pipeline_resolve pl t now h p q = (q\<lparr>rq_context := c'\<rparr>, Inl e)" unfolding start using True by simp
      then show ?thesis using Inr True None k(3) by simp
    next
      case (Some n)
      have "pipeline_resolve pl t now h p q = (admitted_state c (cu_id u) (Some n) q, Inr ())"
        unfolding start using True resolve_open [OF assms(2) Some] by (simp add: admitted_state_def)
      then show ?thesis using Inr True Some k(3) by simp
    qed
  next
    case False
    have "bind_authenticated_user (cu_id u) (cu_tenant_id u) q = (q\<lparr>rq_context := Some (bound_context c (cu_id u) (cu_tenant_id u))\<rparr>, Inr ())"
      using assms(1,2) by (cases "cu_tenant_id u")
        (simp_all add: bind_authenticated_user_def with_user_def with_tenant_def ensure_mutable_def freeze_def bound_context_def)
    then have "pipeline_resolve pl t now h p q = (admitted_state c (cu_id u) (cu_tenant_id u) q, Inr ())"
      unfolding start using False by (simp add: admitted_state_def)
    then show ?thesis using Inr False k(3) by simp
  qed
qed

lemma authorize_no_tenant:
  assumes "scope \<noteq> Some ''platform''" and "\<not> present (rx_tenant_id c)" and "ps \<noteq> []"
  shows "\<not> is_ok (snd (snd (authorize_permissions backend k c scope ps s)))"
  using assms by (cases ps) (auto simp: Let_def split: sum.splits)

lemma enforce_lookup:
  assumes "rq_context q = Some c" and "rx_user_id c = Some user" and "\<not> blank user" and "\<not> rp_public p"
  shows "is_ok (snd (snd (snd (enforce_route_security p (Some (pipeline_authorize (lookup_backend pol) k)) q s)))) \<longleftrightarrow>
    (rp_tenant_required p \<longrightarrow> present (rx_tenant_id c)) \<and>
    (rp_permissions p \<noteq> [] \<longrightarrow> (rp_scope p = Some ''platform'' \<or> present (rx_tenant_id c)) \<and>
      list_all (permitted pol user (if rp_scope p = Some ''platform'' then platform_tenant_id else the (rx_tenant_id c))) (rp_permissions p))"
proof -
  have user: "present (rx_user_id c)" using assms(2,3) by (auto simp: present_def)
  have start: "is_ok (snd (snd (snd (enforce_route_security p (Some (pipeline_authorize (lookup_backend pol) k)) q s)))) \<longleftrightarrow>
    (rp_tenant_required p \<longrightarrow> present (rx_tenant_id c)) \<and>
    (rp_permissions p \<noteq> [] \<longrightarrow> is_ok (snd (snd (authorize_permissions (lookup_backend pol) k c (rp_scope p) (rp_permissions p) s))))"
    using assms(1,2,4) user
    by (auto simp: enforce_route_security_def pipeline_authorize_def Let_def split: prod.splits sum.splits)
  show ?thesis
  proof (cases "rp_scope p = Some ''platform'' \<or> present (rx_tenant_id c)")
    case True
    then show ?thesis unfolding start using authorize_lookup [OF assms(2,3), of "rp_scope p" pol k "rp_permissions p" s] by auto
  next
    case False
    then show ?thesis unfolding start using authorize_no_tenant [of "rp_scope p" c "rp_permissions p" "lookup_backend pol" k s] by auto
  qed
qed

lemma bound_context_simps [simp]:
  "rx_user_id (bound_context c user tenant) = Some user"
  "rx_tenant_id (bound_context c user (Some n)) = Some n"
  by (simp_all add: bound_context_def)

text \<open>C1: A request reaches a route exactly when its policy admits it: a public route or one that asks for nothing, or
  a bearer token that authenticates and, for a route of a tenant, an open tenant of which the user is an active
  member, no tenant being named by the header, and every permission granted to the user there (on the platform,
  for a permission of platform scope).
\<close>

theorem route_runs_exactly_when_admitted:
  assumes "rq_context q = Some c" and "\<not> rx_frozen c"
    and "build_route_policy public auth_required tenant_required permissions scope oper = Inr p"
  shows "is_ok (snd (snd (snd (secured_route pl (lookup_backend pol) t now h p q s)))) = admits pl pol t now h p"
proof (cases "rp_public p \<or> \<not> (rp_auth_required p \<or> rp_tenant_required p \<or> rp_permissions p \<noteq> [])")
  case True
  then show ?thesis
    by (auto simp: admits_def secured_route_def route_dependency_def pipeline_resolve_def enforce_route_security_def Let_def)
next
  case False
  then have np: "\<not> rp_public p" and needs: "rp_auth_required p \<or> rp_tenant_required p \<or> rp_permissions p \<noteq> []" by auto
  note resolved = pipeline_resolve_cases [OF assms(1,2) needs, of pl t now h]
  have route: "secured_route pl (lookup_backend pol) t now h p q s =
      (case pipeline_resolve pl t now h p q of (q', Inl e) \<Rightarrow> (q', s, [], Inl e)
       | (q', Inr _) \<Rightarrow> enforce_route_security p (Some (pipeline_authorize (lookup_backend pol) (pl_sinks pl))) q' s)"
    using np by (simp add: secured_route_def route_dependency_def)
  show ?thesis
  proof (cases "bearer_user pl t now h")
    case (Inl e)
    then show ?thesis using resolved np needs by (simp add: route admits_def)
  next
    case (Inr u)
    then have u: "\<not> blank (cu_id u)" using resolved by simp
    show ?thesis
    proof (cases "requires_tenant_resolution p")
      case True
      show ?thesis
      proof (cases "open_tenant pl t h p u")
        case None
        then show ?thesis using resolved Inr True np needs by (auto simp: route admits_def)
      next
        case (Some n)
        have e: "secured_route pl (lookup_backend pol) t now h p q s =
            enforce_route_security p (Some (pipeline_authorize (lookup_backend pol) (pl_sinks pl))) (admitted_state c (cu_id u) (Some n) q) s"
          using resolved Inr True Some by (simp add: route)
        have "present (Some n) \<longleftrightarrow> n \<noteq> []" by (simp add: present_def)
        then show ?thesis
          unfolding e using enforce_lookup [of "admitted_state c (cu_id u) (Some n) q" "bound_context c (cu_id u) (Some n)" "cu_id u" p pol "pl_sinks pl" s]
            u Inr True Some np needs
          by (auto simp: admits_def requires_tenant_resolution_def)
      qed
    next
      case False
      have e: "secured_route pl (lookup_backend pol) t now h p q s =
            enforce_route_security p (Some (pipeline_authorize (lookup_backend pol) (pl_sinks pl))) (admitted_state c (cu_id u) (cu_tenant_id u) q) s"
        using resolved Inr False by (simp add: route)
      show ?thesis
        unfolding e using enforce_lookup [of "admitted_state c (cu_id u) (cu_tenant_id u) q" "bound_context c (cu_id u) (cu_tenant_id u)"
            "cu_id u" p pol "pl_sinks pl" s] u Inr False np needs
        by (auto simp: admits_def requires_tenant_resolution_def)
    qed
  qed
qed

section \<open>External logins\<close>

lemma consume_state_returns:
  "consume_state provider st now so = (so', Inr s) \<longleftrightarrow> so_states so st = Some s \<and> es_provider s = provider \<and>
     now < es_expires_at s \<and> so' = so\<lparr>so_states := (so_states so)(st := None)\<rparr>"
  by (auto simp: consume_state_def split: option.splits if_splits)

lemma handle_callback_returns:
  "handle_callback client verify c code st s w = (w', Inr i) \<longleftrightarrow> st = es_state s \<and> \<not> blank code \<and>
     (\<exists>token k. client c (strip code) w = (w', Inr token) \<and> verify c token (es_nonce s) = Inr k \<and>
        i = \<lparr>ei_provider = oc_provider c, ei_subject = ok_subject k, ei_email = lower (strip (ok_email k)),
           ei_display_name = ok_display_name k,
           ei_tenant_id = (case ok_tenant_id k of Some (a # t) \<Rightarrow> Some (a # t) | _ \<Rightarrow> es_tenant_id s), ei_raw = ok_raw k\<rparr>)"
  by (auto simp: handle_callback_def returns rbind_Inr_iff)

lemma external_login_returns:
  assumes "authenticate_external_login env f now p sub n q x = (y, Inr s)"
  obtains i u where "bound_identity (fst x) (strip p) (strip sub) = Some i" and "user_of (fst x) (xi_user_id i) = Some u"
    and "may_log_in (fst x) u n" and "fst y = (fst x)\<lparr>ac_sessions := ac_sessions (fst x) @ [s]\<rparr>"
    and "s = opened_session f u n (strip p) now"
proof -
  obtain v where v: "user_for_external_identity p sub (fst x) = Inr v"
    and cs: "create_session env f now (us_id v) n (strip p) q x = (y, Inr s)"
    using assms by (auto simp: authenticate_external_login_def returns)
  then obtain i where i: "bound_identity (fst x) (strip p) (strip sub) = Some i" "user_of (fst x) (xi_user_id i) = Some v"
    by (auto simp: user_for_external_identity_def get_user_returns split: option.splits if_splits)
  have id: "us_id v = xi_user_id i" using user_of_id [OF i(2)] by simp
  show thesis
    by (rule create_session_returns [OF cs]) (use that i id in auto)
qed

lemma callback_consumes:
  assumes "external_callback_route app f now provider code st rq (so, x) = ((so', y), Inr d)"
  obtains a s where "ap_providers app provider = Some a" and "so_states (state_store_of so) st = Some s"
    and "es_provider s = provider" and "now < es_expires_at s"
    and "so' = Some ((state_store_of so)\<lparr>so_states := (so_states (state_store_of so))(st := None)\<rparr>)"
    and "\<exists>client verifier token k x1 w env us. oa_client a = Some client \<and> oa_verifier a = Some verifier \<and> st = es_state s \<and>
      client (oa_config a) (strip code) (snd x) = (w, Inr token) \<and> verifier (oa_config a) token (es_nonce s) = Inr k \<and>
      x1 = (fst x, w) \<and>
      authenticate_external_login env f now (oc_provider (oa_config a)) (ok_subject k)
        (case ok_tenant_id k of Some (b # t) \<Rightarrow> Some (b # t) | _ \<Rightarrow> es_tenant_id s) (route_request_id rq) x1 = (y, Inr us)"
proof -
  obtain a where a: "ap_providers app provider = Some a"
    using assms by (auto simp: external_callback_route_def external_auth_provider_def split: option.splits)
  obtain so2 s where c: "consume_state provider st now (state_store_of so) = (so2, Inr s)"
    using assms a by (auto simp: external_callback_route_def external_auth_provider_def split: option.splits prod.splits sum.splits)
  obtain client verifier where o: "oa_client a = Some client" "oa_verifier a = Some verifier"
    using assms a c by (auto simp: external_callback_route_def external_auth_provider_def split: option.splits prod.splits)
  have so': "so' = Some so2"
    and run: "sbind (on_world_of (handle_callback client verifier (oa_config a) code st s)) (\<lambda>i.
                      unit_op (sbind (sret (default_accounts app)) (\<lambda>env.
                        sbind (authenticate_external_login env f now (ei_provider i) (ei_subject i) (ei_tenant_id i)
                          (route_request_id rq)) (\<lambda>us. sret (login_read app now us))))) x = (y, Inr d)"
    using assms a c o by (auto simp: external_callback_route_def external_auth_provider_def split: prod.splits)
  show thesis
    by (rule that [OF a]) (use c so' o run in \<open>auto simp: consume_state_returns returns handle_callback_returns\<close>, blast)
qed

lemma used_state_refused:
  assumes "so_states so st = None"
  shows "\<not> is_ok (snd (external_callback_route app f now provider code st rq (Some so, x)))"
  using assms by (auto simp: external_callback_route_def external_auth_provider_def consume_state_def state_store_of_def
      split: option.splits)

text \<open>C24: A login by an external provider returns only with a state issued for that provider that has not expired, an
  identity token that the provider's verifier accepts for the nonce of that state, and an identity bound to a user
  who may enter the tenant; it opens one session, of that user, and the state is used up: no callback with it returns
  again.
\<close>

theorem external_login_uses_its_state:
  assumes "external_callback_route app f now provider code st rq (so, x) = ((so', y), Inr d)"
  shows "(case (ap_providers app provider, so_states (state_store_of so) st) of
      (Some a, Some s) \<Rightarrow> es_provider s = provider \<and> es_state s = st \<and> now < es_expires_at s \<and>
        (case (oa_client a, oa_verifier a) of
           (Some client, Some verifier) \<Rightarrow>
             (case client (oa_config a) (strip code) (snd x) of
                (w, Inr token) \<Rightarrow>
                  (case verifier (oa_config a) token (es_nonce s) of
                     Inr k \<Rightarrow>
                       (case bound_identity (fst x) (strip (oc_provider (oa_config a))) (strip (ok_subject k)) of
                          Some i \<Rightarrow> \<exists>u n. user_of (fst x) (xi_user_id i) = Some u \<and> may_log_in (fst x) u n \<and>
                            fst y = (fst x)\<lparr>ac_sessions := ac_sessions (fst x) @
                              [opened_session f u n (strip (oc_provider (oa_config a))) now]\<rparr>
                        | None \<Rightarrow> False)
                   | Inl _ \<Rightarrow> False)
              | (w, Inl _) \<Rightarrow> False)
         | _ \<Rightarrow> False)
    | _ \<Rightarrow> False) \<and>
    \<not> is_ok (snd (external_callback_route app f' later provider' code' st rq' (so', x')))"
proof -
  obtain a s where a: "ap_providers app provider = Some a" and s: "so_states (state_store_of so) st = Some s"
    and chk: "es_provider s = provider" "now < es_expires_at s"
    and so': "so' = Some ((state_store_of so)\<lparr>so_states := (so_states (state_store_of so))(st := None)\<rparr>)"
    and ex: "\<exists>client verifier token k x1 w env us. oa_client a = Some client \<and> oa_verifier a = Some verifier \<and> st = es_state s \<and>
      client (oa_config a) (strip code) (snd x) = (w, Inr token) \<and> verifier (oa_config a) token (es_nonce s) = Inr k \<and>
      x1 = (fst x, w) \<and>
      authenticate_external_login env f now (oc_provider (oa_config a)) (ok_subject k)
        (case ok_tenant_id k of Some (b # t) \<Rightarrow> Some (b # t) | _ \<Rightarrow> es_tenant_id s) (route_request_id rq) x1 = (y, Inr us)"
    by (rule callback_consumes [OF assms])
  obtain client verifier token k w env us where o: "oa_client a = Some client" "oa_verifier a = Some verifier" "st = es_state s"
      "client (oa_config a) (strip code) (snd x) = (w, Inr token)" "verifier (oa_config a) token (es_nonce s) = Inr k"
    and l: "authenticate_external_login env f now (oc_provider (oa_config a)) (ok_subject k)
        (case ok_tenant_id k of Some (b # t) \<Rightarrow> Some (b # t) | _ \<Rightarrow> es_tenant_id s) (route_request_id rq) (fst x, w) = (y, Inr us)"
    using ex by blast
  have again: "\<not> is_ok (snd (external_callback_route app f' later provider' code' st rq' (so', x')))"
    unfolding so' by (rule used_state_refused) simp
  show ?thesis
    by (rule external_login_returns [OF l]) (use a s chk o again in auto)
qed

section \<open>Witnesses\<close>

definition demo_pipeline :: pipeline where
  "demo_pipeline = \<lparr>pl_codec = demo_codec, pl_jwt = demo_jwt, pl_lifecycle_policy = None,
     pl_sinks = \<lparr>has_metrics = False, has_audit = False\<rparr>\<rparr>"

definition demo_policy :: route_policy where
  "demo_policy = \<lparr>rp_public = False, rp_auth_required = True, rp_tenant_required = True, rp_permissions = [''file:read''],
     rp_scope = Some ''tenant'', rp_operation = Read\<rparr>"

definition demo_policies :: policy_lookup where
  "demo_policies tenant subject resource action =
     (if tenant = ''t1'' \<and> subject = ''user:u1'' \<and> resource = ''file'' \<and> action = ''read''
      then Some \<lparr>pm_tenant_id = ''t1'', pm_subject = subject, pm_resource = resource, pm_action = action, pm_role_grant_id = ''g'',
        pm_policy_version = 1, pm_effect = ''allow'', pm_reason = ''role''\<rparr>
      else None)"

definition demo_context :: request_context where
  "demo_context = \<lparr>rx_request_id = ''r'', rx_user_id = None, rx_tenant_id = None, rx_frozen = False\<rparr>"

definition demo_state :: request_state where
  "demo_state = \<lparr>rq_context = Some demo_context, rq_access = None\<rparr>"

definition demo_tables :: account_tables where
  "demo_tables = demo_accounts\<lparr>ac_sessions := [demo_session]\<rparr>"

definition demo_headers :: "string option \<Rightarrow> request_headers" where
  "demo_headers tenant = \<lparr>hd_authorization = Some ''Bearer h.p.sig'', hd_tenant = tenant\<rparr>"

theorem route_runs_exactly_when_admitted_witness:
  "is_ok (snd (snd (snd (secured_route demo_pipeline (lookup_backend demo_policies) demo_tables 10 (demo_headers None)
     demo_policy demo_state ())))) \<and>
   \<not> is_ok (snd (snd (snd (secured_route demo_pipeline (lookup_backend demo_policies) demo_tables 10 (demo_headers (Some ''t1''))
     demo_policy demo_state ()))))"
proof -
  have q: "rq_context demo_state = Some demo_context" "\<not> rx_frozen demo_context" by code_simp+
  have p: "build_route_policy False True True [''file:read''] None Read = Inr demo_policy" by code_simp
  have a: "admits demo_pipeline demo_policies demo_tables 10 (demo_headers None) demo_policy" by code_simp
  have n: "\<not> admits demo_pipeline demo_policies demo_tables 10 (demo_headers (Some ''t1'')) demo_policy" by code_simp
  show ?thesis using a n unfolding route_runs_exactly_when_admitted [OF q p] by blast
qed

definition demo_oidc :: oidc_config where
  "demo_oidc = \<lparr>oc_provider = ''logto'', oc_issuer = ''iss'', oc_client_id = ''c'', oc_client_secret = ''s'', oc_redirect_uri = ''u'',
     oc_authorization_endpoint = ''a'', oc_token_endpoint = ''t'', oc_scopes = [''openid''], oc_tenant_claim = ''organization_id'',
     oc_extra_params = []\<rparr>"

definition demo_oidc_app :: "unit account_app" where
  "demo_oidc_app = demo_app\<lparr>ap_providers := [''logto'' \<mapsto> \<lparr>oa_config = demo_oidc,
     oa_client = Some (\<lambda>c code w. (w, Inr ''token'')),
     oa_verifier = Some (\<lambda>c token nonce. if nonce = ''n'' then Inr \<lparr>ok_subject = ''sub'', ok_email = ''a@b'', ok_display_name = ''A'',
       ok_email_verified = None, ok_tenant_id = None, ok_raw = []\<rparr> else Inl (invalid_auth_token ''nonce_mismatch''))\<rparr>]\<rparr>"

definition demo_store :: state_store where
  "demo_store = \<lparr>so_ttl = 300, so_states = [''st'' \<mapsto> \<lparr>es_provider = ''logto'', es_state = ''st'', es_nonce = ''n'',
     es_tenant_id = Some ''t1'', es_redirect_after = None, es_expires_at = 100\<rparr>]\<rparr>"

definition demo_callback :: "(state_store option \<times> unit account_state) \<times> payload result" where
  "demo_callback = external_callback_route demo_oidc_app ''s3'' 9 ''logto'' ''code'' ''st'' demo_route_request (Some demo_store, (demo_tables, ()))"

theorem external_login_uses_its_state_witness:
  "is_ok (snd demo_callback) \<and>
   \<not> is_ok (snd (external_callback_route demo_oidc_app ''s4'' 10 ''logto'' ''code'' ''st'' demo_route_request (fst demo_callback)))"
proof -
  have ok: "is_ok (snd demo_callback)" by code_simp
  then obtain d where "snd demo_callback = Inr d" by (cases "snd demo_callback") auto
  moreover obtain so y where fst: "fst demo_callback = (so, y)" by (cases "fst demo_callback")
  ultimately have "external_callback_route demo_oidc_app ''s3'' 9 ''logto'' ''code'' ''st'' demo_route_request (Some demo_store, (demo_tables, ()))
      = ((so, y), Inr d)"
    unfolding demo_callback_def by (metis prod.collapse)
  from external_login_uses_its_state [OF this] show ?thesis using ok unfolding fst by blast
qed

end
