(* ===== verification/Tenant_Members.thy ===== *)
theory Tenant_Members
  imports Role_Grants Tenant_Lifecycle Tenant_Data "HOL-Library.Product_Lexorder" "HOL-Library.List_Lexorder" "HOL-Library.Char_ord"
begin

text \<open>
  The tenants app (\<open>platform_apps/tenants/services.py\<close>): the lists of tenants and of members, the members of
  a tenant, and the invitations that make a user a member and grant a first role.

  The state is the three tables of \<open>core/tenancy/models.py\<close> and the state of the access app, whose grant
  service an accepted invitation calls. The hash of a token, fresh identifiers and tokens, and readings of
  the clock are arguments. \<open>LIKE\<close> is the matching of SQL without an escape character; rows that are equal in
  the sort columns keep the order of the table.
\<close>

section \<open>Tables\<close>

record stored_tenant = tenant +
  tn_created_at :: instant

record stored_member = tenant_member +
  tm_id :: string
  tm_created_at :: instant

record invitation =
  iv_id :: string
  iv_tenant_id :: string
  iv_email :: string
  iv_role_template_id :: "string option"
  iv_token_hash :: string
  iv_status :: string
  iv_invited_by :: string
  iv_grant_authorized_by :: "string option"
  iv_grant_policy_version :: "int option"
  iv_expires_at :: instant
  iv_accepted_at :: "instant option"
  iv_accepted_by :: "string option"
  iv_revoked_at :: "instant option"
  iv_revoked_by :: "string option"

record member_tables =
  mt_tenants :: "stored_tenant list"
  mt_members :: "stored_member list"
  mt_invitations :: "invitation list"

type_synonym 'w member_state = "member_tables \<times> 'w access_state"

section \<open>Lists\<close>

text \<open>A pattern of \<open>LIKE\<close>: \<open>%\<close> stands for any text and \<open>_\<close> for any character.\<close>

fun sql_like :: "string \<Rightarrow> string \<Rightarrow> bool" where
  "sql_like [] s \<longleftrightarrow> s = []"
| "sql_like (p # ps) [] \<longleftrightarrow> p = CHR ''%'' \<and> sql_like ps []"
| "sql_like (p # ps) (c # s) \<longleftrightarrow>
     (if p = CHR ''%'' then sql_like ps (c # s) \<or> sql_like (p # ps) s
      else (p = CHR ''_'' \<or> p = c) \<and> sql_like ps s)"

definition contains_keyword :: "string \<Rightarrow> string \<Rightarrow> bool" where
  "contains_keyword keyword text \<longleftrightarrow> sql_like (''%'' @ lower (strip keyword) @ ''%'') (lower text)"

definition query_text :: "list_query \<Rightarrow> string \<Rightarrow> string option" where
  "query_text q f = (case dget (lq_fields q) f of Some (PStr s) \<Rightarrow> Some s | _ \<Rightarrow> None)"

definition passes :: "string option \<Rightarrow> (string \<Rightarrow> bool) \<Rightarrow> bool" where
  "passes filter_value P = (case filter_value of None \<Rightarrow> True | Some v \<Rightarrow> P v)"

definition tenant_query :: query_class where
  "tenant_query = \<lparr>qc_sortable = Some [''created_at'', ''code'', ''name'', ''status''], qc_default_sort = [''-created_at''],
     qc_filterable = Some [''keyword'', ''status'']\<rparr>"

definition member_query :: query_class where
  "member_query = \<lparr>qc_sortable = Some [''created_at'', ''status'', ''user_id''], qc_default_sort = [''created_at''],
     qc_filterable = Some [''keyword'', ''status'', ''user_id'']\<rparr>"

text \<open>A sort column: a time or a text.\<close>

type_synonym 'r sort_columns = "string \<rightharpoonup> 'r \<Rightarrow> int \<times> string"

definition tenant_sort_columns :: "stored_tenant sort_columns" where
  "tenant_sort_columns = [''created_at'' \<mapsto> (\<lambda>t. (tn_created_at t, [])), ''code'' \<mapsto> (\<lambda>t. (0, tn_code t)),
     ''name'' \<mapsto> (\<lambda>t. (0, tn_name t)), ''status'' \<mapsto> (\<lambda>t. (0, tenant_status_name (tn_status t)))]"

definition member_sort_columns :: "stored_member sort_columns" where
  "member_sort_columns = [''created_at'' \<mapsto> (\<lambda>m. (tm_created_at m, [])), ''status'' \<mapsto> (\<lambda>m. (0, tm_status m)),
     ''user_id'' \<mapsto> (\<lambda>m. (0, tm_user_id m))]"

definition sorted_rows :: "query_class \<Rightarrow> 'r sort_columns \<Rightarrow> list_query \<Rightarrow> 'r list \<Rightarrow> 'r list result" where
  "sorted_rows qc columns q rows =
    rbind (sort_terms qc q) (\<lambda>terms.
    rbind (rmap (\<lambda>(f, dir). case columns f of
        None \<Rightarrow> Inl (PyError ''KeyError'' (repr_str f)) | Some k \<Rightarrow> Inr (k, dir)) terms) (\<lambda>keys.
      Inr (foldr (\<lambda>(k, dir). sort_by k dir) keys rows)))"

definition one_page_of :: "list_query \<Rightarrow> 'r list \<Rightarrow> 'r list" where
  "one_page_of q rows = take (nat (lq_page_size q)) (drop (nat (query_offset q)) rows)"

definition list_tenants :: "list_query \<Rightarrow> member_tables \<Rightarrow> (stored_tenant list \<times> int) result" where
  "list_tenants q t =
    (let found = filter (\<lambda>n. passes (query_text q ''status'') (\<lambda>s. tenant_status_name (tn_status n) = s) \<and>
           passes (query_text q ''keyword'') (\<lambda>k. contains_keyword k (tn_name n) \<or> contains_keyword k (tn_code n))) (mt_tenants t) in
     rbind (sorted_rows tenant_query tenant_sort_columns q found) (\<lambda>rows. Inr (one_page_of q rows, int (length found))))"

section \<open>Members\<close>

record member_caller =
  mc_actor_id :: string
  mc_request_id :: string
  mc_decision :: "decision option"

definition assert_member_authorized :: "member_caller \<Rightarrow> string \<Rightarrow> string list \<Rightarrow> string \<Rightarrow> unit result" where
  "assert_member_authorized c tenant_id actions operation =
     assert_authorization_decision (mc_decision c) tenant_id (mc_actor_id c) ''tenant_member'' actions operation False"

definition list_members ::
  "string \<Rightarrow> list_query \<Rightarrow> member_caller \<Rightarrow> member_tables \<Rightarrow> (stored_member list \<times> int) result" where
  "list_members tenant_id q c t =
    rbind (assert_member_authorized c tenant_id [''read'', ''manage''] ''Tenant member read'') (\<lambda>_.
    let found = filter (\<lambda>m. tm_tenant_id m = tenant_id \<and>
           passes (query_text q ''status'') (\<lambda>s. tm_status m = strip s) \<and>
           passes (query_text q ''user_id'') (\<lambda>s. tm_user_id m = strip s) \<and>
           passes (query_text q ''keyword'') (\<lambda>k. contains_keyword k (tm_user_id m))) (mt_members t) in
    rbind (sorted_rows member_query member_sort_columns q found) (\<lambda>rows. Inr (one_page_of q rows, int (length found))))"

definition clean_member_status :: "string \<Rightarrow> string result" where
  "clean_member_status s = (if blank s then Inl (validation_error ''Tenant member status is required'') else Inr (lower (strip s)))"

text \<open>The two guards on the tenant differ in their message.\<close>

definition assert_active_tenant :: "string \<Rightarrow> string \<Rightarrow> member_tables \<Rightarrow> unit result" where
  "assert_active_tenant what tenant_id t =
    (case find (\<lambda>n. tn_id n = tenant_id) (mt_tenants t) of
       None \<Rightarrow> Inl (app_error ''NOT_FOUND'' (''Tenant '' @ repr_str tenant_id @ '' not found'') (Some 404) [])
     | Some n \<Rightarrow>
         if tn_status n = Active then Inr ()
         else Inl (app_error ''TENANT_STATE_FORBIDDEN'' (''Tenant must be active to '' @ what) (Some 403)
           [(''tenant_id'', PStr tenant_id), (''status'', PStr (tenant_status_name (tn_status n)))]))"

definition member_of :: "string \<Rightarrow> string \<Rightarrow> member_tables \<Rightarrow> stored_member option" where
  "member_of tenant_id user_id t = find (\<lambda>m. tm_tenant_id m = tenant_id \<and> tm_user_id m = user_id) (mt_members t)"

definition member_by_id :: "string \<Rightarrow> member_tables \<Rightarrow> stored_member option" where
  "member_by_id i t = find (\<lambda>m. tm_id m = i) (mt_members t)"

definition put_member :: "stored_member \<Rightarrow> member_tables \<Rightarrow> member_tables \<times> unit result" where
  "put_member m t = (t\<lparr>mt_members := map (\<lambda>n. if tm_id n = tm_id m then m else n) (mt_members t)\<rparr>, Inr ())"

definition add_member :: "stored_member \<Rightarrow> member_tables \<Rightarrow> member_tables \<times> unit result" where
  "add_member m t =
    (if member_of (tm_tenant_id m) (tm_user_id m) t \<noteq> None \<or> member_by_id (tm_id m) t \<noteq> None then (t, Inl integrity_error)
     else (t\<lparr>mt_members := mt_members t @ [m]\<rparr>, Inr ()))"

definition publish_membership_event ::
  "'w access_env \<Rightarrow> stored_member \<Rightarrow> string \<Rightarrow> string \<Rightarrow> string \<Rightarrow> ('w member_state, unit) state_op" where
  "publish_membership_event env m actor_id request_id change_type =
     on_world_of (on_world_of (ae_publish env ''tenant.member_activated'' ''tenant_member'' (tm_id m) (tm_tenant_id m)
       [(''tenant_id'', PStr (tm_tenant_id m)), (''actor_id'', PStr actor_id), (''request_id'', PStr request_id),
        (''member_id'', PStr (tm_id m)), (''user_id'', PStr (tm_user_id m)), (''status'', PStr (tm_status m)),
        (''change_type'', PStr change_type)]))"

text \<open>A member is added, or its status set; becoming active is announced.\<close>

definition set_member ::
  "'w access_env \<Rightarrow> string \<Rightarrow> instant \<Rightarrow> string \<Rightarrow> string \<Rightarrow> string \<Rightarrow> string \<Rightarrow> string \<Rightarrow> ('w member_state, stored_member) state_op" where
  "set_member env fresh now tenant_id user_id status actor_id request_id =
    sbind (reads (\<lambda>t. Inr (member_of tenant_id user_id t))) (\<lambda>om.
    let m = (case om of
        None \<Rightarrow> \<lparr>tm_tenant_id = tenant_id, tm_user_id = user_id, tm_status = status, tm_id = fresh, tm_created_at = now\<rparr>
      | Some old \<Rightarrow> old\<lparr>tm_status := status\<rparr>) in
    sbind (on_tables (case om of None \<Rightarrow> add_member m | Some _ \<Rightarrow> put_member m)) (\<lambda>_.
    sbind (if status = ''active'' \<and> (case om of None \<Rightarrow> True | Some old \<Rightarrow> tm_status old \<noteq> ''active'')
           then publish_membership_event env m actor_id request_id (if om = None then ''created'' else ''activated'')
           else sret (Inr ())) (\<lambda>_. sret (Inr m))))"

definition create_member ::
  "'w access_env \<Rightarrow> string \<Rightarrow> instant \<Rightarrow> string \<Rightarrow> string \<Rightarrow> string \<Rightarrow> member_caller \<Rightarrow> ('w member_state, stored_member) state_op" where
  "create_member env fresh now tenant_id user_id status c =
    sbind (sret (assert_member_authorized c tenant_id [''manage''] ''Tenant member mutation'')) (\<lambda>_.
    sbind (reads (assert_active_tenant ''manage members'' tenant_id)) (\<lambda>_.
    sbind (sret (clean_member_status status)) (\<lambda>s.
      set_member env fresh now tenant_id user_id s (mc_actor_id c) (mc_request_id c))))"

definition update_member_status ::
  "'w access_env \<Rightarrow> string \<Rightarrow> string \<Rightarrow> string \<Rightarrow> member_caller \<Rightarrow> ('w member_state, stored_member) state_op" where
  "update_member_status env tenant_id member_id status c =
    sbind (sret (assert_member_authorized c tenant_id [''manage''] ''Tenant member mutation'')) (\<lambda>_.
    sbind (reads (\<lambda>t. case member_by_id member_id t of
        None \<Rightarrow> Inl (app_error ''NOT_FOUND'' ''Tenant member not found'' (Some 404) [])
      | Some m \<Rightarrow> if tm_tenant_id m = tenant_id then Inr m
                  else Inl (app_error ''NOT_FOUND'' ''Tenant member not found'' (Some 404) []))) (\<lambda>m.
    sbind (sret (clean_member_status status)) (\<lambda>s.
    sbind (on_tables (put_member (m\<lparr>tm_status := s\<rparr>))) (\<lambda>_.
    sbind (if s = ''active'' \<and> tm_status m \<noteq> ''active''
           then publish_membership_event env (m\<lparr>tm_status := s\<rparr>) (mc_actor_id c) (mc_request_id c) ''activated''
           else sret (Inr ())) (\<lambda>_. sret (Inr (m\<lparr>tm_status := s\<rparr>)))))))"

section \<open>Invitations\<close>

definition assert_invitation_mutation :: "member_caller \<Rightarrow> string \<Rightarrow> string \<Rightarrow> unit result" where
  "assert_invitation_mutation c tenant_id mutation =
     assert_authorization_decision (mc_decision c) tenant_id (mc_actor_id c) ''tenant_invitation'' [''manage'', mutation]
       ''Tenant invitation mutation'' False"

definition assert_initial_role_authorized :: "decision option \<Rightarrow> string \<Rightarrow> string \<Rightarrow> unit result" where
  "assert_initial_role_authorized od tenant_id actor_id =
     assert_authorization_decision od tenant_id actor_id ''role_grant'' [''manage'', ''grant'']
       ''Tenant invitation initial role grant'' False"

definition invitation_email :: "string \<Rightarrow> string result" where
  "invitation_email e =
    (let n = lower (strip e) in
     if n = [] \<or> CHR ''@'' \<notin> set n then Inl (validation_error ''Invitation email is invalid'') else Inr n)"

definition token_hash :: "(string \<Rightarrow> string) \<Rightarrow> string \<Rightarrow> string result" where
  "token_hash sha token = (if blank token then Inl (validation_error ''Invitation token is required'') else Inr (sha token))"

definition pending_invitation :: "string \<Rightarrow> string \<Rightarrow> member_tables \<Rightarrow> invitation option" where
  "pending_invitation tenant_id email t =
     find (\<lambda>i. iv_tenant_id i = tenant_id \<and> iv_email i = email \<and> iv_status i = ''pending'') (mt_invitations t)"

text \<open>Of several pending invitations of an address the first one decides.\<close>

definition assert_no_active_invitation :: "instant \<Rightarrow> string \<Rightarrow> string \<Rightarrow> member_tables \<Rightarrow> unit result" where
  "assert_no_active_invitation now tenant_id email t =
    (case pending_invitation tenant_id email t of
       None \<Rightarrow> Inr ()
     | Some i \<Rightarrow> if now < iv_expires_at i
                  then Inl (app_error ''CONFLICT'' ''Pending invitation already exists'' (Some 409) []) else Inr ())"

definition add_invitation :: "invitation \<Rightarrow> member_tables \<Rightarrow> member_tables \<times> unit result" where
  "add_invitation i t =
    (if \<exists>j \<in> set (mt_invitations t). iv_id j = iv_id i \<or> iv_token_hash j = iv_token_hash i then (t, Inl integrity_error)
     else (t\<lparr>mt_invitations := mt_invitations t @ [i]\<rparr>, Inr ()))"

definition put_invitation :: "invitation \<Rightarrow> member_tables \<Rightarrow> member_tables \<times> unit result" where
  "put_invitation i t =
     (t\<lparr>mt_invitations := map (\<lambda>j. if iv_id j = iv_id i then i else j) (mt_invitations t)\<rparr>, Inr ())"

definition publish_invitation_event ::
  "'w access_env \<Rightarrow> string \<Rightarrow> invitation \<Rightarrow> string \<Rightarrow> string \<Rightarrow> (string \<times> pyval) list \<Rightarrow> ('w member_state, unit) state_op" where
  "publish_invitation_event env event_type i actor_id request_id extra =
     on_world_of (on_world_of (ae_publish env event_type ''tenant_invitation'' (iv_id i) (iv_tenant_id i)
       ([(''tenant_id'', PStr (iv_tenant_id i)), (''actor_id'', PStr actor_id), (''request_id'', PStr request_id),
         (''invitation_id'', PStr (iv_id i))] @ extra)))"

definition audit_invitation ::
  "'w access_env \<Rightarrow> string \<Rightarrow> invitation \<Rightarrow> string \<Rightarrow> string \<Rightarrow> (string \<times> pyval) list \<Rightarrow> ('w member_state, unit) state_op" where
  "audit_invitation env action i actor_id request_id payload =
    (case ae_audit env of
       None \<Rightarrow> sret (Inr ())
     | Some record \<Rightarrow> on_world_of (on_world_of (record
         \<lparr>au_action = action, au_resource_type = ''tenant_invitation'', au_resource_id = Some (iv_id i), au_result = ''success'',
          au_tenant = Some (iv_tenant_id i), au_actor = Some actor_id, au_reason = None, au_policy_version = None,
          au_request_id = Some request_id, au_payload = payload\<rparr>)))"

definition new_invitation ::
  "string \<Rightarrow> string \<Rightarrow> string \<Rightarrow> string option \<Rightarrow> string \<Rightarrow> member_caller \<Rightarrow> decision option \<Rightarrow> instant \<Rightarrow> invitation" where
  "new_invitation fresh tenant_id email role hash c role_decision expires_at =
     \<lparr>iv_id = fresh, iv_tenant_id = tenant_id, iv_email = email, iv_role_template_id = role, iv_token_hash = hash,
      iv_status = ''pending'', iv_invited_by = mc_actor_id c,
      iv_grant_authorized_by = map_option de_user_id role_decision,
      iv_grant_policy_version = Option.bind role_decision de_policy_version, iv_expires_at = expires_at,
      iv_accepted_at = None, iv_accepted_by = None, iv_revoked_at = None, iv_revoked_by = None\<rparr>"

text \<open>The clock is read for the expiry and again for the pending invitation.\<close>

definition issue_invitation ::
  "'w access_env \<Rightarrow> (string \<Rightarrow> string) \<Rightarrow> string \<Rightarrow> string \<Rightarrow> instant \<Rightarrow> instant \<Rightarrow> string \<Rightarrow> string \<Rightarrow> string option
    \<Rightarrow> datetime \<Rightarrow> member_caller \<Rightarrow> decision option \<Rightarrow> ('w member_state, invitation \<times> string) state_op" where
  "issue_invitation env sha fresh token now1 now2 tenant_id email role expires_at c role_decision =
    sbind (sret (assert_invitation_mutation c tenant_id ''invite'')) (\<lambda>_.
    sbind (\<lambda>x. case role of
        None \<Rightarrow> (x, Inr ())
      | Some r \<Rightarrow> (x, rbind (assert_initial_role_authorized role_decision tenant_id (mc_actor_id c)) (\<lambda>_.
          if find_template r (fst (snd x)) = None then Inl (not_found ''RoleTemplate'' r) else Inr ()))) (\<lambda>_.
    sbind (sret (invitation_email email)) (\<lambda>e.
    if to_utc expires_at \<le> now1 then sret (Inl (validation_error ''Invitation expiry must be in the future''))
    else sbind (reads (assert_active_tenant ''issue invitations'' tenant_id)) (\<lambda>_.
    sbind (reads (assert_no_active_invitation now2 tenant_id e)) (\<lambda>_.
    sbind (sret (token_hash sha token)) (\<lambda>h.
    let i = new_invitation fresh tenant_id e role h c role_decision (to_utc expires_at) in
    sbind (on_tables (add_invitation i)) (\<lambda>_.
    sbind (publish_invitation_event env ''tenant.invitation_issued'' i (mc_actor_id c) (mc_request_id c)
      [(''email'', PStr e), (''role_template_id'', opt_str role)]) (\<lambda>_.
    sbind (audit_invitation env ''tenant.invitation_issued'' i (mc_actor_id c) (mc_request_id c)
      [(''email'', PStr e), (''role_template_id'', opt_str role)]) (\<lambda>_.
    sret (Inr (i, token)))))))))))"

definition invitation_by_token :: "(string \<Rightarrow> string) \<Rightarrow> string \<Rightarrow> member_tables \<Rightarrow> invitation result" where
  "invitation_by_token sha token t =
    rbind (token_hash sha token) (\<lambda>h.
    case find (\<lambda>i. iv_token_hash i = h \<and> iv_status i = ''pending'') (mt_invitations t) of
      None \<Rightarrow> Inl (app_error ''NOT_FOUND'' ''Tenant invitation not found'' (Some 404) []) | Some i \<Rightarrow> Inr i)"

text \<open>The decision an accepted invitation carries is made up from what the inviter held.\<close>

definition grant_initial_role ::
  "'w access_env \<Rightarrow> string \<Rightarrow> invitation \<Rightarrow> string \<Rightarrow> string \<Rightarrow> string \<Rightarrow> ('w member_state, unit) state_op" where
  "grant_initial_role env grant_id i role user_id request_id =
    (let actor = (case iv_grant_authorized_by i of Some (a # s) \<Rightarrow> a # s | _ \<Rightarrow> iv_invited_by i);
         d = \<lparr>de_allowed = True, de_tenant_id = iv_tenant_id i, de_user_id = actor, de_resource = ''role_grant'',
              de_action = ''grant'', de_reason = ''tenant_invitation_accepted'', de_policy_version = iv_grant_policy_version i\<rparr>;
         version = (case iv_grant_policy_version i of Some v \<Rightarrow> if v = 0 then 1 else v | None \<Rightarrow> 1);
         g = \<lparr>gr_id = grant_id, gr_tenant_id = iv_tenant_id i, gr_subject_type = ''user'', gr_subject_id = user_id,
              gr_role_template_id = role, gr_policy_version = version\<rparr> in
     on_world_of (sbind (core_grant_role (env\<lparr>ae_invalidate := None\<rparr>) g
       \<lparr>rl_actor_id = actor, rl_request_id = request_id, rl_decision = Some d, rl_reason = Some ''tenant invitation accepted''\<rparr>)
       (\<lambda>_. sret (Inr ()))))"

definition accept_invitation ::
  "'w access_env \<Rightarrow> (string \<Rightarrow> string) \<Rightarrow> string \<Rightarrow> string \<Rightarrow> instant \<Rightarrow> string \<Rightarrow> string \<Rightarrow> string \<Rightarrow> string \<Rightarrow> string
    \<Rightarrow> ('w member_state, invitation) state_op" where
  "accept_invitation env sha member_id grant_id now token user_id email actor_id request_id =
    (if actor_id \<noteq> user_id
     then sret (Inl (app_error ''PERMISSION_DENIED'' ''Invitation accept actor must match user'' (Some 403) []))
     else sbind (reads (invitation_by_token sha token)) (\<lambda>i.
     sbind (sret (invitation_email email)) (\<lambda>e.
     if e \<noteq> iv_email i then sret (Inl (validation_error ''Invitation email does not match user email''))
     else if iv_expires_at i \<le> now
     then sbind (on_tables (put_invitation (i\<lparr>iv_status := ''expired''\<rparr>))) (\<lambda>_.
       sret (Inl (validation_error ''Tenant invitation has expired'')))
     else sbind (set_member env member_id now (iv_tenant_id i) user_id ''active'' actor_id request_id) (\<lambda>_.
     sbind (case iv_role_template_id i of
         None \<Rightarrow> sret (Inr ()) | Some role \<Rightarrow> grant_initial_role env grant_id i role user_id request_id) (\<lambda>_.
     let a = i\<lparr>iv_status := ''accepted'', iv_accepted_at := Some now, iv_accepted_by := Some user_id\<rparr> in
     sbind (on_tables (put_invitation a)) (\<lambda>_.
     sbind (publish_invitation_event env ''tenant.invitation_accepted'' a actor_id request_id
       [(''user_id'', PStr user_id), (''role_template_id'', opt_str (iv_role_template_id i))]) (\<lambda>_.
     sbind (audit_invitation env ''tenant.invitation_accepted'' a actor_id request_id
       [(''user_id'', PStr user_id), (''role_template_id'', opt_str (iv_role_template_id i))]) (\<lambda>_.
     sbind (on_world_of flush_access) (\<lambda>_. sret (Inr a))))))))))"

definition get_invitation :: "string \<Rightarrow> string \<Rightarrow> member_tables \<Rightarrow> invitation result" where
  "get_invitation tenant_id invitation_id t =
    (case find (\<lambda>i. iv_id i = invitation_id) (mt_invitations t) of
       None \<Rightarrow> Inl (app_error ''NOT_FOUND'' ''Tenant invitation not found'' (Some 404) [])
     | Some i \<Rightarrow> if iv_tenant_id i = tenant_id then Inr i
                  else Inl (app_error ''NOT_FOUND'' ''Tenant invitation not found'' (Some 404) []))"

definition revoke_invitation ::
  "'w access_env \<Rightarrow> instant \<Rightarrow> invitation \<Rightarrow> member_caller \<Rightarrow> ('w member_state, invitation) state_op" where
  "revoke_invitation env now i c =
    sbind (sret (assert_invitation_mutation c (iv_tenant_id i) ''revoke'')) (\<lambda>_.
    if iv_status i \<noteq> ''pending'' then sret (Inl (app_error ''CONFLICT'' ''Only pending invitations can be revoked'' (Some 409) []))
    else let r = i\<lparr>iv_status := ''revoked'', iv_revoked_at := Some now, iv_revoked_by := Some (mc_actor_id c)\<rparr> in
      sbind (on_tables (put_invitation r)) (\<lambda>_.
      sbind (publish_invitation_event env ''tenant.invitation_revoked'' r (mc_actor_id c) (mc_request_id c) []) (\<lambda>_.
      sret (Inr r))))"

end
