(* ===== verification/Member_Properties.thy ===== *)
theory Member_Properties
  imports Tenant_Members Role_Properties
begin

text \<open>
  The properties of the tenants app: a membership comes from a decision, and an invitation admits once,
  the address it was issued to, before it expires.
\<close>

section \<open>Calls\<close>

text \<open>The calls of the two services, and what other services write between them: the tenants, the
  owner of a provisioned tenant and the tables of access.\<close>

datatype 'w member_call =
    Create_Member string instant string string string member_caller
  | Update_Member string string string member_caller
  | Issue_Invitation string string instant instant string string "string option" datetime member_caller "decision option"
  | Accept_Invitation string string instant string string string string string
  | Revoke_Invitation instant string string member_caller
  | Elsewhere "stored_tenant list" "stored_member option" "'w access_state"

text \<open>The route of a revocation looks the invitation up first.\<close>

fun member_call_op :: "'w access_env \<Rightarrow> (string \<Rightarrow> string) \<Rightarrow> 'w member_call \<Rightarrow> ('w member_state, unit) state_op" where
  "member_call_op env sha (Create_Member i now n u s c) = sbind (create_member env i now n u s c) (\<lambda>_. sret (Inr ()))"
| "member_call_op env sha (Update_Member n i s c) = sbind (update_member_status env n i s c) (\<lambda>_. sret (Inr ()))"
| "member_call_op env sha (Issue_Invitation i k now1 now2 n e r ex c d) =
     sbind (issue_invitation env sha i k now1 now2 n e r ex c d) (\<lambda>_. sret (Inr ()))"
| "member_call_op env sha (Accept_Invitation m g now k u e a q) =
     sbind (accept_invitation env sha m g now k u e a q) (\<lambda>_. sret (Inr ()))"
| "member_call_op env sha (Revoke_Invitation now n i c) =
     sbind (reads (get_invitation n i)) (\<lambda>v. sbind (revoke_invitation env now v c) (\<lambda>_. sret (Inr ())))"
| "member_call_op env sha (Elsewhere ts owner w) =
     sbind (on_tables (case owner of None \<Rightarrow> \<lambda>t. (t, Inr ()) | Some m \<Rightarrow> add_member m)) (\<lambda>_ x.
       (((fst x)\<lparr>mt_tenants := ts\<rparr>, w), Inr ()))"

definition member_run :: "'w access_env \<Rightarrow> (string \<Rightarrow> string) \<Rightarrow> 'w member_call list \<Rightarrow> 'w member_state \<Rightarrow> 'w member_state" where
  "member_run env sha cs x = fold (\<lambda>c x. fst (unit_op (member_call_op env sha c) x)) cs x"

definition no_members :: "stored_tenant list \<Rightarrow> member_tables" where
  "no_members ts = \<lparr>mt_tenants = ts, mt_members = [], mt_invitations = []\<rparr>"

text \<open>An allowed decision for the actor, in this tenant, on this resource.\<close>

definition holds_decision :: "decision option \<Rightarrow> string \<Rightarrow> string \<Rightarrow> string \<Rightarrow> string list \<Rightarrow> bool" where
  "holds_decision od actor tenant_id resource actions \<longleftrightarrow>
     when_some od (\<lambda>d. de_allowed d \<and> de_user_id d = actor \<and> de_tenant_id d = tenant_id \<and> de_resource d = resource \<and>
       de_action d \<in> set actions)"

lemma decision_held:
  "assert_authorization_decision od tenant_id actor resource actions operation False = Inr () \<longleftrightarrow>
     holds_decision od actor tenant_id resource actions"
  by (auto simp: assert_authorization_ok holds_decision_def)

lemmas member_decisions = decision_held assert_member_authorized_def assert_invitation_mutation_def assert_initial_role_authorized_def

section \<open>What the operations leave\<close>

lemma member_events_keep:
  "publish_membership_event env m a q c x = (y, r) \<Longrightarrow> fst y = fst x \<and> fst (snd y) = fst (snd x)"
  "publish_invitation_event env e i a q p x = (y, r) \<Longrightarrow> fst y = fst x \<and> fst (snd y) = fst (snd x)"
  "audit_invitation env e i a q p x = (y, r) \<Longrightarrow> fst y = fst x \<and> fst (snd y) = fst (snd x)"
  by (auto simp: publish_membership_event_def publish_invitation_event_def audit_invitation_def on_world_of_def
      split: option.splits prod.splits)

lemma find_replaced:
  "find P xs = Some old \<Longrightarrow> P m \<Longrightarrow> k m = k old \<Longrightarrow> find P (map (\<lambda>n. if k n = k m then m else n) xs) = Some m"
  by (induction xs) (auto split: if_splits)

lemma put_member_returns:
  "put_member m t = (t', Inr v) \<longleftrightarrow> t' = t\<lparr>mt_members := map (\<lambda>n. if tm_id n = tm_id m then m else n) (mt_members t)\<rparr>"
  by (auto simp: put_member_def)

lemma add_member_returns:
  "add_member m t = (t', Inr v) \<longleftrightarrow> member_of (tm_tenant_id m) (tm_user_id m) t = None \<and> member_by_id (tm_id m) t = None \<and>
     t' = t\<lparr>mt_members := mt_members t @ [m]\<rparr>"
  by (auto simp: add_member_def)

lemma add_invitation_returns:
  "add_invitation i t = (t', Inr v) \<longleftrightarrow>
     (\<forall>j \<in> set (mt_invitations t). iv_id j \<noteq> iv_id i \<and> iv_token_hash j \<noteq> iv_token_hash i) \<and>
     t' = t\<lparr>mt_invitations := mt_invitations t @ [i]\<rparr>"
  by (auto simp: add_invitation_def)

lemma put_invitation_returns:
  "put_invitation i t = (t', Inr v) \<longleftrightarrow>
     t' = t\<lparr>mt_invitations := map (\<lambda>j. if iv_id j = iv_id i then i else j) (mt_invitations t)\<rparr>"
  by (auto simp: put_invitation_def)

lemmas member_row_returns = put_member_returns add_member_returns add_invitation_returns put_invitation_returns

lemma member_of_found: "member_of n u t = Some m \<Longrightarrow> m \<in> set (mt_members t) \<and> tm_tenant_id m = n \<and> tm_user_id m = u"
  by (auto simp: member_of_def find_Some_iff)

lemma member_by_id_found: "member_by_id i t = Some m \<Longrightarrow> m \<in> set (mt_members t) \<and> tm_id m = i"
  by (auto simp: member_by_id_def find_Some_iff)

text \<open>A row of a member is written: appended, or put in the place of the row with its identifier.\<close>

definition member_written :: "stored_member \<Rightarrow> member_tables \<Rightarrow> member_tables \<Rightarrow> bool" where
  "member_written m t t' \<longleftrightarrow>
     (member_of (tm_tenant_id m) (tm_user_id m) t = None \<and> member_by_id (tm_id m) t = None \<and>
       t' = t\<lparr>mt_members := mt_members t @ [m]\<rparr>) \<or>
     ((\<exists>old \<in> set (mt_members t). tm_id old = tm_id m \<and> tm_tenant_id old = tm_tenant_id m \<and> tm_user_id old = tm_user_id m) \<and>
       t' = t\<lparr>mt_members := map (\<lambda>n. if tm_id n = tm_id m then m else n) (mt_members t)\<rparr>)"

lemma set_member_returns:
  assumes "set_member env fresh now n u s a q x = (y, Inr m)"
  shows "member_written m (fst x) (fst y)" and "tm_tenant_id m = n" and "tm_user_id m = u" and "tm_status m = s"
    and "member_of n u (fst y) = Some m" and "fst (snd y) = fst (snd x)"
proof -
  have all: "member_written m (fst x) (fst y) \<and> tm_tenant_id m = n \<and> tm_user_id m = u \<and> tm_status m = s \<and>
    member_of n u (fst y) = Some m \<and> fst (snd y) = fst (snd x)"
  proof (cases "member_of n u (fst x)")
    case None
    then show ?thesis using assms
      by (auto simp: set_member_def returns member_row_returns member_written_def Let_def member_of_def find_append
          split: if_splits dest!: member_events_keep)
  next
    case (Some old)
    have m: "m = old\<lparr>tm_status := s\<rparr>" and t: "fst y = (fst x)\<lparr>mt_members := map (\<lambda>n. if tm_id n = tm_id m then m else n) (mt_members (fst x))\<rparr>"
      and g: "fst (snd y) = fst (snd x)"
      using assms Some by (auto simp: set_member_def returns member_row_returns Let_def split: if_splits dest!: member_events_keep)
    note old = member_of_found [OF Some]
    have "member_of n u (fst y) = Some m"
      unfolding member_of_def t by (simp, rule find_replaced) (use Some old in \<open>simp_all add: member_of_def m\<close>)
    then show ?thesis using old g t by (auto simp: m member_written_def)
  qed
  then show "member_written m (fst x) (fst y)" "tm_tenant_id m = n" "tm_user_id m = u" "tm_status m = s"
    "member_of n u (fst y) = Some m" "fst (snd y) = fst (snd x)" by simp_all
qed

lemma clean_status_returns: "clean_member_status s = Inr v \<longleftrightarrow> \<not> blank s \<and> v = lower (strip s)"
  by (auto simp: clean_member_status_def)

lemma create_member_returns:
  assumes "create_member env fresh now n u s c x = (y, Inr m)"
  shows "holds_decision (mc_decision c) (mc_actor_id c) n ''tenant_member'' [''manage'']"
    and "member_written m (fst x) (fst y)" and "tm_tenant_id m = n" and "tm_user_id m = u" and "tm_status m = lower (strip s)"
proof -
  have auth: "holds_decision (mc_decision c) (mc_actor_id c) n ''tenant_member'' [''manage'']"
    and set: "set_member env fresh now n u (lower (strip s)) (mc_actor_id c) (mc_request_id c) x = (y, Inr m)"
    using assms by (auto simp: create_member_def returns member_decisions clean_status_returns)
  show "holds_decision (mc_decision c) (mc_actor_id c) n ''tenant_member'' [''manage'']" by (rule auth)
  show "member_written m (fst x) (fst y)" "tm_tenant_id m = n" "tm_user_id m = u" "tm_status m = lower (strip s)"
    by (rule set_member_returns [OF set])+
qed

lemma update_member_returns:
  assumes "update_member_status env n i s c x = (y, Inr m)"
  shows "holds_decision (mc_decision c) (mc_actor_id c) n ''tenant_member'' [''manage'']"
    and "member_written m (fst x) (fst y)" and "tm_tenant_id m = n" and "tm_id m = i" and "tm_status m = lower (strip s)"
proof -
  obtain old where auth: "holds_decision (mc_decision c) (mc_actor_id c) n ''tenant_member'' [''manage'']"
    and old: "member_by_id i (fst x) = Some old" "tm_tenant_id old = n" and m: "m = old\<lparr>tm_status := lower (strip s)\<rparr>"
    and t: "fst y = (fst x)\<lparr>mt_members := map (\<lambda>n. if tm_id n = tm_id m then m else n) (mt_members (fst x))\<rparr>"
    using assms
    by (auto simp: update_member_status_def returns member_decisions clean_status_returns member_row_returns
        split: option.splits if_splits dest!: member_events_keep)
  show "holds_decision (mc_decision c) (mc_actor_id c) n ''tenant_member'' [''manage'']" by (rule auth)
  show "tm_tenant_id m = n" "tm_id m = i" "tm_status m = lower (strip s)" using old member_by_id_found by (auto simp: m)
  show "member_written m (fst x) (fst y)" using member_by_id_found [OF old(1)] t by (auto simp: member_written_def m)
qed

lemma token_hash_returns: "token_hash sha k = Inr h \<longleftrightarrow> \<not> blank k \<and> h = sha k"
  by (auto simp: token_hash_def)

lemma issue_returns:
  assumes "issue_invitation env sha fresh k now1 now2 n e role ex c d x = (y, Inr (i, k'))"
  obtains a where "k' = k" and "holds_decision (mc_decision c) (mc_actor_id c) n ''tenant_invitation'' [''manage'', ''invite'']"
    and "role \<noteq> None \<longrightarrow> holds_decision d (mc_actor_id c) n ''role_grant'' [''manage'', ''grant'']"
    and "invitation_email e = Inr a" and "now1 < to_utc ex"
    and "i = new_invitation fresh n a role (sha k) c d (to_utc ex)"
    and "\<forall>j \<in> set (mt_invitations (fst x)). iv_id j \<noteq> fresh \<and> iv_token_hash j \<noteq> sha k"
    and "fst y = (fst x)\<lparr>mt_invitations := mt_invitations (fst x) @ [i]\<rparr>" and "fst (snd y) = fst (snd x)"
  using assms
  by (auto simp: issue_invitation_def returns member_decisions member_row_returns token_hash_returns Let_def
      rbind_Inr_iff not_le new_invitation_def split: option.splits if_splits dest!: member_events_keep)

lemma by_token_returns:
  "invitation_by_token sha k t = Inr i \<longleftrightarrow>
     \<not> blank k \<and> find (\<lambda>j. iv_token_hash j = sha k \<and> iv_status j = ''pending'') (mt_invitations t) = Some i"
  by (auto simp: invitation_by_token_def token_hash_returns rbind_Inr_iff split: option.splits)

definition initial_grants :: "string \<Rightarrow> invitation \<Rightarrow> string \<Rightarrow> role_grant list" where
  "initial_grants grant_id i user_id =
    (case iv_role_template_id i of
       None \<Rightarrow> []
     | Some role \<Rightarrow> [\<lparr>gr_id = grant_id, gr_tenant_id = iv_tenant_id i, gr_subject_type = ''user'', gr_subject_id = user_id,
         gr_role_template_id = role, gr_policy_version =
           (case iv_grant_policy_version i of Some v \<Rightarrow> if v = 0 then 1 else v | None \<Rightarrow> 1)\<rparr>])"

lemma initial_role_returns:
  assumes "(case iv_role_template_id i of None \<Rightarrow> sret (Inr ()) | Some role \<Rightarrow> grant_initial_role env g i role u q) x = (y, Inr ())"
  shows "fst y = fst x" and "fst (snd y) = (fst (snd x))\<lparr>ac_grants := ac_grants (fst (snd x)) @ initial_grants g i u\<rparr>"
  using assms
  by (auto simp: initial_grants_def grant_initial_role_def Let_def returns split: option.splits dest!: core_grant_returns(1,2))

definition accepted :: "instant \<Rightarrow> string \<Rightarrow> invitation \<Rightarrow> invitation" where
  "accepted now u i = i\<lparr>iv_status := ''accepted'', iv_accepted_at := Some now, iv_accepted_by := Some u\<rparr>"

lemma accept_returns:
  assumes "accept_invitation env sha mid g now k u e a q x = (y, Inr b)"
  obtains i m t where "a = u"
    and "find (\<lambda>j. iv_token_hash j = sha k \<and> iv_status j = ''pending'') (mt_invitations (fst x)) = Some i"
    and "invitation_email e = Inr (iv_email i)" and "now < iv_expires_at i" and "b = accepted now u i"
    and "member_written m (fst x) t" and "tm_tenant_id m = iv_tenant_id i" and "tm_user_id m = u" and "tm_status m = ''active''"
    and "member_of (iv_tenant_id i) u t = Some m"
    and "fst y = t\<lparr>mt_invitations := map (\<lambda>j. if iv_id j = iv_id b then b else j) (mt_invitations t)\<rparr>"
    and "fst (snd y) = (fst (snd x))\<lparr>ac_grants := ac_grants (fst (snd x)) @ initial_grants g i u\<rparr>"
proof -
  obtain i x1 x2 m where i: "a = u" "invitation_by_token sha k (fst x) = Inr i" "invitation_email e = Inr (iv_email i)"
      "now < iv_expires_at i" "b = accepted now u i"
    and m: "set_member env mid now (iv_tenant_id i) u ''active'' a q x = (x1, Inr m)"
    and g: "(case iv_role_template_id i of None \<Rightarrow> sret (Inr ()) | Some role \<Rightarrow> grant_initial_role env g i role u q) x1 = (x2, Inr ())"
    and y: "fst y = (fst x2)\<lparr>mt_invitations := map (\<lambda>j. if iv_id j = iv_id b then b else j) (mt_invitations (fst x2))\<rparr>"
      "fst (snd y) = fst (snd x2)"
    using assms
    by (auto simp: accept_invitation_def returns member_row_returns Let_def not_le accepted_def split: if_splits
        dest!: member_events_keep flush_same)
  note m = set_member_returns [OF m]
  note g = initial_role_returns [OF g]
  show thesis
    by (rule that [OF i(1) _ i(3,4,5) m(1,2,3,4,5)]) (use i(2) y g m(6) in \<open>simp_all add: by_token_returns\<close>)
qed

lemma revoke_returns:
  assumes "revoke_invitation env now i c x = (y, Inr r)"
  shows "iv_status i = ''pending''" and "r = i\<lparr>iv_status := ''revoked'', iv_revoked_at := Some now, iv_revoked_by := Some (mc_actor_id c)\<rparr>"
    and "fst y = (fst x)\<lparr>mt_invitations := map (\<lambda>j. if iv_id j = iv_id r then r else j) (mt_invitations (fst x))\<rparr>"
    and "holds_decision (mc_decision c) (mc_actor_id c) (iv_tenant_id i) ''tenant_invitation'' [''manage'', ''revoke'']"
  using assms by (auto simp: revoke_invitation_def returns member_decisions member_row_returns Let_def split: if_splits
      dest!: member_events_keep)

section \<open>The invariant of the tables\<close>

definition invitations_wf :: "member_tables \<Rightarrow> bool" where
  "invitations_wf t \<longleftrightarrow> distinct (map iv_id (mt_invitations t)) \<and> distinct (map iv_token_hash (mt_invitations t))"

text \<open>A hash that was an invitation's and is no pending invitation's.\<close>

definition spent :: "string \<Rightarrow> member_tables \<Rightarrow> bool" where
  "spent h t \<longleftrightarrow> h \<in> iv_token_hash ` set (mt_invitations t) \<and>
     (\<forall>i \<in> set (mt_invitations t). iv_token_hash i = h \<longrightarrow> iv_status i \<noteq> ''pending'')"

lemma member_written_invitations: "member_written m t t' \<Longrightarrow> mt_invitations t' = mt_invitations t"
  by (auto simp: member_written_def)

lemma put_invitation_keys:
  assumes "distinct (map iv_id is)" and "i \<in> set is" and "iv_id v = iv_id i" and "f v = f i"
  shows "map f (map (\<lambda>j. if iv_id j = iv_id v then v else j) is) = map f is"
  using assms by (auto simp: distinct_map inj_on_def)

lemma wf_replaced:
  assumes "invitations_wf t" and "i \<in> set (mt_invitations t)" and "iv_id v = iv_id i" and "iv_token_hash v = iv_token_hash i"
    and "mt_invitations t' = map (\<lambda>j. if iv_id j = iv_id v then v else j) (mt_invitations t)"
  shows "invitations_wf t'"
  using assms put_invitation_keys [of "mt_invitations t" i v iv_id] put_invitation_keys [of "mt_invitations t" i v iv_token_hash]
  by (simp add: invitations_wf_def del: map_map)

lemma spent_replaced:
  assumes "spent h t" and "invitations_wf t" and "i \<in> set (mt_invitations t)" and "iv_id v = iv_id i"
    and "iv_token_hash v = iv_token_hash i" and "iv_status v \<noteq> ''pending''"
    and "mt_invitations t' = map (\<lambda>j. if iv_id j = iv_id v then v else j) (mt_invitations t)"
  shows "spent h t'"
proof -
  have "map iv_token_hash (mt_invitations t') = map iv_token_hash (mt_invitations t)"
    unfolding assms(7) by (rule put_invitation_keys [OF _ assms(3,4)]) (use assms in \<open>auto simp: invitations_wf_def\<close>)
  then have "iv_token_hash ` set (mt_invitations t') = iv_token_hash ` set (mt_invitations t)" by (metis set_map)
  then show ?thesis using assms(1,6) by (auto simp: spent_def assms(7))
qed

lemma closed_is_spent:
  assumes wf: "invitations_wf t" and i: "i \<in> set (mt_invitations t)" and v: "iv_id v = iv_id i" "iv_token_hash v = iv_token_hash i"
    and closed: "iv_status v \<noteq> ''pending''"
    and t': "mt_invitations t' = map (\<lambda>j. if iv_id j = iv_id v then v else j) (mt_invitations t)"
  shows "spent (iv_token_hash i) t'"
  unfolding spent_def
proof (intro conjI ballI impI)
  have "v \<in> set (mt_invitations t')" unfolding t' set_map using i v(1) by (intro rev_image_eqI [of i]) simp_all
  then show "iv_token_hash i \<in> iv_token_hash ` set (mt_invitations t')" unfolding v(2) [symmetric] by (rule imageI)
  fix j assume "j \<in> set (mt_invitations t')" and h: "iv_token_hash j = iv_token_hash i"
  then consider "j = v" | "j \<in> set (mt_invitations t)" "iv_id j \<noteq> iv_id v" unfolding t' by (auto split: if_splits)
  then show "iv_status j \<noteq> ''pending''"
  proof cases
    case 2
    with wf i h have "j = i" by (auto simp: invitations_wf_def distinct_map inj_on_def)
    with 2 v show ?thesis by simp
  qed (simp add: closed)
qed

text \<open>The ways a call may change the invitations.\<close>

inductive invitations_step :: "member_tables \<Rightarrow> member_tables \<Rightarrow> bool" where
  kept: "mt_invitations t' = mt_invitations t \<Longrightarrow> invitations_step t t'"
| issued: "\<forall>j \<in> set (mt_invitations t). iv_id j \<noteq> iv_id i \<and> iv_token_hash j \<noteq> iv_token_hash i \<Longrightarrow>
    mt_invitations t' = mt_invitations t @ [i] \<Longrightarrow> invitations_step t t'"
| closed: "i \<in> set (mt_invitations t) \<Longrightarrow> iv_status i = ''pending'' \<Longrightarrow> iv_id v = iv_id i \<Longrightarrow> iv_token_hash v = iv_token_hash i \<Longrightarrow>
    iv_status v \<noteq> ''pending'' \<Longrightarrow> mt_invitations t' = map (\<lambda>j. if iv_id j = iv_id v then v else j) (mt_invitations t) \<Longrightarrow>
    invitations_step t t'"

lemma invitations_step_wf: "invitations_step t t' \<Longrightarrow> invitations_wf t \<Longrightarrow> invitations_wf t'"
proof (induction rule: invitations_step.induct)
  case (closed i t v t')
  then show ?case by (blast intro: wf_replaced)
qed (auto simp: invitations_wf_def)

lemma invitations_step_spent: "invitations_step t t' \<Longrightarrow> invitations_wf t \<Longrightarrow> spent h t \<Longrightarrow> spent h t'"
proof (induction rule: invitations_step.induct)
  case (closed i t v t')
  then show ?case by (blast intro: spent_replaced)
qed (auto simp: spent_def)

lemma accepted_row [simp]: "iv_id (accepted now u i) = iv_id i" "iv_token_hash (accepted now u i) = iv_token_hash i"
    "iv_tenant_id (accepted now u i) = iv_tenant_id i" "iv_email (accepted now u i) = iv_email i"
    "iv_status (accepted now u i) = ''accepted''"
  by (simp_all add: accepted_def)

lemma found_by_token:
  "find (\<lambda>j. iv_token_hash j = h \<and> iv_status j = ''pending'') is = Some i \<Longrightarrow>
     i \<in> set is \<and> iv_token_hash i = h \<and> iv_status i = ''pending''"
  by (auto simp: find_Some_iff)

lemma get_invitation_returns:
  "get_invitation n i t = Inr v \<longleftrightarrow> find (\<lambda>j. iv_id j = i) (mt_invitations t) = Some v \<and> iv_tenant_id v = n"
  by (auto simp: get_invitation_def split: option.splits)

lemma accept_step:
  assumes "accept_invitation env sha mid g now k u e a q x = (y, Inr b)"
  shows "invitations_step (fst x) (fst y)"
proof -
  obtain i m t where i: "find (\<lambda>j. iv_token_hash j = sha k \<and> iv_status j = ''pending'') (mt_invitations (fst x)) = Some i"
    and b: "b = accepted now u i" and t: "member_written m (fst x) t"
    and y: "fst y = t\<lparr>mt_invitations := map (\<lambda>j. if iv_id j = iv_id b then b else j) (mt_invitations t)\<rparr>"
    by (rule accept_returns [OF assms])
  show ?thesis
    by (rule closed [where i = i and v = b])
      (use found_by_token [OF i] member_written_invitations [OF t] y in \<open>simp_all add: b\<close>)
qed

lemma call_step:
  assumes "member_call_op env sha c x = (y, Inr v)"
  shows "invitations_step (fst x) (fst y)"
proof (cases c)
  case (Create_Member i now n u s c)
  with assms obtain m where m: "create_member env i now n u s c x = (y, Inr m)" by (auto simp: returns)
  show ?thesis by (rule kept) (rule member_written_invitations [OF create_member_returns(2) [OF m]])
next
  case (Update_Member n i s c)
  with assms obtain m where m: "update_member_status env n i s c x = (y, Inr m)" by (auto simp: returns)
  show ?thesis by (rule kept) (rule member_written_invitations [OF update_member_returns(2) [OF m]])
next
  case (Issue_Invitation fresh k now1 now2 n e r ex c d)
  with assms obtain i k' where m: "issue_invitation env sha fresh k now1 now2 n e r ex c d x = (y, Inr (i, k'))" by (auto simp: returns)
  show ?thesis by (rule issue_returns [OF m], rule issued [where i = i]) (simp_all add: new_invitation_def)
next
  case (Accept_Invitation m g now k u e a q)
  with assms show ?thesis by (auto simp: returns intro: accept_step)
next
  case (Revoke_Invitation now n i c)
  with assms obtain w r where w: "get_invitation n i (fst x) = Inr w" and m: "revoke_invitation env now w c x = (y, Inr r)"
    by (auto simp: returns)
  note r = revoke_returns [OF m]
  have "w \<in> set (mt_invitations (fst x))" using w by (auto simp: get_invitation_returns find_Some_iff)
  with r show ?thesis by (intro closed [where i = w and v = r]) simp_all
next
  case (Elsewhere ts owner w)
  with assms show ?thesis by (auto simp: returns member_row_returns intro!: kept split: option.splits)
qed

lemma run_preserves:
  assumes "\<And>c x y v. member_call_op env sha c x = (y, Inr v) \<Longrightarrow> P (fst x) \<Longrightarrow> P (fst y)" and "P (fst x)"
  shows "P (fst (member_run env sha cs x))"
  using assms(2)
proof (induction cs arbitrary: x)
  case (Cons c cs)
  have "P (fst (fst (unit_op (member_call_op env sha c) x)))"
    using unit_op_cases [of "member_call_op env sha c" x] assms(1) Cons.prems by metis
  then show ?case using Cons.IH by (simp add: member_run_def)
qed (simp add: member_run_def)

lemma run_wf: "invitations_wf (fst (member_run env sha cs (no_members ts, w)))"
  by (rule run_preserves) (blast intro: invitations_step_wf call_step, simp add: invitations_wf_def no_members_def)

lemma run_spent: "invitations_wf (fst x) \<Longrightarrow> spent h (fst x) \<Longrightarrow> spent h (fst (member_run env sha cs x))"
  using run_preserves [where P = "\<lambda>t. invitations_wf t \<and> spent h t"] invitations_step_wf invitations_step_spent call_step
  by (metis (no_types, lifting))

lemma spent_is_refused:
  assumes "spent (sha k) (fst x)"
  shows "\<exists>er. snd (accept_invitation env sha mid g now k u e a q x) = Inl er"
proof (rule ccontr)
  assume "\<not> ?thesis"
  then obtain b where "snd (accept_invitation env sha mid g now k u e a q x) = Inr b" by (meson sum.exhaust)
  then have "accept_invitation env sha mid g now k u e a q x = (fst (accept_invitation env sha mid g now k u e a q x), Inr b)"
    by (metis prod.collapse)
  then obtain i where "find (\<lambda>j. iv_token_hash j = sha k \<and> iv_status j = ''pending'') (mt_invitations (fst x)) = Some i"
    by (rule accept_returns)
  then show False using found_by_token assms unfolding spent_def by blast
qed

section \<open>Where a membership comes from\<close>

text \<open>An invitation was issued by a call of an actor who may invite in its tenant, and may grant its role.\<close>

definition issued_by :: "(string \<Rightarrow> string) \<Rightarrow> 'w member_call list \<Rightarrow> invitation \<Rightarrow> bool" where
  "issued_by sha cs i \<longleftrightarrow> (\<exists>fresh k now1 now2 e ex c d.
     Issue_Invitation fresh k now1 now2 (iv_tenant_id i) e (iv_role_template_id i) ex c d \<in> set cs \<and>
     holds_decision (mc_decision c) (mc_actor_id c) (iv_tenant_id i) ''tenant_invitation'' [''manage'', ''invite''] \<and>
     (iv_role_template_id i \<noteq> None \<longrightarrow>
       holds_decision d (mc_actor_id c) (iv_tenant_id i) ''role_grant'' [''manage'', ''grant'']) \<and>
     iv_token_hash i = sha k \<and> invitation_email e = Inr (iv_email i) \<and> iv_expires_at i = to_utc ex)"

text \<open>A user accepted an invitation issued before, with its token and address, before it expired.\<close>

definition invited :: "(string \<Rightarrow> string) \<Rightarrow> 'w member_call list \<Rightarrow> string \<Rightarrow> string \<Rightarrow> bool" where
  "invited sha cs tenant_id u \<longleftrightarrow> (\<exists>before mid g now k e q later i.
     cs = before @ Accept_Invitation mid g now k u e u q # later \<and> issued_by sha before i \<and> iv_tenant_id i = tenant_id \<and>
     iv_token_hash i = sha k \<and> invitation_email e = Inr (iv_email i) \<and> now < iv_expires_at i)"

text \<open>The user is the owner a tenant was provisioned with, an actor who may manage the members of the tenant
  made the user active, or the user was invited.\<close>

definition admitted :: "(string \<Rightarrow> string) \<Rightarrow> 'w member_call list \<Rightarrow> stored_member \<Rightarrow> bool" where
  "admitted sha cs m \<longleftrightarrow>
     (\<exists>ts owner w. Elsewhere ts (Some owner) w \<in> set cs \<and> tm_tenant_id owner = tm_tenant_id m \<and> tm_user_id owner = tm_user_id m) \<or>
     (\<exists>i now s c. Create_Member i now (tm_tenant_id m) (tm_user_id m) s c \<in> set cs \<and> lower (strip s) = ''active'' \<and>
        holds_decision (mc_decision c) (mc_actor_id c) (tm_tenant_id m) ''tenant_member'' [''manage'']) \<or>
     (\<exists>s c. Update_Member (tm_tenant_id m) (tm_id m) s c \<in> set cs \<and> lower (strip s) = ''active'' \<and>
        holds_decision (mc_decision c) (mc_actor_id c) (tm_tenant_id m) ''tenant_member'' [''manage'']) \<or>
     invited sha cs (tm_tenant_id m) (tm_user_id m)"

definition provenance :: "(string \<Rightarrow> string) \<Rightarrow> 'w member_call list \<Rightarrow> member_tables \<Rightarrow> bool" where
  "provenance sha cs t \<longleftrightarrow> (\<forall>m \<in> set (mt_members t). tm_status m = ''active'' \<longrightarrow> admitted sha cs m) \<and>
     (\<forall>i \<in> set (mt_invitations t). issued_by sha cs i)"

lemma issued_by_mono: "issued_by sha cs i \<Longrightarrow> issued_by sha (cs @ ds) i"
  unfolding issued_by_def set_append by blast

lemma invited_mono: "invited sha cs n u \<Longrightarrow> invited sha (cs @ ds) n u"
  unfolding invited_def by (metis (no_types, lifting) append.assoc append_Cons)

lemma admitted_mono: "admitted sha cs m \<Longrightarrow> admitted sha (cs @ ds) m"
  unfolding admitted_def set_append using invited_mono by blast

lemma provenance_mono: "provenance sha cs t \<Longrightarrow> provenance sha (cs @ ds) t"
  unfolding provenance_def using admitted_mono issued_by_mono by blast

lemma issued_by_same:
  assumes "issued_by sha cs i" and "iv_tenant_id v = iv_tenant_id i" and "iv_role_template_id v = iv_role_template_id i"
    and "iv_token_hash v = iv_token_hash i" and "iv_email v = iv_email i" and "iv_expires_at v = iv_expires_at i"
  shows "issued_by sha cs v"
  using assms unfolding issued_by_def by simp

lemma written_provenance:
  assumes "provenance sha cs t" and "member_written m t t'" and "tm_status m = ''active'' \<Longrightarrow> admitted sha cs m"
  shows "provenance sha cs t'"
  using assms unfolding provenance_def member_written_invitations [OF assms(2)] by (auto simp: member_written_def)

lemma replaced_provenance:
  assumes "provenance sha cs t" and "issued_by sha cs v" and "mt_members t' = mt_members t"
    and "mt_invitations t' = map (\<lambda>j. if iv_id j = iv_id v then v else j) (mt_invitations t)"
  shows "provenance sha cs t'"
  using assms by (auto simp: provenance_def)

lemma accept_provenance:
  assumes "accept_invitation env sha mid g now k u e a q x = (y, Inr b)" and p: "provenance sha cs (fst x)"
  shows "provenance sha (cs @ [Accept_Invitation mid g now k u e a q]) (fst y)"
proof -
  let ?cs = "cs @ [Accept_Invitation mid g now k u e a q]"
  obtain i m t where a: "a = u"
    and i: "find (\<lambda>j. iv_token_hash j = sha k \<and> iv_status j = ''pending'') (mt_invitations (fst x)) = Some i"
    and e: "invitation_email e = Inr (iv_email i)" and now: "now < iv_expires_at i" and b: "b = accepted now u i"
    and t: "member_written m (fst x) t" and m: "tm_tenant_id m = iv_tenant_id i" "tm_user_id m = u"
    and y: "fst y = t\<lparr>mt_invitations := map (\<lambda>j. if iv_id j = iv_id b then b else j) (mt_invitations t)\<rparr>"
    by (rule accept_returns [OF assms(1)])
  have issued: "issued_by sha cs i" using found_by_token [OF i] p by (simp add: provenance_def)
  have "invited sha ?cs (iv_tenant_id i) u"
    unfolding invited_def a using issued e now found_by_token [OF i] by blast
  then have "admitted sha ?cs m" by (simp add: admitted_def m)
  then have pt: "provenance sha ?cs t" by (rule written_provenance [OF provenance_mono [OF p] t])
  have "issued_by sha ?cs b"
    by (rule issued_by_same [OF issued_by_mono [OF issued]]) (simp_all add: b accepted_def)
  then show ?thesis by (rule replaced_provenance [OF pt]) (simp_all add: y)
qed

lemma admitted_by_manager:
  assumes "holds_decision (mc_decision c) (mc_actor_id c) (tm_tenant_id m) ''tenant_member'' [''manage'']"
    and "lower (strip s) = ''active''"
    and "Create_Member i now (tm_tenant_id m) (tm_user_id m) s c \<in> set cs \<or> Update_Member (tm_tenant_id m) (tm_id m) s c \<in> set cs"
  shows "admitted sha cs m"
  using assms unfolding admitted_def by blast

lemma call_provenance:
  assumes "member_call_op env sha c x = (y, Inr v)" and p: "provenance sha cs (fst x)"
  shows "provenance sha (cs @ [c]) (fst y)"
proof (cases c)
  case c: (Create_Member i now n u s d)
  with assms obtain m where m: "create_member env i now n u s d x = (y, Inr m)" by (auto simp: returns)
  note m = create_member_returns [OF m]
  show ?thesis by (rule written_provenance [OF provenance_mono [OF p] m(2)]) (rule admitted_by_manager [of d _ s i now], use c m in auto)
next
  case c: (Update_Member n i s d)
  with assms obtain m where m: "update_member_status env n i s d x = (y, Inr m)" by (auto simp: returns)
  note m = update_member_returns [OF m]
  show ?thesis by (rule written_provenance [OF provenance_mono [OF p] m(2)]) (rule admitted_by_manager [of d _ s], use c m in auto)
next
  case c: (Issue_Invitation fresh k now1 now2 n e r ex d rd)
  with assms obtain i k' where m: "issue_invitation env sha fresh k now1 now2 n e r ex d rd x = (y, Inr (i, k'))" by (auto simp: returns)
  obtain a where d: "holds_decision (mc_decision d) (mc_actor_id d) n ''tenant_invitation'' [''manage'', ''invite'']"
    and rd: "r \<noteq> None \<longrightarrow> holds_decision rd (mc_actor_id d) n ''role_grant'' [''manage'', ''grant'']"
    and a: "invitation_email e = Inr a" and i: "i = new_invitation fresh n a r (sha k) d rd (to_utc ex)"
    and y: "fst y = (fst x)\<lparr>mt_invitations := mt_invitations (fst x) @ [i]\<rparr>"
    by (rule issue_returns [OF m])
  have "issued_by sha (cs @ [c]) i"
    unfolding issued_by_def c using d rd a by (intro exI) (auto simp: i new_invitation_def)
  then show ?thesis using provenance_mono [OF p, of "[c]"] by (auto simp: provenance_def y)
next
  case (Accept_Invitation m g now k u e a q)
  with assms show ?thesis by (auto simp: returns intro: accept_provenance)
next
  case c: (Revoke_Invitation now n i d)
  with assms obtain w r where w: "get_invitation n i (fst x) = Inr w" and m: "revoke_invitation env now w d x = (y, Inr r)"
    by (auto simp: returns)
  note r = revoke_returns [OF m]
  have "w \<in> set (mt_invitations (fst x))" using w by (auto simp: get_invitation_returns find_Some_iff)
  then have "issued_by sha (cs @ [c]) w" using p by (simp add: provenance_def issued_by_mono)
  then have "issued_by sha (cs @ [c]) r" by (rule issued_by_same) (simp_all add: r(2))
  then show ?thesis by (rule replaced_provenance [OF provenance_mono [OF p]]) (simp_all add: r(3))
next
  case c: (Elsewhere ts owner w)
  have "admitted sha (cs @ [c]) m" if "owner = Some m" for m
    unfolding admitted_def by (intro disjI1 exI [of _ ts] exI [of _ m] exI [of _ w]) (simp add: c that)
  with assms c provenance_mono [OF p, of "[c]"] show ?thesis
    by (auto simp: provenance_def returns member_row_returns split: option.splits)
qed

lemma run_provenance: "provenance sha cs (fst (member_run env sha cs (no_members ts, w)))"
proof (induction cs rule: rev_induct)
  case (snoc c cs)
  let ?x = "member_run env sha cs (no_members ts, w)"
  have "provenance sha (cs @ [c]) (fst (fst (unit_op (member_call_op env sha c) ?x)))"
    using unit_op_cases [of "member_call_op env sha c" ?x] call_provenance [OF _ snoc.IH] provenance_mono [OF snoc.IH]
    by metis
  then show ?case by (simp add: member_run_def)
qed (simp add: member_run_def provenance_def no_members_def)

section \<open>The properties\<close>


definition demo_access :: "unit access_env" where
  "demo_access = \<lparr>ae_publish = (\<lambda>_ _ _ _ _ w. (w, Inr ())), ae_audit = None, ae_invalidate = None\<rparr>"

definition demo_role :: stored_template where
  "demo_role = \<lparr>rt_id = ''r1'', rt_scope = ''tenant'', rt_permissions = [], rt_name = ''clerk'', rt_version = 1\<rparr>"

definition demo_member_tables :: access_tables where
  "demo_member_tables = \<lparr>ac_templates = [demo_role], ac_grants = [], ac_policies = []\<rparr>"

definition demo_tenant :: stored_tenant where
  "demo_tenant = \<lparr>tn_id = ''t1'', tn_name = ''One'', tn_code = ''one'', tn_status = Active, tn_deployment_mode = ''shared'',
     tn_created_at = 0\<rparr>"

definition demo_member_decision :: "string \<Rightarrow> string \<Rightarrow> decision" where
  "demo_member_decision resource action = \<lparr>de_allowed = True, de_tenant_id = ''t1'', de_user_id = ''admin'', de_resource = resource,
     de_action = action, de_reason = ''role'', de_policy_version = Some 1\<rparr>"

definition demo_calls :: "unit member_call list" where
  "demo_calls = [Issue_Invitation ''i1'' ''tok'' 1 1 ''t1'' '' A@b '' (Some ''r1'') (Naive 9)
     \<lparr>mc_actor_id = ''admin'', mc_request_id = ''q'', mc_decision = Some (demo_member_decision ''tenant_invitation'' ''invite'')\<rparr>
     (Some (demo_member_decision ''role_grant'' ''grant''))]"

definition demo_accept :: "unit member_call" where
  "demo_accept = Accept_Invitation ''m1'' ''g1'' 5 ''tok'' ''u1'' ''a@B'' ''u1'' ''q''"

abbreviation demo_start :: "unit member_state" where
  "demo_start \<equiv> (no_members [demo_tenant], demo_member_tables, ())"

definition demo_accepted :: "unit member_state \<times> invitation result" where
  "demo_accepted = accept_invitation demo_access (\<lambda>k. ''#'' @ k) ''m1'' ''g1'' 5 ''tok'' ''u1'' ''a@B'' ''u1'' ''q''
     (member_run demo_access (\<lambda>k. ''#'' @ k) demo_calls demo_start)"

lemma demo_accepted_returns: "snd demo_accepted = Inr (case snd demo_accepted of Inr b \<Rightarrow> b)"
  by code_simp

lemma demo_accepted_pair: "demo_accepted = (fst demo_accepted, Inr (case snd demo_accepted of Inr b \<Rightarrow> b))"
  using demo_accepted_returns by (metis prod.collapse)




end
