(* ===== verification/Tenant_Routes.thy ===== *)
theory Tenant_Routes
  imports Tenant_Members Account_Routes
begin

text \<open>
  The routes of the tenants app (\<open>platform_apps/tenants/router.py\<close>): each takes the user of its request, opens a
  unit of work and calls a service with the decision the route was admitted by. The services have a publisher and
  no audit recorder. The routes under \<open>/tenant\<close> take the tenant of the request, the others one of the path; the
  reads of a row are its fields.
\<close>

section \<open>Requests\<close>

definition current_tenant_of :: "route_request \<Rightarrow> string result" where
  "current_tenant_of rq =
    (case Option.bind (rr_context rq) rx_tenant_id of
       Some (c # s) \<Rightarrow> Inr (c # s)
     | _ \<Rightarrow> Inl (app_error ''TENANT_ACCESS_DENIED'' ''Tenant context is required'' (Some 403) []))"

text \<open>The tenant of the path, or of the request, which needs a user too.\<close>

definition route_tenant :: "string option \<Rightarrow> route_request \<Rightarrow> string result" where
  "route_tenant path rq =
    (case path of Some n \<Rightarrow> Inr n | None \<Rightarrow> rbind (request_user rq) (\<lambda>_. current_tenant_of rq))"

definition route_env :: "(string \<Rightarrow> string \<Rightarrow> string \<Rightarrow> string \<Rightarrow> (string \<times> pyval) list \<Rightarrow> ('w, unit) state_op) \<Rightarrow> 'w access_env" where
  "route_env publish = \<lparr>ae_publish = publish, ae_audit = None, ae_invalidate = None\<rparr>"

definition member_route_caller :: "route_request \<Rightarrow> string \<Rightarrow> member_caller" where
  "member_route_caller rq user = \<lparr>mc_actor_id = user, mc_request_id = or_text (route_request_id rq) [], mc_decision = rr_decision rq\<rparr>"

definition in_member_unit ::
  "string option \<Rightarrow> route_request \<Rightarrow> (string \<Rightarrow> string \<Rightarrow> ('w member_state, 'a) state_op) \<Rightarrow> ('w member_state, 'a) state_op" where
  "in_member_unit path rq f =
    sbind (sret (route_tenant path rq)) (\<lambda>n. sbind (sret (request_user rq)) (\<lambda>u. unit_op (f n u)))"

section \<open>Tenants\<close>

definition list_tenants_route :: "list_query \<Rightarrow> ('w member_state, stored_tenant list \<times> pagination) state_op" where
  "list_tenants_route q = unit_op (reads (\<lambda>t. rbind (list_tenants q t) (\<lambda>(rows, n). Inr (rows, to_pagination q n))))"

text \<open>A provisioned tenant and its owner are flushed with the end of the unit.\<close>

definition add_tenant :: "stored_tenant \<Rightarrow> member_tables \<Rightarrow> member_tables \<times> unit result" where
  "add_tenant n t =
    (if \<exists>m \<in> set (mt_tenants t). tn_id m = tn_id n \<or> tn_code m = tn_code n then (t, Inl integrity_error)
     else (t\<lparr>mt_tenants := mt_tenants t @ [n]\<rparr>, Inr ()))"

definition provision_tenant_route ::
  "(string \<Rightarrow> string \<Rightarrow> string \<Rightarrow> string \<Rightarrow> (string \<times> pyval) list \<Rightarrow> ('w, unit) state_op) \<Rightarrow> string \<Rightarrow> instant
    \<Rightarrow> string \<Rightarrow> string \<Rightarrow> string \<Rightarrow> string \<Rightarrow> string \<Rightarrow> route_request \<Rightarrow> ('w member_state, tenant) state_op" where
  "provision_tenant_route publish member_id now tenant_id name code owner mode rq =
    sbind (sret (request_user rq)) (\<lambda>u. unit_op (
      sbind (on_world_of (on_world_of (\<lambda>w.
        case provision_tenant \<lparr>te_publish = publish, te_audit = None, te_revoke_sessions = None\<rparr> tenant_id name code owner mode
               \<lparr>ca_actor_id = u, ca_request_id = or_text (route_request_id rq) [], ca_reason = [], ca_decision = rr_decision rq\<rparr>
               ([], [], w) of ((ts, ms, w'), r) \<Rightarrow> (w', r)))) (\<lambda>n.
      sbind (on_tables (add_tenant (tenant.extend n \<lparr>tn_created_at = now\<rparr>))) (\<lambda>_.
      sbind (on_tables (add_member \<lparr>tm_tenant_id = tenant_id, tm_user_id = owner, tm_status = ''active'', tm_id = member_id,
        tm_created_at = now\<rparr>)) (\<lambda>_. sret (Inr n))))))"

section \<open>Members\<close>

definition list_members_route ::
  "string option \<Rightarrow> list_query \<Rightarrow> route_request \<Rightarrow> ('w member_state, stored_member list \<times> pagination) state_op" where
  "list_members_route path q rq = in_member_unit path rq (\<lambda>n u.
     reads (\<lambda>t. rbind (list_members n q (member_route_caller rq u) t) (\<lambda>(rows, k). Inr (rows, to_pagination q k))))"

definition create_member_route ::
  "'w access_env \<Rightarrow> string \<Rightarrow> instant \<Rightarrow> string option \<Rightarrow> string \<Rightarrow> string \<Rightarrow> route_request \<Rightarrow> ('w member_state, stored_member) state_op" where
  "create_member_route env fresh now path user_id status rq = in_member_unit path rq (\<lambda>n u.
     create_member env fresh now n user_id status (member_route_caller rq u))"

definition update_member_route ::
  "'w access_env \<Rightarrow> string option \<Rightarrow> string \<Rightarrow> string \<Rightarrow> route_request \<Rightarrow> ('w member_state, stored_member) state_op" where
  "update_member_route env path member_id status rq = in_member_unit path rq (\<lambda>n u.
     update_member_status env n member_id status (member_route_caller rq u))"

section \<open>Invitations\<close>

definition invitation_read :: "invitation \<Rightarrow> (string \<times> pyval) list" where
  "invitation_read i = [(''id'', PStr (iv_id i)), (''tenant_id'', PStr (iv_tenant_id i)), (''email'', PStr (iv_email i)),
     (''role_template_id'', opt_str (iv_role_template_id i)), (''status'', PStr (iv_status i)), (''expires_at'', PInt (iv_expires_at i)),
     (''invited_by_user_id'', PStr (iv_invited_by i)), (''accepted_by_user_id'', opt_str (iv_accepted_by i))]"

text \<open>The service is given no decision about the initial role.\<close>

definition issue_invitation_route ::
  "'w access_env \<Rightarrow> (string \<Rightarrow> string) \<Rightarrow> string \<Rightarrow> string \<Rightarrow> instant \<Rightarrow> instant \<Rightarrow> string option \<Rightarrow> string \<Rightarrow> string option
    \<Rightarrow> datetime \<Rightarrow> route_request \<Rightarrow> ('w member_state, (string \<times> pyval) list) state_op" where
  "issue_invitation_route env sha fresh token now1 now2 path email role expires_at rq = in_member_unit path rq (\<lambda>n u.
     sbind (issue_invitation env sha fresh token now1 now2 n email role expires_at (member_route_caller rq u) None) (\<lambda>(i, k).
       sret (Inr (invitation_read i @ [(''token'', PStr k)]))))"

definition revoke_invitation_route ::
  "'w access_env \<Rightarrow> instant \<Rightarrow> string option \<Rightarrow> string \<Rightarrow> route_request \<Rightarrow> ('w member_state, (string \<times> pyval) list) state_op" where
  "revoke_invitation_route env now path invitation_id rq = in_member_unit path rq (\<lambda>n u.
     sbind (reads (get_invitation n invitation_id)) (\<lambda>i.
     sbind (revoke_invitation env now i (member_route_caller rq u)) (\<lambda>r. sret (Inr (invitation_read r)))))"

definition accept_invitation_route ::
  "'w access_env \<Rightarrow> (string \<Rightarrow> string) \<Rightarrow> string \<Rightarrow> string \<Rightarrow> instant \<Rightarrow> string \<Rightarrow> string \<Rightarrow> route_request
    \<Rightarrow> ('w member_state, (string \<times> pyval) list) state_op" where
  "accept_invitation_route env sha member_id grant_id now token email rq =
    sbind (sret (request_user rq)) (\<lambda>u. unit_op (
      sbind (accept_invitation env sha member_id grant_id now token u email u (or_text (route_request_id rq) [])) (\<lambda>i.
        sret (Inr (invitation_read i)))))"

end
