(* ===== verification/Tenant_Route_Properties.thy ===== *)
theory Tenant_Route_Properties
  imports Tenant_Routes Member_Properties
begin

text \<open>What the routes of the tenants app cannot do: name a role in an invitation, and expire one.\<close>

text \<open>No route issues an invitation with a role: the decision the service asks for is never passed.\<close>

theorem no_route_invites_with_a_role:
  "case issue_invitation_route env sha i k now1 now2 path e (Some role) ex rq x of (y, Inl er) \<Rightarrow> y = x | (y, Inr d) \<Rightarrow> False"
proof -
  have "snd (issue_invitation env sha i k now1 now2 n e (Some role) ex c None z) \<noteq> Inr v" for n c z v
  proof
    assume "snd (issue_invitation env sha i k now1 now2 n e (Some role) ex c None z) = Inr v"
    then have "issue_invitation env sha i k now1 now2 n e (Some role) ex c None z =
        (fst (issue_invitation env sha i k now1 now2 n e (Some role) ex c None z), Inr (fst v, snd v))"
      by (metis prod.collapse)
    then show False by (rule issue_returns) (simp add: holds_decision_def)
  qed
  then have "\<exists>z er. issue_invitation env sha i k now1 now2 n e (Some role) ex c None x = (z, Inl er)" for n c
    by (metis sum.exhaust prod.collapse)
  then show ?thesis
    by (auto simp: issue_invitation_route_def in_member_unit_def sbind_def unit_op_def split: prod.splits sum.splits)
       (metis Inl_Inr_False prod.inject)+
qed

text \<open>An acceptance that is refused leaves everything as it was, so an invitation that has expired stays pending.\<close>

theorem refused_acceptance_leaves_no_trace:
  "case accept_invitation_route env sha m g now k e rq x of (y, Inl er) \<Rightarrow> y = x | (y, Inr d) \<Rightarrow> True"
  by (auto simp: accept_invitation_route_def sbind_def unit_op_def split: prod.splits sum.splits)

end
