(* ===== verification/Audit_Chain.thy ===== *)
theory Audit_Chain
  imports Tenant_Resolver Python_Text "HOL-Library.Product_Lexorder" "HOL-Library.List_Lexorder" "HOL-Library.Char_ord"
begin

text \<open>
  The audit log (\<open>platform_apps/audit/services.py\<close>): records with a hash chain for each tenant, the locks that
  keep writers apart, the verification of a chain, its export and its retention.

  The rows of a table are in the order they were committed. A session sees what is committed and what it wrote
  itself; the locks of the process and the sessions that hold them are a list of keys. SHA-256 in hexadecimal,
  the text of a float, ISO times, fresh identifiers and the time a row is stored at are arguments, and so are the
  lock provider and the sink of an export.
\<close>

section \<open>JSON texts\<close>

definition json_char :: "char \<Rightarrow> string" where
  "json_char c =
    (let n = of_char c :: nat in
     if c = CHR 0x22 \<or> c = CHR 0x5C then [CHR 0x5C, c]
     else if c = CHR 0x0A then [CHR 0x5C, CHR ''n'']
     else if c = CHR 0x0D then [CHR 0x5C, CHR ''r'']
     else if c = CHR 0x09 then [CHR 0x5C, CHR ''t'']
     else if c = CHR 0x0C then [CHR 0x5C, CHR ''f'']
     else if c = CHR 0x08 then [CHR 0x5C, CHR ''b'']
     else if n < 32 \<or> 126 < n
       then [CHR 0x5C, CHR ''u'', CHR ''0'', CHR ''0'', hex_digit (n div 16), hex_digit (n mod 16)]
     else [c])"

definition json_str :: "string \<Rightarrow> string" where
  "json_str s = CHR 0x22 # concat (map json_char s) @ [CHR 0x22]"

text \<open>\<open>json.dumps\<close> with \<open>ensure_ascii\<close>, \<open>sort_keys\<close> and no spaces; \<open>fl\<close> is the text of a float.\<close>

fun json_text :: "(int \<Rightarrow> int \<Rightarrow> string) \<Rightarrow> pyval \<Rightarrow> string" where
  "json_text fl PNone = ''null''"
| "json_text fl (PBool b) = (if b then ''true'' else ''false'')"
| "json_text fl (PInt n) = int_str n"
| "json_text fl (PFloat m e) = fl m e"
| "json_text fl (PStr s) = json_str s"
| "json_text fl (PList vs) = ''['' @ join '','' (map (json_text fl) vs) @ '']''"
| "json_text fl (PDict kvs) = ''{'' @ join '',''
     (map snd (sort_key fst (map (\<lambda>(k, v). (k, json_str k @ '':'' @ json_text fl v)) kvs))) @ ''}''"

section \<open>Secrets\<close>

definition sensitive_keys :: "string list" where
  "sensitive_keys = [''access_token'', ''api_key'', ''authorization'', ''cookie'', ''password'', ''password_hash'',
     ''refresh_token'', ''secret'', ''token'']"

fun redact_sensitive_data :: "pyval \<Rightarrow> pyval" where
  "redact_sensitive_data (PDict kvs) =
     PDict (map (\<lambda>(k, v). (k, if lower k \<in> set sensitive_keys then PStr ''***REDACTED***'' else redact_sensitive_data v)) kvs)"
| "redact_sensitive_data (PList vs) = PList (map redact_sensitive_data vs)"
| "redact_sensitive_data v = v"

section \<open>Records\<close>

record audit_log =
  al_id :: string
  al_tenant_id :: "string option"
  al_actor_id :: "string option"
  al_actor_type :: string
  al_auth_provider :: "string option"
  al_session_id :: "string option"
  al_action :: string
  al_resource_type :: string
  al_resource_id :: "string option"
  al_result :: string
  al_reason :: "string option"
  al_policy_version :: "int option"
  al_request_id :: "string option"
  al_trace_id :: "string option"
  al_route :: "string option"
  al_method :: "string option"
  al_ip_address :: "string option"
  al_user_agent :: "string option"
  al_payload :: pyval
  al_hash_prev :: "string option"
  al_hash :: string
  al_created_at :: instant

definition int_or_null :: "int option \<Rightarrow> pyval" where
  "int_or_null x = (case x of None \<Rightarrow> PNone | Some n \<Rightarrow> PInt n)"

text \<open>The text that is hashed, and the hash.\<close>

definition audit_text :: "(int \<Rightarrow> int \<Rightarrow> string) \<Rightarrow> audit_log \<Rightarrow> string" where
  "audit_text fl r = json_text fl (PDict
     [(''tenant_id'', opt_str (al_tenant_id r)), (''actor_id'', opt_str (al_actor_id r)), (''actor_type'', PStr (al_actor_type r)),
      (''action'', PStr (al_action r)), (''resource_type'', PStr (al_resource_type r)), (''resource_id'', opt_str (al_resource_id r)),
      (''result'', PStr (al_result r)), (''reason'', opt_str (al_reason r)), (''policy_version'', int_or_null (al_policy_version r)),
      (''request_id'', opt_str (al_request_id r)), (''payload'', al_payload r), (''hash_prev'', opt_str (al_hash_prev r))])"

record hashing =
  hs_float :: "int \<Rightarrow> int \<Rightarrow> string"
  hs_sha256 :: "string \<Rightarrow> string"

definition audit_hash :: "hashing \<Rightarrow> audit_log \<Rightarrow> string" where
  "audit_hash hs r = hs_sha256 hs (audit_text (hs_float hs) r)"

definition of_tenant :: "string option \<Rightarrow> audit_log list \<Rightarrow> audit_log list" where
  "of_tenant tenant_id rows = filter (\<lambda>r. al_tenant_id r = tenant_id) rows"

section \<open>Verification\<close>

definition chain_children :: "audit_log list \<Rightarrow> string \<Rightarrow> audit_log list" where
  "chain_children rows h = filter (\<lambda>r. al_hash_prev r = Some h) rows"

definition chain_roots :: "audit_log list \<Rightarrow> audit_log list" where
  "chain_roots rows = filter (\<lambda>r. al_hash_prev r = None) rows"

fun hash_errors :: "hashing \<Rightarrow> string list \<Rightarrow> audit_log list \<Rightarrow> string list" where
  "hash_errors hs seen [] = []"
| "hash_errors hs seen (r # rows) =
     (if al_hash r \<noteq> audit_hash hs r then [''hash_mismatch:'' @ al_id r] else []) @
     (if al_hash r \<in> set seen then [''duplicate_hash:'' @ al_hash r] else []) @
     hash_errors hs (al_hash r # seen) rows"

definition missing_errors :: "audit_log list \<Rightarrow> string list" where
  "missing_errors rows = concat (map (\<lambda>r. case al_hash_prev r of
     None \<Rightarrow> [] | Some h \<Rightarrow> if h \<in> al_hash ` set rows then [] else [''missing_prev:'' @ al_id r]) rows)"

text \<open>The previous hashes in the order of their first child.\<close>

definition previous_hashes :: "audit_log list \<Rightarrow> string list" where
  "previous_hashes rows = rev (remdups (rev (List.map_filter al_hash_prev rows)))"

definition branch_errors :: "audit_log list \<Rightarrow> string list" where
  "branch_errors rows = map (\<lambda>h. ''branch:'' @ h) (filter (\<lambda>h. 1 < length (chain_children rows h)) (previous_hashes rows))"

text \<open>The walk from the root: the hashes visited, the latest first.\<close>

function walk_chain :: "audit_log list \<Rightarrow> string list \<Rightarrow> audit_log \<Rightarrow> string list" where
  "walk_chain rows visited r =
    (if al_hash r \<in> set visited then visited
     else (case chain_children rows (al_hash r) of
         [c] \<Rightarrow> walk_chain rows (al_hash r # visited) c
       | _ \<Rightarrow> al_hash r # visited))"
  by auto
termination
proof (relation "measure (\<lambda>(rows, visited, r). card (insert (al_hash r) (al_hash ` set rows) - set visited))")
  fix rows visited and r c :: audit_log
  fix children
  assume new: "al_hash r \<notin> set visited" and c: "chain_children rows (al_hash r) = c # children" "children = []"
  have "c \<in> set (chain_children rows (al_hash r))" using c by simp
  then have "c \<in> set rows" by (simp add: chain_children_def)
  then have "insert (al_hash c) (al_hash ` set rows) - set (al_hash r # visited) \<subset> insert (al_hash r) (al_hash ` set rows) - set visited"
    using new by auto
  then show "((rows, al_hash r # visited, c), rows, visited, r)
      \<in> measure (\<lambda>(rows, visited, r). card (insert (al_hash r) (al_hash ` set rows) - set visited))"
    by (simp add: psubset_card_mono)
qed simp

declare walk_chain.simps [simp del]

definition chain_errors :: "hashing \<Rightarrow> audit_log list \<Rightarrow> string list" where
  "chain_errors hs rows =
    (if rows = [] then []
     else hash_errors hs [] rows @ missing_errors rows @ branch_errors rows @
       (case chain_roots rows of
          [r] \<Rightarrow>
            (let visited = length (walk_chain rows [] r) in
             if visited = length rows then [] else [''disconnected_chain:'' @ int_str (int (length rows) - int visited)])
        | roots \<Rightarrow> [''invalid_root_count:'' @ int_str (int (length roots))]))"

record chain_verification =
  cv_tenant_id :: "string option"
  cv_checked :: int
  cv_valid :: bool
  cv_errors :: "string list"

definition verify_hash_chain :: "hashing \<Rightarrow> string option \<Rightarrow> audit_log list \<Rightarrow> chain_verification" where
  "verify_hash_chain hs tenant_id rows =
    (let logs = of_tenant tenant_id rows; errors = chain_errors hs logs in
     \<lparr>cv_tenant_id = tenant_id, cv_checked = int (length logs), cv_valid = (errors = []), cv_errors = errors\<rparr>)"

text \<open>The order of a chain; on rows that are none the loop may follow a cycle and not end.\<close>

partial_function (option) follow_chain :: "audit_log list \<Rightarrow> audit_log \<Rightarrow> audit_log list option" where
  "follow_chain rows r =
    (case chain_children rows (al_hash r) of
       [] \<Rightarrow> Some [r]
     | c # _ \<Rightarrow> Option.bind (follow_chain rows c) (\<lambda>rs. Some (r # rs)))"

declare follow_chain.simps [code]

definition order_valid_hash_chain :: "audit_log list \<Rightarrow> audit_log list result option" where
  "order_valid_hash_chain rows =
    (if rows = [] then Some (Inr [])
     else (case chain_roots rows of
         [] \<Rightarrow> Some (Inl (PyError ''KeyError'' ''None''))
       | r # _ \<Rightarrow> map_option Inr (follow_chain rows r)))"

section \<open>Locks\<close>

text \<open>A held lock of a chain: its key, the session, and key and owner of the distributed lock if there is one.\<close>

type_synonym held_lock = "string \<times> nat \<times> (string \<times> string) option"

record audit_db =
  ad_rows :: "audit_log list"
  ad_pending :: "nat \<Rightarrow> audit_log list"
  ad_held :: "held_lock list"

type_synonym 'w audit_state = "audit_db \<times> 'w"

record 'w chain_lock_provider =
  cp_require_acquire :: "string \<Rightarrow> string \<Rightarrow> int \<Rightarrow> ('w, unit) state_op"
  cp_release :: "string \<Rightarrow> string \<Rightarrow> ('w, bool) state_op"

record 'w audit_service =
  sv_hashing :: hashing
  sv_lock_provider :: "'w chain_lock_provider option"
  sv_lock_owner_token :: "string option"
  sv_lock_ttl :: int

definition audit_chain_lock_key :: "string option \<Rightarrow> string" where
  "audit_chain_lock_key tenant_id = (case tenant_id of Some t \<Rightarrow> ''tenant:'' @ t | None \<Rightarrow> ''platform'')"

definition audit_chain_distributed_lock_key :: "string option \<Rightarrow> string" where
  "audit_chain_distributed_lock_key tenant_id = ''audit:hash-chain:'' @ audit_chain_lock_key tenant_id"

text \<open>\<open>id(session)\<close> is the number of the session.\<close>

definition audit_chain_owner_token :: "nat \<Rightarrow> string option \<Rightarrow> string" where
  "audit_chain_owner_token sid tenant_id = ''audit-chain:'' @ nat_str sid @ '':'' @ audit_chain_lock_key tenant_id"

definition acquire_distributed ::
  "'w audit_service \<Rightarrow> nat \<Rightarrow> string option \<Rightarrow> ('w, (string \<times> string) option) state_op" where
  "acquire_distributed sv sid tenant_id =
    (case sv_lock_provider sv of
       None \<Rightarrow> sret (Inr None)
     | Some p \<Rightarrow>
         (let key = audit_chain_distributed_lock_key tenant_id;
              owner = (case sv_lock_owner_token sv of Some (c # s) \<Rightarrow> c # s | _ \<Rightarrow> audit_chain_owner_token sid tenant_id) in
          sbind (cp_require_acquire p key owner (sv_lock_ttl sv)) (\<lambda>_. sret (Inr (Some (key, owner))))))"

text \<open>A session that waits for the lock of another has no result yet.\<close>

definition acquire_chain_lock ::
  "'w audit_service \<Rightarrow> nat \<Rightarrow> string option \<Rightarrow> 'w audit_state \<Rightarrow> ('w audit_state \<times> unit result) option" where
  "acquire_chain_lock sv sid tenant_id x =
    (case map_of (ad_held (fst x)) (audit_chain_lock_key tenant_id) of
       Some (holder, _) \<Rightarrow> if holder = sid then Some (x, Inr ()) else None
     | None \<Rightarrow> Some (sbind (on_world_of (acquire_distributed sv sid tenant_id)) (\<lambda>distributed.
         on_tables (\<lambda>d. (d\<lparr>ad_held := (audit_chain_lock_key tenant_id, sid, distributed) # ad_held d\<rparr>, Inr ()))) x))"

text \<open>The end of the outermost transaction releases what the session holds; a release that fails is passed over.\<close>

definition release_chain_lock :: "'w audit_service \<Rightarrow> held_lock \<Rightarrow> 'w \<Rightarrow> 'w" where
  "release_chain_lock sv l w =
    (case (sv_lock_provider sv, l) of
       (Some p, _, _, Some (key, owner)) \<Rightarrow> fst (cp_release p key owner w)
     | _ \<Rightarrow> w)"

definition end_audit_transaction :: "'w audit_service \<Rightarrow> nat \<Rightarrow> bool \<Rightarrow> 'w audit_state \<Rightarrow> 'w audit_state" where
  "end_audit_transaction sv sid commit x =
    (let d = fst x in
     (d\<lparr>ad_rows := if commit then ad_rows d @ ad_pending d sid else ad_rows d,
        ad_pending := (ad_pending d)(sid := []),
        ad_held := filter (\<lambda>(_, s, _). s \<noteq> sid) (ad_held d)\<rparr>,
      fold (release_chain_lock sv) (filter (\<lambda>(_, s, _). s = sid) (ad_held d)) (snd x)))"

section \<open>Recording\<close>

record audit_context = request_context +
  rx_trace_id :: "string option"
  rx_route :: "string option"
  rx_method :: "string option"
  rx_ip_address :: "string option"
  rx_user_agent :: "string option"

record audit_entry =
  ay_action :: string
  ay_resource_type :: string
  ay_result :: string
  ay_tenant_id :: "string option"
  ay_actor_id :: "string option"
  ay_actor_type :: string
  ay_auth_provider :: "string option"
  ay_session_id :: "string option"
  ay_resource_id :: "string option"
  ay_reason :: "string option"
  ay_policy_version :: "int option"
  ay_request_id :: "string option"
  ay_trace_id :: "string option"
  ay_route :: "string option"
  ay_method :: "string option"
  ay_ip_address :: "string option"
  ay_user_agent :: "string option"
  ay_payload :: "(string \<times> pyval) list option"

definition validate_audit_required :: "audit_entry \<Rightarrow> unit result" where
  "validate_audit_required e =
    (if blank (ay_action e) then Inl (validation_error ''audit action is required'')
     else if blank (ay_resource_type e) then Inl (validation_error ''audit resource_type is required'')
     else if ay_result e \<notin> {''success'', ''failure'', ''denied''} then Inl (validation_error ''audit result is invalid'')
     else Inr ())"

text \<open>\<open>value or (context.field if context else None)\<close>\<close>

definition or_context :: "string option \<Rightarrow> audit_context option \<Rightarrow> (audit_context \<Rightarrow> string option) \<Rightarrow> string option" where
  "or_context v ctx field = (case v of Some (c # s) \<Rightarrow> Some (c # s) | _ \<Rightarrow> Option.bind ctx field)"

definition entry_tenant :: "audit_context option \<Rightarrow> audit_entry \<Rightarrow> string option" where
  "entry_tenant ctx e = or_context (ay_tenant_id e) ctx rx_tenant_id"

definition visible_rows :: "nat \<Rightarrow> audit_db \<Rightarrow> audit_log list" where
  "visible_rows sid d = ad_rows d @ ad_pending d sid"

text \<open>The row with the greatest time, of equal times the one with the greatest identifier.\<close>

definition latest_hash :: "audit_log list \<Rightarrow> string option" where
  "latest_hash rows =
    (case rev (sort_key (\<lambda>r. (al_created_at r, al_id r)) rows) of [] \<Rightarrow> None | r # _ \<Rightarrow> Some (al_hash r))"

definition new_audit_log ::
  "hashing \<Rightarrow> audit_context option \<Rightarrow> audit_entry \<Rightarrow> string \<Rightarrow> instant \<Rightarrow> string option \<Rightarrow> audit_log" where
  "new_audit_log hs ctx e fresh now previous =
    (let r = \<lparr>al_id = fresh, al_tenant_id = entry_tenant ctx e, al_actor_id = or_context (ay_actor_id e) ctx rx_user_id,
         al_actor_type = ay_actor_type e, al_auth_provider = ay_auth_provider e, al_session_id = ay_session_id e,
         al_action = ay_action e, al_resource_type = ay_resource_type e, al_resource_id = ay_resource_id e,
         al_result = ay_result e, al_reason = ay_reason e, al_policy_version = ay_policy_version e,
         al_request_id = or_context (ay_request_id e) ctx (\<lambda>c. Some (rx_request_id c)),
         al_trace_id = or_context (ay_trace_id e) ctx rx_trace_id, al_route = or_context (ay_route e) ctx rx_route,
         al_method = or_context (ay_method e) ctx rx_method, al_ip_address = or_context (ay_ip_address e) ctx rx_ip_address,
         al_user_agent = or_context (ay_user_agent e) ctx rx_user_agent,
         al_payload = redact_sensitive_data (PDict (case ay_payload e of None \<Rightarrow> [] | Some p \<Rightarrow> p)),
         al_hash_prev = previous, al_hash = [], al_created_at = now\<rparr> in
     r\<lparr>al_hash := audit_hash hs r\<rparr>)"

definition add_audit_log :: "nat \<Rightarrow> audit_log \<Rightarrow> audit_db \<Rightarrow> audit_db \<times> unit result" where
  "add_audit_log sid r d =
    (if al_id r \<in> al_id ` set (visible_rows sid d) then (d, Inl (PyError ''IntegrityError'' ''UNIQUE constraint failed''))
     else (d\<lparr>ad_pending := (ad_pending d)(sid := ad_pending d sid @ [r])\<rparr>, Inr ()))"

definition record_audit ::
  "'w audit_service \<Rightarrow> nat \<Rightarrow> audit_context option \<Rightarrow> audit_entry \<Rightarrow> string \<Rightarrow> instant \<Rightarrow> 'w audit_state
    \<Rightarrow> ('w audit_state \<times> audit_log result) option" where
  "record_audit sv sid ctx e fresh now x =
    (case validate_audit_required e of
       Inl er \<Rightarrow> Some (x, Inl er)
     | Inr _ \<Rightarrow>
         (case acquire_chain_lock sv sid (entry_tenant ctx e) x of
            None \<Rightarrow> None
          | Some (y, Inl er) \<Rightarrow> Some (y, Inl er)
          | Some (y, Inr _) \<Rightarrow>
              (let r = new_audit_log (sv_hashing sv) ctx e fresh now
                     (latest_hash (of_tenant (entry_tenant ctx e) (visible_rows sid (fst y)))) in
               Some (sbind (on_tables (add_audit_log sid r)) (\<lambda>_. sret (Inr r)) y))))"

section \<open>Export\<close>

record audit_export =
  ex_id :: string
  ex_tenant_id :: "string option"
  ex_actor_id :: "string option"
  ex_destination_type :: string
  ex_destination_uri :: "string option"
  ex_status :: string
  ex_request_id :: "string option"
  ex_record_count :: int
  ex_hash_root :: "string option"
  ex_hash_tip :: "string option"
  ex_checksum :: string
  ex_error_message :: "string option"
  ex_exported_at :: "instant option"

definition validate_export_request :: "string \<Rightarrow> string \<Rightarrow> unit result" where
  "validate_export_request export_id destination_type =
    (if blank export_id then Inl (validation_error ''audit export_id is required'')
     else if destination_type \<notin> {''worm'', ''siem''} then Inl (validation_error ''audit export destination_type is invalid'')
     else Inr ())"

definition safe_export_file_name :: "string \<Rightarrow> string \<Rightarrow> string result" where
  "safe_export_file_name export_id suffix =
    rbind (validate_export_request export_id ''worm'') (\<lambda>_.
    if take 1 suffix \<noteq> ''.'' then Inl (validation_error ''audit export suffix is invalid'')
    else if export_id \<in> {''.'', ''..''} \<or> CHR ''/'' \<in> set export_id \<or> CHR 0x5C \<in> set export_id \<or> CHR '':'' \<in> set export_id
      then Inl (validation_error ''audit export_id is invalid'')
    else Inr (export_id @ suffix))"

text \<open>The local sink: a directory of files, each created once; \<open>siem\<close> is the suffix \<open>.siem.jsonl\<close>.\<close>

definition local_sink_write :: "string \<Rightarrow> string \<Rightarrow> string \<Rightarrow> string \<Rightarrow> (string \<rightharpoonup> string, string) state_op" where
  "local_sink_write root suffix export_id content files =
    (case safe_export_file_name export_id suffix of
       Inl e \<Rightarrow> (files, Inl e)
     | Inr name \<Rightarrow>
         (let path = root @ ''/'' @ name in
          if files path \<noteq> None
          then (files, Inl (app_error ''CONFLICT'' ''audit export object already exists'' (Some 409) [(''destination_uri'', PStr path)]))
          else (files(path \<mapsto> content), Inr path)))"

definition export_row :: "(instant \<Rightarrow> string) \<Rightarrow> audit_log \<Rightarrow> pyval" where
  "export_row isoformat r = PDict
     [(''type'', PStr ''audit_log''), (''id'', PStr (al_id r)), (''tenant_id'', opt_str (al_tenant_id r)),
      (''actor_id'', opt_str (al_actor_id r)), (''actor_type'', PStr (al_actor_type r)),
      (''auth_provider'', opt_str (al_auth_provider r)), (''session_id'', opt_str (al_session_id r)),
      (''action'', PStr (al_action r)), (''resource_type'', PStr (al_resource_type r)),
      (''resource_id'', opt_str (al_resource_id r)), (''result'', PStr (al_result r)), (''reason'', opt_str (al_reason r)),
      (''policy_version'', int_or_null (al_policy_version r)), (''request_id'', opt_str (al_request_id r)),
      (''trace_id'', opt_str (al_trace_id r)), (''route'', opt_str (al_route r)), (''method'', opt_str (al_method r)),
      (''ip_address'', opt_str (al_ip_address r)), (''user_agent'', opt_str (al_user_agent r)), (''payload'', al_payload r),
      (''hash_prev'', opt_str (al_hash_prev r)), (''hash'', PStr (al_hash r)), (''created_at'', PStr (isoformat (al_created_at r)))]"

definition export_manifest :: "string \<Rightarrow> string \<Rightarrow> string option \<Rightarrow> audit_log list \<Rightarrow> pyval" where
  "export_manifest export_id destination_type tenant_id logs = PDict
     [(''type'', PStr ''audit_export_manifest''), (''format'', PStr ''audit.ndjson.v1''), (''export_id'', PStr export_id),
      (''destination_type'', PStr destination_type), (''tenant_id'', opt_str tenant_id),
      (''filters'', PDict [(''tenant_id'', opt_str tenant_id)]), (''record_count'', PInt (int (length logs))),
      (''hash_root'', opt_str (if logs = [] then None else Some (al_hash (hd logs)))),
      (''hash_tip'', opt_str (if logs = [] then None else Some (al_hash (last logs))))]"

definition export_payload ::
  "hashing \<Rightarrow> (instant \<Rightarrow> string) \<Rightarrow> string \<Rightarrow> string \<Rightarrow> string option \<Rightarrow> audit_log list \<Rightarrow> string" where
  "export_payload hs isoformat export_id destination_type tenant_id logs =
     concat (map (\<lambda>line. json_text (hs_float hs) line @ [CHR 0x0A])
       (export_manifest export_id destination_type tenant_id logs # map (export_row isoformat) logs))"

text \<open>The tables of an export: the log as the session sees it, and the records of exports.\<close>

type_synonym 'w export_state = "(audit_log list \<times> audit_export list) \<times> 'w"

definition put_export :: "audit_export \<Rightarrow> 'l \<times> audit_export list \<Rightarrow> ('l \<times> audit_export list) \<times> unit result" where
  "put_export e t = ((fst t, map (\<lambda>f. if ex_id f = ex_id e then e else f) (snd t)), Inr ())"

definition add_export :: "audit_export \<Rightarrow> 'l \<times> audit_export list \<Rightarrow> ('l \<times> audit_export list) \<times> unit result" where
  "add_export e t =
    (if ex_id e \<in> ex_id ` set (snd t) then (t, Inl (PyError ''IntegrityError'' ''UNIQUE constraint failed''))
     else ((fst t, snd t @ [e]), Inr ()))"

text \<open>The object is written between the two flushes; only an \<open>AppError\<close> of the sink marks the export failed.\<close>

definition write_export ::
  "(string \<Rightarrow> string \<Rightarrow> ('w, string) state_op) \<Rightarrow> instant \<Rightarrow> string \<Rightarrow> audit_export \<Rightarrow> ('w export_state, audit_export) state_op" where
  "write_export sink now content e x =
    (case on_world_of (sink (ex_id e) content) x of
       (y, Inr uri) \<Rightarrow>
         (let f = e\<lparr>ex_status := ''succeeded'', ex_destination_uri := Some uri, ex_exported_at := Some now\<rparr> in
          sbind (on_tables (put_export f)) (\<lambda>_. sret (Inr f)) y)
     | (y, Inl (AppError code message status details)) \<Rightarrow>
         sbind (on_tables (put_export (e\<lparr>ex_status := ''failed'', ex_error_message := Some message\<rparr>)))
           (\<lambda>_. sret (Inl (AppError code message status details))) y
     | (y, Inl er) \<Rightarrow> (y, Inl er))"

definition export_record ::
  "hashing \<Rightarrow> (instant \<Rightarrow> string) \<Rightarrow> audit_context option \<Rightarrow> string option \<Rightarrow> string \<Rightarrow> string \<Rightarrow> string option \<Rightarrow> string option
    \<Rightarrow> audit_log list \<Rightarrow> audit_export" where
  "export_record hs isoformat ctx tenant_id destination_type export_id actor_id request_id logs =
     \<lparr>ex_id = export_id, ex_tenant_id = tenant_id, ex_actor_id = or_context actor_id ctx rx_user_id,
      ex_destination_type = destination_type, ex_destination_uri = None, ex_status = ''pending'',
      ex_request_id = or_context request_id ctx (\<lambda>c. Some (rx_request_id c)), ex_record_count = int (length logs),
      ex_hash_root = (if logs = [] then None else Some (al_hash (hd logs))),
      ex_hash_tip = (if logs = [] then None else Some (al_hash (last logs))),
      ex_checksum = hs_sha256 hs (export_payload hs isoformat export_id destination_type tenant_id logs),
      ex_error_message = None, ex_exported_at = None\<rparr>"

definition export_logs ::
  "hashing \<Rightarrow> (instant \<Rightarrow> string) \<Rightarrow> (string \<Rightarrow> string \<Rightarrow> ('w, string) state_op) \<Rightarrow> string \<Rightarrow> instant \<Rightarrow> audit_context option
    \<Rightarrow> string option \<Rightarrow> string \<Rightarrow> string option \<Rightarrow> string option \<Rightarrow> string option \<Rightarrow> 'w export_state
    \<Rightarrow> ('w export_state \<times> audit_export result) option" where
  "export_logs hs isoformat sink fresh now ctx tenant_id destination_type export_id actor_id request_id x =
    (let i = (case export_id of Some (c # s) \<Rightarrow> c # s | _ \<Rightarrow> fresh);
         logs = sort_key al_id (of_tenant tenant_id (fst (fst x)));
         errors = chain_errors hs logs in
     case validate_export_request i destination_type of
       Inl e \<Rightarrow> Some (x, Inl e)
     | Inr _ \<Rightarrow>
         if errors \<noteq> [] then Some (x, Inl (app_error ''CONFLICT'' ''audit hash chain is invalid'' (Some 409)
           [(''tenant_id'', opt_str tenant_id), (''errors'', PList (map PStr errors))]))
         else (case order_valid_hash_chain logs of
             None \<Rightarrow> None
           | Some (Inl e) \<Rightarrow> Some (x, Inl e)
           | Some (Inr ordered) \<Rightarrow>
               (let e = export_record hs isoformat ctx tenant_id destination_type i actor_id request_id ordered in
                Some (sbind (on_tables (add_export e)) (\<lambda>_.
                  write_export sink now (export_payload hs isoformat i destination_type tenant_id ordered) e) x))))"

section \<open>Retention\<close>

record audit_retention =
  ar_older_than :: instant
  ar_matched_count :: int
  ar_deleted_count :: int
  ar_dry_run :: bool
  ar_chain_safe :: bool
  ar_oldest :: "instant option"
  ar_newest :: "instant option"

definition retention_logs :: "string option \<Rightarrow> audit_log list \<Rightarrow> audit_log list" where
  "retention_logs tenant_id rows = sort_key (\<lambda>r. (al_created_at r, al_id r)) (of_tenant tenant_id rows)"

definition expired_logs :: "instant \<Rightarrow> audit_log list \<Rightarrow> audit_log list" where
  "expired_logs cutoff logs = filter (\<lambda>r. al_created_at r < cutoff) logs"

definition retention_result :: "instant \<Rightarrow> bool \<Rightarrow> audit_log list \<Rightarrow> bool \<Rightarrow> int \<Rightarrow> audit_retention" where
  "retention_result cutoff dry_run expired chain_safe deleted =
    (let times = map al_created_at expired in
     \<lparr>ar_older_than = cutoff, ar_matched_count = int (length expired), ar_deleted_count = deleted, ar_dry_run = dry_run,
      ar_chain_safe = chain_safe, ar_oldest = if times = [] then None else Some (Min (set times)),
      ar_newest = if times = [] then None else Some (Max (set times))\<rparr>)"

definition apply_retention ::
  "string option \<Rightarrow> datetime \<Rightarrow> bool \<Rightarrow> (audit_log list, audit_retention) state_op" where
  "apply_retention tenant_id older_than dry_run rows =
    (let cutoff = to_utc older_than; logs = retention_logs tenant_id rows; expired = expired_logs cutoff logs;
         chain_safe = (expired = [] \<or> length expired = length logs) in
     if \<not> dry_run \<and> expired \<noteq> [] \<and> \<not> chain_safe
     then (rows, Inl (app_error ''CONFLICT'' ''audit retention would break the hash chain; export a complete chain first'' (Some 409)
       [(''tenant_id'', opt_str tenant_id), (''matched_count'', PInt (int (length expired))),
        (''total_count'', PInt (int (length logs)))]))
     else if \<not> dry_run \<and> expired \<noteq> []
     then (filter (\<lambda>r. al_id r \<notin> al_id ` set expired) rows, Inr (retention_result cutoff dry_run expired chain_safe (int (length expired))))
     else (rows, Inr (retention_result cutoff dry_run expired chain_safe 0)))"

end
