(* ===== verification/Audit_Properties.thy ===== *)
theory Audit_Properties
  imports Audit_Chain "HOL-Library.Multiset"
begin

text \<open>
  The properties of the audit log: verification accepts exactly the chains, a tip determines its log, and writers
  that take the lock of a chain and whose clock moves on keep it a chain.
\<close>

section \<open>Chains\<close>

text \<open>The specification: each record names the hash before it, and carries its own.\<close>

fun linked :: "hashing \<Rightarrow> string option \<Rightarrow> audit_log list \<Rightarrow> bool" where
  "linked hs previous [] \<longleftrightarrow> True"
| "linked hs previous (r # rows) \<longleftrightarrow>
     al_hash_prev r = previous \<and> al_hash r = audit_hash hs r \<and> linked hs (Some (al_hash r)) rows"

definition tip :: "string option \<Rightarrow> audit_log list \<Rightarrow> string option" where
  "tip previous rows = (if rows = [] then previous else Some (al_hash (last rows)))"

lemma linked_append: "linked hs p (xs @ ys) \<longleftrightarrow> linked hs p xs \<and> linked hs (tip p xs) ys"
  by (induction xs arbitrary: p) (auto simp: tip_def)

lemma linked_snoc: "linked hs p (xs @ [r]) \<longleftrightarrow> linked hs p xs \<and> al_hash_prev r = tip p xs \<and> al_hash r = audit_hash hs r"
  by (simp add: linked_append)

lemma linked_hash: "linked hs p rows \<Longrightarrow> r \<in> set rows \<Longrightarrow> al_hash r = audit_hash hs r"
  by (induction rows arbitrary: p) auto

lemma linked_prev: "linked hs p rows \<Longrightarrow> r \<in> set rows \<Longrightarrow> al_hash_prev r = p \<or> (\<exists>q \<in> set rows. al_hash_prev r = Some (al_hash q))"
  by (induction rows arbitrary: p) fastforce+

text \<open>A chain: linked from the root, no hash twice.\<close>

definition hash_chain :: "hashing \<Rightarrow> audit_log list \<Rightarrow> bool" where
  "hash_chain hs rows \<longleftrightarrow> linked hs None rows \<and> distinct (map al_hash rows)"

lemma chain_children_of:
  assumes "hash_chain hs (xs @ r # ys)"
  shows "chain_children (xs @ r # ys) (al_hash r) = take 1 ys"
proof -
  have l: "linked hs None xs" "linked hs (tip None xs) (r # ys)" and d: "distinct (map al_hash (xs @ r # ys))"
    using assms by (simp_all add: hash_chain_def linked_append del: linked.simps)
  have before: "al_hash_prev q \<noteq> Some (al_hash r)" if "q \<in> set xs" for q
    using linked_prev [OF l(1) that] d by (fastforce simp: image_iff)
  have "al_hash (last xs) \<noteq> al_hash r" if "xs \<noteq> []" using last_in_set [OF that] d by (auto simp: image_iff)
  then have self: "al_hash_prev r \<noteq> Some (al_hash r)" using l(2) by (auto simp: tip_def)
  have after: "filter (\<lambda>q. al_hash_prev q = Some (al_hash r)) ys = take 1 ys"
  proof (cases ys)
    case (Cons c zs)
    have "al_hash_prev q \<noteq> Some (al_hash r)" if "q \<in> set zs" for q
      using l(2) d linked_prev [of hs "Some (al_hash c)" zs q] that unfolding Cons by auto
    then show ?thesis using l(2) by (simp add: Cons filter_empty_conv)
  qed simp
  show ?thesis using before self after by (simp add: chain_children_def filter_empty_conv)
qed

lemma chain_roots_of:
  assumes "hash_chain hs (r # rows)"
  shows "chain_roots (r # rows) = [r]"
proof -
  have "al_hash_prev q \<noteq> None" if "q \<in> set rows" for q
    using linked_prev [of hs "Some (al_hash r)" rows q] that assms by (auto simp: hash_chain_def)
  then show ?thesis using assms by (simp add: hash_chain_def chain_roots_def filter_empty_conv)
qed

text \<open>The order of the rows does not matter.\<close>

lemma filter_same_mset: "mset xs = mset ys \<Longrightarrow> filter P xs = [x] \<longleftrightarrow> filter P ys = [x]"
  by (metis mset_filter mset_single_iff_right)

lemma filter_same_mset_empty: "mset xs = mset ys \<Longrightarrow> filter P xs = [] \<longleftrightarrow> filter P ys = []"
  by (metis mset_filter mset_zero_iff)

lemma children_of_rows:
  assumes "hash_chain hs (xs @ r # ys)" and "mset rows = mset (xs @ r # ys)"
  shows "chain_children rows (al_hash r) = take 1 ys"
  using chain_children_of [OF assms(1)] filter_same_mset [OF assms(2)] filter_same_mset_empty [OF assms(2)]
  by (cases ys) (auto simp: chain_children_def)

lemma roots_of_rows: "hash_chain hs (r # ys) \<Longrightarrow> mset rows = mset (r # ys) \<Longrightarrow> chain_roots rows = [r]"
  unfolding chain_roots_def using filter_same_mset chain_roots_of unfolding chain_roots_def by metis

lemma walk_of_chain:
  assumes "hash_chain hs (xs @ r # ys)" and "mset rows = mset (xs @ r # ys)" and "visited = rev (map al_hash xs)"
  shows "walk_chain rows visited r = rev (map al_hash (xs @ r # ys))"
  using assms
proof (induction ys arbitrary: xs r visited)
  case Nil
  have "al_hash r \<notin> set visited" using Nil.prems by (simp add: hash_chain_def)
  then show ?case using children_of_rows [OF Nil.prems(1,2)] Nil.prems(3) by (simp add: walk_chain.simps)
next
  case (Cons c ys)
  have "al_hash r \<notin> set visited" using Cons.prems by (simp add: hash_chain_def)
  then have "walk_chain rows visited r = walk_chain rows (al_hash r # visited) c"
    using children_of_rows [OF Cons.prems(1,2)] by (simp add: walk_chain.simps [of rows visited r])
  also have "\<dots> = rev (map al_hash ((xs @ [r]) @ c # ys))"
    by (rule Cons.IH) (use Cons.prems in simp_all)
  finally show ?case by simp
qed

lemma follow_of_chain:
  assumes "hash_chain hs (xs @ r # ys)" and "mset rows = mset (xs @ r # ys)"
  shows "follow_chain rows r = Some (r # ys)"
  using assms
proof (induction ys arbitrary: xs r)
  case Nil
  then show ?case using children_of_rows [OF Nil] by (simp add: follow_chain.simps)
next
  case (Cons c ys)
  have "follow_chain rows c = Some (c # ys)" by (rule Cons.IH [of "xs @ [r]"]) (use Cons.prems in simp_all)
  then show ?case using children_of_rows [OF Cons.prems] by (simp add: follow_chain.simps [of rows r])
qed

lemma order_of_chain:
  assumes "hash_chain hs ordered" and "mset rows = mset ordered"
  shows "order_valid_hash_chain rows = Some (Inr ordered)"
proof (cases ordered)
  case (Cons r ys)
  have "chain_roots rows = [r]"
    by (rule roots_of_rows) (use assms Cons in simp_all)
  moreover have "rows \<noteq> []" using assms(2) by (auto simp: Cons)
  moreover have "follow_chain rows r = Some (r # ys)" by (rule follow_of_chain [of hs "[]"]) (use assms Cons in simp_all)
  ultimately show ?thesis by (simp add: order_valid_hash_chain_def Cons)
qed (use assms in \<open>simp add: order_valid_hash_chain_def\<close>)

section \<open>No errors\<close>

lemma hash_errors_none:
  "hash_errors hs seen rows = [] \<longleftrightarrow>
     (\<forall>r \<in> set rows. al_hash r = audit_hash hs r) \<and> distinct (map al_hash rows) \<and> set seen \<inter> al_hash ` set rows = {}"
  by (induction rows arbitrary: seen) auto

lemma missing_errors_none:
  "missing_errors rows = [] \<longleftrightarrow> (\<forall>r \<in> set rows. \<forall>h. al_hash_prev r = Some h \<longrightarrow> h \<in> al_hash ` set rows)"
  by (auto simp: missing_errors_def split: option.splits)

lemma branch_errors_none: "branch_errors rows = [] \<longleftrightarrow> (\<forall>h. length (chain_children rows h) \<le> 1)"
proof -
  have "h \<in> set (previous_hashes rows)" if "1 < length (chain_children rows h)" for h
  proof -
    from that obtain r where "r \<in> set (chain_children rows h)" by (cases "chain_children rows h") auto
    then show ?thesis by (force simp: chain_children_def previous_hashes_def List.map_filter_def)
  qed
  moreover have "branch_errors rows = [] \<longleftrightarrow> (\<forall>h \<in> set (previous_hashes rows). \<not> 1 < length (chain_children rows h))"
    by (simp add: branch_errors_def filter_empty_conv)
  ultimately show ?thesis unfolding not_less [symmetric] by blast
qed

text \<open>The walk from a row visits a linked path of rows.\<close>

lemma walk_is_path:
  assumes "r \<in> set rows" and "\<forall>q \<in> set rows. al_hash q = audit_hash hs q" and "distinct visited"
  obtains path where "walk_chain rows visited r = rev (map al_hash path) @ visited" and "set path \<subseteq> set rows"
    and "linked hs (al_hash_prev r) path" and "distinct (rev (map al_hash path) @ visited)"
  using assms
proof (induction rows visited r arbitrary: thesis rule: walk_chain.induct)
  case (1 rows visited r)
  show ?case
  proof (cases "al_hash r \<in> set visited")
    case True
    then show ?thesis using "1.prems"(1) [of "[]"] "1.prems" by (simp add: walk_chain.simps)
  next
    case new: False
    show ?thesis
    proof (cases "\<exists>c. chain_children rows (al_hash r) = [c]")
      case True
      then obtain c where c: "chain_children rows (al_hash r) = [c]" by blast
      then have "c \<in> set (chain_children rows (al_hash r))" by simp
      then have cr: "c \<in> set rows" "al_hash_prev c = Some (al_hash r)" by (simp_all add: chain_children_def)
      show ?thesis
      proof (rule "1.IH" [OF new c refl _ cr(1)])
        fix path
        assume "walk_chain rows (al_hash r # visited) c = rev (map al_hash path) @ al_hash r # visited"
          and "set path \<subseteq> set rows" and "linked hs (al_hash_prev c) path"
          and "distinct (rev (map al_hash path) @ al_hash r # visited)"
        then show thesis using c new cr "1.prems" by (intro "1.prems"(1) [of "r # path"]) (simp_all add: walk_chain.simps [of rows visited r])
      qed (use "1.prems" new in simp_all)
    next
      case False
      then have "walk_chain rows visited r = al_hash r # visited"
        using new by (auto simp: walk_chain.simps [of rows visited r] split: list.splits)
      then show ?thesis using new "1.prems" by (intro "1.prems"(1) [of "[r]"]) simp_all
    qed
  qed
qed

lemma no_errors_chain:
  assumes "chain_errors hs rows = []"
  obtains ordered where "mset ordered = mset rows" and "hash_chain hs ordered"
proof (cases "rows = []")
  case True
  then show thesis using that [of "[]"] by (simp add: hash_chain_def)
next
  case False
  with assms have h: "\<forall>r \<in> set rows. al_hash r = audit_hash hs r" "distinct (map al_hash rows)"
    by (simp_all add: chain_errors_def hash_errors_none)
  obtain r where r: "chain_roots rows = [r]" and w: "length (walk_chain rows [] r) = length rows"
    using assms False by (auto simp: chain_errors_def Let_def split: list.splits if_splits)
  have "r \<in> set (chain_roots rows)" by (simp add: r)
  then have root: "r \<in> set rows" "al_hash_prev r = None" by (simp_all add: chain_roots_def)
  obtain path where path: "walk_chain rows [] r = rev (map al_hash path)" "set path \<subseteq> set rows"
      "linked hs None path" "distinct (map al_hash path)"
    using walk_is_path [OF root(1) h(1), of "[]"] root(2) by auto
  have "length path = length rows" using w path(1) by simp
  moreover have d: "distinct path" "distinct rows" using path(4) h(2) by (simp_all add: distinct_map)
  ultimately have "set path = set rows" using path(2) by (metis card_subset_eq distinct_card List.finite_set)
  then have "mset path = mset rows" using d by (simp add: set_eq_iff_mset_eq_distinct)
  then show thesis using that path by (simp add: hash_chain_def)
qed

lemma chain_no_errors:
  assumes "mset ordered = mset rows" and "hash_chain hs ordered"
  shows "chain_errors hs rows = []"
proof (cases ordered)
  case Nil
  then show ?thesis using assms by (simp add: chain_errors_def)
next
  case (Cons r ys)
  note sets = mset_eq_setD [OF assms(1)]
  have l: "linked hs None ordered" and d: "distinct (map al_hash ordered)" using assms(2) by (simp_all add: hash_chain_def)
  have "mset (map al_hash rows) = mset (map al_hash ordered)" using assms(1) by simp
  then have "distinct (map al_hash rows)" using d by (metis mset_eq_imp_distinct_iff)
  then have 1: "hash_errors hs [] rows = []" using linked_hash [OF l] by (simp add: hash_errors_none sets)
  have 2: "missing_errors rows = []" using linked_prev [OF l] by (fastforce simp: missing_errors_none sets [symmetric])
  have 3: "branch_errors rows = []"
    unfolding branch_errors_none
  proof
    fix h
    show "length (chain_children rows h) \<le> 1"
    proof (cases "h \<in> al_hash ` set ordered")
      case True
      then obtain q where "q \<in> set ordered" and h: "h = al_hash q" by blast
      then obtain xs zs where "ordered = xs @ q # zs" by (meson split_list)
      then show ?thesis using children_of_rows [of hs xs q zs rows] assms by (simp add: h)
    next
      case False
      then have "chain_children rows h = []" using linked_prev [OF l] by (fastforce simp: chain_children_def filter_empty_conv sets [symmetric])
      then show ?thesis by simp
    qed
  qed
  have "chain_roots rows = [r]"
    by (rule roots_of_rows [of hs]) (use assms Cons in \<open>simp_all add: assms(1) [symmetric]\<close>)
  moreover have "walk_chain rows [] r = rev (map al_hash ordered)"
    using walk_of_chain [of hs "[]" r ys rows "[]"] assms by (simp add: Cons)
  moreover have "length ordered = length rows" using assms(1) by (metis size_mset)
  ultimately show ?thesis using 1 2 3 by (simp add: chain_errors_def)
qed

section \<open>What a hash covers\<close>

lemma hex_digit_inj: "m < 16 \<Longrightarrow> n < 16 \<Longrightarrow> hex_digit m = hex_digit n \<Longrightarrow> m = n"
  by (auto simp: hex_digit_def char_of_eq_iff take_bit_eq_mod split: if_splits)

lemma json_char_prefix:
  assumes "json_char c @ x = json_char d @ y"
  shows "c = d \<and> x = y"
proof -
  have hex: "of_char c = (of_char d :: nat)"
    if "hex_digit (of_char c div 16) = hex_digit (of_char d div 16)" "hex_digit (of_char c mod 16) = hex_digit (of_char d mod 16)"
  proof -
    have "(of_char c :: nat) < 256" "(of_char d :: nat) < 256" by simp_all
    then have "(of_char c :: nat) div 16 < 16" "(of_char d :: nat) div 16 < 16"
      by (auto intro!: less_mult_imp_div_less)
    from hex_digit_inj [OF this that(1)] hex_digit_inj [OF _ _ that(2)]
    have "(of_char c :: nat) div 16 = of_char d div 16" "(of_char c :: nat) mod 16 = of_char d mod 16" by simp_all
    then show ?thesis by (metis div_mult_mod_eq)
  qed
  show ?thesis using assms hex by (auto simp: json_char_def Let_def split: if_splits)
qed

lemma json_char_head: "hd (json_char c @ x) \<noteq> CHR 0x22" "json_char c \<noteq> []"
  by (auto simp: json_char_def Let_def)

lemma json_chars_prefix:
  "concat (map json_char s) @ CHR 0x22 # x = concat (map json_char t) @ CHR 0x22 # y \<Longrightarrow> s = t \<and> x = y"
proof (induction s arbitrary: t)
  case Nil
  then show ?case using json_char_head(1) by (cases t) (auto, metis list.sel(1))
next
  case (Cons c s)
  show ?case
  proof (cases t)
    case Nil
    then show ?thesis using Cons.prems json_char_head(1) by (auto, metis list.sel(1))
  next
    case (Cons d t)
    then show ?thesis using Cons.prems Cons.IH [of t] json_char_prefix [of c _ d] by auto
  qed
qed

lemma json_str_prefix: "json_str s @ x = json_str t @ y \<longleftrightarrow> s = t \<and> x = y"
  using json_chars_prefix [of s x t y] by (auto simp: json_str_def)

lemma json_opt_prefix: "json_text fl (opt_str a) @ x = json_text fl (opt_str b) @ y \<longleftrightarrow> a = b \<and> x = y"
  by (cases a; cases b) (auto simp: opt_str_def json_str_prefix, auto simp: json_str_def)

lemma audit_text_begins:
  "\<exists>rest. audit_text fl r = ''{'' @ json_str ''action'' @ '':'' @ json_str (al_action r) @
     '','' @ json_str ''actor_id'' @ '':'' @ json_text fl (opt_str (al_actor_id r)) @
     '','' @ json_str ''actor_type'' @ '':'' @ json_str (al_actor_type r) @
     '','' @ json_str ''hash_prev'' @ '':'' @ json_text fl (opt_str (al_hash_prev r)) @ rest"
  by (simp add: audit_text_def sort_key_def)

lemma audit_text_determines:
  assumes "audit_text fl r = audit_text fl q"
  shows "al_action r = al_action q \<and> al_actor_id r = al_actor_id q \<and> al_actor_type r = al_actor_type q \<and>
    al_hash_prev r = al_hash_prev q"
proof -
  obtain x y where "audit_text fl r = ''{'' @ json_str ''action'' @ '':'' @ json_str (al_action r) @
     '','' @ json_str ''actor_id'' @ '':'' @ json_text fl (opt_str (al_actor_id r)) @
     '','' @ json_str ''actor_type'' @ '':'' @ json_str (al_actor_type r) @
     '','' @ json_str ''hash_prev'' @ '':'' @ json_text fl (opt_str (al_hash_prev r)) @ x"
    and "audit_text fl q = ''{'' @ json_str ''action'' @ '':'' @ json_str (al_action q) @
     '','' @ json_str ''actor_id'' @ '':'' @ json_text fl (opt_str (al_actor_id q)) @
     '','' @ json_str ''actor_type'' @ '':'' @ json_str (al_actor_type q) @
     '','' @ json_str ''hash_prev'' @ '':'' @ json_text fl (opt_str (al_hash_prev q)) @ y"
    using audit_text_begins by metis
  with assms show ?thesis by (simp only: append.assoc [symmetric] same_append_eq json_str_prefix json_opt_prefix) (simp only: append.assoc append_same_eq same_append_eq json_str_prefix json_opt_prefix)
qed

section \<open>Collisions\<close>

text \<open>No two of the texts have the same SHA-256.\<close>

definition collision_free :: "hashing \<Rightarrow> audit_log set \<Rightarrow> bool" where
  "collision_free hs rows \<longleftrightarrow> inj_on (hs_sha256 hs) (audit_text (hs_float hs) ` rows)"

lemma collision_free_text:
  "collision_free hs rows \<Longrightarrow> r \<in> rows \<Longrightarrow> q \<in> rows \<Longrightarrow> audit_hash hs r = audit_hash hs q \<Longrightarrow>
     audit_text (hs_float hs) r = audit_text (hs_float hs) q"
  by (auto simp: collision_free_def audit_hash_def dest: inj_onD)

lemma linked_same_tip:
  assumes "linked hs None xs" and "linked hs None ys" and "tip None xs = tip None ys" and "collision_free hs (set xs \<union> set ys)"
  shows "map (audit_text (hs_float hs)) xs = map (audit_text (hs_float hs)) ys"
  using assms
proof (induction xs arbitrary: ys rule: rev_induct)
  case Nil
  then show ?case by (simp add: tip_def split: if_splits)
next
  case (snoc r xs)
  from snoc.prems(3) have "ys \<noteq> []" by (auto simp: tip_def)
  then obtain zs q where ys: "ys = zs @ [q]" by (metis append_butlast_last_id)
  have "audit_hash hs r = audit_hash hs q" using snoc.prems by (simp add: ys tip_def linked_snoc)
  then have t: "audit_text (hs_float hs) r = audit_text (hs_float hs) q"
    using collision_free_text [OF snoc.prems(4)] by (simp add: ys)
  then have "tip None xs = tip None zs"
    using audit_text_determines [OF t] snoc.prems(1,2) by (simp add: ys linked_snoc)
  moreover have "collision_free hs (set xs \<union> set zs)"
    using snoc.prems(4) unfolding collision_free_def ys by (rule inj_on_subset) auto
  ultimately show ?case using snoc.IH [of zs] snoc.prems(1,2) t by (simp add: ys linked_snoc)
qed

lemma linked_distinct:
  assumes "linked hs None rows" and "collision_free hs (set rows)"
  shows "distinct (map al_hash rows)"
proof -
  have no: "al_hash r \<notin> al_hash ` set xs" if "rows = xs @ r # ys" for xs r ys
  proof
    assume "al_hash r \<in> al_hash ` set xs"
    then obtain q where "q \<in> set xs" and h: "al_hash q = al_hash r" by force
    then obtain as bs where xs: "xs = as @ q # bs" by (meson split_list)
    have "rows = (as @ [q]) @ bs @ r # ys" "rows = (xs @ [r]) @ ys" by (simp_all add: that xs)
    then have l: "linked hs None (as @ [q])" "linked hs None (xs @ [r])" using assms(1) linked_append by metis+
    have "collision_free hs (set (as @ [q]) \<union> set (xs @ [r]))"
      using assms(2) unfolding collision_free_def by (rule inj_on_subset) (auto simp: that xs)
    from linked_same_tip [OF l _ this] have "length (as @ [q]) = length (xs @ [r])"
      by (metis h length_map tip_def append_is_Nil_conv last_snoc not_Cons_self2)
    then show False by (simp add: xs)
  qed
  have "al_hash (rows ! i) \<noteq> al_hash (rows ! j)" if "i < j" "j < length rows" for i j
  proof -
    have "rows ! i \<in> set (take j rows)" using that by (auto simp: in_set_conv_nth)
    then show ?thesis using no [OF id_take_nth_drop [OF that(2)]] by (metis imageI)
  qed
  then show ?thesis unfolding distinct_conv_nth by (metis length_map nat_neq_iff nth_map)
qed

lemma linked_chain: "linked hs None rows \<Longrightarrow> collision_free hs (set rows) \<Longrightarrow> hash_chain hs rows"
  by (simp add: hash_chain_def linked_distinct)

section \<open>Writers\<close>

text \<open>What the sessions of a process do: record, and end a transaction.\<close>

datatype audit_action =
    Recording nat "audit_context option" audit_entry string instant
  | Ending nat bool

fun audit_do :: "'w audit_service \<Rightarrow> audit_action \<Rightarrow> 'w audit_state \<Rightarrow> 'w audit_state" where
  "audit_do sv (Recording sid ctx e fresh now) x =
     (case record_audit sv sid ctx e fresh now x of None \<Rightarrow> x | Some (y, _) \<Rightarrow> y)"
| "audit_do sv (Ending sid commit) x = end_audit_transaction sv sid commit x"

fun action_time :: "audit_action \<Rightarrow> instant option" where
  "action_time (Recording sid ctx e fresh now) = Some now"
| "action_time (Ending sid commit) = None"

definition audit_run :: "'w audit_service \<Rightarrow> audit_action list \<Rightarrow> 'w audit_state \<Rightarrow> 'w audit_state" where
  "audit_run sv as x = fold (audit_do sv) as x"

definition empty_audit :: audit_db where
  "empty_audit = \<lparr>ad_rows = [], ad_pending = (\<lambda>_. []), ad_held = []\<rparr>"

definition lock_holder :: "audit_db \<Rightarrow> string option \<Rightarrow> nat option" where
  "lock_holder d n = map_option fst (map_of (ad_held d) (audit_chain_lock_key n))"

text \<open>The invariant: the log a session sees is linked and in the order of its times, and a session that has
  written to a chain without ending its transaction holds the lock of the chain.\<close>

definition ordered_in_time :: "instant \<Rightarrow> audit_log list \<Rightarrow> bool" where
  "ordered_in_time now rows \<longleftrightarrow> sorted_wrt (\<lambda>r q. al_created_at r < al_created_at q) rows \<and> (\<forall>r \<in> set rows. al_created_at r < now)"

definition audit_wf :: "hashing \<Rightarrow> instant \<Rightarrow> audit_db \<Rightarrow> bool" where
  "audit_wf hs now d \<longleftrightarrow>
     (\<forall>sid n. linked hs None (of_tenant n (visible_rows sid d)) \<and> ordered_in_time now (of_tenant n (visible_rows sid d)) \<and>
        (of_tenant n (ad_pending d sid) \<noteq> [] \<longrightarrow> lock_holder d n = Some sid))"

lemma lock_key_inj: "audit_chain_lock_key n = audit_chain_lock_key m \<longleftrightarrow> n = m"
  by (auto simp: audit_chain_lock_key_def split: option.splits)

lemma of_tenant_append [simp]: "of_tenant n (xs @ ys) = of_tenant n xs @ of_tenant n ys"
  by (simp add: of_tenant_def)

lemma of_tenant_one: "of_tenant n [r] = (if al_tenant_id r = n then [r] else [])"
  by (simp add: of_tenant_def)

lemma latest_hash_tip:
  assumes "ordered_in_time now rows"
  shows "latest_hash rows = tip None rows"
proof -
  have "sorted (map (\<lambda>r. (al_created_at r, al_id r)) rows)"
    using assms unfolding ordered_in_time_def sorted_map by (auto elim!: sorted_wrt_mono_rel [rotated])
  then have "sort_key (\<lambda>r. (al_created_at r, al_id r)) rows = rows" by (rule sort_key_id_if_sorted)
  then show ?thesis by (cases rows rule: rev_cases) (simp_all add: latest_hash_def tip_def)
qed

text \<open>A lock that is taken leaves the rows, and its chain is the session's from then on.\<close>

lemma acquire_chain_lock_keeps:
  assumes "acquire_chain_lock sv sid n x = Some (y, r)"
  shows "ad_rows (fst y) = ad_rows (fst x)" and "ad_pending (fst y) = ad_pending (fst x)"
    and "lock_holder (fst x) m = Some s \<Longrightarrow> lock_holder (fst y) m = Some s"
    and "r = Inr () \<Longrightarrow> lock_holder (fst y) n = Some sid"
    and "r = Inr () \<Longrightarrow> lock_holder (fst x) n \<in> {None, Some sid}"
proof -
  have "ad_rows (fst y) = ad_rows (fst x) \<and> ad_pending (fst y) = ad_pending (fst x) \<and>
      (lock_holder (fst x) m = Some s \<longrightarrow> lock_holder (fst y) m = Some s) \<and>
      (r = Inr () \<longrightarrow> lock_holder (fst y) n = Some sid \<and> lock_holder (fst x) n \<in> {None, Some sid})"
    using assms
    by (auto simp: acquire_chain_lock_def lock_holder_def lock_key_inj sbind_def on_world_of_def on_tables_def
        split: option.splits prod.splits sum.splits if_splits)
  then show "ad_rows (fst y) = ad_rows (fst x)" "ad_pending (fst y) = ad_pending (fst x)"
    "lock_holder (fst x) m = Some s \<Longrightarrow> lock_holder (fst y) m = Some s"
    "r = Inr () \<Longrightarrow> lock_holder (fst y) n = Some sid"
    "r = Inr () \<Longrightarrow> lock_holder (fst x) n \<in> {None, Some sid}" by simp_all
qed

lemma new_audit_log_row [simp]:
  "al_tenant_id (new_audit_log hs ctx e fresh now p) = entry_tenant ctx e"
  "al_hash_prev (new_audit_log hs ctx e fresh now p) = p"
  "al_created_at (new_audit_log hs ctx e fresh now p) = now"
  by (simp_all add: new_audit_log_def Let_def)

lemma new_audit_log_hash: "al_hash (new_audit_log hs ctx e fresh now p) = audit_hash hs (new_audit_log hs ctx e fresh now p)"
  by (simp add: new_audit_log_def Let_def audit_hash_def audit_text_def)

lemma held_by_others:
  "map_of held k = Some (s, b) \<Longrightarrow> s \<noteq> sid \<Longrightarrow> map_of (filter (\<lambda>(_, s, _). s \<noteq> sid) held) k = Some (s, b)"
  by (induction held) (auto split: if_splits)

lemma audit_wf_ending: "audit_wf hs now (fst x) \<Longrightarrow> audit_wf hs now (fst (end_audit_transaction sv sid commit x))"
proof -
  assume wf: "audit_wf hs now (fst x)"
  let ?d = "fst x" and ?e = "fst (end_audit_transaction sv sid commit x)"
  have rows: "ad_rows ?e = (if commit then ad_rows ?d @ ad_pending ?d sid else ad_rows ?d)"
      "ad_pending ?e = (ad_pending ?d)(sid := [])" "ad_held ?e = filter (\<lambda>(_, s, _). s \<noteq> sid) (ad_held ?d)"
    by (simp_all add: end_audit_transaction_def Let_def)
  have holder: "lock_holder ?e n = Some s" if "lock_holder ?d n = Some s" "s \<noteq> sid" for n s
    using that held_by_others [of "ad_held ?d"] by (auto simp: lock_holder_def rows)
  show ?thesis
    unfolding audit_wf_def
  proof (intro allI conjI)
    fix s n
    have none: "of_tenant n (ad_pending ?d s) = []" if "s \<noteq> sid" "of_tenant n (ad_pending ?d sid) \<noteq> []"
      using that wf unfolding audit_wf_def by (metis option.inject)
    have seen: "of_tenant n (visible_rows s ?e) = of_tenant n (visible_rows s ?d) \<or>
        of_tenant n (visible_rows s ?e) = of_tenant n (visible_rows sid ?d) \<or>
        of_tenant n (visible_rows s ?e) = of_tenant n (ad_rows ?d)"
    proof -
      have "of_tenant n (visible_rows s ?e) = of_tenant n (ad_rows ?d) @ (if commit then of_tenant n (ad_pending ?d sid) else []) @
          (if s = sid then [] else of_tenant n (ad_pending ?d s))"
        unfolding visible_rows_def rows by (simp add: of_tenant_def)
      then show ?thesis
        using none by (cases "s = sid"; cases commit; cases "of_tenant n (ad_pending ?d sid) = []") (simp_all add: visible_rows_def)
    qed
    have committed: "linked hs None (of_tenant n (ad_rows ?d)) \<and> ordered_in_time now (of_tenant n (ad_rows ?d))"
      using wf unfolding audit_wf_def visible_rows_def ordered_in_time_def
      by (metis Un_iff linked_append of_tenant_append set_append sorted_wrt_append)
    show "linked hs None (of_tenant n (visible_rows s ?e))" "ordered_in_time now (of_tenant n (visible_rows s ?e))"
      using seen committed wf unfolding audit_wf_def by metis+
    show "of_tenant n (ad_pending ?e s) \<noteq> [] \<longrightarrow> lock_holder ?e n = Some s"
      using holder [of n s] wf by (simp add: rows audit_wf_def of_tenant_def)
  qed
qed

lemma audit_wf_later: "audit_wf hs now d \<Longrightarrow> now \<le> later \<Longrightarrow> audit_wf hs later d"
  unfolding audit_wf_def ordered_in_time_def by fastforce

lemma audit_wf_acquired:
  assumes "acquire_chain_lock sv sid n x = Some (y, r)" and "audit_wf hs now (fst x)"
  shows "audit_wf hs now (fst y)"
  using assms(2) acquire_chain_lock_keeps(1,2,3) [OF assms(1)] unfolding audit_wf_def visible_rows_def by metis

text \<open>A row written to a chain whose lock the session holds.\<close>

lemma audit_wf_written:
  assumes wf: "audit_wf hs now d" and lock: "lock_holder d n = Some sid"
    and r: "al_tenant_id r = n" "al_hash_prev r = latest_hash (of_tenant n (visible_rows sid d))" "al_hash r = audit_hash hs r"
      "al_created_at r = now"
  shows "audit_wf hs (now + 1) (d\<lparr>ad_pending := (ad_pending d)(sid := ad_pending d sid @ [r])\<rparr>)"
proof -
  let ?d = "d\<lparr>ad_pending := (ad_pending d)(sid := ad_pending d sid @ [r])\<rparr>"
  have later: "audit_wf hs (now + 1) d" by (rule audit_wf_later [OF wf]) simp
  have old: "linked hs None (of_tenant n (visible_rows sid d))" "ordered_in_time now (of_tenant n (visible_rows sid d))"
    using wf by (simp_all add: audit_wf_def)
  have seen: "of_tenant m (visible_rows s ?d) = of_tenant m (visible_rows s d) @ (if s = sid \<and> m = n then [r] else [])" for m s
    by (simp add: visible_rows_def of_tenant_one r(1))
  have "linked hs None (of_tenant n (visible_rows sid d) @ [r])"
    using old r(2,3) latest_hash_tip [OF old(2)] by (simp add: linked_snoc)
  moreover have "ordered_in_time (now + 1) (of_tenant n (visible_rows sid d) @ [r])"
    using old(2) r(4) by (auto simp: ordered_in_time_def sorted_wrt_append)
  ultimately show ?thesis
    using later lock unfolding audit_wf_def seen by (auto simp: of_tenant_one lock_holder_def r(1))
qed

lemma add_audit_log_cases:
  "add_audit_log sid r d = (d, Inl (PyError ''IntegrityError'' ''UNIQUE constraint failed'')) \<or>
   add_audit_log sid r d = (d\<lparr>ad_pending := (ad_pending d)(sid := ad_pending d sid @ [r])\<rparr>, Inr ())"
  by (simp add: add_audit_log_def)

lemma record_audit_cases:
  assumes "record_audit sv sid ctx e fresh now x = Some (y, res)"
  obtains (invalid) er where "y = x" and "res = Inl er"
    | (locked) r er where "acquire_chain_lock sv sid (entry_tenant ctx e) x = Some (y, r)" and "res = Inl er"
    | (written) z r where "acquire_chain_lock sv sid (entry_tenant ctx e) x = Some (z, Inr ())" and "res = Inr r"
        and "r = new_audit_log (sv_hashing sv) ctx e fresh now (latest_hash (of_tenant (entry_tenant ctx e) (visible_rows sid (fst z))))"
        and "fst y = (fst z)\<lparr>ad_pending := (ad_pending (fst z))(sid := ad_pending (fst z) sid @ [r])\<rparr>"
proof (cases "validate_audit_required e")
  case (Inl er)
  then show thesis using assms invalid [of er] by (auto simp: record_audit_def)
next
  case ok: (Inr v)
  obtain z r where z: "acquire_chain_lock sv sid (entry_tenant ctx e) x = Some (z, r)"
    using assms ok by (cases "acquire_chain_lock sv sid (entry_tenant ctx e) x") (auto simp: record_audit_def)
  show thesis
  proof (cases r)
    case (Inl er)
    then show thesis using assms ok z locked [of "Inl er" er] by (auto simp: record_audit_def)
  next
    case (Inr u)
    let ?r = "new_audit_log (sv_hashing sv) ctx e fresh now (latest_hash (of_tenant (entry_tenant ctx e) (visible_rows sid (fst z))))"
    have y: "(y, res) = sbind (on_tables (add_audit_log sid ?r)) (\<lambda>_. sret (Inr ?r)) z"
      using assms ok z Inr by (simp add: record_audit_def Let_def)
    from add_audit_log_cases [of sid ?r "fst z"] show thesis
    proof
      assume "add_audit_log sid ?r (fst z) = (fst z, Inl (PyError ''IntegrityError'' ''UNIQUE constraint failed''))"
      then show thesis using y z locked by (simp add: sbind_def on_tables_def)
    next
      assume "add_audit_log sid ?r (fst z) = ((fst z)\<lparr>ad_pending := (ad_pending (fst z))(sid := ad_pending (fst z) sid @ [?r])\<rparr>, Inr ())"
      then show thesis using y z Inr by (intro written [of z ?r]) (simp_all add: sbind_def on_tables_def)
    qed
  qed
qed

lemma audit_wf_recording:
  assumes "record_audit sv sid ctx e fresh now x = Some (y, res)" and wf: "audit_wf (sv_hashing sv) now (fst x)"
  shows "audit_wf (sv_hashing sv) (now + 1) (fst y)"
  using assms(1)
proof (cases rule: record_audit_cases)
  case invalid
  then show ?thesis using audit_wf_later [OF wf] by simp
next
  case (locked r)
  then show ?thesis using audit_wf_later [OF audit_wf_acquired [OF locked(1) wf]] by simp
next
  case (written z r)
  show ?thesis
    unfolding written(4)
    by (rule audit_wf_written [OF audit_wf_acquired [OF written(1) wf] acquire_chain_lock_keeps(4) [OF written(1) refl]])
      (simp_all only: written(3) new_audit_log_row new_audit_log_hash)
qed

section \<open>Runs\<close>

text \<open>The clock moves on from each record to the next.\<close>

definition clock_moves_on :: "audit_action list \<Rightarrow> bool" where
  "clock_moves_on as \<longleftrightarrow> sorted_wrt (<) (List.map_filter action_time as)"

lemma audit_run_wf:
  assumes "audit_wf (sv_hashing sv) now (fst x)" and "clock_moves_on as" and "\<forall>t \<in> set (List.map_filter action_time as). now \<le> t"
  shows "\<exists>later. audit_wf (sv_hashing sv) later (fst (audit_run sv as x))"
  using assms
proof (induction as arbitrary: x now)
  case Nil
  then show ?case by (auto simp: audit_run_def)
next
  case (Cons a as)
  show ?case
  proof (cases a)
    case (Recording sid ctx e fresh t)
    have t: "now \<le> t" "\<forall>u \<in> set (List.map_filter action_time as). t + 1 \<le> u" "clock_moves_on as"
      using Cons.prems(2,3) by (auto simp: clock_moves_on_def List.map_filter_def Recording)
    have wf: "audit_wf (sv_hashing sv) t (fst x)" by (rule audit_wf_later [OF Cons.prems(1) t(1)])
    have "audit_wf (sv_hashing sv) (t + 1) (fst (audit_do sv a x))"
      using audit_wf_recording [OF _ wf] audit_wf_later [OF wf, of "t + 1"] by (auto simp: Recording split: option.split)
    from Cons.IH [OF this t(3,2)] show ?thesis by (simp add: audit_run_def)
  next
    case (Ending sid commit)
    have "clock_moves_on as" "\<forall>u \<in> set (List.map_filter action_time as). now \<le> u"
      using Cons.prems(2,3) by (auto simp: clock_moves_on_def List.map_filter_def Ending)
    from Cons.IH [OF audit_wf_ending [OF Cons.prems(1)] this] show ?thesis by (simp add: audit_run_def Ending)
  qed
qed

lemma audit_run_linked:
  assumes "clock_moves_on as"
  shows "linked (sv_hashing sv) None (of_tenant n (ad_rows (fst (audit_run sv as (empty_audit, w)))))"
proof -
  define now where "now = (case List.map_filter action_time as of [] \<Rightarrow> 0 | t # ts \<Rightarrow> t)"
  have "audit_wf (sv_hashing sv) now (fst (empty_audit, w))"
    by (simp add: audit_wf_def visible_rows_def empty_audit_def of_tenant_def ordered_in_time_def)
  moreover have "\<forall>t \<in> set (List.map_filter action_time as). now \<le> t"
    using assms by (cases "List.map_filter action_time as") (auto simp: now_def clock_moves_on_def)
  ultimately obtain later where "audit_wf (sv_hashing sv) later (fst (audit_run sv as (empty_audit, w)))"
    using audit_run_wf [OF _ assms] by blast
  then show ?thesis unfolding audit_wf_def visible_rows_def of_tenant_append linked_append by blast
qed

section \<open>Exports\<close>

text \<open>An export that returned: the log was a chain, the sink took its payload, and the record describes it.\<close>

lemma export_returns:
  assumes "export_logs hs isoformat sink fresh now ctx n d i a q x = Some (y, Inr e)"
  obtains ordered uri w where "mset ordered = mset (of_tenant n (fst (fst x)))" and "hash_chain hs ordered"
    and "ex_hash_tip e = tip None ordered" and "ex_record_count e = int (length ordered)"
    and "ex_id e = (case i of Some (c # s) \<Rightarrow> c # s | _ \<Rightarrow> fresh)" and "ex_status e = ''succeeded''"
    and "ex_destination_uri e = Some uri"
    and "sink (ex_id e) (export_payload hs isoformat (ex_id e) d n ordered) (snd x) = (w, Inr uri)" and "snd y = w"
    and "ex_checksum e = hs_sha256 hs (export_payload hs isoformat (ex_id e) d n ordered)"
    and "fst (fst y) = fst (fst x)" and "ex_id e \<notin> ex_id ` set (snd (fst x))" and "e \<in> set (snd (fst y))"
proof -
  let ?i = "case i of Some (c # s) \<Rightarrow> c # s | _ \<Rightarrow> fresh"
  let ?logs = "sort_key al_id (of_tenant n (fst (fst x)))"
  have none: "chain_errors hs ?logs = []"
    using assms by (auto simp: export_logs_def Let_def split: sum.splits if_splits)
  then obtain ordered where o: "mset ordered = mset ?logs" "hash_chain hs ordered" by (rule no_errors_chain)
  then have ord: "order_valid_hash_chain ?logs = Some (Inr ordered)" using order_of_chain [of hs ordered ?logs] by simp
  let ?e = "export_record hs isoformat ctx n d ?i a q ordered" and ?p = "export_payload hs isoformat ?i d n ordered"
  have "sbind (on_tables (add_export ?e)) (\<lambda>_. write_export sink now ?p ?e) x = (y, Inr e)"
    using assms none ord by (auto simp: export_logs_def Let_def split: sum.splits)
  then obtain z where new: "ex_id ?e \<notin> ex_id ` set (snd (fst x))" and z: "fst z = (fst (fst x), snd (fst x) @ [?e])" "snd z = snd x"
    and w: "write_export sink now ?p ?e z = (y, Inr e)"
    by (auto simp: returns add_export_def split: if_splits)
  obtain v res where v: "on_world_of (sink (ex_id ?e) ?p) z = (v, res)" by fastforce
  have "\<exists>uri. res = Inr uri"
  proof (cases res)
    case (Inl er)
    then show ?thesis using w v by (cases er) (auto simp: write_export_def returns)
  qed simp
  then obtain uri where uri: "res = Inr uri" ..
  have sink: "sink (ex_id ?e) ?p (snd x) = (snd v, Inr uri)" "fst v = fst z" using v uri z by (auto simp: returns)
  have e: "e = ?e\<lparr>ex_status := ''succeeded'', ex_destination_uri := Some uri, ex_exported_at := Some now\<rparr>"
      "fst y = (fst (fst v), map (\<lambda>f. if ex_id f = ex_id e then e else f) (snd (fst v)))" "snd y = snd v"
    using w v uri by (auto simp: write_export_def returns put_export_def Let_def)
  have id: "ex_id e = ?i" by (simp add: e(1) export_record_def)
  show thesis
    by (rule that [of ordered uri "snd v"])
      (use o new z sink e in \<open>auto simp: id export_record_def tip_def\<close>)
qed

text \<open>The local sink writes a file that was not there, and no other.\<close>

lemma local_sink_returns:
  "local_sink_write root suffix i content files = (files', Inr path) \<Longrightarrow>
     files path = None \<and> files' = files(path \<mapsto> content)"
  by (auto simp: local_sink_write_def Let_def split: sum.splits if_splits)

section \<open>The properties\<close>

text \<open>C7: Verification accepts exactly the chains: \<open>verify_hash_chain\<close> reports no error for a tenant if and only
  if its rows, in some order, start with the one record that has no predecessor, name each the hash of the one
  before, carry each their own hash and have no hash twice; and that order is what \<open>_order_valid_hash_chain\<close>,
  whose loop then ends, returns for the export.\<close>

theorem verification_accepts_exactly_chains:
  "cv_errors (verify_hash_chain hs n rows) = [] \<longleftrightarrow>
     (\<exists>ordered. mset ordered = mset (of_tenant n rows) \<and> hash_chain hs ordered \<and>
        order_valid_hash_chain (of_tenant n rows) = Some (Inr ordered))"
proof
  assume "cv_errors (verify_hash_chain hs n rows) = []"
  then have "chain_errors hs (of_tenant n rows) = []" by (simp add: verify_hash_chain_def Let_def)
  then obtain ordered where "mset ordered = mset (of_tenant n rows)" "hash_chain hs ordered" by (rule no_errors_chain)
  then show "\<exists>ordered. mset ordered = mset (of_tenant n rows) \<and> hash_chain hs ordered \<and>
      order_valid_hash_chain (of_tenant n rows) = Some (Inr ordered)"
    using order_of_chain [of hs ordered "of_tenant n rows"] by auto
next
  assume "\<exists>ordered. mset ordered = mset (of_tenant n rows) \<and> hash_chain hs ordered \<and>
      order_valid_hash_chain (of_tenant n rows) = Some (Inr ordered)"
  then show "cv_errors (verify_hash_chain hs n rows) = []"
    using chain_no_errors by (auto simp: verify_hash_chain_def Let_def)
qed


definition demo_hashing :: hashing where
  "demo_hashing = \<lparr>hs_float = (\<lambda>m e. ''0.5''), hs_sha256 = (\<lambda>s. s)\<rparr>"

definition demo_audit :: "unit audit_service" where
  "demo_audit = \<lparr>sv_hashing = demo_hashing, sv_lock_provider = None, sv_lock_owner_token = None, sv_lock_ttl = 300\<rparr>"

definition demo_entry :: audit_entry where
  "demo_entry = \<lparr>ay_action = ''a'', ay_resource_type = ''r'', ay_result = ''success'', ay_tenant_id = Some ''t'', ay_actor_id = None,
     ay_actor_type = ''user'', ay_auth_provider = None, ay_session_id = None, ay_resource_id = None, ay_reason = None,
     ay_policy_version = None, ay_request_id = None, ay_trace_id = None, ay_route = None, ay_method = None,
     ay_ip_address = None, ay_user_agent = None, ay_payload = None\<rparr>"

text \<open>Two sessions: the second waits for the first, whose record it then follows.\<close>

definition demo_actions :: "audit_action list" where
  "demo_actions = [Recording 1 None demo_entry ''b'' 1, Recording 2 None demo_entry ''x'' 2, Ending 1 True,
     Recording 2 None demo_entry ''a'' 3, Ending 2 True]"


text \<open>When the clock stands still, as it does for the records of one transaction, the latest record is the one
  with the greatest random identifier: three records of one session, and nobody else writing, give a branch.\<close>

theorem one_instant_breaks_the_chain:
  "\<not> cv_valid (verify_hash_chain demo_hashing (Some ''t'') (ad_rows (fst (audit_run demo_audit
     [Recording 1 None demo_entry ''b'' 1, Recording 1 None demo_entry ''a'' 1, Recording 1 None demo_entry ''c'' 1, Ending 1 True]
     (empty_audit, ())))))"
  by code_simp

text \<open>C8: A tip commits its log. Two exports of one deployment or of two that carry the same tip, of logs whose texts
  do not collide, are of the same records in the same order: as many, and each pair with the same hashed text and so
  the same action and actor. Nobody can change, drop, add or reorder a record of an exported log and export the
  result under the tip of before.\<close>

theorem exports_with_one_tip_agree:
  assumes "export_logs hs isoformat sink fresh now ctx n d i a q x = Some (x', Inr e)"
    and "export_logs hs isoformat' sink' fresh' now' ctx' n' d' i' a' q' y = Some (y', Inr f)"
    and "ex_hash_tip e = ex_hash_tip f"
    and "collision_free hs (set (of_tenant n (fst (fst x))) \<union> set (of_tenant n' (fst (fst y))))"
  shows "\<exists>rows qows. mset rows = mset (of_tenant n (fst (fst x))) \<and> mset qows = mset (of_tenant n' (fst (fst y))) \<and>
    hash_chain hs rows \<and> hash_chain hs qows \<and> ex_record_count e = int (length rows) \<and>
    list_all2 (\<lambda>r s. audit_text (hs_float hs) r = audit_text (hs_float hs) s \<and> al_action r = al_action s \<and>
      al_actor_id r = al_actor_id s) rows qows"
proof -
  obtain rows where r: "mset rows = mset (of_tenant n (fst (fst x)))" "hash_chain hs rows" "ex_hash_tip e = tip None rows"
    "ex_record_count e = int (length rows)" by (rule export_returns [OF assms(1)])
  obtain qows where s: "mset qows = mset (of_tenant n' (fst (fst y)))" "hash_chain hs qows" "ex_hash_tip f = tip None qows"
    by (rule export_returns [OF assms(2)])
  have texts: "map (audit_text (hs_float hs)) rows = map (audit_text (hs_float hs)) qows"
    by (rule linked_same_tip)
      (use r s assms(3,4) in \<open>auto simp: hash_chain_def mset_eq_setD [OF r(1)] mset_eq_setD [OF s(1)]\<close>)
  then have "list_all2 (\<lambda>r s. audit_text (hs_float hs) r = audit_text (hs_float hs) s) rows qows"
    by (metis list_all2_map1 list_all2_map2 list_all2_eq)
  then have "list_all2 (\<lambda>r s. audit_text (hs_float hs) r = audit_text (hs_float hs) s \<and> al_action r = al_action s \<and>
      al_actor_id r = al_actor_id s) rows qows"
    by (rule list_all2_mono) (use audit_text_determines in blast)
  then show ?thesis using r s by blast
qed

definition demo_log :: "audit_log list" where
  "demo_log = ad_rows (fst (audit_run demo_audit demo_actions (empty_audit, ())))"

definition demo_export :: "((string \<rightharpoonup> string) export_state \<times> audit_export result) option" where
  "demo_export = export_logs demo_hashing int_str (local_sink_write ''dir'' ''.jsonl'') ''e1'' 9 None (Some ''t'') ''worm'' None None None
     ((demo_log, []), Map.empty)"

lemma demo_log_chain: "hash_chain demo_hashing (of_tenant (Some ''t'') demo_log)" "length (of_tenant (Some ''t'') demo_log) = 2"
proof -
  have clock: "clock_moves_on demo_actions" by code_simp
  have free: "collision_free (sv_hashing demo_audit) rows" for rows
    by (simp add: demo_audit_def demo_hashing_def collision_free_def inj_on_def)
  show "hash_chain demo_hashing (of_tenant (Some ''t'') demo_log)"
    using linked_chain [OF audit_run_linked [OF clock] free] by (simp add: demo_log_def demo_audit_def)
  show "length (of_tenant (Some ''t'') demo_log) = 2" by code_simp
qed

lemma demo_export_returns: "\<exists>y e. demo_export = Some (y, Inr e) \<and> ex_record_count e = 2"
proof -
  let ?logs = "sort_key al_id (of_tenant (Some ''t'') demo_log)"
  have "chain_errors demo_hashing ?logs = []" by (rule chain_no_errors [OF _ demo_log_chain(1)]) simp
  moreover have "order_valid_hash_chain ?logs = Some (Inr (of_tenant (Some ''t'') demo_log))"
    by (rule order_of_chain [OF demo_log_chain(1)]) simp
  moreover have "validate_export_request ''e1'' ''worm'' = Inr ()" "safe_export_file_name ''e1'' ''.jsonl'' = Inr ''e1.jsonl''"
    by code_simp+
  ultimately show ?thesis
    using demo_log_chain(2)
    by (simp add: demo_export_def export_logs_def Let_def sbind_def on_tables_def add_export_def write_export_def on_world_of_def
        local_sink_write_def export_record_def put_export_def)
qed

theorem exports_with_one_tip_agree_witness:
  "\<exists>y e. demo_export = Some (y, Inr e) \<and> ex_record_count e = 2 \<and>
     (\<exists>rows qows. mset rows = mset (of_tenant (Some ''t'') demo_log) \<and> mset qows = mset (of_tenant (Some ''t'') demo_log) \<and> ex_record_count e = int (length rows) \<and>
       list_all2 (\<lambda>r s. al_action r = al_action s) rows qows)"
proof -
  obtain y e where e: "demo_export = Some (y, Inr e)" "ex_record_count e = 2" using demo_export_returns by blast
  have free: "collision_free demo_hashing rows" for rows
    by (simp add: demo_hashing_def collision_free_def inj_on_def)
  obtain rows qows where "mset rows = mset (of_tenant (Some ''t'') demo_log)" "mset qows = mset (of_tenant (Some ''t'') demo_log)" "ex_record_count e = int (length rows)"
      "list_all2 (\<lambda>r s. audit_text (hs_float demo_hashing) r = audit_text (hs_float demo_hashing) s \<and> al_action r = al_action s \<and>
        al_actor_id r = al_actor_id s) rows qows"
    using exports_with_one_tip_agree [OF e(1) [unfolded demo_export_def] e(1) [unfolded demo_export_def] refl free] by auto
  moreover from this(4) have "list_all2 (\<lambda>r s. al_action r = al_action s) rows qows" by (rule list_all2_mono) simp
  ultimately show ?thesis using e by blast
qed

text \<open>Retention deletes a log as a whole or not at all, and touches no other.\<close>

lemma filter_all: "length (filter P xs) = length xs \<Longrightarrow> filter P xs = xs"
  using length_filter_less [of _ xs P] by (intro filter_True) fastforce

theorem retention_keeps_chains:
  assumes "apply_retention n older dry rows = (rows', r)" and "distinct (map al_id rows)"
  shows "of_tenant n rows' \<in> {[], of_tenant n rows} \<and> (\<forall>m. m \<noteq> n \<longrightarrow> of_tenant m rows' = of_tenant m rows) \<and>
    (dry \<longrightarrow> rows' = rows)"
proof (cases "rows' = rows")
  case False
  let ?logs = "retention_logs n rows"
  let ?old = "expired_logs (to_utc older) ?logs"
  have all: "length ?old = length ?logs" and rows': "rows' = filter (\<lambda>r. al_id r \<notin> al_id ` set ?old) rows" and "\<not> dry"
    using assms(1) False unfolding apply_retention_def Let_def
    by (cases "\<not> dry \<and> ?old \<noteq> []"; cases "length ?old = length ?logs"; simp)+
  have "?old = ?logs" using all unfolding expired_logs_def by (rule filter_all)
  then have "set ?old = set (of_tenant n rows)" by (simp add: retention_logs_def)
  then have "al_id q \<in> al_id ` set ?old \<longleftrightarrow> al_tenant_id q = n" if "q \<in> set rows" for q
    using that assms(2) by (auto simp: of_tenant_def distinct_map inj_on_def)
  then have "rows' = filter (\<lambda>q. al_tenant_id q \<noteq> n) rows" unfolding rows' by (intro filter_cong) auto
  then show ?thesis using \<open>\<not> dry\<close> by (auto simp: of_tenant_def intro: filter_cong)
qed simp

theorem retention_keeps_chains_witness:
  "of_tenant (Some ''t'') (fst (apply_retention (Some ''t'') (Naive 3) False demo_log)) \<in> {[], of_tenant (Some ''t'') demo_log}"
proof -
  have "distinct (map al_id demo_log)" by code_simp
  then show ?thesis using retention_keeps_chains [OF prod.collapse [symmetric]] by blast
qed

end
