(* ===== verification/Spec2Isabelle.thy ===== *)
theory Spec2Isabelle
  imports Lock_Properties Cache_Properties Quota_Properties Idempotency_Properties Event_Properties
    Outbox_Properties Permission_Properties Tenant_Properties
    Task_Properties Scheduler_Properties File_Properties Role_Properties Frontend_Properties
    Data_Properties Settings_Properties Accounts_Properties Route_Properties
    Member_Properties Tenant_Route_Properties Audit_Properties
begin

text \<open>
  A model of the core of FastAPI Foundation (\<open>src/src/core\<close>), the services that every app of the
  platform rests on, with the properties that make them correct.

  The program. The core gives apps locks, a cache, rate limits, quotas, idempotent mutations, an
  event registry, a transactional outbox and authorization. A mutation asks the authorization
  service for a decision, reserves quota, runs under an idempotency record and publishes events into
  the outbox in its own transaction; a dispatcher claims the events, under a lock, and delivers them
  to the handlers, each under an idempotency record of its own. Role grants travel the same way: the
  projector turns the event of a grant into the policies the authorization backends read, and
  invalidates the cache in front of them.

  The theories, in the order the code has its parts:
  \<^item> \<open>Prelude\<close>: Python values, strings, times, results, dictionaries with an order, operations on a
    state that may raise. \<open>Errors\<close>: \<open>core/exceptions\<close>. \<open>Effects\<close>: what a service writes to the
    metrics registry and the audit recorder.
  \<^item> \<open>Lock_Interface\<close>, \<open>Lock_Memory\<close>, \<open>Lock_Database\<close>: \<open>core/locks\<close>. The interface is a locale over an
    abstract lock table with fencing tokens; both providers interpret it.
  \<^item> \<open>Cache_Keys\<close>, \<open>Cache_Memory\<close>, \<open>Cache_Invalidation\<close>: \<open>core/cache\<close>. Clients rely on two locales, of a
    store and of a counter, which the memory cache interprets.
  \<^item> \<open>Rate_Limit\<close>: \<open>core/rate_limit\<close>, the fixed window over any counter, and the middleware.
  \<^item> \<open>Quota_Rules\<close>, \<open>Quota_Usage\<close>, \<open>Quota_Service\<close>: \<open>core/quotas\<close>, over a locale of usage stores that
    the memory and the database store interpret.
  \<^item> \<open>Idempotency\<close>: \<open>core/idempotency\<close>. \<open>App_Dependencies\<close>: \<open>core/apps/dependencies.py\<close>.
  \<^item> \<open>Events\<close>: \<open>core/events\<close>. \<open>Outbox\<close>, \<open>Outbox_Lifecycle\<close>: \<open>core/outbox\<close>; the second holds the step
    relation of the rows, which interleaves publishers, dispatchers and operators.
  \<^item> \<open>Permission_Decisions\<close>, \<open>Permission_Policies\<close>, \<open>Permission_Cache\<close>: \<open>core/permissions\<close>.
  \<^item> \<open>Tenant_Lifecycle\<close>, \<open>Tenant_Resolver\<close>: \<open>core/tenancy\<close> and the request context of \<open>core/context\<close>:
    the lifecycle service, the orchestrator of a deletion, the tenant of a request.
  \<^item> \<open>Python_Text\<close>: \<open>int\<close>, \<open>split\<close> and other operations on texts. \<open>Task_Runs\<close>, \<open>Task_Providers\<close>:
    \<open>core/tasks\<close>. \<open>Task_Machine\<close> states what a run promises, as a state machine, and \<open>Task_Calls\<close> that
    the providers follow it. \<open>Scheduler_Cron\<close>, \<open>Scheduler_Providers\<close>: \<open>core/scheduler\<close>.
  \<^item> \<open>Upload_Policy\<close>, \<open>Storage\<close>, \<open>Files\<close>: the file app (\<open>platform_apps/files\<close>), its scanners and its
    storage backends, which the service reaches through a locale of object stores.
  \<^item> \<open>Role_Grants\<close>: the grant service of \<open>core/permissions/services.py\<close>, the role templates of the
    access app and the bootstrap of the first administrator. \<open>Frontend_Access\<close>: the menus, elements
    and routes a client is shown, with their permission expressions and revisions.
  \<^item> \<open>Unit_Of_Work\<close>: the transactions of \<open>core/db\<close>, nested and not. \<open>Tenant_Data\<close>: the repositories
    and list queries of \<open>core/base\<close>. \<open>Sql_Guard\<close>: the guard of raw SQL, \<open>core/db/sql.py\<close>.
  \<^item> \<open>Setting_Specs\<close>, \<open>Settings\<close>: definitions of settings (\<open>core/apps/module.py\<close>, \<open>core/settings\<close>) and the
    settings app, \<open>platform_apps/settings\<close>.
  \<^item> \<open>Auth_Tokens\<close>: tokens, external logins and password hashes (\<open>core/auth\<close>, \<open>core/security/password.py\<close>).
    \<open>Accounts\<close>: the accounts app, \<open>platform_apps/accounts\<close>, whose routes are \<open>Account_Routes\<close>.
    \<open>Route_Security\<close>: what stands before a route, \<open>core/base/routers.py\<close> and
    \<open>core/auth/request_security.py\<close>.
  \<^item> \<open>Tenant_Members\<close>: the tenants app, \<open>platform_apps/tenants\<close>: lists, members,
    invitations; its routes are \<open>Tenant_Routes\<close>. \<open>Audit_Chain\<close>: the audit app, \<open>platform_apps/audit/services.py\<close>.
  \<^item> The theories named \<open>..._Properties\<close> hold the properties of each part, with a witness for each
    property that has a hypothesis.

  State and effects. A database table is a list of rows or a map from its key, an operation returns
  it changed next to its result. A result is a value or the exception. Where the code runs several
  statements and other sessions may write in between, the operation takes an environment: what the
  others do to the table between its statements, any function at all, or it is a step of a relation
  that interleaves all parties. A clock reading is an argument for each reading of the code.

  What is a parameter: the handlers of events, the operations a mutation guards, the external
  publisher, the policy backend behind the cache, the JSON codec, hashes of requests, SHA-256, HMAC and PBKDF2,
  the client of an external provider, fresh identifiers. Where a property needs something of one of them, it is a hypothesis that states the
  documented behaviour, and the witness instantiates it.

  Fuel. The only fuel is that of the depth-first search of \<open>App_Dependencies\<close>: one more than the number
  of modules, enough because a call goes one deeper only with a label that is not being visited.

  What the properties show. Locks exclude and fence; quota is reserved all or nothing and within its
  limit; a mutation that succeeded is not run again; a delivered event is not handled twice and a
  retry resumes where it failed; the outbox keeps its invariant and its leases exclude; authorization
  opens exactly what was decided, reconciliation restores the policies, and invalidation reaches what
  was cached; a task run moves along its machine whatever is called in whatever order, a submission
  under a used key runs nothing and the queue's retries end; the scheduler finds exactly the matching
  minutes, triggers none of them twice and catches up; a tenant deletion resumes after any failure, is one way, and a
  request works only in a tenant that is open to its user; an upload is charged exactly when it is
  stored and is downloaded unchanged, by its owner alone; a role grant opens what its template lists
  and its revocation closes it again; a client is shown what the backend permits; a unit of
  work is atomic whatever is nested in it, a repository stays in its tenant, pages are the list; a setting
  resolves to what was stored last in the most specific scope, with a complete history, in its type, and
  no secret is shown; a request reaches a route exactly when its policy admits it, a token opens exactly the
  active sessions, revocation is final, a login takes the password that was set or an external identity with a
  state used once; a member is active by a decision or an invitation, and an invitation admits once;
  the audit log stays a chain, verification accepts exactly the chains and a tip commits its log. Some properties describe what goes wrong: a release that loses an update, a replay that
  delivers twice, an address with a colon that is not limited, a revoked policy that is cached, a deletion that
  forgets the sessions it failed to revoke, a task run claimed by two workers, a slot that is lost, a
  permission that stays open after its template dropped it, a multipart upload no check has seen,
  a rolled back unit that returns as if it had succeeded, SQL the guard lets through, a setting that two
  sessions change under one expected version, a failed login of which nothing is kept, an
  invitation with a role that no route can issue, three records of one instant that fork their chain.

  What is not modelled: the Redis and RabbitMQ clients, the web framework with the routers of the
  apps, the process loops, the command line, and for now migrations and the other platform apps.
\<close>

end
